(* ===== verification/Prelude.thy ===== *)
theory Prelude
  imports Main "HOL-Library.AList" "HOL-Library.Word" "HOL-Library.List_Lexorder" "HOL-Library.Char_ord"
begin

unbundle bit_operations_syntax

text \<open>
  What the components share: the representation of Go values, the laws of Go maps as an
  interface, and generic lemmas on lists, strings and numbers.

  \<^item> A Go \<open>string\<close> is a byte sequence, hence HOL's \<open>string\<close>.
  \<^item> A Go \<open>map[K]V\<close> is an association list with distinct keys (\<open>gmap_ok\<close>). The order of the list
    stands for the order in which the runtime happens to iterate over the map, which Go leaves
    unspecified; every property is stated for all lists, so it holds for every iteration order.
  \<^item> A pointer or a map that may be \<open>nil\<close> is an \<open>option\<close>.
  \<^item> A call that may panic (index out of range, nil dereference, division by zero) returns a value
    of \<open>'a go\<close>: \<open>Inl\<close> the panic or \<open>Inr\<close> the result.
\<close>

named_theorems gmap_simps \<open>lookup laws of the map operations\<close>
named_theorems go_split \<open>case splits for results that may be a panic\<close>

section \<open>Panics\<close>

datatype go_panic =
    IndexOutOfRange
  | NilDereference
  | DivideByZero
  | NegativeLength

type_synonym 'a go = "go_panic + 'a"

definition go_bind :: "'a go \<Rightarrow> ('a \<Rightarrow> 'b go) \<Rightarrow> 'b go" where
  "go_bind r f = (case r of Inl p \<Rightarrow> Inl p | Inr x \<Rightarrow> f x)"

fun go_fold :: "('a \<Rightarrow> 's \<Rightarrow> 's go) \<Rightarrow> 'a list \<Rightarrow> 's \<Rightarrow> 's go" where
  "go_fold f [] s = Inr s"
| "go_fold f (x # xs) s = go_bind (f x s) (go_fold f xs)"

definition panics :: "'a go \<Rightarrow> bool" where
  "panics r = (case r of Inl _ \<Rightarrow> True | Inr _ \<Rightarrow> False)"

lemma go_bind_simps [simp]:
  "go_bind (Inl p) f = Inl p" "go_bind (Inr x) f = f x"
  by (simp_all add: go_bind_def)

lemma panics_simps [simp]: "panics (Inl p)" "\<not> panics (Inr x)"
  by (simp_all add: panics_def)

lemma go_bind_Inr_iff: "go_bind r f = Inr y \<longleftrightarrow> (\<exists>x. r = Inr x \<and> f x = Inr y)"
  by (cases r) auto

lemma not_panics_iff: "\<not> panics r \<longleftrightarrow> (\<exists>x. r = Inr x)"
  by (cases r) auto

lemma go_fold_append: "go_fold f (xs @ ys) s = go_bind (go_fold f xs s) (go_fold f ys)"
proof (induction xs arbitrary: s)
  case Nil
  then show ?case by simp
next
  case (Cons x xs)
  then show ?case by (cases "f x s") simp_all
qed

text \<open>A loop whose body never panics under an invariant never panics, and keeps the invariant.\<close>

lemma go_fold_invariant:
  assumes "P s" and "\<And>x s. x \<in> set xs \<Longrightarrow> P s \<Longrightarrow> \<exists>s'. f x s = Inr s' \<and> P s'"
  shows "\<exists>s'. go_fold f xs s = Inr s' \<and> P s'"
  using assms
proof (induction xs arbitrary: s)
  case Nil
  then show ?case by simp
next
  case (Cons x xs)
  from Cons.prems obtain s1 where "f x s = Inr s1" "P s1" by fastforce
  with Cons.IH [of s1] Cons.prems(2) show ?case by simp
qed

lemma go_fold_keeps:
  assumes "go_fold f xs s = Inr s'" and "P s"
    and "\<And>x s s'. x \<in> set xs \<Longrightarrow> P s \<Longrightarrow> f x s = Inr s' \<Longrightarrow> P s'"
  shows "P s'"
  using assms
proof (induction xs arbitrary: s)
  case Nil
  then show ?case by simp
next
  case (Cons x xs)
  from Cons.prems(1) obtain s1 where "f x s = Inr s1" "go_fold f xs s1 = Inr s'"
    by (auto simp: go_bind_Inr_iff)
  with Cons show ?case by (meson list.set_intros)
qed

text \<open>A loop whose body returns exactly on the elements that are in range returns exactly when all are.\<close>

lemma go_fold_returns_iff:
  assumes "P s"
    and "\<And>x s. x \<in> set xs \<Longrightarrow> P s \<Longrightarrow> ok x \<Longrightarrow> \<exists>s'. f x s = Inr s' \<and> P s'"
    and "\<And>x s. x \<in> set xs \<Longrightarrow> P s \<Longrightarrow> \<not> ok x \<Longrightarrow> panics (f x s)"
  shows "(\<exists>s'. go_fold f xs s = Inr s') \<longleftrightarrow> (\<forall>x\<in>set xs. ok x)"
  using assms
proof (induction xs arbitrary: s)
  case Nil
  then show ?case by simp
next
  case (Cons x xs)
  show ?case
  proof (cases "ok x")
    case True
    then obtain s1 where "f x s = Inr s1" "P s1" using Cons.prems by fastforce
    with True Cons.IH [of s1] Cons.prems show ?thesis by simp
  next
    case False
    then have "panics (f x s)" using Cons.prems by simp
    then show ?thesis using False by (cases "f x s") simp_all
  qed
qed

text \<open>Slices read and written by an index, with the bounds check of the runtime.\<close>

definition go_nth :: "'a list \<Rightarrow> int \<Rightarrow> 'a go" where
  "go_nth xs i = (if 0 \<le> i \<and> i < int (length xs) then Inr (xs ! nat i) else Inl IndexOutOfRange)"

definition go_update :: "'a list \<Rightarrow> int \<Rightarrow> 'a \<Rightarrow> 'a list go" where
  "go_update xs i x =
     (if 0 \<le> i \<and> i < int (length xs) then Inr (xs[nat i := x]) else Inl IndexOutOfRange)"

lemma go_nth_of_nat [simp]:
  "go_nth xs (int i) = (if i < length xs then Inr (xs ! i) else Inl IndexOutOfRange)"
  by (simp add: go_nth_def)

lemma go_update_of_nat [simp]:
  "go_update xs (int i) x = (if i < length xs then Inr (xs[i := x]) else Inl IndexOutOfRange)"
  by (simp add: go_update_def)

text \<open>\<open>make([]T, n)\<close>: a slice of zero values, a panic for a negative length.\<close>

definition go_make :: "int \<Rightarrow> 'a \<Rightarrow> 'a list go" where
  "go_make n x = (if n < 0 then Inl NegativeLength else Inr (replicate (nat n) x))"

section \<open>Go maps\<close>

type_synonym ('k, 'v) gmap = "('k \<times> 'v) list"

abbreviation gget :: "('k, 'v) gmap \<Rightarrow> 'k \<Rightarrow> 'v option" where
  "gget \<equiv> map_of"

abbreviation gput :: "'k \<Rightarrow> 'v \<Rightarrow> ('k, 'v) gmap \<Rightarrow> ('k, 'v) gmap" where
  "gput \<equiv> AList.update"

abbreviation gdel :: "'k \<Rightarrow> ('k, 'v) gmap \<Rightarrow> ('k, 'v) gmap" where
  "gdel \<equiv> AList.delete"

abbreviation gkeys :: "('k, 'v) gmap \<Rightarrow> 'k list" where
  "gkeys m \<equiv> map fst m"

definition gmap_ok :: "('k, 'v) gmap \<Rightarrow> bool" where
  "gmap_ok m = distinct (gkeys m)"

definition ghas :: "('k, 'v) gmap \<Rightarrow> 'k \<Rightarrow> bool" where
  "ghas m k = (gget m k \<noteq> None)"

lemma gmap_ok_Nil [simp]: "gmap_ok []"
  by (simp add: gmap_ok_def)

lemma gmap_ok_put [simp]: "gmap_ok m \<Longrightarrow> gmap_ok (gput k v m)"
  by (simp add: gmap_ok_def AList.distinct_update)

lemma gmap_ok_del [simp]: "gmap_ok m \<Longrightarrow> gmap_ok (gdel k m)"
  by (simp add: gmap_ok_def AList.distinct_delete)

lemma gget_Some_in: "gmap_ok m \<Longrightarrow> gget m k = Some v \<longleftrightarrow> (k, v) \<in> set m"
  by (simp add: gmap_ok_def map_of_eq_Some_iff)

lemma gget_None_iff: "gget m k = None \<longleftrightarrow> k \<notin> set (gkeys m)"
  by (simp add: map_of_eq_None_iff)

lemma ghas_iff: "ghas m k \<longleftrightarrow> k \<in> set (gkeys m)"
  by (simp add: ghas_def gget_None_iff)

lemma map_of_rev_ok: "gmap_ok m \<Longrightarrow> map_of (rev m) = map_of m"
  by (rule map_of_inject_set [THEN iffD2])
    (simp_all add: gmap_ok_def rev_map [symmetric])

text \<open>
  The interface the code uses of a map: what a lookup returns after an insertion and after a
  deletion. The loops of the code that merge, fill and subtract maps are treated once, here.
\<close>

locale go_map =
  fixes get :: "'m \<Rightarrow> 'k \<Rightarrow> 'v option"
    and put :: "'k \<Rightarrow> 'v \<Rightarrow> 'm \<Rightarrow> 'm"
    and del :: "'k \<Rightarrow> 'm \<Rightarrow> 'm"
    and inv :: "'m \<Rightarrow> bool"
  assumes get_put: "get (put k v m) = (get m)(k \<mapsto> v)"
    and get_del: "get (del k m) = (get m)(k := None)"
    and inv_put: "inv m \<Longrightarrow> inv (put k v m)"
    and inv_del: "inv m \<Longrightarrow> inv (del k m)"
begin

lemma get_fold_put:
  "get (fold (\<lambda>(k, v). put k v) kvs m) = get m ++ map_of (rev kvs)"
  by (induction kvs arbitrary: m) (auto simp: get_put map_add_def fun_eq_iff split: option.split)

lemma inv_fold_put: "inv m \<Longrightarrow> inv (fold (\<lambda>(k, v). put k v) kvs m)"
  by (induction kvs arbitrary: m) (auto simp: inv_put)

lemma get_fold_put_new:
  "get (fold (\<lambda>(k, v) m. if get m k = None then put k v m else m) kvs m) = map_of kvs ++ get m"
proof (induction kvs arbitrary: m)
  case Nil
  then show ?case by simp
next
  case (Cons kv kvs)
  obtain k v where kv: "kv = (k, v)" by (cases kv)
  have "get (if get m k = None then put k v m else m) = [k \<mapsto> v] ++ get m"
    by (auto simp: get_put map_add_def fun_eq_iff split: option.split)
  moreover have "map_of kvs ++ ([k \<mapsto> v] ++ get m) = map_of ((k, v) # kvs) ++ get m"
    by (auto simp: map_add_def fun_eq_iff split: option.split)
  ultimately show ?case by (simp add: Cons.IH kv fun_upd_def)
qed

lemma inv_fold_put_new:
  "inv m \<Longrightarrow> inv (fold (\<lambda>(k, v) m. if get m k = None then put k v m else m) kvs m)"
  by (induction kvs arbitrary: m) (auto simp: inv_put)

lemma get_fold_put_if:
  "get (fold (\<lambda>(k, v) m. if P k v then put k v m else m) kvs m)
     = get m ++ map_of (rev (filter (\<lambda>(k, v). P k v) kvs))"
  by (induction kvs arbitrary: m)
    (auto simp: get_put map_add_def fun_eq_iff split: option.split)

lemma inv_fold_put_if:
  "inv m \<Longrightarrow> inv (fold (\<lambda>(k, v) m. if P k v then put k v m else m) kvs m)"
  by (induction kvs arbitrary: m) (auto simp: inv_put)

lemma get_fold_del: "get (fold del ks m) = (get m) |` (- set ks)"
  by (induction ks arbitrary: m) (auto simp: get_del restrict_map_def fun_eq_iff)

lemma inv_fold_del: "inv m \<Longrightarrow> inv (fold del ks m)"
  by (induction ks arbitrary: m) (auto simp: inv_del)

end

interpretation gm: go_map gget gput gdel gmap_ok
  by unfold_locales (auto simp: AList.update_conv' AList.delete_conv')

lemmas gmap_laws [gmap_simps] = gm.get_put gm.get_del

section \<open>Lists\<close>

lemma filter_snoc_disjoint: "x \<notin> set xs \<Longrightarrow> filter (\<lambda>y. y \<noteq> x) xs = xs"
  by (induction xs) auto

lemma sum_list_map_filter_len:
  "sum_list (map (\<lambda>x. if P x then 1 else (0::nat)) xs) = length (filter P xs)"
  by (induction xs) auto

lemma fold_max_ge: "(m::int) \<le> fold max xs m"
proof (induction xs arbitrary: m)
  case Nil
  then show ?case by simp
next
  case (Cons x xs)
  have "m \<le> max x m" by simp
  also have "\<dots> \<le> fold max xs (max x m)" by (rule Cons.IH)
  finally show ?case by simp
qed

lemma fold_max_eq: "fold max xs (m::int) = Max (insert m (set xs))"
proof (induction xs arbitrary: m)
  case Nil
  then show ?case by simp
next
  case (Cons x xs)
  then show ?case
    by (cases "xs = []") (simp_all add: max.commute max.left_commute)
qed

end
