(* ===== verification/GoUtil.thy ===== *)
theory GoUtil
  imports Prelude
begin

text \<open>
  The helper packages \<open>pkg/util\<close> and \<open>pkg/util/retry\<close>: string booleans, string heads and hash
  identifiers, slices of strings, string maps, hashing into a bounded index, durations and the
  retry loop. Letter case is modelled for ASCII letters, as is every keyword the code compares with.
\<close>

section \<open>Strings (pkg/util/string.go)\<close>

definition lower_char :: "char \<Rightarrow> char" where
  "lower_char c = (if 65 \<le> (of_char c :: nat) \<and> (of_char c :: nat) \<le> 90
     then char_of ((of_char c :: nat) + 32) else c)"

definition to_lower :: "string \<Rightarrow> string" where
  "to_lower s = map lower_char s"

definition equal_fold :: "string \<Rightarrow> string \<Rightarrow> bool" where
  "equal_fold s t = (to_lower s = to_lower t)"

definition StringBoolFalseValues :: "string list" where
  "StringBoolFalseValues = [''0'', ''false'', ''no'', ''off'', ''disable'', ''disabled'']"

definition StringBoolTrueValues :: "string list" where
  "StringBoolTrueValues = [''1'', ''true'', ''yes'', ''on'', ''enable'', ''enabled'']"

definition IsStringBool :: "string \<Rightarrow> bool" where
  "IsStringBool str = (to_lower str \<in> set
     [''0'', ''1'', ''false'', ''true'', ''no'', ''yes'', ''off'', ''on'',
      ''disable'', ''enable'', ''disabled'', ''enabled''])"

definition IsStringBoolFalse :: "string \<Rightarrow> bool" where
  "IsStringBoolFalse str = (to_lower str \<in> set StringBoolFalseValues)"

definition IsStringBoolTrue :: "string \<Rightarrow> bool" where
  "IsStringBoolTrue str = (to_lower str \<in> set StringBoolTrueValues)"

definition CastStringBoolTo01 :: "string \<Rightarrow> bool \<Rightarrow> string" where
  "CastStringBoolTo01 str defaultValue =
     (if IsStringBoolTrue str then ''1''
      else if IsStringBoolFalse str then ''0''
      else if defaultValue then ''1'' else ''0'')"

definition CastStringBoolToStringTrueFalse :: "string \<Rightarrow> bool \<Rightarrow> string" where
  "CastStringBoolToStringTrueFalse str defaultValue =
     (if IsStringBoolTrue str then ''true''
      else if IsStringBoolFalse str then ''false''
      else if defaultValue then ''true'' else ''false'')"

text \<open>
  \<open>crypto/sha1\<close> is a parameter: \<open>sha1_hex\<close> maps the input to its hexadecimal digest. The slice
  expression panics when the requested length is negative.
\<close>

definition CreateStringID :: "(string \<Rightarrow> string) \<Rightarrow> string \<Rightarrow> int \<Rightarrow> string go" where
  "CreateStringID sha1_hex str maxHashLen =
     (let hash = sha1_hex str in
      if maxHashLen = 0 then Inr hash
      else if maxHashLen \<ge> int (length hash) then Inr hash
      else if maxHashLen < 0 then Inl IndexOutOfRange
      else Inr (drop (length hash - nat maxHashLen) hash))"

definition StringHead :: "string \<Rightarrow> int \<Rightarrow> string go" where
  "StringHead str maxHeadLen =
     (if int (length str) \<le> maxHeadLen then Inr str
      else if maxHeadLen < 0 then Inl IndexOutOfRange
      else Inr (take (nat maxHeadLen) str))"

lemma string_bool_true_false_disjoint: "IsStringBoolTrue s \<Longrightarrow> \<not> IsStringBoolFalse s"
  by (auto simp: IsStringBoolTrue_def IsStringBoolFalse_def
      StringBoolTrueValues_def StringBoolFalseValues_def)

lemma string_bool_iff: "IsStringBool s \<longleftrightarrow> IsStringBoolTrue s \<or> IsStringBoolFalse s"
  by (auto simp: IsStringBool_def IsStringBoolTrue_def IsStringBoolFalse_def
      StringBoolTrueValues_def StringBoolFalseValues_def)

lemma cast_true_false_value:
  "CastStringBoolToStringTrueFalse s d =
     (if IsStringBoolTrue s \<or> \<not> IsStringBool s \<and> d then ''true'' else ''false'')"
  by (auto simp: CastStringBoolToStringTrueFalse_def string_bool_iff
      dest: string_bool_true_false_disjoint)

lemma is_true_true [simp]: "IsStringBoolTrue ''true''" "\<not> IsStringBoolTrue ''false''"
  by (code_simp)+

lemma is_false_false [simp]: "IsStringBoolFalse ''false''" "\<not> IsStringBoolFalse ''true''"
  by (code_simp)+

lemma is_string_bool_true_false [simp]: "IsStringBool ''true''" "IsStringBool ''false''"
  by (simp_all add: string_bool_iff)

lemma cast_true_false_idem:
  "CastStringBoolToStringTrueFalse (CastStringBoolToStringTrueFalse s d) d'
     = CastStringBoolToStringTrueFalse s d"
  by (auto simp: cast_true_false_value)

lemma StringHead_length: "StringHead s n = Inr t \<Longrightarrow> 0 \<le> n \<Longrightarrow> int (length t) \<le> n"
  by (auto simp: StringHead_def split: if_splits)

lemma StringHead_total: "0 \<le> n \<Longrightarrow> \<exists>t. StringHead s n = Inr t"
  by (auto simp: StringHead_def)

section \<open>Slices of strings (pkg/util/array.go)\<close>

fun InArray :: "'a \<Rightarrow> 'a list \<Rightarrow> bool" where
  "InArray needle [] = False"
| "InArray needle (item # haystack) = (if item = needle then True else InArray needle haystack)"

text \<open>\<open>regexp.MatchString\<close> is a parameter; a pattern that does not compile matches nothing.\<close>

fun InArrayWithRegexp :: "(string \<Rightarrow> string \<Rightarrow> bool) \<Rightarrow> string \<Rightarrow> string list \<Rightarrow> bool" where
  "InArrayWithRegexp matchString needle [] = False"
| "InArrayWithRegexp matchString needle (item # haystack) =
     (if item = needle \<or> matchString item needle then True
      else InArrayWithRegexp matchString needle haystack)"

fun MergeStringArrays :: "'a list \<Rightarrow> 'a list \<Rightarrow> 'a list" where
  "MergeStringArrays dst [] = dst"
| "MergeStringArrays dst (str # src) =
     MergeStringArrays (if \<not> InArray str dst then dst @ [str] else dst) src"

fun remove_loop :: "'a \<Rightarrow> 'a list \<Rightarrow> 'a list \<Rightarrow> 'a list" where
  "remove_loop needle result [] = result"
| "remove_loop needle result (item # haystack) =
     (if item = needle then remove_loop needle result haystack
      else remove_loop needle (result @ [item]) haystack)"

definition RemoveFromArray :: "'a \<Rightarrow> 'a list \<Rightarrow> 'a list" where
  "RemoveFromArray needle haystack = remove_loop needle [] haystack"

text \<open>
  \<open>Unzip\<close> allocates both columns with \<open>make([]string, len(slice))\<close>, which already holds
  \<open>len(slice)\<close> empty strings, and then appends.
\<close>

fun unzip_loop :: "string list list \<Rightarrow> string list \<Rightarrow> string list
    \<Rightarrow> (string list \<times> string list) go" where
  "unzip_loop [] col1 col2 = Inr (col1, col2)"
| "unzip_loop (row # rows) col1 col2 =
     (case row of
        [] \<Rightarrow> Inl IndexOutOfRange
      | x # rest \<Rightarrow>
          unzip_loop rows (col1 @ [x])
            (case rest of [] \<Rightarrow> col2 | y # _ \<Rightarrow> col2 @ [y]))"

definition Unzip :: "string list list \<Rightarrow> (string list \<times> string list) go" where
  "Unzip rows = unzip_loop rows (replicate (length rows) '''') (replicate (length rows) '''')"

lemma InArray_iff [simp]: "InArray x xs \<longleftrightarrow> x \<in> set xs"
  by (induction xs) auto

lemma InArrayWithRegexp_iff:
  "InArrayWithRegexp f x xs \<longleftrightarrow> (\<exists>i \<in> set xs. i = x \<or> f i x)"
  by (induction xs) auto

lemma set_MergeStringArrays [simp]: "set (MergeStringArrays dst src) = set dst \<union> set src"
  by (induction src arbitrary: dst) auto

lemma distinct_MergeStringArrays: "distinct dst \<Longrightarrow> distinct (MergeStringArrays dst src)"
  by (induction src arbitrary: dst) auto

lemma MergeStringArrays_prefix: "\<exists>new. MergeStringArrays dst src = dst @ new"
proof (induction src arbitrary: dst)
  case Nil
  then show ?case by simp
next
  case (Cons x src)
  obtain new where "MergeStringArrays (if x \<notin> set dst then dst @ [x] else dst) src
      = (if x \<notin> set dst then dst @ [x] else dst) @ new"
    using Cons.IH by blast
  then show ?case by (cases "x \<in> set dst") auto
qed

lemma remove_loop_filter: "remove_loop x acc xs = acc @ filter (\<lambda>y. y \<noteq> x) xs"
  by (induction xs arbitrary: acc) auto

lemma RemoveFromArray_filter: "RemoveFromArray x xs = filter (\<lambda>y. y \<noteq> x) xs"
  by (simp add: RemoveFromArray_def remove_loop_filter)

lemma set_RemoveFromArray [simp]: "set (RemoveFromArray x xs) = set xs - {x}"
  by (auto simp: RemoveFromArray_filter)

lemma unzip_loop_pairs:
  "unzip_loop (map (\<lambda>(a, b). [a, b]) ps) col1 col2 = Inr (col1 @ map fst ps, col2 @ map snd ps)"
  by (induction ps arbitrary: col1 col2) auto

section \<open>String maps (pkg/util/map.go)\<close>

type_synonym strmap = "(string, string) gmap"

definition IncludeNonEmpty :: "strmap \<Rightarrow> string \<Rightarrow> string \<Rightarrow> strmap" where
  "IncludeNonEmpty dst key src = (if src = '''' then dst else gput key src dst)"

definition CopyMap :: "('k, 'v) gmap \<Rightarrow> ('k, 'v) gmap" where
  "CopyMap src = fold (\<lambda>(k, v). gput k v) src []"

definition CopyMapExcept :: "('k, 'v) gmap \<Rightarrow> 'k list \<Rightarrow> ('k, 'v) gmap" where
  "CopyMapExcept src exceptKeys = fold gdel exceptKeys (CopyMap src)"

definition merge_keys_overwrite ::
    "('k, 'v) gmap \<Rightarrow> 'k list \<Rightarrow> ('k, 'v) gmap \<Rightarrow> ('k, 'v) gmap" where
  "merge_keys_overwrite src keys dst =
     fold (\<lambda>key dst. case gget src key of Some value \<Rightarrow> gput key value dst | None \<Rightarrow> dst) keys dst"

definition MergeStringMapsOverwrite ::
    "('k, 'v) gmap option \<Rightarrow> ('k, 'v) gmap \<Rightarrow> 'k list \<Rightarrow> ('k, 'v) gmap option" where
  "MergeStringMapsOverwrite dst src keys =
     (if length src = 0 then dst
      else
        let created = (dst = None);
            dst0 = (case dst of None \<Rightarrow> [] | Some d \<Rightarrow> d);
            dst1 = (if length keys = 0 then fold (\<lambda>(key, v). gput key v) src dst0
                    else merge_keys_overwrite src keys dst0)
        in if created \<and> length dst1 = 0 then None else Some dst1)"

definition merge_keys_preserve ::
    "('k, 'v) gmap \<Rightarrow> 'k list \<Rightarrow> ('k, 'v) gmap \<Rightarrow> ('k, 'v) gmap" where
  "merge_keys_preserve src keys dst =
     fold (\<lambda>key dst. case gget src key of
             Some value \<Rightarrow> if gget dst key = None then gput key value dst else dst
           | None \<Rightarrow> dst) keys dst"

definition MergeStringMapsPreserve ::
    "('k, 'v) gmap option \<Rightarrow> ('k, 'v) gmap \<Rightarrow> 'k list \<Rightarrow> ('k, 'v) gmap option" where
  "MergeStringMapsPreserve dst src keys =
     (if length src = 0 then dst
      else
        let created = (dst = None);
            dst0 = (case dst of None \<Rightarrow> [] | Some d \<Rightarrow> d);
            dst1 = (if length keys = 0
                    then fold (\<lambda>(key, v) d. if gget d key = None then gput key v d else d) src dst0
                    else merge_keys_preserve src keys dst0)
        in if created \<and> length dst1 = 0 then None else Some dst1)"

definition SubtractStringMaps :: "('k, 'v) gmap \<Rightarrow> ('k, 'v) gmap \<Rightarrow> ('k, 'v) gmap" where
  "SubtractStringMaps base delta =
     (if length delta = 0 then base
      else if length base = 0 then base
      else fold (\<lambda>key b. if ghas b key then gdel key b else b) (gkeys delta) base)"

definition MapDeleteKeys :: "('k, 'v) gmap \<Rightarrow> 'k list \<Rightarrow> ('k, 'v) gmap" where
  "MapDeleteKeys base keys =
     (if length keys = 0 then base
      else if length base = 0 then base
      else fold (\<lambda>key b. if ghas b key then gdel key b else b) keys base)"

fun MapHasKeys :: "('k, 'v) gmap \<Rightarrow> 'k list \<Rightarrow> bool" where
  "MapHasKeys m [] = True"
| "MapHasKeys m (needle # keys) =
     (if \<not> list_ex (\<lambda>key. key = needle) (gkeys m) then False else MapHasKeys m keys)"

text \<open>A possibly nil map read as a partial function.\<close>

definition omap :: "('k, 'v) gmap option \<Rightarrow> 'k \<rightharpoonup> 'v" where
  "omap m = (case m of None \<Rightarrow> Map.empty | Some m \<Rightarrow> gget m)"

lemma omap_simps [simp]: "omap None = Map.empty" "omap (Some m) = gget m"
  by (simp_all add: omap_def)

lemma gget_CopyMap: "gmap_ok src \<Longrightarrow> gget (CopyMap src) = gget src"
  by (simp add: CopyMap_def gm.get_fold_put map_of_rev_ok)

lemma gget_CopyMapExcept:
  "gmap_ok src \<Longrightarrow> gget (CopyMapExcept src ks) = gget src |` (- set ks)"
  by (simp add: CopyMapExcept_def gm.get_fold_del gget_CopyMap)

lemma gget_merge_keys_overwrite:
  "gget (merge_keys_overwrite src keys dst) = gget dst ++ (gget src |` set keys)"
  unfolding merge_keys_overwrite_def
  by (induction keys arbitrary: dst)
    (auto simp: gmap_simps map_add_def restrict_map_def fun_eq_iff split: option.splits)

lemma gget_merge_keys_preserve:
  "gget (merge_keys_preserve src keys dst) = (gget src |` set keys) ++ gget dst"
  unfolding merge_keys_preserve_def
  by (induction keys arbitrary: dst)
    (auto simp: gmap_simps map_add_def restrict_map_def fun_eq_iff split: option.splits)

lemma omap_created [simp]: "omap (if c \<and> m = [] then None else Some m) = gget m"
  by auto

lemma gget_of_dst [simp]: "gget (case dst of None \<Rightarrow> [] | Some d \<Rightarrow> d) = omap dst"
  by (cases dst) auto

lemma omap_MergeStringMapsOverwrite:
  assumes "gmap_ok src"
  shows "omap (MergeStringMapsOverwrite dst src keys)
      = omap dst ++ (if keys = [] then gget src else gget src |` set keys)"
  using assms
  by (auto simp: MergeStringMapsOverwrite_def Let_def gm.get_fold_put map_of_rev_ok
      gget_merge_keys_overwrite simp del: fold_simps)

lemma omap_MergeStringMapsPreserve:
  "omap (MergeStringMapsPreserve dst src keys)
      = (if keys = [] then gget src else gget src |` set keys) ++ omap dst"
  by (auto simp: MergeStringMapsPreserve_def Let_def gm.get_fold_put_new
      gget_merge_keys_preserve simp del: fold_simps)

lemma fold_del_if_has: "fold (\<lambda>key b. if ghas b key then gdel key b else b) ks b = fold gdel ks b"
  by (induction ks arbitrary: b) (auto simp: ghas_def AList.delete_id gget_None_iff)

lemma gget_SubtractStringMaps:
  "gget (SubtractStringMaps base delta) = gget base |` (- set (gkeys delta))"
  by (auto simp: SubtractStringMaps_def fold_del_if_has gm.get_fold_del restrict_map_def fun_eq_iff)

lemma gget_MapDeleteKeys: "gget (MapDeleteKeys base keys) = gget base |` (- set keys)"
  by (auto simp: MapDeleteKeys_def fold_del_if_has gm.get_fold_del restrict_map_def fun_eq_iff)

lemma MapHasKeys_iff: "MapHasKeys m keys \<longleftrightarrow> set keys \<subseteq> dom (gget m)"
  by (induction keys) (auto simp: list_ex_iff dom_map_of_conv_image_fst)

section \<open>Hashing (pkg/util/hash.go)\<close>

text \<open>\<open>hash/fnv\<close> New32a: FNV-1a on 32 bits, one byte at a time, with wrap-around multiplication.\<close>

definition fnv32a :: "string \<Rightarrow> 32 word" where
  "fnv32a b = foldl (\<lambda>h c. (h XOR of_nat (of_char c)) * 16777619) 2166136261 b"

definition HashIntoInt :: "string \<Rightarrow> int" where
  "HashIntoInt b = (if length b = 0 then 0 else uint (fnv32a b))"

definition HashIntoIntTopped :: "string \<Rightarrow> int \<Rightarrow> int go" where
  "HashIntoIntTopped b cap =
     (if cap = 0 then Inl DivideByZero
      else Inr (sgn (HashIntoInt b) * (\<bar>HashIntoInt b\<bar> mod \<bar>cap\<bar>)))"

lemma HashIntoInt_bounds: "0 \<le> HashIntoInt b" "HashIntoInt b < 2 ^ 32"
  using uint_lt2p [of "fnv32a b"] by (auto simp: HashIntoInt_def)

lemma HashIntoIntTopped_range:
  assumes "0 < cap"
  shows "\<exists>i. HashIntoIntTopped b cap = Inr i \<and> 0 \<le> i \<and> i < cap"
proof -
  have "0 \<le> HashIntoInt b mod cap" "HashIntoInt b mod cap < cap" using assms by simp_all
  moreover have "HashIntoIntTopped b cap = Inr (HashIntoInt b mod cap)"
    using assms HashIntoInt_bounds(1) [of b]
    by (cases "HashIntoInt b = 0") (simp_all add: HashIntoIntTopped_def)
  ultimately show ?thesis by simp
qed

section \<open>Annotations and durations (pkg/util/k8s.go, pkg/util/duration.go)\<close>

definition NamespaceNameString :: "string \<Rightarrow> string \<Rightarrow> string" where
  "NamespaceNameString ns nm = ns @ ''/'' @ nm"

definition IsAnnotationToBeSkipped :: "string \<Rightarrow> bool" where
  "IsAnnotationToBeSkipped annotation =
     (annotation = ''kubectl.kubernetes.io/last-applied-configuration'')"

fun ReasonableDuration :: "int list \<Rightarrow> int" where
  "ReasonableDuration [] = 0"
| "ReasonableDuration (duration # durations) =
     (if duration > 0 then duration else ReasonableDuration durations)"

lemma ReasonableDuration_nonneg: "0 \<le> ReasonableDuration ds"
  by (induction ds) auto

lemma ReasonableDuration_first:
  "ReasonableDuration ds = (case filter (\<lambda>d. d > 0) ds of [] \<Rightarrow> 0 | d # _ \<Rightarrow> d)"
  by (induction ds) auto

section \<open>The retry loop (pkg/util/retry/retry.go)\<close>

text \<open>
  \<open>ctx_done n\<close> is what the context check before attempt \<open>n\<close> sees, \<open>f n\<close> the outcome of the
  \<open>n\<close>-th call (\<open>None\<close> is the nil error). The result is the returned error, the attempts made and
  the seconds slept between them.
\<close>

function retry_from ::
    "(nat \<Rightarrow> bool) \<Rightarrow> (nat \<Rightarrow> 'e option) \<Rightarrow> int \<Rightarrow> nat \<Rightarrow> 'e option \<Rightarrow> 'e option \<times> nat list \<times> nat list"
where
  "retry_from ctx_done f tries attempt err =
     (if int attempt \<le> tries then
        if ctx_done attempt then (None, [], [])
        else case f attempt of
            None \<Rightarrow> (None, [attempt], [])
          | Some e \<Rightarrow>
              let (r, calls, sleeps) = retry_from ctx_done f tries (Suc attempt) (Some e)
              in (r, attempt # calls, if int attempt < tries then (attempt * 5) # sleeps else sleeps)
      else (err, [], []))"
  by pat_completeness auto
termination
  by (relation "measure (\<lambda>(d, f, tries, attempt, err). nat (tries + 1 - int attempt))") auto

definition Retry ::
    "(nat \<Rightarrow> bool) \<Rightarrow> int \<Rightarrow> (nat \<Rightarrow> 'e option) \<Rightarrow> 'e option \<times> nat list \<times> nat list" where
  "Retry ctx_done tries f = retry_from ctx_done f tries 1 None"

declare retry_from.simps [simp del]

lemma retry_from_calls:
  "\<exists>n. fst (snd (retry_from d f tries attempt err)) = [attempt..<n] \<and> attempt \<le> n
      \<and> (attempt < n \<longrightarrow> int n \<le> tries + 1)
      \<and> (\<forall>k. attempt \<le> k \<and> Suc k < n \<longrightarrow> f k \<noteq> None)"
proof (induction d f tries attempt err rule: retry_from.induct)
  case (1 d f tries attempt err)
  show ?case
  proof (cases "int attempt \<le> tries \<and> \<not> d attempt")
    case False
    then show ?thesis
      by (intro exI [of _ attempt]) (auto simp: retry_from.simps [of d f tries attempt err])
  next
    case True
    show ?thesis
    proof (cases "f attempt")
      case None
      with True show ?thesis
        by (intro exI [of _ "Suc attempt"]) (auto simp: retry_from.simps [of d f tries attempt err])
    next
      case (Some e)
      obtain n where n: "fst (snd (retry_from d f tries (Suc attempt) (Some e))) = [Suc attempt..<n]"
          "Suc attempt \<le> n" "Suc attempt < n \<longrightarrow> int n \<le> tries + 1"
          "\<forall>k. Suc attempt \<le> k \<and> Suc k < n \<longrightarrow> f k \<noteq> None"
        using "1.IH" [of e] True Some by auto
      have "\<forall>k. attempt \<le> k \<and> Suc k < n \<longrightarrow> f k \<noteq> None"
        using n(4) Some by (metis le_antisym not_less_eq_eq option.distinct(1))
      moreover have "int n \<le> tries + 1"
        using n(2,3) True by (cases "n = Suc attempt") auto
      ultimately show ?thesis using n True Some
        by (intro exI [of _ n])
          (auto simp: retry_from.simps [of d f tries attempt err] upt_conv_Cons split: prod.splits)
    qed
  qed
qed

lemma retry_from_result:
  assumes "\<And>k. \<not> d k" and "int attempt \<le> tries"
  shows "fst (retry_from d f tries attempt err) = None
      \<longleftrightarrow> (\<exists>k. attempt \<le> k \<and> int k \<le> tries \<and> f k = None)"
  using assms
proof (induction d f tries attempt err rule: retry_from.induct)
  case (1 d f tries attempt err)
  show ?case
  proof (cases "f attempt")
    case None
    with "1.prems" have "fst (retry_from d f tries attempt err) = None"
      by (simp add: retry_from.simps [of d f tries attempt err])
    with None "1.prems"(2) show ?thesis by blast
  next
    case (Some e)
    have step: "fst (retry_from d f tries attempt err) = fst (retry_from d f tries (Suc attempt) (Some e))"
      using "1.prems" Some by (simp add: retry_from.simps [of d f tries attempt err] split: prod.split)
    show ?thesis
    proof (cases "int (Suc attempt) \<le> tries")
      case True
      have "fst (retry_from d f tries (Suc attempt) (Some e)) = None
          \<longleftrightarrow> (\<exists>k. Suc attempt \<le> k \<and> int k \<le> tries \<and> f k = None)"
        by (rule "1.IH" [of e]) (use "1.prems" Some True in blast)+
      with step have "fst (retry_from d f tries attempt err) = None
          \<longleftrightarrow> (\<exists>k. Suc attempt \<le> k \<and> int k \<le> tries \<and> f k = None)" by (simp only:)
      also have "\<dots> \<longleftrightarrow> (\<exists>k. attempt \<le> k \<and> int k \<le> tries \<and> f k = None)"
        by (rule ex_cong1) (use Some in \<open>auto simp: Suc_le_eq le_less\<close>)
      finally show ?thesis .
    next
      case False
      then have "\<And>k. attempt \<le> k \<Longrightarrow> int k \<le> tries \<Longrightarrow> k = attempt" by auto
      moreover have "fst (retry_from d f tries attempt err) = Some e"
        using step False by (simp add: retry_from.simps [of d f tries "Suc attempt" "Some e"])
      ultimately show ?thesis using Some by fastforce
    qed
  qed
qed

end
