(* ===== verification/GoFmt.thy ===== *)
theory GoFmt
  imports GoUtil
begin

text \<open>
  The pieces of Go's standard library that the operator's text handling rests on: \<open>strconv.Itoa\<close>
  and \<open>strconv.Atoi\<close>, conversion to \<open>int32\<close>, \<open>strings.Split\<close>, \<open>Join\<close>, \<open>Trim\<close>, and
  \<open>strings.NewReplacer\<close> as used for name macros.
\<close>

section \<open>Decimal numbers\<close>

definition digit_char :: "nat \<Rightarrow> char" where
  "digit_char d = char_of (48 + d)"

fun string_of_nat :: "nat \<Rightarrow> string" where
  "string_of_nat n =
     (if n < 10 then [digit_char n] else string_of_nat (n div 10) @ [digit_char (n mod 10)])"

declare string_of_nat.simps [simp del]

definition Itoa :: "int \<Rightarrow> string" where
  "Itoa i = (if i < 0 then CHR ''-'' # string_of_nat (nat (- i)) else string_of_nat (nat i))"

definition is_digit :: "char \<Rightarrow> bool" where
  "is_digit c = (48 \<le> (of_char c :: nat) \<and> (of_char c :: nat) \<le> 57)"

definition digit_val :: "char \<Rightarrow> nat" where
  "digit_val c = of_char c - 48"

definition nat_of_digits :: "string \<Rightarrow> nat" where
  "nat_of_digits s = foldl (\<lambda>n c. 10 * n + digit_val c) 0 s"

definition int64_ok :: "int \<Rightarrow> bool" where
  "int64_ok i = (- (2 ^ 63) \<le> i \<and> i < 2 ^ 63)"

definition signed_digits :: "bool \<Rightarrow> string \<Rightarrow> int option" where
  "signed_digits neg ds =
     (if ds = '''' \<or> \<not> list_all is_digit ds then None
      else let i = (if neg then - int (nat_of_digits ds) else int (nat_of_digits ds))
           in if int64_ok i then Some i else None)"

text \<open>\<open>strconv.Atoi\<close>: an optional sign and decimal digits, an error outside the 64-bit range.\<close>

definition Atoi :: "string \<Rightarrow> int option" where
  "Atoi s = (case s of
      [] \<Rightarrow> None
    | c # ds \<Rightarrow> if c = CHR ''-'' then signed_digits True ds
                else if c = CHR ''+'' then signed_digits False ds
                else signed_digits False s)"

text \<open>Conversion of an integer to \<open>int32\<close> keeps the low 32 bits, read as two's complement.\<close>

definition int32_of :: "int \<Rightarrow> int" where
  "int32_of i = sint (of_int i :: 32 word)"

lemma int32_of_range: "- (2 ^ 31) \<le> int32_of i" "int32_of i < 2 ^ 31"
  using sint_greater_eq [of "of_int i :: 32 word"] sint_less [of "of_int i :: 32 word"]
  by (simp_all add: int32_of_def)

lemma int32_of_id: "- (2 ^ 31) \<le> i \<Longrightarrow> i < 2 ^ 31 \<Longrightarrow> int32_of i = i"
  by (simp add: int32_of_def int_word_sint)

lemma of_char_digit [simp]: "d < 10 \<Longrightarrow> (of_char (digit_char d) :: nat) = 48 + d"
  by (simp add: digit_char_def)

lemma is_digit_digit [simp]: "d < 10 \<Longrightarrow> is_digit (digit_char d)"
  by (simp add: is_digit_def)

lemma digit_val_digit [simp]: "d < 10 \<Longrightarrow> digit_val (digit_char d) = d"
  by (simp add: digit_val_def)

lemma digit_char_num:
  "digit_char 0 = CHR ''0''" "digit_char 1 = CHR ''1''" "digit_char 2 = CHR ''2''"
  "digit_char 3 = CHR ''3''" "digit_char 4 = CHR ''4''" "digit_char 5 = CHR ''5''"
  "digit_char 6 = CHR ''6''" "digit_char 7 = CHR ''7''" "digit_char 8 = CHR ''8''"
  "digit_char 9 = CHR ''9''" "digit_char (Suc 0) = CHR ''1''"
  by code_simp+

lemma string_of_nat_lt: "n < 10 \<Longrightarrow> string_of_nat n = [digit_char n]"
  by (subst string_of_nat.simps) simp

lemma string_of_nat_ge:
  "\<not> n < 10 \<Longrightarrow> string_of_nat n = string_of_nat (n div 10) @ [digit_char (n mod 10)]"
  by (subst string_of_nat.simps) simp

text \<open>Evaluation of \<open>Itoa\<close> on a numeral.\<close>

lemmas Itoa_eval = Itoa_def string_of_nat_lt string_of_nat_ge digit_char_num

lemma string_of_nat_digits: "list_all is_digit (string_of_nat n) \<and> string_of_nat n \<noteq> []"
proof (induction n rule: string_of_nat.induct)
  case (1 n)
  then show ?case by (subst (1 2) string_of_nat.simps) auto
qed

lemma nat_of_digits_string_of_nat [simp]: "nat_of_digits (string_of_nat n) = n"
proof (induction n rule: string_of_nat.induct)
  case (1 n)
  then show ?case
    by (subst string_of_nat.simps) (auto simp: nat_of_digits_def)
qed

lemma Atoi_Itoa: "int64_ok i \<Longrightarrow> Atoi (Itoa i) = Some i"
proof -
  assume ok: "int64_ok i"
  obtain c ds where sn: "string_of_nat (nat i) = c # ds"
    using string_of_nat_digits [of "nat i"] by (cases "string_of_nat (nat i)") auto
  have c: "is_digit c" using string_of_nat_digits [of "nat i"] sn by simp
  then have "c \<noteq> CHR ''-''" "c \<noteq> CHR ''+''" by (auto simp: is_digit_def)
  then show ?thesis
    using ok sn string_of_nat_digits [of "nat i"] string_of_nat_digits [of "nat (- i)"]
      nat_of_digits_string_of_nat [of "nat i"]
    by (auto simp: Atoi_def Itoa_def signed_digits_def Let_def)
qed

lemma Itoa_inject: "Itoa i = Itoa j \<Longrightarrow> i = j"
proof -
  have nd: "string_of_nat n \<noteq> CHR ''-'' # s" for n s
    using string_of_nat_digits [of n] by (auto simp: is_digit_def)
  have inj: "string_of_nat a = string_of_nat b \<Longrightarrow> a = b" for a b
    by (metis nat_of_digits_string_of_nat)
  assume "Itoa i = Itoa j"
  then show ?thesis
    using nd nd [symmetric] inj by (fastforce simp: Itoa_def split: if_splits)
qed

section \<open>Splitting, joining and trimming\<close>

fun split_on :: "char \<Rightarrow> string \<Rightarrow> string list" where
  "split_on sep [] = [[]]"
| "split_on sep (c # s) =
     (if c = sep then [] # split_on sep s
      else case split_on sep s of [] \<Rightarrow> [[c]] | p # ps \<Rightarrow> (c # p) # ps)"

fun join_with :: "string \<Rightarrow> string list \<Rightarrow> string" where
  "join_with sep [] = ''''"
| "join_with sep [p] = p"
| "join_with sep (p # q # ps) = p @ sep @ join_with sep (q # ps)"

definition trim_char :: "char \<Rightarrow> string \<Rightarrow> string" where
  "trim_char c s = rev (dropWhile ((=) c) (rev (dropWhile ((=) c) s)))"

lemma split_on_nonempty [simp]: "split_on c s \<noteq> []"
  by (induction s) (auto split: list.split)

lemma split_on_length: "length (split_on c s) = Suc (count_list s c)"
  by (induction s) (auto split: list.split)

lemma split_on_short: "length (split_on c s) < 2 \<longleftrightarrow> c \<notin> set s"
  by (auto simp: split_on_length count_list_0_iff)

lemma join_split [simp]: "join_with [c] (split_on c s) = s"
proof (induction s)
  case Nil
  then show ?case by simp
next
  case (Cons a s)
  obtain p ps where "split_on c s = p # ps" by (cases "split_on c s") auto
  with Cons show ?case by (cases ps) auto
qed

section \<open>strings.NewReplacer\<close>

text \<open>
  At each position the first pair, in argument order, whose old string starts there is replaced and
  the scan goes on after it; otherwise one byte is copied. The code's old strings are never empty.
\<close>

definition starts_with :: "string \<Rightarrow> string \<Rightarrow> bool" where
  "starts_with p s = (take (length p) s = p)"

fun find_macro :: "(string \<times> string) list \<Rightarrow> string \<Rightarrow> (string \<times> string) option" where
  "find_macro [] s = None"
| "find_macro ((old, new) # ps) s =
     (if old \<noteq> [] \<and> starts_with old s then Some (old, new) else find_macro ps s)"

lemma find_macro_Some:
  "find_macro ps s = Some (old, new) \<Longrightarrow> old \<noteq> [] \<and> starts_with old s \<and> (old, new) \<in> set ps"
  by (induction ps s rule: find_macro.induct) (auto split: if_splits)

function (sequential) replacer :: "(string \<times> string) list \<Rightarrow> string \<Rightarrow> string" where
  "replacer ps [] = []"
| "replacer ps (c # s) =
     (case find_macro ps (c # s) of
        Some (old, new) \<Rightarrow> new @ replacer ps (drop (length old) (c # s))
      | None \<Rightarrow> c # replacer ps s)"
  by pat_completeness auto
termination
  by (relation "measure (\<lambda>(ps, s). length s)")
    (auto dest!: find_macro_Some)

lemma find_macro_None_noprefix:
  "\<forall>p \<in> set ps. \<forall>c r. fst p = c # r \<longrightarrow> c \<noteq> a \<Longrightarrow> find_macro ps (a # s) = None"
  by (induction ps "a # s" rule: find_macro.induct)
    (auto simp: starts_with_def neq_Nil_conv)

text \<open>Text without the character that opens every macro is left alone.\<close>

lemma replacer_no_macro:
  "\<forall>p \<in> set ps. fst p \<noteq> [] \<and> hd (fst p) = a \<Longrightarrow> a \<notin> set s \<Longrightarrow> replacer ps s = s"
proof (induction ps s rule: replacer.induct)
  case (1 ps)
  then show ?case by simp
next
  case (2 ps c s)
  then have "find_macro ps (c # s) = None"
    by (intro find_macro_None_noprefix) force
  with 2 show ?case by simp
qed

end
