(* ===== verification/ChiSettings.thy ===== *)
theory ChiSettings
  imports GoFmt
begin

text \<open>
  \<open>pkg/apis/clickhouse.radondb.com/v1/type_settings.go\<close>: settings, which are named scalars or
  vectors, their JSON form, ports, merging, sections and path normalization. A \<open>*Settings\<close> is
  \<open>settings option\<close>; the inner map is an association list, whose order is the iteration order.
\<close>

section \<open>One setting\<close>

record setting =
  isScalar :: bool
  scalar :: string
  vector :: "string list"

definition NewSettingScalar :: "string \<Rightarrow> setting" where
  "NewSettingScalar sc = \<lparr>isScalar = True, scalar = sc, vector = []\<rparr>"

definition NewSettingVector :: "string list \<Rightarrow> setting" where
  "NewSettingVector v = \<lparr>isScalar = False, scalar = '''', vector = v\<rparr>"

definition Setting_AsVector :: "setting \<Rightarrow> string list" where
  "Setting_AsVector s = (if isScalar s then [scalar s] else vector s)"

definition Setting_String :: "setting option \<Rightarrow> string" where
  "Setting_String s = (case s of
      None \<Rightarrow> ''''
    | Some s \<Rightarrow> if isScalar s then scalar s else join_with '','' (vector s))"

definition setting_ok :: "setting \<Rightarrow> bool" where
  "setting_ok s = (s = NewSettingScalar (scalar s) \<or> s = NewSettingVector (vector s))"

section \<open>Access to a named setting\<close>

type_synonym settings = "(string, setting) gmap"

definition NewSettings :: settings where
  "NewSettings = []"

definition Settings_Len :: "settings option \<Rightarrow> nat" where
  "Settings_Len st = (case st of None \<Rightarrow> 0 | Some m \<Rightarrow> length m)"

definition Settings_Has :: "settings option \<Rightarrow> string \<Rightarrow> bool" where
  "Settings_Has st nm = (if Settings_Len st = 0 then False
     else case st of None \<Rightarrow> False | Some m \<Rightarrow> ghas m nm)"

definition Settings_Get :: "settings option \<Rightarrow> string \<Rightarrow> setting option" where
  "Settings_Get st nm = (if Settings_Len st = 0 then None
     else case st of None \<Rightarrow> None | Some m \<Rightarrow> gget m nm)"

definition Settings_Set :: "string \<Rightarrow> setting \<Rightarrow> settings option \<Rightarrow> settings option" where
  "Settings_Set nm v st = (case st of None \<Rightarrow> None | Some m \<Rightarrow> Some (gput nm v m))"

definition Settings_SetIfNotExists :: "string \<Rightarrow> setting \<Rightarrow> settings option \<Rightarrow> settings option" where
  "Settings_SetIfNotExists nm v st = (if \<not> Settings_Has st nm then Settings_Set nm v st else st)"

definition Settings_Delete :: "string \<Rightarrow> settings option \<Rightarrow> settings option" where
  "Settings_Delete nm st = (if \<not> Settings_Has st nm then st else map_option (gdel nm) st)"

text \<open>\<open>Walk\<close> calls its function on every name with \<open>Get(name)\<close>; the model threads a state through.\<close>

definition Settings_Walk :: "(string \<Rightarrow> setting option \<Rightarrow> 's \<Rightarrow> 's) \<Rightarrow> settings option \<Rightarrow> 's \<Rightarrow> 's" where
  "Settings_Walk f st s = (if Settings_Len st = 0 then s
     else case st of None \<Rightarrow> s | Some m \<Rightarrow> fold (\<lambda>nm. f nm (Settings_Get st nm)) (gkeys m) s)"

definition settings_ok :: "settings option \<Rightarrow> bool" where
  "settings_ok st = (case st of None \<Rightarrow> True | Some m \<Rightarrow> gmap_ok m)"

lemma settings_ok_simps [simp]: "settings_ok None" "settings_ok (Some m) = gmap_ok m"
  by (simp_all add: settings_ok_def)

lemma Settings_Get_simps [simp]:
  "Settings_Get None nm = None" "Settings_Get (Some m) nm = gget m nm"
  by (simp_all add: Settings_Get_def Settings_Len_def)

lemma Settings_Has_iff [simp]: "Settings_Has st nm \<longleftrightarrow> Settings_Get st nm \<noteq> None"
  by (auto simp: Settings_Has_def Settings_Get_def Settings_Len_def ghas_def split: option.splits)

lemma Settings_Set_simps [simp]:
  "Settings_Set nm v None = None" "Settings_Set nm v (Some m) = Some (gput nm v m)"
  by (simp_all add: Settings_Set_def)

lemma Settings_Get_Delete:
  "Settings_Get (Settings_Delete nm st) = (Settings_Get st)(nm := None)"
  by (cases st) (auto simp: Settings_Delete_def gmap_simps fun_eq_iff)

text \<open>Walking is folding over the entries of the map.\<close>

lemma fold_gkeys_get:
  "gmap_ok m \<Longrightarrow> set kvs \<subseteq> set m \<Longrightarrow>
     fold (\<lambda>nm. f nm (gget m nm)) (map fst kvs) s = fold (\<lambda>(nm, v). f nm (Some v)) kvs s"
  by (induction kvs arbitrary: s) (auto simp: gget_Some_in [THEN iffD2])

lemma Settings_Walk_Some:
  "gmap_ok m \<Longrightarrow> Settings_Walk f (Some m) s = fold (\<lambda>(nm, v). f nm (Some v)) m s"
  by (simp add: Settings_Walk_def Settings_Len_def fold_gkeys_get)

lemma Settings_Walk_None [simp]: "Settings_Walk f None s = s"
  by (simp add: Settings_Walk_def)

section \<open>JSON\<close>

text \<open>
  What \<open>encoding/json\<close> hands to the code: a value of type \<open>interface{}\<close>. Every integer kind is
  \<open>UInt\<close>; a finite float is kept exactly, as \<open>mantissa * 2 ^ exponent\<close>.
\<close>

datatype float64 = Dyadic (mantissa: int) (exponent: int)

datatype untyped =
    UNil
  | UBool bool
  | UInt int
  | UFloat float64
  | UString string
  | USlice "untyped list"
  | UObject

fun f64_fraction :: "float64 \<Rightarrow> int \<times> nat" where
  "f64_fraction (Dyadic m e) = (if 0 \<le> e then (m * 2 ^ nat e, 0) else (m, nat (- e)))"

text \<open>\<open>math.Modf\<close>: the integer part truncated towards zero, and the numerator of the fraction,
  which has the sign of the value.\<close>

definition f64_trunc :: "float64 \<Rightarrow> int" where
  "f64_trunc x = (case f64_fraction x of (n, k) \<Rightarrow> sgn n * (\<bar>n\<bar> div 2 ^ k))"

definition f64_frac_num :: "float64 \<Rightarrow> int" where
  "f64_frac_num x = (case f64_fraction x of (n, k) \<Rightarrow> n - f64_trunc x * 2 ^ k)"

text \<open>The constant \<open>ignoreThreshold = 0.001\<close> as a float64 is \<open>1152921504606847 / 2 ^ 60\<close>.\<close>

definition frac_above_threshold :: "float64 \<Rightarrow> bool" where
  "frac_above_threshold x =
     (f64_frac_num x * 2 ^ 60 > 1152921504606847 * 2 ^ snd (f64_fraction x))"

text \<open>\<open>fmt.Sprintf("%f")\<close>: six digits after the point, the exact value rounded half to even.\<close>

definition round_half_even :: "int \<Rightarrow> int \<Rightarrow> int" where
  "round_half_even n d =
     (let q = n div d; r = n mod d in
      if 2 * r < d then q else if d < 2 * r then q + 1 else if even q then q else q + 1)"

definition pad_left_zeros :: "nat \<Rightarrow> string \<Rightarrow> string" where
  "pad_left_zeros w s = replicate (w - length s) (CHR ''0'') @ s"

definition Sprintf_f :: "float64 \<Rightarrow> string" where
  "Sprintf_f x = (case f64_fraction x of (n, k) \<Rightarrow>
     (let r = round_half_even (\<bar>n\<bar> * 10 ^ 6) (2 ^ k)
      in (if n < 0 then ''-'' else '''') @ Itoa (r div 10 ^ 6) @ ''.''
         @ pad_left_zeros 6 (Itoa (r mod 10 ^ 6))))"

text \<open>
  \<open>int64(x)\<close> outside the 64-bit range is left to the implementation by the Go specification:
  the parameter \<open>conv\<close>.
\<close>

definition int64_of_f64 :: "(int \<Rightarrow> int) \<Rightarrow> float64 \<Rightarrow> int" where
  "int64_of_f64 conv x = (if int64_ok (f64_trunc x) then f64_trunc x else conv (f64_trunc x))"

fun unmarshalScalar :: "(int \<Rightarrow> int) \<Rightarrow> untyped \<Rightarrow> string option" where
  "unmarshalScalar conv UNil = None"
| "unmarshalScalar conv (UBool b) = Some (if b then ''true'' else ''false'')"
| "unmarshalScalar conv (UInt i) = Some (Itoa i)"
| "unmarshalScalar conv (UString s) = Some s"
| "unmarshalScalar conv (UFloat x) =
     (if frac_above_threshold x then Some (Sprintf_f x) else Some (Itoa (int64_of_f64 conv x)))"
| "unmarshalScalar conv (USlice us) = None"
| "unmarshalScalar conv UObject = None"

fun unmarshalVector :: "(int \<Rightarrow> int) \<Rightarrow> untyped \<Rightarrow> string list option" where
  "unmarshalVector conv UNil = None"
| "unmarshalVector conv (USlice us) = Some (List.map_filter (unmarshalScalar conv) us)"
| "unmarshalVector conv _ = None"

definition unmarshal_entry ::
    "(int \<Rightarrow> int) \<Rightarrow> string \<times> untyped \<Rightarrow> settings option \<Rightarrow> settings option" where
  "unmarshal_entry conv e st = (case e of (nm, u) \<Rightarrow>
     (case unmarshalScalar conv u of
        Some sc \<Rightarrow> Settings_Set nm (NewSettingScalar sc) st
      | None \<Rightarrow>
          (case unmarshalVector conv u of
             Some v \<Rightarrow> if length v > 0 then Settings_Set nm (NewSettingVector v) st else st
           | None \<Rightarrow> st)))"

text \<open>\<open>UnmarshalJSON\<close> after \<open>json.Unmarshal\<close> produced the untyped map, and \<open>MarshalJSON\<close> up to
  the raw map it hands to \<open>json.Marshal\<close>.\<close>

definition UnmarshalJSON ::
    "(int \<Rightarrow> int) \<Rightarrow> (string, untyped) gmap \<Rightarrow> settings option \<Rightarrow> settings option" where
  "UnmarshalJSON conv untypedMap st =
     (if length untypedMap = 0 then st else fold (unmarshal_entry conv) untypedMap st)"

definition marshal_setting :: "setting \<Rightarrow> untyped" where
  "marshal_setting s = (if isScalar s then UString (scalar s) else USlice (map UString (vector s)))"

definition MarshalJSON :: "settings option \<Rightarrow> (string, untyped) gmap option" where
  "MarshalJSON st = (case st of
      None \<Rightarrow> None
    | Some _ \<Rightarrow> Some (Settings_Walk
        (\<lambda>nm s raw. case s of Some s \<Rightarrow> gput nm (marshal_setting s) raw | None \<Rightarrow> raw) st []))"

section \<open>Scalars, integers and ports\<close>

definition getValueAsScalar :: "settings option \<Rightarrow> string \<Rightarrow> string option" where
  "getValueAsScalar st nm = (if \<not> Settings_Has st nm then None
     else case Settings_Get st nm of
        Some s \<Rightarrow> if isScalar s then Some (scalar s) else None
      | None \<Rightarrow> None)"

definition getValueAsVector :: "settings option \<Rightarrow> string \<Rightarrow> string list option" where
  "getValueAsVector st nm = (if \<not> Settings_Has st nm then None
     else case Settings_Get st nm of
        Some s \<Rightarrow> if isScalar s then None else Some (vector s)
      | None \<Rightarrow> None)"

definition getValueAsInt :: "settings option \<Rightarrow> string \<Rightarrow> int" where
  "getValueAsInt st nm = (case getValueAsScalar st nm of
      None \<Rightarrow> 0
    | Some value \<Rightarrow> (case Atoi value of None \<Rightarrow> 0 | Some i \<Rightarrow> i))"

definition fetchPort :: "settings option \<Rightarrow> string \<Rightarrow> int" where
  "fetchPort st nm = int32_of (getValueAsInt st nm)"

definition GetTCPPort :: "settings option \<Rightarrow> int" where
  "GetTCPPort st = fetchPort st ''tcp_port''"

definition GetHTTPPort :: "settings option \<Rightarrow> int" where
  "GetHTTPPort st = fetchPort st ''http_port''"

definition GetInterserverHTTPPort :: "settings option \<Rightarrow> int" where
  "GetInterserverHTTPPort st = fetchPort st ''interserver_http_port''"

section \<open>Merging\<close>

definition Settings_MergeFrom :: "settings option \<Rightarrow> settings option \<Rightarrow> settings option" where
  "Settings_MergeFrom st src =
     (if Settings_Len src = 0 then st
      else
        let st0 = (case st of None \<Rightarrow> Some NewSettings | Some m \<Rightarrow> Some m)
        in Settings_Walk (\<lambda>key value s. case value of
              Some v \<Rightarrow> Settings_SetIfNotExists key v s | None \<Rightarrow> s) src st0)"

definition Settings_MergeFromCB ::
    "(string \<Rightarrow> setting \<Rightarrow> bool) \<Rightarrow> settings option \<Rightarrow> settings option \<Rightarrow> settings option" where
  "Settings_MergeFromCB accept st src =
     (if Settings_Len src = 0 then st
      else
        let st0 = (case st of None \<Rightarrow> Some NewSettings | Some m \<Rightarrow> Some m)
        in Settings_Walk (\<lambda>key value s. case value of
              Some v \<Rightarrow> if accept key v then Settings_Set key v s else s | None \<Rightarrow> s) src st0)"

section \<open>Sections and file names of a path\<close>

datatype settings_section = SectionEmpty | SectionCommon | SectionUsers | SectionHost

datatype settings_error =
    NoSectionSpecified
  | NoFilenameSpecified
  | UnknownSection string

definition CommonConfigDir :: string where "CommonConfigDir = ''config.d''"
definition UsersConfigDir :: string where "UsersConfigDir = ''users.d''"
definition HostConfigDir :: string where "HostConfigDir = ''conf.d''"

definition string2Section :: "string \<Rightarrow> settings_error + settings_section" where
  "string2Section sect =
     (if equal_fold sect ''COMMON'' \<or> equal_fold sect CommonConfigDir then Inr SectionCommon
      else if equal_fold sect ''USERS'' \<or> equal_fold sect UsersConfigDir then Inr SectionUsers
      else if equal_fold sect ''HOST'' \<or> equal_fold sect HostConfigDir then Inr SectionHost
      else Inl (UnknownSection sect))"

definition getSectionFromPath :: "string \<Rightarrow> settings_error + settings_section" where
  "getSectionFromPath path =
     (let parts = split_on (CHR ''/'') path in
      if length parts < 2 then Inl NoSectionSpecified else string2Section (hd parts))"

definition getFilenameFromPath :: "string \<Rightarrow> settings_error + string" where
  "getFilenameFromPath path =
     (let parts = split_on (CHR ''/'') path in
      if length parts < 1 then Inl NoFilenameSpecified
      else if last parts = '''' then Inl NoFilenameSpecified else Inr (last parts))"

definition section_map_entry ::
    "settings_section \<Rightarrow> bool \<Rightarrow> settings option \<Rightarrow> string \<Rightarrow> strmap \<Rightarrow> strmap" where
  "section_map_entry sect includeUnspecified st path m =
     (let add = (case getFilenameFromPath path of
           Inl _ \<Rightarrow> m
         | Inr filename \<Rightarrow> (case getValueAsScalar st path of
               Some sc \<Rightarrow> gput filename sc m
             | None \<Rightarrow> m))
      in case getSectionFromPath path of
           Inr s \<Rightarrow> if s \<noteq> sect then m else add
         | Inl NoSectionSpecified \<Rightarrow> if \<not> includeUnspecified then m else add
         | Inl _ \<Rightarrow> m)"

definition GetSectionStringMap ::
    "settings option \<Rightarrow> settings_section \<Rightarrow> bool \<Rightarrow> strmap option" where
  "GetSectionStringMap st sect includeUnspecified =
     (case st of None \<Rightarrow> None
      | Some _ \<Rightarrow> Some (Settings_Walk
          (\<lambda>path _. section_map_entry sect includeUnspecified st path) st []))"

text \<open>Nil and empty section lists differ: nil as an include list includes every section.\<close>

definition filter_accepts ::
    "settings_section list option \<Rightarrow> settings_section list option \<Rightarrow> bool \<Rightarrow> string \<Rightarrow> bool" where
  "filter_accepts includeSections excludeSections includeUnspecified path =
     (case getSectionFromPath path of
        Inr s \<Rightarrow>
          (case includeSections of None \<Rightarrow> True | Some l \<Rightarrow> InArray s l)
          \<and> \<not> (case excludeSections of None \<Rightarrow> False | Some l \<Rightarrow> InArray s l)
      | Inl NoSectionSpecified \<Rightarrow> includeUnspecified
      | Inl _ \<Rightarrow> False)"

definition Settings_Filter ::
    "settings_section list option \<Rightarrow> settings_section list option \<Rightarrow> bool
      \<Rightarrow> settings option \<Rightarrow> settings option" where
  "Settings_Filter includeSections excludeSections includeUnspecified st =
     (let res = Some NewSettings in
      if Settings_Len st = 0 then res
      else Settings_Walk (\<lambda>path _ res.
             if filter_accepts includeSections excludeSections includeUnspecified path
             then (case Settings_Get st path of Some v \<Rightarrow> Settings_Set path v res | None \<Rightarrow> res)
             else res) st res)"

definition AsSortedSliceOfStrings :: "settings option \<Rightarrow> string list option" where
  "AsSortedSliceOfStrings st =
     (case st of None \<Rightarrow> None
      | Some m \<Rightarrow>
          Some (concat (map (\<lambda>key. [key, Setting_String (Settings_Get st key)]) (sort (gkeys m)))))"

section \<open>Path normalization\<close>

text \<open>The regular expression \<open>//+\<close> matches every maximal run of two or more slashes.\<close>

fun collapse_slashes :: "string \<Rightarrow> string" where
  "collapse_slashes [] = []"
| "collapse_slashes [c] = [c]"
| "collapse_slashes (c # d # s) =
     (if c = CHR ''/'' \<and> d = CHR ''/'' then collapse_slashes (d # s)
      else c # collapse_slashes (d # s))"

definition normalizeSettingsKeyAsPath :: "string \<Rightarrow> string" where
  "normalizeSettingsKeyAsPath path = trim_char (CHR ''/'') (collapse_slashes path)"

definition pathsToNormalize :: "settings option \<Rightarrow> string list" where
  "pathsToNormalize st = Settings_Walk (\<lambda>p _ acc.
     if length (normalizeSettingsKeyAsPath p) \<noteq> length p then acc @ [p] else acc) st []"

definition set_normalized :: "string \<Rightarrow> settings option \<Rightarrow> settings option" where
  "set_normalized p s = (case Settings_Get s p of
       Some v \<Rightarrow> Settings_Set (normalizeSettingsKeyAsPath p) v s
     | None \<Rightarrow> s)"

definition normalizePaths :: "settings option \<Rightarrow> settings option" where
  "normalizePaths st =
     (if Settings_Len st = 0 then st
      else fold Settings_Delete (pathsToNormalize st) (fold set_normalized (pathsToNormalize st) st))"

section \<open>Lemmas on paths\<close>

lemma collapse_length: "length (collapse_slashes p) \<le> length p"
  by (induction p rule: collapse_slashes.induct) auto

lemma collapse_same_length: "length (collapse_slashes p) = length p \<Longrightarrow> collapse_slashes p = p"
proof (induction p rule: collapse_slashes.induct)
  case (3 c d s)
  then show ?case
    using collapse_length [of "d # s"] by (auto split: if_splits)
qed auto

lemma trim_char_length: "length (trim_char c s) \<le> length s"
  unfolding trim_char_def
  by (metis length_dropWhile_le length_rev order_trans)

lemma dropWhile_same_length:
  assumes "length (dropWhile P s) = length s"
  shows "dropWhile P s = s"
proof -
  have "length (takeWhile P s) + length (dropWhile P s) = length s"
    by (metis length_append takeWhile_dropWhile_id)
  then have "takeWhile P s = []" using assms by simp
  then show ?thesis using takeWhile_dropWhile_id [of P s] by simp
qed

lemma trim_same_length:
  assumes "length (trim_char c s) = length s"
  shows "trim_char c s = s"
proof -
  let ?d = "dropWhile ((=) c)"
  have "length (?d (rev (?d s))) = length s" using assms by (simp add: trim_char_def)
  moreover have "length (?d (rev (?d s))) \<le> length (rev (?d s))" "length (?d s) \<le> length s"
    by (rule length_dropWhile_le)+
  ultimately have "length (?d s) = length s" "length (?d (rev (?d s))) = length (rev (?d s))"
    by simp_all
  then have "?d s = s" "?d (rev (?d s)) = rev (?d s)" by (simp_all add: dropWhile_same_length)
  then show ?thesis by (simp add: trim_char_def)
qed

text \<open>The code compares lengths to find out whether normalization changed anything: that is exact.\<close>

lemma normalize_same_length_iff:
  "length (normalizeSettingsKeyAsPath p) = length p \<longleftrightarrow> normalizeSettingsKeyAsPath p = p"
proof
  assume eq: "length (normalizeSettingsKeyAsPath p) = length p"
  have "length (trim_char (CHR ''/'') (collapse_slashes p)) \<le> length (collapse_slashes p)"
    by (rule trim_char_length)
  with eq collapse_length [of p]
  have "length (collapse_slashes p) = length p"
    "length (trim_char (CHR ''/'') (collapse_slashes p)) = length (collapse_slashes p)"
    by (simp_all add: normalizeSettingsKeyAsPath_def)
  then show "normalizeSettingsKeyAsPath p = p"
    by (simp add: normalizeSettingsKeyAsPath_def collapse_same_length trim_same_length)
qed simp

text \<open>A normalized path: no empty component, in particular no slash at either end.\<close>

fun no_double_slash :: "string \<Rightarrow> bool" where
  "no_double_slash (c # d # s) = (\<not> (c = CHR ''/'' \<and> d = CHR ''/'') \<and> no_double_slash (d # s))"
| "no_double_slash _ = True"

definition path_normal :: "string \<Rightarrow> bool" where
  "path_normal p = (no_double_slash p \<and>
     (p \<noteq> [] \<longrightarrow> hd p \<noteq> CHR ''/'' \<and> last p \<noteq> CHR ''/''))"

lemma collapse_Cons: "\<exists>r. collapse_slashes (d # s) = d # r"
  by (induction s arbitrary: d) auto

lemma collapse_no_double: "no_double_slash (collapse_slashes p)"
proof (induction p rule: collapse_slashes.induct)
  case (3 c d s)
  obtain r where "collapse_slashes (d # s) = d # r" using collapse_Cons by blast
  with 3 show ?case by auto
qed auto

lemma no_double_fix: "no_double_slash p \<Longrightarrow> collapse_slashes p = p"
  by (induction p rule: collapse_slashes.induct) auto

lemma no_double_Cons: "no_double_slash (c # s) \<Longrightarrow> no_double_slash s"
  by (cases s) auto

lemma no_double_dropWhile: "no_double_slash s \<Longrightarrow> no_double_slash (dropWhile P s)"
  by (induction s) (auto dest: no_double_Cons)

lemma no_double_append:
  "no_double_slash (s @ t) \<longleftrightarrow> no_double_slash s \<and> no_double_slash t
     \<and> \<not> (s \<noteq> [] \<and> t \<noteq> [] \<and> last s = CHR ''/'' \<and> hd t = CHR ''/'')"
proof (induction s)
  case Nil
  then show ?case by simp
next
  case (Cons a s)
  then show ?case by (cases s; cases t) auto
qed

lemma no_double_rev: "no_double_slash (rev s) = no_double_slash s"
proof (induction s)
  case Nil
  then show ?case by simp
next
  case (Cons a s)
  then show ?case by (cases s) (auto simp: no_double_append)
qed

lemma hd_dropWhile_neq: "dropWhile ((=) c) s \<noteq> [] \<Longrightarrow> hd (dropWhile ((=) c) s) \<noteq> c"
  using hd_dropWhile [of "(=) c" s] by auto

lemma normalize_normal: "path_normal (normalizeSettingsKeyAsPath p)"
proof -
  let ?c = "CHR ''/''" and ?s = "collapse_slashes p"
  let ?d = "dropWhile ((=) ?c) ?s"
  let ?t = "trim_char ?c ?s"
  have "no_double_slash ?t"
    by (simp add: trim_char_def no_double_rev no_double_dropWhile collapse_no_double)
  moreover have "last ?t \<noteq> ?c" if "?t \<noteq> []"
    using that hd_dropWhile_neq [of ?c "rev ?d"] by (simp add: trim_char_def last_rev)
  moreover have "hd ?t \<noteq> ?c" if ne: "?t \<noteq> []"
  proof -
    have split: "?d = ?t @ rev (takeWhile ((=) ?c) (rev ?d))"
      by (metis rev_append rev_rev_ident takeWhile_dropWhile_id trim_char_def)
    with ne have "hd ?t = hd ?d" by (metis hd_append)
    moreover have "?d \<noteq> []" using ne by (metis split append_is_Nil_conv)
    ultimately show ?thesis using hd_dropWhile_neq [of ?c ?s] by simp
  qed
  ultimately show ?thesis by (simp add: path_normal_def normalizeSettingsKeyAsPath_def)
qed

lemma normal_fix: "path_normal p \<Longrightarrow> normalizeSettingsKeyAsPath p = p"
proof -
  assume n: "path_normal p"
  have "dropWhile ((=) (CHR ''/'')) p = p" using n by (cases p) (auto simp: path_normal_def)
  moreover have "dropWhile ((=) (CHR ''/'')) (rev p) = rev p"
    using n by (cases p rule: rev_cases) (auto simp: path_normal_def)
  ultimately show ?thesis
    using n by (simp add: normalizeSettingsKeyAsPath_def trim_char_def no_double_fix path_normal_def)
qed

lemma normalize_idem [simp]:
  "normalizeSettingsKeyAsPath (normalizeSettingsKeyAsPath p) = normalizeSettingsKeyAsPath p"
  by (rule normal_fix [OF normalize_normal])

lemma normalize_fix_iff: "normalizeSettingsKeyAsPath p = p \<longleftrightarrow> path_normal p"
  using normal_fix [of p] normalize_normal [of p] by auto

section \<open>What path normalization does to the map\<close>

lemma pathsToNormalize_eq:
  "gmap_ok m \<Longrightarrow> pathsToNormalize (Some m) = filter (\<lambda>p. \<not> path_normal p) (gkeys m)"
proof -
  have *: "fold (\<lambda>(p, v) acc. if length (normalizeSettingsKeyAsPath p) \<noteq> length p then acc @ [p] else acc)
      kvs acc = acc @ filter (\<lambda>p. \<not> path_normal p) (map fst kvs)" for kvs :: settings and acc
    by (induction kvs arbitrary: acc)
      (auto simp: normalize_same_length_iff normalize_fix_iff)
  assume "gmap_ok m"
  then show ?thesis using * [of m "[]"]
    by (simp add: pathsToNormalize_def Settings_Walk_Some)
qed

lemma fold_set_normalized:
  assumes "\<forall>p \<in> set ps. \<not> path_normal p \<and> gget m0 p \<noteq> None"
    and "\<forall>p. \<not> path_normal p \<longrightarrow> gget m p = gget m0 p"
  shows "fold set_normalized ps (Some m)
    = Some (fold (\<lambda>(k, v). gput k v) (map (\<lambda>p. (normalizeSettingsKeyAsPath p, the (gget m0 p))) ps) m)"
  using assms
proof (induction ps arbitrary: m)
  case Nil
  then show ?case by simp
next
  case (Cons p ps)
  then obtain v where v: "gget m0 p = Some v" by auto
  let ?m = "gput (normalizeSettingsKeyAsPath p) v m"
  have "\<forall>q. \<not> path_normal q \<longrightarrow> gget ?m q = gget m0 q"
    using Cons.prems(2) normalize_normal [of p] by (auto simp: gmap_simps)
  then show ?case using Cons v by (simp add: set_normalized_def)
qed

lemma fold_Settings_Delete:
  "fold Settings_Delete ps (Some m) = Some (fold gdel ps m)"
  by (induction ps arbitrary: m)
    (auto simp: Settings_Delete_def AList.delete_id gget_None_iff)

lemma normalizePaths_get:
  assumes ok: "gmap_ok m"
  shows "\<exists>m'. normalizePaths (Some m) = Some m' \<and> gmap_ok m' \<and>
    gget m' = (gget m ++ map_of (rev (map (\<lambda>p. (normalizeSettingsKeyAsPath p, the (gget m p)))
        (filter (\<lambda>p. \<not> path_normal p) (gkeys m))))) |` {k. path_normal k}"
proof (cases "m = []")
  case True
  then show ?thesis by (simp add: normalizePaths_def Settings_Len_def fun_eq_iff restrict_map_def)
next
  case False
  let ?ps = "filter (\<lambda>p. \<not> path_normal p) (gkeys m)"
  let ?kvs = "map (\<lambda>p. (normalizeSettingsKeyAsPath p, the (gget m p))) ?ps"
  let ?m1 = "fold (\<lambda>(k, v). gput k v) ?kvs m"
  let ?m2 = "fold gdel ?ps ?m1"
  have g1: "gget ?m1 = gget m ++ map_of (rev ?kvs)" by (rule gm.get_fold_put)
  have g2: "gget ?m2 = gget ?m1 |` (- set ?ps)" by (rule gm.get_fold_del)
  have "\<forall>p \<in> set ?ps. gget m p \<noteq> None"
    unfolding gget_None_iff by simp
  then have "fold set_normalized ?ps (Some m) = Some ?m1"
    by (intro fold_set_normalized) auto
  then have res: "normalizePaths (Some m) = Some ?m2"
    using False by (simp add: normalizePaths_def Settings_Len_def pathsToNormalize_eq [OF ok]
        fold_Settings_Delete)
  have "gget ?m2 k = (gget ?m1 |` {k. path_normal k}) k" for k
  proof (cases "path_normal k")
    case True
    then show ?thesis by (simp add: g2 restrict_map_def)
  next
    case False
    have "gget ?m2 k = None"
    proof (cases "k \<in> set (gkeys m)")
      case True
      with False show ?thesis by (simp add: g2 restrict_map_def)
    next
      case notin: False
      have "map_of (rev ?kvs) k = None"
        using False normalize_normal by (auto simp: map_of_eq_None_iff)
      moreover have "gget m k = None" using notin by (simp add: gget_None_iff)
      ultimately show ?thesis by (simp add: g2 g1 restrict_map_def map_add_def)
    qed
    with False show ?thesis by simp
  qed
  then have "gget ?m2 = gget ?m1 |` {k. path_normal k}" by (rule ext)
  then have "gget ?m2 = (gget m ++ map_of (rev ?kvs)) |` {k. path_normal k}" unfolding g1 .
  moreover have "gmap_ok ?m2" by (intro gm.inv_fold_del gm.inv_fold_put ok)
  ultimately show ?thesis using res by (intro exI [of _ ?m2]) (rule conjI | assumption)+
qed

text \<open>
  Path normalization leaves only normalized paths (no empty component, no slash at either end);
  each remaining value was stored under a path that normalizes to its key, no path of the input is
  lost, and a path that no other path collides with keeps its value.
\<close>

theorem normalizePaths_correct:
  assumes ok: "gmap_ok m"
  shows "\<exists>m'. normalizePaths (Some m) = Some m' \<and> gmap_ok m' \<and>
    (\<forall>k v. gget m' k = Some v \<longrightarrow>
       path_normal k \<and> (\<exists>p. normalizeSettingsKeyAsPath p = k \<and> gget m p = Some v)) \<and>
    (\<forall>p v. gget m p = Some v \<longrightarrow>
       gget m' (normalizeSettingsKeyAsPath p) \<noteq> None \<and>
       ((\<forall>q. gget m q \<noteq> None \<and> normalizeSettingsKeyAsPath q = normalizeSettingsKeyAsPath p \<longrightarrow> q = p)
          \<longrightarrow> gget m' (normalizeSettingsKeyAsPath p) = Some v))"
proof -
  let ?n = normalizeSettingsKeyAsPath
  let ?ps = "filter (\<lambda>p. \<not> path_normal p) (gkeys m)"
  let ?r = "map_of (rev (map (\<lambda>p. (?n p, the (gget m p))) ?ps))"
  obtain m' where m': "normalizePaths (Some m) = Some m'" "gmap_ok m'"
      and g: "gget m' = (gget m ++ ?r) |` {k. path_normal k}"
    using normalizePaths_get [OF ok] by blast
  have rSome: "\<exists>p. ?n p = k \<and> gget m p = Some v" if "?r k = Some v" for k v
    using map_of_SomeD [OF that] gget_None_iff [of m] by fastforce
  have rNone: "?r k = None \<longleftrightarrow> (\<forall>p. gget m p \<noteq> None \<and> \<not> path_normal p \<longrightarrow> ?n p \<noteq> k)" for k
    unfolding map_of_eq_None_iff gget_None_iff by (auto simp: image_image)
  have origin: "path_normal k \<and> (\<exists>p. ?n p = k \<and> gget m p = Some v)" if "gget m' k = Some v" for k v
  proof -
    from that have n: "path_normal k" by (auto simp: g restrict_map_def split: if_splits)
    with that have "?r k = Some v \<or> gget m k = Some v"
      by (auto simp: g restrict_map_def map_add_def split: option.splits)
    with n rSome show ?thesis using normal_fix by blast
  qed
  have kept: "gget m' (?n p) \<noteq> None" if "gget m p = Some v" for p v
  proof (cases "path_normal p")
    case True
    with that show ?thesis
      by (auto simp: g restrict_map_def map_add_def normal_fix split: option.splits)
  next
    case False
    with that have "?r (?n p) \<noteq> None" unfolding rNone by blast
    then show ?thesis
      by (auto simp: g restrict_map_def map_add_def normalize_normal split: option.splits)
  qed
  have exact: "gget m' (?n p) = Some v"
    if v: "gget m p = Some v"
      and uniq: "\<forall>q. gget m q \<noteq> None \<and> ?n q = ?n p \<longrightarrow> q = p" for p v
  proof -
    obtain w where w: "gget m' (?n p) = Some w" using kept [OF v] by blast
    with origin obtain q where "?n q = ?n p" "gget m q = Some w" by blast
    with uniq v w show ?thesis by (metis option.distinct(1) option.inject)
  qed
  show ?thesis using m' origin kept exact by blast
qed

theorem normalizePaths_correct_witness:
  "\<exists>m'. normalizePaths (Some [(''//users.d///a.xml/'', NewSettingScalar ''1''), (''b'', NewSettingScalar ''2'')])
      = Some m' \<and> gget m' ''users.d/a.xml'' = Some (NewSettingScalar ''1'')"
proof -
  let ?m = "[(''//users.d///a.xml/'', NewSettingScalar ''1''), (''b'', NewSettingScalar ''2'')]"
  have ok: "gmap_ok ?m" by (simp add: gmap_ok_def)
  have n: "normalizeSettingsKeyAsPath ''//users.d///a.xml/'' = ''users.d/a.xml''"
    "normalizeSettingsKeyAsPath ''b'' = ''b''" by code_simp+
  obtain m' where m': "normalizePaths (Some ?m) = Some m'"
    and keep: "\<forall>p v. gget ?m p = Some v \<longrightarrow> gget m' (normalizeSettingsKeyAsPath p) \<noteq> None \<and>
       ((\<forall>q. gget ?m q \<noteq> None \<and> normalizeSettingsKeyAsPath q = normalizeSettingsKeyAsPath p \<longrightarrow> q = p)
          \<longrightarrow> gget m' (normalizeSettingsKeyAsPath p) = Some v)"
    using normalizePaths_correct [OF ok] by blast
  note keep
  moreover have "\<forall>q. gget ?m q \<noteq> None \<and>
      normalizeSettingsKeyAsPath q = normalizeSettingsKeyAsPath ''//users.d///a.xml/''
      \<longrightarrow> q = ''//users.d///a.xml/''"
    using n by auto
  moreover have "gget ?m ''//users.d///a.xml/'' = Some (NewSettingScalar ''1'')" by simp
  ultimately have "gget m' (normalizeSettingsKeyAsPath ''//users.d///a.xml/'') = Some (NewSettingScalar ''1'')"
    by blast
  with n(1) m' show ?thesis by (intro exI [of _ m']) simp
qed


section \<open>Merging, filtering and the JSON form\<close>

definition entries :: "('k, 'v) gmap \<Rightarrow> ('k \<times> 'v) list" where
  "entries m = map (\<lambda>k. (k, the (gget m k))) (gkeys m)"

lemma set_entries: "(k, v) \<in> set (entries m) \<longleftrightarrow> gget m k = Some v"
  using gget_None_iff [of m k] by (force simp: entries_def)

lemma map_of_same_pairs:
  assumes "\<And>v. (k, v) \<in> set kvs \<longleftrightarrow> r = Some v"
  shows "map_of kvs k = r"
proof (cases r)
  case None
  with assms have "\<forall>v. (k, v) \<notin> set kvs" by simp
  then show ?thesis using None map_of_SomeD [of kvs k] by (cases "map_of kvs k") auto
next
  case (Some v)
  with assms have v: "(k, v) \<in> set kvs" "\<And>w. (k, w) \<in> set kvs \<Longrightarrow> w = v" by auto
  then obtain w where "map_of kvs k = Some w" by (metis weak_map_of_SomeI)
  then show ?thesis using v(2) [OF map_of_SomeD] Some by simp
qed

lemma map_of_entries [simp]:
  "map_of (entries m) = gget m" "map_of (rev (entries m)) = gget m"
  by (rule ext, rule map_of_same_pairs, simp add: set_entries)+

lemma map_of_rev_filter_entries:
  "map_of (rev (filter (\<lambda>(k, v). P k v) (entries m))) k
     = (case gget m k of Some v \<Rightarrow> if P k v then Some v else None | None \<Rightarrow> None)"
  by (rule map_of_same_pairs) (auto simp: set_entries split: option.split)

lemma Settings_Walk_entries:
  "Settings_Walk f (Some m) s = fold (\<lambda>(k, v). f k (Some v)) (entries m) s"
proof -
  have "set ks \<subseteq> set (gkeys m) \<Longrightarrow> fold (\<lambda>nm. f nm (gget m nm)) ks s
      = fold (\<lambda>(k, v). f k (Some v)) (map (\<lambda>k. (k, the (gget m k))) ks) s" for ks
  proof (induction ks arbitrary: s)
    case Nil
    then show ?case by simp
  next
    case (Cons k ks)
    then have "gget m k \<noteq> None" unfolding gget_None_iff by simp
    then have "Some (the (gget m k)) = gget m k" by simp
    with Cons show ?case by simp
  qed
  then show ?thesis by (simp add: Settings_Walk_def Settings_Len_def entries_def)
qed

lemma fold_Some:
  assumes "\<And>x m. f x (Some m) = Some (g x m)"
  shows "fold f xs (Some m) = Some (fold g xs m)"
  by (induction xs arbitrary: m) (auto simp: assms)

lemma Settings_Len_0: "Settings_Len st = 0 \<longleftrightarrow> st = None \<or> st = Some []"
  by (cases st) (auto simp: Settings_Len_def)

lemma Settings_Get_omap: "Settings_Get st = omap st"
  by (cases st) (simp_all add: fun_eq_iff)

lemma start_Some: "(case st of None \<Rightarrow> Some NewSettings | Some m \<Rightarrow> Some m)
    = Some (case st of None \<Rightarrow> [] | Some m \<Rightarrow> m)"
  by (cases st) (simp_all add: NewSettings_def)

lemma Settings_MergeFrom_get:
  "Settings_Get (Settings_MergeFrom st src) = Settings_Get src ++ Settings_Get st"
proof (cases "Settings_Len src = 0")
  case True
  then show ?thesis
    by (auto simp: Settings_MergeFrom_def Settings_Len_0 fun_eq_iff map_add_def split: option.split)
next
  case False
  then obtain m where m: "src = Some m" by (cases src) (auto simp: Settings_Len_def)
  let ?s = "case st of None \<Rightarrow> [] | Some m \<Rightarrow> m"
  have "fold (\<lambda>(k, v). Settings_SetIfNotExists k v) (entries m) (Some ?s)
      = Some (fold (\<lambda>(k, v) m. if gget m k = None then gput k v m else m) (entries m) ?s)"
    by (rule fold_Some) (auto simp: Settings_SetIfNotExists_def)
  then have "Settings_MergeFrom st src
      = Some (fold (\<lambda>(k, v) m. if gget m k = None then gput k v m else m) (entries m) ?s)"
    using False m by (simp add: Settings_MergeFrom_def Settings_Walk_entries start_Some)
  then show ?thesis
    by (simp add: gm.get_fold_put_new m Settings_Get_omap)
qed

text \<open>
 \<open>MergeFrom\<close> fills in what is missing and never overwrites: after the merge a name has the
  value it had before, and the source's value when it had none; nil on either side included.
\<close>

theorem Settings_MergeFrom_lookup:
  "Settings_Get (Settings_MergeFrom st src) = Settings_Get src ++ Settings_Get st"
  by (rule Settings_MergeFrom_get)

text \<open>
 \<open>MergeFromCB\<close> overwrites: every accepted setting of the source replaces the value at its
  name, and every other name keeps what it had.
\<close>

theorem Settings_MergeFromCB_lookup:
  "Settings_Get (Settings_MergeFromCB accept st src) nm =
     (case Settings_Get src nm of
        Some v \<Rightarrow> if accept nm v then Some v else Settings_Get st nm
      | None \<Rightarrow> Settings_Get st nm)"
proof (cases "Settings_Len src = 0")
  case True
  then show ?thesis by (auto simp: Settings_MergeFromCB_def Settings_Len_0)
next
  case False
  then obtain m where m: "src = Some m" by (cases src) (auto simp: Settings_Len_def)
  let ?s = "case st of None \<Rightarrow> [] | Some m \<Rightarrow> m"
  have "fold (\<lambda>(k, v) s. if accept k v then Settings_Set k v s else s) (entries m) (Some ?s)
      = Some (fold (\<lambda>(k, v) m. if accept k v then gput k v m else m) (entries m) ?s)"
    by (rule fold_Some) auto
  then have "Settings_MergeFromCB accept st src
      = Some (fold (\<lambda>(k, v) m. if accept k v then gput k v m else m) (entries m) ?s)"
    using False m by (simp add: Settings_MergeFromCB_def Settings_Walk_entries start_Some)
  then show ?thesis
    by (simp add: gm.get_fold_put_if m Settings_Get_omap map_add_def map_of_rev_filter_entries
        split: option.split)
qed

lemma Settings_Filter_lookup:
  "Settings_Get (Settings_Filter inc exc un st) p
     = (if filter_accepts inc exc un p then Settings_Get st p else None)"
proof (cases "Settings_Len st = 0")
  case True
  then show ?thesis by (auto simp: Settings_Filter_def Settings_Len_0 NewSettings_def)
next
  case False
  then obtain m where m: "st = Some m" by (cases st) (auto simp: Settings_Len_def)
  let ?P = "\<lambda>k (v::setting). filter_accepts inc exc un k"
  let ?f = "\<lambda>(k, v) res. if filter_accepts inc exc un k then
      (case Settings_Get (Some m) k of Some v \<Rightarrow> Settings_Set k v res | None \<Rightarrow> res) else res"
  have "set kvs \<subseteq> set (entries m) \<Longrightarrow> fold ?f kvs (Some s)
      = Some (fold (\<lambda>(k, v) m. if ?P k v then gput k v m else m) kvs s)" for kvs s
    by (induction kvs arbitrary: s) (auto simp: set_entries)
  from this [of "entries m" "[]"] have "Settings_Filter inc exc un st
      = Some (fold (\<lambda>(k, v) m. if ?P k v then gput k v m else m) (entries m) [])"
    using False m by (simp add: Settings_Filter_def Settings_Walk_entries NewSettings_def)
  then show ?thesis
    by (simp add: gm.get_fold_put_if m map_add_def map_of_rev_filter_entries split: option.split)
qed

text \<open>
 Splitting settings by sections loses nothing and duplicates nothing: a setting whose path
  names a known section or no section is in the part filtered for the given sections (with
  unspecified paths) or in the part filtered with the same sections excluded (without them), never in both; a
  path with an unknown section is in neither.
\<close>

theorem Settings_Filter_partition:
  "(Settings_Get (Settings_Filter (Some secs) None True st) p,
    Settings_Get (Settings_Filter None (Some secs) False st) p) =
     (case getSectionFromPath p of
        Inr s \<Rightarrow> if s \<in> set secs then (Settings_Get st p, None) else (None, Settings_Get st p)
      | Inl NoSectionSpecified \<Rightarrow> (Settings_Get st p, None)
      | Inl _ \<Rightarrow> (None, None))"
  by (auto simp: Settings_Filter_lookup filter_accepts_def split: sum.split settings_error.split)

lemma NewSetting_simps [simp]:
  "isScalar (NewSettingScalar x)" "\<not> isScalar (NewSettingVector v)"
  "scalar (NewSettingScalar x) = x" "vector (NewSettingVector v) = v"
  by (simp_all add: NewSettingScalar_def NewSettingVector_def)

lemma unmarshal_marshal_setting:
  assumes "setting_ok s"
  shows "unmarshal_entry conv (nm, marshal_setting s) (Some m) =
     Some (if isScalar s \<or> vector s \<noteq> [] then gput nm s m else m)"
proof (cases "isScalar s")
  case True
  with assms have "s = NewSettingScalar (scalar s)"
    unfolding setting_ok_def by (metis NewSetting_simps(2))
  with True show ?thesis by (simp add: unmarshal_entry_def marshal_setting_def)
next
  case False
  with assms have s: "s = NewSettingVector (vector s)"
    unfolding setting_ok_def by (metis NewSetting_simps(1))
  have "List.map_filter (unmarshalScalar conv) (map UString v) = v" for v
    by (induction v) (auto simp: List.map_filter_simps)
  with False s show ?thesis
    by (simp add: unmarshal_entry_def marshal_setting_def)
qed



section \<open>Numbers\<close>

lemma frac_num_negative: "mantissa x < 0 \<Longrightarrow> f64_frac_num x \<le> 0"
proof -
  assume neg: "mantissa x < 0"
  obtain n k where nk: "f64_fraction x = (n, k)" by (cases "f64_fraction x")
  have n: "n < 0"
    using neg nk by (cases x) (auto split: if_splits intro: mult_neg_pos)
  have "- n mod 2 ^ k = - n - 2 ^ k * (- n div 2 ^ k)" by (simp add: minus_mult_div_eq_mod)
  then have "- (\<bar>n\<bar> mod 2 ^ k) = n - (- (\<bar>n\<bar> div 2 ^ k)) * 2 ^ k"
    using n by (simp add: mult.commute)
  also have "\<dots> = f64_frac_num x" using nk n by (simp add: f64_frac_num_def f64_trunc_def)
  finally show ?thesis by (metis neg_le_0_iff_le pos_mod_sign zero_less_numeral zero_less_power)
qed

text \<open>
 The rounding threshold is compared with the signed fraction, so a negative number always
  loses its fractional part: \<open>-1.5\<close> in a manifest becomes the setting \<open>"-1"\<close>.
\<close>

theorem unmarshalScalar_negative_truncates:
  assumes "mantissa x < 0"
  shows "unmarshalScalar conv (UFloat x) = Some (Itoa (int64_of_f64 conv x))"
proof -
  have "f64_frac_num x * 2 ^ 60 \<le> 0" using frac_num_negative [OF assms] by simp
  also have "(0::int) < 1152921504606847 * 2 ^ snd (f64_fraction x)" by simp
  finally show ?thesis by (simp add: frac_above_threshold_def)
qed

theorem unmarshalScalar_negative_truncates_witness:
  "unmarshalScalar (\<lambda>i. i) (UFloat (Dyadic (- 3) (- 1))) = Some ''-1''
     \<and> unmarshalScalar (\<lambda>i. i) (UFloat (Dyadic 3 (- 1))) = Some ''1.500000''"
proof -
  have "mantissa (Dyadic (- 3) (- 1)) < 0" by simp
  from unmarshalScalar_negative_truncates [OF this, of "\<lambda>i. i"]
  have "unmarshalScalar (\<lambda>i. i) (UFloat (Dyadic (- 3) (- 1)))
      = Some (Itoa (int64_of_f64 (\<lambda>i. i) (Dyadic (- 3) (- 1))))" .
  moreover have "Itoa (int64_of_f64 (\<lambda>i. i) (Dyadic (- 3) (- 1))) = ''-1''"
    by (simp add: int64_of_f64_def f64_trunc_def int64_ok_def Itoa_eval)
  moreover have "unmarshalScalar (\<lambda>i. i) (UFloat (Dyadic 3 (- 1))) = Some ''1.500000''"
    by (simp add: frac_above_threshold_def f64_frac_num_def f64_trunc_def Itoa_eval Sprintf_f_def
        round_half_even_def pad_left_zeros_def)
  ultimately show ?thesis by simp
qed

lemma fetchPort_scalar:
  "Settings_Get st nm = Some (NewSettingScalar (Itoa i)) \<Longrightarrow> int64_ok i \<Longrightarrow> fetchPort st nm = int32_of i"
  by (simp add: fetchPort_def getValueAsInt_def getValueAsScalar_def Atoi_Itoa)

lemma fetchPort_range: "- (2 ^ 31) \<le> fetchPort st nm" "fetchPort st nm < 2 ^ 31"
  by (simp_all only: fetchPort_def int32_of_range)

end
