(* ===== verification/ChiMerge.thy ===== *)
theory ChiMerge
  imports ChiSettings
begin

text \<open>
  Merging the sections of a specification: \<open>pkg/apis/clickhouse.radondb.com/v1/types.go\<close>
  (\<open>ChiTemplating\<close>, \<open>ChiObjectsCleanup\<close>, \<open>ChiCleanup\<close>, \<open>ChiReconciling\<close>), \<open>type_template_names.go\<close>,
  \<open>type_defaults.go\<close>, \<open>type_distributed_ddl.go\<close>, \<open>type_zookeeper.go\<close>, \<open>type_templates.go\<close>,
  \<open>type_config_chi.go\<close>, and the functions of \<open>pkg/model/normalizer.go\<close> that normalize these sections.

  Every section is a pointer in Go and an \<open>option\<close> here. A merge is one of two kinds: fill the empty
  fields of the receiver, or override the receiver by the non-empty fields of the argument. The
  contract of both, and what follows from it for a stack of layers (the defaults of the
  installation, the cluster, the shard, the host; or the templates under an installation), is the
  locale \<open>layered\<close>; each section is an instance of it.
\<close>

section \<open>The contract of a merge\<close>

text \<open>\<open>MergeType\<close> is a Go string with two constants; \<open>MergeTypeOther\<close> is any other string.\<close>

datatype MergeType =
    MergeTypeFillEmptyValues
  | MergeTypeOverrideByNonEmptyValues
  | MergeTypeOther

fun first_nonempty :: "'v \<Rightarrow> 'v list \<Rightarrow> 'v" where
  "first_nonempty e [] = e"
| "first_nonempty e (x # xs) = (if x = e then first_nonempty e xs else x)"

lemma first_nonempty_append:
  "first_nonempty e (xs @ ys) = (if first_nonempty e xs = e then first_nonempty e ys else first_nonempty e xs)"
  by (induction xs) auto

lemma first_nonempty_in: "first_nonempty e xs \<noteq> e \<Longrightarrow> first_nonempty e xs \<in> set xs"
  by (induction xs) (auto split: if_splits)

definition fill_empty :: "'v \<Rightarrow> 'v \<Rightarrow> 'v \<Rightarrow> 'v" where
  "fill_empty e x y = (if x = e then y else x)"

definition override_by :: "'v \<Rightarrow> 'v \<Rightarrow> 'v \<Rightarrow> 'v" where
  "override_by e x y = (if y \<noteq> e then y else x)"

text \<open>One field of a merge of the given kind: the \<open>switch _type\<close> of every \<open>MergeFrom\<close>.\<close>

definition merge_field :: "'v \<Rightarrow> MergeType \<Rightarrow> 'v \<Rightarrow> 'v \<Rightarrow> 'v" where
  "merge_field e t x y = (case t of
     MergeTypeFillEmptyValues \<Rightarrow> fill_empty e x y
   | MergeTypeOverrideByNonEmptyValues \<Rightarrow> override_by e x y
   | MergeTypeOther \<Rightarrow> x)"

lemma merge_field_simps [simp]:
  "merge_field e MergeTypeFillEmptyValues x y = fill_empty e x y"
  "merge_field e MergeTypeOverrideByNonEmptyValues x y = override_by e x y"
  "merge_field e MergeTypeOther x y = x"
  by (simp_all add: merge_field_def)

lemma merge_field_empty [simp]: "merge_field e t x e = x"
  by (cases t) (simp_all add: fill_empty_def override_by_def)

locale layered =
  fixes merge :: "MergeType \<Rightarrow> 'a option \<Rightarrow> 'a option \<Rightarrow> 'a option"
    and field :: "'f \<Rightarrow> 'a option \<Rightarrow> 'v"
    and empty :: 'v
  assumes field_None: "field f None = empty"
    and merge_None: "merge t d None = d"
    and field_merge: "field f (merge t d s) = merge_field empty t (field f d) (field f s)"
begin

lemma fill_override: "field f (merge MergeTypeOverrideByNonEmptyValues d s)
    = field f (merge MergeTypeFillEmptyValues s d)"
  by (simp add: field_merge fill_empty_def override_by_def)

lemma fill_layers:
  "field f (fold (\<lambda>s d. merge MergeTypeFillEmptyValues d s) ss d)
     = first_nonempty empty (field f d # map (field f) ss)"
  by (induction ss arbitrary: d) (auto simp: field_merge fill_empty_def)

lemma override_layers:
  "field f (fold (\<lambda>s d. merge MergeTypeOverrideByNonEmptyValues d s) ss d)
     = first_nonempty empty (rev (field f d # map (field f) ss))"
  by (induction ss arbitrary: d)
    (auto simp: field_merge override_by_def first_nonempty_append)

lemma merge_idem: "field f (merge t d d) = field f d"
  by (cases t) (simp_all add: field_merge fill_empty_def override_by_def)

lemma merge_assoc:
  "field f (merge t (merge t a b) c) = field f (merge t a (merge t b c))"
  by (cases t) (simp_all add: field_merge fill_empty_def override_by_def)

end

section \<open>Template names\<close>

record ChiTemplateNames =
  tn_HostTemplate :: string
  tn_PodTemplate :: string
  tn_DataVolumeClaimTemplate :: string
  tn_LogVolumeClaimTemplate :: string
  tn_ServiceTemplate :: string
  tn_ClusterServiceTemplate :: string
  tn_ShardServiceTemplate :: string
  tn_ReplicaServiceTemplate :: string
  tn_VolumeClaimTemplate :: string

definition NewChiTemplateNames :: ChiTemplateNames where
  "NewChiTemplateNames = \<lparr>tn_HostTemplate = '''', tn_PodTemplate = '''',
     tn_DataVolumeClaimTemplate = '''', tn_LogVolumeClaimTemplate = '''', tn_ServiceTemplate = '''',
     tn_ClusterServiceTemplate = '''', tn_ShardServiceTemplate = '''',
     tn_ReplicaServiceTemplate = '''', tn_VolumeClaimTemplate = ''''\<rparr>"

text \<open>The getters \<open>GetHostTemplate\<close>, ... return the empty string on a nil receiver; the predicates
  \<open>HasHostTemplate\<close>, ... compare the length of the same field with 0.\<close>

definition nil_or :: "'b \<Rightarrow> ('a \<Rightarrow> 'b) \<Rightarrow> 'a option \<Rightarrow> 'b" where
  "nil_or e g r = (case r of None \<Rightarrow> e | Some x \<Rightarrow> g x)"

lemma nil_or_simps [simp]: "nil_or e g None = e" "nil_or e g (Some x) = g x"
  by (simp_all add: nil_or_def)

definition HasHostTemplate :: "ChiTemplateNames option \<Rightarrow> bool" where
  "HasHostTemplate t = (case t of None \<Rightarrow> False | Some n \<Rightarrow> length (tn_HostTemplate n) > 0)"

definition GetHostTemplate :: "ChiTemplateNames option \<Rightarrow> string" where
  "GetHostTemplate t = (case t of None \<Rightarrow> '''' | Some n \<Rightarrow> tn_HostTemplate n)"

definition HasPodTemplate :: "ChiTemplateNames option \<Rightarrow> bool" where
  "HasPodTemplate t = (case t of None \<Rightarrow> False | Some n \<Rightarrow> length (tn_PodTemplate n) > 0)"

definition GetPodTemplate :: "ChiTemplateNames option \<Rightarrow> string" where
  "GetPodTemplate t = (case t of None \<Rightarrow> '''' | Some n \<Rightarrow> tn_PodTemplate n)"

definition HasDataVolumeClaimTemplate :: "ChiTemplateNames option \<Rightarrow> bool" where
  "HasDataVolumeClaimTemplate t =
     (case t of None \<Rightarrow> False | Some n \<Rightarrow> length (tn_DataVolumeClaimTemplate n) > 0)"

definition GetDataVolumeClaimTemplate :: "ChiTemplateNames option \<Rightarrow> string" where
  "GetDataVolumeClaimTemplate t = (case t of None \<Rightarrow> '''' | Some n \<Rightarrow> tn_DataVolumeClaimTemplate n)"

definition HasLogVolumeClaimTemplate :: "ChiTemplateNames option \<Rightarrow> bool" where
  "HasLogVolumeClaimTemplate t =
     (case t of None \<Rightarrow> False | Some n \<Rightarrow> length (tn_LogVolumeClaimTemplate n) > 0)"

definition GetLogVolumeClaimTemplate :: "ChiTemplateNames option \<Rightarrow> string" where
  "GetLogVolumeClaimTemplate t = (case t of None \<Rightarrow> '''' | Some n \<Rightarrow> tn_LogVolumeClaimTemplate n)"

definition HandleDeprecatedFields :: "ChiTemplateNames option \<Rightarrow> ChiTemplateNames option" where
  "HandleDeprecatedFields t = (case t of
     None \<Rightarrow> None
   | Some n \<Rightarrow>
       Some (if tn_DataVolumeClaimTemplate n = ''''
             then n\<lparr>tn_DataVolumeClaimTemplate := tn_VolumeClaimTemplate n\<rparr> else n))"

definition mergeFromFillEmptyValues :: "ChiTemplateNames \<Rightarrow> ChiTemplateNames \<Rightarrow> ChiTemplateNames" where
  "mergeFromFillEmptyValues d s =
    \<lparr>tn_HostTemplate = (if tn_HostTemplate d = '''' then tn_HostTemplate s else tn_HostTemplate d),
     tn_PodTemplate = (if tn_PodTemplate d = '''' then tn_PodTemplate s else tn_PodTemplate d),
     tn_DataVolumeClaimTemplate =
       (if tn_DataVolumeClaimTemplate d = '''' then tn_DataVolumeClaimTemplate s
        else tn_DataVolumeClaimTemplate d),
     tn_LogVolumeClaimTemplate =
       (if tn_LogVolumeClaimTemplate d = '''' then tn_LogVolumeClaimTemplate s
        else tn_LogVolumeClaimTemplate d),
     tn_ServiceTemplate =
       (if tn_ServiceTemplate d = '''' then tn_ServiceTemplate s else tn_ServiceTemplate d),
     tn_ClusterServiceTemplate =
       (if tn_ClusterServiceTemplate d = '''' then tn_ClusterServiceTemplate s
        else tn_ClusterServiceTemplate d),
     tn_ShardServiceTemplate =
       (if tn_ShardServiceTemplate d = '''' then tn_ShardServiceTemplate s
        else tn_ShardServiceTemplate d),
     tn_ReplicaServiceTemplate =
       (if tn_ReplicaServiceTemplate d = '''' then tn_ReplicaServiceTemplate s
        else tn_ReplicaServiceTemplate d),
     tn_VolumeClaimTemplate =
       (if tn_VolumeClaimTemplate d = '''' then tn_VolumeClaimTemplate s
        else tn_VolumeClaimTemplate d)\<rparr>"

definition mergeFromOverwriteByNonEmptyValues ::
    "ChiTemplateNames \<Rightarrow> ChiTemplateNames \<Rightarrow> ChiTemplateNames" where
  "mergeFromOverwriteByNonEmptyValues d s =
    \<lparr>tn_HostTemplate = (if tn_HostTemplate s \<noteq> '''' then tn_HostTemplate s else tn_HostTemplate d),
     tn_PodTemplate = (if tn_PodTemplate s \<noteq> '''' then tn_PodTemplate s else tn_PodTemplate d),
     tn_DataVolumeClaimTemplate =
       (if tn_DataVolumeClaimTemplate s \<noteq> '''' then tn_DataVolumeClaimTemplate s
        else tn_DataVolumeClaimTemplate d),
     tn_LogVolumeClaimTemplate =
       (if tn_LogVolumeClaimTemplate s \<noteq> '''' then tn_LogVolumeClaimTemplate s
        else tn_LogVolumeClaimTemplate d),
     tn_ServiceTemplate =
       (if tn_ServiceTemplate s \<noteq> '''' then tn_ServiceTemplate s else tn_ServiceTemplate d),
     tn_ClusterServiceTemplate =
       (if tn_ClusterServiceTemplate s \<noteq> '''' then tn_ClusterServiceTemplate s
        else tn_ClusterServiceTemplate d),
     tn_ShardServiceTemplate =
       (if tn_ShardServiceTemplate s \<noteq> '''' then tn_ShardServiceTemplate s
        else tn_ShardServiceTemplate d),
     tn_ReplicaServiceTemplate =
       (if tn_ReplicaServiceTemplate s \<noteq> '''' then tn_ReplicaServiceTemplate s
        else tn_ReplicaServiceTemplate d),
     tn_VolumeClaimTemplate =
       (if tn_VolumeClaimTemplate s \<noteq> '''' then tn_VolumeClaimTemplate s
        else tn_VolumeClaimTemplate d)\<rparr>"

definition ChiTemplateNames_MergeFrom ::
    "MergeType \<Rightarrow> ChiTemplateNames option \<Rightarrow> ChiTemplateNames option \<Rightarrow> ChiTemplateNames option" where
  "ChiTemplateNames_MergeFrom t d s = (case s of
     None \<Rightarrow> d
   | Some s' \<Rightarrow>
       let d' = (case d of None \<Rightarrow> NewChiTemplateNames | Some d' \<Rightarrow> d') in
       Some (case t of
         MergeTypeFillEmptyValues \<Rightarrow> mergeFromFillEmptyValues d' s'
       | MergeTypeOverrideByNonEmptyValues \<Rightarrow> mergeFromOverwriteByNonEmptyValues d' s'
       | MergeTypeOther \<Rightarrow> d'))"

text \<open>The nine fields, as values, so that the contract speaks of any of them.\<close>

datatype tn_field = TnHost | TnPod | TnData | TnLog | TnService | TnCluster | TnShard | TnReplica | TnVolume

fun tn_get :: "tn_field \<Rightarrow> ChiTemplateNames \<Rightarrow> string" where
  "tn_get TnHost n = tn_HostTemplate n"
| "tn_get TnPod n = tn_PodTemplate n"
| "tn_get TnData n = tn_DataVolumeClaimTemplate n"
| "tn_get TnLog n = tn_LogVolumeClaimTemplate n"
| "tn_get TnService n = tn_ServiceTemplate n"
| "tn_get TnCluster n = tn_ClusterServiceTemplate n"
| "tn_get TnShard n = tn_ShardServiceTemplate n"
| "tn_get TnReplica n = tn_ReplicaServiceTemplate n"
| "tn_get TnVolume n = tn_VolumeClaimTemplate n"

abbreviation tn_field :: "tn_field \<Rightarrow> ChiTemplateNames option \<Rightarrow> string" where
  "tn_field f \<equiv> nil_or '''' (tn_get f)"

lemma tn_get_new [simp]: "tn_get f NewChiTemplateNames = ''''"
  by (cases f) (simp_all add: NewChiTemplateNames_def)

lemma tn_get_merge [simp]:
  "tn_get f (mergeFromFillEmptyValues d s) = fill_empty '''' (tn_get f d) (tn_get f s)"
  "tn_get f (mergeFromOverwriteByNonEmptyValues d s) = override_by '''' (tn_get f d) (tn_get f s)"
  by (cases f; simp add: mergeFromFillEmptyValues_def mergeFromOverwriteByNonEmptyValues_def
        fill_empty_def override_by_def)+

interpretation tn: layered ChiTemplateNames_MergeFrom "\<lambda>f. tn_field f" "''''"
proof
  show "\<And>f t d s. tn_field f (ChiTemplateNames_MergeFrom t d s)
      = merge_field '''' t (tn_field f d) (tn_field f s)"
    by (auto simp: ChiTemplateNames_MergeFrom_def Let_def split: option.split MergeType.split)
qed (simp_all add: ChiTemplateNames_MergeFrom_def)

lemma tn_field_HandleDeprecatedFields:
  "tn_field f (HandleDeprecatedFields t)
     = (if f = TnData then first_nonempty '''' [tn_field TnData t, tn_field TnVolume t] else tn_field f t)"
  by (cases f) (auto simp: HandleDeprecatedFields_def split: option.split)

section \<open>Templating, cleanup, reconciling\<close>

record ChiTemplating =
  tpl_Policy :: string

definition NewChiTemplating :: ChiTemplating where
  "NewChiTemplating = \<lparr>tpl_Policy = ''''\<rparr>"

definition ChiTemplating_GetPolicy :: "ChiTemplating option \<Rightarrow> string" where
  "ChiTemplating_GetPolicy t = (case t of None \<Rightarrow> '''' | Some t \<Rightarrow> tpl_Policy t)"

definition ChiTemplating_MergeFrom ::
    "MergeType \<Rightarrow> ChiTemplating option \<Rightarrow> ChiTemplating option \<Rightarrow> ChiTemplating option" where
  "ChiTemplating_MergeFrom ty t from = (case from of
     None \<Rightarrow> t
   | Some s \<Rightarrow>
       let d = (case t of None \<Rightarrow> NewChiTemplating | Some d \<Rightarrow> d) in
       Some (case ty of
         MergeTypeFillEmptyValues \<Rightarrow>
           if tpl_Policy d = '''' then d\<lparr>tpl_Policy := tpl_Policy s\<rparr> else d
       | MergeTypeOverrideByNonEmptyValues \<Rightarrow>
           if tpl_Policy s \<noteq> '''' then d\<lparr>tpl_Policy := tpl_Policy s\<rparr> else d
       | MergeTypeOther \<Rightarrow> d))"

interpretation tpl: layered ChiTemplating_MergeFrom "\<lambda>_::unit. ChiTemplating_GetPolicy" "''''"
  by unfold_locales
    (auto simp: ChiTemplating_MergeFrom_def ChiTemplating_GetPolicy_def NewChiTemplating_def
      fill_empty_def override_by_def Let_def split: option.split MergeType.split)

definition ObjectsCleanupUnspecified :: string where
  "ObjectsCleanupUnspecified = ''Unspecified''"

definition ObjectsCleanupRetain :: string where
  "ObjectsCleanupRetain = ''Retain''"

definition ObjectsCleanupDelete :: string where
  "ObjectsCleanupDelete = ''Delete''"

record ChiObjectsCleanup =
  oc_StatefulSet :: string
  oc_PVC :: string
  oc_ConfigMap :: string
  oc_Service :: string

definition NewChiObjectsCleanup :: ChiObjectsCleanup where
  "NewChiObjectsCleanup =
    \<lparr>oc_StatefulSet = '''', oc_PVC = '''', oc_ConfigMap = '''', oc_Service = ''''\<rparr>"

definition ChiObjectsCleanup_MergeFrom ::
    "MergeType \<Rightarrow> ChiObjectsCleanup option \<Rightarrow> ChiObjectsCleanup option \<Rightarrow> ChiObjectsCleanup option"
where
  "ChiObjectsCleanup_MergeFrom ty c from = (case from of
     None \<Rightarrow> c
   | Some s \<Rightarrow>
       let d = (case c of None \<Rightarrow> NewChiObjectsCleanup | Some d \<Rightarrow> d) in
       Some (case ty of
         MergeTypeFillEmptyValues \<Rightarrow>
          \<lparr>oc_StatefulSet = (if oc_StatefulSet d = '''' then oc_StatefulSet s else oc_StatefulSet d),
           oc_PVC = (if oc_PVC d = '''' then oc_PVC s else oc_PVC d),
           oc_ConfigMap = (if oc_ConfigMap d = '''' then oc_ConfigMap s else oc_ConfigMap d),
           oc_Service = (if oc_Service d = '''' then oc_Service s else oc_Service d)\<rparr>
       | MergeTypeOverrideByNonEmptyValues \<Rightarrow>
          \<lparr>oc_StatefulSet = (if oc_StatefulSet s \<noteq> '''' then oc_StatefulSet s else oc_StatefulSet d),
           oc_PVC = (if oc_PVC s \<noteq> '''' then oc_PVC s else oc_PVC d),
           oc_ConfigMap = (if oc_ConfigMap s \<noteq> '''' then oc_ConfigMap s else oc_ConfigMap d),
           oc_Service = (if oc_Service s \<noteq> '''' then oc_Service s else oc_Service d)\<rparr>
       | MergeTypeOther \<Rightarrow> d))"

definition SetStatefulSet :: "string \<Rightarrow> ChiObjectsCleanup option \<Rightarrow> ChiObjectsCleanup option" where
  "SetStatefulSet v c = map_option (\<lambda>c. c\<lparr>oc_StatefulSet := v\<rparr>) c"

definition SetPVC :: "string \<Rightarrow> ChiObjectsCleanup option \<Rightarrow> ChiObjectsCleanup option" where
  "SetPVC v c = map_option (\<lambda>c. c\<lparr>oc_PVC := v\<rparr>) c"

definition SetConfigMap :: "string \<Rightarrow> ChiObjectsCleanup option \<Rightarrow> ChiObjectsCleanup option" where
  "SetConfigMap v c = map_option (\<lambda>c. c\<lparr>oc_ConfigMap := v\<rparr>) c"

definition SetService :: "string \<Rightarrow> ChiObjectsCleanup option \<Rightarrow> ChiObjectsCleanup option" where
  "SetService v c = map_option (\<lambda>c. c\<lparr>oc_Service := v\<rparr>) c"

datatype oc_field = OcStatefulSet | OcPVC | OcConfigMap | OcService

fun oc_get :: "oc_field \<Rightarrow> ChiObjectsCleanup \<Rightarrow> string" where
  "oc_get OcStatefulSet c = oc_StatefulSet c"
| "oc_get OcPVC c = oc_PVC c"
| "oc_get OcConfigMap c = oc_ConfigMap c"
| "oc_get OcService c = oc_Service c"

abbreviation oc_field :: "oc_field \<Rightarrow> ChiObjectsCleanup option \<Rightarrow> string" where
  "oc_field f \<equiv> nil_or '''' (oc_get f)"

lemma oc_field_MergeFrom:
  "oc_field f (ChiObjectsCleanup_MergeFrom ty c s) = merge_field '''' ty (oc_field f c) (oc_field f s)"
  by (cases f) (auto simp: ChiObjectsCleanup_MergeFrom_def NewChiObjectsCleanup_def
      fill_empty_def override_by_def Let_def split: option.split MergeType.split)

interpretation oc: layered ChiObjectsCleanup_MergeFrom "\<lambda>f. oc_field f" "''''"
  by unfold_locales (simp_all add: oc_field_MergeFrom, simp add: ChiObjectsCleanup_MergeFrom_def)

record ChiCleanup =
  cl_UnknownObjects :: "ChiObjectsCleanup option"
  cl_ReconcileFailedObjects :: "ChiObjectsCleanup option"

definition NewChiCleanup :: ChiCleanup where
  "NewChiCleanup = \<lparr>cl_UnknownObjects = None, cl_ReconcileFailedObjects = None\<rparr>"

definition ChiCleanup_MergeFrom ::
    "MergeType \<Rightarrow> ChiCleanup option \<Rightarrow> ChiCleanup option \<Rightarrow> ChiCleanup option" where
  "ChiCleanup_MergeFrom ty t from = (case from of
     None \<Rightarrow> t
   | Some s \<Rightarrow>
       let d = (case t of None \<Rightarrow> NewChiCleanup | Some d \<Rightarrow> d) in
       Some \<lparr>cl_UnknownObjects =
               ChiObjectsCleanup_MergeFrom ty (cl_UnknownObjects d) (cl_UnknownObjects s),
             cl_ReconcileFailedObjects =
               ChiObjectsCleanup_MergeFrom ty (cl_ReconcileFailedObjects d) (cl_ReconcileFailedObjects s)\<rparr>)"

definition GetUnknownObjects :: "ChiCleanup option \<Rightarrow> ChiObjectsCleanup option" where
  "GetUnknownObjects t = (case t of None \<Rightarrow> None | Some t \<Rightarrow> cl_UnknownObjects t)"

definition GetReconcileFailedObjects :: "ChiCleanup option \<Rightarrow> ChiObjectsCleanup option" where
  "GetReconcileFailedObjects t = (case t of None \<Rightarrow> None | Some t \<Rightarrow> cl_ReconcileFailedObjects t)"

definition DefaultUnknownObjects :: "ChiObjectsCleanup option" where
  "DefaultUnknownObjects =
    (SetService ObjectsCleanupDelete \<circ> SetConfigMap ObjectsCleanupDelete \<circ>
     SetPVC ObjectsCleanupDelete \<circ> SetStatefulSet ObjectsCleanupDelete) (Some NewChiObjectsCleanup)"

definition DefaultReconcileFailedObjects :: "ChiObjectsCleanup option" where
  "DefaultReconcileFailedObjects =
    (SetService ObjectsCleanupRetain \<circ> SetConfigMap ObjectsCleanupRetain \<circ>
     SetPVC ObjectsCleanupRetain \<circ> SetStatefulSet ObjectsCleanupRetain) (Some NewChiObjectsCleanup)"

definition ChiCleanup_SetDefaults :: "ChiCleanup option \<Rightarrow> ChiCleanup option" where
  "ChiCleanup_SetDefaults t = map_option (\<lambda>t.
     t\<lparr>cl_UnknownObjects := DefaultUnknownObjects,
       cl_ReconcileFailedObjects := DefaultReconcileFailedObjects\<rparr>) t"

text \<open>A field of the cleanup section: which of the two groups, and which kind of object.\<close>

definition cleanup_field :: "bool \<times> oc_field \<Rightarrow> ChiCleanup option \<Rightarrow> string" where
  "cleanup_field = (\<lambda>(failed, f) t.
     oc_field f (if failed then GetReconcileFailedObjects t else GetUnknownObjects t))"

lemma ChiCleanup_MergeFrom_None [simp]: "ChiCleanup_MergeFrom ty t None = t"
  by (simp add: ChiCleanup_MergeFrom_def)

lemma cleanup_field_MergeFrom:
  "cleanup_field f (ChiCleanup_MergeFrom ty t s)
     = merge_field '''' ty (cleanup_field f t) (cleanup_field f s)"
  by (cases f) (auto simp: cleanup_field_def ChiCleanup_MergeFrom_def GetReconcileFailedObjects_def
      GetUnknownObjects_def NewChiCleanup_def oc_field_MergeFrom split: option.split)

interpretation cl: layered ChiCleanup_MergeFrom cleanup_field "''''"
  by unfold_locales (simp_all add: cleanup_field_MergeFrom,
      auto simp: cleanup_field_def ChiCleanup_MergeFrom_def GetReconcileFailedObjects_def
        GetUnknownObjects_def)

definition ReconcilingPolicyUnspecified :: string where
  "ReconcilingPolicyUnspecified = ''unspecified''"

definition ReconcilingPolicyWait :: string where
  "ReconcilingPolicyWait = ''wait''"

definition ReconcilingPolicyNoWait :: string where
  "ReconcilingPolicyNoWait = ''nowait''"

record ChiReconciling =
  rec_Policy :: string
  rec_ConfigMapPropagationTimeout :: int
  rec_Cleanup :: "ChiCleanup option"

definition NewChiReconciling :: ChiReconciling where
  "NewChiReconciling =
    \<lparr>rec_Policy = '''', rec_ConfigMapPropagationTimeout = 0, rec_Cleanup = None\<rparr>"

definition ChiReconciling_MergeFrom ::
    "MergeType \<Rightarrow> ChiReconciling option \<Rightarrow> ChiReconciling option \<Rightarrow> ChiReconciling option" where
  "ChiReconciling_MergeFrom ty t from = (case from of
     None \<Rightarrow> t
   | Some s \<Rightarrow>
       let d = (case t of None \<Rightarrow> NewChiReconciling | Some d \<Rightarrow> d);
           d1 = (case ty of
             MergeTypeFillEmptyValues \<Rightarrow>
               d\<lparr>rec_Policy := (if rec_Policy d = '''' then rec_Policy s else rec_Policy d),
                 rec_ConfigMapPropagationTimeout :=
                   (if rec_ConfigMapPropagationTimeout d = 0 then rec_ConfigMapPropagationTimeout s
                    else rec_ConfigMapPropagationTimeout d)\<rparr>
           | MergeTypeOverrideByNonEmptyValues \<Rightarrow>
               d\<lparr>rec_Policy := (if rec_Policy s \<noteq> '''' then rec_Policy s else rec_Policy d),
                 rec_ConfigMapPropagationTimeout :=
                   (if rec_ConfigMapPropagationTimeout s \<noteq> 0 then rec_ConfigMapPropagationTimeout s
                    else rec_ConfigMapPropagationTimeout d)\<rparr>
           | MergeTypeOther \<Rightarrow> d)
       in Some (d1\<lparr>rec_Cleanup := ChiCleanup_MergeFrom ty (rec_Cleanup d1) (rec_Cleanup s)\<rparr>))"

definition ChiReconciling_SetDefaults :: "ChiReconciling option \<Rightarrow> ChiReconciling option" where
  "ChiReconciling_SetDefaults t = map_option (\<lambda>t.
     t\<lparr>rec_Policy := ReconcilingPolicyUnspecified,
       rec_ConfigMapPropagationTimeout := 60,
       rec_Cleanup := ChiCleanup_SetDefaults (Some NewChiCleanup)\<rparr>) t"

definition ChiReconciling_GetPolicy :: "ChiReconciling option \<Rightarrow> string" where
  "ChiReconciling_GetPolicy t = (case t of None \<Rightarrow> '''' | Some t \<Rightarrow> rec_Policy t)"

definition GetConfigMapPropagationTimeout :: "ChiReconciling option \<Rightarrow> int" where
  "GetConfigMapPropagationTimeout t =
     (case t of None \<Rightarrow> 0 | Some t \<Rightarrow> rec_ConfigMapPropagationTimeout t)"

definition GetCleanup :: "ChiReconciling option \<Rightarrow> ChiCleanup option" where
  "GetCleanup t = (case t of None \<Rightarrow> None | Some t \<Rightarrow> rec_Cleanup t)"

definition IsReconcilingPolicyWait :: "ChiReconciling option \<Rightarrow> bool" where
  "IsReconcilingPolicyWait t = (to_lower (ChiReconciling_GetPolicy t) = ReconcilingPolicyWait)"

definition IsReconcilingPolicyNoWait :: "ChiReconciling option \<Rightarrow> bool" where
  "IsReconcilingPolicyNoWait t = (to_lower (ChiReconciling_GetPolicy t) = ReconcilingPolicyNoWait)"

lemma GetPolicy_MergeFrom:
  "ChiReconciling_GetPolicy (ChiReconciling_MergeFrom ty t s)
     = merge_field '''' ty (ChiReconciling_GetPolicy t) (ChiReconciling_GetPolicy s)"
  by (cases ty; cases t; cases s; simp add: Let_def ChiReconciling_MergeFrom_def ChiReconciling_GetPolicy_def
      NewChiReconciling_def fill_empty_def override_by_def)

lemma GetTimeout_MergeFrom:
  "GetConfigMapPropagationTimeout (ChiReconciling_MergeFrom ty t s)
     = merge_field 0 ty (GetConfigMapPropagationTimeout t) (GetConfigMapPropagationTimeout s)"
  by (cases ty; cases t; cases s; simp add: Let_def ChiReconciling_MergeFrom_def GetConfigMapPropagationTimeout_def
      NewChiReconciling_def fill_empty_def override_by_def)

lemma GetCleanup_MergeFrom:
  "GetCleanup (ChiReconciling_MergeFrom ty t s)
     = ChiCleanup_MergeFrom ty (GetCleanup t) (GetCleanup s)"
  by (cases ty; cases t; cases s; simp add: Let_def ChiReconciling_MergeFrom_def GetCleanup_def
      NewChiReconciling_def )

lemmas ChiReconciling_MergeFrom_fields =
  GetPolicy_MergeFrom GetTimeout_MergeFrom GetCleanup_MergeFrom

interpretation rec_policy: layered ChiReconciling_MergeFrom "\<lambda>_::unit. ChiReconciling_GetPolicy" "''''"
  by unfold_locales (simp_all add: ChiReconciling_MergeFrom_fields,
      simp_all add: ChiReconciling_GetPolicy_def ChiReconciling_MergeFrom_def)

interpretation rec_timeout: layered ChiReconciling_MergeFrom
    "\<lambda>_::unit. GetConfigMapPropagationTimeout" 0
  by unfold_locales (simp_all add: ChiReconciling_MergeFrom_fields,
      simp_all add: GetConfigMapPropagationTimeout_def ChiReconciling_MergeFrom_def)

interpretation rec_cleanup: layered ChiReconciling_MergeFrom
    "\<lambda>f t. cleanup_field f (GetCleanup t)" "''''"
  by unfold_locales (simp_all add: ChiReconciling_MergeFrom_fields cleanup_field_MergeFrom,
      simp_all add: GetCleanup_def ChiReconciling_MergeFrom_def cl.field_None)

section \<open>Defaults and distributed DDL\<close>

record ChiDistributedDDL =
  ddl_Profile :: string

definition NewChiDistributedDDL :: ChiDistributedDDL where
  "NewChiDistributedDDL = \<lparr>ddl_Profile = ''''\<rparr>"

definition HasProfile :: "ChiDistributedDDL option \<Rightarrow> bool" where
  "HasProfile d = (case d of None \<Rightarrow> False | Some d \<Rightarrow> length (ddl_Profile d) > 0)"

definition GetProfile :: "ChiDistributedDDL option \<Rightarrow> string" where
  "GetProfile d = (case d of None \<Rightarrow> '''' | Some d \<Rightarrow> ddl_Profile d)"

definition ChiDistributedDDL_MergeFrom ::
    "MergeType \<Rightarrow> ChiDistributedDDL option \<Rightarrow> ChiDistributedDDL option \<Rightarrow> ChiDistributedDDL option"
where
  "ChiDistributedDDL_MergeFrom ty d from = (case from of
     None \<Rightarrow> d
   | Some s \<Rightarrow>
       let d' = (case d of None \<Rightarrow> NewChiDistributedDDL | Some d' \<Rightarrow> d') in
       Some (case ty of
         MergeTypeFillEmptyValues \<Rightarrow>
           if ddl_Profile d' = '''' then d'\<lparr>ddl_Profile := ddl_Profile s\<rparr> else d'
       | MergeTypeOverrideByNonEmptyValues \<Rightarrow>
           if ddl_Profile s \<noteq> '''' then d'\<lparr>ddl_Profile := ddl_Profile s\<rparr> else d'
       | MergeTypeOther \<Rightarrow> d'))"

interpretation ddl: layered ChiDistributedDDL_MergeFrom "\<lambda>_::unit. GetProfile" "''''"
  by unfold_locales
    (auto simp: ChiDistributedDDL_MergeFrom_def GetProfile_def NewChiDistributedDDL_def
      fill_empty_def override_by_def Let_def split: option.split MergeType.split)

record ChiDefaults =
  def_ReplicasUseFQDN :: string
  def_DistributedDDL :: "ChiDistributedDDL option"
  def_Templates :: "ChiTemplateNames option"

definition NewChiDefaults :: ChiDefaults where
  "NewChiDefaults =
    \<lparr>def_ReplicasUseFQDN = '''', def_DistributedDDL = None, def_Templates = None\<rparr>"

text \<open>The fill branch tests the argument's field, not the receiver's, exactly as the code does.\<close>

definition ChiDefaults_MergeFrom ::
    "MergeType \<Rightarrow> ChiDefaults option \<Rightarrow> ChiDefaults option \<Rightarrow> ChiDefaults option" where
  "ChiDefaults_MergeFrom ty defaults from = (case from of
     None \<Rightarrow> defaults
   | Some s \<Rightarrow>
       let d = (case defaults of None \<Rightarrow> NewChiDefaults | Some d \<Rightarrow> d);
           d1 = (case ty of
             MergeTypeFillEmptyValues \<Rightarrow>
               if def_ReplicasUseFQDN s = ''''
               then d\<lparr>def_ReplicasUseFQDN := def_ReplicasUseFQDN s\<rparr> else d
           | MergeTypeOverrideByNonEmptyValues \<Rightarrow>
               if def_ReplicasUseFQDN s \<noteq> ''''
               then d\<lparr>def_ReplicasUseFQDN := def_ReplicasUseFQDN s\<rparr> else d
           | MergeTypeOther \<Rightarrow> d)
       in Some (d1\<lparr>def_DistributedDDL :=
                     ChiDistributedDDL_MergeFrom ty (def_DistributedDDL d1) (def_DistributedDDL s),
                   def_Templates :=
                     ChiTemplateNames_MergeFrom ty (def_Templates d1) (def_Templates s)\<rparr>))"

abbreviation GetReplicasUseFQDN :: "ChiDefaults option \<Rightarrow> string" where
  "GetReplicasUseFQDN \<equiv> nil_or '''' def_ReplicasUseFQDN"

text \<open>
 Filling the empty values of a \<open>.spec.defaults\<close> section from another one that is present does not
  do what the name says for \<open>replicasUseFQDN\<close>: the field of the receiver is erased when the argument
  has none, and is never filled. The merge of kind \<open>Override\<close> treats it as expected.
\<close>

theorem ChiDefaults_fill_erases_ReplicasUseFQDN:
  "GetReplicasUseFQDN (ChiDefaults_MergeFrom MergeTypeFillEmptyValues d (Some s))
      = (if def_ReplicasUseFQDN s = '''' then '''' else GetReplicasUseFQDN d)
   \<and> GetReplicasUseFQDN (ChiDefaults_MergeFrom MergeTypeOverrideByNonEmptyValues d (Some s))
      = override_by '''' (GetReplicasUseFQDN d) (def_ReplicasUseFQDN s)"
  by (cases d) (simp_all add: ChiDefaults_MergeFrom_def NewChiDefaults_def override_by_def Let_def)

section \<open>ZooKeeper\<close>

record ChiZookeeperNode =
  zkn_Host :: string
  zkn_Port :: "32 word"

definition ChiZookeeperNode_Equal :: "ChiZookeeperNode \<Rightarrow> ChiZookeeperNode option \<Rightarrow> bool" where
  "ChiZookeeperNode_Equal n to = (case to of None \<Rightarrow> False
     | Some m \<Rightarrow> zkn_Host n = zkn_Host m \<and> zkn_Port n = zkn_Port m)"

text \<open>A nil and an empty slice of nodes are not told apart: the code only takes the length, ranges
  and appends.\<close>

record ChiZookeeperConfig =
  zk_Nodes :: "ChiZookeeperNode list"
  zk_SessionTimeoutMs :: int
  zk_OperationTimeoutMs :: int
  zk_Root :: string
  zk_Identity :: string
  zk_Install :: bool
  zk_Replica :: "32 word"
  zk_Image :: string
  zk_ImagePullPolicy :: string
  zk_Port :: "32 word"

definition NewChiZookeeperConfig :: ChiZookeeperConfig where
  "NewChiZookeeperConfig = \<lparr>zk_Nodes = [], zk_SessionTimeoutMs = 0, zk_OperationTimeoutMs = 0,
     zk_Root = '''', zk_Identity = '''', zk_Install = False, zk_Replica = 0, zk_Image = '''',
     zk_ImagePullPolicy = '''', zk_Port = 0\<rparr>"

definition ChiZookeeperConfig_IsEmpty :: "ChiZookeeperConfig option \<Rightarrow> bool" where
  "ChiZookeeperConfig_IsEmpty z = (case z of None \<Rightarrow> True | Some z \<Rightarrow> length (zk_Nodes z) = 0)"

definition append_node :: "ChiZookeeperNode \<Rightarrow> ChiZookeeperNode list \<Rightarrow> ChiZookeeperNode list" where
  "append_node n ns =
     (if list_ex (\<lambda>m. ChiZookeeperNode_Equal m (Some n)) ns then ns else ns @ [n])"

definition ChiZookeeperConfig_MergeFrom ::
    "MergeType \<Rightarrow> ChiZookeeperConfig option \<Rightarrow> ChiZookeeperConfig option \<Rightarrow> ChiZookeeperConfig option"
where
  "ChiZookeeperConfig_MergeFrom ty zkc from = (case from of
     None \<Rightarrow> zkc
   | Some s \<Rightarrow>
       let d = (case zkc of None \<Rightarrow> NewChiZookeeperConfig | Some d \<Rightarrow> d) in
       Some \<lparr>
         zk_Nodes = (if \<not> ChiZookeeperConfig_IsEmpty (Some s)
                     then fold append_node (zk_Nodes s) (zk_Nodes d) else zk_Nodes d),
         zk_SessionTimeoutMs = (if zk_SessionTimeoutMs s > 0 then zk_SessionTimeoutMs s
                                else zk_SessionTimeoutMs d),
         zk_OperationTimeoutMs = (if zk_OperationTimeoutMs s > 0 then zk_OperationTimeoutMs s
                                  else zk_OperationTimeoutMs d),
         zk_Root = (if zk_Root s \<noteq> '''' then zk_Root s else zk_Root d),
         zk_Identity = (if zk_Identity s \<noteq> '''' then zk_Identity s else zk_Identity d),
         zk_Install = zk_Install s,
         zk_Replica = (if sint (zk_Replica s) > 0 then zk_Replica s else zk_Replica d),
         zk_Image = (if zk_Image s \<noteq> '''' then zk_Image s else zk_Image d),
         zk_ImagePullPolicy =
           (if zk_ImagePullPolicy s = ''Always'' \<or> zk_ImagePullPolicy s = ''IfNotPresent''
               \<or> zk_ImagePullPolicy s = ''Never''
            then zk_ImagePullPolicy s else zk_ImagePullPolicy d),
         zk_Port = (if sint (zk_Port s) > 0 then zk_Port s else zk_Port d)\<rparr>)"

definition zkDefaultClientPortNumber :: "32 word" where
  "zkDefaultClientPortNumber = 2181"

definition defaultZooKeeperDockerImage :: string where
  "defaultZooKeeperDockerImage = ''radondb/zookeeper:3.6.1''"

definition normalize_zk_replica :: "bool \<Rightarrow> 32 word \<Rightarrow> 32 word" where
  "normalize_zk_replica install r =
     (if install \<and> sint r \<le> 0 then 1
      else if install \<and> sint r mod 2 = 0 then r - 1
      else r)"

definition normalize_zk_node :: "ChiZookeeperNode \<Rightarrow> ChiZookeeperNode" where
  "normalize_zk_node n = (if zkn_Port n = 0 then n\<lparr>zkn_Port := zkDefaultClientPortNumber\<rparr> else n)"

definition normalizeConfigurationZookeeper ::
    "ChiZookeeperConfig option \<Rightarrow> ChiZookeeperConfig option" where
  "normalizeConfigurationZookeeper zk = (case zk of
     None \<Rightarrow> None
   | Some z \<Rightarrow> Some (z\<lparr>
       zk_Replica := normalize_zk_replica (zk_Install z) (zk_Replica z),
       zk_Port := (if zk_Port z = 0 then zkDefaultClientPortNumber else zk_Port z),
       zk_Image := (if zk_Image z = '''' then defaultZooKeeperDockerImage else zk_Image z),
       zk_ImagePullPolicy :=
         (if zk_ImagePullPolicy z = '''' then ''IfNotPresent'' else zk_ImagePullPolicy z),
       zk_Nodes := map normalize_zk_node (zk_Nodes z)\<rparr>))"

lemma ChiZookeeperNode_Equal_iff [simp]: "ChiZookeeperNode_Equal m (Some n) \<longleftrightarrow> m = n"
  by (cases m, cases n) (simp add: ChiZookeeperNode_Equal_def)

lemma append_node_insert: "append_node n ns = (if n \<in> set ns then ns else ns @ [n])"
  by (simp add: append_node_def list_ex_iff)

lemma fold_append_node:
  "set (fold append_node ms ns) = set ns \<union> set ms"
  "distinct ns \<Longrightarrow> distinct (fold append_node ms ns)"
  by (induction ms arbitrary: ns) (auto simp: append_node_insert)

lemma fold_append_node_prefix: "\<exists>ys. fold append_node ms ns = ns @ ys"
proof (induction ms arbitrary: ns)
  case (Cons m ms)
  from Cons [of "append_node m ns"] show ?case by (auto simp: append_node_insert split: if_splits)
qed simp

lemma sint_dec:
  assumes "0 < sint (r :: 32 word)"
  shows "sint (r - 1) = sint r - 1"
proof -
  have "sint r < 2147483648" using sint_lt [of r] by simp
  then have "signed_take_bit 31 (sint r - 1) = sint r - 1"
    using assms by (intro signed_take_bit_int_eq_self) simp_all
  then show ?thesis by (simp add: sint_word_ariths)
qed

lemma normalize_zk_replica_value:
  "sint (normalize_zk_replica i r)
     = (if \<not> i then sint r else if sint r \<le> 0 then 1
        else if even (sint r) then sint r - 1 else sint r)"
  by (simp add: normalize_zk_replica_def sint_dec even_iff_mod_2_eq_zero)

lemma normalize_zk_replica_odd:
  "0 < sint (normalize_zk_replica True r) \<and> odd (sint (normalize_zk_replica True r))"
proof -
  have "0 < k - 1 \<and> odd (k - 1)" if "\<not> k \<le> 0" "even k" for k :: int
    using that by presburger
  then show ?thesis by (simp add: normalize_zk_replica_value)
qed

lemma normalize_zk_node_simps [simp]:
  "zkn_Host (normalize_zk_node n) = zkn_Host n"
  "zkn_Port (normalize_zk_node n) \<noteq> 0"
  by (simp_all add: normalize_zk_node_def zkDefaultClientPortNumber_def)

text \<open>
 What normalization makes of a ZooKeeper section: when the operator is to install ZooKeeper, the
  number of its replicas is positive and odd (an even number is lowered by one, a number that is not
  positive becomes one); the port, the image, the pull policy and the port of every node are
  assigned; the nodes keep their hosts and their order.
\<close>

theorem normalizeConfigurationZookeeper_correct:
  "\<exists>z'. normalizeConfigurationZookeeper (Some z) = Some z'
     \<and> (if zk_Install z
        then 0 < sint (zk_Replica z') \<and> odd (sint (zk_Replica z'))
             \<and> sint (zk_Replica z') = (if sint (zk_Replica z) \<le> 0 then 1
                 else if even (sint (zk_Replica z)) then sint (zk_Replica z) - 1
                 else sint (zk_Replica z))
        else zk_Replica z' = zk_Replica z)
     \<and> zk_Port z' \<noteq> 0 \<and> zk_Image z' \<noteq> '''' \<and> zk_ImagePullPolicy z' \<noteq> ''''
     \<and> 0 \<notin> set (map zkn_Port (zk_Nodes z'))
     \<and> map zkn_Host (zk_Nodes z') = map zkn_Host (zk_Nodes z)"
  using normalize_zk_replica_odd [of "zk_Replica z"]
  by (auto simp: normalizeConfigurationZookeeper_def normalize_zk_replica_value
      zkDefaultClientPortNumber_def defaultZooKeeperDockerImage_def image_iff)
     (auto simp: normalize_zk_replica_def)

text \<open>
 Merging ZooKeeper sections, whatever the kind of the merge: the nodes of the receiver stay, in
  front and in order; the nodes of the argument follow unless they are there already (same host and
  port); no node is entered twice. (An argument without nodes leaves the list alone.)
\<close>

theorem ChiZookeeperConfig_MergeFrom_nodes:
  "\<exists>z new. ChiZookeeperConfig_MergeFrom ty d (Some s) = Some z
     \<and> zk_Nodes z = nil_or [] zk_Nodes d @ new
     \<and> set (zk_Nodes z) = set (nil_or [] zk_Nodes d) \<union> set (zk_Nodes s)
     \<and> distinct (nil_or [] zk_Nodes d @ new) = distinct (nil_or [] zk_Nodes d)
     \<and> zk_Install z = zk_Install s"
proof -
  let ?ns = "nil_or [] zk_Nodes d"
  obtain new where new: "fold append_node (zk_Nodes s) ?ns = ?ns @ new"
    using fold_append_node_prefix by blast
  have "distinct (?ns @ new) = distinct ?ns"
    using fold_append_node(2) [of ?ns "zk_Nodes s"] new by auto
  moreover have "set (?ns @ new) = set ?ns \<union> set (zk_Nodes s)"
    using fold_append_node(1) [of "zk_Nodes s" ?ns] new by simp
  moreover have "\<exists>z. ChiZookeeperConfig_MergeFrom ty d (Some s) = Some z
      \<and> zk_Nodes z = fold append_node (zk_Nodes s) ?ns \<and> zk_Install z = zk_Install s"
    by (cases d) (simp_all add: ChiZookeeperConfig_MergeFrom_def NewChiZookeeperConfig_def
        ChiZookeeperConfig_IsEmpty_def Let_def)
  ultimately show ?thesis using new by auto
qed

section \<open>Normalizing the sections\<close>

definition RestartAll :: string where
  "RestartAll = ''Restart''"

definition RestartRollingUpdate :: string where
  "RestartRollingUpdate = ''RollingUpdate''"

definition TemplatingPolicyManual :: string where
  "TemplatingPolicyManual = ''manual''"

definition TemplatingPolicyAuto :: string where
  "TemplatingPolicyAuto = ''auto''"

text \<open>\<open>newUUID\<close> is what \<open>uuid.New().String()\<close> of the package google/uuid returns.\<close>

definition normalizeTaskID :: "string \<Rightarrow> string option \<Rightarrow> string option" where
  "normalizeTaskID newUUID taskID = (case taskID of
     Some i \<Rightarrow> if length i > 0 then Some i else Some newUUID
   | None \<Rightarrow> Some newUUID)"

definition normalizeStop :: "string \<Rightarrow> string" where
  "normalizeStop stop = (if IsStringBool stop then stop else ''false'')"

definition normalizeTroubleshoot :: "string \<Rightarrow> string" where
  "normalizeTroubleshoot troubleshoot = (if IsStringBool troubleshoot then troubleshoot else ''false'')"

definition normalizeRestart :: "string \<Rightarrow> string" where
  "normalizeRestart restart =
     (if to_lower restart = to_lower RestartAll then RestartAll
      else if to_lower restart = to_lower RestartRollingUpdate then RestartRollingUpdate
      else '''')"

text \<open>\<open>strings.Count(s, "%s")\<close>: the number of non-overlapping occurrences.\<close>

fun count_verb :: "string \<Rightarrow> nat" where
  "count_verb (a # b # s) = (if a = CHR ''%'' \<and> b = CHR ''s'' then Suc (count_verb s) else count_verb (b # s))"
| "count_verb _ = 0"

definition normalizeNamespaceDomainPattern :: "string \<Rightarrow> string" where
  "normalizeNamespaceDomainPattern p = (if count_verb p > 1 then '''' else p)"

definition normalizeDefaults :: "ChiDefaults option \<Rightarrow> ChiDefaults option" where
  "normalizeDefaults defaults = (
     let d = (case defaults of None \<Rightarrow> NewChiDefaults | Some d \<Rightarrow> d) in
     Some (d\<lparr>def_ReplicasUseFQDN := CastStringBoolToStringTrueFalse (def_ReplicasUseFQDN d) False,
             def_Templates := HandleDeprecatedFields (def_Templates d)\<rparr>))"

definition normalizeTemplating :: "ChiTemplating option \<Rightarrow> ChiTemplating option" where
  "normalizeTemplating templating = (
     let t = (case templating of None \<Rightarrow> NewChiTemplating | Some t \<Rightarrow> t);
         p = to_lower (ChiTemplating_GetPolicy (Some t)) in
     Some (if p = TemplatingPolicyManual \<or> p = TemplatingPolicyAuto
           then t\<lparr>tpl_Policy := p\<rparr>
           else t\<lparr>tpl_Policy := to_lower TemplatingPolicyManual\<rparr>))"

definition normalizeCleanup :: "string \<Rightarrow> string \<Rightarrow> string" where
  "normalizeCleanup str value =
     (if str = ObjectsCleanupRetain \<or> str = ObjectsCleanupDelete then str else value)"

definition normalize_objects :: "string \<Rightarrow> ChiObjectsCleanup \<Rightarrow> ChiObjectsCleanup" where
  "normalize_objects value c =
    \<lparr>oc_StatefulSet = normalizeCleanup (oc_StatefulSet c) value,
     oc_PVC = normalizeCleanup (oc_PVC c) value,
     oc_ConfigMap = normalizeCleanup (oc_ConfigMap c) value,
     oc_Service = normalizeCleanup (oc_Service c) value\<rparr>"

definition normalizeReconcilingCleanup :: "ChiCleanup option \<Rightarrow> ChiCleanup option" where
  "normalizeReconcilingCleanup cleanup = (
     let c = (case cleanup of None \<Rightarrow> NewChiCleanup | Some c \<Rightarrow> c);
         u = (case cl_UnknownObjects c of None \<Rightarrow> DefaultUnknownObjects | Some u \<Rightarrow> Some u);
         f = (case cl_ReconcileFailedObjects c of None \<Rightarrow> DefaultReconcileFailedObjects | Some f \<Rightarrow> Some f)
     in Some \<lparr>cl_UnknownObjects = map_option (normalize_objects ObjectsCleanupDelete) u,
              cl_ReconcileFailedObjects = map_option (normalize_objects ObjectsCleanupRetain) f\<rparr>)"

definition normalizeReconciling :: "ChiReconciling option \<Rightarrow> ChiReconciling option" where
  "normalizeReconciling reconciling = (
     let r = (case reconciling of None \<Rightarrow> ChiReconciling_SetDefaults (Some NewChiReconciling)
                | Some r \<Rightarrow> Some r);
         p = to_lower (ChiReconciling_GetPolicy r);
         p' = (if p = ReconcilingPolicyWait \<or> p = ReconcilingPolicyNoWait then p
               else to_lower ReconcilingPolicyUnspecified)
     in map_option (\<lambda>r. r\<lparr>rec_Policy := p',
                          rec_Cleanup := normalizeReconcilingCleanup (rec_Cleanup r)\<rparr>) r)"

lemma normalizeCleanup_cases:
  "v \<in> {ObjectsCleanupRetain, ObjectsCleanupDelete} \<Longrightarrow>
     normalizeCleanup s v \<in> {ObjectsCleanupRetain, ObjectsCleanupDelete}"
  by (auto simp: normalizeCleanup_def)

lemma oc_get_normalize_objects [simp]:
  "oc_get f (normalize_objects v c) = normalizeCleanup (oc_get f c) v"
  by (cases f) (simp_all add: normalize_objects_def)

lemma oc_get_NewChiObjectsCleanup [simp]: "oc_get f NewChiObjectsCleanup = ''''"
  by (cases f) (simp_all add: NewChiObjectsCleanup_def)

lemma oc_field_defaults [simp]:
  "oc_field f DefaultUnknownObjects = ObjectsCleanupDelete"
  "oc_field f DefaultReconcileFailedObjects = ObjectsCleanupRetain"
  by (cases f; simp add: DefaultUnknownObjects_def DefaultReconcileFailedObjects_def
      SetStatefulSet_def SetPVC_def SetConfigMap_def SetService_def)+

lemma oc_field_map_normalize:
  "c \<noteq> None \<Longrightarrow> oc_field f (map_option (normalize_objects v) c) = normalizeCleanup (oc_field f c) v"
  by (cases c) simp_all

lemma defaults_present [simp]:
  "DefaultUnknownObjects \<noteq> None" "DefaultReconcileFailedObjects \<noteq> None"
  by (simp_all add: DefaultUnknownObjects_def DefaultReconcileFailedObjects_def
      SetStatefulSet_def SetPVC_def SetConfigMap_def SetService_def)

lemma cleanup_constants [simp]: "ObjectsCleanupRetain \<noteq> ''''" "ObjectsCleanupDelete \<noteq> ''''"
  by (simp_all add: ObjectsCleanupRetain_def ObjectsCleanupDelete_def)

lemma normalizeCleanup_constants [simp]:
  "normalizeCleanup ObjectsCleanupRetain v = ObjectsCleanupRetain"
  "normalizeCleanup ObjectsCleanupDelete v = ObjectsCleanupDelete"
  "normalizeCleanup '''' v = v"
  by (auto simp: normalizeCleanup_def ObjectsCleanupRetain_def ObjectsCleanupDelete_def)

lemma cleanup_field_normalize:
  "cleanup_field (failed, f) (normalizeReconcilingCleanup c)
     = normalizeCleanup (cleanup_field (failed, f) c)
         (if failed then ObjectsCleanupRetain else ObjectsCleanupDelete)"
proof -
  let ?c = "case c of None \<Rightarrow> NewChiCleanup | Some c \<Rightarrow> c"
  have "cleanup_field (failed, f) c = cleanup_field (failed, f) (Some ?c)"
    by (cases c) (simp_all add: cleanup_field_def GetReconcileFailedObjects_def
        GetUnknownObjects_def NewChiCleanup_def)
  then show ?thesis
    by (cases "cl_UnknownObjects ?c"; cases "cl_ReconcileFailedObjects ?c")
      (simp_all add: cleanup_field_def normalizeReconcilingCleanup_def Let_def
        GetReconcileFailedObjects_def GetUnknownObjects_def oc_field_map_normalize)
qed

lemma cleanup_of_normalizeReconciling:
  "cleanup_field (failed, f) (GetCleanup (normalizeReconciling r))
     = normalizeCleanup (cleanup_field (failed, f) (GetCleanup r))
         (if failed then ObjectsCleanupRetain else ObjectsCleanupDelete)"
proof (cases r)
  case None
  have "GetCleanup (normalizeReconciling r)
      = normalizeReconcilingCleanup (ChiCleanup_SetDefaults (Some NewChiCleanup))"
    by (simp add: None normalizeReconciling_def ChiReconciling_SetDefaults_def GetCleanup_def Let_def)
  moreover have "cleanup_field (failed, f) (ChiCleanup_SetDefaults (Some NewChiCleanup))
      = (if failed then ObjectsCleanupRetain else ObjectsCleanupDelete)"
    by (simp add: ChiCleanup_SetDefaults_def cleanup_field_def GetReconcileFailedObjects_def
        GetUnknownObjects_def)
  ultimately show ?thesis
    using None by (simp add: cleanup_field_normalize GetCleanup_def cl.field_None)
qed (simp add: normalizeReconciling_def GetCleanup_def Let_def cleanup_field_normalize)

lemma policy_of_normalizeReconciling:
  "ChiReconciling_GetPolicy (normalizeReconciling r)
     = (if IsReconcilingPolicyWait r then ReconcilingPolicyWait
        else if IsReconcilingPolicyNoWait r then ReconcilingPolicyNoWait
        else ReconcilingPolicyUnspecified)"
  by (cases r) (simp_all add: normalizeReconciling_def ChiReconciling_GetPolicy_def Let_def
      IsReconcilingPolicyWait_def IsReconcilingPolicyNoWait_def ChiReconciling_SetDefaults_def
      ReconcilingPolicyWait_def ReconcilingPolicyNoWait_def ReconcilingPolicyUnspecified_def
      to_lower_def lower_char_def)

text \<open>
  The reconciling section after the templates and the installation were merged, layer over layer,
  and normalized: the policy is one of the three known ones, and waiting is on exactly when the
  topmost layer that says anything says so (in any case); every cleanup entry is \<open>Retain\<close> or
  \<open>Delete\<close>: what the topmost layer with an entry says, if that is known, and otherwise \<open>Delete\<close> for
  unknown objects and \<open>Retain\<close> for objects that failed to reconcile.
\<close>

theorem reconciling_of_layers:
  "let r = normalizeReconciling (fold (\<lambda>s d. ChiReconciling_MergeFrom
                MergeTypeOverrideByNonEmptyValues d s) layers None);
       topmost = (\<lambda>g. first_nonempty '''' (rev (map g layers)));
       policy = to_lower (topmost ChiReconciling_GetPolicy);
       entry = topmost (\<lambda>l. cleanup_field (failed, f) (GetCleanup l))
   in ChiReconciling_GetPolicy r =
        (if policy = ReconcilingPolicyWait then ReconcilingPolicyWait
         else if policy = ReconcilingPolicyNoWait then ReconcilingPolicyNoWait
         else ReconcilingPolicyUnspecified)
    \<and> cleanup_field (failed, f) (GetCleanup r) =
        (if entry = ObjectsCleanupRetain \<or> entry = ObjectsCleanupDelete then entry
         else if failed then ObjectsCleanupRetain else ObjectsCleanupDelete)"
proof -
  have snoc: "first_nonempty '''' (xs @ ['''']) = first_nonempty '''' xs" for xs :: "string list"
    by (simp add: first_nonempty_append)
  let ?m = "fold (\<lambda>s d. ChiReconciling_MergeFrom MergeTypeOverrideByNonEmptyValues d s) layers None"
  have "ChiReconciling_GetPolicy ?m = first_nonempty '''' (rev (map ChiReconciling_GetPolicy layers))"
    using rec_policy.override_layers [of layers None] rec_policy.field_None by (simp add: snoc)
  moreover have "cleanup_field (failed, f) (GetCleanup ?m)
      = first_nonempty '''' (rev (map (\<lambda>l. cleanup_field (failed, f) (GetCleanup l)) layers))"
    using rec_cleanup.override_layers [of "(failed, f)" layers None]
      rec_cleanup.field_None [of "(failed, f)"] by (simp add: snoc)
  ultimately show ?thesis
    by (simp add: Let_def policy_of_normalizeReconciling cleanup_of_normalizeReconciling
        IsReconcilingPolicyWait_def IsReconcilingPolicyNoWait_def normalizeCleanup_def)
qed

end
