(* ===== verification/ChiHost.thy ===== *)
theory ChiHost
  imports ChiMerge
begin

text \<open>
  One host of an installation: \<open>type_host.go\<close>, \<open>type_chi_host_address.go\<close>, the reconcile attributes
  of \<open>types.go\<close>, and the functions of \<open>pkg/model/normalizer.go\<close> that give a host its ports
  (\<open>normalizeHostPorts\<close>, \<open>hostApplyHostTemplate\<close>, \<open>hostApplyPortsFromSettings\<close>, \<open>ensurePortValue\<close>)
  with the default host templates of \<open>creator.go\<close>. Ports are \<open>int32\<close> in Go and \<open>32 word\<close> here, so the
  sum of a base port and a host index wraps as it does in the code.
\<close>

section \<open>Data\<close>

type_synonym port = "32 word"

record ChiHostAddress =
  ha_Namespace :: string
  ha_StatefulSet :: string
  ha_CHIName :: string
  ha_ClusterName :: string
  ha_ClusterIndex :: int
  ha_ShardName :: string
  ha_ShardIndex :: int
  ha_ShardScopeIndex :: int
  ha_ReplicaName :: string
  ha_ReplicaIndex :: int
  ha_ReplicaScopeIndex :: int
  ha_HostName :: string
  ha_CHIScopeIndex :: int
  ha_CHIScopeCycleSize :: int
  ha_CHIScopeCycleIndex :: int
  ha_CHIScopeCycleOffset :: int
  ha_ClusterScopeIndex :: int
  ha_ClusterScopeCycleSize :: int
  ha_ClusterScopeCycleIndex :: int
  ha_ClusterScopeCycleOffset :: int

definition newChiHostAddress :: ChiHostAddress where
  "newChiHostAddress = \<lparr>ha_Namespace = '''', ha_StatefulSet = '''', ha_CHIName = '''',
     ha_ClusterName = '''', ha_ClusterIndex = 0, ha_ShardName = '''', ha_ShardIndex = 0,
     ha_ShardScopeIndex = 0, ha_ReplicaName = '''', ha_ReplicaIndex = 0, ha_ReplicaScopeIndex = 0,
     ha_HostName = '''', ha_CHIScopeIndex = 0, ha_CHIScopeCycleSize = 0, ha_CHIScopeCycleIndex = 0,
     ha_CHIScopeCycleOffset = 0, ha_ClusterScopeIndex = 0, ha_ClusterScopeCycleSize = 0,
     ha_ClusterScopeCycleIndex = 0, ha_ClusterScopeCycleOffset = 0\<rparr>"

datatype StatefulSetStatus =
    StatefulSetStatusModified
  | StatefulSetStatusNew
  | StatefulSetStatusSame
  | StatefulSetStatusUnknown
  | StatefulSetStatusUnset

record ChiHostReconcileAttributes =
  ra_status :: StatefulSetStatus
  ra_add :: bool
  ra_remove :: bool
  ra_modify :: bool
  ra_unclear :: bool

definition NewChiHostReconcileAttributes :: ChiHostReconcileAttributes where
  "NewChiHostReconcileAttributes = \<lparr>ra_status = StatefulSetStatusUnset, ra_add = False,
     ra_remove = False, ra_modify = False, ra_unclear = False\<rparr>"

text \<open>
  \<open>ChiHost\<close>. The pointers to the installation and to the StatefulSets are not part of the record: what
  the functions below read through them is passed to them.
\<close>

record ChiHost =
  h_Name :: string
  h_Port :: port
  h_TCPPort :: port
  h_HTTPPort :: port
  h_InterserverHTTPPort :: port
  h_Settings :: "settings option"
  h_Files :: "settings option"
  h_Templates :: "ChiTemplateNames option"
  h_Address :: ChiHostAddress
  h_ReconcileAttributes :: ChiHostReconcileAttributes

definition newChiHost :: ChiHost where
  "newChiHost = \<lparr>h_Name = '''', h_Port = 0, h_TCPPort = 0, h_HTTPPort = 0,
     h_InterserverHTTPPort = 0, h_Settings = None, h_Files = None, h_Templates = None,
     h_Address = newChiHostAddress, h_ReconcileAttributes = NewChiHostReconcileAttributes\<rparr>"

record ChiHostTemplate =
  ht_Name :: string
  ht_PortDistribution :: "string list"
  ht_Spec :: ChiHost

definition PortDistributionUnspecified :: string where
  "PortDistributionUnspecified = ''Unspecified''"

definition PortDistributionClusterScopeIndex :: string where
  "PortDistributionClusterScopeIndex = ''ClusterScopeIndex''"

section \<open>Reconcile attributes\<close>

text \<open>Two ways to compare the flags with a mask: equality of all four, and a common flag. The receiver
  is a pointer, nil gives false.\<close>

definition ra_Equal :: "ChiHostReconcileAttributes option \<Rightarrow> ChiHostReconcileAttributes \<Rightarrow> bool" where
  "ra_Equal s to = (case s of None \<Rightarrow> False | Some s \<Rightarrow>
     ra_add s = ra_add to \<and> ra_remove s = ra_remove to \<and> ra_modify s = ra_modify to
     \<and> ra_unclear s = ra_unclear to)"

definition ra_Any :: "ChiHostReconcileAttributes option \<Rightarrow> ChiHostReconcileAttributes \<Rightarrow> bool" where
  "ra_Any s to = (case s of None \<Rightarrow> False | Some s \<Rightarrow>
     ra_add s \<and> ra_add to \<or> ra_remove s \<and> ra_remove to \<or> ra_modify s \<and> ra_modify to
     \<or> ra_unclear s \<and> ra_unclear to)"

definition SetStatus :: "StatefulSetStatus \<Rightarrow> ChiHostReconcileAttributes \<Rightarrow> ChiHostReconcileAttributes" where
  "SetStatus st s = s\<lparr>ra_status := st\<rparr>"

definition SetAdd :: "ChiHostReconcileAttributes \<Rightarrow> ChiHostReconcileAttributes" where
  "SetAdd s = s\<lparr>ra_add := True\<rparr>"

definition UnsetAdd :: "ChiHostReconcileAttributes \<Rightarrow> ChiHostReconcileAttributes" where
  "UnsetAdd s = s\<lparr>ra_add := False\<rparr>"

definition SetRemove :: "ChiHostReconcileAttributes \<Rightarrow> ChiHostReconcileAttributes" where
  "SetRemove s = s\<lparr>ra_remove := True\<rparr>"

definition SetModify :: "ChiHostReconcileAttributes \<Rightarrow> ChiHostReconcileAttributes" where
  "SetModify s = s\<lparr>ra_modify := True\<rparr>"

definition SetUnclear :: "ChiHostReconcileAttributes \<Rightarrow> ChiHostReconcileAttributes" where
  "SetUnclear s = s\<lparr>ra_unclear := True\<rparr>"

lemmas ra_defs = SetStatus_def SetAdd_def UnsetAdd_def SetRemove_def SetModify_def SetUnclear_def

section \<open>Merging and inheriting\<close>

definition or_port :: "port \<Rightarrow> port \<Rightarrow> port" where
  "or_port p q = (if p = 0 then q else p)"

definition ChiHost_MergeFrom :: "ChiHost option \<Rightarrow> ChiHost option \<Rightarrow> ChiHost option" where
  "ChiHost_MergeFrom host from = (case host of
     None \<Rightarrow> None
   | Some h \<Rightarrow> (case from of
       None \<Rightarrow> Some h
     | Some f \<Rightarrow> Some (h\<lparr>
         h_Port := (if h_Port h = 0 then h_Port f else h_Port h),
         h_TCPPort := (if h_TCPPort h = 0 then h_TCPPort f else h_TCPPort h),
         h_HTTPPort := (if h_HTTPPort h = 0 then h_HTTPPort f else h_HTTPPort h),
         h_InterserverHTTPPort :=
           (if h_InterserverHTTPPort h = 0 then h_InterserverHTTPPort f else h_InterserverHTTPPort h),
         h_Templates := HandleDeprecatedFields
           (ChiTemplateNames_MergeFrom MergeTypeFillEmptyValues (h_Templates h) (h_Templates f))\<rparr>)))"

text \<open>
  \<open>InheritSettingsFrom\<close>, \<open>InheritFilesFrom\<close> and \<open>InheritTemplatesFrom\<close> of a host read one section of the
  shard, of the replica and of the host template; an argument is \<open>None\<close> when that pointer is nil.
\<close>

definition ChiHost_InheritSettingsFrom ::
    "settings option option \<Rightarrow> settings option option \<Rightarrow> ChiHost \<Rightarrow> ChiHost" where
  "ChiHost_InheritSettingsFrom shard replica host = (
     let host = (case shard of Some st \<Rightarrow> host\<lparr>h_Settings := Settings_MergeFrom (h_Settings host) st\<rparr>
                  | None \<Rightarrow> host)
     in case replica of Some st \<Rightarrow> host\<lparr>h_Settings := Settings_MergeFrom (h_Settings host) st\<rparr>
          | None \<Rightarrow> host)"

definition ChiHost_InheritFilesFrom ::
    "settings option option \<Rightarrow> settings option option \<Rightarrow> ChiHost \<Rightarrow> ChiHost" where
  "ChiHost_InheritFilesFrom shard replica host = (
     let host = (case shard of Some st \<Rightarrow> host\<lparr>h_Files := Settings_MergeFrom (h_Files host) st\<rparr>
                  | None \<Rightarrow> host)
     in case replica of Some st \<Rightarrow> host\<lparr>h_Files := Settings_MergeFrom (h_Files host) st\<rparr>
          | None \<Rightarrow> host)"

definition fill_templates ::
    "ChiTemplateNames option option \<Rightarrow> ChiTemplateNames option \<Rightarrow> ChiTemplateNames option" where
  "fill_templates src t = (case src of
     Some s \<Rightarrow> ChiTemplateNames_MergeFrom MergeTypeFillEmptyValues t s | None \<Rightarrow> t)"

definition ChiHost_InheritTemplatesFrom ::
    "ChiTemplateNames option option \<Rightarrow> ChiTemplateNames option option
      \<Rightarrow> ChiTemplateNames option option \<Rightarrow> ChiHost \<Rightarrow> ChiHost" where
  "ChiHost_InheritTemplatesFrom shard replica template host =
     host\<lparr>h_Templates := HandleDeprecatedFields
       (fill_templates template (fill_templates replica (fill_templates shard (h_Templates host))))\<rparr>"

definition GetStatefulSetReplicasNum :: "bool \<Rightarrow> bool \<Rightarrow> int" where
  "GetStatefulSetReplicasNum shutdown stopped = (if shutdown then 0 else if stopped then 0 else 1)"
section \<open>Ports\<close>

definition chPortNumberMustBeAssignedLater :: port where
  "chPortNumberMustBeAssignedLater = 0"

definition chDefaultTCPPortNumber :: port where
  "chDefaultTCPPortNumber = 9000"

definition chDefaultHTTPPortNumber :: port where
  "chDefaultHTTPPortNumber = 8123"

definition chDefaultInterserverHTTPPortNumber :: port where
  "chDefaultInterserverHTTPPortNumber = 9009"

lemmas port_constants = chPortNumberMustBeAssignedLater_def chDefaultTCPPortNumber_def
  chDefaultHTTPPortNumber_def chDefaultInterserverHTTPPortNumber_def

definition reasonable_port :: "port \<Rightarrow> port" where
  "reasonable_port p =
     (if sint p \<le> 0 \<or> sint p \<ge> 65535 then chPortNumberMustBeAssignedLater else p)"

definition normalizeHostPorts :: "ChiHost \<Rightarrow> ChiHost" where
  "normalizeHostPorts host = host\<lparr>
     h_Port := reasonable_port (h_Port host),
     h_TCPPort := reasonable_port (h_TCPPort host),
     h_HTTPPort := reasonable_port (h_HTTPPort host),
     h_InterserverHTTPPort := reasonable_port (h_InterserverHTTPPort host)\<rparr>"

definition ensurePortValue :: "port \<Rightarrow> port \<Rightarrow> port \<Rightarrow> port" where
  "ensurePortValue port value fallback =
     (if port \<noteq> chPortNumberMustBeAssignedLater then port
      else if value \<noteq> chPortNumberMustBeAssignedLater then value
      else fallback)"

definition ensurePortValuesFromSettings :: "settings option \<Rightarrow> bool \<Rightarrow> ChiHost \<Rightarrow> ChiHost" where
  "ensurePortValuesFromSettings st finalize host = (
     let later = chPortNumberMustBeAssignedLater;
         fallbackTCP = (if finalize then chDefaultTCPPortNumber else later);
         fallbackHTTP = (if finalize then chDefaultHTTPPortNumber else later);
         fallbackInterserver = (if finalize then chDefaultInterserverHTTPPortNumber else later)
     in host\<lparr>
          h_TCPPort := ensurePortValue (h_TCPPort host) (word_of_int (GetTCPPort st)) fallbackTCP,
          h_HTTPPort := ensurePortValue (h_HTTPPort host) (word_of_int (GetHTTPPort st)) fallbackHTTP,
          h_InterserverHTTPPort :=
            ensurePortValue (h_InterserverHTTPPort host) (word_of_int (GetInterserverHTTPPort st))
              fallbackInterserver\<rparr>)"

text \<open>\<open>common\<close> is \<open>host.GetCHI().Spec.Configuration.Settings\<close>.\<close>

definition hostApplyPortsFromSettings :: "settings option \<Rightarrow> ChiHost \<Rightarrow> ChiHost" where
  "hostApplyPortsFromSettings common host =
     ensurePortValuesFromSettings common True
       (ensurePortValuesFromSettings (h_Settings host) False host)"

definition scoped_port :: "port \<Rightarrow> port \<Rightarrow> port \<Rightarrow> int \<Rightarrow> port" where
  "scoped_port p template_port fallback index =
     (if p = chPortNumberMustBeAssignedLater
      then (if template_port \<noteq> chPortNumberMustBeAssignedLater then template_port else fallback)
             + word_of_int index
      else p)"

definition distribute_ports :: "ChiHost \<Rightarrow> string \<Rightarrow> ChiHost \<Rightarrow> ChiHost" where
  "distribute_ports spec distribution host =
     (let later = chPortNumberMustBeAssignedLater;
          index = ha_ClusterScopeIndex (h_Address host) in
      if distribution = PortDistributionUnspecified then
        host\<lparr>h_TCPPort := (if h_TCPPort host = later then h_TCPPort spec else h_TCPPort host),
             h_HTTPPort := (if h_HTTPPort host = later then h_HTTPPort spec else h_HTTPPort host),
             h_InterserverHTTPPort :=
               (if h_InterserverHTTPPort host = later then h_InterserverHTTPPort spec
                else h_InterserverHTTPPort host)\<rparr>
      else if distribution = PortDistributionClusterScopeIndex then
        host\<lparr>h_TCPPort := scoped_port (h_TCPPort host) (h_TCPPort spec) chDefaultTCPPortNumber index,
             h_HTTPPort := scoped_port (h_HTTPPort host) (h_HTTPPort spec) chDefaultHTTPPortNumber index,
             h_InterserverHTTPPort :=
               scoped_port (h_InterserverHTTPPort host) (h_InterserverHTTPPort spec)
                 chDefaultInterserverHTTPPortNumber index\<rparr>
      else host)"

definition hostApplyHostTemplate :: "settings option \<Rightarrow> ChiHostTemplate \<Rightarrow> ChiHost \<Rightarrow> ChiHost" where
  "hostApplyHostTemplate common template host = (
     let spec = ht_Spec template;
         host = (if h_Name host = '''' then host\<lparr>h_Name := h_Name spec\<rparr> else host);
         host = fold (distribute_ports spec) (ht_PortDistribution template) host;
         host = hostApplyPortsFromSettings common host
     in ChiHost_InheritTemplatesFrom None None (Some (h_Templates spec)) host)"

definition newDefaultHostTemplate :: "string \<Rightarrow> ChiHostTemplate" where
  "newDefaultHostTemplate nm = \<lparr>ht_Name = nm,
     ht_PortDistribution = [PortDistributionUnspecified], ht_Spec = newChiHost\<rparr>"

definition newDefaultHostTemplateForHostNetwork :: "string \<Rightarrow> ChiHostTemplate" where
  "newDefaultHostTemplateForHostNetwork nm = \<lparr>ht_Name = nm,
     ht_PortDistribution = [PortDistributionClusterScopeIndex], ht_Spec = newChiHost\<rparr>"

definition normalize_distribution :: "string \<Rightarrow> string" where
  "normalize_distribution d =
     (if d = PortDistributionUnspecified \<or> d = PortDistributionClusterScopeIndex then d
      else PortDistributionUnspecified)"

text \<open>\<open>normalizeHostTemplate\<close>: a nil and an empty list of distributions are told apart by the code, so
  the list is an option here.\<close>

definition normalize_distributions :: "string list option \<Rightarrow> string list" where
  "normalize_distributions ds =
     map normalize_distribution (case ds of None \<Rightarrow> [PortDistributionUnspecified] | Some ds \<Rightarrow> ds)"

definition normalizeHostTemplate :: "string list option \<Rightarrow> ChiHostTemplate \<Rightarrow> ChiHostTemplate" where
  "normalizeHostTemplate distribution template =
     template\<lparr>ht_PortDistribution := normalize_distributions distribution,
              ht_Spec := normalizeHostPorts (ht_Spec template)\<rparr>"

subsection \<open>What a host ends up with\<close>

text \<open>The three ports, named, so that one statement covers them.\<close>

datatype port_kind = TCP | HTTP | Interserver

fun host_port :: "port_kind \<Rightarrow> ChiHost \<Rightarrow> port" where
  "host_port TCP h = h_TCPPort h"
| "host_port HTTP h = h_HTTPPort h"
| "host_port Interserver h = h_InterserverHTTPPort h"

fun default_port :: "port_kind \<Rightarrow> port" where
  "default_port TCP = chDefaultTCPPortNumber"
| "default_port HTTP = chDefaultHTTPPortNumber"
| "default_port Interserver = chDefaultInterserverHTTPPortNumber"

fun settings_port :: "port_kind \<Rightarrow> settings option \<Rightarrow> port" where
  "settings_port TCP st = word_of_int (GetTCPPort st)"
| "settings_port HTTP st = word_of_int (GetHTTPPort st)"
| "settings_port Interserver st = word_of_int (GetInterserverHTTPPort st)"

lemma default_port_nonzero [simp]: "default_port k \<noteq> 0"
  by (cases k) (simp_all add: port_constants)

text \<open>The port one distribution of a template offers to a host that has none.\<close>

definition offered_port :: "port_kind \<Rightarrow> ChiHost \<Rightarrow> int \<Rightarrow> string \<Rightarrow> port" where
  "offered_port k spec index d =
     (if d = PortDistributionUnspecified then host_port k spec
      else if d = PortDistributionClusterScopeIndex
      then (if host_port k spec \<noteq> 0 then host_port k spec else default_port k) + word_of_int index
      else 0)"

lemma distribution_names [simp]: "PortDistributionUnspecified \<noteq> PortDistributionClusterScopeIndex"
  by (simp add: PortDistributionUnspecified_def PortDistributionClusterScopeIndex_def)

lemma distribute_ports_port:
  "host_port k (distribute_ports spec d h)
     = (if host_port k h = 0 then offered_port k spec (ha_ClusterScopeIndex (h_Address h)) d
        else host_port k h)"
  by (cases k) (simp_all add: distribute_ports_def offered_port_def scoped_port_def
      chPortNumberMustBeAssignedLater_def Let_def)

lemma distribute_ports_rest [simp]:
  "h_Address (distribute_ports spec d h) = h_Address h"
  "h_Settings (distribute_ports spec d h) = h_Settings h"
  by (simp_all add: distribute_ports_def Let_def)

lemma fold_distribute_rest [simp]:
  "h_Address (fold (distribute_ports spec) ds h) = h_Address h"
  "h_Settings (fold (distribute_ports spec) ds h) = h_Settings h"
  by (induction ds arbitrary: h) simp_all

lemma fold_distribute_port:
  "host_port k (fold (distribute_ports spec) ds h)
     = first_nonempty 0 (host_port k h
         # map (offered_port k spec (ha_ClusterScopeIndex (h_Address h))) ds)"
  by (induction ds arbitrary: h) (auto simp: distribute_ports_port)

lemma ensure_settings_port:
  "host_port k (ensurePortValuesFromSettings st fin h)
     = first_nonempty 0 [host_port k h, settings_port k st, if fin then default_port k else 0]"
  by (cases k) (simp_all add: ensurePortValuesFromSettings_def ensurePortValue_def
      chPortNumberMustBeAssignedLater_def Let_def)

lemma ensure_settings_rest [simp]:
  "h_Settings (ensurePortValuesFromSettings st fin h) = h_Settings h"
  by (simp add: ensurePortValuesFromSettings_def Let_def)

lemma inherit_templates_port [simp]:
  "host_port k (ChiHost_InheritTemplatesFrom s r t h) = host_port k h"
  by (cases k) (simp_all add: ChiHost_InheritTemplatesFrom_def)

lemma host_port_name [simp]:
  "host_port k (h\<lparr>h_Name := n\<rparr>) = host_port k h"
  by (cases k) simp_all

lemma first_nonempty_nested:
  "first_nonempty e [first_nonempty e xs, y] = first_nonempty e (xs @ [y])"
  "first_nonempty e [first_nonempty e xs, y, z] = first_nonempty e (xs @ [y, z])"
  by (auto simp: first_nonempty_append)

lemma applied_port:
  "host_port k (hostApplyHostTemplate common template h)
     = first_nonempty 0 (host_port k h
         # map (offered_port k (ht_Spec template) (ha_ClusterScopeIndex (h_Address h)))
             (ht_PortDistribution template)
         @ [settings_port k (h_Settings h), settings_port k common, default_port k])
   \<and> host_port k (hostApplyHostTemplate common template h) \<noteq> 0"
proof -
  let ?h = "if h_Name h = '''' then h\<lparr>h_Name := h_Name (ht_Spec template)\<rparr> else h"
  have h: "host_port k ?h = host_port k h" "h_Address ?h = h_Address h" "h_Settings ?h = h_Settings h"
    by simp_all
  have "host_port k (hostApplyHostTemplate common template h)
     = first_nonempty 0 [first_nonempty 0 [host_port k (fold (distribute_ports (ht_Spec template))
           (ht_PortDistribution template) ?h), settings_port k (h_Settings h), 0],
           settings_port k common, default_port k]"
    by (simp only: hostApplyHostTemplate_def Let_def hostApplyPortsFromSettings_def
        inherit_templates_port ensure_settings_port fold_distribute_rest h if_True if_False)
  then show ?thesis
    unfolding fold_distribute_port h by (auto simp: first_nonempty_append)
qed

text \<open>
  C15: where a port of a host comes from once its template was applied: the first of its own value,
  what the distributions of the template offer (the port of the template, or base plus the index of
  the host in its cluster), the host's settings, the settings of the installation, and the default;
  every port is assigned in the end.
\<close>

theorem hostApplyHostTemplate_port:
  "host_port k (hostApplyHostTemplate common template h)
     = first_nonempty 0 (host_port k h
         # map (offered_port k (ht_Spec template) (ha_ClusterScopeIndex (h_Address h)))
             (ht_PortDistribution template)
         @ [settings_port k (h_Settings h), settings_port k common, default_port k])
   \<and> host_port k (hostApplyHostTemplate common template h) \<noteq> 0"
  by (rule applied_port)

lemma first_nonempty_head: "x \<noteq> e \<Longrightarrow> first_nonempty e (x # xs) = x"
  by simp

lemma host_network_port:
  assumes "host_port k h = 0" "default_port k + word_of_int (ha_ClusterScopeIndex (h_Address h)) \<noteq> 0"
  shows "host_port k (hostApplyHostTemplate common (newDefaultHostTemplateForHostNetwork nm) h)
     = default_port k + word_of_int (ha_ClusterScopeIndex (h_Address h))"
proof -
  have "host_port k newChiHost = 0" by (cases k) (simp_all add: newChiHost_def)
  then have "offered_port k newChiHost i PortDistributionClusterScopeIndex
      = default_port k + word_of_int i" for i
    by (simp add: offered_port_def distribution_names [symmetric] del: distribution_names)
  with assms show ?thesis
    using applied_port [of k common "newDefaultHostTemplateForHostNetwork nm" h]
    by (simp add: newDefaultHostTemplateForHostNetwork_def)
qed

definition scope_index :: "ChiHost \<Rightarrow> int" where
  "scope_index h = ha_ClusterScopeIndex (h_Address h)"

lemma default_plus_index:
  assumes "0 \<le> i" "i < 2 ^ 31"
  shows "uint (default_port k + word_of_int i) = uint (default_port k) + i"
    and "default_port k + word_of_int i \<noteq> 0"
proof -
  have d: "0 < uint (default_port k)" "uint (default_port k) < 10000"
    by (cases k; simp add: port_constants)+
  then show u: "uint (default_port k + word_of_int i) = uint (default_port k) + i"
    using assms by (simp add: uint_word_ariths uint_word_of_int)
  show "default_port k + word_of_int i \<noteq> 0"
  proof
    assume "default_port k + word_of_int i = 0"
    with u d assms show False by simp
  qed
qed

text \<open>
  Hosts on the host network get their ports from their index in the cluster. Two ports of two
  hosts that specify none are equal exactly when the sums of base and index are: ports of the same
  kind differ for different indices, and the TCP port of one host is the interserver port of another
  when its index is 9 higher.
\<close>

theorem host_network_ports_collide_iff:
  assumes "host_port k a = 0" and "host_port l b = 0"
    and "0 \<le> scope_index a" and "scope_index a < 2 ^ 31"
    and "0 \<le> scope_index b" and "scope_index b < 2 ^ 31"
  shows "host_port k (hostApplyHostTemplate common (newDefaultHostTemplateForHostNetwork m) a)
       = host_port l (hostApplyHostTemplate common (newDefaultHostTemplateForHostNetwork n) b)
     \<longleftrightarrow> uint (default_port k) + scope_index a = uint (default_port l) + scope_index b"
  using assms default_plus_index [of "scope_index a" k] default_plus_index [of "scope_index b" l]
  by (simp add: scope_index_def host_network_port word_uint_eq_iff)

definition indexed_host :: "int \<Rightarrow> ChiHost" where
  "indexed_host i = newChiHost\<lparr>h_Address := newChiHostAddress\<lparr>ha_ClusterScopeIndex := i\<rparr>\<rparr>"

lemma indexed_host_simps [simp]:
  "host_port k (indexed_host i) = 0" "scope_index (indexed_host i) = i"
  by (cases k) (simp_all add: indexed_host_def newChiHost_def scope_index_def)

theorem host_network_ports_collide_witness:
  "host_port TCP (hostApplyHostTemplate None (newDefaultHostTemplateForHostNetwork ''a'') (indexed_host 9))
     = host_port Interserver
         (hostApplyHostTemplate None (newDefaultHostTemplateForHostNetwork ''b'') (indexed_host 0))
   \<and> host_port TCP (hostApplyHostTemplate None (newDefaultHostTemplateForHostNetwork ''a'') (indexed_host 1))
     \<noteq> host_port TCP
         (hostApplyHostTemplate None (newDefaultHostTemplateForHostNetwork ''b'') (indexed_host 0))"
  using host_network_ports_collide_iff [of TCP "indexed_host 9" Interserver "indexed_host 0" None "''a''" "''b''"]
    host_network_ports_collide_iff [of TCP "indexed_host 1" TCP "indexed_host 0" None "''a''" "''b''"]
  by (simp add: port_constants)

end
