(* ===== verification/ChiLayout.thy ===== *)
theory ChiLayout
  imports ChiHost
begin

text \<open>
  The layout of a cluster: \<open>type_cluster.go\<close>, \<open>type_shard.go\<close>, \<open>type_replica.go\<close>,
  \<open>type_hosts_field.go\<close> and the part of \<open>pkg/model/normalizer.go\<close> that normalizes a cluster
  (\<open>normalizeCluster\<close> and everything below it).

  The same host is reached through a shard, through a replica and through the field of hosts. The
  code shares a pointer; here the hosts live in a store (a list, a pointer is an index into it), and
  the shards, the replicas and the field hold pointers, so a change made through one of them is seen
  through the others as in the code.
\<close>

section \<open>Data\<close>

type_synonym host_ptr = "nat option"
type_synonym host_store = "ChiHost list"

text \<open>The addresses of a cluster, a shard and a replica; they are empty until the installation is
  addressed.\<close>

record ChiClusterAddress =
  ca_Namespace :: string
  ca_CHIName :: string
  ca_ClusterName :: string
  ca_ClusterIndex :: int

record ChiShardAddress =
  sa_Namespace :: string
  sa_CHIName :: string
  sa_ClusterName :: string
  sa_ClusterIndex :: int
  sa_ShardName :: string
  sa_ShardIndex :: int

record ChiReplicaAddress =
  rpa_Namespace :: string
  rpa_CHIName :: string
  rpa_ClusterName :: string
  rpa_ClusterIndex :: int
  rpa_ReplicaName :: string
  rpa_ReplicaIndex :: int

definition newChiClusterAddress :: ChiClusterAddress where
  "newChiClusterAddress = \<lparr>ca_Namespace = '''', ca_CHIName = '''', ca_ClusterName = '''',
     ca_ClusterIndex = 0\<rparr>"

definition newChiShardAddress :: ChiShardAddress where
  "newChiShardAddress = \<lparr>sa_Namespace = '''', sa_CHIName = '''', sa_ClusterName = '''',
     sa_ClusterIndex = 0, sa_ShardName = '''', sa_ShardIndex = 0\<rparr>"

definition newChiReplicaAddress :: ChiReplicaAddress where
  "newChiReplicaAddress = \<lparr>rpa_Namespace = '''', rpa_CHIName = '''', rpa_ClusterName = '''',
     rpa_ClusterIndex = 0, rpa_ReplicaName = '''', rpa_ReplicaIndex = 0\<rparr>"

record ChiShard =
  sh_Name :: string
  sh_Weight :: int
  sh_InternalReplication :: string
  sh_Settings :: "settings option"
  sh_Files :: "settings option"
  sh_Templates :: "ChiTemplateNames option"
  sh_ReplicasCount :: int
  sh_Hosts :: "host_ptr list"
  sh_Address :: ChiShardAddress

record ChiReplica =
  rp_Name :: string
  rp_Settings :: "settings option"
  rp_Files :: "settings option"
  rp_Templates :: "ChiTemplateNames option"
  rp_ShardsCount :: int
  rp_Hosts :: "host_ptr list"
  rp_Address :: ChiReplicaAddress

definition newChiShard :: ChiShard where
  "newChiShard = \<lparr>sh_Name = '''', sh_Weight = 0, sh_InternalReplication = '''', sh_Settings = None,
     sh_Files = None, sh_Templates = None, sh_ReplicasCount = 0, sh_Hosts = [],
     sh_Address = newChiShardAddress\<rparr>"

definition newChiReplica :: ChiReplica where
  "newChiReplica = \<lparr>rp_Name = '''', rp_Settings = None, rp_Files = None, rp_Templates = None,
     rp_ShardsCount = 0, rp_Hosts = [], rp_Address = newChiReplicaAddress\<rparr>"

record HostsField =
  hf_ShardsCount :: int
  hf_ReplicasCount :: int
  hf_Field :: "host_ptr list list"

record ChiClusterLayout =
  lay_ShardsCount :: int
  lay_ReplicasCount :: int
  lay_Shards :: "ChiShard list"
  lay_Replicas :: "ChiReplica list"
  lay_ShardsSpecified :: bool
  lay_ReplicasSpecified :: bool

definition NewChiClusterLayout :: ChiClusterLayout where
  "NewChiClusterLayout = \<lparr>lay_ShardsCount = 0, lay_ReplicasCount = 0, lay_Shards = [],
     lay_Replicas = [], lay_ShardsSpecified = False, lay_ReplicasSpecified = False\<rparr>"

record ChiCluster =
  cu_Name :: string
  cu_Zookeeper :: "ChiZookeeperConfig option"
  cu_Settings :: "settings option"
  cu_Files :: "settings option"
  cu_Templates :: "ChiTemplateNames option"
  cu_Layout :: "ChiClusterLayout option"
  cu_Address :: ChiClusterAddress

section \<open>The field of hosts\<close>

definition NewHostsField :: "int \<Rightarrow> int \<Rightarrow> HostsField go" where
  "NewHostsField shards replicas =
     go_bind (go_make shards ([] :: host_ptr list)) (\<lambda>rows.
     go_bind (go_fold (\<lambda>_ acc. go_bind (go_make replicas None) (\<lambda>row. Inr (acc @ [row]))) rows [])
       (\<lambda>field. Inr \<lparr>hf_ShardsCount = shards, hf_ReplicasCount = replicas, hf_Field = field\<rparr>))"

definition HostsField_Get :: "HostsField \<Rightarrow> int \<Rightarrow> int \<Rightarrow> host_ptr go" where
  "HostsField_Get hf shard replica =
     go_bind (go_nth (hf_Field hf) shard) (\<lambda>row. go_nth row replica)"

definition HostsField_Set :: "int \<Rightarrow> int \<Rightarrow> host_ptr \<Rightarrow> HostsField \<Rightarrow> HostsField go" where
  "HostsField_Set shard replica host hf =
     go_bind (go_nth (hf_Field hf) shard) (\<lambda>row.
     go_bind (go_update row replica host) (\<lambda>row'.
     go_bind (go_update (hf_Field hf) shard row') (\<lambda>field'. Inr (hf\<lparr>hf_Field := field'\<rparr>))))"

definition GetOrCreate ::
    "int \<Rightarrow> int \<Rightarrow> host_store \<times> HostsField \<Rightarrow> (host_ptr \<times> host_store \<times> HostsField) go" where
  "GetOrCreate shard replica = (\<lambda>(store, hf).
     go_bind (HostsField_Get hf shard replica) (\<lambda>cur. case cur of
       Some a \<Rightarrow> Inr (Some a, store, hf)
     | None \<Rightarrow>
         go_bind (HostsField_Set shard replica (Some (length store)) hf) (\<lambda>hf'.
           Inr (Some (length store), store @ [newChiHost], hf'))))"

text \<open>\<open>WalkHosts\<close>: the coordinates and hosts visited, in the order of the visits.\<close>

definition HostsField_WalkHosts :: "HostsField \<Rightarrow> (nat \<times> nat \<times> nat) list" where
  "HostsField_WalkHosts hf = concat (map (\<lambda>i. let row = hf_Field hf ! i in
     concat (map (\<lambda>j. case row ! j of Some a \<Rightarrow> [(i, j, a)] | None \<Rightarrow> []) [0..<length row]))
     [0..<length (hf_Field hf)])"

definition HostsField_HostsCount :: "HostsField \<Rightarrow> nat" where
  "HostsField_HostsCount hf = length (HostsField_WalkHosts hf)"

section \<open>The cluster\<close>

definition FillShardReplicaSpecified :: "ChiClusterLayout \<Rightarrow> ChiClusterLayout" where
  "FillShardReplicaSpecified lay = (
     let lay = (if length (lay_Shards lay) > 0 then lay\<lparr>lay_ShardsSpecified := True\<rparr> else lay)
     in if length (lay_Replicas lay) > 0 then lay\<lparr>lay_ReplicasSpecified := True\<rparr> else lay)"

definition isShardSpecified :: "ChiClusterLayout \<Rightarrow> bool" where
  "isShardSpecified lay = (lay_ShardsSpecified lay = True)"

definition isReplicaSpecified :: "ChiClusterLayout \<Rightarrow> bool" where
  "isReplicaSpecified lay = (lay_ShardsSpecified lay = False \<and> lay_ReplicasSpecified lay = True)"

definition IsShardSpecified :: "ChiClusterLayout \<Rightarrow> bool" where
  "IsShardSpecified lay =
     (if \<not> isShardSpecified lay \<and> \<not> isReplicaSpecified lay then True else isShardSpecified lay)"

definition WalkHostsByShards :: "ChiClusterLayout \<Rightarrow> (int \<times> int \<times> host_ptr) list" where
  "WalkHostsByShards lay = concat (map (\<lambda>i. let shard = lay_Shards lay ! i in
     map (\<lambda>j. (int i, int j, sh_Hosts shard ! j)) [0..<length (sh_Hosts shard)])
     [0..<length (lay_Shards lay)])"

definition WalkHostsByReplicas :: "ChiClusterLayout \<Rightarrow> (int \<times> int \<times> host_ptr) list" where
  "WalkHostsByReplicas lay = concat (map (\<lambda>j. let replica = lay_Replicas lay ! j in
     map (\<lambda>i. (int i, int j, rp_Hosts replica ! i)) [0..<length (rp_Hosts replica)])
     [0..<length (lay_Replicas lay)])"

definition WalkHosts :: "ChiClusterLayout \<Rightarrow> host_ptr list" where
  "WalkHosts lay = concat (map sh_Hosts (lay_Shards lay))"

definition FirstHost :: "ChiClusterLayout \<Rightarrow> host_ptr" where
  "FirstHost lay = fold (\<lambda>h result. if result = None then h else result) (WalkHosts lay) None"

definition FindHost :: "nat \<Rightarrow> ChiClusterLayout \<Rightarrow> host_ptr" where
  "FindHost needle lay = fold (\<lambda>h result. if Some needle = h then h else result) (WalkHosts lay) None"

datatype needle = NeedleName string | NeedleIndex int

definition FindShard :: "needle \<Rightarrow> ChiClusterLayout \<Rightarrow> ChiShard option" where
  "FindShard needle lay = fold (\<lambda>(i, sh) result. case needle of
       NeedleName v \<Rightarrow> if sh_Name sh = v then Some sh else result
     | NeedleIndex v \<Rightarrow> if int i = v then Some sh else result)
     (enumerate 0 (lay_Shards lay)) None"

text \<open>What a cluster inherits from the installation: \<open>conf_zk\<close> and \<open>conf_files\<close> are the sections of
  \<open>.spec.configuration\<close> (\<open>None\<close> when that or the section is nil), \<open>def_templates\<close> that of
  \<open>.spec.defaults\<close>.\<close>

definition InheritZookeeperFrom :: "ChiZookeeperConfig option \<Rightarrow> ChiCluster \<Rightarrow> ChiCluster" where
  "InheritZookeeperFrom conf_zk cluster =
     (if \<not> ChiZookeeperConfig_IsEmpty (cu_Zookeeper cluster) then cluster
      else case conf_zk of
        None \<Rightarrow> cluster
      | Some z \<Rightarrow> cluster\<lparr>cu_Zookeeper :=
          ChiZookeeperConfig_MergeFrom MergeTypeFillEmptyValues (cu_Zookeeper cluster) (Some z)\<rparr>)"

definition InheritFilesFrom :: "settings option \<Rightarrow> ChiCluster \<Rightarrow> ChiCluster" where
  "InheritFilesFrom conf_files cluster = (case conf_files of
     None \<Rightarrow> cluster
   | Some f \<Rightarrow> cluster\<lparr>cu_Files := Settings_MergeFromCB
       (\<lambda>path _. case getSectionFromPath path of Inr section \<Rightarrow> section = SectionHost | Inl _ \<Rightarrow> False)
       (cu_Files cluster) (Some f)\<rparr>)"

definition InheritTemplatesFrom :: "ChiTemplateNames option \<Rightarrow> ChiCluster \<Rightarrow> ChiCluster" where
  "InheritTemplatesFrom def_templates cluster = (case def_templates of
     None \<Rightarrow> cluster
   | Some t \<Rightarrow> cluster\<lparr>cu_Templates := HandleDeprecatedFields
       (ChiTemplateNames_MergeFrom MergeTypeFillEmptyValues (cu_Templates cluster) (Some t))\<rparr>)"

section \<open>Normalizing the layout\<close>

text \<open>The loops keep a running maximum of a counter and the lengths and counts they meet.\<close>

definition bump :: "int \<Rightarrow> int \<Rightarrow> int" where
  "bump x count = (if x > count then x else count)"

definition derivedShardsCount :: "ChiClusterLayout \<Rightarrow> int" where
  "derivedShardsCount lay =
     fold (\<lambda>rp count. bump (int (length (rp_Hosts rp))) (bump (rp_ShardsCount rp) count))
       (lay_Replicas lay) (bump (int (length (lay_Shards lay))) 1)"

definition derivedReplicasCount :: "ChiClusterLayout \<Rightarrow> int" where
  "derivedReplicasCount lay =
     bump (int (length (lay_Replicas lay)))
       (fold (\<lambda>sh count. bump (int (length (sh_Hosts sh))) (bump (sh_ReplicasCount sh) count))
         (lay_Shards lay) 1)"

definition normalizeClusterLayoutShardsCountAndReplicasCount ::
    "ChiClusterLayout option \<Rightarrow> ChiClusterLayout" where
  "normalizeClusterLayoutShardsCountAndReplicasCount layout = (
     let lay = (case layout of None \<Rightarrow> NewChiClusterLayout | Some lay \<Rightarrow> lay);
         lay = (if lay_ShardsCount lay = 0 then lay\<lparr>lay_ShardsCount := derivedShardsCount lay\<rparr> else lay)
     in if lay_ReplicasCount lay = 0 then lay\<lparr>lay_ReplicasCount := derivedReplicasCount lay\<rparr> else lay)"

definition ensureClusterLayoutShards :: "ChiClusterLayout \<Rightarrow> ChiClusterLayout" where
  "ensureClusterLayoutShards lay = lay\<lparr>lay_Shards := lay_Shards lay @
     replicate (nat (lay_ShardsCount lay) - length (lay_Shards lay)) newChiShard\<rparr>"

definition ensureClusterLayoutReplicas :: "ChiClusterLayout \<Rightarrow> ChiClusterLayout" where
  "ensureClusterLayoutReplicas lay = lay\<lparr>lay_Replicas := lay_Replicas lay @
     replicate (nat (lay_ReplicasCount lay) - length (lay_Replicas lay)) newChiReplica\<rparr>"

text \<open>Dereferencing a pointer of the store. Pointers come only from the store, so the panic branch
  stands for a dereference of nil.\<close>

definition store_get :: "host_store \<Rightarrow> host_ptr \<Rightarrow> ChiHost option" where
  "store_get store p = (case p of None \<Rightarrow> None
     | Some a \<Rightarrow> if a < length store then Some (store ! a) else None)"

definition store_put :: "nat \<Rightarrow> ChiHost option \<Rightarrow> host_store \<Rightarrow> host_store" where
  "store_put a h store = (case h of None \<Rightarrow> store | Some h \<Rightarrow> store[a := h])"

definition hostMergeFunc ::
    "int \<times> int \<times> host_ptr \<Rightarrow> host_store \<times> HostsField \<Rightarrow> (host_store \<times> HostsField) go" where
  "hostMergeFunc = (\<lambda>(shard, replica, host) (store, hf).
     go_bind (HostsField_Get hf shard replica) (\<lambda>cur. case cur of
       None \<Rightarrow> go_bind (HostsField_Set shard replica host hf) (\<lambda>hf'. Inr (store, hf'))
     | Some a \<Rightarrow> Inr (store_put a
         (ChiHost_MergeFrom (store_get store (Some a)) (store_get store host)) store, hf)))"

definition createHostsField ::
    "ChiClusterLayout \<Rightarrow> host_store \<Rightarrow> (host_store \<times> HostsField) go" where
  "createHostsField lay store =
     go_bind (NewHostsField (lay_ShardsCount lay) (lay_ReplicasCount lay)) (\<lambda>hf.
     go_bind (go_fold hostMergeFunc (WalkHostsByShards lay) (store, hf)) (\<lambda>s.
       go_fold hostMergeFunc (WalkHostsByReplicas lay) s))"

section \<open>Normalizing shards, replicas and hosts\<close>

definition CreateShardName :: "int \<Rightarrow> string" where
  "CreateShardName index = Itoa index"

definition IsAutoGeneratedShardName :: "string \<Rightarrow> int \<Rightarrow> bool" where
  "IsAutoGeneratedShardName nm index = (nm = CreateShardName index)"

definition CreateReplicaName :: "int \<Rightarrow> string" where
  "CreateReplicaName index = Itoa index"

definition IsAutoGeneratedReplicaName :: "string \<Rightarrow> int \<Rightarrow> bool" where
  "IsAutoGeneratedReplicaName nm index = (nm = CreateReplicaName index)"

definition CreateHostName :: "ChiShard \<Rightarrow> ChiReplica \<Rightarrow> string" where
  "CreateHostName shard replica = sh_Name shard @ ''-'' @ rp_Name replica"

definition IsAutoGeneratedHostName ::
    "string \<Rightarrow> ChiShard \<Rightarrow> int \<Rightarrow> ChiReplica \<Rightarrow> int \<Rightarrow> bool" where
  "IsAutoGeneratedHostName nm shard shardIndex replica replicaIndex =
     (if nm = CreateHostName shard replica then True
      else if nm = Itoa shardIndex @ ''-'' @ Itoa replicaIndex then True
      else if nm = Itoa shardIndex then True
      else if nm = Itoa replicaIndex then True
      else False)"

definition normalizeShardName :: "int \<Rightarrow> ChiShard \<Rightarrow> ChiShard" where
  "normalizeShardName index shard =
     (if length (sh_Name shard) > 0 \<and> \<not> IsAutoGeneratedShardName (sh_Name shard) index then shard
      else shard\<lparr>sh_Name := CreateShardName index\<rparr>)"

definition normalizeReplicaName :: "int \<Rightarrow> ChiReplica \<Rightarrow> ChiReplica" where
  "normalizeReplicaName index replica =
     (if length (rp_Name replica) > 0 \<and> \<not> IsAutoGeneratedReplicaName (rp_Name replica) index then replica
      else replica\<lparr>rp_Name := CreateReplicaName index\<rparr>)"

definition normalizeShardReplicasCount :: "int \<Rightarrow> ChiShard \<Rightarrow> ChiShard" where
  "normalizeShardReplicasCount layoutReplicasCount shard =
     (if sh_ReplicasCount shard > 0 then shard
      else if length (sh_Hosts shard) > 0 then shard\<lparr>sh_ReplicasCount := int (length (sh_Hosts shard))\<rparr>
      else shard\<lparr>sh_ReplicasCount := layoutReplicasCount\<rparr>)"

definition normalizeReplicaShardsCount :: "int \<Rightarrow> ChiReplica \<Rightarrow> ChiReplica" where
  "normalizeReplicaShardsCount layoutShardsCount replica =
     (if rp_ShardsCount replica > 0 then replica
      else if length (rp_Hosts replica) > 0
      then replica\<lparr>rp_ShardsCount := int (length (rp_Hosts replica))\<rparr>
      else replica\<lparr>rp_ShardsCount := layoutShardsCount\<rparr>)"

text \<open>The loops of \<open>normalizeShardHosts\<close> and \<open>normalizeReplicaHosts\<close> start from no hosts and append one
  for each index below the count.\<close>

definition collectHosts ::
    "(nat \<Rightarrow> int \<times> int) \<Rightarrow> int \<Rightarrow> host_store \<times> HostsField
      \<Rightarrow> ((host_store \<times> HostsField) \<times> host_ptr list) go" where
  "collectHosts coord count s =
     go_fold (\<lambda>k (s, hosts). go_bind (GetOrCreate (fst (coord k)) (snd (coord k)) s)
         (\<lambda>(h, store, hf). Inr ((store, hf), hosts @ [h])))
       [0..<nat count] (s, [])"

definition normalizeShardHosts ::
    "int \<Rightarrow> (host_store \<times> HostsField) \<times> ChiShard \<Rightarrow> ((host_store \<times> HostsField) \<times> ChiShard) go" where
  "normalizeShardHosts shardIndex = (\<lambda>(s, shard).
     go_bind (collectHosts (\<lambda>k. (shardIndex, int k)) (sh_ReplicasCount shard) s)
       (\<lambda>(s', hosts). Inr (s', shard\<lparr>sh_Hosts := hosts\<rparr>)))"

definition normalizeReplicaHosts ::
    "int \<Rightarrow> (host_store \<times> HostsField) \<times> ChiReplica \<Rightarrow> ((host_store \<times> HostsField) \<times> ChiReplica) go" where
  "normalizeReplicaHosts replicaIndex = (\<lambda>(s, replica).
     go_bind (collectHosts (\<lambda>k. (int k, replicaIndex)) (rp_ShardsCount replica) s)
       (\<lambda>(s', hosts). Inr (s', replica\<lparr>rp_Hosts := hosts\<rparr>)))"

definition normalizeShardInternalReplication :: "ChiShard \<Rightarrow> ChiShard" where
  "normalizeShardInternalReplication shard = shard\<lparr>sh_InternalReplication :=
     CastStringBoolToStringTrueFalse (sh_InternalReplication shard) (sh_ReplicasCount shard > 1)\<rparr>"

definition ChiShard_InheritSettingsFrom :: "ChiCluster \<Rightarrow> ChiShard \<Rightarrow> ChiShard" where
  "ChiShard_InheritSettingsFrom cluster shard =
     shard\<lparr>sh_Settings := Settings_MergeFrom (sh_Settings shard) (cu_Settings cluster)\<rparr>"

definition ChiShard_InheritFilesFrom :: "ChiCluster \<Rightarrow> ChiShard \<Rightarrow> ChiShard" where
  "ChiShard_InheritFilesFrom cluster shard =
     shard\<lparr>sh_Files := Settings_MergeFrom (sh_Files shard) (cu_Files cluster)\<rparr>"

definition ChiShard_InheritTemplatesFrom :: "ChiCluster \<Rightarrow> ChiShard \<Rightarrow> ChiShard" where
  "ChiShard_InheritTemplatesFrom cluster shard =
     shard\<lparr>sh_Templates := HandleDeprecatedFields (ChiTemplateNames_MergeFrom
       MergeTypeFillEmptyValues (sh_Templates shard) (cu_Templates cluster))\<rparr>"

definition ChiReplica_InheritSettingsFrom :: "ChiCluster \<Rightarrow> ChiReplica \<Rightarrow> ChiReplica" where
  "ChiReplica_InheritSettingsFrom cluster replica =
     replica\<lparr>rp_Settings := Settings_MergeFrom (rp_Settings replica) (cu_Settings cluster)\<rparr>"

definition ChiReplica_InheritFilesFrom :: "ChiCluster \<Rightarrow> ChiReplica \<Rightarrow> ChiReplica" where
  "ChiReplica_InheritFilesFrom cluster replica =
     replica\<lparr>rp_Files := Settings_MergeFrom (rp_Files replica) (cu_Files cluster)\<rparr>"

definition ChiReplica_InheritTemplatesFrom :: "ChiCluster \<Rightarrow> ChiReplica \<Rightarrow> ChiReplica" where
  "ChiReplica_InheritTemplatesFrom cluster replica =
     replica\<lparr>rp_Templates := HandleDeprecatedFields (ChiTemplateNames_MergeFrom
       MergeTypeFillEmptyValues (rp_Templates replica) (cu_Templates cluster))\<rparr>"

lemmas inherit_defs = ChiShard_InheritSettingsFrom_def ChiShard_InheritFilesFrom_def
  ChiShard_InheritTemplatesFrom_def ChiReplica_InheritSettingsFrom_def
  ChiReplica_InheritFilesFrom_def ChiReplica_InheritTemplatesFrom_def

definition normalizeShard ::
    "ChiCluster \<Rightarrow> int \<Rightarrow> int \<Rightarrow> (host_store \<times> HostsField) \<times> ChiShard
      \<Rightarrow> ((host_store \<times> HostsField) \<times> ChiShard) go" where
  "normalizeShard cluster layoutReplicasCount shardIndex = (\<lambda>(s, shard).
     let shard = normalizeShardName shardIndex shard;
         shard = ChiShard_InheritSettingsFrom cluster shard;
         shard = shard\<lparr>sh_Settings := normalizePaths (sh_Settings shard)\<rparr>;
         shard = ChiShard_InheritFilesFrom cluster shard;
         shard = shard\<lparr>sh_Files := normalizePaths (sh_Files shard)\<rparr>;
         shard = ChiShard_InheritTemplatesFrom cluster shard;
         shard = normalizeShardReplicasCount layoutReplicasCount shard
     in go_bind (normalizeShardHosts shardIndex (s, shard))
          (\<lambda>(s', shard). Inr (s', normalizeShardInternalReplication shard)))"

definition normalizeReplica ::
    "ChiCluster \<Rightarrow> int \<Rightarrow> int \<Rightarrow> (host_store \<times> HostsField) \<times> ChiReplica
      \<Rightarrow> ((host_store \<times> HostsField) \<times> ChiReplica) go" where
  "normalizeReplica cluster layoutShardsCount replicaIndex = (\<lambda>(s, replica).
     let replica = normalizeReplicaName replicaIndex replica;
         replica = ChiReplica_InheritSettingsFrom cluster replica;
         replica = replica\<lparr>rp_Settings := normalizePaths (rp_Settings replica)\<rparr>;
         replica = ChiReplica_InheritFilesFrom cluster replica;
         replica = replica\<lparr>rp_Files := normalizePaths (rp_Files replica)\<rparr>;
         replica = ChiReplica_InheritTemplatesFrom cluster replica;
         replica = normalizeReplicaShardsCount layoutShardsCount replica
     in normalizeReplicaHosts replicaIndex (s, replica))"

definition normalizeHostName ::
    "ChiShard \<Rightarrow> int \<Rightarrow> ChiReplica \<Rightarrow> int \<Rightarrow> ChiHost \<Rightarrow> ChiHost" where
  "normalizeHostName shard shardIndex replica replicaIndex host =
     (if length (h_Name host) > 0
         \<and> \<not> IsAutoGeneratedHostName (h_Name host) shard shardIndex replica replicaIndex
      then host
      else host\<lparr>h_Name := CreateHostName shard replica\<rparr>)"

definition normalizeHost ::
    "bool \<Rightarrow> ChiShard \<Rightarrow> int \<Rightarrow> ChiReplica \<Rightarrow> int \<Rightarrow> ChiHost \<Rightarrow> ChiHost" where
  "normalizeHost shardSpecified shard shardIndex replica replicaIndex host = (
     let host = normalizeHostPorts (normalizeHostName shard shardIndex replica replicaIndex host);
         host = ChiHost_InheritSettingsFrom
           (if shardSpecified then Some (sh_Settings shard) else None)
           (if shardSpecified then None else Some (rp_Settings replica)) host;
         host = host\<lparr>h_Settings := normalizePaths (h_Settings host)\<rparr>;
         host = ChiHost_InheritFilesFrom
           (if shardSpecified then Some (sh_Files shard) else None)
           (if shardSpecified then None else Some (rp_Files replica)) host;
         host = host\<lparr>h_Files := normalizePaths (h_Files host)\<rparr>
     in ChiHost_InheritTemplatesFrom
          (if shardSpecified then Some (sh_Templates shard) else None)
          (if shardSpecified then None else Some (rp_Templates replica)) None host)"

text \<open>\<open>WalkShards\<close> and \<open>WalkReplicas\<close> hand out the address of each element in turn, so that the
  callback updates the slice; no callback looks at another element of it.\<close>

fun walk_from ::
    "(int \<Rightarrow> 's \<times> 'a \<Rightarrow> ('s \<times> 'a) go) \<Rightarrow> nat \<Rightarrow> 's \<Rightarrow> 'a list \<Rightarrow> ('s \<times> 'a list) go" where
  "walk_from f i s [] = Inr (s, [])"
| "walk_from f i s (x # xs) =
     go_bind (f (int i) (s, x)) (\<lambda>(s', y).
     go_bind (walk_from f (Suc i) s' xs) (\<lambda>(s'', ys). Inr (s'', y # ys)))"

definition walk_update ::
    "(int \<Rightarrow> 's \<times> 'a \<Rightarrow> ('s \<times> 'a) go) \<Rightarrow> 's \<times> 'a list \<Rightarrow> ('s \<times> 'a list) go" where
  "walk_update f = (\<lambda>(s, xs). walk_from f 0 s xs)"

definition normalizeHosts ::
    "ChiClusterLayout \<Rightarrow> host_store \<times> HostsField \<Rightarrow> host_store go" where
  "normalizeHosts lay = (\<lambda>(store, hf).
     go_fold (\<lambda>(i, j, a) store.
       go_bind (go_nth (lay_Shards lay) (int i)) (\<lambda>shard.
       go_bind (go_nth (lay_Replicas lay) (int j)) (\<lambda>replica.
         Inr (store_put a (map_option
           (normalizeHost (IsShardSpecified lay) shard (int i) replica (int j))
           (store_get store (Some a))) store))))
       (HostsField_WalkHosts hf) store)"

definition newDefaultCluster :: ChiCluster where
  "newDefaultCluster = \<lparr>cu_Name = ''cluster'', cu_Zookeeper = None, cu_Settings = None,
     cu_Files = None, cu_Templates = None, cu_Layout = None, cu_Address = newChiClusterAddress\<rparr>"

text \<open>The layout of a cluster as it is when its hosts are built: counts fixed, slices extended.\<close>

definition prepareLayout :: "ChiClusterLayout option \<Rightarrow> ChiClusterLayout" where
  "prepareLayout layout =
     (ensureClusterLayoutReplicas \<circ> ensureClusterLayoutShards
      \<circ> (\<lambda>lay. normalizeClusterLayoutShardsCountAndReplicasCount (Some lay))
      \<circ> FillShardReplicaSpecified)
     (case layout of None \<Rightarrow> NewChiClusterLayout | Some lay \<Rightarrow> lay)"

definition buildHosts ::
    "ChiCluster \<Rightarrow> ChiClusterLayout \<Rightarrow> host_store \<Rightarrow> ((host_store \<times> HostsField) \<times> ChiClusterLayout) go"
where
  "buildHosts cluster lay store =
     go_bind (createHostsField lay store) (\<lambda>s.
     go_bind (walk_update (normalizeShard cluster (lay_ReplicasCount lay)) (s, lay_Shards lay))
       (\<lambda>(s, shards).
     go_bind (walk_update (normalizeReplica cluster (lay_ShardsCount lay)) (s, lay_Replicas lay))
       (\<lambda>(s, replicas). Inr (s, lay\<lparr>lay_Shards := shards, lay_Replicas := replicas\<rparr>))))"

definition inheritCluster ::
    "ChiZookeeperConfig option \<Rightarrow> settings option \<Rightarrow> ChiTemplateNames option \<Rightarrow> ChiCluster \<Rightarrow> ChiCluster"
where
  "inheritCluster conf_zk conf_files def_templates cluster = (
     let cluster = InheritTemplatesFrom def_templates
           (InheritFilesFrom conf_files (InheritZookeeperFrom conf_zk cluster))
     in cluster\<lparr>cu_Zookeeper := normalizeConfigurationZookeeper (cu_Zookeeper cluster),
                cu_Settings := normalizePaths (cu_Settings cluster),
                cu_Files := normalizePaths (cu_Files cluster)\<rparr>)"

definition normalizeCluster ::
    "ChiZookeeperConfig option \<Rightarrow> settings option \<Rightarrow> ChiTemplateNames option \<Rightarrow> host_store
      \<Rightarrow> ChiCluster option \<Rightarrow> (host_store \<times> HostsField \<times> ChiCluster) go" where
  "normalizeCluster conf_zk conf_files def_templates store cluster = (
     let cluster = inheritCluster conf_zk conf_files def_templates
           (case cluster of None \<Rightarrow> newDefaultCluster | Some c \<Rightarrow> c)
     in go_bind (buildHosts cluster (prepareLayout (cu_Layout cluster)) store) (\<lambda>((store, hf), lay).
        go_bind (normalizeHosts lay (store, hf)) (\<lambda>store.
          Inr (store, hf, cluster\<lparr>cu_Layout := Some lay\<rparr>))))"

definition ensureClusters :: "bool \<Rightarrow> ChiCluster option list \<Rightarrow> ChiCluster option list" where
  "ensureClusters withDefaultCluster clusters =
     (if length clusters > 0 then clusters
      else if withDefaultCluster then [Some newDefaultCluster]
      else [])"

section \<open>The counts\<close>

lemma bump_max: "bump x c = max c x"
  by (simp add: bump_def max_def)

definition requested_shards :: "ChiClusterLayout \<Rightarrow> int set" where
  "requested_shards lay = insert (int (length (lay_Shards lay)))
     ((rp_ShardsCount ` set (lay_Replicas lay)) \<union> ((int \<circ> length \<circ> rp_Hosts) ` set (lay_Replicas lay)))"

definition requested_replicas :: "ChiClusterLayout \<Rightarrow> int set" where
  "requested_replicas lay = insert (int (length (lay_Replicas lay)))
     ((sh_ReplicasCount ` set (lay_Shards lay)) \<union> ((int \<circ> length \<circ> sh_Hosts) ` set (lay_Shards lay)))"

lemma fold_bump2:
  "fold (\<lambda>x count. max (max count (g x)) (f x)) xs (m::int)
     = Max (insert m (g ` set xs \<union> f ` set xs))"
proof (induction xs arbitrary: m)
  case (Cons x xs)
  have "Max (insert (max (max m (g x)) (f x)) (g ` set xs \<union> f ` set xs))
      = max (max m (g x)) (Max (insert (f x) (g ` set xs \<union> f ` set xs)))"
    by (cases "xs = []") (simp_all add: max.assoc max.left_commute)
  also have "\<dots> = Max (insert m (g ` set (x # xs) \<union> f ` set (x # xs)))"
    by (cases "xs = []") (simp_all add: max.assoc max.left_commute insert_commute)
  finally show ?case by (simp add: Cons.IH)
qed simp

lemma count_of_layout:
  "let lay' = normalizeClusterLayoutShardsCountAndReplicasCount (Some lay) in
     lay_ShardsCount lay' = (if lay_ShardsCount lay = 0
        then Max (insert 1 (requested_shards lay)) else lay_ShardsCount lay)
   \<and> lay_ReplicasCount lay' = (if lay_ReplicasCount lay = 0
        then Max (insert 1 (requested_replicas lay)) else lay_ReplicasCount lay)
   \<and> lay_Shards lay' = lay_Shards lay \<and> lay_Replicas lay' = lay_Replicas lay"
proof -
  have s: "derivedShardsCount lay = Max (insert 1 (requested_shards lay))"
  proof -
    let ?A = "(rp_ShardsCount ` set (lay_Replicas lay)) \<union> ((int \<circ> length \<circ> rp_Hosts) ` set (lay_Replicas lay))"
    have "Max (insert (max 1 (int (length (lay_Shards lay)))) ?A)
        = Max (insert 1 (insert (int (length (lay_Shards lay))) ?A))"
      by (cases "?A = {}") (simp_all add: max.assoc)
    then show ?thesis
      by (simp add: derivedShardsCount_def fold_bump2 [where f = "\<lambda>x. int (length (rp_Hosts x))"]
          bump_max requested_shards_def comp_def)
  qed
  have r: "derivedReplicasCount lay' = Max (insert 1 (requested_replicas lay))"
    if "lay_Shards lay' = lay_Shards lay" "lay_Replicas lay' = lay_Replicas lay" for lay'
  proof -
    let ?A = "(sh_ReplicasCount ` set (lay_Shards lay)) \<union> ((int \<circ> length \<circ> sh_Hosts) ` set (lay_Shards lay))"
    have "max (Max (insert 1 ?A)) (int (length (lay_Replicas lay)))
        = Max (insert 1 (insert (int (length (lay_Replicas lay))) ?A))"
      by (cases "?A = {}") (simp_all add: max.commute max.left_commute)
    then show ?thesis
      using that by (simp add: derivedReplicasCount_def fold_bump2 [where f = "\<lambda>x. int (length (sh_Hosts x))"]
          bump_max requested_replicas_def comp_def)
  qed
  show ?thesis
    by (simp add: normalizeClusterLayoutShardsCountAndReplicasCount_def Let_def s r)
qed

text \<open>
  The counts of a layout. A count that is given stays. A count that is not given becomes the
  largest number of shards (replicas) requested anywhere in the layout, and at least 1: the number of
  shards listed, or a count or a number of hosts of a replica; the number of replicas listed, or a
  count or a number of hosts of a shard.
\<close>

theorem layout_counts:
  "let lay' = normalizeClusterLayoutShardsCountAndReplicasCount (Some lay) in
     lay_ShardsCount lay' = (if lay_ShardsCount lay = 0
        then Max (insert 1 (requested_shards lay)) else lay_ShardsCount lay)
   \<and> lay_ReplicasCount lay' = (if lay_ReplicasCount lay = 0
        then Max (insert 1 (requested_replicas lay)) else lay_ReplicasCount lay)
   \<and> lay_Shards lay' = lay_Shards lay \<and> lay_Replicas lay' = lay_Replicas lay"
  by (rule count_of_layout)

section \<open>When building the hosts returns\<close>

definition hf_dims :: "nat \<Rightarrow> nat \<Rightarrow> HostsField \<Rightarrow> bool" where
  "hf_dims m n hf = (length (hf_Field hf) = m \<and> (\<forall>row\<in>set (hf_Field hf). length row = n))"

definition cell :: "HostsField \<Rightarrow> nat \<Rightarrow> nat \<Rightarrow> host_ptr" where
  "cell hf i j = hf_Field hf ! i ! j"

definition in_range :: "nat \<Rightarrow> nat \<Rightarrow> int \<Rightarrow> int \<Rightarrow> bool" where
  "in_range m n i j = (0 \<le> i \<and> i < int m \<and> 0 \<le> j \<and> j < int n)"

lemma hf_dims_row: "hf_dims m n hf \<Longrightarrow> i < m \<Longrightarrow> length (hf_Field hf ! i) = n"
  by (simp add: hf_dims_def)

lemma NewHostsField_eq:
  "NewHostsField m n =
     (if m < 0 \<or> (0 < m \<and> n < 0) then Inl NegativeLength
      else Inr \<lparr>hf_ShardsCount = m, hf_ReplicasCount = n,
                hf_Field = replicate (nat m) (replicate (nat n) None)\<rparr>)"
proof (cases "m < 0")
  case False
  have rows: "go_fold (\<lambda>_ acc. go_bind (go_make n None) (\<lambda>row. Inr (acc @ [row])))
        (replicate k ([] :: host_ptr list)) acc
      = (if n < 0 \<and> 0 < k then Inl NegativeLength
         else Inr (acc @ replicate k (replicate (nat n) None)))" for k and acc :: "host_ptr list list"
    by (cases "n < 0"; induction k arbitrary: acc) (simp_all add: go_make_def)
  with False show ?thesis by (simp add: NewHostsField_def go_make_def [of m] rows)
qed (simp add: NewHostsField_def go_make_def)

lemma dims_new: "hf_dims (nat m) (nat n) \<lparr>hf_ShardsCount = m, hf_ReplicasCount = n,
    hf_Field = replicate (nat m) (replicate (nat n) None)\<rparr>"
  by (simp add: hf_dims_def)

lemma cell_new: "i < nat m \<Longrightarrow> j < nat n \<Longrightarrow> cell \<lparr>hf_ShardsCount = m, hf_ReplicasCount = n,
    hf_Field = replicate (nat m) (replicate (nat n) None)\<rparr> i j = None"
  by (simp add: cell_def)

lemma HostsField_Get_eq:
  "hf_dims m n hf \<Longrightarrow> HostsField_Get hf i j =
     (if in_range m n i j then Inr (cell hf (nat i) (nat j)) else Inl IndexOutOfRange)"
  using hf_dims_row [of m n hf "nat i"]
  by (auto simp: HostsField_Get_def go_nth_def in_range_def cell_def hf_dims_def)

definition set_cell :: "nat \<Rightarrow> nat \<Rightarrow> host_ptr \<Rightarrow> HostsField \<Rightarrow> HostsField" where
  "set_cell i j h hf = hf\<lparr>hf_Field := (hf_Field hf)[i := (hf_Field hf ! i)[j := h]]\<rparr>"

lemma HostsField_Set_eq:
  "hf_dims m n hf \<Longrightarrow> HostsField_Set i j h hf =
     (if in_range m n i j then Inr (set_cell (nat i) (nat j) h hf) else Inl IndexOutOfRange)"
  using hf_dims_row [of m n hf "nat i"]
  by (auto simp: HostsField_Set_def go_nth_def go_update_def in_range_def set_cell_def hf_dims_def)

lemma set_cell_dims [simp]: "hf_dims m n hf \<Longrightarrow> i < m \<Longrightarrow> hf_dims m n (set_cell i j h hf)"
  by (auto simp: set_cell_def hf_dims_def dest!: set_update_subset_insert [THEN subsetD])

lemma cell_set_cell:
  "hf_dims m n hf \<Longrightarrow> i < m \<Longrightarrow> j < n \<Longrightarrow> i' < m \<Longrightarrow>
     cell (set_cell i j h hf) i' j' = (if i' = i \<and> j' = j then h else cell hf i' j')"
  by (auto simp: set_cell_def cell_def hf_dims_def nth_list_update)

lemma hostMergeFunc_eq:
  assumes "hf_dims m n hf"
  shows "hostMergeFunc (i, j, h) (store, hf) =
    (if \<not> in_range m n i j then Inl IndexOutOfRange
     else case cell hf (nat i) (nat j) of
       None \<Rightarrow> Inr (store, set_cell (nat i) (nat j) h hf)
     | Some a \<Rightarrow> Inr (store_put a
         (ChiHost_MergeFrom (store_get store (Some a)) (store_get store h)) store, hf))"
  using assms by (simp add: hostMergeFunc_def HostsField_Get_eq HostsField_Set_eq split: option.split)

lemma GetOrCreate_eq:
  assumes "hf_dims m n hf"
  shows "GetOrCreate i j (store, hf) =
    (if \<not> in_range m n i j then Inl IndexOutOfRange
     else case cell hf (nat i) (nat j) of
       Some a \<Rightarrow> Inr (Some a, store, hf)
     | None \<Rightarrow> Inr (Some (length store), store @ [newChiHost],
                    set_cell (nat i) (nat j) (Some (length store)) hf))"
  using assms by (simp add: GetOrCreate_def HostsField_Get_eq HostsField_Set_eq split: option.split)

lemma in_range_nat: "in_range m n i j \<Longrightarrow> nat i < m \<and> nat j < n"
  by (auto simp: in_range_def)

lemma merge_fold_returns_iff:
  assumes "hf_dims m n hf"
  shows "(\<exists>r. go_fold hostMergeFunc xs (store, hf) = Inr r)
    \<longleftrightarrow> (\<forall>(i, j, h)\<in>set xs. in_range m n i j)"
proof -
  have "(\<exists>r. go_fold hostMergeFunc xs (store, hf) = Inr r)
      \<longleftrightarrow> (\<forall>x\<in>set xs. in_range m n (fst x) (fst (snd x)))"
  proof (rule go_fold_returns_iff [where P = "\<lambda>s. hf_dims m n (snd s)"])
    fix x :: "int \<times> int \<times> host_ptr" and s :: "host_store \<times> HostsField"
    obtain i j h where x: "x = (i, j, h)" by (cases x)
    assume d: "hf_dims m n (snd s)"
    then show "in_range m n (fst x) (fst (snd x)) \<Longrightarrow>
        \<exists>s'. hostMergeFunc x s = Inr s' \<and> hf_dims m n (snd s')"
      by (cases s) (auto simp: x hostMergeFunc_eq dest: in_range_nat split: option.split)
    from d show "\<not> in_range m n (fst x) (fst (snd x)) \<Longrightarrow> panics (hostMergeFunc x s)"
      by (cases s) (simp add: x hostMergeFunc_eq)
  qed (use assms in simp)
  then show ?thesis by (simp add: case_prod_beta)
qed

lemma merge_fold_dims:
  assumes "go_fold hostMergeFunc xs s = Inr s'" "hf_dims m n (snd s)"
  shows "hf_dims m n (snd s')"
  using assms
proof (rule go_fold_keeps)
  fix x s s'
  assume "hf_dims m n (snd s)" "hostMergeFunc x s = Inr s'"
  then show "hf_dims m n (snd s')"
    by (cases x; cases s) (auto simp: hostMergeFunc_eq dest: in_range_nat split: option.splits if_splits)
qed

lemma collect_returns_iff:
  assumes "hf_dims m n (snd s)"
  shows "(\<exists>r. collectHosts coord count s = Inr r)
    \<longleftrightarrow> (\<forall>k<nat count. in_range m n (fst (coord k)) (snd (coord k)))"
proof -
  let ?step = "\<lambda>k (s, hosts). go_bind (GetOrCreate (fst (coord k)) (snd (coord k)) s)
      (\<lambda>(h, store, hf). Inr ((store, hf), hosts @ [h]))"
  have "(\<exists>r. go_fold ?step [0..<nat count] (s, []) = Inr r)
      \<longleftrightarrow> (\<forall>k\<in>set [0..<nat count]. in_range m n (fst (coord k)) (snd (coord k)))"
  proof (rule go_fold_returns_iff [where P = "\<lambda>s. hf_dims m n (snd (fst s))"])
    fix k and t :: "(host_store \<times> HostsField) \<times> host_ptr list"
    assume d: "hf_dims m n (snd (fst t))"
    obtain store hf hosts where t: "t = ((store, hf), hosts)" by (metis prod.collapse)
    from d show "in_range m n (fst (coord k)) (snd (coord k)) \<Longrightarrow>
        \<exists>s'. ?step k t = Inr s' \<and> hf_dims m n (snd (fst s'))"
      by (auto simp: t GetOrCreate_eq dest: in_range_nat split: option.split)
    from d show "\<not> in_range m n (fst (coord k)) (snd (coord k)) \<Longrightarrow> panics (?step k t)"
      by (simp add: t GetOrCreate_eq)
  qed (use assms in simp)
  then show ?thesis unfolding collectHosts_def by (simp only: set_upt Ball_def atLeastLessThan_iff) simp
qed

lemma collect_dims:
  assumes "collectHosts coord count s = Inr (s', hosts)" "hf_dims m n (snd s)"
  shows "hf_dims m n (snd s')"
proof -
  have "hf_dims m n (snd (fst (s', hosts)))"
    using assms(1) unfolding collectHosts_def
  proof (rule go_fold_keeps [where P = "\<lambda>s. hf_dims m n (snd (fst s))"])
    fix k and t t' :: "(host_store \<times> HostsField) \<times> host_ptr list"
    obtain store hf hosts where t: "t = ((store, hf), hosts)" by (metis prod.collapse)
    assume "hf_dims m n (snd (fst t))"
      and "(case t of (s, hosts) \<Rightarrow> go_bind (GetOrCreate (fst (coord k)) (snd (coord k)) s)
            (\<lambda>(h, store, hf). Inr ((store, hf), hosts @ [h]))) = Inr t'"
    then show "hf_dims m n (snd (fst t'))"
      by (auto simp: t GetOrCreate_eq dest: in_range_nat split: if_splits option.splits)
  qed (use assms in simp)
  then show ?thesis by simp
qed

definition shard_count :: "int \<Rightarrow> ChiShard \<Rightarrow> int" where
  "shard_count layoutReplicasCount sh =
     (if sh_ReplicasCount sh > 0 then sh_ReplicasCount sh
      else if length (sh_Hosts sh) > 0 then int (length (sh_Hosts sh)) else layoutReplicasCount)"

definition replica_count :: "int \<Rightarrow> ChiReplica \<Rightarrow> int" where
  "replica_count layoutShardsCount rp =
     (if rp_ShardsCount rp > 0 then rp_ShardsCount rp
      else if length (rp_Hosts rp) > 0 then int (length (rp_Hosts rp)) else layoutShardsCount)"

text \<open>The shard as it is when its hosts are collected, and what is left to do afterwards.\<close>

definition shard_ready :: "ChiCluster \<Rightarrow> int \<Rightarrow> int \<Rightarrow> ChiShard \<Rightarrow> ChiShard" where
  "shard_ready cluster layoutReplicasCount index shard =
     normalizeShardReplicasCount layoutReplicasCount ((normalizeShardName index shard)\<lparr>
       sh_Settings := normalizePaths (Settings_MergeFrom (sh_Settings shard) (cu_Settings cluster)),
       sh_Files := normalizePaths (Settings_MergeFrom (sh_Files shard) (cu_Files cluster)),
       sh_Templates := HandleDeprecatedFields
         (ChiTemplateNames_MergeFrom MergeTypeFillEmptyValues (sh_Templates shard) (cu_Templates cluster))\<rparr>)"

definition replica_ready :: "ChiCluster \<Rightarrow> int \<Rightarrow> int \<Rightarrow> ChiReplica \<Rightarrow> ChiReplica" where
  "replica_ready cluster layoutShardsCount index replica =
     normalizeReplicaShardsCount layoutShardsCount ((normalizeReplicaName index replica)\<lparr>
       rp_Settings := normalizePaths (Settings_MergeFrom (rp_Settings replica) (cu_Settings cluster)),
       rp_Files := normalizePaths (Settings_MergeFrom (rp_Files replica) (cu_Files cluster)),
       rp_Templates := HandleDeprecatedFields
         (ChiTemplateNames_MergeFrom MergeTypeFillEmptyValues (rp_Templates replica) (cu_Templates cluster))\<rparr>)"

lemma shard_ready_count: "sh_ReplicasCount (shard_ready c rc i sh) = shard_count rc sh"
  by (simp add: shard_ready_def normalizeShardReplicasCount_def normalizeShardName_def shard_count_def)

lemma replica_ready_count: "rp_ShardsCount (replica_ready c sc i rp) = replica_count sc rp"
  by (simp add: replica_ready_def normalizeReplicaShardsCount_def normalizeReplicaName_def replica_count_def)

lemma normalizeShard_eq:
  "normalizeShard c rc i (s, sh) =
     go_bind (collectHosts (\<lambda>k. (i, int k)) (shard_count rc sh) s) (\<lambda>(s', hosts).
       Inr (s', normalizeShardInternalReplication ((shard_ready c rc i sh)\<lparr>sh_Hosts := hosts\<rparr>)))"
proof -
  have "normalizeShard c rc i (s, sh) = go_bind (normalizeShardHosts i (s, shard_ready c rc i sh))
      (\<lambda>(s', shard). Inr (s', normalizeShardInternalReplication shard))"
    by (simp add: normalizeShard_def shard_ready_def Let_def normalizeShardName_def inherit_defs)
  then show ?thesis
    by (cases "collectHosts (\<lambda>k. (i, int k)) (shard_count rc sh) s")
      (auto simp: normalizeShardHosts_def shard_ready_count)
qed

lemma normalizeReplica_eq:
  "normalizeReplica c sc j (s, rp) =
     go_bind (collectHosts (\<lambda>k. (int k, j)) (replica_count sc rp) s) (\<lambda>(s', hosts).
       Inr (s', (replica_ready c sc j rp)\<lparr>rp_Hosts := hosts\<rparr>))"
proof -
  have "normalizeReplica c sc j (s, rp) = normalizeReplicaHosts j (s, replica_ready c sc j rp)"
    by (simp add: normalizeReplica_def replica_ready_def Let_def normalizeReplicaName_def inherit_defs)
  then show ?thesis by (simp add: normalizeReplicaHosts_def replica_ready_count)
qed

lemma walk_returns_iff:
  assumes "P s"
    and "\<And>k s. k < length xs \<Longrightarrow> P s \<Longrightarrow>
        (\<exists>r. f (int (i + k)) (s, xs ! k) = Inr r) \<longleftrightarrow> ok (i + k) (xs ! k)"
    and "\<And>k s s' y. k < length xs \<Longrightarrow> P s \<Longrightarrow> f (int (i + k)) (s, xs ! k) = Inr (s', y) \<Longrightarrow> P s'"
  shows "(\<exists>r. walk_from f i s xs = Inr r) \<longleftrightarrow> (\<forall>k<length xs. ok (i + k) (xs ! k))"
  using assms
proof (induction xs arbitrary: i s)
  case (Cons x xs)
  have hd: "(\<exists>r. f (int i) (s, x) = Inr r) \<longleftrightarrow> ok i x" using Cons.prems(1) Cons.prems(2) [of 0] by simp
  show ?case
  proof (cases "f (int i) (s, x)")
    case (Inl p)
    with hd have "\<not> ok i x" by simp
    with Inl show ?thesis by force
  next
    case (Inr r)
    obtain s' y where r: "r = (s', y)" by (cases r)
    have "P s'" using Cons.prems(3) [of 0] Cons.prems(1) Inr r by simp
    then have "(\<exists>r. walk_from f (Suc i) s' xs = Inr r) \<longleftrightarrow> (\<forall>k<length xs. ok (Suc i + k) (xs ! k))"
    proof (rule Cons.IH)
      fix k t
      assume "k < length xs" "P t"
      then show "(\<exists>r. f (int (Suc i + k)) (t, xs ! k) = Inr r) \<longleftrightarrow> ok (Suc i + k) (xs ! k)"
        using Cons.prems(2) [of "Suc k" t] by simp
    next
      fix k t t' y
      assume "k < length xs" "P t" "f (int (Suc i + k)) (t, xs ! k) = Inr (t', y)"
      then show "P t'" using Cons.prems(3) [of "Suc k" t t' y] by simp
    qed
    moreover have "ok i x" using hd Inr by blast
    moreover have "(\<exists>r. walk_from f i s (x # xs) = Inr r) \<longleftrightarrow> (\<exists>r. walk_from f (Suc i) s' xs = Inr r)"
      by (cases "walk_from f (Suc i) s' xs") (simp_all add: Inr r case_prod_beta)
    ultimately show ?thesis by (simp add: All_less_Suc2)
  qed
qed simp

lemma walk_keeps:
  assumes "walk_from f i s xs = Inr (s', ys)" "P s"
    and "\<And>k x s s' y. P s \<Longrightarrow> f k (s, x) = Inr (s', y) \<Longrightarrow> P s'"
  shows "P s' \<and> length ys = length xs"
  using assms(1,2)
proof (induction xs arbitrary: i s ys)
  case (Cons x xs)
  then show ?case by (auto simp: go_bind_Inr_iff dest: assms(3))
qed simp

lemma normalizeShard_returns_iff:
  "hf_dims m n (snd s) \<Longrightarrow> (\<exists>r. normalizeShard c rc i (s, sh) = Inr r)
     \<longleftrightarrow> (\<forall>k<nat (shard_count rc sh). in_range m n i (int k))"
  using collect_returns_iff [of m n s "\<lambda>k. (i, int k)" "shard_count rc sh"]
  by (simp add: normalizeShard_eq go_bind_Inr_iff)

lemma normalizeReplica_returns_iff:
  "hf_dims m n (snd s) \<Longrightarrow> (\<exists>r. normalizeReplica c sc j (s, rp) = Inr r)
     \<longleftrightarrow> (\<forall>k<nat (replica_count sc rp). in_range m n (int k) j)"
  using collect_returns_iff [of m n s "\<lambda>k. (int k, j)" "replica_count sc rp"]
  by (simp add: normalizeReplica_eq go_bind_Inr_iff)

lemma normalizeShard_dims:
  "normalizeShard c rc i (s, sh) = Inr (s', sh') \<Longrightarrow> hf_dims m n (snd s) \<Longrightarrow> hf_dims m n (snd s')"
  by (auto simp: normalizeShard_eq go_bind_Inr_iff dest: collect_dims)

lemma normalizeReplica_dims:
  "normalizeReplica c sc j (s, rp) = Inr (s', rp') \<Longrightarrow> hf_dims m n (snd s) \<Longrightarrow> hf_dims m n (snd s')"
  by (auto simp: normalizeReplica_eq go_bind_Inr_iff dest: collect_dims)

text \<open>A layout fits when its counts are positive and cover everything that the layout asks for.\<close>

definition layout_fits :: "ChiClusterLayout \<Rightarrow> bool" where
  "layout_fits lay =
     (0 < lay_ShardsCount lay \<and> 0 < lay_ReplicasCount lay
      \<and> int (length (lay_Shards lay)) \<le> lay_ShardsCount lay
      \<and> int (length (lay_Replicas lay)) \<le> lay_ReplicasCount lay
      \<and> list_all (\<lambda>sh. int (length (sh_Hosts sh)) \<le> lay_ReplicasCount lay
            \<and> sh_ReplicasCount sh \<le> lay_ReplicasCount lay) (lay_Shards lay)
      \<and> list_all (\<lambda>rp. int (length (rp_Hosts rp)) \<le> lay_ShardsCount lay
            \<and> rp_ShardsCount rp \<le> lay_ShardsCount lay) (lay_Replicas lay))"

lemma in_WalkHostsByShards:
  "x \<in> set (WalkHostsByShards lay) \<longleftrightarrow>
     (\<exists>i<length (lay_Shards lay). \<exists>j<length (sh_Hosts (lay_Shards lay ! i)).
        x = (int i, int j, sh_Hosts (lay_Shards lay ! i) ! j))"
  by (fastforce simp: WalkHostsByShards_def Let_def)

lemma in_WalkHostsByReplicas:
  "x \<in> set (WalkHostsByReplicas lay) \<longleftrightarrow>
     (\<exists>j<length (lay_Replicas lay). \<exists>i<length (rp_Hosts (lay_Replicas lay ! j)).
        x = (int i, int j, rp_Hosts (lay_Replicas lay ! j) ! i))"
  by (fastforce simp: WalkHostsByReplicas_def Let_def)

lemma walked_by_shards:
  "(\<forall>(i, j, h)\<in>set (WalkHostsByShards lay). in_range m n i j)
     \<longleftrightarrow> (\<forall>i<length (lay_Shards lay). \<forall>j<length (sh_Hosts (lay_Shards lay ! i)). i < m \<and> j < n)"
  by (fastforce simp: WalkHostsByShards_def Let_def in_range_def)

lemma walked_by_replicas:
  "(\<forall>(i, j, h)\<in>set (WalkHostsByReplicas lay). in_range m n i j)
     \<longleftrightarrow> (\<forall>j<length (lay_Replicas lay). \<forall>i<length (rp_Hosts (lay_Replicas lay ! j)). i < m \<and> j < n)"
  by (fastforce simp: WalkHostsByReplicas_def Let_def in_range_def)

lemma createHostsField_returns_iff:
  assumes "0 < lay_ShardsCount lay" "0 < lay_ReplicasCount lay"
  defines "m \<equiv> nat (lay_ShardsCount lay)" and "n \<equiv> nat (lay_ReplicasCount lay)"
  shows "(\<exists>r. createHostsField lay store = Inr r) \<longleftrightarrow>
    (\<forall>i<length (lay_Shards lay). \<forall>j<length (sh_Hosts (lay_Shards lay ! i)). i < m \<and> j < n)
    \<and> (\<forall>j<length (lay_Replicas lay). \<forall>i<length (rp_Hosts (lay_Replicas lay ! j)). i < m \<and> j < n)"
    (is "_ \<longleftrightarrow> ?S \<and> ?R")
proof -
  define hf where "hf = \<lparr>hf_ShardsCount = lay_ShardsCount lay, hf_ReplicasCount = lay_ReplicasCount lay,
                hf_Field = replicate m (replicate n (None :: host_ptr))\<rparr>"
  have new: "NewHostsField (lay_ShardsCount lay) (lay_ReplicasCount lay) = Inr hf"
    using assms by (simp add: NewHostsField_eq hf_def)
  have d: "hf_dims m n hf" by (simp add: hf_def hf_dims_def)
  have 1: "(\<exists>r. go_fold hostMergeFunc (WalkHostsByShards lay) (store, hf) = Inr r) \<longleftrightarrow> ?S"
    using merge_fold_returns_iff [OF d] walked_by_shards by blast
  show ?thesis
  proof (cases "go_fold hostMergeFunc (WalkHostsByShards lay) (store, hf)")
    case (Inl p)
    with 1 show ?thesis by (auto simp: createHostsField_def new)
  next
    case (Inr s)
    obtain store1 hf1 where s: "s = (store1, hf1)" by (cases s)
    have "hf_dims m n hf1" using merge_fold_dims [OF Inr, of m n] d s by simp
    from merge_fold_returns_iff [OF this, of "WalkHostsByReplicas lay" store1] 1 Inr s
    show ?thesis by (simp add: createHostsField_def new walked_by_replicas)
  qed
qed

lemma createHostsField_dims:
  assumes "createHostsField lay store = Inr s"
  shows "hf_dims (nat (lay_ShardsCount lay)) (nat (lay_ReplicasCount lay)) (snd s)"
proof -
  obtain hf s1 where hf: "NewHostsField (lay_ShardsCount lay) (lay_ReplicasCount lay) = Inr hf"
    and s1: "go_fold hostMergeFunc (WalkHostsByShards lay) (store, hf) = Inr s1"
    and s: "go_fold hostMergeFunc (WalkHostsByReplicas lay) s1 = Inr s"
    using assms by (auto simp: createHostsField_def go_bind_Inr_iff)
  have "hf_dims (nat (lay_ShardsCount lay)) (nat (lay_ReplicasCount lay)) hf"
    using hf dims_new by (simp add: NewHostsField_eq split: if_splits) blast
  then show ?thesis using merge_fold_dims [OF s] merge_fold_dims [OF s1] by simp
qed

lemma layout_fits_iff:
  assumes pos: "0 < lay_ShardsCount lay" "0 < lay_ReplicasCount lay"
  defines "m \<equiv> nat (lay_ShardsCount lay)" and "n \<equiv> nat (lay_ReplicasCount lay)"
  shows "layout_fits lay \<longleftrightarrow>
    (\<forall>i<length (lay_Shards lay). \<forall>j<length (sh_Hosts (lay_Shards lay ! i)). i < m \<and> j < n)
    \<and> (\<forall>j<length (lay_Replicas lay). \<forall>i<length (rp_Hosts (lay_Replicas lay ! j)). i < m \<and> j < n)
    \<and> (\<forall>i<length (lay_Shards lay).
         \<forall>k<nat (shard_count (lay_ReplicasCount lay) (lay_Shards lay ! i)). i < m \<and> k < n)
    \<and> (\<forall>j<length (lay_Replicas lay).
         \<forall>k<nat (replica_count (lay_ShardsCount lay) (lay_Replicas lay ! j)). k < m \<and> j < n)"
    (is "_ \<longleftrightarrow> ?SH \<and> ?RH \<and> ?SC \<and> ?RC")
proof
  assume fits: "layout_fits lay"
  then have sh: "length (sh_Hosts sh) \<le> n \<and> shard_count (lay_ReplicasCount lay) sh \<le> lay_ReplicasCount lay"
    if "sh \<in> set (lay_Shards lay)" for sh
    using that by (auto simp: layout_fits_def list_all_iff n_def shard_count_def)
  have rp: "length (rp_Hosts rp) \<le> m \<and> replica_count (lay_ShardsCount lay) rp \<le> lay_ShardsCount lay"
    if "rp \<in> set (lay_Replicas lay)" for rp
    using that fits by (auto simp: layout_fits_def list_all_iff m_def replica_count_def)
  have len: "length (lay_Shards lay) \<le> m" "length (lay_Replicas lay) \<le> n"
    using fits by (auto simp: layout_fits_def m_def n_def)
  have ?SH using sh len by (fastforce dest: nth_mem)
  moreover have ?RH using rp len by (fastforce dest: nth_mem)
  moreover have ?SC using sh len by (fastforce dest: nth_mem simp: n_def)
  moreover have ?RC using rp len by (fastforce dest: nth_mem simp: m_def)
  ultimately show "?SH \<and> ?RH \<and> ?SC \<and> ?RC" by blast
next
  assume "?SH \<and> ?RH \<and> ?SC \<and> ?RC"
  then have SH: ?SH and RH: ?RH and SC: ?SC and RC: ?RC by blast+
  have sc: "0 < shard_count (lay_ReplicasCount lay) sh" for sh
    using pos by (simp add: shard_count_def)
  have rc: "0 < replica_count (lay_ShardsCount lay) rp" for rp
    using pos by (simp add: replica_count_def)
  have "i < m" if "i < length (lay_Shards lay)" for i
    using SC [rule_format, OF that, of 0] sc by simp
  then have 1: "length (lay_Shards lay) \<le> m" using leI less_irrefl by blast
  have "j < n" if "j < length (lay_Replicas lay)" for j
    using RC [rule_format, OF that, of 0] rc by simp
  then have 2: "length (lay_Replicas lay) \<le> n" using leI less_irrefl by blast
  have all_below: "a \<le> b" if "\<forall>k<a. k < b" for a b :: nat using that leI less_irrefl by blast
  have 3: "length (sh_Hosts sh) \<le> n \<and> nat (shard_count (lay_ReplicasCount lay) sh) \<le> n"
    if "sh \<in> set (lay_Shards lay)" for sh
    using that SH SC all_below by (metis in_set_conv_nth)
  have 4: "length (rp_Hosts rp) \<le> m \<and> nat (replica_count (lay_ShardsCount lay) rp) \<le> m"
    if "rp \<in> set (lay_Replicas lay)" for rp
    using that RH RC all_below by (metis in_set_conv_nth)
  have 5: "int (length (sh_Hosts sh)) \<le> lay_ReplicasCount lay \<and> sh_ReplicasCount sh \<le> lay_ReplicasCount lay"
    if "sh \<in> set (lay_Shards lay)" for sh
    using 3 [OF that] pos by (auto simp: n_def shard_count_def split: if_splits)
  have 6: "int (length (rp_Hosts rp)) \<le> lay_ShardsCount lay \<and> rp_ShardsCount rp \<le> lay_ShardsCount lay"
    if "rp \<in> set (lay_Replicas lay)" for rp
    using 4 [OF that] pos by (auto simp: m_def replica_count_def split: if_splits)
  show "layout_fits lay"
    using 1 2 5 6 pos by (auto simp: layout_fits_def list_all_iff m_def n_def)
qed

lemma createHostsField_negative:
  assumes "lay_ShardsCount lay < 0 \<or> (0 < lay_ShardsCount lay \<and> lay_ReplicasCount lay < 0)"
  shows "createHostsField lay store = Inl NegativeLength"
  using assms by (simp add: createHostsField_def NewHostsField_eq)

lemma walk_shards_returns_iff:
  assumes "hf_dims m n (snd s)"
  shows "(\<exists>r. walk_from (normalizeShard cluster rc) 0 s shards = Inr r) \<longleftrightarrow>
    (\<forall>i<length shards. \<forall>k<nat (shard_count rc (shards ! i)). i < m \<and> k < n)"
proof -
  have "(\<exists>r. walk_from (normalizeShard cluster rc) 0 s shards = Inr r) \<longleftrightarrow>
    (\<forall>i<length shards. \<forall>k<nat (shard_count rc (shards ! i)). 0 + i < m \<and> k < n)"
    by (rule walk_returns_iff [where P = "\<lambda>s. hf_dims m n (snd s)"
          and ok = "\<lambda>i sh. \<forall>k<nat (shard_count rc sh). i < m \<and> k < n"])
       (use assms normalizeShard_dims in \<open>auto simp: normalizeShard_returns_iff in_range_def
          simp del: split_paired_Ex\<close>)
  then show ?thesis by simp
qed

lemma walk_replicas_returns_iff:
  assumes "hf_dims m n (snd s)"
  shows "(\<exists>r. walk_from (normalizeReplica cluster sc) 0 s replicas = Inr r) \<longleftrightarrow>
    (\<forall>j<length replicas. \<forall>k<nat (replica_count sc (replicas ! j)). k < m \<and> j < n)"
proof -
  have "(\<exists>r. walk_from (normalizeReplica cluster sc) 0 s replicas = Inr r) \<longleftrightarrow>
    (\<forall>j<length replicas. \<forall>k<nat (replica_count sc (replicas ! j)). k < m \<and> 0 + j < n)"
    by (rule walk_returns_iff [where P = "\<lambda>s. hf_dims m n (snd s)"
          and ok = "\<lambda>j rp. \<forall>k<nat (replica_count sc rp). k < m \<and> j < n"])
       (use assms normalizeReplica_dims in \<open>auto simp: normalizeReplica_returns_iff in_range_def
          simp del: split_paired_Ex\<close>)
  then show ?thesis by simp
qed

lemma buildHosts_returns_iff:
  assumes nz: "lay_ShardsCount lay \<noteq> 0" "lay_ReplicasCount lay \<noteq> 0"
  shows "(\<exists>r. buildHosts cluster lay store = Inr r) \<longleftrightarrow> layout_fits lay"
proof (cases "0 < lay_ShardsCount lay \<and> 0 < lay_ReplicasCount lay")
  case False
  then have "createHostsField lay store = Inl NegativeLength"
    using nz createHostsField_negative by force
  then show ?thesis using False by (auto simp: buildHosts_def layout_fits_def)
next
  case True
  let ?m = "nat (lay_ShardsCount lay)" and ?n = "nat (lay_ReplicasCount lay)"
  note fits = layout_fits_iff [OF conjunct1 [OF True] conjunct2 [OF True]]
  note create = createHostsField_returns_iff [OF conjunct1 [OF True] conjunct2 [OF True], of store]
  show ?thesis
  proof (cases "createHostsField lay store")
    case (Inl p)
    then have "\<not> layout_fits lay" using create fits by auto
    then show ?thesis by (simp add: buildHosts_def Inl)
  next
    case (Inr s1)
    have d1: "hf_dims ?m ?n (snd s1)" using createHostsField_dims [OF Inr] .
    let ?walkS = "walk_from (normalizeShard cluster (lay_ReplicasCount lay)) 0"
    let ?walkR = "walk_from (normalizeReplica cluster (lay_ShardsCount lay)) 0"
    note S = walk_shards_returns_iff [OF d1, of cluster "lay_ReplicasCount lay" "lay_Shards lay"]
    show ?thesis
    proof (cases "?walkS s1 (lay_Shards lay)")
      case (Inl p)
      then have "\<not> layout_fits lay" using S fits by auto
      then show ?thesis by (simp add: buildHosts_def Inr walk_update_def Inl)
    next
      case walked: (Inr r)
      obtain s2 shards where r: "r = (s2, shards)" by (cases r)
      have "hf_dims ?m ?n (snd s2)"
        using walk_keeps [OF walked [unfolded r], where P = "\<lambda>s. hf_dims ?m ?n (snd s)"]
          d1 normalizeShard_dims by blast
      from walk_replicas_returns_iff [OF this, of cluster "lay_ShardsCount lay" "lay_Replicas lay"]
        S create fits walked r Inr
      show ?thesis
        by (cases "?walkR s2 (lay_Replicas lay)") (auto simp: buildHosts_def walk_update_def)
    qed
  qed
qed

lemma prepareLayout_counts:
  "lay_ShardsCount (prepareLayout (Some lay)) = (if lay_ShardsCount lay = 0
     then Max (insert 1 (requested_shards lay)) else lay_ShardsCount lay)"
  "lay_ReplicasCount (prepareLayout (Some lay)) = (if lay_ReplicasCount lay = 0
     then Max (insert 1 (requested_replicas lay)) else lay_ReplicasCount lay)"
  "lay_Shards (prepareLayout (Some lay)) = lay_Shards lay @
     replicate (nat (lay_ShardsCount (prepareLayout (Some lay))) - length (lay_Shards lay)) newChiShard"
  "lay_Replicas (prepareLayout (Some lay)) = lay_Replicas lay @
     replicate (nat (lay_ReplicasCount (prepareLayout (Some lay))) - length (lay_Replicas lay)) newChiReplica"
proof -
  let ?l = "FillShardReplicaSpecified lay"
  have l: "lay_ShardsCount ?l = lay_ShardsCount lay" "lay_ReplicasCount ?l = lay_ReplicasCount lay"
    "lay_Shards ?l = lay_Shards lay" "lay_Replicas ?l = lay_Replicas lay"
    by (simp_all add: FillShardReplicaSpecified_def Let_def)
  then have req: "requested_shards ?l = requested_shards lay" "requested_replicas ?l = requested_replicas lay"
    by (simp_all add: requested_shards_def requested_replicas_def)
  note * = count_of_layout [of ?l, unfolded Let_def l req]
  show "lay_ShardsCount (prepareLayout (Some lay)) = (if lay_ShardsCount lay = 0
     then Max (insert 1 (requested_shards lay)) else lay_ShardsCount lay)"
    "lay_ReplicasCount (prepareLayout (Some lay)) = (if lay_ReplicasCount lay = 0
     then Max (insert 1 (requested_replicas lay)) else lay_ReplicasCount lay)"
    using * by (simp_all add: prepareLayout_def ensureClusterLayoutReplicas_def ensureClusterLayoutShards_def)
  show "lay_Shards (prepareLayout (Some lay)) = lay_Shards lay @
     replicate (nat (lay_ShardsCount (prepareLayout (Some lay))) - length (lay_Shards lay)) newChiShard"
    "lay_Replicas (prepareLayout (Some lay)) = lay_Replicas lay @
     replicate (nat (lay_ReplicasCount (prepareLayout (Some lay))) - length (lay_Replicas lay)) newChiReplica"
    using * by (simp_all add: prepareLayout_def ensureClusterLayoutReplicas_def ensureClusterLayoutShards_def)
qed

lemma Max_ge_insert: "finite A \<Longrightarrow> x \<in> A \<Longrightarrow> (x::int) \<le> Max (insert 1 A)"
  by simp

lemma requested_finite [simp]: "finite (requested_shards lay)" "finite (requested_replicas lay)"
  by (simp_all add: requested_shards_def requested_replicas_def)

lemma prepared_nonzero:
  "lay_ShardsCount (prepareLayout (Some lay)) \<noteq> 0" "lay_ReplicasCount (prepareLayout (Some lay)) \<noteq> 0"
proof -
  have "1 \<le> Max (insert 1 A)" if "finite A" for A :: "int set" using that by simp
  then show "lay_ShardsCount (prepareLayout (Some lay)) \<noteq> 0" "lay_ReplicasCount (prepareLayout (Some lay)) \<noteq> 0"
    using requested_finite [of lay]
    by (smt (verit) prepareLayout_counts(1,2))+
qed

lemma buildHosts_shape:
  assumes "buildHosts cluster lay store = Inr ((store', hf), lay')"
  shows "hf_dims (nat (lay_ShardsCount lay)) (nat (lay_ReplicasCount lay)) hf"
    and "length (lay_Shards lay') = length (lay_Shards lay)"
    and "length (lay_Replicas lay') = length (lay_Replicas lay)"
proof -
  let ?P = "\<lambda>s. hf_dims (nat (lay_ShardsCount lay)) (nat (lay_ReplicasCount lay)) (snd s)"
  obtain s1 s2 shards replicas where s1: "createHostsField lay store = Inr s1"
    and S: "walk_from (normalizeShard cluster (lay_ReplicasCount lay)) 0 s1 (lay_Shards lay) = Inr (s2, shards)"
    and R: "walk_from (normalizeReplica cluster (lay_ShardsCount lay)) 0 s2 (lay_Replicas lay)
        = Inr ((store', hf), replicas)"
    and lay': "lay' = lay\<lparr>lay_Shards := shards, lay_Replicas := replicas\<rparr>"
    using assms by (auto simp: buildHosts_def walk_update_def go_bind_Inr_iff)
  have "?P s2 \<and> length shards = length (lay_Shards lay)"
    by (rule walk_keeps [OF S]) (use createHostsField_dims [OF s1] normalizeShard_dims in auto)
  moreover from this have "?P (store', hf) \<and> length replicas = length (lay_Replicas lay)"
    by (intro walk_keeps [OF R]) (use normalizeReplica_dims in auto)
  ultimately show "hf_dims (nat (lay_ShardsCount lay)) (nat (lay_ReplicasCount lay)) hf"
    "length (lay_Shards lay') = length (lay_Shards lay)"
    "length (lay_Replicas lay') = length (lay_Replicas lay)"
    by (simp_all add: lay')
qed

lemma in_HostsField_WalkHosts:
  "(i, j, a) \<in> set (HostsField_WalkHosts hf) \<longleftrightarrow>
     i < length (hf_Field hf) \<and> j < length (hf_Field hf ! i) \<and> cell hf i j = Some a"
  by (fastforce simp: HostsField_WalkHosts_def Let_def cell_def split: option.splits)

lemma normalizeHosts_returns:
  assumes "hf_dims m n hf" "m \<le> length (lay_Shards lay)" "n \<le> length (lay_Replicas lay)"
  shows "\<exists>store'. normalizeHosts lay (store, hf) = Inr store' \<and> length store' = length store"
  unfolding normalizeHosts_def prod.case
proof (rule go_fold_invariant [where P = "\<lambda>s. length s = length store"])
  fix x :: "nat \<times> nat \<times> nat" and s :: host_store
  assume x: "x \<in> set (HostsField_WalkHosts hf)" and len: "length s = length store"
  obtain i j a where ija: "x = (i, j, a)" by (cases x)
  with x have "i < length (lay_Shards lay)" "j < length (lay_Replicas lay)"
    using assms by (auto simp: in_HostsField_WalkHosts hf_dims_def)
  with len show "\<exists>s'. (case x of (i, j, a) \<Rightarrow> \<lambda>store.
       go_bind (go_nth (lay_Shards lay) (int i)) (\<lambda>shard.
       go_bind (go_nth (lay_Replicas lay) (int j)) (\<lambda>replica.
         Inr (store_put a (map_option
           (normalizeHost (IsShardSpecified lay) shard (int i) replica (int j))
           (store_get store (Some a))) store)))) s = Inr s' \<and> length s' = length store"
    by (simp add: ija store_put_def split: option.split)
qed simp

lemma prepareLayout_None: "prepareLayout None = prepareLayout (Some NewChiClusterLayout)"
  by (simp add: prepareLayout_def)

lemma prepared_lengths:
  "nat (lay_ShardsCount (prepareLayout L)) \<le> length (lay_Shards (prepareLayout L))"
  "nat (lay_ReplicasCount (prepareLayout L)) \<le> length (lay_Replicas (prepareLayout L))"
  by (cases L; simp add: prepareLayout_None prepareLayout_counts(3,4))+

lemma inheritCluster_layout [simp]: "cu_Layout (inheritCluster zk f t c) = cu_Layout c"
  by (simp add: inheritCluster_def Let_def InheritTemplatesFrom_def InheritFilesFrom_def
      InheritZookeeperFrom_def split: option.split)

lemma normalizeCluster_fits_iff:
  "(\<exists>r. normalizeCluster zk files templates store (Some c) = Inr r)
     \<longleftrightarrow> layout_fits (prepareLayout (cu_Layout c))"
proof -
  let ?c = "inheritCluster zk files templates c" and ?lay = "prepareLayout (cu_Layout c)"
  have "(\<exists>r. buildHosts ?c ?lay store = Inr r) \<longleftrightarrow> layout_fits ?lay"
    by (cases "cu_Layout c")
      (simp_all only: prepareLayout_None buildHosts_returns_iff [OF prepared_nonzero])
  moreover have "(\<exists>r. normalizeCluster zk files templates store (Some c) = Inr r)
      \<longleftrightarrow> (\<exists>r. buildHosts ?c ?lay store = Inr r)"
  proof (cases "buildHosts ?c ?lay store")
    case (Inr r)
    obtain store' hf lay' where r: "r = ((store', hf), lay')" by (metis prod.collapse)
    note shape = buildHosts_shape [OF Inr [unfolded r]]
    have "\<exists>s. normalizeHosts lay' (store', hf) = Inr s"
      using normalizeHosts_returns [OF shape(1), of lay' store'] shape prepared_lengths by auto
    then show ?thesis using Inr by (auto simp: normalizeCluster_def r)
  qed (simp add: normalizeCluster_def)
  ultimately show ?thesis by simp
qed

text \<open>
  When normalizing a cluster returns. It returns exactly when the layout, with its counts filled in
  and its slices extended, fits: both counts are positive and no shard or replica listed, no count and
  no list of hosts goes beyond them. Otherwise the operator panics (an index of the field of hosts is
  out of range, or the field cannot be allocated).
\<close>

theorem normalizeCluster_returns_iff:
  "(\<exists>r. normalizeCluster zk files templates store (Some c) = Inr r)
     \<longleftrightarrow> layout_fits (prepareLayout (cu_Layout c))"
  by (rule normalizeCluster_fits_iff)

text \<open>
  A layout whose two counts are left to the operator always fits, so normalizing its cluster never
  panics, whatever shards, replicas, counts and hosts it lists.
\<close>

theorem derived_counts_fit:
  assumes "lay_ShardsCount lay = 0" and "lay_ReplicasCount lay = 0"
  shows "layout_fits (prepareLayout (Some lay))"
proof -
  let ?l = "prepareLayout (Some lay)"
  have S: "x \<le> lay_ShardsCount ?l" if "x \<in> insert 1 (requested_shards lay)" for x
    using that assms by (simp add: prepareLayout_counts(1))
  have R: "x \<le> lay_ReplicasCount ?l" if "x \<in> insert 1 (requested_replicas lay)" for x
    using that assms by (simp add: prepareLayout_counts(2))
  have "0 < lay_ShardsCount ?l" "0 < lay_ReplicasCount ?l" using S [of 1] R [of 1] by simp_all
  moreover have "int (length (lay_Shards lay)) \<le> lay_ShardsCount ?l"
    "int (length (lay_Replicas lay)) \<le> lay_ReplicasCount ?l"
    by (rule S R, simp add: requested_shards_def requested_replicas_def)+
  moreover have "int (length (sh_Hosts sh)) \<le> lay_ReplicasCount ?l \<and> sh_ReplicasCount sh \<le> lay_ReplicasCount ?l"
    if "sh \<in> set (lay_Shards lay)" for sh
    using that by (intro conjI R) (simp_all add: requested_replicas_def)
  moreover have "int (length (rp_Hosts rp)) \<le> lay_ShardsCount ?l \<and> rp_ShardsCount rp \<le> lay_ShardsCount ?l"
    if "rp \<in> set (lay_Replicas lay)" for rp
    using that by (intro conjI S) (simp_all add: requested_shards_def)
  ultimately show ?thesis
    by (auto simp: layout_fits_def list_all_iff prepareLayout_counts(3,4) newChiShard_def newChiReplica_def)
qed

definition sample_layout :: ChiClusterLayout where
  "sample_layout = NewChiClusterLayout\<lparr>
     lay_Shards := [newChiShard\<lparr>sh_ReplicasCount := 3\<rparr>, newChiShard\<lparr>sh_Hosts := [Some 0, Some 1]\<rparr>]\<rparr>"

theorem derived_counts_fit_witness:
  "layout_fits (prepareLayout (Some sample_layout))
   \<and> \<not> layout_fits (prepareLayout (Some (sample_layout\<lparr>lay_ReplicasCount := 2\<rparr>)))"
proof
  show "layout_fits (prepareLayout (Some sample_layout))"
    by (rule derived_counts_fit) (simp_all add: sample_layout_def NewChiClusterLayout_def)
  show "\<not> layout_fits (prepareLayout (Some (sample_layout\<lparr>lay_ReplicasCount := 2\<rparr>)))"
    by (simp add: layout_fits_def prepareLayout_counts sample_layout_def NewChiClusterLayout_def)
qed

section \<open>The views share their hosts\<close>

text \<open>The field refers to hosts of the store, and to each at most once.\<close>

definition field_ok :: "nat \<Rightarrow> nat \<Rightarrow> host_store \<times> HostsField \<Rightarrow> bool" where
  "field_ok m n = (\<lambda>(store, hf). hf_dims m n hf
     \<and> (\<forall>i<m. \<forall>j<n. \<forall>a. cell hf i j = Some a \<longrightarrow> a < length store)
     \<and> (\<forall>i<m. \<forall>j<n. \<forall>i'<m. \<forall>j'<n. \<forall>a.
          cell hf i j = Some a \<longrightarrow> cell hf i' j' = Some a \<longrightarrow> i = i' \<and> j = j'))"

definition field_le :: "nat \<Rightarrow> nat \<Rightarrow> host_store \<times> HostsField \<Rightarrow> host_store \<times> HostsField \<Rightarrow> bool" where
  "field_le m n s s' =
     (\<forall>i<m. \<forall>j<n. cell (snd s) i j \<noteq> None \<longrightarrow> cell (snd s') i j = cell (snd s) i j)"

lemma field_le_refl [simp]: "field_le m n s s"
  by (simp add: field_le_def)

lemma field_le_trans: "field_le m n s s' \<Longrightarrow> field_le m n s' s'' \<Longrightarrow> field_le m n s s''"
  by (simp add: field_le_def)

lemma field_ok_dims: "field_ok m n s \<Longrightarrow> hf_dims m n (snd s)"
  by (auto simp: field_ok_def)

lemma field_ok_set:
  assumes ok: "field_ok m n (store, hf)" and "i < m" "j < n" "cell hf i j = None"
    and a: "a < length store'" "length store \<le> length store'"
    and fresh: "\<And>i j. i < m \<Longrightarrow> j < n \<Longrightarrow> cell hf i j \<noteq> Some a"
  shows "field_ok m n (store', set_cell i j (Some a) hf) \<and>
    field_le m n (store, hf) (store', set_cell i j (Some a) hf)"
proof -
  have d: "hf_dims m n hf" using field_ok_dims [OF ok] by simp
  note c = cell_set_cell [OF d \<open>i < m\<close> \<open>j < n\<close>]
  have old: "cell hf i' j' = Some b \<Longrightarrow> i' < m \<Longrightarrow> j' < n \<Longrightarrow> b < length store'" for i' j' b
    using ok a by (fastforce simp: field_ok_def)
  have inj: "cell hf i1 j1 = Some b \<Longrightarrow> cell hf i2 j2 = Some b \<Longrightarrow> i1 < m \<Longrightarrow> j1 < n \<Longrightarrow> i2 < m \<Longrightarrow> j2 < n
      \<Longrightarrow> i1 = i2 \<and> j1 = j2" for i1 j1 i2 j2 b
    using ok by (auto simp: field_ok_def)
  have "hf_dims m n (set_cell i j (Some a) hf)" using d assms(2) by simp
  then show ?thesis
    using assms(4) fresh old inj a(1) by (auto simp: field_ok_def field_le_def c)
qed

lemma GetOrCreate_ok:
  assumes ok: "field_ok m n s" and get: "GetOrCreate i j s = Inr (h, store', hf')"
  shows "field_ok m n (store', hf') \<and> field_le m n s (store', hf') \<and> in_range m n i j
    \<and> h = cell hf' (nat i) (nat j) \<and> h \<noteq> None"
proof -
  obtain store hf where s: "s = (store, hf)" by (cases s)
  have d: "hf_dims m n hf" using field_ok_dims [OF ok] s by simp
  have r: "in_range m n i j" using get d by (auto simp: s GetOrCreate_eq split: if_splits)
  then have ij: "nat i < m" "nat j < n" by (auto simp: in_range_def)
  show ?thesis
  proof (cases "cell hf (nat i) (nat j)")
    case (Some a)
    have "h = Some a" "store' = store" "hf' = hf" using get d r Some by (auto simp: s GetOrCreate_eq)
    then show ?thesis using r ok Some s by simp
  next
    case None
    have eqs: "store' = store @ [newChiHost]"
      "hf' = set_cell (nat i) (nat j) (Some (length store)) hf" "h = Some (length store)"
      using get d r None by (auto simp: s GetOrCreate_eq)
    have "field_ok m n (store', hf') \<and> field_le m n (store, hf) (store', hf')"
      unfolding eqs by (rule field_ok_set) (use ok s ij None in \<open>auto simp: field_ok_def\<close>)
    then show ?thesis using r s eqs cell_set_cell [OF d ij ij(1)] by simp
  qed
qed

definition collected ::
    "nat \<Rightarrow> nat \<Rightarrow> (nat \<Rightarrow> int \<times> int) \<Rightarrow> host_store \<times> HostsField \<Rightarrow> host_ptr list \<Rightarrow> bool" where
  "collected m n coord s hosts = (\<forall>k<length hosts.
     in_range m n (fst (coord k)) (snd (coord k))
     \<and> hosts ! k = cell (snd s) (nat (fst (coord k))) (nat (snd (coord k)))
     \<and> cell (snd s) (nat (fst (coord k))) (nat (snd (coord k))) \<noteq> None)"

lemma collected_mono:
  assumes "collected m n coord s hosts" and "field_le m n s s'"
  shows "collected m n coord s' hosts"
  unfolding collected_def
proof (intro allI impI)
  fix k assume "k < length hosts"
  with assms(1) have c: "in_range m n (fst (coord k)) (snd (coord k))"
    "hosts ! k = cell (snd s) (nat (fst (coord k))) (nat (snd (coord k)))"
    "cell (snd s) (nat (fst (coord k))) (nat (snd (coord k))) \<noteq> None"
    by (auto simp: collected_def)
  with assms(2) in_range_nat [OF c(1)] show "in_range m n (fst (coord k)) (snd (coord k)) \<and>
      hosts ! k = cell (snd s') (nat (fst (coord k))) (nat (snd (coord k))) \<and>
      cell (snd s') (nat (fst (coord k))) (nat (snd (coord k))) \<noteq> None"
    by (simp add: field_le_def)
qed

lemma collectHosts_ok:
  assumes "field_ok m n s" and "collectHosts coord count s = Inr (s', hosts)"
  shows "field_ok m n s' \<and> field_le m n s s' \<and> length hosts = nat count \<and> collected m n coord s' hosts"
proof -
  let ?f = "\<lambda>k (s, hosts). go_bind (GetOrCreate (fst (coord k)) (snd (coord k)) s)
      (\<lambda>(h, store, hf). Inr ((store, hf), hosts @ [h]))"
  have "field_ok m n s' \<and> field_le m n s s' \<and> length hosts = c \<and> collected m n coord s' hosts"
    if "go_fold ?f [0..<c] (s, []) = Inr (s', hosts)" for c
    using that
  proof (induction c arbitrary: s' hosts)
    case 0
    then show ?case using assms(1) by (auto simp: collected_def)
  next
    case (Suc c)
    have "go_bind (go_fold ?f [0..<c] (s, [])) (go_fold ?f [c]) = Inr (s', hosts)"
      using Suc.prems by (simp only: upt_Suc_append le0 go_fold_append)
    then obtain s1 hosts1 where 1: "go_fold ?f [0..<c] (s, []) = Inr (s1, hosts1)"
      and "go_fold ?f [c] (s1, hosts1) = Inr (s', hosts)"
      by (cases "go_fold ?f [0..<c] (s, [])") auto
    then obtain h store hf where
      2: "GetOrCreate (fst (coord c)) (snd (coord c)) s1 = Inr (h, store, hf)"
      and 3: "s' = (store, hf)" "hosts = hosts1 @ [h]"
      by (cases "GetOrCreate (fst (coord c)) (snd (coord c)) s1") auto
    from Suc.IH [OF 1] have IH: "field_ok m n s1" "field_le m n s s1" "length hosts1 = c"
      "collected m n coord s1 hosts1" by blast+
    from GetOrCreate_ok [OF IH(1) 2] have g: "field_ok m n (store, hf)" "field_le m n s1 (store, hf)"
      "in_range m n (fst (coord c)) (snd (coord c))"
      "h = cell hf (nat (fst (coord c))) (nat (snd (coord c)))" "h \<noteq> None" by blast+
    have "collected m n coord s' hosts"
      using collected_mono [OF IH(4) g(2)] g IH(3)
      by (auto simp: 3 collected_def nth_append less_Suc_eq)
    then show ?case using g(1) field_le_trans [OF IH(2) g(2)] IH(3) by (simp add: 3)
  qed
  then show ?thesis using assms(2) by (simp add: collectHosts_def)
qed

lemma walk_results:
  assumes "walk_from f i s xs = Inr (s', ys)" and "I s"
    and step: "\<And>k x s s1 y. I s \<Longrightarrow> f (int k) (s, x) = Inr (s1, y) \<Longrightarrow> I s1 \<and> le s s1 \<and> R s1 k x y"
    and mono: "\<And>s s1 k x y. R s k x y \<Longrightarrow> le s s1 \<Longrightarrow> R s1 k x y"
    and refl: "\<And>s. le s s" and trans: "\<And>s s1 s2. le s s1 \<Longrightarrow> le s1 s2 \<Longrightarrow> le s s2"
  shows "I s' \<and> le s s' \<and> length ys = length xs \<and> (\<forall>k<length xs. R s' (i + k) (xs ! k) (ys ! k))"
  using assms(1,2)
proof (induction xs arbitrary: i s ys)
  case Nil
  then show ?case by (simp add: refl)
next
  case (Cons x xs)
  then obtain s1 y ys' where 1: "f (int i) (s, x) = Inr (s1, y)"
    and 2: "walk_from f (Suc i) s1 xs = Inr (s', ys')" and ys: "ys = y # ys'"
    by (auto simp: go_bind_Inr_iff)
  note st = step [OF Cons.prems(2) 1]
  with Cons.IH [OF 2] have IH: "I s'" "le s1 s'" "length ys' = length xs"
    "\<forall>k<length xs. R s' (Suc i + k) (xs ! k) (ys' ! k)" by blast+
  have "R s' i x y" using st IH(2) mono by blast
  moreover have "le s s'" using st IH(2) trans by blast
  ultimately show ?case using IH by (simp add: ys All_less_Suc2)
qed

text \<open>The pointers a layout holds before its hosts are built: hosts decoded from the specification, each
  a host of its own.\<close>

definition ptr_of :: "int \<times> int \<times> host_ptr \<Rightarrow> host_ptr" where
  "ptr_of = (\<lambda>(i, j, h). h)"

lemma ptr_of_simp [simp]: "ptr_of (i, j, h) = h"
  by (simp add: ptr_of_def)

definition layout_ptrs :: "ChiClusterLayout \<Rightarrow> host_ptr list" where
  "layout_ptrs lay = map ptr_of (WalkHostsByShards lay @ WalkHostsByReplicas lay)"

definition ptrs_ok :: "host_store \<Rightarrow> host_ptr list \<Rightarrow> bool" where
  "ptrs_ok store ps =
     (distinct ps \<and> list_all (\<lambda>p. case p of Some a \<Rightarrow> a < length store | None \<Rightarrow> False) ps)"

lemma ptrs_ok_Cons:
  "ptrs_ok store (p # ps) \<longleftrightarrow> (\<exists>a<length store. p = Some a \<and> Some a \<notin> set ps) \<and> ptrs_ok store ps"
  by (auto simp: ptrs_ok_def split: option.splits)

lemma ptrs_ok_length: "length store' = length store \<Longrightarrow> ptrs_ok store ps \<Longrightarrow> ptrs_ok store' ps"
  unfolding ptrs_ok_def by (erule ssubst) assumption

lemma ptrs_ok_append: "ptrs_ok store (ps @ qs) \<Longrightarrow> ptrs_ok store ps \<and> ptrs_ok store qs \<and> set ps \<inter> set qs = {}"
  by (auto simp: ptrs_ok_def)

definition unused :: "nat \<Rightarrow> nat \<Rightarrow> HostsField \<Rightarrow> host_ptr list \<Rightarrow> bool" where
  "unused m n hf ps = (\<forall>i<m. \<forall>j<n. cell hf i j \<noteq> None \<longrightarrow> cell hf i j \<notin> set ps)"

lemma hostMergeFunc_ok:
  assumes ok: "field_ok m n (store, hf)" and p: "ptrs_ok store (ptr_of x # ps)"
    and un: "unused m n hf (ptr_of x # ps)" and f: "hostMergeFunc x (store, hf) = Inr (store', hf')"
  shows "field_ok m n (store', hf') \<and> length store' = length store \<and> unused m n hf' ps"
proof -
  obtain i j h where x: "x = (i, j, h)" by (cases x)
  obtain a where a: "h = Some a" "a < length store" "Some a \<notin> set ps"
    using p by (auto simp: x ptrs_ok_Cons)
  have d: "hf_dims m n hf" using field_ok_dims [OF ok] by simp
  have r: "in_range m n i j" using f d by (auto simp: x hostMergeFunc_eq split: if_splits)
  note ij = in_range_nat [OF r]
  show ?thesis
  proof (cases "cell hf (nat i) (nat j)")
    case None
    then have eqs: "store' = store" "hf' = set_cell (nat i) (nat j) (Some a) hf"
      using f d r by (simp_all add: x hostMergeFunc_eq a)
    have "cell hf i' j' \<noteq> Some a" if "i' < m" "j' < n" for i' j'
      using un that by (auto simp: unused_def x a)
    with field_ok_set [OF ok conjunct1 [OF ij] conjunct2 [OF ij] None a(2)]
    have "field_ok m n (store, hf')" by (simp add: eqs)
    moreover have "unused m n hf' ps"
      using un a(3) by (auto simp: unused_def x eqs cell_set_cell [OF d conjunct1 [OF ij] conjunct2 [OF ij]])
    ultimately show ?thesis by (simp add: eqs)
  next
    case (Some b)
    then have "hf' = hf" "length store' = length store"
      using f d r by (auto simp: x hostMergeFunc_eq store_put_def split: option.splits)
    then show ?thesis using ok un by (auto simp: field_ok_def unused_def)
  qed
qed

lemma merge_fold_ok:
  assumes "go_fold hostMergeFunc xs (store, hf) = Inr (store', hf')"
    and "field_ok m n (store, hf)" and "ptrs_ok store (map ptr_of xs @ ps)"
    and "unused m n hf (map ptr_of xs @ ps)"
  shows "field_ok m n (store', hf') \<and> length store' = length store \<and> unused m n hf' ps"
  using assms
proof (induction xs arbitrary: store hf)
  case (Cons x xs)
  obtain store1 hf1 where 1: "hostMergeFunc x (store, hf) = Inr (store1, hf1)"
    and 2: "go_fold hostMergeFunc xs (store1, hf1) = Inr (store', hf')"
    using Cons.prems(1) by (auto simp: go_bind_Inr_iff)
  have ok: "field_ok m n (store1, hf1) \<and> length store1 = length store
      \<and> unused m n hf1 (map ptr_of xs @ ps)"
    using hostMergeFunc_ok [OF Cons.prems(2) _ _ 1, of "map ptr_of xs @ ps"] Cons.prems(3,4) by simp
  moreover have "ptrs_ok store1 (map ptr_of xs @ ps)"
    using Cons.prems(3) ok ptrs_ok_length [of store1 store] by (simp add: ptrs_ok_Cons)
  ultimately show ?case using Cons.IH [OF 2] by simp
qed simp

lemma createHostsField_ok:
  assumes "createHostsField lay store = Inr s" and "ptrs_ok store (layout_ptrs lay)"
  shows "field_ok (nat (lay_ShardsCount lay)) (nat (lay_ReplicasCount lay)) s"
proof -
  let ?m = "nat (lay_ShardsCount lay)" and ?n = "nat (lay_ReplicasCount lay)"
  let ?hf = "\<lparr>hf_ShardsCount = lay_ShardsCount lay, hf_ReplicasCount = lay_ReplicasCount lay,
                hf_Field = replicate ?m (replicate ?n (None :: host_ptr))\<rparr>"
  let ?ps = "map ptr_of (WalkHostsByReplicas lay)"
  obtain store1 hf1 where
    1: "go_fold hostMergeFunc (WalkHostsByShards lay) (store, ?hf) = Inr (store1, hf1)"
    and 2: "go_fold hostMergeFunc (WalkHostsByReplicas lay) (store1, hf1) = Inr s"
    using assms(1) by (auto simp: createHostsField_def NewHostsField_eq go_bind_Inr_iff split: if_splits)
  have p: "ptrs_ok store (map ptr_of (WalkHostsByShards lay) @ ?ps)"
    using assms(2) by (simp add: layout_ptrs_def)
  have "field_ok ?m ?n (store, ?hf)" "unused ?m ?n ?hf (map ptr_of (WalkHostsByShards lay) @ ?ps)"
    by (simp_all add: field_ok_def dims_new unused_def cell_def)
  from merge_fold_ok [OF 1 this(1) p this(2)]
  have m: "field_ok ?m ?n (store1, hf1)" "length store1 = length store" "unused ?m ?n hf1 (?ps @ [])"
    by simp_all
  have "ptrs_ok store1 (?ps @ [])" using ptrs_ok_append [OF p] ptrs_ok_length [OF m(2)] by simp
  from merge_fold_ok [where xs = "WalkHostsByReplicas lay" and ps = "[]", OF _ m(1) this m(3)] 2
  show ?thesis by (cases s) auto
qed

text \<open>
  A shard holds the hosts of its row of the field, a replica those of its column; both as many as
  their counts say.
\<close>

definition shard_view :: "HostsField \<Rightarrow> nat \<Rightarrow> ChiShard \<Rightarrow> bool" where
  "shard_view hf i sh = (int (length (sh_Hosts sh)) = sh_ReplicasCount sh
     \<and> (\<forall>j<length (sh_Hosts sh). sh_Hosts sh ! j = cell hf i j \<and> cell hf i j \<noteq> None))"

definition replica_view :: "HostsField \<Rightarrow> nat \<Rightarrow> ChiReplica \<Rightarrow> bool" where
  "replica_view hf j rp = (int (length (rp_Hosts rp)) = rp_ShardsCount rp
     \<and> (\<forall>i<length (rp_Hosts rp). rp_Hosts rp ! i = cell hf i j \<and> cell hf i j \<noteq> None))"

definition one_host_per_cell :: "host_store \<Rightarrow> HostsField \<Rightarrow> bool" where
  "one_host_per_cell store hf =
     (distinct (map (\<lambda>(i, j, a). a) (HostsField_WalkHosts hf))
      \<and> (\<forall>(i, j, a)\<in>set (HostsField_WalkHosts hf). a < length store))"

definition views_share :: "host_store \<Rightarrow> HostsField \<Rightarrow> ChiClusterLayout \<Rightarrow> bool" where
  "views_share store hf lay =
     ((\<forall>i<length (lay_Shards lay). shard_view hf i (lay_Shards lay ! i))
      \<and> (\<forall>j<length (lay_Replicas lay). replica_view hf j (lay_Replicas lay ! j))
      \<and> one_host_per_cell store hf)"

lemma shard_step:
  assumes rc: "0 < rc" and ok: "field_ok m n s"
    and n: "normalizeShard c rc (int i) (s, sh) = Inr (s', sh')"
  shows "field_ok m n s' \<and> field_le m n s s' \<and>
    (int (length (sh_Hosts sh')) = sh_ReplicasCount sh' \<and> sh_ReplicasCount sh' = shard_count rc sh
     \<and> collected m n (\<lambda>k. (int i, int k)) s' (sh_Hosts sh'))"
proof -
  obtain hosts where c: "collectHosts (\<lambda>k. (int i, int k)) (shard_count rc sh) s = Inr (s', hosts)"
    and sh': "sh' = normalizeShardInternalReplication ((shard_ready c rc (int i) sh)\<lparr>sh_Hosts := hosts\<rparr>)"
    using n by (auto simp: normalizeShard_eq go_bind_Inr_iff)
  have "sh_Hosts sh' = hosts" "sh_ReplicasCount sh' = shard_count rc sh"
    by (simp_all add: sh' normalizeShardInternalReplication_def shard_ready_count)
  moreover have "0 < shard_count rc sh" using rc by (simp add: shard_count_def)
  ultimately show ?thesis using collectHosts_ok [OF ok c] by simp
qed

lemma replica_step:
  assumes sc: "0 < sc" and ok: "field_ok m n s"
    and n: "normalizeReplica c sc (int j) (s, rp) = Inr (s', rp')"
  shows "field_ok m n s' \<and> field_le m n s s' \<and>
    (int (length (rp_Hosts rp')) = rp_ShardsCount rp'
     \<and> collected m n (\<lambda>k. (int k, int j)) s' (rp_Hosts rp'))"
proof -
  obtain hosts where c: "collectHosts (\<lambda>k. (int k, int j)) (replica_count sc rp) s = Inr (s', hosts)"
    and rp': "rp' = (replica_ready c sc (int j) rp)\<lparr>rp_Hosts := hosts\<rparr>"
    using n by (auto simp: normalizeReplica_eq go_bind_Inr_iff)
  have "rp_Hosts rp' = hosts" "rp_ShardsCount rp' = replica_count sc rp"
    by (simp_all add: rp' replica_ready_count)
  moreover have "0 < replica_count sc rp" using sc by (simp add: replica_count_def)
  ultimately show ?thesis using collectHosts_ok [OF ok c] by simp
qed

lemma collected_shard_view:
  "int (length (sh_Hosts sh)) = sh_ReplicasCount sh \<Longrightarrow>
     collected m n (\<lambda>k. (int i, int k)) s (sh_Hosts sh) \<Longrightarrow> shard_view (snd s) i sh"
  by (auto simp: shard_view_def collected_def)

lemma collected_replica_view:
  "int (length (rp_Hosts rp)) = rp_ShardsCount rp \<Longrightarrow>
     collected m n (\<lambda>k. (int k, int j)) s (rp_Hosts rp) \<Longrightarrow> replica_view (snd s) j rp"
  by (auto simp: replica_view_def collected_def)

lemma in_WalkHosts_cell:
  "hf_dims m n hf \<Longrightarrow> (i, j, a) \<in> set (HostsField_WalkHosts hf) \<longleftrightarrow> i < m \<and> j < n \<and> cell hf i j = Some a"
  by (auto simp: in_HostsField_WalkHosts hf_dims_def)

lemma distinct_WalkHosts: "distinct (HostsField_WalkHosts hf)"
proof -
  have row: "distinct (concat (map (\<lambda>j. case row ! j of Some a \<Rightarrow> [(i, j, a)] | None \<Rightarrow> []) [0..<k]))"
    for row :: "host_ptr list" and i k :: nat
    by (induction k) (auto split: option.split)
  have "distinct (concat (map (\<lambda>i. let row = hf_Field hf ! i in
     concat (map (\<lambda>j. case row ! j of Some a \<Rightarrow> [(i, j, a)] | None \<Rightarrow> []) [0..<length row])) [0..<k]))" for k
    by (induction k) (auto simp: Let_def row split: option.splits)
  then show ?thesis by (simp add: HostsField_WalkHosts_def)
qed

lemma field_ok_one_host:
  assumes "field_ok m n (store, hf)"
  shows "one_host_per_cell store hf"
proof -
  have d: "hf_dims m n hf" using field_ok_dims [OF assms] by simp
  have "inj_on (\<lambda>(i, j, a). a) (set (HostsField_WalkHosts hf))"
    using assms by (auto simp: inj_on_def in_WalkHosts_cell [OF d] field_ok_def)
  then show ?thesis
    using assms distinct_WalkHosts
    by (auto simp: one_host_per_cell_def distinct_map in_WalkHosts_cell [OF d] field_ok_def)
qed

lemma walk_shards_ok:
  assumes w: "walk_from (normalizeShard cluster rc) 0 s xs = Inr (s', ys)"
    and "field_ok m n s" and rc: "0 < rc"
  shows "field_ok m n s' \<and> field_le m n s s' \<and> length ys = length xs \<and>
    (\<forall>i<length xs. int (length (sh_Hosts (ys ! i))) = sh_ReplicasCount (ys ! i)
        \<and> collected m n (\<lambda>k. (int i, int k)) s' (sh_Hosts (ys ! i)))"
proof -
  let ?R = "\<lambda>s i sh sh'. int (length (sh_Hosts sh')) = sh_ReplicasCount sh'
      \<and> collected m n (\<lambda>k. (int i, int k)) s (sh_Hosts sh')"
  have "field_ok m n s' \<and> field_le m n s s' \<and> length ys = length xs
      \<and> (\<forall>k<length xs. ?R s' (0 + k) (xs ! k) (ys ! k))"
  proof (rule walk_results [OF w, where I = "field_ok m n" and le = "field_le m n" and R = ?R])
    fix k x t t1 y
    assume "field_ok m n t" "normalizeShard cluster rc (int k) (t, x) = Inr (t1, y)"
    from shard_step [OF rc this] show "field_ok m n t1 \<and> field_le m n t t1 \<and> ?R t1 k x y" by simp
  next
    fix t t1 k x y
    assume "?R t k x y" "field_le m n t t1"
    then show "?R t1 k x y" using collected_mono by blast
  qed (use assms field_le_trans in \<open>auto\<close>)
  then show ?thesis by simp
qed

lemma walk_replicas_ok:
  assumes w: "walk_from (normalizeReplica cluster sc) 0 s xs = Inr (s', ys)"
    and "field_ok m n s" and sc: "0 < sc"
  shows "field_ok m n s' \<and> field_le m n s s' \<and> length ys = length xs \<and>
    (\<forall>j<length xs. int (length (rp_Hosts (ys ! j))) = rp_ShardsCount (ys ! j)
        \<and> collected m n (\<lambda>k. (int k, int j)) s' (rp_Hosts (ys ! j)))"
proof -
  let ?R = "\<lambda>s j rp rp'. int (length (rp_Hosts rp')) = rp_ShardsCount rp'
      \<and> collected m n (\<lambda>k. (int k, int j)) s (rp_Hosts rp')"
  have "field_ok m n s' \<and> field_le m n s s' \<and> length ys = length xs
      \<and> (\<forall>k<length xs. ?R s' (0 + k) (xs ! k) (ys ! k))"
  proof (rule walk_results [OF w, where I = "field_ok m n" and le = "field_le m n" and R = ?R])
    fix k x t t1 y
    assume "field_ok m n t" "normalizeReplica cluster sc (int k) (t, x) = Inr (t1, y)"
    from replica_step [OF sc this] show "field_ok m n t1 \<and> field_le m n t t1 \<and> ?R t1 k x y" by simp
  next
    fix t t1 k x y
    assume "?R t k x y" "field_le m n t t1"
    then show "?R t1 k x y" using collected_mono by blast
  qed (use assms field_le_trans in \<open>auto\<close>)
  then show ?thesis by simp
qed

lemma buildHosts_views:
  assumes b: "buildHosts cluster lay store = Inr ((store', hf), lay')"
    and pos: "0 < lay_ShardsCount lay" "0 < lay_ReplicasCount lay"
    and p: "ptrs_ok store (layout_ptrs lay)"
  shows "views_share store' hf lay'"
proof -
  let ?m = "nat (lay_ShardsCount lay)" and ?n = "nat (lay_ReplicasCount lay)"
  obtain s1 s2 shards replicas where s1: "createHostsField lay store = Inr s1"
    and S: "walk_from (normalizeShard cluster (lay_ReplicasCount lay)) 0 s1 (lay_Shards lay) = Inr (s2, shards)"
    and R: "walk_from (normalizeReplica cluster (lay_ShardsCount lay)) 0 s2 (lay_Replicas lay)
        = Inr ((store', hf), replicas)"
    and lay': "lay' = lay\<lparr>lay_Shards := shards, lay_Replicas := replicas\<rparr>"
    using b by (auto simp: buildHosts_def walk_update_def go_bind_Inr_iff)
  have 1: "field_ok ?m ?n s2 \<and> field_le ?m ?n s1 s2 \<and> length shards = length (lay_Shards lay) \<and>
    (\<forall>i<length (lay_Shards lay). int (length (sh_Hosts (shards ! i))) = sh_ReplicasCount (shards ! i)
        \<and> collected ?m ?n (\<lambda>k. (int i, int k)) s2 (sh_Hosts (shards ! i)))"
    by (rule walk_shards_ok [OF S createHostsField_ok [OF s1 p] pos(2)])
  then have 2: "field_ok ?m ?n (store', hf) \<and> field_le ?m ?n s2 (store', hf)
      \<and> length replicas = length (lay_Replicas lay) \<and>
    (\<forall>j<length (lay_Replicas lay). int (length (rp_Hosts (replicas ! j))) = rp_ShardsCount (replicas ! j)
        \<and> collected ?m ?n (\<lambda>k. (int k, int j)) (store', hf) (rp_Hosts (replicas ! j)))"
    by (intro walk_replicas_ok [OF R _ pos(1)]) simp
  have "shard_view hf i (shards ! i)" if "i < length shards" for i
  proof -
    have "int (length (sh_Hosts (shards ! i))) = sh_ReplicasCount (shards ! i)"
      and "collected ?m ?n (\<lambda>k. (int i, int k)) s2 (sh_Hosts (shards ! i))"
      using 1 that by auto
    moreover from this(2) 2 have "collected ?m ?n (\<lambda>k. (int i, int k)) (store', hf) (sh_Hosts (shards ! i))"
      by (blast intro: collected_mono)
    ultimately show ?thesis using collected_shard_view [where s = "(store', hf)"] by simp
  qed
  moreover have "replica_view hf j (replicas ! j)" if "j < length replicas" for j
  proof -
    have "int (length (rp_Hosts (replicas ! j))) = rp_ShardsCount (replicas ! j)"
      and "collected ?m ?n (\<lambda>k. (int k, int j)) (store', hf) (rp_Hosts (replicas ! j))"
      using 2 that by auto
    then show ?thesis using collected_replica_view [where s = "(store', hf)"] by simp
  qed
  moreover have "one_host_per_cell store' hf" using 2 field_ok_one_host by blast
  ultimately show ?thesis by (simp add: views_share_def lay')
qed

lemma map_nth_upt: "map (\<lambda>i. f (xs ! i)) [0..<length xs] = map f xs"
proof -
  have "map f xs = map f (map ((!) xs) [0..<length xs])" by (simp add: map_nth)
  then show ?thesis by (simp add: comp_def)
qed

lemma layout_ptrs_eq:
  "layout_ptrs lay = concat (map sh_Hosts (lay_Shards lay)) @ concat (map rp_Hosts (lay_Replicas lay))"
proof -
  have "map ptr_of (WalkHostsByShards lay) = concat (map (\<lambda>i. sh_Hosts (lay_Shards lay ! i)) [0..<length (lay_Shards lay)])"
    by (simp add: WalkHostsByShards_def map_concat comp_def Let_def map_nth)
  moreover have "map ptr_of (WalkHostsByReplicas lay)
      = concat (map (\<lambda>i. rp_Hosts (lay_Replicas lay ! i)) [0..<length (lay_Replicas lay)])"
    by (simp add: WalkHostsByReplicas_def map_concat comp_def Let_def map_nth)
  ultimately show ?thesis
    by (simp add: layout_ptrs_def map_nth_upt [where f = sh_Hosts] map_nth_upt [where f = rp_Hosts])
qed

lemma layout_ptrs_prepare: "layout_ptrs (prepareLayout (Some lay)) = layout_ptrs lay"
  by (simp add: layout_ptrs_eq prepareLayout_counts(3,4) newChiShard_def newChiReplica_def)

lemma normalizeCluster_layout:
  assumes "normalizeCluster zk files templates store (Some c) = Inr (store', hf, c')"
  obtains lay' store1 where
    "buildHosts (inheritCluster zk files templates c) (prepareLayout (cu_Layout c)) store = Inr ((store1, hf), lay')"
    "cu_Layout c' = Some lay'" "normalizeHosts lay' (store1, hf) = Inr store'" "length store' = length store1"
proof -
  from assms obtain lay' store1 where
    b: "buildHosts (inheritCluster zk files templates c) (prepareLayout (cu_Layout c)) store = Inr ((store1, hf), lay')"
    and n: "normalizeHosts lay' (store1, hf) = Inr store'"
    and c': "c' = (inheritCluster zk files templates c)\<lparr>cu_Layout := Some lay'\<rparr>"
    by (auto simp: normalizeCluster_def Let_def go_bind_Inr_iff)
  have "length store' = length store1"
    using normalizeHosts_returns [OF buildHosts_shape(1) [OF b], of lay' store1]
      buildHosts_shape(2,3) [OF b] prepared_lengths [of "cu_Layout c"] n by auto
  then show ?thesis using that [OF b _ n] by (simp add: c')
qed

text \<open>
  C3: the hosts of a normalized cluster. Every shard holds as many hosts as its replicas count, every
  replica as many as its shards count, none of them nil; the host of a shard at the position of a
  replica is the very same host as the host of that replica at the position of the shard; different
  positions of the field hold different hosts.
\<close>

theorem cluster_views_share_hosts:
  assumes "cu_Layout c = Some lay" and "ptrs_ok store (layout_ptrs lay)"
    and "normalizeCluster zk files templates store (Some c) = Inr (store', hf, c')"
  shows "\<exists>lay'. cu_Layout c' = Some lay' \<and> views_share store' hf lay'
    \<and> (\<forall>i<length (lay_Shards lay'). \<forall>j<length (lay_Replicas lay').
         let sh = lay_Shards lay' ! i; rp = lay_Replicas lay' ! j in
         j < length (sh_Hosts sh) \<longrightarrow> i < length (rp_Hosts rp) \<longrightarrow>
           sh_Hosts sh ! j = rp_Hosts rp ! i \<and> sh_Hosts sh ! j \<noteq> None)"
proof -
  obtain lay' store1 where
    b: "buildHosts (inheritCluster zk files templates c) (prepareLayout (cu_Layout c)) store = Inr ((store1, hf), lay')"
    and l: "cu_Layout c' = Some lay'" and len: "length store' = length store1"
    using normalizeCluster_layout [OF assms(3)] by blast
  have "layout_fits (prepareLayout (cu_Layout c))"
    using buildHosts_returns_iff [OF prepared_nonzero] b assms(1) by metis
  then have pos: "0 < lay_ShardsCount (prepareLayout (cu_Layout c))"
      "0 < lay_ReplicasCount (prepareLayout (cu_Layout c))"
    by (simp_all add: layout_fits_def)
  have "views_share store1 hf lay'"
    using buildHosts_views [OF b pos] assms(1,2) by (simp add: layout_ptrs_prepare)
  then have v: "views_share store' hf lay'"
    by (simp add: views_share_def one_host_per_cell_def len)
  then show ?thesis
    using l by (auto simp: views_share_def shard_view_def replica_view_def Let_def)
qed

definition sample_cluster :: ChiCluster where
  "sample_cluster = newDefaultCluster\<lparr>cu_Layout := Some sample_layout\<rparr>"

theorem cluster_views_share_hosts_witness:
  "\<exists>store hf c lay. normalizeCluster None None None [newChiHost, newChiHost] (Some sample_cluster)
      = Inr (store, hf, c) \<and> cu_Layout c = Some lay \<and> views_share store hf lay"
proof -
  have lay: "cu_Layout sample_cluster = Some sample_layout" by (simp add: sample_cluster_def)
  have "layout_fits (prepareLayout (cu_Layout sample_cluster))"
    unfolding lay
    by (simp add: layout_fits_def prepareLayout_counts sample_layout_def NewChiClusterLayout_def
        requested_shards_def requested_replicas_def newChiShard_def newChiReplica_def list_all_iff)
  then obtain r where
    r: "normalizeCluster None None None [newChiHost, newChiHost] (Some sample_cluster) = Inr r"
    using normalizeCluster_fits_iff by blast
  obtain store hf c where rr: "r = (store, hf, c)" by (cases r)
  have p: "ptrs_ok [newChiHost, newChiHost] (layout_ptrs sample_layout)"
    by (simp add: layout_ptrs_eq sample_layout_def NewChiClusterLayout_def newChiShard_def ptrs_ok_def)
  from cluster_views_share_hosts [OF lay p r [unfolded rr]] r rr show ?thesis by blast
qed

section \<open>What a host inherits\<close>

text \<open>The template names of a host below a shard, of the cluster and of the defaults, as the normalizer
  passes them down: from the defaults to the cluster, to the shard, to the host.\<close>

definition inherited_templates ::
    "ChiTemplateNames option \<Rightarrow> ChiCluster \<Rightarrow> int \<Rightarrow> int \<Rightarrow> ChiShard \<Rightarrow> ChiHost \<Rightarrow> ChiTemplateNames option"
where
  "inherited_templates def_templates cluster rc i shard host =
     (let cluster = InheritTemplatesFrom def_templates cluster;
          shard = shard_ready cluster rc i shard
      in h_Templates (ChiHost_InheritTemplatesFrom (Some (sh_Templates shard)) None None host))"

lemma tn_fill_deprecated:
  "tn_field f (HandleDeprecatedFields (ChiTemplateNames_MergeFrom MergeTypeFillEmptyValues d s)) =
     (if f = TnData
      then first_nonempty '''' [tn_field TnData d, tn_field TnData s, tn_field TnVolume d, tn_field TnVolume s]
      else first_nonempty '''' [tn_field f d, tn_field f s])"
  by (simp add: tn_field_HandleDeprecatedFields tn.field_merge fill_empty_def)

lemma cluster_templates:
  "tn_field f (cu_Templates (InheritTemplatesFrom (Some t) c)) =
     (if f = TnData
      then first_nonempty '''' [tn_field TnData (cu_Templates c), tn_field TnData (Some t),
             tn_field TnVolume (cu_Templates c), tn_field TnVolume (Some t)]
      else first_nonempty '''' [tn_field f (cu_Templates c), tn_field f (Some t)])"
  by (simp add: InheritTemplatesFrom_def tn_fill_deprecated del: nil_or_simps)

lemma shard_templates:
  "tn_field f (sh_Templates (shard_ready c rc i sh)) =
     (if f = TnData
      then first_nonempty '''' [tn_field TnData (sh_Templates sh), tn_field TnData (cu_Templates c),
             tn_field TnVolume (sh_Templates sh), tn_field TnVolume (cu_Templates c)]
      else first_nonempty '''' [tn_field f (sh_Templates sh), tn_field f (cu_Templates c)])"
  by (simp add: shard_ready_def normalizeShardReplicasCount_def tn_fill_deprecated)

lemma host_templates:
  "tn_field f (h_Templates (ChiHost_InheritTemplatesFrom (Some t) None None h)) =
     (if f = TnData
      then first_nonempty '''' [tn_field TnData (h_Templates h), tn_field TnData t,
             tn_field TnVolume (h_Templates h), tn_field TnVolume t]
      else first_nonempty '''' [tn_field f (h_Templates h), tn_field f t])"
  by (simp add: ChiHost_InheritTemplatesFrom_def fill_templates_def tn_fill_deprecated)


text \<open>The settings and files of a host under a shard: its own come first, then what the shard has,
  then (through the shard) what the cluster has.\<close>

lemma host_settings_lookup:
  "Settings_Get (h_Settings (ChiHost_InheritSettingsFrom (Some st) None h))
     = Settings_Get st ++ Settings_Get (h_Settings h)"
  by (simp add: ChiHost_InheritSettingsFrom_def Settings_MergeFrom_get)

section \<open>Names and ports after normalization\<close>

lemma normalizeHosts_fold:
  assumes "go_fold (\<lambda>(i, j, a) store.
       go_bind (go_nth (lay_Shards lay) (int i)) (\<lambda>shard.
       go_bind (go_nth (lay_Replicas lay) (int j)) (\<lambda>replica.
         Inr (store_put a (map_option
           (normalizeHost (IsShardSpecified lay) shard (int i) replica (int j))
           (store_get store (Some a))) store)))) xs store = Inr store'"
    and "distinct (map (\<lambda>(i, j, a). a) xs)" and "\<forall>(i, j, a)\<in>set xs. a < length store"
  shows "(\<forall>(i, j, a)\<in>set xs. store' ! a = normalizeHost (IsShardSpecified lay) (lay_Shards lay ! i) (int i)
            (lay_Replicas lay ! j) (int j) (store ! a))
       \<and> (\<forall>b. b \<notin> (\<lambda>(i, j, a). a) ` set xs \<longrightarrow> store' ! b = store ! b)"
  using assms
proof (induction xs arbitrary: store)
  case (Cons x xs)
  obtain i j a where x: "x = (i, j, a)" by (cases x)
  let ?h = "normalizeHost (IsShardSpecified lay) (lay_Shards lay ! i) (int i) (lay_Replicas lay ! j) (int j) (store ! a)"
  have a: "a < length store" "a \<notin> (\<lambda>(i, j, a). a) ` set xs" using Cons.prems(2,3) by (auto simp: x)
  have step: "go_fold (\<lambda>(i, j, a) store.
       go_bind (go_nth (lay_Shards lay) (int i)) (\<lambda>shard.
       go_bind (go_nth (lay_Replicas lay) (int j)) (\<lambda>replica.
         Inr (store_put a (map_option
           (normalizeHost (IsShardSpecified lay) shard (int i) replica (int j))
           (store_get store (Some a))) store)))) xs (store[a := ?h]) = Inr store'"
    using Cons.prems(1) a(1) by (auto simp: x store_get_def store_put_def split: if_splits)
  have IH: "\<forall>(i, j, a')\<in>set xs. store' ! a' = normalizeHost (IsShardSpecified lay) (lay_Shards lay ! i) (int i)
            (lay_Replicas lay ! j) (int j) (store[a := ?h] ! a')"
    "\<forall>b. b \<notin> (\<lambda>(i, j, a). a) ` set xs \<longrightarrow> store' ! b = store[a := ?h] ! b"
    using Cons.IH [OF step] Cons.prems(2,3) by (auto simp: x)
  have "store' ! a = ?h" using IH(2) a by simp
  moreover have same: "store[a := ?h] ! a' = store ! a'" if "(i', j', a') \<in> set xs" for i' j' a'
  proof -
    have "a' \<in> (\<lambda>(i, j, a). a) ` set xs" using that by force
    then show ?thesis using a(2) by (metis nth_list_update_neq)
  qed
  moreover have "\<forall>(i, j, a')\<in>set xs. store' ! a' = normalizeHost (IsShardSpecified lay)
      (lay_Shards lay ! i) (int i) (lay_Replicas lay ! j) (int j) (store ! a')"
    using IH(1) same by fastforce
  moreover have "\<forall>b. b \<notin> (\<lambda>(i, j, a). a) ` set (x # xs) \<longrightarrow> store' ! b = store ! b"
    using IH(2) by (auto simp: x)
  ultimately show ?case by (simp add: x)
qed simp

lemma normalizeHost_name:
  "h_Name (normalizeHost sp sh i rp j h) =
     (if h_Name h \<noteq> '''' \<and> \<not> IsAutoGeneratedHostName (h_Name h) sh i rp j then h_Name h
      else CreateHostName sh rp)"
  by (simp add: normalizeHost_def Let_def ChiHost_InheritTemplatesFrom_def ChiHost_InheritFilesFrom_def
      ChiHost_InheritSettingsFrom_def normalizeHostPorts_def normalizeHostName_def)

lemma normalizeHost_port: "host_port k (normalizeHost sp sh i rp j h) = reasonable_port (host_port k h)"
  by (cases k) (simp_all add: normalizeHost_def Let_def ChiHost_InheritTemplatesFrom_def
      ChiHost_InheritFilesFrom_def ChiHost_InheritSettingsFrom_def normalizeHostPorts_def
      normalizeHostName_def)

lemma reasonable_port_range: "0 \<le> sint (reasonable_port p) \<and> sint (reasonable_port p) < 65535"
  by (simp add: reasonable_port_def chPortNumberMustBeAssignedLater_def)

lemma normalized_hosts_of:
  assumes "cu_Layout c = Some lay" and "ptrs_ok store (layout_ptrs lay)"
    and n: "normalizeCluster zk files templates store (Some c) = Inr (store', hf, c')"
    and "cu_Layout c' = Some lay'" and "(i, j, a) \<in> set (HostsField_WalkHosts hf)"
  shows "\<exists>h. store' ! a = normalizeHost (IsShardSpecified lay') (lay_Shards lay' ! i) (int i)
      (lay_Replicas lay' ! j) (int j) h"
proof -
  obtain store1 where
    b: "buildHosts (inheritCluster zk files templates c) (prepareLayout (cu_Layout c)) store = Inr ((store1, hf), lay')"
    and h: "normalizeHosts lay' (store1, hf) = Inr store'"
    using normalizeCluster_layout [OF n] assms(4) by force
  have "layout_fits (prepareLayout (cu_Layout c))"
    using buildHosts_returns_iff [OF prepared_nonzero] b assms(1) by metis
  then have "views_share store1 hf lay'"
    using buildHosts_views [OF b] assms(1,2) by (simp add: layout_ptrs_prepare layout_fits_def)
  then have one: "one_host_per_cell store1 hf" by (simp add: views_share_def)
  from normalizeHosts_fold [of lay' "HostsField_WalkHosts hf" store1 store'] h one assms(5)
  show ?thesis by (fastforce simp: normalizeHosts_def one_host_per_cell_def)
qed


definition one_cell_cluster :: ChiCluster where
  "one_cell_cluster = newDefaultCluster\<lparr>cu_Layout := Some NewChiClusterLayout\<rparr>"

definition one_cell_check :: bool where
  "one_cell_check = (case normalizeCluster None None None [] (Some one_cell_cluster) of
     Inl _ \<Rightarrow> False
   | Inr (store, hf, c) \<Rightarrow>
       HostsField_WalkHosts hf = [(0, 0, 0)] \<and> map h_Name store = [''0-0''] \<and>
       map_option (\<lambda>lay. (map sh_Name (lay_Shards lay), map sh_Hosts (lay_Shards lay),
                          map rp_Hosts (lay_Replicas lay))) (cu_Layout c)
         = Some ([''0''], [[Some 0]], [[Some 0]]))"

lemma one_cell_check: "one_cell_check"
  by code_simp


end
