(* ===== verification/Registry.thy ===== *)
theory Registry
  imports ChiLayout
begin

text \<open>
  The registry of Kubernetes objects (\<open>pkg/model/registry.go\<close>) and its use after a reconcile:
  discovery of what exists (\<open>pkg/controller/chi/discoverer.go\<close>), subtraction of what was reconciled,
  and the purge of the rest (\<open>clear\<close>, \<open>purge\<close> and the \<open>purge...\<close> policies of
  \<open>pkg/controller/chi/worker.go\<close>, \<open>GetReclaimPolicy\<close> of \<open>labeler.go\<close>). What the API server lists is an
  argument; the deletions sent to it are the result.
\<close>

section \<open>Data\<close>

datatype EntityType = StatefulSet | ConfigMap | Service | PVC | PV

instantiation EntityType :: enum
begin

definition enum_EntityType :: "EntityType list" where
  "enum_EntityType = [StatefulSet, ConfigMap, Service, PVC, PV]"

definition enum_all_EntityType :: "(EntityType \<Rightarrow> bool) \<Rightarrow> bool" where
  "enum_all_EntityType P = list_all P [StatefulSet, ConfigMap, Service, PVC, PV]"

definition enum_ex_EntityType :: "(EntityType \<Rightarrow> bool) \<Rightarrow> bool" where
  "enum_ex_EntityType P = list_ex P [StatefulSet, ConfigMap, Service, PVC, PV]"

instance
proof
  have cases5: "x \<in> {StatefulSet, ConfigMap, Service, PVC, PV}" for x :: EntityType by (cases x) auto
  then show "(UNIV :: EntityType set) = set enum_class.enum" by (auto simp: enum_EntityType_def)
  show "distinct (enum_class.enum :: EntityType list)" by (simp add: enum_EntityType_def)
  show "enum_class.enum_all P = Ball UNIV P" for P :: "EntityType \<Rightarrow> bool"
  proof
    assume "enum_class.enum_all P"
    then have "P x" if "x \<in> {StatefulSet, ConfigMap, Service, PVC, PV}" for x
      using that by (auto simp: enum_all_EntityType_def)
    then show "Ball UNIV P" using cases5 by blast
  qed (simp add: enum_all_EntityType_def)
  show "enum_class.enum_ex P = Bex UNIV P" for P :: "EntityType \<Rightarrow> bool"
  proof
    assume "Bex UNIV P"
    then obtain x where "P x" by blast
    with cases5 [of x] show "enum_class.enum_ex P" by (auto simp: enum_ex_EntityType_def)
  qed (auto simp: enum_ex_EntityType_def)
qed

end

record ObjectMeta =
  om_Namespace :: string
  om_Name :: string
  om_Labels :: strmap
  om_Annotations :: strmap

definition object_key :: "ObjectMeta \<Rightarrow> string \<times> string" where
  "object_key m = (om_Namespace m, om_Name m)"

text \<open>A registry is a pointer to a struct with a map.\<close>

type_synonym registry = "(EntityType, ObjectMeta list) gmap option"

text \<open>Labels and annotations are read only: a nil and an empty map are not told apart.\<close>

section \<open>Operations\<close>

definition NewRegistry :: registry where
  "NewRegistry = Some []"

definition entities :: "registry \<Rightarrow> EntityType \<Rightarrow> ObjectMeta list" where
  "entities r et = (case r of None \<Rightarrow> [] | Some m \<Rightarrow> (case gget m et of None \<Rightarrow> [] | Some ms \<Rightarrow> ms))"

definition Registry_Len :: "registry \<Rightarrow> EntityType option \<Rightarrow> nat" where
  "Registry_Len r what = (case r of
     None \<Rightarrow> 0
   | Some m \<Rightarrow> (case what of None \<Rightarrow> length m | Some et \<Rightarrow> length (entities r et)))"

definition Registry_Walk :: "registry \<Rightarrow> (EntityType \<times> ObjectMeta) list" where
  "Registry_Walk r = (case r of
     None \<Rightarrow> []
   | Some m \<Rightarrow> concat (map (\<lambda>et. map (Pair et) (entities r et)) (gkeys m)))"

definition isEqual :: "ObjectMeta \<Rightarrow> ObjectMeta \<Rightarrow> bool" where
  "isEqual a b = (om_Namespace a = om_Namespace b \<and> om_Name a = om_Name b)"

definition hasEntity :: "registry \<Rightarrow> EntityType \<Rightarrow> ObjectMeta \<Rightarrow> bool" where
  "hasEntity r et meta =
     (if Registry_Len r None = 0 then False
      else list_ex (\<lambda>m. isEqual m meta) (entities r et))"

definition registerEntity :: "EntityType \<Rightarrow> ObjectMeta \<Rightarrow> registry \<Rightarrow> registry" where
  "registerEntity et meta r = (case r of
     None \<Rightarrow> None
   | Some m \<Rightarrow>
       if hasEntity r et meta then r
       else Some (gput et (entities r et @
              [\<lparr>om_Namespace = om_Namespace meta, om_Name = om_Name meta,
                om_Labels = nil_or [] id (MergeStringMapsOverwrite None (om_Labels meta) []),
                om_Annotations = nil_or [] id (MergeStringMapsOverwrite None (om_Annotations meta) [])\<rparr>]) m))"

text \<open>The index of the first element that is looked for, if any; and the removal by moving the last
  element to that index and truncating.\<close>

fun index_of :: "(ObjectMeta \<Rightarrow> bool) \<Rightarrow> nat \<Rightarrow> ObjectMeta list \<Rightarrow> nat option" where
  "index_of P i [] = None"
| "index_of P i (m # ms) = (if P m then Some i else index_of P (Suc i) ms)"

definition swap_delete :: "nat \<Rightarrow> 'a list \<Rightarrow> 'a list" where
  "swap_delete i xs = butlast (xs[i := last xs])"

definition deleteEntity :: "EntityType \<Rightarrow> ObjectMeta \<Rightarrow> registry \<Rightarrow> bool \<times> registry" where
  "deleteEntity et meta r =
     (if Registry_Len r None = 0 then (False, r)
      else case r of
        None \<Rightarrow> (False, r)
      | Some m \<Rightarrow>
          (case index_of (\<lambda>m. isEqual m meta) 0 (entities r et) of
             None \<Rightarrow> (False, r)
           | Some i \<Rightarrow> (True, Some (gput et (swap_delete i (entities r et)) m))))"

definition Registry_Subtract :: "registry \<Rightarrow> registry \<Rightarrow> registry" where
  "Registry_Subtract r sub =
     (if Registry_Len sub None = 0 then r
      else if Registry_Len r None = 0 then r
      else fold (\<lambda>(et, m) r. snd (deleteEntity et m r)) (Registry_Walk sub) r)"

section \<open>The contract of a registry\<close>

text \<open>
  What the worker relies on: membership after registering and after deleting. Registering a list and
  subtracting a registry follow from it.
\<close>

locale object_registry =
  fixes has :: "'r \<Rightarrow> 'e \<Rightarrow> 'm \<Rightarrow> bool"
    and register :: "'e \<Rightarrow> 'm \<Rightarrow> 'r \<Rightarrow> 'r"
    and delete :: "'e \<Rightarrow> 'm \<Rightarrow> 'r \<Rightarrow> 'r"
    and key :: "'m \<Rightarrow> 'k"
    and inv :: "'r \<Rightarrow> bool"
  assumes has_register: "inv r \<Longrightarrow> has (register et m r) et' m' \<longleftrightarrow> has r et' m' \<or> et = et' \<and> key m = key m'"
    and has_delete: "inv r \<Longrightarrow> has (delete et m r) et' m' \<longleftrightarrow> has r et' m' \<and> \<not> (et = et' \<and> key m = key m')"
    and inv_register: "inv r \<Longrightarrow> inv (register et m r)"
    and inv_delete: "inv r \<Longrightarrow> inv (delete et m r)"
begin

lemma register_all:
  assumes "inv r"
  shows "inv (fold (\<lambda>(et, m). register et m) xs r) \<and>
    (has (fold (\<lambda>(et, m). register et m) xs r) et' m' \<longleftrightarrow>
       has r et' m' \<or> (\<exists>m. (et', m) \<in> set xs \<and> key m = key m'))"
  using assms by (induction xs arbitrary: r) (auto simp: has_register inv_register)

lemma delete_all:
  assumes "inv r"
  shows "inv (fold (\<lambda>(et, m). delete et m) xs r) \<and>
    (has (fold (\<lambda>(et, m). delete et m) xs r) et' m' \<longleftrightarrow>
       has r et' m' \<and> \<not> (\<exists>m. (et', m) \<in> set xs \<and> key m = key m'))"
  using assms by (induction xs arbitrary: r) (auto simp: has_delete inv_delete)

lemma register_commute:
  "inv r \<Longrightarrow> has (register e1 m1 (register e2 m2 r)) et m \<longleftrightarrow> has (register e2 m2 (register e1 m1 r)) et m"
  by (auto simp: has_register inv_register)

end

definition registry_ok :: "registry \<Rightarrow> bool" where
  "registry_ok r = (r \<noteq> None \<and> gmap_ok (the r) \<and> (\<forall>et. distinct (map object_key (entities r et))))"

lemma isEqual_iff: "isEqual a b \<longleftrightarrow> object_key a = object_key b"
  by (simp add: isEqual_def object_key_def)

lemma hasEntity_iff: "hasEntity r et m \<longleftrightarrow> object_key m \<in> object_key ` set (entities r et)"
proof -
  have "Registry_Len r None = 0 \<Longrightarrow> entities r et = []"
    by (cases r) (simp_all add: Registry_Len_def entities_def)
  then show ?thesis by (auto simp: hasEntity_def list_ex_iff isEqual_iff eq_commute [of "object_key m"])
qed

lemma entities_gput: "entities (Some (gput et ms m)) et' = (if et' = et then ms else entities (Some m) et')"
  by (simp add: entities_def gmap_simps)

lemma registerEntity_has:
  assumes "registry_ok r"
  shows "hasEntity (registerEntity et m r) et' m' \<longleftrightarrow>
    hasEntity r et' m' \<or> et = et' \<and> object_key m = object_key m'"
proof -
  obtain gm where gm: "r = Some gm" using assms by (auto simp: registry_ok_def)
  have k: "object_key \<lparr>om_Namespace = om_Namespace m, om_Name = om_Name m, om_Labels = l,
      om_Annotations = a\<rparr> = object_key m" for l a
    by (simp add: object_key_def)
  show ?thesis
  proof (cases "hasEntity r et m")
    case True
    then have "registerEntity et m r = r" by (simp add: gm registerEntity_def)
    then show ?thesis using True by (auto simp: hasEntity_iff)
  next
    case False
    then show ?thesis
      by (auto simp: gm registerEntity_def hasEntity_iff [of "Some (gput _ _ _)"] entities_gput k)
        (auto simp: hasEntity_iff)
  qed
qed

lemma registerEntity_ok: "registry_ok r \<Longrightarrow> registry_ok (registerEntity et m r)"
  by (auto simp: registry_ok_def registerEntity_def entities_gput hasEntity_iff object_key_def
      split: option.splits)

lemma swap_delete_set:
  assumes "distinct xs" and "i < length xs"
  shows "set (swap_delete i xs) = set xs - {xs ! i} \<and> distinct (swap_delete i xs)"
proof -
  obtain ys l where xs: "xs = ys @ [l]" using assms(2) by (cases xs rule: rev_cases) auto
  show ?thesis
  proof (cases "i = length ys")
    case True
    then show ?thesis using assms(1) by (auto simp: xs swap_delete_def)
  next
    case False
    then have i: "i < length ys" using assms(2) by (simp add: xs)
    have ys: "distinct ys" "l \<notin> set ys" using assms(1) by (simp_all add: xs)
    have "swap_delete i xs = ys[i := l]" using i by (simp add: xs swap_delete_def list_update_append)
    moreover have "set (ys[i := l]) = insert l (set ys - {ys ! i})"
      using i ys(1) by (simp add: set_update_distinct)
    ultimately show ?thesis using i ys by (auto simp: xs nth_append distinct_list_update)
  qed
qed

lemma map_swap_delete: "i < length xs \<Longrightarrow> map f (swap_delete i xs) = swap_delete i (map f xs)"
  by (cases "xs = []") (simp_all add: swap_delete_def map_butlast map_update last_map)

lemma index_of_Some: "index_of P k xs = Some i \<Longrightarrow> k \<le> i \<and> i - k < length xs \<and> P (xs ! (i - k))"
  by (induction xs arbitrary: k) (fastforce simp: nth_Cons' split: if_splits)+

lemma index_of_None: "index_of P k xs = None \<longleftrightarrow> (\<forall>x\<in>set xs. \<not> P x)"
  by (induction xs arbitrary: k) auto

lemma deleteEntity_entities:
  assumes "registry_ok r"
  shows "object_key ` set (entities (snd (deleteEntity et m r)) et') =
      (if et' = et then object_key ` set (entities r et) - {object_key m} else object_key ` set (entities r et'))
    \<and> registry_ok (snd (deleteEntity et m r))"
proof -
  obtain gm where gm: "r = Some gm" using assms by (auto simp: registry_ok_def)
  have d: "distinct (map object_key (entities r e))" for e using assms by (simp add: registry_ok_def)
  show ?thesis
  proof (cases "index_of (\<lambda>x. isEqual x m) 0 (entities r et)")
    case None
    then have "object_key m \<notin> object_key ` set (entities r et)"
      by (auto simp: index_of_None isEqual_iff)
    then show ?thesis using assms None by (auto simp: deleteEntity_def gm)
  next
    case (Some i)
    then have i: "i < length (entities r et)" "object_key (entities r et ! i) = object_key m"
      using index_of_Some [OF Some] by (simp_all add: isEqual_iff)
    have "gm \<noteq> []" using i(1) by (auto simp: gm entities_def)
    then have del: "snd (deleteEntity et m r) = Some (gput et (swap_delete i (entities r et)) gm)"
      using Some by (simp add: deleteEntity_def gm Registry_Len_def)
    have "set (map object_key (swap_delete i (entities r et))) = object_key ` set (entities r et) - {object_key m}
        \<and> distinct (map object_key (swap_delete i (entities r et)))"
      using swap_delete_set [OF d [of et], of i] i by (simp add: map_swap_delete)
    then show ?thesis
      using assms unfolding del by (auto simp: entities_gput gm registry_ok_def)
  qed
qed

lemma deleteEntity_has:
  assumes "registry_ok r"
  shows "hasEntity (snd (deleteEntity et m r)) et' m' \<longleftrightarrow>
    hasEntity r et' m' \<and> \<not> (et = et' \<and> object_key m = object_key m')"
  using deleteEntity_entities [OF assms, of et m et'] by (auto simp: hasEntity_iff split: if_splits)

interpretation reg: object_registry hasEntity registerEntity "\<lambda>et m r. snd (deleteEntity et m r)"
    object_key registry_ok
  by unfold_locales
    (simp_all add: registerEntity_has registerEntity_ok deleteEntity_has deleteEntity_entities)

section \<open>The purge after a reconcile\<close>

definition RegisterAll :: "EntityType \<Rightarrow> ObjectMeta list \<Rightarrow> registry \<Rightarrow> registry" where
  "RegisterAll et ms r = fold (registerEntity et) ms r"

text \<open>
  \<open>discovery\<close>: a list per kind of object as the API server returned it, \<open>None\<close> when the call failed or
  returned nil; nil when the context is done.
\<close>

definition discoveryKind :: "EntityType \<Rightarrow> ObjectMeta list option \<Rightarrow> registry \<Rightarrow> registry" where
  "discoveryKind et items r = (case items of None \<Rightarrow> r | Some ms \<Rightarrow> RegisterAll et ms r)"

definition discovery :: "bool \<Rightarrow> (EntityType \<Rightarrow> ObjectMeta list option) \<Rightarrow> registry" where
  "discovery ctxDone listed =
     (if ctxDone then None
      else discoveryKind PV (listed PV)
             (discoveryKind PVC (listed PVC)
               (discoveryKind Service (listed Service)
                 (discoveryKind ConfigMap (listed ConfigMap)
                   (discoveryKind StatefulSet (listed StatefulSet) NewRegistry)))))"

definition PVCReclaimPolicyRetain :: string where
  "PVCReclaimPolicyRetain = ''Retain''"

definition PVCReclaimPolicyDelete :: string where
  "PVCReclaimPolicyDelete = ''Delete''"

definition PVCReclaimPolicy_IsValid :: "string \<Rightarrow> bool" where
  "PVCReclaimPolicy_IsValid v =
     (if v = PVCReclaimPolicyRetain then True else if v = PVCReclaimPolicyDelete then True else False)"

definition LabelPVCReclaimPolicyName :: string where
  "LabelPVCReclaimPolicyName = ''clickhouse.radondb.com/reclaimPolicy''"

definition GetReclaimPolicy :: "ObjectMeta \<Rightarrow> string" where
  "GetReclaimPolicy meta = (case gget (om_Labels meta) LabelPVCReclaimPolicyName of
     Some v \<Rightarrow> if PVCReclaimPolicy_IsValid v then v else PVCReclaimPolicyDelete
   | None \<Rightarrow> PVCReclaimPolicyDelete)"

text \<open>The four policies differ in the field they read only.\<close>

definition purge_kind :: "oc_field \<Rightarrow> EntityType \<Rightarrow> ChiReconciling option \<Rightarrow> registry \<Rightarrow> ObjectMeta \<Rightarrow> bool" where
  "purge_kind f et rec failed m =
     (if hasEntity failed et m
      then oc_field f (GetReconcileFailedObjects (GetCleanup rec)) = ObjectsCleanupDelete
      else oc_field f (GetUnknownObjects (GetCleanup rec)) = ObjectsCleanupDelete)"

definition purgeStatefulSet :: "ChiReconciling option \<Rightarrow> registry \<Rightarrow> ObjectMeta \<Rightarrow> bool" where
  "purgeStatefulSet = purge_kind OcStatefulSet StatefulSet"

definition purgePVC :: "ChiReconciling option \<Rightarrow> registry \<Rightarrow> ObjectMeta \<Rightarrow> bool" where
  "purgePVC = purge_kind OcPVC PVC"

definition purgeConfigMap :: "ChiReconciling option \<Rightarrow> registry \<Rightarrow> ObjectMeta \<Rightarrow> bool" where
  "purgeConfigMap = purge_kind OcConfigMap ConfigMap"

definition purgeService :: "ChiReconciling option \<Rightarrow> registry \<Rightarrow> ObjectMeta \<Rightarrow> bool" where
  "purgeService = purge_kind OcService Service"

text \<open>The deletions sent, in order, and the number of StatefulSets among them.\<close>

definition purge_step ::
    "ChiReconciling option \<Rightarrow> registry \<Rightarrow> EntityType \<times> ObjectMeta
      \<Rightarrow> (EntityType \<times> ObjectMeta) list \<times> nat \<Rightarrow> (EntityType \<times> ObjectMeta) list \<times> nat" where
  "purge_step rec failed = (\<lambda>(et, m) (deleted, cnt). case et of
     StatefulSet \<Rightarrow>
       if purgeStatefulSet rec failed m then (deleted @ [(StatefulSet, m)], Suc cnt) else (deleted, cnt)
   | PVC \<Rightarrow>
       if purgePVC rec failed m then
         if GetReclaimPolicy m = PVCReclaimPolicyDelete then (deleted @ [(PVC, m)], cnt) else (deleted, cnt)
       else (deleted, cnt)
   | ConfigMap \<Rightarrow>
       if purgeConfigMap rec failed m then (deleted @ [(ConfigMap, m)], cnt) else (deleted, cnt)
   | Service \<Rightarrow>
       if purgeService rec failed m then (deleted @ [(Service, m)], cnt) else (deleted, cnt)
   | PV \<Rightarrow> (deleted, cnt))"

definition purge ::
    "bool \<Rightarrow> ChiReconciling option \<Rightarrow> registry \<Rightarrow> registry \<Rightarrow> (EntityType \<times> ObjectMeta) list \<times> nat" where
  "purge ctxDone rec reg failed =
     (if ctxDone then ([], 0) else fold (purge_step rec failed) (Registry_Walk reg) ([], 0))"

definition clear_objects ::
    "bool \<Rightarrow> bool \<Rightarrow> ChiReconciling option \<Rightarrow> (EntityType \<Rightarrow> ObjectMeta list option)
      \<Rightarrow> registry \<Rightarrow> registry \<Rightarrow> (EntityType \<times> ObjectMeta) list \<times> nat" where
  "clear_objects ctxDone1 ctxDone2 rec listed reconciled failed =
     purge ctxDone2 rec (Registry_Subtract (discovery ctxDone1 listed) reconciled) failed"

text \<open>Whether the purge deletes an object of the registry it walks.\<close>

definition purged :: "ChiReconciling option \<Rightarrow> registry \<Rightarrow> EntityType \<Rightarrow> ObjectMeta \<Rightarrow> bool" where
  "purged rec failed et m = (case et of
     StatefulSet \<Rightarrow> purgeStatefulSet rec failed m
   | PVC \<Rightarrow> purgePVC rec failed m \<and> GetReclaimPolicy m = PVCReclaimPolicyDelete
   | ConfigMap \<Rightarrow> purgeConfigMap rec failed m
   | Service \<Rightarrow> purgeService rec failed m
   | PV \<Rightarrow> False)"

lemma purge_step_eq:
  "purge_step rec failed (et, m) (deleted, cnt) =
     (if purged rec failed et m then (deleted @ [(et, m)], if et = StatefulSet then Suc cnt else cnt)
      else (deleted, cnt))"
  by (cases et) (simp_all add: purge_step_def purged_def)

lemma purge_fold:
  "fold (purge_step rec failed) xs (deleted, cnt) =
     (deleted @ filter (\<lambda>(et, m). purged rec failed et m) xs,
      cnt + length (filter (\<lambda>(et, m). et = StatefulSet \<and> purged rec failed et m) xs))"
  by (induction xs arbitrary: deleted cnt) (auto simp: purge_step_eq split: prod.splits)

lemma Registry_Walk_iff:
  assumes "registry_ok r"
  shows "(et, m) \<in> set (Registry_Walk r) \<longleftrightarrow> m \<in> set (entities r et)"
proof -
  obtain gm where r: "r = Some gm" using assms by (auto simp: registry_ok_def)
  have "m \<in> set (entities r et) \<Longrightarrow> et \<in> set (gkeys gm)"
    using gget_None_iff [of gm et] by (cases "gget gm et") (auto simp: r entities_def)
  then show ?thesis by (auto simp: Registry_Walk_def r)
qed

lemma RegisterAll_eq: "RegisterAll et ms r = fold (\<lambda>(et, m). registerEntity et m) (map (Pair et) ms) r"
  by (simp add: RegisterAll_def fold_map comp_def)

lemma discoveryKind_spec:
  assumes "registry_ok r"
  shows "registry_ok (discoveryKind et items r) \<and>
    (hasEntity (discoveryKind et items r) et' m \<longleftrightarrow>
       hasEntity r et' m \<or> et' = et \<and> object_key m \<in> object_key ` set (nil_or [] id items))"
  using reg.register_all [OF assms, of "map (Pair et) (nil_or [] id items)"] assms
  by (cases items) (auto simp: discoveryKind_def RegisterAll_eq eq_commute [of "object_key m"])

lemma discovery_spec:
  "registry_ok (discovery False listed) \<and>
   (hasEntity (discovery False listed) et m \<longleftrightarrow> object_key m \<in> object_key ` set (nil_or [] id (listed et)))"
proof -
  have 0: "registry_ok NewRegistry" "\<not> hasEntity NewRegistry et m" for et m
    by (simp_all add: registry_ok_def NewRegistry_def entities_def hasEntity_iff)
  let ?r1 = "discoveryKind StatefulSet (listed StatefulSet) NewRegistry"
  let ?r2 = "discoveryKind ConfigMap (listed ConfigMap) ?r1"
  let ?r3 = "discoveryKind Service (listed Service) ?r2"
  let ?r4 = "discoveryKind PVC (listed PVC) ?r3"
  note 1 = discoveryKind_spec [OF 0(1), of StatefulSet "listed StatefulSet"]
  note 2 = discoveryKind_spec [OF 1 [THEN conjunct1], of ConfigMap "listed ConfigMap"]
  note 3 = discoveryKind_spec [OF 2 [THEN conjunct1], of Service "listed Service"]
  note 4 = discoveryKind_spec [OF 3 [THEN conjunct1], of PVC "listed PVC"]
  note 5 = discoveryKind_spec [OF 4 [THEN conjunct1], of PV "listed PV"]
  show ?thesis
    by (cases et) (simp_all add: discovery_def 1 2 3 4 5 0)
qed

lemma Registry_Len_0: "Registry_Len r None = 0 \<Longrightarrow> entities r et = []"
  by (cases r) (simp_all add: Registry_Len_def entities_def)

lemma Registry_Subtract_spec:
  assumes "registry_ok r" and "registry_ok sub"
  shows "registry_ok (Registry_Subtract r sub) \<and>
    (hasEntity (Registry_Subtract r sub) et m \<longleftrightarrow> hasEntity r et m \<and> \<not> hasEntity sub et m)"
proof (cases "Registry_Len sub None = 0 \<or> Registry_Len r None = 0")
  case True
  then show ?thesis using assms Registry_Len_0 by (auto simp: Registry_Subtract_def hasEntity_iff)
next
  case False
  have "(\<exists>m'. (et, m') \<in> set (Registry_Walk sub) \<and> object_key m' = object_key m) \<longleftrightarrow> hasEntity sub et m"
    by (auto simp: Registry_Walk_iff [OF assms(2)] hasEntity_iff eq_commute [of "object_key m"])
  then show ?thesis
    using reg.delete_all [OF assms(1), of "Registry_Walk sub" et m] False by (simp add: Registry_Subtract_def)
qed

lemma entities_keys_eq:
  "registry_ok r \<Longrightarrow> m \<in> set (entities r et) \<Longrightarrow> m' \<in> set (entities r et) \<Longrightarrow> object_key m = object_key m'
     \<Longrightarrow> m = m'"
  unfolding registry_ok_def by (metis distinct_map inj_onD)

text \<open>What the registries say of an object depends on its namespace and name only.\<close>

definition policy_delete :: "ChiReconciling option \<Rightarrow> registry \<Rightarrow> EntityType \<Rightarrow> ObjectMeta \<Rightarrow> bool" where
  "policy_delete rec failed et m = (case et of
     StatefulSet \<Rightarrow> purge_kind OcStatefulSet StatefulSet rec failed m
   | PVC \<Rightarrow> purge_kind OcPVC PVC rec failed m
   | ConfigMap \<Rightarrow> purge_kind OcConfigMap ConfigMap rec failed m
   | Service \<Rightarrow> purge_kind OcService Service rec failed m
   | PV \<Rightarrow> False)"

lemma purged_iff:
  "purged rec failed et m \<longleftrightarrow>
     policy_delete rec failed et m \<and> (et = PVC \<longrightarrow> GetReclaimPolicy m = PVCReclaimPolicyDelete)"
  by (cases et) (auto simp: purged_def policy_delete_def purgeStatefulSet_def purgePVC_def
      purgeConfigMap_def purgeService_def)

lemma clear_deleted:
  assumes "registry_ok reconciled"
  shows "(et, m) \<in> set (fst (clear_objects False False rec listed reconciled failed)) \<longleftrightarrow>
     m \<in> set (entities (Registry_Subtract (discovery False listed) reconciled) et) \<and> purged rec failed et m"
proof -
  have "registry_ok (Registry_Subtract (discovery False listed) reconciled)"
    using Registry_Subtract_spec discovery_spec assms by blast
  then show ?thesis
    by (auto simp: clear_objects_def purge_def purge_fold Registry_Walk_iff)
qed

text \<open>
  C18: what is deleted after a reconcile. Every object sent for deletion was found in the cluster, was
  not reconciled, and its kind is to be cleaned up: by the policy for failed objects when it failed to
  reconcile, by the policy for unknown objects otherwise. A persistent volume is never deleted, and a
  claim only when its own reclaim policy says so.
\<close>

theorem clear_deletes_only:
  assumes "registry_ok reconciled"
    and "(et, m) \<in> set (fst (clear_objects False False rec listed reconciled failed))"
  shows "object_key m \<in> object_key ` set (nil_or [] id (listed et))
    \<and> \<not> hasEntity reconciled et m
    \<and> policy_delete rec failed et m
    \<and> et \<noteq> PV \<and> (et = PVC \<longrightarrow> GetReclaimPolicy m = PVCReclaimPolicyDelete)"
proof -
  have m: "m \<in> set (entities (Registry_Subtract (discovery False listed) reconciled) et)"
    and p: "purged rec failed et m"
    using assms(2) clear_deleted [OF assms(1)] by blast+
  from m have "hasEntity (Registry_Subtract (discovery False listed) reconciled) et m"
    by (simp add: hasEntity_iff)
  then have "object_key m \<in> object_key ` set (nil_or [] id (listed et)) \<and> \<not> hasEntity reconciled et m"
    using Registry_Subtract_spec [OF conjunct1 [OF discovery_spec] assms(1)] discovery_spec by blast
  moreover have "et \<noteq> PV" using p by (auto simp: purged_def)
  ultimately show ?thesis using p purged_iff by blast
qed

text \<open>
  The converse: an object that was found, was not reconciled and is to be cleaned up is deleted
  (claims left aside, whose reclaim policy is read from the labels that were discovered).
\<close>

theorem clear_deletes_all:
  assumes "registry_ok reconciled" and "et \<noteq> PVC"
    and "m \<in> set (nil_or [] id (listed et))"
    and "\<not> hasEntity reconciled et m" and "policy_delete rec failed et m"
  shows "\<exists>m'. object_key m' = object_key m
    \<and> (et, m') \<in> set (fst (clear_objects False False rec listed reconciled failed))"
proof -
  have "hasEntity (Registry_Subtract (discovery False listed) reconciled) et m"
    using Registry_Subtract_spec [OF conjunct1 [OF discovery_spec] assms(1)] discovery_spec assms(3,4)
    by blast
  then obtain m' where m': "m' \<in> set (entities (Registry_Subtract (discovery False listed) reconciled) et)"
    and k: "object_key m' = object_key m"
    by (auto simp: hasEntity_iff eq_commute [of "object_key m"])
  have "hasEntity failed e m' = hasEntity failed e m" for e by (simp add: hasEntity_iff k)
  then have "policy_delete rec failed et m' = policy_delete rec failed et m"
    by (cases et) (simp_all add: policy_delete_def purge_kind_def)
  then have "purged rec failed et m'" using assms(2,5) by (simp add: purged_iff)
  then show ?thesis using clear_deleted [OF assms(1)] m' k by blast
qed

definition object_named :: "string \<Rightarrow> ObjectMeta" where
  "object_named nm = \<lparr>om_Namespace = ''ns'', om_Name = nm, om_Labels = [], om_Annotations = []\<rparr>"

definition listed_sample :: "EntityType \<Rightarrow> ObjectMeta list option" where
  "listed_sample et = (if et = StatefulSet then Some [object_named ''a'', object_named ''b'', object_named ''c'']
     else None)"

definition reconciled_sample :: registry where
  "reconciled_sample = registerEntity StatefulSet (object_named ''b'') NewRegistry"

lemma reconciled_sample_ok: "registry_ok reconciled_sample"
  unfolding reconciled_sample_def
  by (rule registerEntity_ok) (simp add: registry_ok_def NewRegistry_def entities_def)

theorem clear_deletes_only_witness:
  "(StatefulSet, object_named ''a'') \<in> set (fst (clear_objects False False (normalizeReconciling None)
        listed_sample reconciled_sample NewRegistry))
   \<and> \<not> hasEntity reconciled_sample StatefulSet (object_named ''a'')"
proof
  show in_a: "(StatefulSet, object_named ''a'') \<in> set (fst (clear_objects False False
      (normalizeReconciling None) listed_sample reconciled_sample NewRegistry))"
    by code_simp
  show "\<not> hasEntity reconciled_sample StatefulSet (object_named ''a'')"
    using clear_deletes_only [OF reconciled_sample_ok in_a] by simp
qed

theorem clear_deletes_all_witness:
  "\<exists>m'. object_key m' = object_key (object_named ''c'')
    \<and> (StatefulSet, m') \<in> set (fst (clear_objects False False (normalizeReconciling None)
        listed_sample reconciled_sample NewRegistry))"
proof (rule clear_deletes_all [OF reconciled_sample_ok])
  show "object_named ''c'' \<in> set (nil_or [] id (listed_sample StatefulSet))"
    by (simp add: listed_sample_def)
  show "\<not> hasEntity reconciled_sample StatefulSet (object_named ''c'')" by code_simp
  show "policy_delete (normalizeReconciling None) NewRegistry StatefulSet (object_named ''c'')" by code_simp
qed simp

end
