(* ===== verification/Planning.thy ===== *)
theory Planning
  imports Registry
begin

text \<open>
  From an event to the work it causes: the plan of differences between two installations
  (\<open>pkg/model/action_plan.go\<close>), the commands of the work queues
  (\<open>pkg/controller/chi/type_cmd_queue.go\<close>), the choice of a queue (\<open>enqueueObject\<close> and \<open>initQueues\<close> of
  \<open>pkg/controller/chi/controller.go\<close>) and the marking of the hosts to work on (\<open>walkHosts\<close> of
  \<open>pkg/controller/chi/worker.go\<close>).

  The package messagediff is not part of the repository: its \<open>DeepDiff\<close> is a parameter, of which the
  code relies on this: two values are reported equal exactly when no path was added, removed or
  modified (\<open>diff_ok\<close>).
\<close>

section \<open>Differences\<close>

text \<open>What a path of a diff can carry; a \<open>*ChiHost\<close> is a pointer into the store, a \<open>ChiHost\<close> a copy.\<close>

datatype diff_item =
    DiffCluster ChiCluster
  | DiffShard ChiShard
  | DiffHost nat
  | DiffHostCopy ChiHost
  | DiffOther

type_synonym diff_path = "string list"

record diff =
  d_Added :: "(diff_path, diff_item) gmap"
  d_Removed :: "(diff_path, diff_item) gmap"
  d_Modified :: "(diff_path, diff_item) gmap"

definition diff_size :: "diff \<Rightarrow> nat" where
  "diff_size d = length (d_Added d) + length (d_Removed d) + length (d_Modified d)"

record 'spec installation =
  ci_Meta :: ObjectMeta
  ci_Spec :: 'spec
  ci_DeletionTimestamp :: "int option"
  ci_Finalizers :: "string list"

text \<open>The three uses of \<open>DeepDiff\<close>; \<open>None\<close> is the untyped nil.\<close>

record 'spec deep_diff =
  dd_Spec :: "'spec option \<Rightarrow> 'spec option \<Rightarrow> diff \<times> bool"
  dd_Labels :: "strmap option \<Rightarrow> strmap option \<Rightarrow> diff \<times> bool"
  dd_Finalizers :: "string list option \<Rightarrow> string list option \<Rightarrow> diff \<times> bool"

record action_plan =
  ap_specDiff :: diff
  ap_specEqual :: bool
  ap_labelsDiff :: diff
  ap_labelsEqual :: bool
  ap_deletionTimestampEqual :: bool
  ap_finalizersEqual :: bool

definition timestampEqual :: "int option \<Rightarrow> int option \<Rightarrow> bool" where
  "timestampEqual old new = (case (old, new) of
     (None, None) \<Rightarrow> True
   | (None, Some _) \<Rightarrow> False
   | (Some _, None) \<Rightarrow> False
   | (Some o', Some n) \<Rightarrow> o' = n)"

definition isExcludedPath :: "string \<Rightarrow> string \<Rightarrow> bool" where
  "isExcludedPath prev cur =
     (if prev = ''ObjectMeta'' \<and> cur = ''.ResourceVersion''
         \<or> prev = ''.ObjectMeta'' \<and> cur = ''.ResourceVersion'' then True
      else if prev = ''Status'' \<and> cur = ''Status'' \<or> prev = ''.Status'' \<and> cur = ''.Status'' then True
      else False)"

definition path_excluded :: "diff_path \<Rightarrow> bool" where
  "path_excluded path = list_ex (\<lambda>i.
     isExcludedPath (if i > 0 then path ! (i - 1) else path ! i) (path ! i)) [0..<length path]"

definition excludePaths :: "diff \<Rightarrow> diff" where
  "excludePaths d = d\<lparr>d_Modified := fold gdel (filter path_excluded (gkeys (d_Modified d))) (d_Modified d)\<rparr>"

text \<open>The branch for two nil installations of the code is never taken: when \<open>old\<close> is nil the previous
  branch reads \<open>new\<close>, and dereferences nil when that is nil as well.\<close>

definition NewActionPlan ::
    "'spec deep_diff \<Rightarrow> 'spec installation option \<Rightarrow> 'spec installation option \<Rightarrow> action_plan go" where
  "NewActionPlan dd old new = (
     let plan = (\<lambda>os ns ol nl ot nt of' nf.
           \<lparr>ap_specDiff = excludePaths (fst (dd_Spec dd os ns)), ap_specEqual = snd (dd_Spec dd os ns),
            ap_labelsDiff = fst (dd_Labels dd ol nl), ap_labelsEqual = snd (dd_Labels dd ol nl),
            ap_deletionTimestampEqual = timestampEqual ot nt,
            ap_finalizersEqual = snd (dd_Finalizers dd of' nf)\<rparr>)
     in case (old, new) of
       (Some a, Some b) \<Rightarrow> Inr (plan (Some (ci_Spec a)) (Some (ci_Spec b))
           (Some (om_Labels (ci_Meta a))) (Some (om_Labels (ci_Meta b)))
           (ci_DeletionTimestamp a) (ci_DeletionTimestamp b)
           (Some (ci_Finalizers a)) (Some (ci_Finalizers b)))
     | (None, Some b) \<Rightarrow> Inr (plan None (Some (ci_Spec b)) None (Some (om_Labels (ci_Meta b)))
           None (ci_DeletionTimestamp b) None (Some (ci_Finalizers b)))
     | (Some a, None) \<Rightarrow> Inr (plan (Some (ci_Spec a)) None (Some (om_Labels (ci_Meta a))) None
           (ci_DeletionTimestamp a) None (Some (ci_Finalizers a)) None)
     | (None, None) \<Rightarrow> Inl NilDereference)"

text \<open>The diffs of a plan are never nil, so the branch for missing diffs is not reached.\<close>

definition HasActionsToDo :: "action_plan \<Rightarrow> bool" where
  "HasActionsToDo ap =
     (if ap_specEqual ap \<and> ap_labelsEqual ap \<and> ap_deletionTimestampEqual ap \<and> ap_finalizersEqual ap
      then False
      else if diff_size (ap_specDiff ap) > 0 then True
      else if diff_size (ap_labelsDiff ap) > 0 then True
      else \<not> ap_deletionTimestampEqual ap \<or> \<not> ap_finalizersEqual ap)"

definition cluster_hosts :: "ChiCluster \<Rightarrow> host_ptr list" where
  "cluster_hosts c = (case cu_Layout c of None \<Rightarrow> [] | Some lay \<Rightarrow> WalkHosts lay)"

text \<open>\<open>WalkRemoved\<close>, \<open>WalkAdded\<close> and \<open>WalkModified\<close>: which of the three callbacks meets which item.\<close>

definition walk_items ::
    "(ChiCluster \<Rightarrow> 's \<Rightarrow> 's) \<Rightarrow> (ChiShard \<Rightarrow> 's \<Rightarrow> 's) \<Rightarrow> (nat option \<Rightarrow> 's \<Rightarrow> 's)
      \<Rightarrow> (diff_path, diff_item) gmap \<Rightarrow> 's \<Rightarrow> 's" where
  "walk_items clusterFunc shardFunc hostFunc items s = fold (\<lambda>(path, item) s. case item of
       DiffCluster c \<Rightarrow> clusterFunc c s
     | DiffShard sh \<Rightarrow> shardFunc sh s
     | DiffHost a \<Rightarrow> hostFunc (Some a) s
     | DiffHostCopy _ \<Rightarrow> hostFunc None s
     | DiffOther \<Rightarrow> s) items s"

definition WalkRemoved where
  "WalkRemoved c sh h ap s = walk_items c sh h (d_Removed (ap_specDiff ap)) s"

definition WalkAdded where
  "WalkAdded c sh h ap s = walk_items c sh h (d_Added (ap_specDiff ap)) s"

definition WalkModified where
  "WalkModified c sh h ap s = walk_items c sh h (d_Modified (ap_specDiff ap)) s"

definition GetRemovedHostsNum :: "action_plan \<Rightarrow> nat" where
  "GetRemovedHostsNum ap = WalkRemoved
     (\<lambda>cluster count. count + length (cluster_hosts cluster))
     (\<lambda>shard count. count + length (sh_Hosts shard))
     (\<lambda>host count. count + 1) ap 0"

subsection \<open>When there is something to do\<close>

definition diff_ok :: "diff \<times> bool \<Rightarrow> bool" where
  "diff_ok r = (snd r \<longleftrightarrow> diff_size (fst r) = 0)"

definition deep_diff_ok :: "'spec deep_diff \<Rightarrow> bool" where
  "deep_diff_ok dd = ((\<forall>a b. diff_ok (dd_Spec dd a b)) \<and> (\<forall>a b. diff_ok (dd_Labels dd a b)))"

lemma fold_gdel_keys: "map_of (fold gdel ks m) = (map_of m) |` (- set ks)"
  by (rule gm.get_fold_del)

lemma fold_gdel_filter: "fold gdel ks m = filter (\<lambda>(k, v). k \<notin> set ks) m"
proof (induction ks arbitrary: m)
  case (Cons k ks)
  have "gdel k m = filter (\<lambda>(k', v). k' \<noteq> k) m"
    by (induction m) (auto simp: AList.delete_eq)
  then show ?case by (simp add: Cons.IH) (rule filter_cong, auto)
qed simp

text \<open>The changes of a spec that count: what was added or removed, and what was modified outside of the
  excluded paths.\<close>

definition relevant_changes :: "diff \<Rightarrow> diff_path list" where
  "relevant_changes d = gkeys (d_Added d) @ gkeys (d_Removed d)
     @ filter (\<lambda>p. \<not> path_excluded p) (gkeys (d_Modified d))"

lemma excludePaths_size: "diff_size (excludePaths d) = length (relevant_changes d)"
proof -
  have "filter (\<lambda>(k, v). k \<notin> set (filter path_excluded (gkeys m))) m = filter (\<lambda>(k, v). \<not> path_excluded k) m"
    for m :: "(diff_path, diff_item) gmap"
    by (rule filter_cong) force+
  then show ?thesis
    by (simp add: diff_size_def excludePaths_def fold_gdel_filter relevant_changes_def filter_map comp_def
        case_prod_beta')
qed

lemma relevant_of_empty: "diff_size d = 0 \<Longrightarrow> relevant_changes d = []"
  by (simp add: diff_size_def relevant_changes_def)

text \<open>
  An update causes work exactly when the spec changed outside of the excluded paths, or the labels,
  the deletion timestamp or the finalizers changed.
\<close>

theorem HasActionsToDo_iff:
  assumes "deep_diff_ok dd" and "NewActionPlan dd (Some a) (Some b) = Inr ap"
  shows "HasActionsToDo ap \<longleftrightarrow>
     relevant_changes (fst (dd_Spec dd (Some (ci_Spec a)) (Some (ci_Spec b)))) \<noteq> []
     \<or> \<not> snd (dd_Labels dd (Some (om_Labels (ci_Meta a))) (Some (om_Labels (ci_Meta b))))
     \<or> ci_DeletionTimestamp a \<noteq> ci_DeletionTimestamp b
     \<or> \<not> snd (dd_Finalizers dd (Some (ci_Finalizers a)) (Some (ci_Finalizers b)))"
proof -
  let ?s = "dd_Spec dd (Some (ci_Spec a)) (Some (ci_Spec b))"
  let ?l = "dd_Labels dd (Some (om_Labels (ci_Meta a))) (Some (om_Labels (ci_Meta b)))"
  have s: "snd ?s \<Longrightarrow> relevant_changes (fst ?s) = []" and l: "snd ?l \<longleftrightarrow> diff_size (fst ?l) = 0"
    using assms(1) relevant_of_empty by (simp_all add: deep_diff_ok_def diff_ok_def)
  have t: "timestampEqual (ci_DeletionTimestamp a) (ci_DeletionTimestamp b)
      \<longleftrightarrow> ci_DeletionTimestamp a = ci_DeletionTimestamp b"
    by (auto simp: timestampEqual_def split: option.split)
  have ap: "ap_specEqual ap = snd ?s" "ap_specDiff ap = excludePaths (fst ?s)"
    "ap_labelsEqual ap = snd ?l" "ap_labelsDiff ap = fst ?l"
    "ap_deletionTimestampEqual ap = (ci_DeletionTimestamp a = ci_DeletionTimestamp b)"
    "ap_finalizersEqual ap = snd (dd_Finalizers dd (Some (ci_Finalizers a)) (Some (ci_Finalizers b)))"
    using assms(2) by (auto simp: NewActionPlan_def Let_def t)
  show ?thesis
    unfolding HasActionsToDo_def ap excludePaths_size using s l by auto
qed

definition empty_diff :: diff where
  "empty_diff = \<lparr>d_Added = [], d_Removed = [], d_Modified = []\<rparr>"

text \<open>A diff of flat specifications, to see the hypotheses at work.\<close>

definition flat_diff :: "nat deep_diff" where
  "flat_diff = \<lparr>
     dd_Spec = (\<lambda>a b. if a = b then (empty_diff, True)
        else (empty_diff\<lparr>d_Modified := [([''.Status'', ''.Status''], DiffOther)]\<rparr>, False)),
     dd_Labels = (\<lambda>a b. if a = b then (empty_diff, True)
        else (empty_diff\<lparr>d_Added := [([], DiffOther)]\<rparr>, False)),
     dd_Finalizers = (\<lambda>a b. if a = b then (empty_diff, True)
        else (empty_diff\<lparr>d_Added := [([], DiffOther)]\<rparr>, False))\<rparr>"

definition flat_installation :: "nat \<Rightarrow> string list \<Rightarrow> nat installation" where
  "flat_installation spec fin = \<lparr>ci_Meta = object_named ''chi'', ci_Spec = spec,
     ci_DeletionTimestamp = None, ci_Finalizers = fin\<rparr>"

lemma flat_diff_ok: "deep_diff_ok flat_diff"
  by (auto simp: deep_diff_ok_def diff_ok_def flat_diff_def diff_size_def empty_diff_def)

theorem HasActionsToDo_witness:
  "\<exists>ap. NewActionPlan flat_diff (Some (flat_installation 1 [])) (Some (flat_installation 2 [''f''])) = Inr ap
     \<and> HasActionsToDo ap"
proof -
  obtain ap where ap: "NewActionPlan flat_diff (Some (flat_installation 1 [])) (Some (flat_installation 2 [''f'']))
      = Inr ap"
    by (simp add: NewActionPlan_def Let_def)
  from HasActionsToDo_iff [OF flat_diff_ok ap] ap show ?thesis
    by (simp add: flat_installation_def flat_diff_def)
qed

section \<open>Commands and queues\<close>

definition reconcileAdd :: string where "reconcileAdd = ''add''"
definition reconcileUpdate :: string where "reconcileUpdate = ''update''"
definition reconcileDelete :: string where "reconcileDelete = ''delete''"

text \<open>Of the templates and of the operator's own configuration the queues only read the metadata.\<close>

datatype 'spec command =
    ReconcileCHI string "'spec installation option" "'spec installation option"
  | ReconcileCHIT string "ObjectMeta option" "ObjectMeta option"
  | ReconcileChopConfig string "ObjectMeta option" "ObjectMeta option"
  | DropDns "ObjectMeta option"

fun Priority :: "'spec command \<Rightarrow> int" where
  "Priority (ReconcileCHI _ _ _) = 10"
| "Priority (ReconcileCHIT _ _ _) = 5"
| "Priority (ReconcileChopConfig _ _ _) = 3"
| "Priority (DropDns _) = 7"

definition handle_of :: "string \<Rightarrow> ObjectMeta option \<Rightarrow> ObjectMeta option \<Rightarrow> string" where
  "handle_of kind old new = (case new of
     Some m \<Rightarrow> kind @ '':'' @ om_Namespace m @ ''/'' @ om_Name m
   | None \<Rightarrow> (case old of
       Some m \<Rightarrow> kind @ '':'' @ om_Namespace m @ ''/'' @ om_Name m
     | None \<Rightarrow> ''''))"

fun Handle :: "'spec command \<Rightarrow> string" where
  "Handle (ReconcileCHI _ old new) = handle_of ''ReconcileCHI'' (map_option ci_Meta old) (map_option ci_Meta new)"
| "Handle (ReconcileCHIT _ old new) = handle_of ''ReconcileCHIT'' old new"
| "Handle (ReconcileChopConfig _ old new) = handle_of ''ReconcileChopConfig'' old new"
| "Handle (DropDns initiator) = handle_of ''DropDNS'' None initiator"

definition DefaultReconcileSystemThreadsNumber :: int where
  "DefaultReconcileSystemThreadsNumber = 1"

definition initQueues :: "int \<Rightarrow> 'q \<Rightarrow> 'q list" where
  "initQueues reconcileThreadsNumber newQueue =
     replicate (nat (reconcileThreadsNumber + DefaultReconcileSystemThreadsNumber)) newQueue"

text \<open>
  \<open>enqueueObject\<close>. The queue is the package altinity/queue; \<open>insert\<close> is its \<open>Insert\<close>. An installation
  that is enqueued is copied through JSON; the model holds what survives the copy, so the copy is the
  installation itself.
\<close>

definition queue_index :: "nat \<Rightarrow> 'spec command \<Rightarrow> int go" where
  "queue_index queues obj = (case obj of
     ReconcileCHI _ _ _ \<Rightarrow>
       go_bind (HashIntoIntTopped (Handle obj) (int queues - DefaultReconcileSystemThreadsNumber))
         (\<lambda>i. Inr (DefaultReconcileSystemThreadsNumber + i))
   | _ \<Rightarrow> HashIntoIntTopped (Handle obj) DefaultReconcileSystemThreadsNumber)"

definition wants_enqueue :: "'spec deep_diff \<Rightarrow> 'spec command \<Rightarrow> bool go" where
  "wants_enqueue dd obj = (case obj of
     ReconcileCHI cmd old new \<Rightarrow>
       if cmd = reconcileUpdate then go_bind (NewActionPlan dd old new) (\<lambda>ap. Inr (HasActionsToDo ap))
       else Inr True
   | _ \<Rightarrow> Inr True)"

definition enqueueObject ::
    "'spec deep_diff \<Rightarrow> ('spec command \<Rightarrow> 'q \<Rightarrow> 'q) \<Rightarrow> 'spec command \<Rightarrow> 'q list \<Rightarrow> 'q list go" where
  "enqueueObject dd insertItem obj queues =
     go_bind (queue_index (length queues) obj) (\<lambda>index.
     go_bind (wants_enqueue dd obj) (\<lambda>enqueue.
       if enqueue then go_bind (go_nth queues index) (\<lambda>q. go_update queues index (insertItem obj q))
       else Inr queues))"

definition for_installation :: "'spec command \<Rightarrow> bool" where
  "for_installation obj = (case obj of ReconcileCHI _ _ _ \<Rightarrow> True | _ \<Rightarrow> False)"

lemma queue_index_range:
  assumes "int n > DefaultReconcileSystemThreadsNumber"
  shows "\<exists>i. queue_index n obj = Inr i \<and>
    (if for_installation obj then DefaultReconcileSystemThreadsNumber \<le> i \<and> i < int n
     else 0 \<le> i \<and> i < DefaultReconcileSystemThreadsNumber)"
  using assms HashIntoIntTopped_range [of "int n - DefaultReconcileSystemThreadsNumber" "Handle obj"]
    HashIntoIntTopped_range [of DefaultReconcileSystemThreadsNumber "Handle obj"]
  by (cases obj) (auto simp: queue_index_def for_installation_def DefaultReconcileSystemThreadsNumber_def)

lemma queue_index_handle:
  "Handle a = Handle b \<Longrightarrow> for_installation a = for_installation b \<Longrightarrow> queue_index n a = queue_index n b"
  by (cases a; cases b) (simp_all add: queue_index_def for_installation_def)

text \<open>
  The work queues. With at least one queue for installations, every command goes to a queue that
  exists; commands for installations go to the queues after the system queues and all others to the
  system queues, so neither kind waits for the other; commands for the same object go to the same
  queue and so are worked on one after the other.
\<close>

theorem queues_separate:
  assumes "1 \<le> threads" and "queues = initQueues threads newQueue"
  shows "\<exists>i. queue_index (length queues) obj = Inr i
    \<and> (if for_installation obj then DefaultReconcileSystemThreadsNumber \<le> i \<and> i < int (length queues)
       else 0 \<le> i \<and> i < DefaultReconcileSystemThreadsNumber)
    \<and> (\<forall>obj'. Handle obj' = Handle obj \<longrightarrow> for_installation obj' = for_installation obj
          \<longrightarrow> queue_index (length queues) obj' = Inr i)"
proof -
  have "int (length queues) > DefaultReconcileSystemThreadsNumber"
    using assms by (simp add: initQueues_def DefaultReconcileSystemThreadsNumber_def)
  from queue_index_range [OF this, of obj] queue_index_handle [of _ obj "length queues"]
  show ?thesis by (metis)
qed

theorem queues_separate_witness:
  "\<exists>i. queue_index (length (initQueues 10 ())) (DropDns (Some (object_named ''chi'')) :: nat command) = Inr i
     \<and> 0 \<le> i \<and> i < DefaultReconcileSystemThreadsNumber"
  using queues_separate [of 10 "initQueues 10 ()" "()" "DropDns (Some (object_named ''chi'')) :: nat command"]
  by (auto simp: for_installation_def)

text \<open>
  An update of an installation without an actual change is dropped before any queue, and a change is
  handed to exactly one queue.
\<close>

theorem update_enqueued_iff:
  assumes "1 \<le> threads" and "length queues = length (initQueues threads q0)"
    and "NewActionPlan dd (Some a) (Some b) = Inr ap"
  shows "\<exists>i<length queues. enqueueObject dd ins (ReconcileCHI reconcileUpdate (Some a) (Some b)) queues
     = Inr (if HasActionsToDo ap
            then queues[i := ins (ReconcileCHI reconcileUpdate (Some a) (Some b)) (queues ! i)] else queues)"
proof -
  let ?obj = "ReconcileCHI reconcileUpdate (Some a) (Some b)"
  have "int (length queues) > DefaultReconcileSystemThreadsNumber"
    using assms(1,2) by (simp add: initQueues_def DefaultReconcileSystemThreadsNumber_def)
  from queue_index_range [OF this, of ?obj] obtain i where
    i: "queue_index (length queues) ?obj = Inr i" "0 \<le> i" "i < int (length queues)"
    by (auto simp: for_installation_def DefaultReconcileSystemThreadsNumber_def)
  have "enqueueObject dd ins ?obj queues = Inr (if HasActionsToDo ap
            then queues[nat i := ins ?obj (queues ! nat i)] else queues)"
    using i by (simp add: enqueueObject_def wants_enqueue_def assms(3) go_nth_def go_update_def)
  moreover have "nat i < length queues" using i by simp
  ultimately show ?thesis by blast
qed

section \<open>Marking the hosts\<close>

definition mark_hosts ::
    "(ChiHostReconcileAttributes \<Rightarrow> ChiHostReconcileAttributes) \<Rightarrow> host_ptr list \<Rightarrow> host_store \<Rightarrow> host_store" where
  "mark_hosts f ps store = fold (\<lambda>p store. case p of
       None \<Rightarrow> store
     | Some a \<Rightarrow> store_put a (map_option (\<lambda>h. h\<lparr>h_ReconcileAttributes := f (h_ReconcileAttributes h)\<rparr>)
                   (store_get store (Some a))) store) ps store"

text \<open>\<open>walkHosts\<close>: mark what was added, what was modified, and the rest of the hosts of the
  installation; \<open>hosts\<close> are the hosts \<open>chi.WalkHosts\<close> visits, none of them nil.\<close>

definition walkHosts :: "host_ptr list \<Rightarrow> action_plan \<Rightarrow> host_store \<Rightarrow> host_store" where
  "walkHosts hosts ap store = (
     let store = WalkAdded
           (\<lambda>cluster. mark_hosts SetAdd (cluster_hosts cluster))
           (\<lambda>shard. mark_hosts SetAdd (sh_Hosts shard))
           (\<lambda>host. mark_hosts SetAdd [host]) ap store;
         store = WalkModified (\<lambda>_ s. s) (\<lambda>_ s. s) (\<lambda>host. mark_hosts SetModify [host]) ap store
     in mark_hosts (\<lambda>a. if ra_add a then a else if ra_modify a then a else SetUnclear a) hosts store)"

definition attrs :: "host_store \<Rightarrow> nat \<Rightarrow> ChiHostReconcileAttributes" where
  "attrs store a = h_ReconcileAttributes (store ! a)"

lemma mark_one:
  "a < length store \<Longrightarrow> attrs (store_put b (map_option (\<lambda>h. h\<lparr>h_ReconcileAttributes := f (h_ReconcileAttributes h)\<rparr>)
        (store_get store (Some b))) store) a
     = (if a = b then f (attrs store a) else attrs store a)"
  by (simp add: attrs_def store_put_def store_get_def)

lemma mark_length [simp]: "length (mark_hosts f ps store) = length store"
  unfolding mark_hosts_def
  by (induction ps arbitrary: store) (auto simp: store_put_def split: option.split)

lemma mark_hosts_attrs:
  assumes "a < length store" and "\<And>x. f (f x) = f x"
  shows "attrs (mark_hosts f ps store) a = (if Some a \<in> set ps then f (attrs store a) else attrs store a)"
  using assms(1)
proof (induction ps arbitrary: store)
  case (Cons p ps)
  let ?s = "case p of None \<Rightarrow> store | Some b \<Rightarrow> store_put b
     (map_option (\<lambda>h. h\<lparr>h_ReconcileAttributes := f (h_ReconcileAttributes h)\<rparr>) (store_get store (Some b))) store"
  have step: "mark_hosts f (p # ps) store = mark_hosts f ps ?s" by (simp add: mark_hosts_def)
  have len: "a < length ?s"
    using Cons.prems by (auto simp: store_put_def store_get_def split: option.split)
  have "attrs ?s a = (if p = Some a then f (attrs store a) else attrs store a)"
    using mark_one [OF Cons.prems] by (auto split: option.split)
  then show ?case unfolding step Cons.IH [OF len] by (auto simp: assms(2))
qed (simp add: mark_hosts_def)

fun item_ptrs :: "diff_item \<Rightarrow> host_ptr list" where
  "item_ptrs (DiffCluster c) = cluster_hosts c"
| "item_ptrs (DiffShard sh) = sh_Hosts sh"
| "item_ptrs (DiffHost a) = [Some a]"
| "item_ptrs (DiffHostCopy _) = []"
| "item_ptrs DiffOther = []"

definition added_ptrs :: "action_plan \<Rightarrow> host_ptr list" where
  "added_ptrs ap = concat (map (item_ptrs \<circ> snd) (d_Added (ap_specDiff ap)))"

definition modified_ptrs :: "action_plan \<Rightarrow> host_ptr list" where
  "modified_ptrs ap = concat (map ((\<lambda>i. case i of DiffHost a \<Rightarrow> [Some a] | _ \<Rightarrow> []) \<circ> snd)
     (d_Modified (ap_specDiff ap)))"

lemma mark_hosts_append: "mark_hosts f (ps @ qs) s = mark_hosts f qs (mark_hosts f ps s)"
  by (simp add: mark_hosts_def)

lemma mark_hosts_simps [simp]: "mark_hosts f [] s = s" "mark_hosts f [None] s = s"
  by (simp_all add: mark_hosts_def)

lemma walk_added_mark:
  "WalkAdded (\<lambda>cluster. mark_hosts SetAdd (cluster_hosts cluster)) (\<lambda>shard. mark_hosts SetAdd (sh_Hosts shard))
     (\<lambda>host. mark_hosts SetAdd [host]) ap s = mark_hosts SetAdd (added_ptrs ap) s"
proof -
  have "walk_items (\<lambda>cluster. mark_hosts SetAdd (cluster_hosts cluster)) (\<lambda>shard. mark_hosts SetAdd (sh_Hosts shard))
     (\<lambda>host. mark_hosts SetAdd [host]) items s = mark_hosts SetAdd (concat (map (item_ptrs \<circ> snd) items)) s" for items
    by (induction items arbitrary: s)
      (auto simp: walk_items_def mark_hosts_append split: diff_item.split)
  then show ?thesis by (simp add: WalkAdded_def added_ptrs_def)
qed

lemma walk_modified_mark:
  "WalkModified (\<lambda>_ s. s) (\<lambda>_ s. s) (\<lambda>host. mark_hosts SetModify [host]) ap s
     = mark_hosts SetModify (modified_ptrs ap) s"
proof -
  have "walk_items (\<lambda>_ s. s) (\<lambda>_ s. s) (\<lambda>host. mark_hosts SetModify [host]) items s
      = mark_hosts SetModify (concat (map ((\<lambda>i. case i of DiffHost a \<Rightarrow> [Some a] | _ \<Rightarrow> []) \<circ> snd) items)) s" for items
    by (induction items arbitrary: s)
      (auto simp: walk_items_def mark_hosts_append split: diff_item.split)
  then show ?thesis by (simp add: WalkModified_def modified_ptrs_def)
qed

text \<open>
 The marks of the hosts after the plan was walked: a host of the installation carries the mark
  \<open>add\<close> when the plan adds it (alone, with its shard or with its cluster), \<open>modify\<close> when the plan
  modifies it, and \<open>unclear\<close> exactly when it carries neither; no host is left without a mark.
\<close>

theorem walkHosts_marks:
  assumes "a < length store" and "Some a \<in> set hosts"
    and "h_ReconcileAttributes (store ! a) = NewChiHostReconcileAttributes"
  shows "let r = h_ReconcileAttributes (walkHosts hosts ap store ! a) in
      (ra_add r \<longleftrightarrow> Some a \<in> set (added_ptrs ap))
    \<and> (ra_modify r \<longleftrightarrow> Some a \<in> set (modified_ptrs ap))
    \<and> (ra_unclear r \<longleftrightarrow> \<not> ra_add r \<and> \<not> ra_modify r)
    \<and> \<not> ra_remove r
    \<and> ra_Any (Some r) (SetAdd (SetModify (SetUnclear NewChiHostReconcileAttributes)))"
proof -
  let ?f = "\<lambda>a. if ra_add a then a else if ra_modify a then a else SetUnclear a"
  have idem: "SetAdd (SetAdd x) = SetAdd x" "SetModify (SetModify x) = SetModify x" "?f (?f x) = ?f x" for x
    by (simp_all add: ra_defs)
  have w: "walkHosts hosts ap store
      = mark_hosts ?f hosts (mark_hosts SetModify (modified_ptrs ap) (mark_hosts SetAdd (added_ptrs ap) store))"
    unfolding walkHosts_def Let_def walk_added_mark walk_modified_mark ..
  have a0: "attrs store a = NewChiHostReconcileAttributes" using assms(3) by (simp add: attrs_def)
  have "attrs (walkHosts hosts ap store) a = ?f (if Some a \<in> set (modified_ptrs ap)
      then SetModify (if Some a \<in> set (added_ptrs ap) then SetAdd NewChiHostReconcileAttributes
                      else NewChiHostReconcileAttributes)
      else (if Some a \<in> set (added_ptrs ap) then SetAdd NewChiHostReconcileAttributes
            else NewChiHostReconcileAttributes))"
    unfolding w
    using assms(1,2) by (simp add: mark_hosts_attrs [where f = ?f, OF _ idem(3)]
        mark_hosts_attrs [where f = SetModify, OF _ idem(2)]
        mark_hosts_attrs [where f = SetAdd, OF _ idem(1)] a0)
  then have r: "h_ReconcileAttributes (walkHosts hosts ap store ! a) = \<dots>" unfolding attrs_def .
  show ?thesis
    unfolding Let_def r by (simp add: ra_defs NewChiHostReconcileAttributes_def ra_Any_def)
qed

definition plan_adding :: "nat \<Rightarrow> action_plan" where
  "plan_adding a = \<lparr>ap_specDiff = empty_diff\<lparr>d_Added := [([''Hosts''], DiffHost a)]\<rparr>, ap_specEqual = False,
     ap_labelsDiff = empty_diff, ap_labelsEqual = True, ap_deletionTimestampEqual = True,
     ap_finalizersEqual = True\<rparr>"

theorem walkHosts_marks_witness:
  "let s = walkHosts [Some 0, Some 1] (plan_adding 1) [newChiHost, newChiHost] in
     ra_unclear (h_ReconcileAttributes (s ! 0)) \<and> ra_add (h_ReconcileAttributes (s ! 1))"
  using walkHosts_marks [of 0 "[newChiHost, newChiHost]" "[Some 0, Some 1]" "plan_adding 1"]
    walkHosts_marks [of 1 "[newChiHost, newChiHost]" "[Some 0, Some 1]" "plan_adding 1"]
  by (simp add: Let_def newChiHost_def plan_adding_def empty_diff_def added_ptrs_def modified_ptrs_def)

theorem update_enqueued_iff_witness:
  "\<exists>queues. enqueueObject flat_diff (#)
       (ReconcileCHI reconcileUpdate (Some (flat_installation 1 [])) (Some (flat_installation 1 [])))
       (initQueues 1 []) = Inr queues \<and> queues = initQueues 1 []"
proof -
  let ?c = "flat_installation 1 []"
  let ?ap = "projr (NewActionPlan flat_diff (Some ?c) (Some ?c))"
  have ap: "NewActionPlan flat_diff (Some ?c) (Some ?c) = Inr ?ap" and no: "\<not> HasActionsToDo ?ap"
    by (simp_all add: NewActionPlan_def Let_def flat_diff_def flat_installation_def HasActionsToDo_def
        timestampEqual_def)
  have "length (initQueues 1 ([] :: nat command list)) = length (initQueues 1 ())" "(1::int) \<le> 1"
    by (simp_all add: initQueues_def)
  from update_enqueued_iff [OF this(2) this(1) ap, where ins = "(#)"] no show ?thesis by auto
qed

text \<open>
 The number of hosts to be removed, which the status shows while reconciling: the hosts of all
  clusters and shards that were removed, and the hosts that were removed alone.
\<close>

theorem GetRemovedHostsNum_sum:
  "GetRemovedHostsNum ap = (\<Sum>item\<leftarrow>map snd (d_Removed (ap_specDiff ap)). case item of
     DiffCluster c \<Rightarrow> length (cluster_hosts c)
   | DiffShard sh \<Rightarrow> length (sh_Hosts sh)
   | DiffHost _ \<Rightarrow> 1 | DiffHostCopy _ \<Rightarrow> 1 | DiffOther \<Rightarrow> 0)"
proof -
  have "walk_items (\<lambda>c n. n + length (cluster_hosts c)) (\<lambda>sh n. n + length (sh_Hosts sh)) (\<lambda>_ n. n + 1) items k
     = k + (\<Sum>item\<leftarrow>map snd items. case item of DiffCluster c \<Rightarrow> length (cluster_hosts c)
        | DiffShard sh \<Rightarrow> length (sh_Hosts sh) | DiffHost _ \<Rightarrow> 1 | DiffHostCopy _ \<Rightarrow> 1 | DiffOther \<Rightarrow> 0)" for items and k :: nat
    by (induction items arbitrary: k) (auto simp: walk_items_def split: diff_item.split)
  from this [of "d_Removed (ap_specDiff ap)" 0] show ?thesis
    unfolding GetRemovedHostsNum_def WalkRemoved_def by (simp only: add_0)
qed

end
