(* ===== verification/ChiTemplates.thy ===== *)
theory ChiTemplates
  imports Planning
begin

text \<open>
  The section \<open>.spec.templates\<close>: \<open>type_templates.go\<close> (templates, their merge by name and their indexes)
  and the functions of \<open>pkg/model/normalizer.go\<close> that normalize them (\<open>normalizeTemplates\<close> and below).

  Of the Kubernetes types the records hold the fields the code reads or writes; what the code only
  passes along (the environment and resources of a container, the access modes of a claim) is left out. The package mergo,
  which overlays one template with another of the same name, is a parameter.
\<close>

section \<open>Kubernetes affinity\<close>

record NodeSelectorRequirement =
  nsr_Key :: string
  nsr_Operator :: string
  nsr_Values :: "string list"

record NodeSelectorTerm =
  nst_MatchExpressions :: "NodeSelectorRequirement list"
  nst_MatchFields :: "NodeSelectorRequirement list"

record PreferredSchedulingTerm =
  pst_Weight :: int
  pst_Preference :: NodeSelectorTerm

record NodeAffinity =
  na_Required :: "NodeSelectorTerm list option"
  na_Preferred :: "PreferredSchedulingTerm list"

record LabelSelectorRequirement =
  lsr_Key :: string
  lsr_Operator :: string
  lsr_Values :: "string list"

record LabelSelector =
  lse_MatchLabels :: strmap
  lse_MatchExpressions :: "LabelSelectorRequirement list"

record PodAffinityTerm =
  pat_LabelSelector :: "LabelSelector option"
  pat_Namespaces :: "string list"
  pat_TopologyKey :: string

record WeightedPodAffinityTerm =
  wpt_Weight :: int
  wpt_PodAffinityTerm :: PodAffinityTerm

text \<open>\<open>PodAffinity\<close> and \<open>PodAntiAffinity\<close> have the same two fields.\<close>

record PodAffinity =
  pa_Required :: "PodAffinityTerm list"
  pa_Preferred :: "WeightedPodAffinityTerm list"

record Affinity =
  af_NodeAffinity :: "NodeAffinity option"
  af_PodAffinity :: "PodAffinity option"
  af_PodAntiAffinity :: "PodAffinity option"

section \<open>Kubernetes pods\<close>

datatype IntOrString = FromInt int | FromString string

text \<open>A probe asks by HTTP or runs a command; a probe of the user may do neither.\<close>

record Probe =
  pr_HTTPGet :: "(string \<times> IntOrString) option"
  pr_Exec :: "string list option"
  pr_InitialDelaySeconds :: int
  pr_TimeoutSeconds :: int
  pr_PeriodSeconds :: int
  pr_FailureThreshold :: int

record ContainerPort =
  cp_Name :: string
  cp_HostPort :: "32 word"
  cp_ContainerPort :: "32 word"

record VolumeMount =
  vm_Name :: string
  vm_MountPath :: string

record Container =
  co_Name :: string
  co_Image :: string
  co_ImagePullPolicy :: string
  co_Command :: "string list"
  co_Args :: "string list"
  co_Ports :: "ContainerPort list"
  co_VolumeMounts :: "VolumeMount list"
  co_LivenessProbe :: "Probe option"
  co_ReadinessProbe :: "Probe option"

text \<open>A volume made of a ConfigMap has the name of the map and a file mode; of any other only the name is kept.\<close>

record Volume =
  vo_Name :: string
  vo_ConfigMap :: "(string \<times> int) option"

record PodSpec =
  ps_Affinity :: "Affinity option"
  ps_HostNetwork :: bool
  ps_DNSPolicy :: string
  ps_Containers :: "Container list"
  ps_Volumes :: "Volume list"
  ps_HostAliases :: "(string \<times> string list) list"
  ps_TerminationGracePeriodSeconds :: "int option"
  ps_RunAsUser :: "int option"
  ps_FSGroup :: "int option"

definition newPodSpec :: PodSpec where
  "newPodSpec = \<lparr>ps_Affinity = None, ps_HostNetwork = False, ps_DNSPolicy = [], ps_Containers = [], ps_Volumes = [],
     ps_HostAliases = [], ps_TerminationGracePeriodSeconds = None, ps_RunAsUser = None, ps_FSGroup = None\<rparr>"

section \<open>Kubernetes services\<close>

record ServicePort =
  svp_Name :: string
  svp_Protocol :: string
  svp_Port :: "32 word"
  svp_TargetPort :: IntOrString

record ServiceSpec =
  svs_Ports :: "ServicePort list"
  svs_Selector :: strmap
  svs_ClusterIP :: string
  svs_Type :: string
  svs_PublishNotReadyAddresses :: bool

section \<open>Templates\<close>

record ChiPodDistribution =
  pd_Type :: string
  pd_Scope :: string
  pd_Number :: int
  pd_TopologyKey :: string

record ChiPodTemplate =
  pt_Name :: string
  pt_GenerateName :: string
  pt_ZoneKey :: string
  pt_ZoneValues :: "string list"
  pt_PodDistribution :: "ChiPodDistribution list"
  pt_ObjectMeta :: ObjectMeta
  pt_Spec :: PodSpec

text \<open>Of the specification of a claim only the requested resources are looked into; a quantity is the amount it
  denotes.\<close>

record ChiVolumeClaimTemplate =
  vt_Name :: string
  vt_PVCReclaimPolicy :: string
  vt_ObjectMeta :: ObjectMeta
  vt_Requests :: "(string, int) gmap"

record ChiServiceTemplate =
  st_Name :: string
  st_GenerateName :: string
  st_ObjectMeta :: ObjectMeta
  st_Spec :: ServiceSpec

text \<open>An index maps a name to a template of the same section: a pointer to an element of the slice, here
  its position. A nil index is \<open>None\<close>. Before they are normalized, host templates tell a nil list of
  port distributions from an empty one, so the list is an option next to the template.\<close>

type_synonym templates_index = "(string, nat) gmap option"

record ChiTemplates =
  tps_HostTemplates :: "(string list option \<times> ChiHostTemplate) list"
  tps_PodTemplates :: "ChiPodTemplate list"
  tps_VolumeClaimTemplates :: "ChiVolumeClaimTemplate list"
  tps_ServiceTemplates :: "ChiServiceTemplate list"
  tps_HostTemplatesIndex :: templates_index
  tps_PodTemplatesIndex :: templates_index
  tps_VolumeClaimTemplatesIndex :: templates_index
  tps_ServiceTemplatesIndex :: templates_index

definition NewChiTemplates :: ChiTemplates where
  "NewChiTemplates = \<lparr>tps_HostTemplates = [], tps_PodTemplates = [], tps_VolumeClaimTemplates = [],
     tps_ServiceTemplates = [], tps_HostTemplatesIndex = None, tps_PodTemplatesIndex = None,
     tps_VolumeClaimTemplatesIndex = None, tps_ServiceTemplatesIndex = None\<rparr>"

definition ChiTemplates_Len :: "ChiTemplates option \<Rightarrow> nat" where
  "ChiTemplates_Len templates = (case templates of None \<Rightarrow> 0 | Some t \<Rightarrow>
     length (tps_HostTemplates t) + length (tps_PodTemplates t)
     + length (tps_VolumeClaimTemplates t) + length (tps_ServiceTemplates t))"

section \<open>Merging by name\<close>

text \<open>The body of the loops of the four merge functions: the first template of the receiver with the same
  name is overlaid, a template with a new name is appended.\<close>

fun overlay_first :: "('a \<Rightarrow> string) \<Rightarrow> ('a \<Rightarrow> 'a \<Rightarrow> 'a) \<Rightarrow> 'a \<Rightarrow> 'a list \<Rightarrow> 'a list option" where
  "overlay_first nm mergo fromT [] = None"
| "overlay_first nm mergo fromT (toT # ts) =
     (if nm toT = nm fromT then Some (mergo toT fromT # ts)
      else map_option ((#) toT) (overlay_first nm mergo fromT ts))"

definition merge_template :: "('a \<Rightarrow> string) \<Rightarrow> ('a \<Rightarrow> 'a \<Rightarrow> 'a) \<Rightarrow> 'a \<Rightarrow> 'a list \<Rightarrow> 'a list" where
  "merge_template nm mergo fromT ts =
     (case overlay_first nm mergo fromT ts of Some ts' \<Rightarrow> ts' | None \<Rightarrow> ts @ [fromT])"

definition merge_by_name :: "('a \<Rightarrow> string) \<Rightarrow> ('a \<Rightarrow> 'a \<Rightarrow> 'a) \<Rightarrow> 'a list \<Rightarrow> 'a list \<Rightarrow> 'a list" where
  "merge_by_name nm mergo ts from = fold (merge_template nm mergo) from ts"

record mergo =
  mergo_Host :: "(string list option \<times> ChiHostTemplate) \<Rightarrow> (string list option \<times> ChiHostTemplate)
     \<Rightarrow> (string list option \<times> ChiHostTemplate)"
  mergo_Pod :: "ChiPodTemplate \<Rightarrow> ChiPodTemplate \<Rightarrow> ChiPodTemplate"
  mergo_VolumeClaim :: "ChiVolumeClaimTemplate \<Rightarrow> ChiVolumeClaimTemplate \<Rightarrow> ChiVolumeClaimTemplate"
  mergo_Service :: "ChiServiceTemplate \<Rightarrow> ChiServiceTemplate \<Rightarrow> ChiServiceTemplate"

definition mergeHostTemplates :: "mergo \<Rightarrow> ChiTemplates \<Rightarrow> ChiTemplates \<Rightarrow> ChiTemplates" where
  "mergeHostTemplates mg from t = (if length (tps_HostTemplates from) = 0 then t
     else t\<lparr>tps_HostTemplates :=
       merge_by_name (ht_Name \<circ> snd) (mergo_Host mg) (tps_HostTemplates t) (tps_HostTemplates from)\<rparr>)"

definition mergePodTemplates :: "mergo \<Rightarrow> ChiTemplates \<Rightarrow> ChiTemplates \<Rightarrow> ChiTemplates" where
  "mergePodTemplates mg from t = (if length (tps_PodTemplates from) = 0 then t
     else t\<lparr>tps_PodTemplates :=
       merge_by_name pt_Name (mergo_Pod mg) (tps_PodTemplates t) (tps_PodTemplates from)\<rparr>)"

definition mergeVolumeClaimTemplates :: "mergo \<Rightarrow> ChiTemplates \<Rightarrow> ChiTemplates \<Rightarrow> ChiTemplates" where
  "mergeVolumeClaimTemplates mg from t = (if length (tps_VolumeClaimTemplates from) = 0 then t
     else t\<lparr>tps_VolumeClaimTemplates := merge_by_name vt_Name (mergo_VolumeClaim mg)
       (tps_VolumeClaimTemplates t) (tps_VolumeClaimTemplates from)\<rparr>)"

definition mergeServiceTemplates :: "mergo \<Rightarrow> ChiTemplates \<Rightarrow> ChiTemplates \<Rightarrow> ChiTemplates" where
  "mergeServiceTemplates mg from t = (if length (tps_ServiceTemplates from) = 0 then t
     else t\<lparr>tps_ServiceTemplates :=
       merge_by_name st_Name (mergo_Service mg) (tps_ServiceTemplates t) (tps_ServiceTemplates from)\<rparr>)"

definition ChiTemplates_MergeFrom ::
    "mergo \<Rightarrow> ChiTemplates option \<Rightarrow> ChiTemplates option \<Rightarrow> ChiTemplates option" where
  "ChiTemplates_MergeFrom mg templates from = (case from of
     None \<Rightarrow> templates
   | Some from \<Rightarrow>
       if ChiTemplates_Len (Some from) = 0 then templates
       else Some ((mergeServiceTemplates mg from \<circ> mergeVolumeClaimTemplates mg from
         \<circ> mergePodTemplates mg from \<circ> mergeHostTemplates mg from)
         (case templates of None \<Rightarrow> NewChiTemplates | Some t \<Rightarrow> t)))"

section \<open>Indexes\<close>

definition Index_Has :: "templates_index \<Rightarrow> string \<Rightarrow> bool" where
  "Index_Has i name = (case i of None \<Rightarrow> False | Some v \<Rightarrow> ghas v name)"

definition Index_Get :: "templates_index \<Rightarrow> string \<Rightarrow> nat option" where
  "Index_Get i name = (if \<not> Index_Has i name then None else case i of None \<Rightarrow> None | Some v \<Rightarrow> gget v name)"

definition Index_Set :: "string \<Rightarrow> nat \<Rightarrow> templates_index \<Rightarrow> templates_index" where
  "Index_Set name entry i = (case i of None \<Rightarrow> None | Some v \<Rightarrow> Some (gput name entry v))"

text \<open>\<open>Ensure\<dots>Index\<close> followed by \<open>Set\<close>, for every template of a section in turn.\<close>

definition ensure_index :: "templates_index \<Rightarrow> templates_index" where
  "ensure_index i = (case i of None \<Rightarrow> Some [] | Some v \<Rightarrow> Some v)"

definition index_templates :: "string list \<Rightarrow> templates_index \<Rightarrow> templates_index" where
  "index_templates names i =
     fold (\<lambda>(k, name) i. Index_Set name k (ensure_index i)) (enumerate 0 names) i"


subsection \<open>The template of a name\<close>

text \<open>The reference: the template of a name is the first one of the receiver, overlaid in order by those of
  the argument.\<close>

definition named :: "('a \<Rightarrow> string) \<Rightarrow> string \<Rightarrow> 'a list \<Rightarrow> 'a option" where
  "named nm n ts = find (\<lambda>t. nm t = n) ts"

definition layered_template ::
    "('a \<Rightarrow> string) \<Rightarrow> ('a \<Rightarrow> 'a \<Rightarrow> 'a) \<Rightarrow> string \<Rightarrow> 'a list \<Rightarrow> 'a list \<Rightarrow> 'a option" where
  "layered_template nm mergo n ts from =
     fold (\<lambda>f acc. Some (case acc of None \<Rightarrow> f | Some t \<Rightarrow> mergo t f))
       (filter (\<lambda>f. nm f = n) from) (named nm n ts)"

text \<open>What the merge relies on of mergo: overlaying a template with one of the same name keeps the name.\<close>

definition keeps_name :: "('a \<Rightarrow> string) \<Rightarrow> ('a \<Rightarrow> 'a \<Rightarrow> 'a) \<Rightarrow> bool" where
  "keeps_name nm mergo = (\<forall>a b. nm a = nm b \<longrightarrow> nm (mergo a b) = nm a)"

lemma keeps_nameD: "keeps_name nm mergo \<Longrightarrow> nm a = nm b \<Longrightarrow> nm (mergo a b) = nm b"
  by (simp add: keeps_name_def)

lemma overlay_first_None: "overlay_first nm mergo f ts = None \<longleftrightarrow> nm f \<notin> nm ` set ts"
  by (induction ts) auto

lemma named_simps [simp]:
  "named nm n [] = None" "named nm n (t # ts) = (if nm t = n then Some t else named nm n ts)"
  by (simp_all add: named_def)

lemma overlay_first_Some:
  assumes "keeps_name nm mergo" and "overlay_first nm mergo f ts = Some ts'"
  shows "map nm ts' = map nm ts
    \<and> named nm n ts' = (if nm f = n then map_option (\<lambda>t. mergo t f) (named nm n ts) else named nm n ts)"
  using assms(2)
proof (induction ts arbitrary: ts')
  case (Cons t ts)
  show ?case
  proof (cases "nm t = nm f")
    case True
    with keeps_nameD [OF assms(1) True] Cons.prems show ?thesis by auto
  next
    case False
    with Cons.prems obtain us where "overlay_first nm mergo f ts = Some us" "ts' = t # us" by auto
    with Cons.IH [of us] False show ?thesis by auto
  qed
qed simp

lemma named_None: "named nm n ts = None \<longleftrightarrow> n \<notin> nm ` set ts"
  by (auto simp: named_def find_None_iff)

lemma named_append: "named nm n (ts @ us) = (case named nm n ts of None \<Rightarrow> named nm n us | Some t \<Rightarrow> Some t)"
  by (induction ts) (auto simp: named_def)

lemma merge_template_named:
  assumes "keeps_name nm mergo"
  shows "named nm n (merge_template nm mergo f ts) =
    (if nm f = n then Some (case named nm n ts of None \<Rightarrow> f | Some t \<Rightarrow> mergo t f) else named nm n ts)"
proof (cases "overlay_first nm mergo f ts")
  case None
  then have "nm f \<notin> nm ` set ts" by (simp add: overlay_first_None)
  then have "named nm (nm f) ts = None" by (simp add: named_None)
  with None show ?thesis
    by (auto simp: merge_template_def named_append split: option.split)
next
  case (Some ts')
  then have "overlay_first nm mergo f ts \<noteq> None" by simp
  then have "named nm (nm f) ts \<noteq> None" by (simp add: overlay_first_None named_None)
  with Some overlay_first_Some [OF assms Some, of n] show ?thesis
    by (auto simp: merge_template_def)
qed

lemma merge_by_name_named:
  assumes "keeps_name nm mergo"
  shows "named nm n (merge_by_name nm mergo ts from) = layered_template nm mergo n ts from"
  unfolding merge_by_name_def layered_template_def
proof (induction "from" arbitrary: ts)
  case (Cons f "from")
  let ?step = "\<lambda>f acc. Some (case acc of None \<Rightarrow> f | Some t \<Rightarrow> mergo t f)"
  have "named nm n (merge_template nm mergo f ts) = (if nm f = n then ?step f (named nm n ts) else named nm n ts)"
    by (simp add: merge_template_named [OF assms])
  then show ?case unfolding fold_Cons comp_def Cons.IH by simp
qed simp

lemma merge_template_names:
  assumes "keeps_name nm mergo"
  shows "map nm (merge_template nm mergo f ts) = (if nm f \<in> nm ` set ts then map nm ts else map nm ts @ [nm f])"
proof (cases "overlay_first nm mergo f ts")
  case (Some ts')
  then have "overlay_first nm mergo f ts \<noteq> None" by simp
  then have "nm f \<in> nm ` set ts" by (simp add: overlay_first_None)
  then show ?thesis using Some overlay_first_Some [OF assms Some] by (simp add: merge_template_def)
next
  case None
  then show ?thesis using overlay_first_None [of nm mergo f ts] by (simp add: merge_template_def)
qed

lemma merge_by_name_distinct:
  assumes "keeps_name nm mergo" and "distinct (map nm ts)"
  shows "distinct (map nm (merge_by_name nm mergo ts from))"
  using assms(2) unfolding merge_by_name_def
proof (induction "from" arbitrary: ts)
  case (Cons f "from")
  have "distinct (map nm (merge_template nm mergo f ts))"
    unfolding merge_template_names [OF assms(1)] using Cons.prems by auto
  from Cons.IH [OF this] show ?case by simp
qed simp

lemma merge_by_name_names:
  assumes "keeps_name nm mergo"
  shows "nm ` set (merge_by_name nm mergo ts from) = nm ` set ts \<union> nm ` set from"
  unfolding merge_by_name_def
proof (induction "from" arbitrary: ts)
  case (Cons f "from")
  have "nm ` set (merge_template nm mergo f ts) = insert (nm f) (nm ` set ts)"
    using arg_cong [OF merge_template_names [OF assms, of f ts], of set] by (auto split: if_splits)
  with Cons show ?case by auto
qed simp

lemma index_templates_snoc:
  "index_templates (names @ [n]) i = Index_Set n (length names) (ensure_index (index_templates names i))"
  by (simp add: index_templates_def enumerate_append_eq enumerate_eq_zip)

lemma index_templates_get:
  "Index_Get (index_templates names None) n
     = (if n \<in> set names then Some (Max {k. k < length names \<and> names ! k = n}) else None)"
proof (induction names rule: rev_induct)
  case Nil
  show ?case by (simp add: index_templates_def Index_Get_def Index_Has_def)
next
  case (snoc m names)
  have get: "Index_Get (Index_Set m k (ensure_index i)) n = (if n = m then Some k else Index_Get i n)" for k i
    by (cases i) (auto simp: Index_Get_def Index_Has_def Index_Set_def ensure_index_def ghas_def gmap_simps)
  show ?case
  proof (cases "n = m")
    case True
    have "Max {k. k < length (names @ [m]) \<and> (names @ [m]) ! k = m} = length names"
      by (rule Max_eqI) auto
    then show ?thesis unfolding index_templates_snoc get unfolding True by simp
  next
    case False
    have "{k. k < length (names @ [m]) \<and> (names @ [m]) ! k = n} = {k. k < length names \<and> names ! k = n}"
      using False by (auto simp: nth_append less_Suc_eq)
    with False show ?thesis unfolding index_templates_snoc get snoc.IH by simp
  qed
qed


section \<open>Normalizing the templates\<close>

definition PodDistributionUnspecified :: string where "PodDistributionUnspecified = ''Unspecified''"
definition PodDistributionClickHouseAntiAffinity :: string where
  "PodDistributionClickHouseAntiAffinity = ''ClickHouseAntiAffinity''"
definition PodDistributionShardAntiAffinity :: string where
  "PodDistributionShardAntiAffinity = ''ShardAntiAffinity''"
definition PodDistributionReplicaAntiAffinity :: string where
  "PodDistributionReplicaAntiAffinity = ''ReplicaAntiAffinity''"
definition PodDistributionAnotherNamespaceAntiAffinity :: string where
  "PodDistributionAnotherNamespaceAntiAffinity = ''AnotherNamespaceAntiAffinity''"
definition PodDistributionAnotherClickHouseInstallationAntiAffinity :: string where
  "PodDistributionAnotherClickHouseInstallationAntiAffinity = ''AnotherClickHouseInstallationAntiAffinity''"
definition PodDistributionAnotherClusterAntiAffinity :: string where
  "PodDistributionAnotherClusterAntiAffinity = ''AnotherClusterAntiAffinity''"
definition PodDistributionNamespaceAffinity :: string where
  "PodDistributionNamespaceAffinity = ''NamespaceAffinity''"
definition PodDistributionClickHouseInstallationAffinity :: string where
  "PodDistributionClickHouseInstallationAffinity = ''ClickHouseInstallationAffinity''"
definition PodDistributionClusterAffinity :: string where
  "PodDistributionClusterAffinity = ''ClusterAffinity''"
definition PodDistributionShardAffinity :: string where "PodDistributionShardAffinity = ''ShardAffinity''"
definition PodDistributionReplicaAffinity :: string where
  "PodDistributionReplicaAffinity = ''ReplicaAffinity''"
definition PodDistributionPreviousTailAffinity :: string where
  "PodDistributionPreviousTailAffinity = ''PreviousTailAffinity''"
definition PodDistributionMaxNumberPerNode :: string where
  "PodDistributionMaxNumberPerNode = ''MaxNumberPerNode''"
definition PodDistributionCircularReplication :: string where
  "PodDistributionCircularReplication = ''CircularReplication''"

definition PodDistributionScopeShard :: string where "PodDistributionScopeShard = ''Shard''"
definition PodDistributionScopeReplica :: string where "PodDistributionScopeReplica = ''Replica''"
definition PodDistributionScopeCluster :: string where "PodDistributionScopeCluster = ''Cluster''"
definition PodDistributionScopeClickHouseInstallation :: string where
  "PodDistributionScopeClickHouseInstallation = ''ClickHouseInstallation''"
definition PodDistributionScopeNamespace :: string where "PodDistributionScopeNamespace = ''Namespace''"
definition PodDistributionScopeGlobal :: string where "PodDistributionScopeGlobal = ''Global''"

lemmas pod_distribution_consts = PodDistributionUnspecified_def PodDistributionClickHouseAntiAffinity_def
  PodDistributionShardAntiAffinity_def PodDistributionReplicaAntiAffinity_def
  PodDistributionAnotherNamespaceAntiAffinity_def
  PodDistributionAnotherClickHouseInstallationAntiAffinity_def
  PodDistributionAnotherClusterAntiAffinity_def PodDistributionNamespaceAffinity_def
  PodDistributionClickHouseInstallationAffinity_def PodDistributionClusterAffinity_def
  PodDistributionShardAffinity_def PodDistributionReplicaAffinity_def
  PodDistributionPreviousTailAffinity_def PodDistributionMaxNumberPerNode_def
  PodDistributionCircularReplication_def

lemmas pod_scope_consts = PodDistributionScopeShard_def PodDistributionScopeReplica_def
  PodDistributionScopeCluster_def PodDistributionScopeClickHouseInstallation_def
  PodDistributionScopeNamespace_def PodDistributionScopeGlobal_def

definition defaultTopologyKey :: string where "defaultTopologyKey = ''kubernetes.io/hostname''"

definition newDistribution :: "string \<Rightarrow> string \<Rightarrow> int \<Rightarrow> ChiPodDistribution" where
  "newDistribution type scope number =
     \<lparr>pd_Type = type, pd_Scope = scope, pd_Number = number, pd_TopologyKey = ''''\<rparr>"

definition defaultScope :: "ChiPodDistribution \<Rightarrow> ChiPodDistribution" where
  "defaultScope pd = (if pd_Scope pd = '''' then pd\<lparr>pd_Scope := PodDistributionScopeCluster\<rparr> else pd)"

text \<open>The result is the distribution and what it expands to; \<open>replicasCount\<close> is the count of the layout
  of the first cluster, a panic when there is no cluster.\<close>

definition normalizePodDistribution ::
    "int go \<Rightarrow> ChiPodDistribution \<Rightarrow> (ChiPodDistribution \<times> ChiPodDistribution list) go" where
  "normalizePodDistribution replicasCount pd = (
     let pd = (if pd_TopologyKey pd = '''' then pd\<lparr>pd_TopologyKey := defaultTopologyKey\<rparr> else pd) in
     if pd_Type pd \<in> {PodDistributionUnspecified, PodDistributionClickHouseAntiAffinity,
          PodDistributionShardAntiAffinity, PodDistributionReplicaAntiAffinity}
     then Inr (defaultScope pd, [])
     else if pd_Type pd \<in> {PodDistributionAnotherNamespaceAntiAffinity,
          PodDistributionAnotherClickHouseInstallationAntiAffinity, PodDistributionAnotherClusterAntiAffinity}
     then Inr (pd, [])
     else if pd_Type pd = PodDistributionMaxNumberPerNode
     then Inr (if pd_Number pd < 0 then pd\<lparr>pd_Number := 0\<rparr> else pd, [])
     else if pd_Type pd \<in> {PodDistributionNamespaceAffinity, PodDistributionClickHouseInstallationAffinity,
          PodDistributionClusterAffinity, PodDistributionShardAffinity, PodDistributionReplicaAffinity,
          PodDistributionPreviousTailAffinity}
     then Inr (pd, [])
     else if pd_Type pd = PodDistributionCircularReplication
     then (let pd = defaultScope pd in go_bind replicasCount (\<lambda>number. Inr (pd,
       [newDistribution PodDistributionShardAntiAffinity (pd_Scope pd) 0,
        newDistribution PodDistributionReplicaAntiAffinity (pd_Scope pd) 0,
        newDistribution PodDistributionMaxNumberPerNode (pd_Scope pd) number,
        newDistribution PodDistributionPreviousTailAffinity '''' 0,
        newDistribution PodDistributionNamespaceAffinity '''' 0,
        newDistribution PodDistributionClickHouseInstallationAffinity '''' 0,
        newDistribution PodDistributionClusterAffinity '''' 0])))
     else Inr (pd\<lparr>pd_Type := PodDistributionUnspecified\<rparr>, []))"

text \<open>The loop of \<open>normalizePodTemplate\<close>: the elements the list has at its start are normalized in place,
  what they expand to is appended.\<close>

definition normalizePodDistributions ::
    "int go \<Rightarrow> ChiPodDistribution list \<Rightarrow> ChiPodDistribution list go" where
  "normalizePodDistributions replicasCount pds =
     go_bind (go_fold (\<lambda>pd (done, additional).
         go_bind (normalizePodDistribution replicasCount pd) (\<lambda>(pd, ads).
           Inr (done @ [pd], additional @ ads))) pds ([], []))
       (\<lambda>(done, additional). Inr (done @ additional))"

definition normalizeZone :: "ChiPodTemplate \<Rightarrow> ChiPodTemplate" where
  "normalizeZone template =
     (if length (pt_ZoneValues template) = 0 then template\<lparr>pt_ZoneKey := ''''\<rparr>
      else if pt_ZoneKey template = ''''
      then template\<lparr>pt_ZoneKey := ''failure-domain.beta.kubernetes.io/zone''\<rparr>
      else template)"

definition normalizeVolumeClaimTemplate :: "ChiVolumeClaimTemplate \<Rightarrow> ChiVolumeClaimTemplate" where
  "normalizeVolumeClaimTemplate template =
     (if \<not> PVCReclaimPolicy_IsValid (vt_PVCReclaimPolicy template)
      then template\<lparr>vt_PVCReclaimPolicy := PVCReclaimPolicyDelete\<rparr> else template)"

record ChiUseTemplate =
  ut_Name :: string
  ut_Namespace :: string
  ut_UseType :: string

definition useTypeMerge :: string where "useTypeMerge = ''merge''"

definition normalizeUseTemplate :: "ChiUseTemplate \<Rightarrow> ChiUseTemplate" where
  "normalizeUseTemplate t = (if ut_UseType t = useTypeMerge then t else t\<lparr>ut_UseType := useTypeMerge\<rparr>)"

definition normalizeUseTemplates :: "ChiUseTemplate list \<Rightarrow> ChiUseTemplate list" where
  "normalizeUseTemplates = map normalizeUseTemplate"

subsection \<open>Normalized distributions\<close>

lemma normalizePodDistribution_key:
  assumes "normalizePodDistribution (Inr n) pd = Inr (pd', ads)"
  shows "pd_TopologyKey pd' \<noteq> '''' \<and> (\<forall>m\<in>set ads. pd_TopologyKey m = '''')
    \<and> (ads \<noteq> [] \<longleftrightarrow> pd_Type pd = PodDistributionCircularReplication)"
proof -
  have key: "pd_TopologyKey (if pd_TopologyKey pd = '''' then pd\<lparr>pd_TopologyKey := defaultTopologyKey\<rparr> else pd) \<noteq> ''''"
    by (simp add: defaultTopologyKey_def)
  show ?thesis
    using assms key unfolding normalizePodDistribution_def Let_def defaultScope_def newDistribution_def
    by (auto simp: pod_distribution_consts split: if_splits)
qed


text \<open>The loop over the distributions never panics when there is a cluster, and what it appends has the
  keys the expansion gave it.\<close>

lemma normalizePodDistribution_total:
  obtains pd' ads where "normalizePodDistribution (Inr n) pd = Inr (pd', ads)"
proof (cases "normalizePodDistribution (Inr n) pd")
  case (Inl p)
  then have False unfolding normalizePodDistribution_def Let_def defaultScope_def by (auto split: if_splits)
  then show ?thesis ..
next
  case (Inr r)
  with that show ?thesis by (cases r) auto
qed

lemma normalizePodDistributions_fold:
  "\<exists>done additional. go_fold (\<lambda>pd (done, additional).
         go_bind (normalizePodDistribution (Inr n) pd) (\<lambda>(pd, ads).
           Inr (done @ [pd], additional @ ads))) pds (done0, additional0) = Inr (done0 @ done, additional0 @ additional)
     \<and> length done = length pds \<and> (\<forall>pd\<in>set done. pd_TopologyKey pd \<noteq> '''')
     \<and> (\<forall>pd\<in>set additional. pd_TopologyKey pd = '''')
     \<and> (additional \<noteq> [] \<longleftrightarrow> (\<exists>pd\<in>set pds. pd_Type pd = PodDistributionCircularReplication))"
proof (induction pds arbitrary: done0 additional0)
  case (Cons pd pds)
  obtain pd' ads where r: "normalizePodDistribution (Inr n) pd = Inr (pd', ads)"
    by (rule normalizePodDistribution_total)
  note key = normalizePodDistribution_key [OF r]
  from Cons.IH [of "done0 @ [pd']" "additional0 @ ads"] obtain don additional where
    IH: "go_fold (\<lambda>pd (done, additional). go_bind (normalizePodDistribution (Inr n) pd) (\<lambda>(pd, ads).
           Inr (done @ [pd], additional @ ads))) pds (done0 @ [pd'], additional0 @ ads)
         = Inr ((done0 @ [pd']) @ don, (additional0 @ ads) @ additional)"
      "length don = length pds" "\<forall>pd\<in>set don. pd_TopologyKey pd \<noteq> ''''"
      "\<forall>pd\<in>set additional. pd_TopologyKey pd = ''''"
      "additional \<noteq> [] \<longleftrightarrow> (\<exists>pd\<in>set pds. pd_Type pd = PodDistributionCircularReplication)"
    by blast
  show ?case
    by (rule exI [of _ "pd' # don"], rule exI [of _ "ads @ additional"]) (use IH key r in auto)
qed simp

text \<open>
 The expansion of the distribution \<open>CircularReplication\<close> is not normalized itself. Every
  distribution that was given keeps or gets a topology key, but those it expands to have an empty one:
  the normalized list holds a distribution without topology key exactly when \<open>CircularReplication\<close> is
  among the given ones, and such a list is built without a panic.
\<close>

theorem CircularReplication_loses_topology_key:
  "case normalizePodDistributions (Inr n) pds of Inl _ \<Rightarrow> False
   | Inr pds' \<Rightarrow> length pds \<le> length pds' \<and> '''' \<notin> set (map pd_TopologyKey (take (length pds) pds'))
      \<and> ((\<exists>pd\<in>set pds'. pd_TopologyKey pd = '''')
          \<longleftrightarrow> (\<exists>pd\<in>set pds. pd_Type pd = PodDistributionCircularReplication))"
proof -
  from normalizePodDistributions_fold [of n pds "[]" "[]"] obtain don additional where
    f: "go_fold (\<lambda>pd (done, additional). go_bind (normalizePodDistribution (Inr n) pd) (\<lambda>(pd, ads).
           Inr (done @ [pd], additional @ ads))) pds ([], []) = Inr ([] @ don, [] @ additional)"
    and len: "length don = length pds"
    and key: "\<forall>pd\<in>set don. pd_TopologyKey pd \<noteq> ''''" "\<forall>pd\<in>set additional. pd_TopologyKey pd = ''''"
      "additional \<noteq> [] \<longleftrightarrow> (\<exists>pd\<in>set pds. pd_Type pd = PodDistributionCircularReplication)"
    by blast
  have r: "normalizePodDistributions (Inr n) pds = Inr (don @ additional)"
    unfolding normalizePodDistributions_def f by simp
  have "(\<exists>pd\<in>set (don @ additional). pd_TopologyKey pd = '''') \<longleftrightarrow> additional \<noteq> []"
    using key(1,2) by (cases additional) auto
  with key len show ?thesis unfolding r by auto
qed

subsection \<open>Merged templates\<close>

lemma ChiTemplates_MergeFrom_sections:
  "ChiTemplates_MergeFrom mg templates (Some from) = (
     if ChiTemplates_Len (Some from) = 0 then templates else
     let t = (case templates of None \<Rightarrow> NewChiTemplates | Some t \<Rightarrow> t) in Some (t\<lparr>
       tps_HostTemplates := merge_by_name (ht_Name \<circ> snd) (mergo_Host mg) (tps_HostTemplates t) (tps_HostTemplates from),
       tps_PodTemplates := merge_by_name pt_Name (mergo_Pod mg) (tps_PodTemplates t) (tps_PodTemplates from),
       tps_VolumeClaimTemplates := merge_by_name vt_Name (mergo_VolumeClaim mg)
         (tps_VolumeClaimTemplates t) (tps_VolumeClaimTemplates from),
       tps_ServiceTemplates := merge_by_name st_Name (mergo_Service mg)
         (tps_ServiceTemplates t) (tps_ServiceTemplates from)\<rparr>))"
proof -
  have nil: "merge_by_name nm f ts [] = ts" for nm f and ts :: "'x list" by (simp add: merge_by_name_def)
  show ?thesis
    by (cases templates) (simp_all add: ChiTemplates_MergeFrom_def Let_def mergeHostTemplates_def
      mergePodTemplates_def mergeVolumeClaimTemplates_def mergeServiceTemplates_def nil)
qed


text \<open>
  Templates are merged by name. After a merge, the template of a name in each of the four sections
  is the one the reference gives: the template of that name in the receiver, overlaid in order by those
  of the argument, and where the receiver has none the first of the argument, overlaid by the others.
  Sections whose names are distinct stay so, so a name never stands for two templates.
\<close>

theorem templates_merge_by_name:
  assumes "keeps_name (ht_Name \<circ> snd) (mergo_Host mg)" and "keeps_name pt_Name (mergo_Pod mg)"
    and "keeps_name vt_Name (mergo_VolumeClaim mg)" and "keeps_name st_Name (mergo_Service mg)"
    and "ChiTemplates_MergeFrom mg (Some t) (Some from) = Some r"
  shows "named (ht_Name \<circ> snd) n (tps_HostTemplates r) = layered_template (ht_Name \<circ> snd) (mergo_Host mg) n
        (tps_HostTemplates t) (tps_HostTemplates from)
    \<and> named pt_Name n (tps_PodTemplates r)
      = layered_template pt_Name (mergo_Pod mg) n (tps_PodTemplates t) (tps_PodTemplates from)
    \<and> named vt_Name n (tps_VolumeClaimTemplates r) = layered_template vt_Name (mergo_VolumeClaim mg) n
        (tps_VolumeClaimTemplates t) (tps_VolumeClaimTemplates from)
    \<and> named st_Name n (tps_ServiceTemplates r)
      = layered_template st_Name (mergo_Service mg) n (tps_ServiceTemplates t) (tps_ServiceTemplates from)
    \<and> (distinct (map pt_Name (tps_PodTemplates t)) \<longrightarrow> distinct (map pt_Name (tps_PodTemplates r)))"
proof -
  have nil: "layered_template nm f n ts [] = named nm n ts" for nm f and ts :: "'x list"
    by (simp add: layered_template_def)
  show ?thesis
  proof (cases "ChiTemplates_Len (Some from) = 0")
    case True
    with assms(5) have "r = t" by (simp add: ChiTemplates_MergeFrom_def)
    with True show ?thesis by (simp add: ChiTemplates_Len_def nil)
  next
    case False
    with assms(5) show ?thesis
      unfolding ChiTemplates_MergeFrom_sections Let_def
      by (auto simp: merge_by_name_named [OF assms(1)] merge_by_name_named [OF assms(2)]
          merge_by_name_named [OF assms(3)] merge_by_name_named [OF assms(4)]
          intro: merge_by_name_distinct [OF assms(2)])
  qed
qed

definition overlay_all :: mergo where
  "overlay_all = \<lparr>mergo_Host = (\<lambda>_ f. f), mergo_Pod = (\<lambda>_ f. f), mergo_VolumeClaim = (\<lambda>_ f. f),
     mergo_Service = (\<lambda>_ f. f)\<rparr>"

definition claims :: "(string \<times> string) list \<Rightarrow> ChiTemplates" where
  "claims xs = NewChiTemplates\<lparr>tps_VolumeClaimTemplates := map (\<lambda>(n, p). \<lparr>vt_Name = n,
     vt_PVCReclaimPolicy = p, vt_ObjectMeta = object_named n, vt_Requests = []\<rparr>) xs\<rparr>"

lemma keeps_overlay: "keeps_name nm (\<lambda>_ f. f)"
  by (simp add: keeps_name_def)

theorem templates_merge_by_name_witness:
  "\<exists>r. ChiTemplates_MergeFrom overlay_all (Some (claims [(''a'', ''Retain''), (''b'', '''')]))
        (Some (claims [(''a'', ''Delete''), (''c'', '''')])) = Some r
     \<and> map_option vt_PVCReclaimPolicy (named vt_Name ''a'' (tps_VolumeClaimTemplates r)) = Some ''Delete''"
proof -
  let ?t = "claims [(''a'', ''Retain''), (''b'', '''')]" and ?f = "claims [(''a'', ''Delete''), (''c'', '''')]"
  let ?r = "the (ChiTemplates_MergeFrom overlay_all (Some ?t) (Some ?f))"
  have r: "ChiTemplates_MergeFrom overlay_all (Some ?t) (Some ?f) = Some ?r"
    by (simp add: ChiTemplates_MergeFrom_sections claims_def NewChiTemplates_def ChiTemplates_Len_def Let_def)
  have "named vt_Name ''a'' (tps_VolumeClaimTemplates ?r) = layered_template vt_Name (\<lambda>_ f. f) ''a''
      (tps_VolumeClaimTemplates ?t) (tps_VolumeClaimTemplates ?f)"
    using templates_merge_by_name [OF _ _ _ _ r, of "''a''"] 
    by (simp add: overlay_all_def keeps_overlay)
  moreover have "layered_template vt_Name (\<lambda>_ f. f) ''a'' (tps_VolumeClaimTemplates ?t) (tps_VolumeClaimTemplates ?f)
      = Some \<lparr>vt_Name = ''a'', vt_PVCReclaimPolicy = ''Delete'', vt_ObjectMeta = object_named ''a'', vt_Requests = []\<rparr>"
    by (simp add: layered_template_def claims_def NewChiTemplates_def)
  ultimately have "map_option vt_PVCReclaimPolicy (named vt_Name ''a'' (tps_VolumeClaimTemplates ?r)) = Some ''Delete''"
    by simp
  with r show ?thesis by blast
qed

end
