(* ===== verification/Addressing.thy ===== *)
theory Addressing
  imports ChiTemplates
begin

text \<open>
  The installation as a whole: \<open>type_chi.go\<close> (the walks over clusters, shards and hosts, the counts, the
  address every host gets with its place in the cycles), \<open>type_config_chi.go\<close> and the merge of
  specifications. \<open>type_status.go\<close> is in the theory on the lifecycle; its record is declared here because
  the installation holds it.

  The hosts live in a store (see the theory on the layout); clusters are held by value, since no two
  entries of an installation point to the same cluster.
\<close>

section \<open>Data\<close>

record Configuration =
  cf_Zookeeper :: "ChiZookeeperConfig option"
  cf_Users :: "settings option"
  cf_Profiles :: "settings option"
  cf_Quotas :: "settings option"
  cf_Settings :: "settings option"
  cf_Files :: "settings option"
  cf_Clusters :: "ChiCluster option list"

definition NewConfiguration :: Configuration where
  "NewConfiguration = \<lparr>cf_Zookeeper = None, cf_Users = None, cf_Profiles = None, cf_Quotas = None,
     cf_Settings = None, cf_Files = None, cf_Clusters = []\<rparr>"

record ChiSpec =
  sp_TaskID :: "string option"
  sp_Stop :: string
  sp_Restart :: string
  sp_Troubleshoot :: string
  sp_NamespaceDomainPattern :: string
  sp_Templating :: "ChiTemplating option"
  sp_Reconciling :: "ChiReconciling option"
  sp_Defaults :: "ChiDefaults option"
  sp_Configuration :: "Configuration option"
  sp_Templates :: "ChiTemplates option"
  sp_UseTemplates :: "ChiUseTemplate list"

record ChiStatus =
  cs_Version :: string
  cs_ClustersCount :: int
  cs_ShardsCount :: int
  cs_ReplicasCount :: int
  cs_HostsCount :: int
  cs_Status :: string
  cs_TaskID :: string
  cs_TaskIDsStarted :: "string list"
  cs_TaskIDsCompleted :: "string list"
  cs_Action :: string
  cs_Actions :: "string list"
  cs_Error :: string
  cs_Errors :: "string list"
  cs_UpdatedHostsCount :: int
  cs_AddedHostsCount :: int
  cs_DeletedHostsCount :: int
  cs_DeleteHostsCount :: int
  cs_Pods :: "string list"
  cs_FQDNs :: "string list"
  cs_Endpoint :: string
  cs_Generation :: int
  cs_NormalizedCHI :: "ChiSpec option"

record Installation =
  in_Meta :: ObjectMeta
  in_Generation :: int
  in_Spec :: ChiSpec
  in_Status :: ChiStatus

section \<open>Merging\<close>

definition Configuration_MergeFrom ::
    "MergeType \<Rightarrow> Configuration option \<Rightarrow> Configuration option \<Rightarrow> Configuration option" where
  "Configuration_MergeFrom type configuration from = (case from of
     None \<Rightarrow> configuration
   | Some f \<Rightarrow> (let c = (case configuration of None \<Rightarrow> NewConfiguration | Some c \<Rightarrow> c) in
       Some \<lparr>cf_Zookeeper = ChiZookeeperConfig_MergeFrom type (cf_Zookeeper c) (cf_Zookeeper f),
             cf_Users = Settings_MergeFrom (cf_Users c) (cf_Users f),
             cf_Profiles = Settings_MergeFrom (cf_Profiles c) (cf_Profiles f),
             cf_Quotas = Settings_MergeFrom (cf_Quotas c) (cf_Quotas f),
             cf_Settings = Settings_MergeFrom (cf_Settings c) (cf_Settings f),
             cf_Files = Settings_MergeFrom (cf_Files c) (cf_Files f),
             cf_Clusters = cf_Clusters f\<rparr>))"

definition ChiSpec_MergeFrom ::
    "mergo \<Rightarrow> MergeType \<Rightarrow> ChiSpec \<Rightarrow> ChiSpec option \<Rightarrow> ChiSpec" where
  "ChiSpec_MergeFrom mg type spec from = (case from of
     None \<Rightarrow> spec
   | Some f \<Rightarrow>
       let spec = spec\<lparr>
             sp_Stop := merge_field '''' type (sp_Stop spec) (sp_Stop f),
             sp_Restart := merge_field '''' type (sp_Restart spec) (sp_Restart f),
             sp_Troubleshoot := merge_field '''' type (sp_Troubleshoot spec) (sp_Troubleshoot f),
             sp_NamespaceDomainPattern := merge_field '''' type (sp_NamespaceDomainPattern spec)
               (sp_NamespaceDomainPattern f)\<rparr>
       in spec\<lparr>
         sp_Templating := ChiTemplating_MergeFrom type (sp_Templating spec) (sp_Templating f),
         sp_Reconciling := ChiReconciling_MergeFrom type (sp_Reconciling spec) (sp_Reconciling f),
         sp_Defaults := ChiDefaults_MergeFrom type (sp_Defaults spec) (sp_Defaults f),
         sp_Configuration := Configuration_MergeFrom type (sp_Configuration spec) (sp_Configuration f),
         sp_Templates := ChiTemplates_MergeFrom mg (sp_Templates spec) (sp_Templates f),
         sp_UseTemplates := sp_UseTemplates spec @ sp_UseTemplates f\<rparr>)"

definition Installation_MergeFrom ::
    "mergo \<Rightarrow> MergeType \<Rightarrow> Installation \<Rightarrow> Installation option \<Rightarrow> Installation" where
  "Installation_MergeFrom mg type chi from = (case from of
     None \<Rightarrow> chi
   | Some f \<Rightarrow> chi\<lparr>in_Meta := in_Meta f, in_Generation := in_Generation f,
       in_Spec := ChiSpec_MergeFrom mg type (in_Spec chi) (Some (in_Spec f)),
       in_Status := in_Status f\<rparr>)"

section \<open>Predicates\<close>

definition MatchFullName :: "string \<Rightarrow> string \<Rightarrow> Installation option \<Rightarrow> bool" where
  "MatchFullName namespace name chi = (case chi of None \<Rightarrow> False
     | Some c \<Rightarrow> om_Namespace (in_Meta c) = namespace \<and> om_Name (in_Meta c) = name)"

definition IsAuto :: "Installation option \<Rightarrow> bool" where
  "IsAuto chi = (case chi of None \<Rightarrow> False
     | Some c \<Rightarrow>
         if om_Namespace (in_Meta c) = '''' \<and> om_Name (in_Meta c) = '''' then False
         else to_lower (ChiTemplating_GetPolicy (sp_Templating (in_Spec c))) = TemplatingPolicyAuto)"

definition IsStopped :: "Installation \<Rightarrow> bool" where
  "IsStopped chi = IsStringBoolTrue (sp_Stop (in_Spec chi))"

definition IsRollingUpdate :: "Installation \<Rightarrow> bool" where
  "IsRollingUpdate chi = (sp_Restart (in_Spec chi) = RestartRollingUpdate)"

definition IsNoRestart :: "Installation \<Rightarrow> bool" where
  "IsNoRestart chi = (sp_Restart (in_Spec chi) = '''')"

definition IsTroubleshoot :: "Installation \<Rightarrow> bool" where
  "IsTroubleshoot chi = IsStringBoolTrue (sp_Troubleshoot (in_Spec chi))"

definition GetReconciling :: "Installation option \<Rightarrow> ChiReconciling option" where
  "GetReconciling chi = (case chi of None \<Rightarrow> None | Some c \<Rightarrow> sp_Reconciling (in_Spec c))"


subsection \<open>Layers of specifications\<close>

text \<open>The specification before any layer, and the specification after the layers were merged in turn as
  the normalizer does it: templates first, the installation last.\<close>

definition newChiSpec :: ChiSpec where
  "newChiSpec = \<lparr>sp_TaskID = None, sp_Stop = '''', sp_Restart = '''', sp_Troubleshoot = '''',
     sp_NamespaceDomainPattern = '''', sp_Templating = None, sp_Reconciling = None, sp_Defaults = None,
     sp_Configuration = None, sp_Templates = None, sp_UseTemplates = []\<rparr>"

definition merge_layers :: "mergo \<Rightarrow> ChiSpec list \<Rightarrow> ChiSpec \<Rightarrow> ChiSpec" where
  "merge_layers mg layers spec =
     fold (\<lambda>l spec. ChiSpec_MergeFrom mg MergeTypeOverrideByNonEmptyValues spec (Some l)) layers spec"

definition spec_settings :: "(Configuration \<Rightarrow> settings option) \<Rightarrow> ChiSpec \<Rightarrow> settings option" where
  "spec_settings sec spec = (case sp_Configuration spec of None \<Rightarrow> None | Some c \<Rightarrow> sec c)"

definition spec_clusters :: "ChiSpec \<Rightarrow> ChiCluster option list" where
  "spec_clusters spec = (case sp_Configuration spec of None \<Rightarrow> [] | Some c \<Rightarrow> cf_Clusters c)"

definition settings_sections :: "(Configuration \<Rightarrow> settings option) list" where
  "settings_sections = [cf_Users, cf_Profiles, cf_Quotas, cf_Settings, cf_Files]"

lemma Settings_Get_None [simp]: "Settings_Get None = Map.empty"
  using Settings_MergeFrom_get [of None None]
  by (simp add: Settings_Get_def fun_eq_iff)

lemma ChiSpec_MergeFrom_settings:
  assumes "sec \<in> set settings_sections"
  shows "Settings_Get (spec_settings sec (ChiSpec_MergeFrom mg type spec (Some f)))
     = Settings_Get (spec_settings sec f) ++ Settings_Get (spec_settings sec spec)"
proof (cases "sp_Configuration f")
  case None
  then show ?thesis
    by (simp add: spec_settings_def ChiSpec_MergeFrom_def Let_def Configuration_MergeFrom_def)
next
  case (Some fc)
  define c where "c = (case sp_Configuration spec of None \<Rightarrow> NewConfiguration | Some c \<Rightarrow> c)"
  have "spec_settings sec (ChiSpec_MergeFrom mg type spec (Some f)) = Settings_MergeFrom (sec c) (sec fc)"
    using assms Some
    by (auto simp: spec_settings_def ChiSpec_MergeFrom_def Let_def Configuration_MergeFrom_def
        settings_sections_def c_def)
  moreover have "Settings_Get (sec c) = Settings_Get (spec_settings sec spec)"
    using assms by (cases "sp_Configuration spec")
      (auto simp: c_def spec_settings_def NewConfiguration_def settings_sections_def)
  ultimately show ?thesis by (simp add: Settings_MergeFrom_get spec_settings_def Some)
qed

lemma ChiSpec_MergeFrom_clusters:
  "spec_clusters (ChiSpec_MergeFrom mg type spec (Some f))
     = (if sp_Configuration f = None then spec_clusters spec else spec_clusters f)"
  by (cases "sp_Configuration f")
    (auto simp: spec_clusters_def ChiSpec_MergeFrom_def Let_def Configuration_MergeFrom_def)

lemma ChiSpec_MergeFrom_scalars:
  "sp_Stop (ChiSpec_MergeFrom mg MergeTypeOverrideByNonEmptyValues spec (Some f)) = override_by '''' (sp_Stop spec) (sp_Stop f)"
  "sp_Restart (ChiSpec_MergeFrom mg MergeTypeOverrideByNonEmptyValues spec (Some f))
     = override_by '''' (sp_Restart spec) (sp_Restart f)"
  by (simp_all add: ChiSpec_MergeFrom_def Let_def merge_field_def)



section \<open>Walking the hosts\<close>

text \<open>Where a walk is: the counters over the whole installation and over the current cluster.\<close>

record cycle_counter =
  cc_Index :: int
  cc_CycleIndex :: int
  cc_CycleOffset :: int

definition start_counter :: cycle_counter where
  "start_counter = \<lparr>cc_Index = 0, cc_CycleIndex = 0, cc_CycleOffset = 0\<rparr>"

definition advance :: "int \<Rightarrow> cycle_counter \<Rightarrow> cycle_counter" where
  "advance cycleSize c = (
     let c = c\<lparr>cc_Index := cc_Index c + 1, cc_CycleOffset := cc_CycleOffset c + 1\<rparr>
     in if cycleSize > 0 \<and> cc_CycleOffset c \<ge> cycleSize
        then c\<lparr>cc_CycleOffset := 0, cc_CycleIndex := cc_CycleIndex c + 1\<rparr> else c)"

text \<open>What the callback is called with; the pointers to cluster, shard and replica are given by their
  indexes.\<close>

record visit =
  v_chiScope :: cycle_counter
  v_clusterScope :: cycle_counter
  v_clusterIndex :: nat
  v_shardIndex :: nat
  v_replicaIndex :: nat
  v_host :: host_ptr

definition visit_host ::
    "int \<Rightarrow> int \<Rightarrow> nat \<Rightarrow> nat \<Rightarrow> nat \<times> host_ptr \<Rightarrow> (cycle_counter \<times> cycle_counter) \<times> visit list
      \<Rightarrow> (cycle_counter \<times> cycle_counter) \<times> visit list" where
  "visit_host chiSize clusterSize ci si = (\<lambda>(ri, host) ((chiC, clusterC), acc).
     ((advance chiSize chiC, advance clusterSize clusterC),
      acc @ [\<lparr>v_chiScope = chiC, v_clusterScope = clusterC, v_clusterIndex = ci, v_shardIndex = si,
              v_replicaIndex = ri, v_host = host\<rparr>]))"

definition visit_shard ::
    "int \<Rightarrow> int \<Rightarrow> nat \<Rightarrow> nat \<times> ChiShard \<Rightarrow> (cycle_counter \<times> cycle_counter) \<times> visit list
      \<Rightarrow> (cycle_counter \<times> cycle_counter) \<times> visit list" where
  "visit_shard chiSize clusterSize ci = (\<lambda>(si, shard) s.
     fold (visit_host chiSize clusterSize ci si) (enumerate 0 (sh_Hosts shard)) s)"

definition visit_cluster ::
    "int \<Rightarrow> int \<Rightarrow> nat \<times> ChiClusterLayout \<Rightarrow> (cycle_counter \<times> cycle_counter) \<times> visit list
      \<Rightarrow> (cycle_counter \<times> cycle_counter) \<times> visit list" where
  "visit_cluster chiSize clusterSize = (\<lambda>(ci, lay) ((chiC, _), acc).
     fold (visit_shard chiSize clusterSize ci) (enumerate 0 (lay_Shards lay)) ((chiC, start_counter), acc))"

definition WalkHostsFullPath :: "int \<Rightarrow> int \<Rightarrow> ChiClusterLayout list \<Rightarrow> visit list" where
  "WalkHostsFullPath chiScopeCycleSize clusterScopeCycleSize layouts =
     snd (fold (visit_cluster chiScopeCycleSize clusterScopeCycleSize) (enumerate 0 layouts)
       ((start_counter, start_counter), []))"

definition Installation_WalkHosts :: "ChiClusterLayout list \<Rightarrow> host_ptr list" where
  "Installation_WalkHosts layouts = concat (map (\<lambda>lay. concat (map sh_Hosts (lay_Shards lay))) layouts)"

definition ClustersCount :: "ChiClusterLayout list \<Rightarrow> nat" where
  "ClustersCount layouts = length layouts"

definition ShardsCount :: "ChiClusterLayout list \<Rightarrow> nat" where
  "ShardsCount layouts = length (concat (map lay_Shards layouts))"

definition HostsCount :: "ChiClusterLayout list \<Rightarrow> nat" where
  "HostsCount layouts = length (Installation_WalkHosts layouts)"

definition HostsCountAttributes ::
    "ChiHostReconcileAttributes \<Rightarrow> host_store \<Rightarrow> ChiClusterLayout list \<Rightarrow> nat" where
  "HostsCountAttributes a store layouts =
     length (filter (\<lambda>h. ra_Any (map_option h_ReconcileAttributes (store_get store h)) a)
       (Installation_WalkHosts layouts))"

subsection \<open>The counters\<close>

text \<open>The reference: the host at a position, with the cycle and the offset by division.\<close>

definition counter_at :: "int \<Rightarrow> nat \<Rightarrow> cycle_counter" where
  "counter_at cycleSize k = (if cycleSize > 0
     then \<lparr>cc_Index = int k, cc_CycleIndex = int k div cycleSize, cc_CycleOffset = int k mod cycleSize\<rparr>
     else \<lparr>cc_Index = int k, cc_CycleIndex = 0, cc_CycleOffset = int k\<rparr>)"

lemma start_counter_at: "start_counter = counter_at len 0"
  by (simp add: start_counter_def counter_at_def)

lemma advance_counter_at: "advance len (counter_at len k) = counter_at len (Suc k)"
proof (cases "len > 0")
  case True
  have d: "int k + 1 = len * (int k div len) + (int k mod len + 1)" by simp
  show ?thesis
  proof (cases "int k mod len + 1 \<ge> len")
    case True
    with \<open>len > 0\<close> have e: "int k mod len + 1 = len"
      by (meson add1_zle_eq order_antisym pos_mod_bound)
    then have "int k + 1 = len * (int k div len + 1)" using d by (simp add: distrib_left)
    with \<open>len > 0\<close> have "(1 + int k) div len = int k div len + 1" "(1 + int k) mod len = 0"
      by (simp_all add: add.commute)
    with \<open>len > 0\<close> e show ?thesis by (simp add: advance_def counter_at_def Let_def)
  next
    case False
    with \<open>len > 0\<close> have "(1 + int k) div len = int k div len" "(1 + int k) mod len = int k mod len + 1"
      using d div_pos_pos_trivial [of "int k mod len + 1" len]
      by (smt (verit, ccfv_threshold) div_mult_self4 mod_mult_self4 mod_pos_pos_trivial pos_mod_sign mult.commute)+
    with \<open>len > 0\<close> False show ?thesis by (simp add: advance_def counter_at_def Let_def)
  qed
qed (simp add: advance_def counter_at_def Let_def)


subsection \<open>The walk, by position\<close>

definition cluster_cells :: "ChiClusterLayout \<Rightarrow> (nat \<times> nat \<times> host_ptr) list" where
  "cluster_cells lay = concat (map (\<lambda>(si, shard). map (\<lambda>(ri, host). (si, ri, host)) (enumerate 0 (sh_Hosts shard)))
     (enumerate 0 (lay_Shards lay)))"

definition visit_at :: "int \<Rightarrow> int \<Rightarrow> nat \<Rightarrow> nat \<Rightarrow> nat \<Rightarrow> nat \<times> nat \<times> host_ptr \<Rightarrow> visit" where
  "visit_at chiSize clusterSize ci k m = (\<lambda>(si, ri, host).
     \<lparr>v_chiScope = counter_at chiSize k, v_clusterScope = counter_at clusterSize m, v_clusterIndex = ci,
      v_shardIndex = si, v_replicaIndex = ri, v_host = host\<rparr>)"

fun visits :: "int \<Rightarrow> int \<Rightarrow> nat \<Rightarrow> nat \<Rightarrow> nat \<Rightarrow> (nat \<times> nat \<times> host_ptr) list \<Rightarrow> visit list" where
  "visits chiSize clusterSize ci k m [] = []"
| "visits chiSize clusterSize ci k m (hc # cells) =
     visit_at chiSize clusterSize ci k m hc # visits chiSize clusterSize ci (Suc k) (Suc m) cells"

fun all_visits :: "int \<Rightarrow> int \<Rightarrow> nat \<Rightarrow> nat \<Rightarrow> ChiClusterLayout list \<Rightarrow> visit list" where
  "all_visits chiSize clusterSize ci k [] = []"
| "all_visits chiSize clusterSize ci k (lay # lays) =
     visits chiSize clusterSize ci k 0 (cluster_cells lay)
     @ all_visits chiSize clusterSize (Suc ci) (k + length (cluster_cells lay)) lays"

lemma visits_append:
  "visits a b ci k m (xs @ ys) = visits a b ci k m xs @ visits a b ci (k + length xs) (m + length xs) ys"
  by (induction xs arbitrary: k m) simp_all

lemma visits_map:
  "length (visits a b ci k m cells) = length cells"
  "map v_host (visits a b ci k m cells) = map (snd \<circ> snd) cells"
  "map v_chiScope (visits a b ci k m cells) = map (counter_at a) [k..<k + length cells]"
  "map v_clusterScope (visits a b ci k m cells) = map (counter_at b) [m..<m + length cells]"
  "map v_clusterIndex (visits a b ci k m cells) = replicate (length cells) ci"
  by (induction cells arbitrary: k m) (auto simp: visit_at_def upt_rec)

lemma visit_host_at:
  "visit_host a b ci si (ri, host) ((counter_at a k, counter_at b m), acc)
     = ((counter_at a (Suc k), counter_at b (Suc m)), acc @ [visit_at a b ci k m (si, ri, host)])"
  by (simp add: visit_host_def advance_counter_at visit_at_def)

lemma visit_shard_at:
  "visit_shard a b ci (si, shard) ((counter_at a k, counter_at b m), acc) = (let cells =
       map (\<lambda>(ri, host). (si, ri, host)) (enumerate 0 (sh_Hosts shard)) in
     ((counter_at a (k + length cells), counter_at b (m + length cells)), acc @ visits a b ci k m cells))"
proof -
  have "fold (visit_host a b ci si) xs ((counter_at a k, counter_at b m), acc) = (let cells =
       map (\<lambda>(ri, host). (si, ri, host)) xs in
     ((counter_at a (k + length cells), counter_at b (m + length cells)), acc @ visits a b ci k m cells))" for xs
    by (induction xs arbitrary: k m acc) (auto simp: visit_host_at Let_def)
  then show ?thesis unfolding visit_shard_def by simp
qed

lemma visit_cluster_at:
  "visit_cluster a b (ci, lay) ((counter_at a k, c), acc) =
     ((counter_at a (k + length (cluster_cells lay)), counter_at b (length (cluster_cells lay))),
      acc @ visits a b ci k 0 (cluster_cells lay))"
proof -
  have "fold (visit_shard a b ci) xs ((counter_at a k, counter_at b m), acc) = (let cells =
      concat (map (\<lambda>(si, shard). map (\<lambda>(ri, host). (si, ri, host)) (enumerate 0 (sh_Hosts shard))) xs) in
     ((counter_at a (k + length cells), counter_at b (m + length cells)), acc @ visits a b ci k m cells))" for xs m
  proof (induction xs arbitrary: k m acc)
    case (Cons x xs)
    obtain si shard where x: "x = (si, shard)" by (cases x)
    show ?case
      unfolding x fold_Cons comp_def visit_shard_at Let_def Cons.IH
      by (simp add: visits_append Let_def add.assoc)
  qed simp
  from this [of "enumerate 0 (lay_Shards lay)" 0] show ?thesis
    by (simp add: visit_cluster_def cluster_cells_def start_counter_at [of b] Let_def)
qed

lemma WalkHostsFullPath_all_visits: "WalkHostsFullPath a b layouts = all_visits a b 0 0 layouts"
proof -
  have "snd (fold (visit_cluster a b) (enumerate ci layouts) ((counter_at a k, c), acc))
      = acc @ all_visits a b ci k layouts" for ci k c acc
    by (induction layouts arbitrary: ci k c acc) (simp_all add: visit_cluster_at)
  then show ?thesis by (simp add: WalkHostsFullPath_def start_counter_at [of a])
qed

lemma cluster_cells_hosts: "map (snd \<circ> snd) (cluster_cells lay) = concat (map sh_Hosts (lay_Shards lay))"
proof -
  have "map (snd \<circ> snd) (map (\<lambda>(ri, host). (si :: nat, ri, host)) (enumerate n hs)) = hs" for si n and hs :: "host_ptr list"
    by (induction hs arbitrary: n) auto
  then have "map (snd \<circ> snd) (concat (map (\<lambda>(si, shard). map (\<lambda>(ri, host). (si, ri, host))
      (enumerate 0 (sh_Hosts shard))) (enumerate n shards))) = concat (map sh_Hosts shards)" for n shards
    by (induction shards arbitrary: n) simp_all
  then show ?thesis by (simp add: cluster_cells_def)
qed

definition cluster_hosts_count :: "ChiClusterLayout \<Rightarrow> nat" where
  "cluster_hosts_count lay = length (concat (map sh_Hosts (lay_Shards lay)))"

lemma length_cluster_cells: "length (cluster_cells lay) = cluster_hosts_count lay"
  using arg_cong [OF cluster_cells_hosts, of length lay] by (simp add: cluster_hosts_count_def)

lemma all_visits_hosts:
  "map v_host (all_visits a b ci k layouts) = Installation_WalkHosts layouts"
  by (induction layouts arbitrary: ci k) (simp_all add: Installation_WalkHosts_def visits_map cluster_cells_hosts)

lemma all_visits_chi:
  "map v_chiScope (all_visits a b ci k layouts) = map (counter_at a) [k..<k + HostsCount layouts]"
proof (induction layouts arbitrary: ci k)
  case (Cons lay layouts)
  have h: "HostsCount (lay # layouts) = length (cluster_cells lay) + HostsCount layouts"
    by (simp add: HostsCount_def Installation_WalkHosts_def length_cluster_cells cluster_hosts_count_def)
  show ?case
    unfolding h using upt_add_eq_append [of k "k + length (cluster_cells lay)" "HostsCount layouts"]
    by (simp add: visits_map Cons.IH add.assoc)
qed (simp add: HostsCount_def Installation_WalkHosts_def)

lemma all_visits_index_ge: "v \<in> set (all_visits a b ci k layouts) \<Longrightarrow> ci \<le> v_clusterIndex v"
proof (induction layouts arbitrary: ci k)
  case (Cons lay layouts)
  have "v_clusterIndex v = ci" if "v \<in> set (visits a b ci k 0 (cluster_cells lay))"
    using that visits_map(5) [of a b ci k 0 "cluster_cells lay"]
    by (metis image_eqI list.set_map set_replicate_conv_if ball_empty emptyE singletonD)
  with Cons show ?case by fastforce
qed simp

lemma all_visits_cluster:
  "c < length layouts \<Longrightarrow> map v_clusterScope (filter (\<lambda>v. v_clusterIndex v = ci + c) (all_visits a b ci k layouts))
     = map (counter_at b) [0..<cluster_hosts_count (layouts ! c)]"
proof (induction layouts arbitrary: ci k c)
  case (Cons lay layouts)
  let ?here = "visits a b ci k 0 (cluster_cells lay)"
  have idx: "v_clusterIndex v = ci" if "v \<in> set ?here" for v
    using that visits_map(5) [of a b ci k 0 "cluster_cells lay"]
    by (metis image_eqI list.set_map set_replicate_conv_if ball_empty emptyE singletonD)
  show ?case
  proof (cases c)
    case 0
    have "filter (\<lambda>v. v_clusterIndex v = ci) ?here = ?here" using idx by simp
    moreover have "filter (\<lambda>v. v_clusterIndex v = ci) (all_visits a b (Suc ci) (k + length (cluster_cells lay)) layouts) = []"
      using all_visits_index_ge by (fastforce simp: filter_empty_conv)
    ultimately show ?thesis using 0 by (simp add: visits_map length_cluster_cells)
  next
    case (Suc c')
    have "filter (\<lambda>v. v_clusterIndex v = ci + c) ?here = []" using idx Suc by (simp add: filter_empty_conv)
    with Suc Cons.prems Cons.IH [of c' "Suc ci" "k + length (cluster_cells lay)"] show ?thesis by simp
  qed
qed simp


section \<open>Addresses\<close>

text \<open>The number of pods per node the pod templates ask for. The code walks the index of the templates, a
  Go map, and keeps the number it meets last; the argument lists the templates in that order.\<close>

definition maxNumberOfPodsPerNode :: "ChiPodTemplate list \<Rightarrow> int" where
  "maxNumberOfPodsPerNode templates = fold (\<lambda>template n. fold (\<lambda>pd n.
       if pd_Type pd = PodDistributionMaxNumberPerNode then pd_Number pd else n)
     (pt_PodDistribution template) n) templates 0"

definition requestedClusterScopeCyclesNum :: "ChiPodTemplate list \<Rightarrow> int" where
  "requestedClusterScopeCyclesNum templates =
     (let n = maxNumberOfPodsPerNode templates in if n \<le> 0 then 1 else n)"

text \<open>\<open>math.Ceil\<close> of the quotient of two \<open>float64\<close>; exact below \<open>2\<^sup>5\<^sup>3\<close> hosts.\<close>

definition ceil_div :: "int \<Rightarrow> int \<Rightarrow> int" where
  "ceil_div a b = (a + b - 1) div b"

definition clusterScopeCycleSize :: "ChiPodTemplate list \<Rightarrow> ChiClusterLayout list \<Rightarrow> int" where
  "clusterScopeCycleSize templates layouts =
     (if requestedClusterScopeCyclesNum templates = 1 then 0
      else ceil_div (int (HostsCount layouts)) (requestedClusterScopeCyclesNum templates))"

definition fill_host_address ::
    "string \<Rightarrow> string \<Rightarrow> int \<Rightarrow> int \<Rightarrow> visit \<Rightarrow> string \<Rightarrow> string \<Rightarrow> string \<Rightarrow> ChiHost \<Rightarrow> ChiHost" where
  "fill_host_address namespace chi chiSize clusterSize v clusterName shardName replicaName host =
     host\<lparr>h_Address := (h_Address host)\<lparr>
       ha_Namespace := namespace,
       ha_CHIName := chi,
       ha_ClusterName := clusterName,
       ha_ClusterIndex := int (v_clusterIndex v),
       ha_ShardName := shardName,
       ha_ShardIndex := int (v_shardIndex v),
       ha_ReplicaName := replicaName,
       ha_ReplicaIndex := int (v_replicaIndex v),
       ha_HostName := h_Name host,
       ha_CHIScopeIndex := cc_Index (v_chiScope v),
       ha_CHIScopeCycleSize := chiSize,
       ha_CHIScopeCycleIndex := cc_CycleIndex (v_chiScope v),
       ha_CHIScopeCycleOffset := cc_CycleOffset (v_chiScope v),
       ha_ClusterScopeIndex := cc_Index (v_clusterScope v),
       ha_ClusterScopeCycleSize := clusterSize,
       ha_ClusterScopeCycleIndex := cc_CycleIndex (v_clusterScope v),
       ha_ClusterScopeCycleOffset := cc_CycleOffset (v_clusterScope v),
       ha_ShardScopeIndex := int (v_replicaIndex v),
       ha_ReplicaScopeIndex := int (v_shardIndex v)\<rparr>\<rparr>"

definition fill_cluster_address :: "string \<Rightarrow> string \<Rightarrow> nat \<Rightarrow> ChiCluster \<Rightarrow> ChiCluster" where
  "fill_cluster_address namespace chi ci cluster = cluster\<lparr>cu_Address :=
     \<lparr>ca_Namespace = namespace, ca_CHIName = chi, ca_ClusterName = cu_Name cluster, ca_ClusterIndex = int ci\<rparr>\<rparr>"

definition fill_shard_address :: "string \<Rightarrow> string \<Rightarrow> string \<Rightarrow> nat \<Rightarrow> nat \<Rightarrow> ChiShard \<Rightarrow> ChiShard" where
  "fill_shard_address namespace chi clusterName ci si shard = shard\<lparr>sh_Address :=
     \<lparr>sa_Namespace = namespace, sa_CHIName = chi, sa_ClusterName = clusterName, sa_ClusterIndex = int ci,
      sa_ShardName = sh_Name shard, sa_ShardIndex = int si\<rparr>\<rparr>"

definition fill_replica_address :: "string \<Rightarrow> string \<Rightarrow> string \<Rightarrow> nat \<Rightarrow> nat \<Rightarrow> ChiReplica \<Rightarrow> ChiReplica" where
  "fill_replica_address namespace chi clusterName ci ri replica = replica\<lparr>rp_Address :=
     \<lparr>rpa_Namespace = namespace, rpa_CHIName = chi, rpa_ClusterName = clusterName, rpa_ClusterIndex = int ci,
      rpa_ReplicaName = rp_Name replica, rpa_ReplicaIndex = int ri\<rparr>\<rparr>"

text \<open>The callback on one visited host.\<close>

definition fill_visit ::
    "string \<Rightarrow> string \<Rightarrow> int \<Rightarrow> int \<Rightarrow> visit \<Rightarrow> host_store \<times> ChiCluster list \<Rightarrow> (host_store \<times> ChiCluster list) go"
where
  "fill_visit namespace chi chiSize clusterSize v = (\<lambda>(store, clusters).
     let ci = v_clusterIndex v; si = v_shardIndex v; ri = v_replicaIndex v in
     go_bind (go_nth clusters (int ci)) (\<lambda>cluster.
     case cu_Layout cluster of None \<Rightarrow> Inl NilDereference | Some lay \<Rightarrow>
     go_bind (go_nth (lay_Shards lay) (int si)) (\<lambda>shard.
     go_bind (go_nth (lay_Replicas lay) (int ri)) (\<lambda>replica.
     case v_host v of None \<Rightarrow> Inl NilDereference | Some a \<Rightarrow>
       let cl = cu_Name cluster in
       Inr (store_put a (map_option
              (fill_host_address namespace chi chiSize clusterSize v cl (sh_Name shard) (rp_Name replica))
              (store_get store (Some a))) store,
            clusters[ci := (fill_cluster_address namespace chi ci cluster)\<lparr>cu_Layout := Some (lay\<lparr>
              lay_Shards := (lay_Shards lay)[si := fill_shard_address namespace chi cl ci si shard],
              lay_Replicas := (lay_Replicas lay)[ri := fill_replica_address namespace chi cl ci ri replica]\<rparr>)\<rparr>])))))"

definition FillSelfCalculatedAddressInfo ::
    "string \<Rightarrow> string \<Rightarrow> ChiPodTemplate list \<Rightarrow> host_store \<times> ChiCluster list
      \<Rightarrow> (host_store \<times> ChiCluster list) go" where
  "FillSelfCalculatedAddressInfo namespace chi templates = (\<lambda>(store, clusters).
     if list_ex (\<lambda>c. cu_Layout c = None) clusters then Inl NilDereference
     else let layouts = map (the \<circ> cu_Layout) clusters;
              clusterSize = clusterScopeCycleSize templates layouts
          in go_fold (fill_visit namespace chi 0 clusterSize) (WalkHostsFullPath 0 clusterSize layouts)
               (store, clusters))"

subsection \<open>What every host is told\<close>

type_synonym names = "(string \<times> string list \<times> string list) list"

definition names_of :: "ChiCluster list \<Rightarrow> names" where
  "names_of clusters = map (\<lambda>c. (cu_Name c,
     case cu_Layout c of None \<Rightarrow> [] | Some lay \<Rightarrow> map sh_Name (lay_Shards lay),
     case cu_Layout c of None \<Rightarrow> [] | Some lay \<Rightarrow> map rp_Name (lay_Replicas lay))) clusters"

definition addressed :: "string \<Rightarrow> string \<Rightarrow> int \<Rightarrow> int \<Rightarrow> names \<Rightarrow> visit \<Rightarrow> ChiHost \<Rightarrow> ChiHost" where
  "addressed namespace chi chiSize clusterSize ns v = fill_host_address namespace chi chiSize clusterSize v
     (fst (ns ! v_clusterIndex v)) (fst (snd (ns ! v_clusterIndex v)) ! v_shardIndex v)
     (snd (snd (ns ! v_clusterIndex v)) ! v_replicaIndex v)"

lemma fill_visit_step:
  assumes "fill_visit namespace chi a b v (store, clusters) = Inr (store', clusters')"
  obtains p where "v_host v = Some p" and "names_of clusters' = names_of clusters"
    and "store' = store_put p (map_option (addressed namespace chi a b (names_of clusters) v)
           (store_get store (Some p))) store"
proof -
  from assms obtain cluster lay shard replica p where
    c: "v_clusterIndex v < length clusters" "cluster = clusters ! v_clusterIndex v"
    and l: "cu_Layout cluster = Some lay"
    and s: "v_shardIndex v < length (lay_Shards lay)" "shard = lay_Shards lay ! v_shardIndex v"
    and r: "v_replicaIndex v < length (lay_Replicas lay)" "replica = lay_Replicas lay ! v_replicaIndex v"
    and p: "v_host v = Some p"
    unfolding fill_visit_def Let_def by (auto simp: go_bind_Inr_iff split: if_splits option.splits)
  have n: "names_of clusters ! v_clusterIndex v = (cu_Name cluster, map sh_Name (lay_Shards lay), map rp_Name (lay_Replicas lay))"
    using c l by (simp add: names_of_def)
  have sn: "map sh_Name ((lay_Shards lay)[v_shardIndex v := fill_shard_address namespace chi x y z shard])
      = map sh_Name (lay_Shards lay)" for x y z
    using s by (simp add: map_update fill_shard_address_def list_update_same_conv)
  have rn: "map rp_Name ((lay_Replicas lay)[v_replicaIndex v := fill_replica_address namespace chi x y z replica])
      = map rp_Name (lay_Replicas lay)" for x y z
    using r by (simp add: map_update fill_replica_address_def list_update_same_conv)
  from assms have st: "store' = store_put p (map_option (fill_host_address namespace chi a b v (cu_Name cluster)
        (sh_Name shard) (rp_Name replica)) (store_get store (Some p))) store"
    and cl: "clusters' = clusters[v_clusterIndex v := (fill_cluster_address namespace chi (v_clusterIndex v) cluster)\<lparr>
        cu_Layout := Some (lay\<lparr>
        lay_Shards := (lay_Shards lay)[v_shardIndex v :=
          fill_shard_address namespace chi (cu_Name cluster) (v_clusterIndex v) (v_shardIndex v) shard],
        lay_Replicas := (lay_Replicas lay)[v_replicaIndex v :=
          fill_replica_address namespace chi (cu_Name cluster) (v_clusterIndex v) (v_replicaIndex v) replica]\<rparr>)\<rparr>]"
    using c l s r p unfolding fill_visit_def Let_def by auto
  have "names_of clusters' = names_of clusters"
    unfolding cl names_of_def map_update
    using n c(1) by (simp add: names_of_def sn rn fill_cluster_address_def list_update_same_conv l c(2))
  moreover have "store' = store_put p (map_option (addressed namespace chi a b (names_of clusters) v)
      (store_get store (Some p))) store"
    unfolding st addressed_def n using s r by simp
  ultimately show ?thesis using p that by blast
qed


lemma store_put_get_nth:
  "p < length store \<Longrightarrow> store_put p (map_option f (store_get store (Some p))) store = store[p := f (store ! p)]"
  by (simp add: store_put_def store_get_def)

lemma store_put_length: "length (store_put p h store) = length store"
  by (simp add: store_put_def split: option.split)

lemma store_put_other: "q \<noteq> p \<Longrightarrow> store_put p h store ! q = store ! q"
  by (simp add: store_put_def split: option.split)

lemma fill_visits:
  assumes "go_fold (fill_visit namespace chi a b) vs (store, clusters) = Inr (store', clusters')"
    and "distinct (map v_host vs)"
  shows "length store' = length store \<and> names_of clusters' = names_of clusters
    \<and> (\<forall>v p. v \<in> set vs \<longrightarrow> v_host v = Some p \<longrightarrow> p < length store \<longrightarrow>
         store' ! p = addressed namespace chi a b (names_of clusters) v (store ! p))
    \<and> (\<forall>p. Some p \<notin> v_host ` set vs \<longrightarrow> store' ! p = store ! p)"
  using assms
proof (induction vs arbitrary: store clusters)
  case (Cons v vs)
  from Cons.prems(1) obtain store1 clusters1 where
    f: "fill_visit namespace chi a b v (store, clusters) = Inr (store1, clusters1)"
    and g: "go_fold (fill_visit namespace chi a b) vs (store1, clusters1) = Inr (store', clusters')"
    by (auto simp: go_bind_Inr_iff)
  from fill_visit_step [OF f] obtain p where
    p: "v_host v = Some p" and n: "names_of clusters1 = names_of clusters"
    and s: "store1 = store_put p (map_option (addressed namespace chi a b (names_of clusters) v)
           (store_get store (Some p))) store" by blast
  from Cons.prems(2) have d: "distinct (map v_host vs)" "v_host v \<notin> v_host ` set vs" by auto
  note IH = Cons.IH [OF g d(1)]
  have other: "store1 ! q = store ! q" if "q \<noteq> p" for q using that unfolding s by (rule store_put_other)
  have len: "length store1 = length store" unfolding s by (rule store_put_length)
  have self: "store1 ! p = addressed namespace chi a b (names_of clusters) v (store ! p)" if "p < length store"
    using that unfolding s by (simp add: store_put_get_nth)
  have "store' ! q = addressed namespace chi a b (names_of clusters) w (store ! q)"
    if w: "w \<in> set (v # vs)" "v_host w = Some q" "q < length store" for w q
  proof (cases "q = p")
    case True
    with w p d(2) have "w = v" by (metis (no_types) image_eqI set_ConsD)
    moreover have "store' ! p = store1 ! p" using IH d(2) p by metis
    ultimately show ?thesis using self True w(3) by simp
  next
    case False
    then have "w \<in> set vs" using w p by auto
    with IH w have "store' ! q = addressed namespace chi a b (names_of clusters1) w (store1 ! q)"
      by (simp add: len)
    with other [OF False] n show ?thesis by simp
  qed
  moreover have "store' ! q = store ! q" if "Some q \<notin> v_host ` set (v # vs)" for q
    using that p IH other [of q] by auto
  ultimately show ?case using IH len n by simp
qed simp


text \<open>
  The counters of the walk. The hosts come in the order of clusters, shards and replicas; the
  \<open>k\<close>-th host of the installation has number \<open>k\<close>, and the \<open>k\<close>-th host of every cluster has number \<open>k\<close> in
  the cluster; with a cycle size \<open>n > 0\<close> it is in cycle \<open>k div n\<close> at offset \<open>k mod n\<close>, without one in
  cycle \<open>0\<close> at offset \<open>k\<close>. So the incremental counters are the division they stand for.
\<close>

theorem walk_counters:
  "let vs = WalkHostsFullPath chiSize clusterSize layouts in
     map v_host vs = Installation_WalkHosts layouts
   \<and> map v_chiScope vs = map (counter_at chiSize) [0..<HostsCount layouts]
   \<and> list_all (\<lambda>c. map v_clusterScope (filter (\<lambda>v. v_clusterIndex v = c) vs)
         = map (counter_at clusterSize) [0..<cluster_hosts_count (layouts ! c)]) [0..<length layouts]"
  using all_visits_cluster [where b = clusterSize and a = chiSize and ci = 0 and k = 0]
  by (simp add: WalkHostsFullPath_all_visits all_visits_hosts all_visits_chi list_all_iff)

lemma ceil_div_mult: "0 < b \<Longrightarrow> a \<le> b * ceil_div a b"
  unfolding ceil_div_def using div_mult_mod_eq [of "a + b - 1" b] pos_mod_bound [of b "a + b - 1"]
  by (smt (verit) mult.commute)

lemma visit_in_cluster:
  assumes "v \<in> set (WalkHostsFullPath a b layouts)"
  obtains k where "v_clusterIndex v < length layouts" and "k < cluster_hosts_count (layouts ! v_clusterIndex v)"
    and "v_clusterScope v = counter_at b k"
proof -
  have lt: "v_clusterIndex v < ci + length layouts" if "v \<in> set (all_visits a b ci k layouts)" for ci k
    using that
  proof (induction layouts arbitrary: ci k)
    case (Cons lay layouts)
    have "v_clusterIndex v = ci" if "v \<in> set (visits a b ci k 0 (cluster_cells lay))"
      using that visits_map(5) [of a b ci k 0 "cluster_cells lay"]
      by (metis image_eqI list.set_map set_replicate_conv_if ball_empty emptyE singletonD)
    with Cons show ?case by fastforce
  qed simp
  let ?vs = "all_visits a b 0 0 layouts" and ?c = "v_clusterIndex v"
  have v: "v \<in> set ?vs" using assms by (simp add: WalkHostsFullPath_all_visits)
  then have c: "?c < length layouts" using lt [of 0 0] by simp
  have "v_clusterScope v \<in> set (map v_clusterScope (filter (\<lambda>w. v_clusterIndex w = 0 + ?c) ?vs))"
    using v by auto
  then have "v_clusterScope v \<in> set (map (counter_at b) [0..<cluster_hosts_count (layouts ! ?c)])"
    unfolding all_visits_cluster [OF c] .
  then show ?thesis using that c by auto
qed

lemma cluster_hosts_le: "c < length layouts \<Longrightarrow> cluster_hosts_count (layouts ! c) \<le> HostsCount layouts"
proof (induction layouts arbitrary: c)
  case (Cons lay layouts)
  then show ?case
    by (cases c) (auto simp: HostsCount_def Installation_WalkHosts_def cluster_hosts_count_def intro: trans_le_add2)
qed simp

text \<open>
  The cycles fit. When at most \<open>n\<close> pods per node are asked for, no host is in a cycle beyond the \<open>n\<close>
  first, so an anti-affinity between the pods of one cycle lets at most \<open>n\<close> pods of a cluster share a
  node; when fewer than two are asked for there is one cycle with all the hosts.
\<close>

theorem cycle_index_bounded:
  assumes "v \<in> set (WalkHostsFullPath 0 (clusterScopeCycleSize templates layouts) layouts)"
  shows "0 \<le> cc_CycleIndex (v_clusterScope v)
    \<and> cc_CycleIndex (v_clusterScope v) < max 1 (maxNumberOfPodsPerNode templates)
    \<and> 0 \<le> cc_CycleOffset (v_clusterScope v) \<and> cc_CycleOffset (v_clusterScope v) \<le> cc_Index (v_clusterScope v)"
proof -
  let ?n = "requestedClusterScopeCyclesNum templates" and ?s = "clusterScopeCycleSize templates layouts"
  have n: "?n = max 1 (maxNumberOfPodsPerNode templates)"
    by (auto simp: requestedClusterScopeCyclesNum_def Let_def)
  obtain k where c: "v_clusterIndex v < length layouts" "k < cluster_hosts_count (layouts ! v_clusterIndex v)"
    and at: "v_clusterScope v = counter_at ?s k"
    using visit_in_cluster [OF assms] by blast
  have k: "int k < int (HostsCount layouts)" using cluster_hosts_le [OF c(1)] c(2) by simp
  show ?thesis
  proof (cases "?s > 0")
    case True
    then have "?n > 1" using n by (auto simp: clusterScopeCycleSize_def split: if_splits)
    with True have "int (HostsCount layouts) \<le> ?n * ?s"
      using ceil_div_mult [of ?n] by (simp add: clusterScopeCycleSize_def)
    with k True have "int k div ?s < ?n"
      by (smt (verit) pos_imp_zdiv_neg_iff zdiv_mono1 nonzero_mult_div_cancel_right div_mult_mod_eq
          mult_less_cancel_right pos_mod_sign)
    with True show ?thesis unfolding at n [symmetric]
      by (simp add: counter_at_def pos_imp_zdiv_nonneg_iff zmod_le_nonneg_dividend)
  next
    case False
    then show ?thesis unfolding at by (simp add: counter_at_def)
  qed
qed


subsection \<open>An example\<close>

definition two_host_layout :: ChiClusterLayout where
  "two_host_layout = NewChiClusterLayout\<lparr>
     lay_Shards := [newChiShard\<lparr>sh_Name := ''0'', sh_Hosts := [Some 0, Some 1]\<rparr>],
     lay_Replicas := [newChiReplica\<lparr>rp_Name := ''0''\<rparr>, newChiReplica\<lparr>rp_Name := ''1''\<rparr>]\<rparr>"

definition two_host_cluster :: ChiCluster where
  "two_host_cluster = newDefaultCluster\<lparr>cu_Layout := Some two_host_layout\<rparr>"

definition two_host_store :: host_store where
  "two_host_store = [newChiHost\<lparr>h_Name := ''0-0''\<rparr>, newChiHost\<lparr>h_Name := ''0-1''\<rparr>]"

definition two_host_addressed :: "host_store \<times> ChiCluster list" where
  "two_host_addressed = projr (FillSelfCalculatedAddressInfo ''ns'' ''chi'' [] (two_host_store, [two_host_cluster]))"

lemma two_host_addressed:
  "FillSelfCalculatedAddressInfo ''ns'' ''chi'' [] (two_host_store, [two_host_cluster]) = Inr two_host_addressed"
proof -
  have "\<not> panics (FillSelfCalculatedAddressInfo ''ns'' ''chi'' [] (two_host_store, [two_host_cluster]))"
    by code_simp
  then show ?thesis by (auto simp: two_host_addressed_def not_panics_iff)
qed


definition two_per_node :: ChiPodTemplate where
  "two_per_node = \<lparr>pt_Name = ''p'', pt_GenerateName = '''', pt_ZoneKey = '''', pt_ZoneValues = [],
     pt_PodDistribution = [newDistribution PodDistributionMaxNumberPerNode ''Cluster'' 2],
     pt_ObjectMeta = object_named ''p'', pt_Spec = newPodSpec\<rparr>"

theorem cycle_index_bounded_witness:
  "cc_CycleIndex (v_clusterScope (visit_at 0 1 0 1 1 (0, 1, Some 1))) < 2"
proof -
  let ?lay = "[two_host_layout]"
  have s: "clusterScopeCycleSize [two_per_node] ?lay = 1"
    by (simp add: clusterScopeCycleSize_def requestedClusterScopeCyclesNum_def maxNumberOfPodsPerNode_def
        two_per_node_def newDistribution_def ceil_div_def HostsCount_def Installation_WalkHosts_def two_host_layout_def)
  have "visit_at 0 1 0 1 1 (0, 1, Some 1) \<in> set (WalkHostsFullPath 0 (clusterScopeCycleSize [two_per_node] ?lay) ?lay)"
    unfolding s by (simp add: WalkHostsFullPath_all_visits cluster_cells_def two_host_layout_def)
  from cycle_index_bounded [OF this] show ?thesis
    by (simp add: maxNumberOfPodsPerNode_def two_per_node_def newDistribution_def)
qed

section \<open>The status after normalization\<close>

text \<open>\<open>FillStatus\<close>; it reads the task id through a pointer.\<close>

definition FillStatus ::
    "string \<Rightarrow> string \<Rightarrow> string list \<Rightarrow> string list \<Rightarrow> bool \<Rightarrow> ChiClusterLayout list \<Rightarrow> Installation
      \<Rightarrow> Installation go" where
  "FillStatus version endpoint pods fqdns normalized layouts chi = (case sp_TaskID (in_Spec chi) of
     None \<Rightarrow> Inl NilDereference
   | Some taskID \<Rightarrow> Inr (chi\<lparr>in_Status := (in_Status chi)\<lparr>
       cs_Version := version,
       cs_ClustersCount := int (ClustersCount layouts),
       cs_ShardsCount := int (ShardsCount layouts),
       cs_HostsCount := int (HostsCount layouts),
       cs_TaskID := taskID,
       cs_UpdatedHostsCount := 0,
       cs_DeleteHostsCount := 0,
       cs_DeletedHostsCount := 0,
       cs_Pods := pods,
       cs_FQDNs := fqdns,
       cs_Endpoint := endpoint,
       cs_Generation := in_Generation chi,
       cs_NormalizedCHI := (if normalized then Some (in_Spec chi) else None)\<rparr>\<rparr>))"

end
