(* ===== verification/Namer.thy ===== *)
theory Namer
  imports Addressing
begin

text \<open>
  The names of the objects of an installation: \<open>pkg/model/namer.go\<close>, with the look-up of the templates a
  host, a shard, a cluster or an installation refers to (\<open>type_host.go\<close>, \<open>type_shard.go\<close>,
  \<open>type_cluster.go\<close>, \<open>type_chi.go\<close>).

  The SHA-1 sum in hex of a string, which the macros with an ID use, is a parameter (\<open>sha1\<close>). The length
  limits are constants above zero, so the cut of a name (\<open>StringHead\<close>) never panics and is written
  without the error.
\<close>

section \<open>Parts of names\<close>

definition namePartChiMaxLenNamesCtx :: int where "namePartChiMaxLenNamesCtx = 60"
definition namePartClusterMaxLenNamesCtx :: int where "namePartClusterMaxLenNamesCtx = 15"
definition namePartShardMaxLenNamesCtx :: int where "namePartShardMaxLenNamesCtx = 15"
definition namePartReplicaMaxLenNamesCtx :: int where "namePartReplicaMaxLenNamesCtx = 15"
definition namePartMaxLenLabelsCtx :: int where "namePartMaxLenLabelsCtx = 63"

lemmas name_lengths = namePartChiMaxLenNamesCtx_def namePartClusterMaxLenNamesCtx_def
  namePartShardMaxLenNamesCtx_def namePartReplicaMaxLenNamesCtx_def namePartMaxLenLabelsCtx_def

datatype namerContext = namerContextLabels | namerContextNames

definition trim_set :: "char set \<Rightarrow> string \<Rightarrow> string" where
  "trim_set cs s = rev (dropWhile (\<lambda>c. c \<in> cs) (rev (dropWhile (\<lambda>c. c \<in> cs) s)))"

definition sanitize :: "string \<Rightarrow> string" where
  "sanitize s = trim_set {CHR ''-'', CHR ''_'', CHR ''.''} s"

definition the_head :: "string \<Rightarrow> int \<Rightarrow> string" where
  "the_head s n = (case StringHead s n of Inr t \<Rightarrow> t | Inl _ \<Rightarrow> '''')"

definition the_id :: "(string \<Rightarrow> string) \<Rightarrow> string \<Rightarrow> int \<Rightarrow> string" where
  "the_id sha1 s n = (case CreateStringID sha1 s n of Inr t \<Rightarrow> t | Inl _ \<Rightarrow> '''')"

definition chi_len :: "namerContext \<Rightarrow> int" where
  "chi_len ctx = (case ctx of namerContextLabels \<Rightarrow> namePartMaxLenLabelsCtx
     | namerContextNames \<Rightarrow> namePartChiMaxLenNamesCtx)"

definition cluster_len :: "namerContext \<Rightarrow> int" where
  "cluster_len ctx = (case ctx of namerContextLabels \<Rightarrow> namePartMaxLenLabelsCtx
     | namerContextNames \<Rightarrow> namePartClusterMaxLenNamesCtx)"

definition shard_len :: "namerContext \<Rightarrow> int" where
  "shard_len ctx = (case ctx of namerContextLabels \<Rightarrow> namePartMaxLenLabelsCtx
     | namerContextNames \<Rightarrow> namePartShardMaxLenNamesCtx)"

definition replica_len :: "namerContext \<Rightarrow> int" where
  "replica_len ctx = (case ctx of namerContextLabels \<Rightarrow> namePartMaxLenLabelsCtx
     | namerContextNames \<Rightarrow> namePartReplicaMaxLenNamesCtx)"

definition namePartNamespace :: "namerContext \<Rightarrow> string \<Rightarrow> string" where
  "namePartNamespace ctx name = sanitize (the_head name (chi_len ctx))"

definition namePartChiName :: "namerContext \<Rightarrow> string \<Rightarrow> string" where
  "namePartChiName ctx name = sanitize (the_head name (chi_len ctx))"

definition namePartChiNameID :: "(string \<Rightarrow> string) \<Rightarrow> namerContext \<Rightarrow> string \<Rightarrow> string" where
  "namePartChiNameID sha1 ctx name = the_id sha1 name (chi_len ctx)"

definition namePartClusterName :: "namerContext \<Rightarrow> string \<Rightarrow> string" where
  "namePartClusterName ctx name = sanitize (the_head name (cluster_len ctx))"

definition namePartClusterNameID :: "(string \<Rightarrow> string) \<Rightarrow> namerContext \<Rightarrow> string \<Rightarrow> string" where
  "namePartClusterNameID sha1 ctx name = the_id sha1 name (cluster_len ctx)"

definition namePartShardName :: "namerContext \<Rightarrow> string \<Rightarrow> string" where
  "namePartShardName ctx name = sanitize (the_head name (shard_len ctx))"

definition namePartShardNameID :: "(string \<Rightarrow> string) \<Rightarrow> namerContext \<Rightarrow> string \<Rightarrow> string" where
  "namePartShardNameID sha1 ctx name = the_id sha1 name (shard_len ctx)"

definition namePartReplicaName :: "namerContext \<Rightarrow> string \<Rightarrow> string" where
  "namePartReplicaName ctx name = sanitize (the_head name (replica_len ctx))"

definition namePartReplicaNameID :: "(string \<Rightarrow> string) \<Rightarrow> namerContext \<Rightarrow> string \<Rightarrow> string" where
  "namePartReplicaNameID sha1 ctx name = the_id sha1 name (replica_len ctx)"

definition namePartHostName :: "namerContext \<Rightarrow> string \<Rightarrow> string" where
  "namePartHostName ctx name = sanitize (the_head name (replica_len ctx))"

definition namePartHostNameID :: "(string \<Rightarrow> string) \<Rightarrow> namerContext \<Rightarrow> string \<Rightarrow> string" where
  "namePartHostNameID sha1 ctx name = the_id sha1 name (replica_len ctx)"

definition namePartZooKeeperIndex :: "namerContext \<Rightarrow> int \<Rightarrow> string" where
  "namePartZooKeeperIndex ctx index = the_head (Itoa index) (replica_len ctx)"

text \<open>The objects a part is taken from; the code switches on the dynamic type.\<close>

datatype named_obj =
    ObjCHI ObjectMeta
  | ObjCluster ChiCluster
  | ObjShard ChiShard
  | ObjHost ChiHost
  | ObjOther

fun getNamePartNamespace :: "namerContext \<Rightarrow> named_obj \<Rightarrow> string" where
  "getNamePartNamespace ctx (ObjCHI chi) = namePartChiName ctx (om_Namespace chi)"
| "getNamePartNamespace ctx (ObjCluster cluster) = namePartChiName ctx (ca_Namespace (cu_Address cluster))"
| "getNamePartNamespace ctx (ObjShard shard) = namePartChiName ctx (sa_Namespace (sh_Address shard))"
| "getNamePartNamespace ctx (ObjHost host) = namePartChiName ctx (ha_Namespace (h_Address host))"
| "getNamePartNamespace ctx ObjOther = ''ERROR''"

fun getNamePartCHIName :: "namerContext \<Rightarrow> named_obj \<Rightarrow> string" where
  "getNamePartCHIName ctx (ObjCHI chi) = namePartChiName ctx (om_Name chi)"
| "getNamePartCHIName ctx (ObjCluster cluster) = namePartChiName ctx (ca_CHIName (cu_Address cluster))"
| "getNamePartCHIName ctx (ObjShard shard) = namePartChiName ctx (sa_CHIName (sh_Address shard))"
| "getNamePartCHIName ctx (ObjHost host) = namePartChiName ctx (ha_CHIName (h_Address host))"
| "getNamePartCHIName ctx ObjOther = ''ERROR''"

fun getNamePartClusterName :: "namerContext \<Rightarrow> named_obj \<Rightarrow> string" where
  "getNamePartClusterName ctx (ObjCluster cluster) = namePartClusterName ctx (ca_ClusterName (cu_Address cluster))"
| "getNamePartClusterName ctx (ObjShard shard) = namePartClusterName ctx (sa_ClusterName (sh_Address shard))"
| "getNamePartClusterName ctx (ObjHost host) = namePartClusterName ctx (ha_ClusterName (h_Address host))"
| "getNamePartClusterName ctx _ = ''ERROR''"

fun getNamePartShardName :: "namerContext \<Rightarrow> named_obj \<Rightarrow> string" where
  "getNamePartShardName ctx (ObjShard shard) = namePartShardName ctx (sa_ShardName (sh_Address shard))"
| "getNamePartShardName ctx (ObjHost host) = namePartShardName ctx (ha_ShardName (h_Address host))"
| "getNamePartShardName ctx _ = ''ERROR''"

definition getNamePartReplicaName :: "namerContext \<Rightarrow> ChiHost \<Rightarrow> string" where
  "getNamePartReplicaName ctx host = namePartReplicaName ctx (ha_ReplicaName (h_Address host))"

definition getNamePartHostName :: "namerContext \<Rightarrow> ChiHost \<Rightarrow> string" where
  "getNamePartHostName ctx host = namePartHostName ctx (ha_HostName (h_Address host))"


section \<open>Templates of an object\<close>

definition HasServiceTemplate :: "ChiTemplateNames option \<Rightarrow> bool" where
  "HasServiceTemplate t = (case t of None \<Rightarrow> False | Some n \<Rightarrow> length (tn_ServiceTemplate n) > 0)"
definition GetServiceTemplate :: "ChiTemplateNames option \<Rightarrow> string" where
  "GetServiceTemplate t = (case t of None \<Rightarrow> '''' | Some n \<Rightarrow> tn_ServiceTemplate n)"
definition HasClusterServiceTemplate :: "ChiTemplateNames option \<Rightarrow> bool" where
  "HasClusterServiceTemplate t = (case t of None \<Rightarrow> False | Some n \<Rightarrow> length (tn_ClusterServiceTemplate n) > 0)"
definition GetClusterServiceTemplate :: "ChiTemplateNames option \<Rightarrow> string" where
  "GetClusterServiceTemplate t = (case t of None \<Rightarrow> '''' | Some n \<Rightarrow> tn_ClusterServiceTemplate n)"
definition HasShardServiceTemplate :: "ChiTemplateNames option \<Rightarrow> bool" where
  "HasShardServiceTemplate t = (case t of None \<Rightarrow> False | Some n \<Rightarrow> length (tn_ShardServiceTemplate n) > 0)"
definition GetShardServiceTemplate :: "ChiTemplateNames option \<Rightarrow> string" where
  "GetShardServiceTemplate t = (case t of None \<Rightarrow> '''' | Some n \<Rightarrow> tn_ShardServiceTemplate n)"
definition HasReplicaServiceTemplate :: "ChiTemplateNames option \<Rightarrow> bool" where
  "HasReplicaServiceTemplate t = (case t of None \<Rightarrow> False | Some n \<Rightarrow> length (tn_ReplicaServiceTemplate n) > 0)"
definition GetReplicaServiceTemplate :: "ChiTemplateNames option \<Rightarrow> string" where
  "GetReplicaServiceTemplate t = (case t of None \<Rightarrow> '''' | Some n \<Rightarrow> tn_ReplicaServiceTemplate n)"

definition indexed :: "'a list \<Rightarrow> templates_index \<Rightarrow> string \<Rightarrow> 'a option" where
  "indexed ts i name = (case Index_Get i name of None \<Rightarrow> None | Some k \<Rightarrow> if k < length ts then Some (ts ! k) else None)"

definition CHI_GetPodTemplate :: "ChiTemplates option \<Rightarrow> string \<Rightarrow> ChiPodTemplate option" where
  "CHI_GetPodTemplate templates name = (case templates of None \<Rightarrow> None
     | Some t \<Rightarrow> indexed (tps_PodTemplates t) (tps_PodTemplatesIndex t) name)"

definition CHI_GetHostTemplate :: "ChiTemplates option \<Rightarrow> string \<Rightarrow> ChiHostTemplate option" where
  "CHI_GetHostTemplate templates name = (case templates of None \<Rightarrow> None
     | Some t \<Rightarrow> map_option snd (indexed (tps_HostTemplates t) (tps_HostTemplatesIndex t) name))"

definition CHI_GetServiceTemplate :: "ChiTemplates option \<Rightarrow> string \<Rightarrow> ChiServiceTemplate option" where
  "CHI_GetServiceTemplate templates name = (case templates of None \<Rightarrow> None
     | Some t \<Rightarrow> indexed (tps_ServiceTemplates t) (tps_ServiceTemplatesIndex t) name)"

text \<open>The defaults are read through a pointer that normalization has set.\<close>

definition GetCHIServiceTemplate :: "ChiSpec \<Rightarrow> ChiServiceTemplate option" where
  "GetCHIServiceTemplate spec = (let names = (case sp_Defaults spec of None \<Rightarrow> None | Some d \<Rightarrow> def_Templates d) in
     if \<not> HasServiceTemplate names then None
     else CHI_GetServiceTemplate (sp_Templates spec) (GetServiceTemplate names))"

definition Cluster_GetServiceTemplate :: "ChiTemplates option \<Rightarrow> ChiCluster \<Rightarrow> ChiServiceTemplate option" where
  "Cluster_GetServiceTemplate templates cluster = (if \<not> HasClusterServiceTemplate (cu_Templates cluster) then None
     else CHI_GetServiceTemplate templates (GetClusterServiceTemplate (cu_Templates cluster)))"

definition Shard_GetServiceTemplate :: "ChiTemplates option \<Rightarrow> ChiShard \<Rightarrow> ChiServiceTemplate option" where
  "Shard_GetServiceTemplate templates shard = (if \<not> HasShardServiceTemplate (sh_Templates shard) then None
     else CHI_GetServiceTemplate templates (GetShardServiceTemplate (sh_Templates shard)))"

definition Host_GetServiceTemplate :: "ChiTemplates option \<Rightarrow> ChiHost \<Rightarrow> ChiServiceTemplate option" where
  "Host_GetServiceTemplate templates host = (if \<not> HasReplicaServiceTemplate (h_Templates host) then None
     else CHI_GetServiceTemplate templates (GetReplicaServiceTemplate (h_Templates host)))"

definition Host_GetPodTemplate :: "ChiTemplates option \<Rightarrow> ChiHost \<Rightarrow> ChiPodTemplate option" where
  "Host_GetPodTemplate templates host = (if \<not> HasPodTemplate (h_Templates host) then None
     else CHI_GetPodTemplate templates (GetPodTemplate (h_Templates host)))"

definition Host_GetHostTemplate :: "ChiTemplates option \<Rightarrow> ChiHost \<Rightarrow> ChiHostTemplate option" where
  "Host_GetHostTemplate templates host = (if \<not> HasHostTemplate (h_Templates host) then None
     else CHI_GetHostTemplate templates (GetHostTemplate (h_Templates host)))"

section \<open>Macros\<close>

definition newNameMacroReplacerChi :: "(string \<Rightarrow> string) \<Rightarrow> ObjectMeta \<Rightarrow> (string \<times> string) list" where
  "newNameMacroReplacerChi sha1 chi = (let n = namerContextNames in
    [(''{namespace}'', namePartNamespace n (om_Namespace chi)),
     (''{chi}'', namePartChiName n (om_Name chi)),
     (''{chiID}'', namePartChiNameID sha1 n (om_Name chi))])"

definition newNameMacroReplacerZooKeeper :: "(string \<Rightarrow> string) \<Rightarrow> ObjectMeta \<Rightarrow> (string \<times> string) list" where
  "newNameMacroReplacerZooKeeper sha1 chi = (let n = namerContextNames in
    [(''{namespace}'', namePartNamespace n (om_Namespace chi)),
     (''{chi}'', namePartChiName n (om_Name chi)),
     (''{chiID}'', namePartChiNameID sha1 n (om_Name chi))])"

definition newNameMacroReplacerZooKeeperPod ::
    "(string \<Rightarrow> string) \<Rightarrow> ObjectMeta \<Rightarrow> int \<Rightarrow> (string \<times> string) list" where
  "newNameMacroReplacerZooKeeperPod sha1 chi index = (let n = namerContextNames in
    [(''{namespace}'', namePartNamespace n (om_Namespace chi)),
     (''{chi}'', namePartChiName n (om_Name chi)),
     (''{chiID}'', namePartChiNameID sha1 n (om_Name chi)),
     (''{zooKeeperIndex}'', namePartZooKeeperIndex n index)])"

definition newNameMacroReplacerCluster :: "(string \<Rightarrow> string) \<Rightarrow> ChiCluster \<Rightarrow> (string \<times> string) list" where
  "newNameMacroReplacerCluster sha1 cluster = (let n = namerContextNames; a = cu_Address cluster in
    [(''{namespace}'', namePartNamespace n (ca_Namespace a)),
     (''{chi}'', namePartChiName n (ca_CHIName a)),
     (''{chiID}'', namePartChiNameID sha1 n (ca_CHIName a)),
     (''{cluster}'', namePartClusterName n (ca_ClusterName a)),
     (''{clusterID}'', namePartClusterNameID sha1 n (ca_ClusterName a)),
     (''{clusterIndex}'', Itoa (ca_ClusterIndex a))])"

definition newNameMacroReplacerShard :: "(string \<Rightarrow> string) \<Rightarrow> ChiShard \<Rightarrow> (string \<times> string) list" where
  "newNameMacroReplacerShard sha1 shard = (let n = namerContextNames; a = sh_Address shard in
    [(''{namespace}'', namePartNamespace n (sa_Namespace a)),
     (''{chi}'', namePartChiName n (sa_CHIName a)),
     (''{chiID}'', namePartChiNameID sha1 n (sa_CHIName a)),
     (''{cluster}'', namePartClusterName n (sa_ClusterName a)),
     (''{clusterID}'', namePartClusterNameID sha1 n (sa_ClusterName a)),
     (''{clusterIndex}'', Itoa (sa_ClusterIndex a)),
     (''{shard}'', namePartShardName n (sa_ShardName a)),
     (''{shardID}'', namePartShardNameID sha1 n (sa_ShardName a)),
     (''{shardIndex}'', Itoa (sa_ShardIndex a))])"

definition clusterScopeIndexOfPreviousCycleTail :: "ChiHost \<Rightarrow> int" where
  "clusterScopeIndexOfPreviousCycleTail host = (let a = h_Address host in
     if ha_ClusterScopeCycleOffset a = 0
     then (if ha_ClusterScopeIndex a = 0 then ha_ClusterScopeIndex a else ha_ClusterScopeIndex a - 1)
     else ha_ClusterScopeIndex a)"

definition newNameMacroReplacerHost :: "(string \<Rightarrow> string) \<Rightarrow> ChiHost \<Rightarrow> (string \<times> string) list" where
  "newNameMacroReplacerHost sha1 host = (let n = namerContextNames; a = h_Address host in
    [(''{namespace}'', namePartNamespace n (ha_Namespace a)),
     (''{chi}'', namePartChiName n (ha_CHIName a)),
     (''{chiID}'', namePartChiNameID sha1 n (ha_CHIName a)),
     (''{cluster}'', namePartClusterName n (ha_ClusterName a)),
     (''{clusterID}'', namePartClusterNameID sha1 n (ha_ClusterName a)),
     (''{clusterIndex}'', Itoa (ha_ClusterIndex a)),
     (''{shard}'', namePartShardName n (ha_ShardName a)),
     (''{shardID}'', namePartShardNameID sha1 n (ha_ShardName a)),
     (''{shardIndex}'', Itoa (ha_ShardIndex a)),
     (''{shardScopeIndex}'', Itoa (ha_ShardScopeIndex a)),
     (''{replica}'', namePartReplicaName n (ha_ReplicaName a)),
     (''{replicaID}'', namePartReplicaNameID sha1 n (ha_ReplicaName a)),
     (''{replicaIndex}'', Itoa (ha_ReplicaIndex a)),
     (''{replicaScopeIndex}'', Itoa (ha_ReplicaScopeIndex a)),
     (''{host}'', namePartHostName n (ha_HostName a)),
     (''{hostID}'', namePartHostNameID sha1 n (ha_HostName a)),
     (''{chiScopeIndex}'', Itoa (ha_CHIScopeIndex a)),
     (''{chiScopeCycleIndex}'', Itoa (ha_CHIScopeCycleIndex a)),
     (''{chiScopeCycleOffset}'', Itoa (ha_CHIScopeCycleOffset a)),
     (''{clusterScopeIndex}'', Itoa (ha_ClusterScopeIndex a)),
     (''{clusterScopeCycleIndex}'', Itoa (ha_ClusterScopeCycleIndex a)),
     (''{clusterScopeCycleOffset}'', Itoa (ha_ClusterScopeCycleOffset a)),
     (''{clusterScopeCycleHeadPointsToPreviousCycleTail}'', Itoa (clusterScopeIndexOfPreviousCycleTail host))])"

section \<open>Names of objects\<close>

definition generated :: "string \<Rightarrow> string \<Rightarrow> string" where
  "generated pattern generateName = (if generateName \<noteq> '''' then generateName else pattern)"

definition CreateConfigMapPersonalName :: "(string \<Rightarrow> string) \<Rightarrow> ChiHost \<Rightarrow> string" where
  "CreateConfigMapPersonalName sha1 host =
     replacer (newNameMacroReplacerHost sha1 host) ''chi-{chi}-deploy-confd-{cluster}-{host}''"

definition CreateConfigMapCommonName :: "(string \<Rightarrow> string) \<Rightarrow> ObjectMeta \<Rightarrow> string" where
  "CreateConfigMapCommonName sha1 chi = replacer (newNameMacroReplacerChi sha1 chi) ''chi-{chi}-common-configd''"

definition CreateConfigMapCommonUsersName :: "(string \<Rightarrow> string) \<Rightarrow> ObjectMeta \<Rightarrow> string" where
  "CreateConfigMapCommonUsersName sha1 chi = replacer (newNameMacroReplacerChi sha1 chi) ''chi-{chi}-common-usersd''"

definition CreateCHIServiceName :: "(string \<Rightarrow> string) \<Rightarrow> ObjectMeta \<Rightarrow> ChiSpec \<Rightarrow> string" where
  "CreateCHIServiceName sha1 chi spec = (let pattern = (case GetCHIServiceTemplate spec of
       Some t \<Rightarrow> generated ''clickhouse-{chi}'' (st_GenerateName t) | None \<Rightarrow> ''clickhouse-{chi}'')
     in replacer (newNameMacroReplacerChi sha1 chi) pattern)"

definition CreateClusterServiceName :: "(string \<Rightarrow> string) \<Rightarrow> ChiTemplates option \<Rightarrow> ChiCluster \<Rightarrow> string" where
  "CreateClusterServiceName sha1 templates cluster = (let pattern = (case Cluster_GetServiceTemplate templates cluster of
       Some t \<Rightarrow> generated ''cluster-{chi}-{cluster}'' (st_GenerateName t) | None \<Rightarrow> ''cluster-{chi}-{cluster}'')
     in replacer (newNameMacroReplacerCluster sha1 cluster) pattern)"

definition CreateShardServiceName :: "(string \<Rightarrow> string) \<Rightarrow> ChiTemplates option \<Rightarrow> ChiShard \<Rightarrow> string" where
  "CreateShardServiceName sha1 templates shard = (let pattern = (case Shard_GetServiceTemplate templates shard of
       Some t \<Rightarrow> generated ''shard-{chi}-{cluster}-{shard}'' (st_GenerateName t)
     | None \<Rightarrow> ''shard-{chi}-{cluster}-{shard}'')
     in replacer (newNameMacroReplacerShard sha1 shard) pattern)"

definition CreateStatefulSetName :: "(string \<Rightarrow> string) \<Rightarrow> ChiTemplates option \<Rightarrow> ChiHost \<Rightarrow> string" where
  "CreateStatefulSetName sha1 templates host = (let pattern = (case Host_GetPodTemplate templates host of
       Some t \<Rightarrow> generated ''chi-{chi}-{cluster}-{host}'' (pt_GenerateName t) | None \<Rightarrow> ''chi-{chi}-{cluster}-{host}'')
     in replacer (newNameMacroReplacerHost sha1 host) pattern)"

definition CreateStatefulSetServiceName :: "(string \<Rightarrow> string) \<Rightarrow> ChiTemplates option \<Rightarrow> ChiHost \<Rightarrow> string" where
  "CreateStatefulSetServiceName sha1 templates host = (let pattern = (case Host_GetServiceTemplate templates host of
       Some t \<Rightarrow> generated ''chi-{chi}-{cluster}-{host}'' (st_GenerateName t) | None \<Rightarrow> ''chi-{chi}-{cluster}-{host}'')
     in replacer (newNameMacroReplacerHost sha1 host) pattern)"

definition CreateStatefulSetZooKeeperName :: "(string \<Rightarrow> string) \<Rightarrow> ObjectMeta \<Rightarrow> string" where
  "CreateStatefulSetZooKeeperName sha1 chi = replacer (newNameMacroReplacerZooKeeper sha1 chi) ''zk-{chi}''"

definition CreateStatefulSetServiceZooKeeperServerName :: "(string \<Rightarrow> string) \<Rightarrow> ObjectMeta \<Rightarrow> string" where
  "CreateStatefulSetServiceZooKeeperServerName sha1 chi =
     replacer (newNameMacroReplacerZooKeeper sha1 chi) ''zk-server-{chi}''"

definition CreateStatefulSetServiceZooKeeperClientName :: "(string \<Rightarrow> string) \<Rightarrow> ObjectMeta \<Rightarrow> string" where
  "CreateStatefulSetServiceZooKeeperClientName sha1 chi =
     replacer (newNameMacroReplacerZooKeeper sha1 chi) ''zk-client-{chi}''"

definition CreatePodDisruptionBudgetZooKeeperName :: "(string \<Rightarrow> string) \<Rightarrow> ObjectMeta \<Rightarrow> string" where
  "CreatePodDisruptionBudgetZooKeeperName sha1 chi =
     replacer (newNameMacroReplacerZooKeeper sha1 chi) ''zk-pdb-{chi}''"

definition CreatePodZooKeepername :: "(string \<Rightarrow> string) \<Rightarrow> ObjectMeta \<Rightarrow> int \<Rightarrow> string" where
  "CreatePodZooKeepername sha1 chi index =
     replacer (newNameMacroReplacerZooKeeperPod sha1 chi index) ''zk-{chi}-{zooKeeperIndex}''"

definition CreatePodHostname :: "(string \<Rightarrow> string) \<Rightarrow> ChiTemplates option \<Rightarrow> ChiHost \<Rightarrow> string" where
  "CreatePodHostname sha1 templates host = CreateStatefulSetServiceName sha1 templates host"

definition CreatePodRegexp :: "(string \<Rightarrow> string) \<Rightarrow> ObjectMeta \<Rightarrow> string \<Rightarrow> string" where
  "CreatePodRegexp sha1 chi template = replacer (newNameMacroReplacerChi sha1 chi) template"

datatype pod_owner = OfStatefulSet string | OfHost ChiHost | OfUnknown

fun CreatePodName :: "(string \<Rightarrow> string) \<Rightarrow> ChiTemplates option \<Rightarrow> pod_owner \<Rightarrow> string" where
  "CreatePodName sha1 templates (OfStatefulSet name) = name @ ''-0''"
| "CreatePodName sha1 templates (OfHost host) = CreateStatefulSetName sha1 templates host @ ''-0''"
| "CreatePodName sha1 templates OfUnknown = ''unknown-type''"

definition CreatePVCName ::
    "(string \<Rightarrow> string) \<Rightarrow> ChiTemplates option \<Rightarrow> ChiHost \<Rightarrow> ChiVolumeClaimTemplate \<Rightarrow> string" where
  "CreatePVCName sha1 templates host template =
     vt_Name template @ ''-'' @ CreatePodName sha1 templates (OfHost host)"


section \<open>Domain names\<close>

text \<open>
  \<open>fmt.Sprintf\<close> on string arguments, for formats whose directives are \<open>%s\<close> and \<open>%%\<close>: a missing argument and
  superfluous ones are reported inside the result, as Go does. \<open>None\<close> stands for a format with any other
  directive, which is not modelled.
\<close>

fun extra_args :: "string list \<Rightarrow> string" where
  "extra_args [] = ''''"
| "extra_args [a] = ''string='' @ a"
| "extra_args (a # as) = ''string='' @ a @ '', '' @ extra_args as"

fun Sprintf :: "string \<Rightarrow> string list \<Rightarrow> string option" where
  "Sprintf [] as = Some (if as = [] then '''' else ''%!(EXTRA '' @ extra_args as @ '')'')"
| "Sprintf (c # s) as =
     (if c \<noteq> CHR ''%'' then map_option ((#) c) (Sprintf s as)
      else case s of
        [] \<Rightarrow> Some (''%!(NOVERB)'' @ (if as = [] then '''' else ''%!(EXTRA '' @ extra_args as @ '')''))
      | d # t \<Rightarrow>
          if d = CHR ''%'' then map_option ((#) d) (Sprintf t as)
          else if d = CHR ''s'' then
            (case as of [] \<Rightarrow> map_option ((@) ''%!s(MISSING)'') (Sprintf t [])
             | a # as \<Rightarrow> map_option ((@) a) (Sprintf t as))
          else None)"

definition domainPattern :: "ChiSpec \<Rightarrow> string" where
  "domainPattern spec = (if sp_NamespaceDomainPattern spec \<noteq> '''' then ''%s.'' @ sp_NamespaceDomainPattern spec
     else ''%s.%s.svc.cluster.local'')"

definition CreateCHIServiceFQDN :: "(string \<Rightarrow> string) \<Rightarrow> ObjectMeta \<Rightarrow> ChiSpec \<Rightarrow> string option" where
  "CreateCHIServiceFQDN sha1 chi spec =
     Sprintf (domainPattern spec) [CreateCHIServiceName sha1 chi spec, om_Namespace chi]"

definition createPodFQDN :: "(string \<Rightarrow> string) \<Rightarrow> ChiSpec \<Rightarrow> ChiHost \<Rightarrow> string option" where
  "createPodFQDN sha1 spec host =
     Sprintf (domainPattern spec) [CreatePodHostname sha1 (sp_Templates spec) host, ha_Namespace (h_Address host)]"

definition CreatePodFQDNOfZooKeeper :: "(string \<Rightarrow> string) \<Rightarrow> ObjectMeta \<Rightarrow> ChiSpec \<Rightarrow> int \<Rightarrow> string option" where
  "CreatePodFQDNOfZooKeeper sha1 chi spec index = Sprintf (domainPattern spec)
     [CreatePodZooKeepername sha1 chi index @ ''.'' @ CreateStatefulSetServiceZooKeeperServerName sha1 chi,
      om_Namespace chi]"

definition createPodFQDNsOfShard ::
    "(string \<Rightarrow> string) \<Rightarrow> ChiSpec \<Rightarrow> host_store \<Rightarrow> ChiShard \<Rightarrow> string option list" where
  "createPodFQDNsOfShard sha1 spec store shard =
     map (\<lambda>p. Option.bind (store_get store p) (createPodFQDN sha1 spec)) (sh_Hosts shard)"

definition createPodFQDNsOfCluster ::
    "(string \<Rightarrow> string) \<Rightarrow> ChiSpec \<Rightarrow> host_store \<Rightarrow> ChiClusterLayout \<Rightarrow> string option list" where
  "createPodFQDNsOfCluster sha1 spec store lay =
     map (\<lambda>p. Option.bind (store_get store p) (createPodFQDN sha1 spec)) (WalkHosts lay)"

definition createPodFQDNsOfCHI ::
    "(string \<Rightarrow> string) \<Rightarrow> ChiSpec \<Rightarrow> host_store \<Rightarrow> ChiClusterLayout list \<Rightarrow> string option list" where
  "createPodFQDNsOfCHI sha1 spec store layouts =
     map (\<lambda>p. Option.bind (store_get store p) (createPodFQDN sha1 spec)) (Installation_WalkHosts layouts)"

definition CreateReplicaHostname :: "(string \<Rightarrow> string) \<Rightarrow> ChiSpec \<Rightarrow> ChiHost \<Rightarrow> string option" where
  "CreateReplicaHostname sha1 spec host =
     (if IsStringBoolTrue (case sp_Defaults spec of None \<Rightarrow> '''' | Some d \<Rightarrow> def_ReplicasUseFQDN d)
      then createPodFQDN sha1 spec host
      else Some (CreatePodHostname sha1 (sp_Templates spec) host))"

text \<open>\<open>CreateFQDNs\<close> of a host: the names of the pods of its shard, its cluster or the installation, without
  its own when it is excluded. The neighbours are given as the code finds them.\<close>

definition FQDNs_of_scope :: "(string \<Rightarrow> string) \<Rightarrow> ChiSpec \<Rightarrow> string option list \<Rightarrow> bool \<Rightarrow> ChiHost \<Rightarrow> string option list"
where
  "FQDNs_of_scope sha1 spec neighbours excludeSelf host =
     RemoveFromArray (if excludeSelf then createPodFQDN sha1 spec host else Some '''') neighbours"

section \<open>What the names are\<close>

lemma the_head_take: "0 \<le> n \<Longrightarrow> the_head s n = take (nat n) s"
  by (auto simp: the_head_def StringHead_def)

lemma replacer_step:
  "c \<noteq> CHR ''{'' \<Longrightarrow> list_all (\<lambda>p. fst p \<noteq> [] \<and> hd (fst p) = CHR ''{'') ps \<Longrightarrow>
     replacer ps (c # s) = c # replacer ps s"
proof -
  assume c: "c \<noteq> CHR ''{''" and ps: "list_all (\<lambda>p. fst p \<noteq> [] \<and> hd (fst p) = CHR ''{'') ps"
  have "find_macro ps (c # s) = None"
    by (rule find_macro_None_noprefix) (use c ps in \<open>fastforce simp: list_all_iff\<close>)
  then show ?thesis by simp
qed

lemma host_macros_open: "list_all (\<lambda>p. fst p \<noteq> [] \<and> hd (fst p) = CHR ''{'') (newNameMacroReplacerHost sha1 host)"
  by (simp add: newNameMacroReplacerHost_def Let_def)

lemma host_macros_find:
  "find_macro (newNameMacroReplacerHost sha1 host) (''{chi}'' @ s)
     = Some (''{chi}'', namePartChiName namerContextNames (ha_CHIName (h_Address host)))"
  "find_macro (newNameMacroReplacerHost sha1 host) (''{cluster}'' @ s)
     = Some (''{cluster}'', namePartClusterName namerContextNames (ha_ClusterName (h_Address host)))"
  "find_macro (newNameMacroReplacerHost sha1 host) (''{host}'' @ s)
     = Some (''{host}'', namePartHostName namerContextNames (ha_HostName (h_Address host)))"
  by (simp_all add: newNameMacroReplacerHost_def Let_def starts_with_def)

lemma replacer_macro:
  "find_macro ps (old @ s) = Some (old, new) \<Longrightarrow> replacer ps (old @ s) = new @ replacer ps s"
  using find_macro_Some [of ps "old @ s" old new] by (cases old) auto

lemma host_pattern:
  "replacer (newNameMacroReplacerHost sha1 host) ''chi-{chi}-{cluster}-{host}''
     = ''chi-'' @ namePartChiName namerContextNames (ha_CHIName (h_Address host)) @ ''-''
       @ namePartClusterName namerContextNames (ha_ClusterName (h_Address host)) @ ''-''
       @ namePartHostName namerContextNames (ha_HostName (h_Address host))"
proof -
  let ?ps = "newNameMacroReplacerHost sha1 host"
  note step = replacer_step [OF _ host_macros_open]
  have e: "''chi-{chi}-{cluster}-{host}'' = ''chi-'' @ ''{chi}'' @ ''-'' @ ''{cluster}'' @ ''-'' @ ''{host}'' @ ''''"
    by simp
  have "replacer ?ps (''chi-'' @ s) = ''chi-'' @ replacer ?ps s" for s by (simp del: replacer.simps add: step)
  moreover have "replacer ?ps (''-'' @ s) = ''-'' @ replacer ?ps s" for s by (simp del: replacer.simps add: step)
  moreover have "replacer ?ps ''{host}'' = namePartHostName namerContextNames (ha_HostName (h_Address host))"
    using replacer_macro [OF host_macros_find(3) [of sha1 host "''''"]] by (simp only: replacer.simps(1) append_Nil2)
  ultimately show ?thesis
    unfolding e append_Nil2
    by (simp only: replacer_macro [OF host_macros_find(1)] replacer_macro [OF host_macros_find(2)])
qed

definition default_names :: "ChiTemplates option \<Rightarrow> ChiHost \<Rightarrow> bool" where
  "default_names templates host =
     (case Host_GetPodTemplate templates host of None \<Rightarrow> True | Some t \<Rightarrow> pt_GenerateName t = '''')"

lemma CreateStatefulSetName_default:
  "default_names templates host \<Longrightarrow> CreateStatefulSetName sha1 templates host
     = ''chi-'' @ namePartChiName namerContextNames (ha_CHIName (h_Address host)) @ ''-''
       @ namePartClusterName namerContextNames (ha_ClusterName (h_Address host)) @ ''-''
       @ namePartHostName namerContextNames (ha_HostName (h_Address host))"
  unfolding CreateStatefulSetName_def Let_def default_names_def generated_def
  by (auto simp: host_pattern simp del: replacer.simps split: option.splits)

text \<open>A sanitized name does not begin or end with a separator, and sanitizing a name without separators at
  its ends leaves it alone.\<close>

definition clean :: "string \<Rightarrow> bool" where
  "clean s = (s \<noteq> '''' \<and> hd s \<notin> {CHR ''-'', CHR ''_'', CHR ''.''} \<and> last s \<notin> {CHR ''-'', CHR ''_'', CHR ''.''})"

lemma sanitize_clean: "clean s \<Longrightarrow> sanitize s = s"
proof -
  assume c: "clean s"
  then obtain a t where "s = a # t" by (auto simp: clean_def neq_Nil_conv)
  with c have "dropWhile (\<lambda>c. c \<in> {CHR ''-'', CHR ''_'', CHR ''.''}) s = s" by (simp add: clean_def)
  moreover from c obtain b u where r: "rev s = b # u" by (cases "rev s") (auto simp: clean_def)
  then have "b = last s" by (metis hd_rev list.sel(1))
  with c have "b \<notin> {CHR ''-'', CHR ''_'', CHR ''.''}" by (simp add: clean_def)
  then have "dropWhile (\<lambda>c. c \<in> {CHR ''-'', CHR ''_'', CHR ''.''}) (rev s) = rev s" unfolding r by simp
  ultimately show ?thesis unfolding sanitize_def trim_set_def by simp
qed

lemma namePartHostName_names: "namePartHostName namerContextNames name = sanitize (take 15 name)"
  by (simp add: namePartHostName_def replica_len_def name_lengths the_head_take)

text \<open>
  C21: when the StatefulSets of two hosts have the same name. For hosts of one cluster with the default
  name pattern the names coincide exactly when the first 15 characters of the host names do, without the
  separators at their ends; in particular clean host names of at most 15 characters give different
  StatefulSets. But generated host names are \<open>shard-replica\<close>: for a shard whose name has 14 or 15
  characters, which the schema allows, the replica is cut off and all its replicas share one
  StatefulSet.
\<close>

theorem statefulset_names_collide_iff:
  assumes "default_names templates h1" and "default_names templates h2"
    and "ha_CHIName (h_Address h1) = ha_CHIName (h_Address h2)"
    and "ha_ClusterName (h_Address h1) = ha_ClusterName (h_Address h2)"
  shows "(CreateStatefulSetName sha1 templates h1 = CreateStatefulSetName sha1 templates h2
       \<longleftrightarrow> sanitize (take 15 (ha_HostName (h_Address h1))) = sanitize (take 15 (ha_HostName (h_Address h2))))
    \<and> (clean (ha_HostName (h_Address h1)) \<longrightarrow> clean (ha_HostName (h_Address h2)) \<longrightarrow>
       length (ha_HostName (h_Address h1)) \<le> 15 \<longrightarrow> length (ha_HostName (h_Address h2)) \<le> 15 \<longrightarrow>
       CreateStatefulSetName sha1 templates h1 = CreateStatefulSetName sha1 templates h2 \<longrightarrow>
       ha_HostName (h_Address h1) = ha_HostName (h_Address h2))
    \<and> (ha_HostName (h_Address h1) = CreateHostName sh r1 \<longrightarrow> ha_HostName (h_Address h2) = CreateHostName sh r2 \<longrightarrow>
       14 \<le> length (sh_Name sh) \<longrightarrow>
       CreateStatefulSetName sha1 templates h1 = CreateStatefulSetName sha1 templates h2)"
proof -
  have eq: "CreateStatefulSetName sha1 templates h1 = CreateStatefulSetName sha1 templates h2
       \<longleftrightarrow> sanitize (take 15 (ha_HostName (h_Address h1))) = sanitize (take 15 (ha_HostName (h_Address h2)))"
    unfolding CreateStatefulSetName_default [OF assms(1)] CreateStatefulSetName_default [OF assms(2)]
      namePartHostName_names assms(3,4) by simp
  have cut: "take 15 (CreateHostName sh r) = take 15 (sh_Name sh @ ''-'')" if "14 \<le> length (sh_Name sh)" for r
    using that by (cases "length (sh_Name sh) = 14") (simp_all add: CreateHostName_def)
  show ?thesis unfolding eq using sanitize_clean cut by auto
qed

definition sharded_host :: "string \<Rightarrow> string \<Rightarrow> ChiHost" where
  "sharded_host shard replica = newChiHost\<lparr>h_Address := newChiHostAddress\<lparr>ha_CHIName := ''chi'',
     ha_ClusterName := ''c'', ha_HostName := CreateHostName (newChiShard\<lparr>sh_Name := shard\<rparr>)
       (newChiReplica\<lparr>rp_Name := replica\<rparr>)\<rparr>\<rparr>"

lemma sharded_host_names:
  "ha_HostName (h_Address (sharded_host shard replica)) = shard @ ''-'' @ replica"
  "ha_CHIName (h_Address (sharded_host shard replica)) = ''chi''"
  "ha_ClusterName (h_Address (sharded_host shard replica)) = ''c''"
  by (simp_all add: sharded_host_def CreateHostName_def newChiShard_def newChiReplica_def)

theorem statefulset_names_collide_iff_witness:
  "CreateStatefulSetName (\<lambda>s. s) None (sharded_host ''analytics-east'' ''0'')
     = CreateStatefulSetName (\<lambda>s. s) None (sharded_host ''analytics-east'' ''1'')
   \<and> CreateStatefulSetName (\<lambda>s. s) None (sharded_host ''east'' ''0'')
     \<noteq> CreateStatefulSetName (\<lambda>s. s) None (sharded_host ''east'' ''1'')"
proof -
  have d: "default_names None h" for h by (simp add: default_names_def Host_GetPodTemplate_def CHI_GetPodTemplate_def)
  let ?sh = "newChiShard\<lparr>sh_Name := ''analytics-east''\<rparr>"
  have n: "ha_HostName (h_Address (sharded_host ''analytics-east'' r)) = CreateHostName ?sh (newChiReplica\<lparr>rp_Name := r\<rparr>)" for r
    by (simp add: sharded_host_names CreateHostName_def newChiShard_def newChiReplica_def)
  have l: "14 \<le> length (sh_Name ?sh)" by simp
  have "CreateStatefulSetName (\<lambda>s. s) None (sharded_host ''analytics-east'' ''0'')
     = CreateStatefulSetName (\<lambda>s. s) None (sharded_host ''analytics-east'' ''1'')"
    by (rule statefulset_names_collide_iff [OF d d, THEN conjunct2, THEN conjunct2, rule_format])
      (use n l in \<open>auto simp: sharded_host_names\<close>)
  moreover have "CreateStatefulSetName (\<lambda>s. s) None (sharded_host ''east'' ''0'')
     \<noteq> CreateStatefulSetName (\<lambda>s. s) None (sharded_host ''east'' ''1'')"
    using statefulset_names_collide_iff [OF d d, THEN conjunct2, THEN conjunct1, rule_format,
        of "sharded_host ''east'' ''0''" "sharded_host ''east'' ''1''" "\<lambda>s. s"]
    by (auto simp: sharded_host_names clean_def)
  ultimately show ?thesis ..
qed


lemma Sprintf_plain: "CHR ''%'' \<notin> set s \<Longrightarrow> Sprintf (s @ t) as = map_option ((@) s) (Sprintf t as)"
  by (cases "Sprintf t as") (induction s; auto)+

lemma Sprintf_plain_end:
  "CHR ''%'' \<notin> set s \<Longrightarrow> Sprintf s as = Some (s @ (if as = [] then '''' else ''%!(EXTRA '' @ extra_args as @ '')''))"
  using Sprintf_plain [of s "''''" as] by simp

lemma count_verb_plain: "CHR ''%'' \<notin> set s \<Longrightarrow> count_verb s = 0"
  by (induction s rule: count_verb.induct) auto

text \<open>
  The domain name of a pod. Without a pattern it is the service, the namespace and
  \<open>svc.cluster.local\<close>; with a pattern that holds one \<open>%s\<close> the namespace stands in its place. A pattern
  without \<open>%s\<close> passes normalization too, but then the domain name ends with the text by which \<open>Sprintf\<close>
  reports a superfluous argument.
\<close>

theorem pod_domain_names:
  assumes "p = sp_NamespaceDomainPattern spec" and "ns = ha_Namespace (h_Address host)"
    and "name = CreatePodHostname sha1 (sp_Templates spec) host"
  shows "(p = '''' \<longrightarrow> createPodFQDN sha1 spec host = Some (name @ ''.'' @ ns @ ''.svc.cluster.local''))
    \<and> (p = pre @ ''%s'' @ post \<longrightarrow> CHR ''%'' \<notin> set pre \<longrightarrow> CHR ''%'' \<notin> set post \<longrightarrow>
        createPodFQDN sha1 spec host = Some (name @ ''.'' @ pre @ ns @ post))
    \<and> (p \<noteq> '''' \<longrightarrow> CHR ''%'' \<notin> set p \<longrightarrow> normalizeNamespaceDomainPattern p = p \<and>
        createPodFQDN sha1 spec host = Some (name @ ''.'' @ p @ ''%!(EXTRA string='' @ ns @ '')''))"
proof -
  have two: "Sprintf (''%s.'' @ s) [a, b] = map_option (\<lambda>r. a @ ''.'' @ r) (Sprintf s [b])" for s a b
    by (simp add: option.map_comp comp_def)
  have d: "createPodFQDN sha1 spec host = map_option (\<lambda>r. name @ ''.'' @ r)
      (Sprintf (if p = '''' then ''%s.svc.cluster.local'' else p) [ns])"
    unfolding createPodFQDN_def domainPattern_def assms(1) [symmetric] assms(2,3) two [symmetric] by simp
  have "Sprintf ''%s.svc.cluster.local'' [ns] = Some (ns @ ''.svc.cluster.local'')" by simp
  moreover have "Sprintf (pre @ ''%s'' @ post) [ns] = Some (pre @ ns @ post)"
    if "CHR ''%'' \<notin> set pre" "CHR ''%'' \<notin> set post"
    using that by (simp add: Sprintf_plain Sprintf_plain_end)
  moreover have "Sprintf p [ns] = Some (p @ ''%!(EXTRA string='' @ ns @ '')'')" if "CHR ''%'' \<notin> set p"
    using Sprintf_plain_end [OF that, of "[ns]"] by simp
  ultimately show ?thesis
    unfolding d using count_verb_plain [of p] by (auto simp: normalizeNamespaceDomainPattern_def)
qed

definition with_domain :: "string \<Rightarrow> ChiSpec" where
  "with_domain p = newChiSpec\<lparr>sp_NamespaceDomainPattern := p\<rparr>"

theorem pod_domain_names_witness:
  "createPodFQDN (\<lambda>s. s) (with_domain ''my.test'') newChiHost
     = Some (CreatePodHostname (\<lambda>s. s) None newChiHost @ ''.my.test%!(EXTRA string=)'')
   \<and> createPodFQDN (\<lambda>s. s) (with_domain ''%s.svc'') newChiHost
     = Some (CreatePodHostname (\<lambda>s. s) None newChiHost @ ''..svc'')"
  using pod_domain_names [of "''my.test''" "with_domain ''my.test''" "''''" newChiHost _ "\<lambda>s. s" "''''" "''''", OF _ _ refl]
    pod_domain_names [of "''%s.svc''" "with_domain ''%s.svc''" "''''" newChiHost _ "\<lambda>s. s" "''''" "''.svc''", OF _ _ refl]
  by (simp add: with_domain_def newChiSpec_def newChiHost_def newChiHostAddress_def)

end
