(* ===== verification/Labels.thy ===== *)
theory Labels
  imports Namer
begin

text \<open>
  The labels of the objects of an installation and the selectors that find them again:
  \<open>pkg/model/labeler.go\<close>. A selector built from a set of labels matches an object exactly when the
  object carries every label of the set with its value (the Kubernetes equality selector).

  The operator's configuration enters with the two fields the labeler reads; the fingerprint of an
  object, a hash over its printed form, is a parameter.
\<close>

section \<open>Label names\<close>

definition label :: "string \<Rightarrow> string" where
  "label name = ''clickhouse.radondb.com/'' @ name"

lemma label_inject [simp]: "label a = label b \<longleftrightarrow> a = b"
  by (simp add: label_def)

definition LabelReadyName :: string where "LabelReadyName = label ''ready''"
definition LabelAppName :: string where "LabelAppName = label ''app''"
definition LabelNamespace :: string where "LabelNamespace = label ''namespace''"
definition LabelCHIName :: string where "LabelCHIName = label ''chi''"
definition LabelClusterName :: string where "LabelClusterName = label ''cluster''"
definition LabelShardName :: string where "LabelShardName = label ''shard''"
definition LabelReplicaName :: string where "LabelReplicaName = label ''replica''"
definition LabelConfigMap :: string where "LabelConfigMap = label ''ConfigMap''"
definition LabelService :: string where "LabelService = label ''Service''"
definition LabelClickHouse :: string where "LabelClickHouse = label ''clickhouse''"
definition LabelZooKeeper :: string where "LabelZooKeeper = label ''zooKeeper''"
definition LabelPodDisruptionBudget :: string where "LabelPodDisruptionBudget = label ''podDisruptionBudget''"
definition LabelServiceKind :: string where "LabelServiceKind = label ''serviceKind''"
definition LabelZookeeperConfigVersion :: string where "LabelZookeeperConfigVersion = label ''zookeeper-version''"
definition LabelSettingsConfigVersion :: string where "LabelSettingsConfigVersion = label ''settings-version''"
definition LabelObjectVersion :: string where "LabelObjectVersion = label ''object-version''"
definition LabelShardScopeIndex :: string where "LabelShardScopeIndex = label ''shardScopeIndex''"
definition LabelReplicaScopeIndex :: string where "LabelReplicaScopeIndex = label ''replicaScopeIndex''"
definition LabelCHIScopeIndex :: string where "LabelCHIScopeIndex = label ''chiScopeIndex''"
definition LabelCHIScopeCycleSize :: string where "LabelCHIScopeCycleSize = label ''chiScopeCycleSize''"
definition LabelCHIScopeCycleIndex :: string where "LabelCHIScopeCycleIndex = label ''chiScopeCycleIndex''"
definition LabelCHIScopeCycleOffset :: string where "LabelCHIScopeCycleOffset = label ''chiScopeCycleOffset''"
definition LabelClusterScopeIndex :: string where "LabelClusterScopeIndex = label ''clusterScopeIndex''"
definition LabelClusterScopeCycleSize :: string where "LabelClusterScopeCycleSize = label ''clusterScopeCycleSize''"
definition LabelClusterScopeCycleIndex :: string where "LabelClusterScopeCycleIndex = label ''clusterScopeCycleIndex''"
definition LabelClusterScopeCycleOffset :: string where "LabelClusterScopeCycleOffset = label ''clusterScopeCycleOffset''"

lemmas label_names = LabelReadyName_def LabelAppName_def LabelNamespace_def LabelCHIName_def
  LabelClusterName_def LabelShardName_def LabelReplicaName_def LabelConfigMap_def LabelService_def
  LabelClickHouse_def LabelZooKeeper_def LabelPodDisruptionBudget_def LabelServiceKind_def
  LabelZookeeperConfigVersion_def LabelSettingsConfigVersion_def LabelObjectVersion_def
  LabelShardScopeIndex_def LabelReplicaScopeIndex_def LabelCHIScopeIndex_def
  LabelCHIScopeCycleSize_def LabelCHIScopeCycleIndex_def LabelCHIScopeCycleOffset_def
  LabelClusterScopeIndex_def LabelClusterScopeCycleSize_def LabelClusterScopeCycleIndex_def
  LabelClusterScopeCycleOffset_def

definition LabelAppValue :: string where "LabelAppValue = ''chop''"
definition labelClickHouseValue :: string where "labelClickHouseValue = ''clickhouse''"
definition labelZooKeeperValue :: string where "labelZooKeeperValue = ''zookeeper''"

lemma reclaim_label: "LabelPVCReclaimPolicyName = label ''reclaimPolicy''"
  by (simp add: LabelPVCReclaimPolicyName_def label_def)

section \<open>Selectors\<close>

definition GetSelectorCHIScope :: "ObjectMeta \<Rightarrow> strmap" where
  "GetSelectorCHIScope chi = [
     (LabelNamespace, getNamePartNamespace namerContextLabels (ObjCHI chi)),
     (LabelAppName, LabelAppValue),
     (LabelCHIName, getNamePartCHIName namerContextLabels (ObjCHI chi)),
     (LabelClickHouse, labelClickHouseValue)]"

definition getSelectorZooKeeperScope :: "ObjectMeta \<Rightarrow> strmap" where
  "getSelectorZooKeeperScope chi = [
     (LabelNamespace, getNamePartNamespace namerContextLabels (ObjCHI chi)),
     (LabelAppName, LabelAppValue),
     (LabelCHIName, getNamePartCHIName namerContextLabels (ObjCHI chi)),
     (LabelZooKeeper, labelZooKeeperValue)]"

definition getSelectorClusterScope :: "ChiCluster \<Rightarrow> strmap" where
  "getSelectorClusterScope cluster = [
     (LabelNamespace, getNamePartNamespace namerContextLabels (ObjCluster cluster)),
     (LabelAppName, LabelAppValue),
     (LabelClickHouse, labelClickHouseValue),
     (LabelCHIName, getNamePartCHIName namerContextLabels (ObjCluster cluster)),
     (LabelClusterName, getNamePartClusterName namerContextLabels (ObjCluster cluster))]"

definition getSelectorShardScope :: "ChiShard \<Rightarrow> strmap" where
  "getSelectorShardScope shard = [
     (LabelNamespace, getNamePartNamespace namerContextLabels (ObjShard shard)),
     (LabelAppName, LabelAppValue),
     (LabelClickHouse, labelClickHouseValue),
     (LabelCHIName, getNamePartCHIName namerContextLabels (ObjShard shard)),
     (LabelClusterName, getNamePartClusterName namerContextLabels (ObjShard shard)),
     (LabelShardName, getNamePartShardName namerContextLabels (ObjShard shard))]"

definition GetSelectorHostScope :: "ChiHost \<Rightarrow> strmap" where
  "GetSelectorHostScope host = [
     (LabelNamespace, getNamePartNamespace namerContextLabels (ObjHost host)),
     (LabelAppName, LabelAppValue),
     (LabelClickHouse, labelClickHouseValue),
     (LabelCHIName, getNamePartCHIName namerContextLabels (ObjHost host)),
     (LabelClusterName, getNamePartClusterName namerContextLabels (ObjHost host)),
     (LabelShardName, getNamePartShardName namerContextLabels (ObjHost host)),
     (LabelReplicaName, getNamePartReplicaName namerContextLabels host)]"

definition merge_labels :: "strmap \<Rightarrow> strmap \<Rightarrow> strmap" where
  "merge_labels dst src = nil_or [] id (MergeStringMapsOverwrite (Some dst) src [])"

definition appendReadyLabels :: "strmap \<Rightarrow> strmap" where
  "appendReadyLabels dst = merge_labels dst [(LabelReadyName, ''yes'')]"

definition getSelectorCHIScopeReady :: "ObjectMeta \<Rightarrow> strmap" where
  "getSelectorCHIScopeReady chi = appendReadyLabels (GetSelectorCHIScope chi)"

definition getSelectorClusterScopeReady :: "ChiCluster \<Rightarrow> strmap" where
  "getSelectorClusterScopeReady cluster = appendReadyLabels (getSelectorClusterScope cluster)"

definition getSelectorShardScopeReady :: "ChiShard \<Rightarrow> strmap" where
  "getSelectorShardScopeReady shard = appendReadyLabels (getSelectorShardScope shard)"

section \<open>Labels\<close>

record labeler =
  lb_chi :: ObjectMeta
  lb_AppendScopeLabels :: bool
  lb_ExcludeFromPropagationLabels :: "string list"
  lb_Fingerprint :: "string \<Rightarrow> string"

text \<open>The fingerprints a host carries in its \<open>Config\<close>.\<close>

record host_fingerprints =
  hp_Zookeeper :: string
  hp_Settings :: string
  hp_Files :: string

definition propagated :: "labeler \<Rightarrow> strmap" where
  "propagated l = CopyMapExcept (om_Labels (lb_chi l)) (lb_ExcludeFromPropagationLabels l)"

definition appendCHILabels :: "labeler \<Rightarrow> strmap \<Rightarrow> strmap" where
  "appendCHILabels l dst = merge_labels dst (propagated l)"

definition getLabelsCHIScope :: "labeler \<Rightarrow> strmap" where
  "getLabelsCHIScope l = appendCHILabels l (GetSelectorCHIScope (lb_chi l))"

definition getLabelsZooKeeperScope :: "labeler \<Rightarrow> strmap" where
  "getLabelsZooKeeperScope l = appendCHILabels l (getSelectorZooKeeperScope (lb_chi l))"

definition getLabelsClusterScope :: "labeler \<Rightarrow> ChiCluster \<Rightarrow> strmap" where
  "getLabelsClusterScope l cluster = appendCHILabels l (getSelectorClusterScope cluster)"

definition getLabelsShardScope :: "labeler \<Rightarrow> ChiShard \<Rightarrow> strmap" where
  "getLabelsShardScope l shard = appendCHILabels l (getSelectorShardScope shard)"

definition scope_labels :: "ChiHost \<Rightarrow> strmap" where
  "scope_labels host = (let a = h_Address host in [
     (LabelShardScopeIndex, Itoa (ha_ShardScopeIndex a)),
     (LabelReplicaScopeIndex, Itoa (ha_ReplicaScopeIndex a)),
     (LabelCHIScopeIndex, Itoa (ha_CHIScopeIndex a)),
     (LabelCHIScopeCycleSize, Itoa (ha_CHIScopeCycleSize a)),
     (LabelCHIScopeCycleIndex, Itoa (ha_CHIScopeCycleIndex a)),
     (LabelCHIScopeCycleOffset, Itoa (ha_CHIScopeCycleOffset a)),
     (LabelClusterScopeIndex, Itoa (ha_ClusterScopeIndex a)),
     (LabelClusterScopeCycleSize, Itoa (ha_ClusterScopeCycleSize a)),
     (LabelClusterScopeCycleIndex, Itoa (ha_ClusterScopeCycleIndex a)),
     (LabelClusterScopeCycleOffset, Itoa (ha_ClusterScopeCycleOffset a))])"

definition version_labels :: "labeler \<Rightarrow> host_fingerprints \<Rightarrow> strmap" where
  "version_labels l fp = [
     (LabelZookeeperConfigVersion, hp_Zookeeper fp),
     (LabelSettingsConfigVersion, lb_Fingerprint l (hp_Settings fp @ hp_Files fp))]"

definition set_labels :: "strmap \<Rightarrow> strmap \<Rightarrow> strmap" where
  "set_labels assignments m = fold (\<lambda>(k, v). gput k v) assignments m"

definition getLabelsHostScope :: "labeler \<Rightarrow> host_fingerprints \<Rightarrow> ChiHost \<Rightarrow> bool \<Rightarrow> strmap" where
  "getLabelsHostScope l fp host applySupplementaryServiceLabels = (
     let labels = GetSelectorHostScope host;
         labels = (if lb_AppendScopeLabels l then set_labels (scope_labels host) labels else labels);
         labels = (if applySupplementaryServiceLabels then set_labels (version_labels l fp) labels else labels)
     in appendCHILabels l labels)"

definition getLabelsHostScopeReady :: "labeler \<Rightarrow> host_fingerprints \<Rightarrow> ChiHost \<Rightarrow> bool \<Rightarrow> strmap" where
  "getLabelsHostScopeReady l fp host b = appendReadyLabels (getLabelsHostScope l fp host b)"

definition getLabelsHostScopeReclaimPolicy ::
    "labeler \<Rightarrow> host_fingerprints \<Rightarrow> ChiHost \<Rightarrow> ChiVolumeClaimTemplate \<Rightarrow> bool \<Rightarrow> strmap" where
  "getLabelsHostScopeReclaimPolicy l fp host template b = merge_labels (getLabelsHostScope l fp host b)
     [(LabelPVCReclaimPolicyName, vt_PVCReclaimPolicy template)]"

definition getLabelsConfigMapCHICommon :: "labeler \<Rightarrow> strmap" where
  "getLabelsConfigMapCHICommon l = merge_labels (getLabelsCHIScope l) [(LabelConfigMap, ''ChiCommon'')]"

definition getLabelsConfigMapCHICommonUsers :: "labeler \<Rightarrow> strmap" where
  "getLabelsConfigMapCHICommonUsers l = merge_labels (getLabelsCHIScope l) [(LabelConfigMap, ''ChiCommonUsers'')]"

definition getLabelsConfigMapHost :: "labeler \<Rightarrow> host_fingerprints \<Rightarrow> ChiHost \<Rightarrow> strmap" where
  "getLabelsConfigMapHost l fp host = merge_labels (getLabelsHostScope l fp host False) [(LabelConfigMap, ''Host'')]"

definition getLabelsServiceCHI :: "labeler \<Rightarrow> strmap" where
  "getLabelsServiceCHI l = merge_labels (getLabelsCHIScope l) [(LabelService, ''chi'')]"

definition getLabelsServiceZooKeeperServer :: "labeler \<Rightarrow> strmap" where
  "getLabelsServiceZooKeeperServer l = merge_labels (getLabelsZooKeeperScope l)
     [(LabelService, ''zookeeper''), (LabelServiceKind, ''server'')]"

definition getLabelsServiceZooKeeperClient :: "labeler \<Rightarrow> strmap" where
  "getLabelsServiceZooKeeperClient l = merge_labels (getLabelsZooKeeperScope l)
     [(LabelService, ''zookeeper''), (LabelServiceKind, ''client'')]"

definition getLabelsPodDisruptionBudgetZooKeeper :: "labeler \<Rightarrow> strmap" where
  "getLabelsPodDisruptionBudgetZooKeeper l = merge_labels (getLabelsZooKeeperScope l)
     [(LabelPodDisruptionBudget, ''pdb'')]"

definition getLabelsServiceCluster :: "labeler \<Rightarrow> ChiCluster \<Rightarrow> strmap" where
  "getLabelsServiceCluster l cluster = merge_labels (getLabelsClusterScope l cluster) [(LabelService, ''cluster'')]"

definition getLabelsServiceShard :: "labeler \<Rightarrow> ChiShard \<Rightarrow> strmap" where
  "getLabelsServiceShard l shard = merge_labels (getLabelsShardScope l shard) [(LabelService, ''shard'')]"

definition getLabelsServiceHost :: "labeler \<Rightarrow> host_fingerprints \<Rightarrow> ChiHost \<Rightarrow> strmap" where
  "getLabelsServiceHost l fp host = merge_labels (getLabelsHostScope l fp host False) [(LabelService, ''host'')]"

section \<open>Reading labels back\<close>

datatype label_error =
    MandatoryLabelsMissing
  | LabelNotFound string

definition makeSetFromObjectMeta :: "ObjectMeta \<Rightarrow> label_error + strmap" where
  "makeSetFromObjectMeta meta =
     (if \<not> MapHasKeys (om_Labels meta) [LabelNamespace, LabelAppName, LabelCHIName] then Inl MandatoryLabelsMissing
      else Inr (nil_or [] id (MergeStringMapsOverwrite (Some []) (om_Labels meta)
        [LabelNamespace, LabelAppName, LabelCHIName, LabelClickHouse, LabelClusterName, LabelShardName,
         LabelReplicaName, LabelConfigMap, LabelService, LabelZooKeeper, LabelServiceKind,
         LabelPodDisruptionBudget])))"

definition IsCHOPGeneratedObject :: "ObjectMeta \<Rightarrow> bool" where
  "IsCHOPGeneratedObject meta = (if \<not> MapHasKeys (om_Labels meta) [LabelAppName] then False
     else gget (om_Labels meta) LabelAppName = Some LabelAppValue)"

definition IsCHOPGeneratedZooKeeperObject :: "ObjectMeta \<Rightarrow> bool" where
  "IsCHOPGeneratedZooKeeperObject meta = (if \<not> MapHasKeys (om_Labels meta) [LabelAppName] then False
     else gget (om_Labels meta) LabelZooKeeper = Some labelZooKeeperValue)"

definition GetCHINameFromObjectMeta :: "ObjectMeta \<Rightarrow> label_error + string" where
  "GetCHINameFromObjectMeta meta = (case gget (om_Labels meta) LabelCHIName of
     None \<Rightarrow> Inl (LabelNotFound LabelCHIName) | Some v \<Rightarrow> Inr v)"

definition GetClusterNameFromObjectMeta :: "ObjectMeta \<Rightarrow> label_error + string" where
  "GetClusterNameFromObjectMeta meta = (case gget (om_Labels meta) LabelClusterName of
     None \<Rightarrow> Inl (LabelNotFound LabelClusterName) | Some v \<Rightarrow> Inr v)"

definition MakeObjectVersionLabel :: "string \<Rightarrow> ObjectMeta \<Rightarrow> ObjectMeta" where
  "MakeObjectVersionLabel fingerprint meta =
     meta\<lparr>om_Labels := merge_labels (om_Labels meta) [(LabelObjectVersion, fingerprint)]\<rparr>"

definition isObjectVersionLabelTheSame :: "ObjectMeta option \<Rightarrow> string \<Rightarrow> bool" where
  "isObjectVersionLabelTheSame meta value = (case meta of None \<Rightarrow> False
     | Some m \<Rightarrow> (case gget (om_Labels m) LabelObjectVersion of None \<Rightarrow> False | Some l \<Rightarrow> l = value))"

definition IsObjectTheSame :: "ObjectMeta option \<Rightarrow> ObjectMeta option \<Rightarrow> bool" where
  "IsObjectTheSame meta1 meta2 = (case (meta1, meta2) of
     (None, None) \<Rightarrow> True
   | (Some _, None) \<Rightarrow> False
   | (None, Some _) \<Rightarrow> False
   | (Some m1, Some m2) \<Rightarrow> (case gget (om_Labels m2) LabelObjectVersion of None \<Rightarrow> False
       | Some l \<Rightarrow> isObjectVersionLabelTheSame (Some m1) l))"

text \<open>\<open>AppendLabelReady\<close> changes the map of the object in place; an object without labels has a nil map,
  for which the merged map is dropped.\<close>

definition AppendLabelReady :: "strmap option \<Rightarrow> strmap option" where
  "AppendLabelReady labels = (case labels of None \<Rightarrow> None
     | Some m \<Rightarrow> MergeStringMapsOverwrite (Some m) [(LabelReadyName, ''yes'')] [])"

definition DeleteLabelReady :: "strmap \<Rightarrow> strmap" where
  "DeleteLabelReady labels = MapDeleteKeys labels [LabelReadyName]"


section \<open>Labels and selectors\<close>

definition selects :: "strmap \<Rightarrow> strmap \<Rightarrow> bool" where
  "selects selector labels = list_all (\<lambda>(k, v). gget labels k = Some v) selector"

lemma gmap_ok_fold_put: "gmap_ok m \<Longrightarrow> gmap_ok (fold (\<lambda>(k, v). gput k v) kvs m)"
  by (rule gm.inv_fold_put)

lemma gmap_ok_propagated: "gmap_ok (propagated l)"
  unfolding propagated_def CopyMapExcept_def CopyMap_def
  by (intro gm.inv_fold_del gmap_ok_fold_put) simp

lemma merge_labels_get: "gmap_ok src \<Longrightarrow> gget (merge_labels dst src) = gget dst ++ gget src"
  using omap_MergeStringMapsOverwrite [of src "Some dst" "[]"]
  by (cases "MergeStringMapsOverwrite (Some dst) src []") (simp_all add: merge_labels_def omap_def)

lemma appendCHILabels_get: "gget (appendCHILabels l dst) = gget dst ++ gget (propagated l)"
  unfolding appendCHILabels_def by (rule merge_labels_get [OF gmap_ok_propagated])

lemma set_labels_get: "k \<notin> fst ` set as \<Longrightarrow> gget (set_labels as m) k = gget m k"
  unfolding set_labels_def by (induction as arbitrary: m) (auto simp: gmap_simps)

definition scope_keys :: "string list" where
  "scope_keys = [LabelNamespace, LabelAppName, LabelClickHouse, LabelCHIName, LabelClusterName, LabelShardName,
     LabelReplicaName]"

lemma own_host_labels:
  assumes "k \<in> set scope_keys"
  shows "gget (getLabelsHostScope l fp host b) k = (gget (GetSelectorHostScope host) ++ gget (propagated l)) k"
proof -
  have "k \<notin> fst ` set (scope_labels host)" "k \<notin> fst ` set (version_labels l fp)"
    using assms by (auto simp: scope_keys_def scope_labels_def version_labels_def Let_def label_names)
  then show ?thesis
    unfolding getLabelsHostScope_def Let_def appendCHILabels_get
    by (simp add: map_add_def set_labels_get split: option.split)
qed

lemma scope_key_distinct: "distinct scope_keys"
  by (simp add: scope_keys_def label_names)

lemma GetSelectorHostScope_keys: "set (GetSelectorHostScope host) \<subseteq> {(k, v). k \<in> set scope_keys \<and> gget (GetSelectorHostScope host) k = Some v}"
  by (auto simp: GetSelectorHostScope_def scope_keys_def label_names)

definition addressed_in :: "ObjectMeta \<Rightarrow> ChiCluster \<Rightarrow> ChiShard \<Rightarrow> ChiHost \<Rightarrow> bool" where
  "addressed_in chi cluster shard host = (let a = h_Address host in
     ha_Namespace a = om_Namespace chi \<and> ha_CHIName a = om_Name chi
   \<and> ca_Namespace (cu_Address cluster) = om_Namespace chi \<and> ca_CHIName (cu_Address cluster) = om_Name chi
   \<and> ca_ClusterName (cu_Address cluster) = ha_ClusterName a
   \<and> sa_Namespace (sh_Address shard) = om_Namespace chi \<and> sa_CHIName (sh_Address shard) = om_Name chi
   \<and> sa_ClusterName (sh_Address shard) = ha_ClusterName a \<and> sa_ShardName (sh_Address shard) = ha_ShardName a)"

lemma narrower_selectors:
  assumes "addressed_in chi cluster shard host"
  shows "set (GetSelectorCHIScope chi) \<subseteq> set (GetSelectorHostScope host)"
    and "set (getSelectorClusterScope cluster) \<subseteq> set (GetSelectorHostScope host)"
    and "set (getSelectorShardScope shard) \<subseteq> set (GetSelectorHostScope host)"
  using assms by (auto simp: addressed_in_def Let_def GetSelectorCHIScope_def getSelectorClusterScope_def
      getSelectorShardScope_def GetSelectorHostScope_def)

lemma selects_mono: "set sel \<subseteq> set sel' \<Longrightarrow> selects sel' labels \<Longrightarrow> selects sel labels"
  by (auto simp: selects_def list_all_iff)

lemma host_selects_iff:
  "selects (GetSelectorHostScope host) (getLabelsHostScope l fp host b)
     \<longleftrightarrow> list_all (\<lambda>(k, v). gget (propagated l) k \<in> {None, Some v}) (GetSelectorHostScope host)"
proof -
  have "gget (getLabelsHostScope l fp host b) k = Some v \<longleftrightarrow> gget (propagated l) k \<in> {None, Some v}"
    if "(k, v) \<in> set (GetSelectorHostScope host)" for k v
    using that GetSelectorHostScope_keys [of host] own_host_labels [of k l fp host b]
    by (auto simp: map_add_def split: option.splits)
  then show ?thesis by (auto simp: selects_def list_all_iff)
qed

text \<open>
  The objects of a host are found again. They are selected by the selectors of their host, shard,
  cluster and installation whenever the labels of the installation that are propagated to its objects
  leave the labels of the operator alone; and exactly when every propagated label among them has the
  value the operator gives it is the host selector satisfied. So a label of the user can hide all the
  objects of an installation from the operator.
\<close>

theorem host_objects_selected:
  assumes "addressed_in (lb_chi l) cluster shard host"
  shows "(list_all (\<lambda>k. gget (propagated l) k = None) scope_keys \<longrightarrow>
       list_all (\<lambda>sel. selects sel (getLabelsHostScope l fp host b))
         [GetSelectorCHIScope (lb_chi l), getSelectorClusterScope cluster, getSelectorShardScope shard,
          GetSelectorHostScope host])
    \<and> (selects (GetSelectorHostScope host) (getLabelsHostScope l fp host b)
        \<longleftrightarrow> list_all (\<lambda>(k, v). gget (propagated l) k \<in> {None, Some v}) (GetSelectorHostScope host))"
proof -
  let ?labels = "getLabelsHostScope l fp host b"
  have "selects sel ?labels"
    if none: "list_all (\<lambda>k. gget (propagated l) k = None) scope_keys"
      and sel: "set sel \<subseteq> set (GetSelectorHostScope host)" for sel
  proof (rule selects_mono [OF sel])
    show "selects (GetSelectorHostScope host) ?labels"
      unfolding host_selects_iff list_all_iff
    proof
      fix kv
      assume "kv \<in> set (GetSelectorHostScope host)"
      with GetSelectorHostScope_keys [of host] have "fst kv \<in> set scope_keys" by auto
      with none have "gget (propagated l) (fst kv) = None" unfolding list_all_iff by blast
      then show "case kv of (k, v) \<Rightarrow> gget (propagated l) k \<in> {None, Some v}" by (simp add: case_prod_unfold)
    qed
  qed
  from this [OF _ narrower_selectors(1) [OF assms]] this [OF _ narrower_selectors(2) [OF assms]]
    this [OF _ narrower_selectors(3) [OF assms]] this [OF _ subset_refl]
  have "list_all (\<lambda>k. gget (propagated l) k = None) scope_keys \<longrightarrow>
       list_all (\<lambda>sel. selects sel ?labels)
         [GetSelectorCHIScope (lb_chi l), getSelectorClusterScope cluster, getSelectorShardScope shard,
          GetSelectorHostScope host]"
    by (simp only: list.pred_inject) blast
  then show ?thesis using host_selects_iff by blast
qed

definition no_fingerprints :: host_fingerprints where
  "no_fingerprints = \<lparr>hp_Zookeeper = '''', hp_Settings = '''', hp_Files = ''''\<rparr>"

definition plain_labeler :: "strmap \<Rightarrow> labeler" where
  "plain_labeler labels = \<lparr>lb_chi = (object_named ''chi'')\<lparr>om_Labels := labels\<rparr>, lb_AppendScopeLabels = True,
     lb_ExcludeFromPropagationLabels = [''secret''], lb_Fingerprint = (\<lambda>s. s)\<rparr>"

definition addressed_host :: ChiHost where
  "addressed_host = newChiHost\<lparr>h_Address := newChiHostAddress\<lparr>ha_Namespace := om_Namespace (object_named ''chi''),
     ha_CHIName := ''chi'', ha_ClusterName := ''c'', ha_ShardName := ''0''\<rparr>\<rparr>"

definition addressed_cluster :: ChiCluster where
  "addressed_cluster = newDefaultCluster\<lparr>cu_Address := \<lparr>ca_Namespace = om_Namespace (object_named ''chi''),
     ca_CHIName = ''chi'', ca_ClusterName = ''c'', ca_ClusterIndex = 0\<rparr>\<rparr>"

definition addressed_shard :: ChiShard where
  "addressed_shard = newChiShard\<lparr>sh_Address := \<lparr>sa_Namespace = om_Namespace (object_named ''chi''),
     sa_CHIName = ''chi'', sa_ClusterName = ''c'', sa_ClusterIndex = 0, sa_ShardName = ''0'', sa_ShardIndex = 0\<rparr>\<rparr>"

lemma plain_propagated:
  "propagated (plain_labeler [(''team'', ''x''), (''secret'', ''y'')]) = [(''team'', ''x'')]"
  "propagated (plain_labeler [(LabelAppName, ''mine'')]) = [(LabelAppName, ''mine'')]"
  by (simp_all add: propagated_def plain_labeler_def CopyMapExcept_def CopyMap_def label_names label_def)

theorem host_objects_selected_witness:
  "selects (GetSelectorCHIScope ((object_named ''chi'')\<lparr>om_Labels := [(''team'', ''x''), (''secret'', ''y'')]\<rparr>))
     (getLabelsHostScope (plain_labeler [(''team'', ''x''), (''secret'', ''y'')]) no_fingerprints addressed_host False)
   \<and> \<not> selects (GetSelectorHostScope addressed_host)
     (getLabelsHostScope (plain_labeler [(LabelAppName, ''mine'')]) no_fingerprints addressed_host False)"
proof -
  have a: "addressed_in (lb_chi (plain_labeler ls)) addressed_cluster addressed_shard addressed_host" for ls
    by (simp add: addressed_in_def plain_labeler_def addressed_cluster_def addressed_shard_def addressed_host_def
        object_named_def Let_def)
  have "list_all (\<lambda>k. gget (propagated (plain_labeler [(''team'', ''x''), (''secret'', ''y'')])) k = None) scope_keys"
    unfolding plain_propagated by (simp add: scope_keys_def label_names label_def)
  moreover have "\<not> list_all (\<lambda>(k, v). gget (propagated (plain_labeler [(LabelAppName, ''mine'')])) k \<in> {None, Some v})
      (GetSelectorHostScope addressed_host)"
    unfolding plain_propagated by (simp add: GetSelectorHostScope_def label_names LabelAppValue_def)
  ultimately show ?thesis
    using host_objects_selected [OF a, of "[(''team'', ''x''), (''secret'', ''y'')]" no_fingerprints False]
      host_objects_selected [OF a, of "[(LabelAppName, ''mine'')]" no_fingerprints False]
    by (simp add: plain_labeler_def)
qed

end
