(* ===== verification/Polling.thy ===== *)
theory Polling
  imports Labels
begin

text \<open>
  What the operator waits for: the state of a StatefulSet (the end of \<open>pkg/model/creator.go\<close>) and the loops
  that poll it, \<open>pkg/controller/chi/poller.go\<close>.

  A loop sees the world once per round: whether the context is done, what the API server answers, and how
  much time has passed since the loop started. The rounds to come are a parameter; a loop is a partial
  function over them, so that a loop that never ends is \<open>None\<close>. Durations are in seconds.
\<close>

section \<open>StatefulSets\<close>

text \<open>The pod template, the volume claims and the other parts of the specification the operator never looks
  into are represented by one string; the volume mounts of all containers are listed by name, in order.\<close>

record StatefulSet =
  sts_Meta :: ObjectMeta
  sts_Generation :: int
  sts_Replicas :: "int option"
  sts_VolumeMounts :: "string list"
  sts_Spec :: string
  sts_ObservedGeneration :: int
  sts_ReadyReplicas :: int
  sts_CurrentReplicas :: int
  sts_UpdatedReplicas :: int
  sts_CurrentRevision :: string
  sts_UpdateRevision :: string

text \<open>The number of replicas is dereferenced only when the generation was observed.\<close>

definition IsStatefulSetGeneration :: "StatefulSet option \<Rightarrow> int \<Rightarrow> bool go" where
  "IsStatefulSetGeneration statefulSet generation = (case statefulSet of
     None \<Rightarrow> Inr False
   | Some s \<Rightarrow>
       if sts_Generation s = generation \<and> sts_ObservedGeneration s = sts_Generation s
       then (case sts_Replicas s of None \<Rightarrow> Inl NilDereference
             | Some n \<Rightarrow> Inr (sts_CurrentReplicas s = n \<and> sts_UpdatedReplicas s = n
                 \<and> sts_CurrentRevision s = sts_UpdateRevision s))
       else Inr False)"

definition IsStatefulSetReady :: "StatefulSet option \<Rightarrow> bool" where
  "IsStatefulSetReady statefulSet = (case statefulSet of
     None \<Rightarrow> False
   | Some s \<Rightarrow> (case sts_Replicas s of None \<Rightarrow> False | Some n \<Rightarrow> sts_ReadyReplicas s = n))"

definition IsStatefulSetNotReady :: "StatefulSet option \<Rightarrow> bool" where
  "IsStatefulSetNotReady statefulSet = (case statefulSet of
     None \<Rightarrow> False
   | Some s \<Rightarrow> \<not> IsStatefulSetReady (Some s))"

section \<open>Options\<close>

record poll_config =
  pc_StatefulSetUpdateTimeout :: nat
  pc_StatefulSetUpdatePollPeriod :: nat

record StatefulSetPollOptions =
  po_StartBotheringAfterTimeout :: nat
  po_CreateTimeout :: nat
  po_Timeout :: nat
  po_MainInterval :: nat
  po_BackgroundInterval :: nat

definition waitStatefulSetGenerationTimeoutBeforeStartBothering :: nat where
  "waitStatefulSetGenerationTimeoutBeforeStartBothering = 60"

definition waitStatefulSetGenerationTimeoutToCreateStatefulSet :: nat where
  "waitStatefulSetGenerationTimeoutToCreateStatefulSet = 30"

definition NewStatefulSetPollOptions :: StatefulSetPollOptions where
  "NewStatefulSetPollOptions = \<lparr>po_StartBotheringAfterTimeout = 0, po_CreateTimeout = 0, po_Timeout = 0,
     po_MainInterval = 0, po_BackgroundInterval = 0\<rparr>"

definition Ensure :: "StatefulSetPollOptions option \<Rightarrow> StatefulSetPollOptions" where
  "Ensure opts = (case opts of None \<Rightarrow> NewStatefulSetPollOptions | Some opts \<Rightarrow> opts)"

definition FromConfig :: "poll_config \<Rightarrow> StatefulSetPollOptions \<Rightarrow> StatefulSetPollOptions" where
  "FromConfig config opts = opts\<lparr>
     po_StartBotheringAfterTimeout := waitStatefulSetGenerationTimeoutBeforeStartBothering,
     po_CreateTimeout := waitStatefulSetGenerationTimeoutToCreateStatefulSet,
     po_Timeout := pc_StatefulSetUpdateTimeout config,
     po_MainInterval := pc_StatefulSetUpdatePollPeriod config,
     po_BackgroundInterval := 1\<rparr>"

definition SetCreateTimeout :: "nat \<Rightarrow> StatefulSetPollOptions \<Rightarrow> StatefulSetPollOptions" where
  "SetCreateTimeout timeout opts = opts\<lparr>po_CreateTimeout := timeout\<rparr>"

section \<open>Polling\<close>

datatype observation = Found StatefulSet | NotFound | GetFailed

text \<open>A round: whether the context is done when it starts, the answer to the request, the time read when the
  answer was no object, and the time read at its end.\<close>

record poll_round =
  rd_Done :: bool
  rd_Get :: observation
  rd_Since :: nat
  rd_End :: nat

text \<open>What a loop returns: \<open>nil\<close> because the context was done, \<open>nil\<close> because the condition holds, an error,
  or the panic of the condition.\<close>

datatype poll_result = PollContextDone | PollOk | PollNotFound | PollFailed | PollTimeout | PollPanic go_panic

definition poll_err :: "poll_result \<Rightarrow> bool" where
  "poll_err r = (case r of PollContextDone \<Rightarrow> False | PollOk \<Rightarrow> False | _ \<Rightarrow> True)"

text \<open>Every loop: a round either decides what is returned, or the next round begins.\<close>

partial_function (option) poll_until :: "('r \<Rightarrow> 'a option) \<Rightarrow> (nat \<Rightarrow> 'r) \<Rightarrow> nat \<Rightarrow> 'a option" where
  "poll_until decide rounds k = (case decide (rounds k) of
     Some r \<Rightarrow> Some r
   | None \<Rightarrow> poll_until decide rounds (Suc k))"

definition poll_decides ::
    "StatefulSetPollOptions \<Rightarrow> (StatefulSet \<Rightarrow> bool go) \<Rightarrow> poll_round \<Rightarrow> poll_result option" where
  "poll_decides opts mainFn r =
     (if rd_Done r then Some PollContextDone
      else case rd_Get r of
        Found s \<Rightarrow> (case mainFn s of
            Inl p \<Rightarrow> Some (PollPanic p)
          | Inr True \<Rightarrow> Some PollOk
          | Inr False \<Rightarrow> if rd_End r \<ge> po_Timeout opts then Some PollTimeout else None)
      | NotFound \<Rightarrow> (if rd_Since r \<ge> po_CreateTimeout opts then Some PollNotFound
          else if rd_End r \<ge> po_Timeout opts then Some PollTimeout else None)
      | GetFailed \<Rightarrow> Some PollFailed)"

text \<open>Every call builds its options anew from the configuration, whatever options it was given.\<close>

definition pollStatefulSet ::
    "poll_config \<Rightarrow> StatefulSetPollOptions option \<Rightarrow> (StatefulSet \<Rightarrow> bool go) \<Rightarrow> bool \<Rightarrow> (nat \<Rightarrow> poll_round)
      \<Rightarrow> poll_result option" where
  "pollStatefulSet config opts mainFn done rounds =
     (if done then Some PollContextDone
      else poll_until (poll_decides (FromConfig config (Ensure opts)) mainFn) rounds 0)"

definition waitHostNotReady :: "poll_config \<Rightarrow> bool \<Rightarrow> (nat \<Rightarrow> poll_round) \<Rightarrow> poll_result option" where
  "waitHostNotReady config done rounds =
     map_option (\<lambda>r. if r = PollNotFound then PollOk else r)
       (pollStatefulSet config
         (Some (SetCreateTimeout 0 (FromConfig config NewStatefulSetPollOptions)))
         (\<lambda>s. Inr (IsStatefulSetNotReady (Some s))) done rounds)"

text \<open>The two stages of waiting for a host, or for ZooKeeper: the generation, then readiness. The callbacks
  also take the ready label off the pod, which is ignored when it fails.\<close>

definition waitHostReady ::
    "poll_config \<Rightarrow> bool \<Rightarrow> (nat \<Rightarrow> poll_round) \<Rightarrow> bool \<Rightarrow> (nat \<Rightarrow> poll_round) \<Rightarrow> poll_result option" where
  "waitHostReady config done1 rounds1 done2 rounds2 =
     (case pollStatefulSet config None
        (\<lambda>s. IsStatefulSetGeneration (Some s) (sts_Generation s)) done1 rounds1 of
        None \<Rightarrow> None
      | Some r \<Rightarrow> if poll_err r then Some r
          else pollStatefulSet config None (\<lambda>s. Inr (IsStatefulSetReady (Some s))) done2 rounds2)"

definition waitZooKeeperReady ::
    "poll_config \<Rightarrow> bool \<Rightarrow> (nat \<Rightarrow> poll_round) \<Rightarrow> bool \<Rightarrow> (nat \<Rightarrow> poll_round) \<Rightarrow> poll_result option" where
  "waitZooKeeperReady config done1 rounds1 done2 rounds2 =
     (case pollStatefulSet config None
        (\<lambda>s. IsStatefulSetGeneration (Some s) (sts_Generation s)) done1 rounds1 of
        None \<Rightarrow> None
      | Some r \<Rightarrow> if poll_err r then Some r
          else pollStatefulSet config None (\<lambda>s. Inr (IsStatefulSetReady (Some s))) done2 rounds2)"

text \<open>\<open>pollHostContext\<close>: the context is looked at before and after the question is asked.\<close>

record host_round =
  hr_Done :: bool
  hr_Answer :: bool
  hr_DoneAfter :: bool
  hr_End :: nat

definition host_decides :: "StatefulSetPollOptions \<Rightarrow> host_round \<Rightarrow> poll_result option" where
  "host_decides opts r =
     (if hr_Done r then Some PollContextDone
      else if hr_Answer r then Some PollOk
      else if hr_DoneAfter r then Some PollContextDone
      else if hr_End r \<ge> po_Timeout opts then Some PollTimeout else None)"

definition pollHostContext ::
    "poll_config \<Rightarrow> StatefulSetPollOptions option \<Rightarrow> bool \<Rightarrow> (nat \<Rightarrow> host_round) \<Rightarrow> poll_result option" where
  "pollHostContext config opts done rounds =
     (if done then Some PollContextDone else poll_until (host_decides (FromConfig config (Ensure opts))) rounds 0)"

text \<open>\<open>waitHostRunning\<close> reads the configured timeout itself and does not look at a context.\<close>

definition running_decides :: "poll_config \<Rightarrow> host_round \<Rightarrow> poll_result option" where
  "running_decides config r =
     (if hr_Answer r then Some PollOk
      else if hr_End r \<ge> pc_StatefulSetUpdateTimeout config then Some PollTimeout else None)"

definition waitHostRunning :: "poll_config \<Rightarrow> (nat \<Rightarrow> host_round) \<Rightarrow> poll_result option" where
  "waitHostRunning config rounds = poll_until (running_decides config) rounds 0"

text \<open>\<open>waitHostDeleted\<close> has neither a timeout nor a context; its answer is whether the object was found.\<close>

definition waitHostDeleted :: "(nat \<Rightarrow> bool) \<Rightarrow> unit option" where
  "waitHostDeleted found = poll_until (\<lambda>f. if f then None else Some ()) found 0"

section \<open>Which loops end\<close>

lemma poll_until_skip: "decide (rounds k) = None \<Longrightarrow> poll_until decide rounds k = poll_until decide rounds (Suc k)"
  by (subst poll_until.simps) simp

lemma poll_until_at:
  assumes "k \<le> m" and "decide (rounds m) = Some x" and "\<And>j. k \<le> j \<Longrightarrow> j < m \<Longrightarrow> decide (rounds j) = None"
  shows "poll_until decide rounds k = Some x"
  using assms
proof (induction "m - k" arbitrary: k)
  case 0
  then show ?case by (subst poll_until.simps) simp
next
  case (Suc n)
  then have "poll_until decide rounds (Suc k) = Some x" by simp
  with Suc show ?case by (simp add: poll_until_skip)
qed

text \<open>The first round at or after the start that decides.\<close>

lemma poll_until_first:
  assumes "decide (rounds n) \<noteq> None"
  obtains m where "m \<le> n" and "decide (rounds m) \<noteq> None" and "poll_until decide rounds 0 = decide (rounds m)"
proof -
  define m where "m = (LEAST m. decide (rounds m) \<noteq> None)"
  have "decide (rounds m) \<noteq> None" unfolding m_def using assms by (rule LeastI)
  then obtain x where x: "decide (rounds m) = Some x" by blast
  have "poll_until decide rounds 0 = Some x"
  proof (rule poll_until_at [of 0 m decide rounds, OF le0 x])
    fix j assume "j < m"
    then show "decide (rounds j) = None" unfolding m_def using not_less_Least by blast
  qed
  moreover have "m \<le> n" unfolding m_def using assms by (rule Least_le)
  ultimately show thesis using that [of m] x by simp
qed

text \<open>A loop that never decides does not return: the rounds below any bound leave it undefined.\<close>

lemma poll_until_result:
  assumes "poll_until decide rounds k = Some x"
  shows "\<exists>m. decide (rounds m) = Some x"
proof (rule poll_until.raw_induct [where P = "\<lambda>d r k x. \<exists>m. d (r m) = Some x", OF _ assms])
  fix loop :: "('b \<Rightarrow> 'a option) \<Rightarrow> (nat \<Rightarrow> 'b) \<Rightarrow> nat \<Rightarrow> 'a option" and decide rounds k x
  assume "\<And>d r k y. loop d r k = Some y \<Longrightarrow> \<exists>m. d (r m) = Some y"
    and "(case decide (rounds k) of None \<Rightarrow> loop decide rounds (Suc k) | Some r \<Rightarrow> Some r) = Some x"
  then show "\<exists>m. decide (rounds m) = Some x" by (auto split: option.splits)
qed

text \<open>A loop with a clock: a round that ends after the timeout decides.\<close>

locale timed_loop =
  fixes decide :: "'r \<Rightarrow> 'a option" and ends :: "'r \<Rightarrow> nat" and timeout :: nat
  assumes timed_out: "timeout \<le> ends r \<Longrightarrow> decide r \<noteq> None"
begin

lemma returns_in_time:
  assumes "\<And>k. k * period \<le> ends (rounds k)" and "0 < period"
  shows "\<exists>m r. m * period < timeout + period \<and> decide (rounds m) = Some r \<and> poll_until decide rounds 0 = Some r"
proof -
  define n where "n = (timeout + period - 1) div period"
  have n: "n * period \<le> timeout + period - 1" by (simp add: n_def)
  have "timeout + period - 1 < period + n * period"
    unfolding n_def by (rule dividend_less_div_times [OF assms(2)])
  with assms(2) have "timeout \<le> n * period" by linarith
  also have "n * period \<le> ends (rounds n)" by (rule assms(1))
  finally have "decide (rounds n) \<noteq> None" by (rule timed_out)
  then obtain m where m: "m \<le> n" "decide (rounds m) \<noteq> None" "poll_until decide rounds 0 = decide (rounds m)"
    by (rule poll_until_first)
  from m(1) have "m * period \<le> n * period" by (rule mult_le_mono1)
  with n assms(2) have "m * period < timeout + period" by linarith
  moreover from m(2) obtain r where "decide (rounds m) = Some r" by blast
  ultimately show ?thesis using m(3) by (intro exI [of _ m] exI [of _ r]) simp
qed

end

interpretation sts_loop: timed_loop "poll_decides opts mainFn" rd_End "po_Timeout opts" for opts mainFn
  by unfold_locales (auto simp: poll_decides_def split: observation.splits sum.splits bool.splits)

interpretation host_loop: timed_loop "host_decides opts" hr_End "po_Timeout opts" for opts
  by unfold_locales (auto simp: host_decides_def)

interpretation running_loop: timed_loop "running_decides config" hr_End "pc_StatefulSetUpdateTimeout config" for config
  by unfold_locales (auto simp: running_decides_def)

lemma waitHostDeleted_eq: "waitHostDeleted found = (if \<exists>k. \<not> found k then Some () else None)"
proof -
  let ?d = "\<lambda>f. if f then None else Some ()"
  have "\<exists>k. \<not> found k" if "poll_until ?d found 0 = Some u" for u
    using poll_until_result [OF that] by (auto split: if_splits)
  moreover have "poll_until ?d found 0 = Some ()" if "\<not> found k" for k
    by (rule poll_until_first [of ?d found k]) (use that in \<open>auto split: if_splits\<close>)
  ultimately show ?thesis unfolding waitHostDeleted_def by (cases "poll_until ?d found 0") auto
qed


text \<open>A StatefulSet that stays unready, and a host that never answers, with the default timings.\<close>

definition default_timings :: poll_config where
  "default_timings = \<lparr>pc_StatefulSetUpdateTimeout = 300, pc_StatefulSetUpdatePollPeriod = 15\<rparr>"

definition unready_round :: "nat \<Rightarrow> poll_round" where
  "unready_round k = \<lparr>rd_Done = False, rd_Get = NotFound, rd_Since = 15 * k, rd_End = 15 * k\<rparr>"

definition silent_round :: "nat \<Rightarrow> host_round" where
  "silent_round k = \<lparr>hr_Done = False, hr_Answer = False, hr_DoneAfter = False, hr_End = 15 * k\<rparr>"


end
