(* ===== verification/XmlBuilder.thy ===== *)
theory XmlBuilder
  imports ChiSettings
begin

text \<open>
  \<open>pkg/model/builder/xml/xml.go\<close>: the XML text of a set of settings. The paths of the settings are split
  into tags and entered into a tree, which is then written out. The writer is modelled as the list of the
  pieces it prints; the text is their concatenation. The fields of a node come in another order: tag, value
  and children.
\<close>

section \<open>The tree\<close>

datatype xmlNode = XmlNode (xn_tag: string) (xn_value: "setting option") (xn_children: "xmlNode list")

definition newNode :: "string \<Rightarrow> xmlNode" where
  "newNode t = XmlNode t None []"

text \<open>\<open>addChild\<close> returns a pointer to the child with the tag, which the caller goes on to change: here the
  change is an argument.\<close>

fun addChild :: "string \<Rightarrow> (xmlNode \<Rightarrow> xmlNode) \<Rightarrow> xmlNode list \<Rightarrow> xmlNode list" where
  "addChild t change [] = [change (newNode t)]"
| "addChild t change (c # cs) = (if xn_tag c = t then change c # cs else c # addChild t change cs)"

fun addBranch :: "string list \<Rightarrow> setting option \<Rightarrow> xmlNode \<Rightarrow> xmlNode" where
  "addBranch [] s (XmlNode t v cs) = XmlNode t s cs"
| "addBranch (tag # tags) s (XmlNode t v cs) = XmlNode t v (addChild tag (addBranch tags s) cs)"

section \<open>Writing\<close>

text \<open>The indent is a \<open>uint8\<close> and wraps around.\<close>

datatype piece =
    OpenTag "8 word" string string
  | CloseTag "8 word" string string
  | Value string
  | OpenRemoved "8 word" string

definition pad :: "8 word \<Rightarrow> string" where
  "pad indent = (if indent > 0 then replicate (unat indent) (CHR '' '') else '''')"

definition print_tag :: "8 word \<Rightarrow> string \<Rightarrow> string \<Rightarrow> string \<Rightarrow> string" where
  "print_tag indent brace t eol = (if t = '''' then '''' else pad indent @ brace @ t @ ''>'' @ eol)"

fun print_piece :: "piece \<Rightarrow> string" where
  "print_piece (OpenTag indent t eol) = print_tag indent ''<'' t eol"
| "print_piece (CloseTag indent t eol) = print_tag indent ''</'' t eol"
| "print_piece (Value v) = v"
| "print_piece (OpenRemoved indent t) = print_tag indent ''<'' (t @ '' remove='' @ [CHR 34] @ ''1'' @ [CHR 34]) ''''"

definition eol :: string where "eol = [CHR 10]"

definition writeTagWithValue :: "8 word \<Rightarrow> string \<Rightarrow> string \<Rightarrow> piece list" where
  "writeTagWithValue indent t v =
     (if v = ''_removed_'' then [OpenRemoved indent t, CloseTag 0 t eol]
      else [OpenTag indent t '''', Value v, CloseTag 0 t eol])"

fun buildXML :: "8 word \<Rightarrow> 8 word \<Rightarrow> xmlNode \<Rightarrow> piece list" where
  "buildXML indent tabsize (XmlNode t v cs) = (case v of
     None \<Rightarrow> [OpenTag indent t eol] @ concat (map (buildXML (indent + tabsize) tabsize) cs) @ [CloseTag indent t eol]
   | Some s \<Rightarrow> if isScalar s then writeTagWithValue indent t (scalar s)
       else concat (map (writeTagWithValue indent t) (vector s)))"

definition normalizePath :: "string \<Rightarrow> string \<Rightarrow> string" where
  "normalizePath prefix path = (let path = normalizeSettingsKeyAsPath path in
     if length prefix > 0 then prefix @ ''/'' @ path else path)"

text \<open>The paths in the order of the walk, and which setting each path stands for: the last one met.\<close>

definition collect_paths ::
    "string \<Rightarrow> settings option \<Rightarrow> string list \<times> (string, string) gmap" where
  "collect_paths prefix settings = Settings_Walk (\<lambda>name _ (paths, data).
     let path = normalizePath prefix name in
     if path = '''' then (paths, data) else (paths @ [path], gput path name data)) settings ([], [])"

definition settings_tree :: "string \<Rightarrow> settings option \<Rightarrow> xmlNode" where
  "settings_tree prefix settings = (case collect_paths prefix settings of (paths, data) \<Rightarrow>
     fold (\<lambda>path. addBranch (split_on (CHR ''/'') path)
         (Settings_Get settings (case gget data path of Some name \<Rightarrow> name | None \<Rightarrow> '''')))
       (sort paths) (newNode ''''))"

definition xml_pieces :: "string \<Rightarrow> settings option \<Rightarrow> piece list" where
  "xml_pieces prefix settings =
     (if Settings_Len settings = 0 then [] else buildXML 0 4 (settings_tree prefix settings))"

definition GenerateXML :: "string \<Rightarrow> settings option \<Rightarrow> string" where
  "GenerateXML prefix settings = concat (map print_piece (xml_pieces prefix settings))"

section \<open>What the tree holds\<close>

fun value_at :: "string list \<Rightarrow> xmlNode \<Rightarrow> setting option" where
  "value_at [] (XmlNode t v cs) = v"
| "value_at (tag # tags) (XmlNode t v cs) =
     (case find (\<lambda>c. xn_tag c = tag) cs of None \<Rightarrow> None | Some c \<Rightarrow> value_at tags c)"

lemma xn_tag_addBranch [simp]: "xn_tag (addBranch tags s n) = xn_tag n"
  by (induction tags s n rule: addBranch.induct) simp_all

lemma find_addChild:
  assumes "\<And>c. xn_tag (change c) = xn_tag c"
  shows "find (\<lambda>c. xn_tag c = t) (addChild tag change cs)
     = (if t = tag then Some (change (case find (\<lambda>c. xn_tag c = tag) cs of None \<Rightarrow> newNode tag | Some c \<Rightarrow> c))
        else find (\<lambda>c. xn_tag c = t) cs)"
  by (induction cs) (auto simp: assms newNode_def)

lemma value_at_newNode [simp]: "value_at tags (newNode t) = None"
  by (cases tags) (simp_all add: newNode_def)

lemma value_at_addBranch: "value_at q (addBranch p s n) = (if q = p then s else value_at q n)"
proof (induction p s n arbitrary: q rule: addBranch.induct)
  case (1 s t v cs)
  then show ?case by (cases q) simp_all
next
  case (2 tag tags s t v cs)
  then show ?case
    by (cases q) (auto simp: find_addChild split: option.splits)
qed

fun well_tagged :: "xmlNode \<Rightarrow> bool" where
  "well_tagged (XmlNode t v cs) = (distinct (map xn_tag cs) \<and> list_all (\<lambda>c. xn_tag c \<noteq> '''') cs \<and> list_all well_tagged cs)"

lemma tags_addChild:
  "(\<And>c. xn_tag (change c) = xn_tag c) \<Longrightarrow>
     set (map xn_tag (addChild tag change cs)) = insert tag (set (map xn_tag cs))"
  by (induction cs) (auto simp: newNode_def)

lemma addChild_well:
  assumes change: "\<And>c. xn_tag (change c) = xn_tag c" "\<And>c. well_tagged c \<Longrightarrow> well_tagged (change c)"
    and "tag \<noteq> ''''"
    and "distinct (map xn_tag cs)" "list_all (\<lambda>c. xn_tag c \<noteq> '''') cs" "list_all well_tagged cs"
  shows "distinct (map xn_tag (addChild tag change cs)) \<and> list_all (\<lambda>c. xn_tag c \<noteq> '''') (addChild tag change cs)
    \<and> list_all well_tagged (addChild tag change cs)"
  using assms(4-6)
proof (induction cs)
  case Nil
  then show ?case using change(2) [of "newNode tag"] \<open>tag \<noteq> ''''\<close> by (simp add: change(1)) (simp add: newNode_def)
next
  case (Cons c cs)
  have "xn_tag c \<notin> set (map xn_tag (addChild tag change cs))" if "xn_tag c \<noteq> tag"
    using Cons.prems(1) that by (simp only: tags_addChild [OF change(1)]) auto
  then show ?case using Cons change by auto
qed

lemma addBranch_well: "list_all (\<lambda>t. t \<noteq> '''') tags \<Longrightarrow> well_tagged n \<Longrightarrow> well_tagged (addBranch tags s n)"
proof (induction tags s n rule: addBranch.induct)
  case (2 tag tags s t v cs)
  then show ?case using addChild_well [of "addBranch tags s" tag cs] by auto
qed simp

section \<open>Reading the pieces back\<close>

text \<open>The contents of the text: for every element with a value the tags on the way to it, and the value.\<close>

fun read_pieces :: "string list \<Rightarrow> piece list \<Rightarrow> (string list \<times> string) list" where
  "read_pieces path [] = []"
| "read_pieces path (OpenTag indent t e # ps) =
     read_pieces (if t = '''' then path else path @ [t]) ps"
| "read_pieces path (CloseTag indent t e # ps) = read_pieces (if t = '''' then path else butlast path) ps"
| "read_pieces path (Value v # ps) = (path, v) # read_pieces path ps"
| "read_pieces path (OpenRemoved indent t # ps) = (path @ [t], ''_removed_'') # read_pieces (path @ [t]) ps"

text \<open>The contents of a tree: a node with a value hides what is below it.\<close>

fun contents :: "string list \<Rightarrow> xmlNode \<Rightarrow> (string list \<times> string) list" where
  "contents path (XmlNode t v cs) = (case v of
     None \<Rightarrow> concat (map (\<lambda>c. contents (path @ [xn_tag c]) c) cs)
   | Some s \<Rightarrow> map (\<lambda>x. (path, x)) (Setting_AsVector s))"

lemma read_value:
  "t \<noteq> '''' \<Longrightarrow> read_pieces path (writeTagWithValue indent t v @ ps) = (path @ [t], v) # read_pieces path ps"
  by (simp add: writeTagWithValue_def)

lemma read_values:
  "t \<noteq> '''' \<Longrightarrow> read_pieces path (concat (map (writeTagWithValue indent t) vs) @ ps)
     = map (\<lambda>x. (path @ [t], x)) vs @ read_pieces path ps"
  by (induction vs) (simp_all add: read_value)

lemma read_buildXML:
  "well_tagged n \<Longrightarrow> xn_tag n \<noteq> '''' \<Longrightarrow>
     read_pieces path (buildXML indent tabsize n @ ps) = contents (path @ [xn_tag n]) n @ read_pieces path ps"
proof (induction n arbitrary: path indent ps)
  case (XmlNode t v cs)
  show ?case
  proof (cases v)
    case None
    have "read_pieces path' (concat (map (buildXML i tabsize) cs') @ ps')
        = concat (map (\<lambda>c. contents (path' @ [xn_tag c]) c) cs') @ read_pieces path' ps'"
      if "set cs' \<subseteq> set cs" for path' i cs' ps'
      using that
    proof (induction cs')
      case (Cons c cs')
      with XmlNode.prems have "well_tagged c" "xn_tag c \<noteq> ''''" by (auto simp: list_all_iff)
      with Cons XmlNode.IH [of c] show ?case by simp
    qed simp
    from this [OF subset_refl] None XmlNode.prems show ?thesis by simp
  next
    case (Some s)
    with XmlNode.prems show ?thesis by (simp add: read_value read_values Setting_AsVector_def)
  qed
qed

lemma read_root:
  assumes "well_tagged (XmlNode '''' None cs)"
  shows "read_pieces [] (buildXML indent tabsize (XmlNode '''' None cs)) = contents [] (XmlNode '''' None cs)"
proof -
  have "read_pieces [] (concat (map (buildXML i tabsize) cs') @ ps)
      = concat (map (\<lambda>c. contents [xn_tag c] c) cs') @ read_pieces [] ps"
    if "set cs' \<subseteq> set cs" for i cs' ps
    using that
  proof (induction cs')
    case (Cons c cs')
    with assms have "well_tagged c" "xn_tag c \<noteq> ''''" by (auto simp: list_all_iff)
    with Cons read_buildXML [of c "[]"] show ?case by simp
  qed simp
  from this [OF subset_refl, of _ "[CloseTag indent '''' eol]"] show ?thesis by simp
qed

definition hides :: "string list \<Rightarrow> string list \<Rightarrow> bool" where
  "hides r q = (\<exists>t ts. q = r @ t # ts)"

lemma hides_simps [simp]:
  "\<not> hides r []" "hides [] (t # q)" "hides (t # r) (t' # q) \<longleftrightarrow> t = t' \<and> hides r q"
  by (auto simp: hides_def)

text \<open>What a tree contains, by its values.\<close>

lemma in_contents:
  "well_tagged n \<Longrightarrow> (p, x) \<in> set (contents path n) \<longleftrightarrow>
     (\<exists>q s. p = path @ q \<and> value_at q n = Some s \<and> x \<in> set (Setting_AsVector s)
       \<and> (\<forall>r. hides r q \<longrightarrow> value_at r n = None))"
proof (induction n arbitrary: path)
  case (XmlNode t v cs)
  show ?case
  proof (cases v)
    case (Some s)
    have "q = []" if "\<forall>r. hides r q \<longrightarrow> value_at r (XmlNode t v cs) = None" for q
      using that Some by (cases q) (auto dest: spec [of _ "[]"])
    then have "(\<exists>q s'. p = path @ q \<and> value_at q (XmlNode t v cs) = Some s' \<and> x \<in> set (Setting_AsVector s')
        \<and> (\<forall>r. hides r q \<longrightarrow> value_at r (XmlNode t v cs) = None)) \<longleftrightarrow> p = path \<and> x \<in> set (Setting_AsVector s)"
      using Some by (metis (no_types, lifting) append_Nil2 hides_simps(1) option.sel value_at.simps(1))
    with Some show ?thesis by auto
  next
    case None
    have child: "(c \<in> set cs \<and> (p, x) \<in> set (contents (path @ [xn_tag c]) c)) \<longleftrightarrow>
        c \<in> set cs \<and> (\<exists>q s. p = path @ xn_tag c # q \<and> value_at q c = Some s \<and> x \<in> set (Setting_AsVector s)
          \<and> (\<forall>r. hides r q \<longrightarrow> value_at r c = None))" for c
      using XmlNode.IH [of c "path @ [xn_tag c]"] XmlNode.prems by (auto simp: list_all_iff)
    have found: "find (\<lambda>d. xn_tag d = xn_tag c) cs = Some c" if "c \<in> set cs" for c
      using that XmlNode.prems by (induction cs) (auto simp: rev_image_eqI)
    have in_cs: "find (\<lambda>d. xn_tag d = tag) cs = Some c \<Longrightarrow> c \<in> set cs \<and> xn_tag c = tag" for tag c
      by (induction cs) (auto split: if_splits)
    have "(p, x) \<in> set (contents path (XmlNode t v cs)) \<longleftrightarrow>
        (\<exists>c \<in> set cs. (p, x) \<in> set (contents (path @ [xn_tag c]) c))"
      using None by auto
    also have "\<dots> \<longleftrightarrow> (\<exists>c \<in> set cs. \<exists>q s. p = path @ xn_tag c # q \<and> value_at q c = Some s
        \<and> x \<in> set (Setting_AsVector s) \<and> (\<forall>r. hides r q \<longrightarrow> value_at r c = None))"
      using child by blast
    also have "\<dots> \<longleftrightarrow> (\<exists>q s. p = path @ q \<and> value_at q (XmlNode t v cs) = Some s \<and> x \<in> set (Setting_AsVector s)
        \<and> (\<forall>r. hides r q \<longrightarrow> value_at r (XmlNode t v cs) = None))" (is "?l \<longleftrightarrow> ?r")
    proof
      assume ?l
      then obtain c q s where c: "c \<in> set cs" "p = path @ xn_tag c # q" "value_at q c = Some s"
          "x \<in> set (Setting_AsVector s)" "\<forall>r. hides r q \<longrightarrow> value_at r c = None" by blast
      have "value_at r (XmlNode t v cs) = None" if "hides r (xn_tag c # q)" for r
        using that c None found [OF c(1)] by (cases r) auto
      moreover have "value_at (xn_tag c # q) (XmlNode t v cs) = Some s" using c found [OF c(1)] by simp
      ultimately show ?r using c by blast
    next
      assume ?r
      then obtain q s where q: "p = path @ q" "value_at q (XmlNode t v cs) = Some s" "x \<in> set (Setting_AsVector s)"
          "\<forall>r. hides r q \<longrightarrow> value_at r (XmlNode t v cs) = None" by blast
      with None obtain tag q' where tag: "q = tag # q'" by (cases q) auto
      with q obtain c where c: "find (\<lambda>d. xn_tag d = tag) cs = Some c" "value_at q' c = Some s"
        by (auto split: option.splits)
      have "value_at r c = None" if "hides r q'" for r
        using q(4) that c(1) unfolding tag by (metis value_at.simps(2) option.simps(5) hides_simps(3))
      with c q tag in_cs [OF c(1)] show ?l by blast
    qed
    finally show ?thesis .
  qed
qed

section \<open>The settings in the text\<close>

lemma value_at_branches:
  assumes "inj_on f (set ps)"
  shows "value_at q (fold (\<lambda>p. addBranch (f p) (g p)) ps (newNode t)) = Some s
     \<longleftrightarrow> (\<exists>p \<in> set ps. q = f p \<and> g p = Some s)"
  using assms
proof (induction ps rule: rev_induct)
  case (snoc p ps)
  then have "p' = p" if "p' \<in> set ps" "f p' = f p" for p'
    using that by (auto simp: inj_on_def)
  moreover have "inj_on f (set ps)" using snoc.prems by (auto simp: inj_on_def)
  ultimately show ?case using snoc.IH by (auto simp: value_at_addBranch)
qed simp

lemma split_on_inject: "split_on c a = split_on c b \<longleftrightarrow> a = b"
  by (metis join_split)

lemma split_on_append: "split_on c (a @ c # b) = split_on c a @ split_on c b"
  by (induction a) (auto split: list.splits)

lemma split_on_parts:
  "no_double_slash p \<Longrightarrow> p \<noteq> [] \<Longrightarrow> last p \<noteq> CHR ''/'' \<Longrightarrow>
     (hd p \<noteq> CHR ''/'' \<longrightarrow> list_all (\<lambda>t. t \<noteq> []) (split_on (CHR ''/'') p))
     \<and> list_all (\<lambda>t. t \<noteq> []) (tl (split_on (CHR ''/'') p))"
proof (induction p)
  case (Cons c p)
  show ?case
  proof (cases p)
    case (Cons d p')
    with Cons.prems Cons.IH have "list_all (\<lambda>t. t \<noteq> []) (tl (split_on (CHR ''/'') p))"
      and "c = CHR ''/'' \<longrightarrow> list_all (\<lambda>t. t \<noteq> []) (split_on (CHR ''/'') p)"
      by (auto dest: no_double_Cons)
    then show ?thesis by (auto split: list.splits)
  qed (use Cons.prems in auto)
qed simp

lemma normal_tags: "path_normal p \<Longrightarrow> p \<noteq> [] \<Longrightarrow> list_all (\<lambda>t. t \<noteq> []) (split_on (CHR ''/'') p)"
  using split_on_parts [of p] by (simp add: path_normal_def)

definition prefix_tags :: "string \<Rightarrow> string list" where
  "prefix_tags prefix = (if prefix = '''' then [] else split_on (CHR ''/'') prefix)"

lemma normalizePath_tags:
  "path_normal nm \<Longrightarrow> split_on (CHR ''/'') (normalizePath prefix nm) = prefix_tags prefix @ split_on (CHR ''/'') nm"
  by (simp add: normalizePath_def Let_def normal_fix prefix_tags_def split_on_append)

lemma normalizePath_inject:
  "path_normal a \<Longrightarrow> path_normal b \<Longrightarrow> normalizePath prefix a = normalizePath prefix b \<longleftrightarrow> a = b"
  by (simp add: normalizePath_def Let_def normal_fix)

lemma normalizePath_nonempty: "path_normal nm \<Longrightarrow> nm \<noteq> [] \<Longrightarrow> normalizePath prefix nm \<noteq> []"
  by (simp add: normalizePath_def Let_def normal_fix)

lemma collect_paths_normal:
  assumes ok: "gmap_ok m" and normal: "list_all (\<lambda>(nm, _). path_normal nm \<and> nm \<noteq> []) m"
  shows "\<exists>data. collect_paths prefix (Some m) = (map (normalizePath prefix \<circ> fst) m, data)
    \<and> (\<forall>nm \<in> fst ` set m. gget data (normalizePath prefix nm) = Some nm)"
proof -
  let ?step = "\<lambda>(nm, v) (paths, data). let path = normalizePath prefix nm in
     if path = '''' then (paths, data) else (paths @ [path], gput path nm data)"
  have "\<exists>data. fold ?step kvs ([], []) = (map (normalizePath prefix \<circ> fst) kvs, data)
      \<and> (\<forall>nm \<in> fst ` set kvs. gget data (normalizePath prefix nm) = Some nm)" if "set kvs \<subseteq> set m" for kvs
    using that
  proof (induction kvs rule: rev_induct)
    case (snoc kv kvs)
    obtain nm v where kv: "kv = (nm, v)" by (cases kv)
    from snoc obtain data where IH: "fold ?step kvs ([], []) = (map (normalizePath prefix \<circ> fst) kvs, data)"
      "\<forall>nm \<in> fst ` set kvs. gget data (normalizePath prefix nm) = Some nm" by auto
    have n: "path_normal a \<and> a \<noteq> []" if "(a, b) \<in> set (kvs @ [kv])" for a b
      using normal snoc.prems that by (auto simp: list_all_iff)
    from n [of nm v] kv have "normalizePath prefix nm \<noteq> []" by (simp add: normalizePath_nonempty)
    moreover have "\<forall>a \<in> fst ` set kvs. normalizePath prefix a = normalizePath prefix nm \<longleftrightarrow> a = nm"
    proof
      fix a assume "a \<in> fst ` set kvs"
      then obtain b where "(a, b) \<in> set kvs" by auto
      with n [of a b] n [of nm v] kv show "normalizePath prefix a = normalizePath prefix nm \<longleftrightarrow> a = nm"
        by (intro normalizePath_inject) auto
    qed
    then have "\<forall>a \<in> fst ` set (kvs @ [kv]). gget (gput (normalizePath prefix nm) nm data) (normalizePath prefix a) = Some a"
      using IH(2) kv by (auto simp: gmap_simps)
    ultimately show ?case using IH(1) kv by (intro exI [of _ "gput (normalizePath prefix nm) nm data"]) (simp add: Let_def)
  qed simp
  from this [OF subset_refl] show ?thesis
    unfolding collect_paths_def by (simp add: Settings_Walk_Some [OF ok] case_prod_unfold Let_def)
qed

lemma settings_tree_value:
  assumes ok: "gmap_ok m" and normal: "list_all (\<lambda>(nm, _). path_normal nm \<and> nm \<noteq> []) m"
  shows "value_at q (settings_tree prefix (Some m)) = Some s \<longleftrightarrow>
    (\<exists>nm. gget m nm = Some s \<and> q = prefix_tags prefix @ split_on (CHR ''/'') nm)"
proof -
  let ?np = "normalizePath prefix" and ?tags = "split_on (CHR ''/'')"
  obtain data where c: "collect_paths prefix (Some m) = (map (?np \<circ> fst) m, data)"
    and d: "\<forall>nm \<in> fst ` set m. gget data (?np nm) = Some nm"
    using collect_paths_normal [OF assms] by blast
  let ?g = "\<lambda>path. gget m (case gget data path of Some name \<Rightarrow> name | None \<Rightarrow> '''')"
  let ?ps = "sort (map (?np \<circ> fst) m)"
  have inj: "inj_on ?tags (set ?ps)" by (simp add: inj_on_def split_on_inject)
  have names: "nm \<in> fst ` set m \<Longrightarrow> path_normal nm \<and> ?g (?np nm) = gget m nm" for nm
    using normal d by (auto simp: list_all_iff)
  have tags: "nm \<in> fst ` set m \<Longrightarrow> ?tags (?np nm) = prefix_tags prefix @ ?tags nm" for nm
    using names normalizePath_tags by blast
  have keys: "gget m nm = Some s \<Longrightarrow> nm \<in> fst ` set m" for nm
    using gget_Some_in [OF ok, of nm s] by force
  have "settings_tree prefix (Some m) = fold (\<lambda>path. addBranch (?tags path) (?g path)) ?ps (newNode '''')"
    by (simp add: settings_tree_def c)
  then have "value_at q (settings_tree prefix (Some m)) = Some s
      \<longleftrightarrow> (\<exists>p \<in> set ?ps. q = ?tags p \<and> ?g p = Some s)"
    using value_at_branches [OF inj, of q ?g "''''" s] by simp
  also have "\<dots> \<longleftrightarrow> (\<exists>nm \<in> fst ` set m. q = ?tags (?np nm) \<and> ?g (?np nm) = Some s)"
    by auto
  also have "\<dots> \<longleftrightarrow> (\<exists>nm. gget m nm = Some s \<and> q = prefix_tags prefix @ ?tags nm)"
    using names tags keys by metis
  finally show ?thesis .
qed

lemma hides_append [simp]: "hides (p @ r) (p @ q) \<longleftrightarrow> hides r q"
  by (induction p) auto

lemma fold_branches_well:
  "(\<And>p. p \<in> set ps \<Longrightarrow> list_all (\<lambda>t. t \<noteq> '''') (f p)) \<Longrightarrow> well_tagged n \<Longrightarrow>
     well_tagged (fold (\<lambda>p. addBranch (f p) (g p)) ps n) \<and> xn_tag (fold (\<lambda>p. addBranch (f p) (g p)) ps n) = xn_tag n"
  by (induction ps arbitrary: n) (auto simp: addBranch_well)

lemma settings_tree_well:
  assumes ok: "gmap_ok m" and normal: "list_all (\<lambda>(nm, _). path_normal nm \<and> nm \<noteq> []) m"
    and "path_normal prefix"
  shows "well_tagged (settings_tree prefix (Some m)) \<and> xn_tag (settings_tree prefix (Some m)) = ''''"
proof -
  obtain data where c: "collect_paths prefix (Some m) = (map (normalizePath prefix \<circ> fst) m, data)"
    using collect_paths_normal [OF ok normal] by blast
  have tags: "list_all (\<lambda>t. t \<noteq> '''') (split_on (CHR ''/'') p)"
    if p: "p \<in> set (sort (map (normalizePath prefix \<circ> fst) m))" for p
  proof -
    from p obtain nm v where nm: "(nm, v) \<in> set m" "p = normalizePath prefix nm" by auto
    with normal have "path_normal nm" "nm \<noteq> []" by (auto simp: list_all_iff)
    with nm normal_tags [of nm] normal_tags [OF assms(3)] show ?thesis
      by (simp add: normalizePath_tags prefix_tags_def)
  qed
  show ?thesis
    unfolding settings_tree_def c prod.case
    using fold_branches_well [of "sort (map (normalizePath prefix \<circ> fst) m)" "split_on (CHR ''/'')" "newNode ''''"] tags
    by (simp add: newNode_def)
qed


definition nested_settings :: settings where
  "nested_settings = [(''default/password'', NewSettingScalar ''x''), (''default/networks/ip'', NewSettingVector [''a'', ''b'']),
     (''default/password/hash'', NewSettingScalar ''lost'')]"


end
