(* ===== verification/ConfigGen.thy ===== *)
theory ConfigGen
  imports Polling XmlBuilder
begin

text \<open>
  The configuration files of ClickHouse: \<open>pkg/model/ch_config_generator.go\<close> and
  \<open>pkg/model/ch_config_files_generator.go\<close>. The files are texts, written line by line.

  The installation is a normalized one: every cluster has a layout and every shard its hosts. What the
  host name of a replica is comes from the namer and is an argument here; so is the content of the
  operator's own configuration files.
\<close>

section \<open>Lines\<close>

definition Iline :: "nat \<Rightarrow> string \<Rightarrow> string" where
  "Iline indent s = (if indent > 0 then replicate indent (CHR '' '') else '''') @ s @ [CHR 10]"

definition Dec :: "port \<Rightarrow> string" where
  "Dec p = Itoa (sint p)"

definition xmlTagYandex :: string where "xmlTagYandex = ''yandex''"

definition otag :: "string \<Rightarrow> string" where "otag t = ''<'' @ t @ ''>''"
definition ctag :: "string \<Rightarrow> string" where "ctag t = ''</'' @ t @ ''>''"

definition in_tag :: "string \<Rightarrow> string \<Rightarrow> string" where
  "in_tag t s = otag t @ s @ ctag t"

section \<open>Sections made of settings\<close>

definition generateXMLConfig :: "settings option \<Rightarrow> string \<Rightarrow> string" where
  "generateXMLConfig settings prefix = (if Settings_Len settings = 0 then ''''
     else Iline 0 (otag xmlTagYandex) @ GenerateXML prefix settings @ Iline 0 (ctag xmlTagYandex))"

definition GetUsers :: "Configuration \<Rightarrow> string" where
  "GetUsers c = generateXMLConfig (cf_Users c) ''users''"

definition GetProfiles :: "Configuration \<Rightarrow> string" where
  "GetProfiles c = generateXMLConfig (cf_Profiles c) ''profiles''"

definition GetQuotas :: "Configuration \<Rightarrow> string" where
  "GetQuotas c = generateXMLConfig (cf_Quotas c) ''quotas''"

definition GetSettings :: "Configuration \<Rightarrow> ChiHost option \<Rightarrow> string" where
  "GetSettings c host = (case host of None \<Rightarrow> generateXMLConfig (cf_Settings c) ''''
     | Some h \<Rightarrow> generateXMLConfig (h_Settings h) '''')"

definition GetFiles ::
    "Configuration \<Rightarrow> settings_section \<Rightarrow> bool \<Rightarrow> ChiHost option \<Rightarrow> strmap option" where
  "GetFiles c sect includeUnspecified host =
     (let files = (case host of None \<Rightarrow> cf_Files c | Some h \<Rightarrow> h_Files h)
      in GetSectionStringMap files sect includeUnspecified)"

section \<open>ZooKeeper\<close>

definition getDistributedDDLPath :: "string \<Rightarrow> string" where
  "getDistributedDDLPath chiName = ''/clickhouse/'' @ chiName @ ''/task_queue/ddl''"

text \<open>The nodes written: those of the section, or those of the ensemble the operator installs.\<close>

definition zookeeper_nodes :: "(int \<Rightarrow> string) \<Rightarrow> ChiZookeeperConfig \<Rightarrow> ChiZookeeperNode list option" where
  "zookeeper_nodes podFQDN zk = (if \<not> ChiZookeeperConfig_IsEmpty (Some zk) then Some (zk_Nodes zk)
     else if zk_Install zk
     then Some (map (\<lambda>i. \<lparr>zkn_Host = podFQDN (int i), zkn_Port = zk_Port zk\<rparr>) [0..<nat (sint (zk_Replica zk))])
     else None)"

definition zookeeper_node_lines :: "ChiZookeeperNode \<Rightarrow> string" where
  "zookeeper_node_lines node = Iline 8 (otag ''node'')
     @ Iline 8 (''    '' @ in_tag ''host'' (zkn_Host node))
     @ Iline 8 (''    '' @ in_tag ''port'' (Dec (zkn_Port node)))
     @ Iline 8 (ctag ''node'')"

definition GetHostZookeeper ::
    "(int \<Rightarrow> string) \<Rightarrow> string \<Rightarrow> ChiDistributedDDL option \<Rightarrow> ChiZookeeperConfig option \<Rightarrow> string go" where
  "GetHostZookeeper podFQDN chiName ddl zookeeper = (case zookeeper of
     None \<Rightarrow> Inl NilDereference
   | Some zk \<Rightarrow> (case zookeeper_nodes podFQDN zk of
       None \<Rightarrow> Inr ''''
     | Some nodes \<Rightarrow> Inr (
         Iline 0 (otag xmlTagYandex)
         @ Iline 4 (otag ''zookeeper'')
         @ concat (map zookeeper_node_lines nodes)
         @ (if zk_SessionTimeoutMs zk > 0
            then Iline 8 (in_tag ''session_timeout_ms'' (Itoa (zk_SessionTimeoutMs zk))) else '''')
         @ (if zk_OperationTimeoutMs zk > 0
            then Iline 8 (in_tag ''operation_timeout_ms'' (Itoa (zk_OperationTimeoutMs zk))) else '''')
         @ (if length (zk_Root zk) > 0 then Iline 8 (in_tag ''root'' (zk_Root zk)) else '''')
         @ (if length (zk_Identity zk) > 0 then Iline 8 (in_tag ''identity'' (zk_Identity zk)) else '''')
         @ Iline 4 (ctag ''zookeeper'')
         @ Iline 4 (otag ''distributed_ddl'')
         @ Iline 4 (''    '' @ in_tag ''path'' (getDistributedDDLPath chiName))
         @ (if HasProfile ddl then Iline 4 (''    '' @ in_tag ''profile'' (GetProfile ddl)) else '''')
         @ Iline 4 (ctag ''distributed_ddl'')
         @ Iline 0 (ctag xmlTagYandex))))"

section \<open>Remote servers\<close>

record RemoteServersGeneratorOptions =
  rso_reconcileAttributes :: "ChiHostReconcileAttributes option"
  rso_hosts :: "host_ptr list"

definition NewRemoteServersGeneratorOptions :: RemoteServersGeneratorOptions where
  "NewRemoteServersGeneratorOptions = \<lparr>rso_reconcileAttributes = None, rso_hosts = []\<rparr>"

definition ExcludeHost ::
    "host_ptr \<Rightarrow> RemoteServersGeneratorOptions option \<Rightarrow> RemoteServersGeneratorOptions option" where
  "ExcludeHost host opts = (case (opts, host) of
     (None, _) \<Rightarrow> opts
   | (_, None) \<Rightarrow> opts
   | (Some opts', Some _) \<Rightarrow> Some (opts'\<lparr>rso_hosts := rso_hosts opts' @ [host]\<rparr>))"

definition ExcludeReconcileAttributes ::
    "ChiHostReconcileAttributes option \<Rightarrow> RemoteServersGeneratorOptions option
      \<Rightarrow> RemoteServersGeneratorOptions option" where
  "ExcludeReconcileAttributes a opts = (case (opts, a) of
     (None, _) \<Rightarrow> opts
   | (_, None) \<Rightarrow> opts
   | (Some opts', Some _) \<Rightarrow> Some (opts'\<lparr>rso_reconcileAttributes := a\<rparr>))"

definition Skip :: "RemoteServersGeneratorOptions option \<Rightarrow> host_store \<Rightarrow> host_ptr \<Rightarrow> bool go" where
  "Skip opts store host = (case opts of
     None \<Rightarrow> Inr False
   | Some opts' \<Rightarrow> (case store_get store host of
       None \<Rightarrow> Inl NilDereference
     | Some h \<Rightarrow> Inr (ra_Any (rso_reconcileAttributes opts') (h_ReconcileAttributes h) \<or> host \<in> set (rso_hosts opts'))))"

text \<open>The hosts of a normalized installation exist; \<open>Include\<close> leaves out a pointer to none.\<close>

definition Include :: "RemoteServersGeneratorOptions option \<Rightarrow> host_store \<Rightarrow> host_ptr \<Rightarrow> bool" where
  "Include opts store host = (case opts of
     None \<Rightarrow> False
   | Some opts' \<Rightarrow> (case store_get store host of
       None \<Rightarrow> False
     | Some h \<Rightarrow> \<not> ra_Any (rso_reconcileAttributes opts') (h_ReconcileAttributes h) \<and> host \<notin> set (rso_hosts opts')))"

definition shards_of :: "ChiCluster \<Rightarrow> ChiShard list" where
  "shards_of cluster = (case cu_Layout cluster of None \<Rightarrow> [] | Some lay \<Rightarrow> lay_Shards lay)"

definition chi_shards :: "ChiCluster list \<Rightarrow> ChiShard list" where
  "chi_shards clusters = concat (map shards_of clusters)"

definition chi_hosts :: "ChiCluster list \<Rightarrow> host_ptr list" where
  "chi_hosts clusters = concat (map sh_Hosts (chi_shards clusters))"

definition ShardHostsNum :: "(host_ptr \<Rightarrow> bool) \<Rightarrow> ChiShard \<Rightarrow> nat" where
  "ShardHostsNum incl shard = length (filter incl (sh_Hosts shard))"

definition ClusterHostsNum :: "(host_ptr \<Rightarrow> bool) \<Rightarrow> ChiCluster \<Rightarrow> nat" where
  "ClusterHostsNum incl cluster = fold (\<lambda>shard num. num + ShardHostsNum incl shard) (shards_of cluster) 0"

definition CHIHostsNum :: "(host_ptr \<Rightarrow> bool) \<Rightarrow> ChiCluster list \<Rightarrow> nat" where
  "CHIHostsNum incl clusters = length (filter incl (chi_hosts clusters))"

text \<open>What is read of a host: the name a replica is reached by, and its TCP port.\<close>

record host_view =
  hv_hostname :: "host_ptr \<Rightarrow> string"
  hv_port :: "host_ptr \<Rightarrow> port"
  hv_include :: "host_ptr \<Rightarrow> bool"

definition replica_lines :: "host_view \<Rightarrow> host_ptr \<Rightarrow> string" where
  "replica_lines v host = (if hv_include v host
     then Iline 16 (otag ''replica'')
       @ Iline 16 (''    '' @ in_tag ''host'' (hv_hostname v host))
       @ Iline 16 (''    '' @ in_tag ''port'' (Dec (hv_port v host)))
       @ Iline 16 (ctag ''replica'')
     else '''')"

definition weight_line :: "ChiShard \<Rightarrow> string" where
  "weight_line shard = (if sh_Weight shard > 0 then Iline 16 (in_tag ''weight'' (Itoa (sh_Weight shard))) else '''')"

definition shard_lines :: "host_view \<Rightarrow> bool \<Rightarrow> ChiShard \<Rightarrow> string" where
  "shard_lines v with_replication shard = (if ShardHostsNum (hv_include v) shard < 1 then ''''
     else Iline 12 (otag ''shard'')
       @ (if with_replication
          then Iline 16 (in_tag ''internal_replication'' (sh_InternalReplication shard)) else '''')
       @ weight_line shard
       @ concat (map (replica_lines v) (sh_Hosts shard))
       @ Iline 12 (ctag ''shard''))"

definition cluster_lines :: "host_view \<Rightarrow> ChiCluster \<Rightarrow> string" where
  "cluster_lines v cluster = (if ClusterHostsNum (hv_include v) cluster < 1 then ''''
     else Iline 8 (otag (cu_Name cluster))
       @ concat (map (shard_lines v True) (shards_of cluster))
       @ Iline 8 (ctag (cu_Name cluster)))"

definition one_replica_shard_lines :: "host_view \<Rightarrow> host_ptr \<Rightarrow> string" where
  "one_replica_shard_lines v host = (if hv_include v host
     then Iline 12 (otag ''shard'')
       @ Iline 12 (''    '' @ in_tag ''internal_replication'' ''false'')
       @ replica_lines v host
       @ Iline 12 (ctag ''shard'')
     else '''')"

definition physicalConsistencyClusterName :: string where
  "physicalConsistencyClusterName = ''physical_consistency_cluster''"
definition logicalConsistencyClusterName :: string where
  "logicalConsistencyClusterName = ''logical_consistency_cluster''"
definition oneShardAllReplicasClusterName :: string where "oneShardAllReplicasClusterName = ''all-replicated''"
definition allShardsOneReplicaClusterName :: string where "allShardsOneReplicaClusterName = ''all-sharded''"

definition autogenerated_lines :: "host_view \<Rightarrow> ChiCluster list \<Rightarrow> string" where
  "autogenerated_lines v clusters =
     (if CHIHostsNum (hv_include v) clusters < 1
      then Iline 8 ''<!-- Autogenerated clusters are skipped due to absence of hots -->''
      else Iline 8 ''<!-- Autogenerated clusters -->''
        @ Iline 8 (otag allShardsOneReplicaClusterName)
        @ concat (map (one_replica_shard_lines v) (chi_hosts clusters))
        @ Iline 8 (ctag allShardsOneReplicaClusterName)
        @ Iline 8 (otag physicalConsistencyClusterName)
        @ concat (map (shard_lines v True) (chi_shards clusters))
        @ Iline 8 (ctag physicalConsistencyClusterName)
        @ Iline 8 (otag logicalConsistencyClusterName)
        @ concat (map (shard_lines v False) (chi_shards clusters))
        @ Iline 8 (ctag logicalConsistencyClusterName)
        @ Iline 8 (otag oneShardAllReplicasClusterName)
        @ Iline 8 (''    '' @ otag ''shard'')
        @ Iline 8 (''        '' @ in_tag ''internal_replication'' ''true'')
        @ concat (map (replica_lines v) (chi_hosts clusters))
        @ Iline 8 (''    '' @ ctag ''shard'')
        @ Iline 8 (ctag oneShardAllReplicasClusterName))"

definition remote_servers_lines :: "host_view \<Rightarrow> ChiCluster list \<Rightarrow> string" where
  "remote_servers_lines v clusters =
     Iline 0 (otag xmlTagYandex)
     @ Iline 4 (in_tag ''default_on_cluster_name'' allShardsOneReplicaClusterName)
     @ Iline 4 (otag ''remote_servers'')
     @ Iline 8 ''<!-- User-specified clusters -->''
     @ concat (map (cluster_lines v) clusters)
     @ autogenerated_lines v clusters
     @ Iline 0 (''    '' @ ctag ''remote_servers'')
     @ Iline 0 (ctag xmlTagYandex)"

definition GetRemoteServers ::
    "(ChiHost \<Rightarrow> string) \<Rightarrow> RemoteServersGeneratorOptions option \<Rightarrow> host_store \<Rightarrow> ChiCluster list \<Rightarrow> string" where
  "GetRemoteServers hostname options store clusters =
     (let options = (case options of None \<Rightarrow> Some NewRemoteServersGeneratorOptions | Some o' \<Rightarrow> Some o');
          v = \<lparr>hv_hostname = (\<lambda>p. case store_get store p of None \<Rightarrow> '''' | Some h \<Rightarrow> hostname h),
               hv_port = (\<lambda>p. case store_get store p of None \<Rightarrow> 0 | Some h \<Rightarrow> h_TCPPort h),
               hv_include = Include options store\<rparr>
      in remote_servers_lines v clusters)"

section \<open>Macros and ports of a host\<close>

definition GetHostMacros :: "(ChiHost \<Rightarrow> string) \<Rightarrow> ChiHost \<Rightarrow> string" where
  "GetHostMacros podHostname host = (let a = h_Address host in
     Iline 0 (otag xmlTagYandex)
     @ Iline 0 (''    '' @ otag ''macros'')
     @ Iline 8 (in_tag ''installation'' (ha_CHIName a))
     @ Iline 8 (in_tag (allShardsOneReplicaClusterName @ ''-shard'') (Itoa (ha_CHIScopeIndex a)))
     @ Iline 8 (in_tag ''cluster'' (ha_ClusterName a))
     @ Iline 8 (in_tag ''shard'' (ha_ShardName a))
     @ Iline 8 (in_tag ''replica'' (podHostname host))
     @ Iline 0 (''    '' @ ctag ''macros'')
     @ Iline 0 (ctag xmlTagYandex))"

definition noCustomPorts :: "ChiHost \<Rightarrow> bool" where
  "noCustomPorts host =
     (if h_TCPPort host \<noteq> chDefaultTCPPortNumber then False
      else if h_HTTPPort host \<noteq> chDefaultHTTPPortNumber then False
      else if h_InterserverHTTPPort host \<noteq> chDefaultInterserverHTTPPortNumber then False
      else True)"

definition GetHostPorts :: "ChiHost \<Rightarrow> string" where
  "GetHostPorts host = (if noCustomPorts host then ''''
     else Iline 0 (otag xmlTagYandex)
       @ (if h_TCPPort host \<noteq> chDefaultTCPPortNumber then Iline 4 (in_tag ''tcp_port'' (Dec (h_TCPPort host))) else '''')
       @ (if h_HTTPPort host \<noteq> chDefaultHTTPPortNumber
          then Iline 4 (in_tag ''http_port'' (Dec (h_HTTPPort host))) else '''')
       @ (if h_InterserverHTTPPort host \<noteq> chDefaultInterserverHTTPPortNumber
          then Iline 4 (in_tag ''interserver_http_port'' (Dec (h_InterserverHTTPPort host))) else '''')
       @ Iline 0 (ctag xmlTagYandex))"

section \<open>Groups of files\<close>

definition createConfigSectionFilename :: "string \<Rightarrow> string" where
  "createConfigSectionFilename sect = ''chop-generated-'' @ sect @ ''.xml''"

definition overwrite :: "strmap \<Rightarrow> strmap option \<Rightarrow> strmap" where
  "overwrite dst src = nil_or [] id (MergeStringMapsOverwrite (Some dst) (nil_or [] id src) [])"

definition CreateConfigFilesGroupCommon :: "string \<Rightarrow> Configuration \<Rightarrow> strmap \<Rightarrow> strmap" where
  "CreateConfigFilesGroupCommon remoteServers c chCommonConfigs =
     (let m = IncludeNonEmpty [] (createConfigSectionFilename ''remote_servers'') remoteServers;
          m = IncludeNonEmpty m (createConfigSectionFilename ''settings'') (GetSettings c None);
          m = overwrite m (GetFiles c SectionCommon True None)
      in overwrite m (Some chCommonConfigs))"

definition CreateConfigFilesGroupUsers :: "Configuration \<Rightarrow> strmap \<Rightarrow> strmap" where
  "CreateConfigFilesGroupUsers c chUsersConfigs =
     (let m = IncludeNonEmpty [] (createConfigSectionFilename ''users'') (GetUsers c);
          m = IncludeNonEmpty m (createConfigSectionFilename ''quotas'') (GetQuotas c);
          m = IncludeNonEmpty m (createConfigSectionFilename ''profiles'') (GetProfiles c);
          m = overwrite m (GetFiles c SectionUsers False None)
      in overwrite m (Some chUsersConfigs))"

definition CreateConfigFilesGroupHost ::
    "(ChiHost \<Rightarrow> string) \<Rightarrow> string \<Rightarrow> Configuration \<Rightarrow> ChiHost \<Rightarrow> strmap \<Rightarrow> strmap" where
  "CreateConfigFilesGroupHost podHostname zookeeper c host chHostConfigs =
     (let m = IncludeNonEmpty [] (createConfigSectionFilename ''macros'') (GetHostMacros podHostname host);
          m = IncludeNonEmpty m (createConfigSectionFilename ''ports'') (GetHostPorts host);
          m = IncludeNonEmpty m (createConfigSectionFilename ''zookeeper'') zookeeper;
          m = IncludeNonEmpty m (createConfigSectionFilename ''settings'') (GetSettings c (Some host));
          m = overwrite m (GetFiles c SectionHost True (Some host))
      in overwrite m (Some chHostConfigs))"

section \<open>What the remote servers are\<close>

text \<open>The specification: first every host that is not included is taken out, then every shard and cluster
  that has none left; what remains is printed without any condition.\<close>

definition remote_shards :: "(host_ptr \<Rightarrow> bool) \<Rightarrow> ChiShard list \<Rightarrow> ChiShard list" where
  "remote_shards incl shards =
     filter (\<lambda>s. sh_Hosts s \<noteq> []) (map (\<lambda>s. s\<lparr>sh_Hosts := filter incl (sh_Hosts s)\<rparr>) shards)"

definition remote_clusters :: "(host_ptr \<Rightarrow> bool) \<Rightarrow> ChiCluster list \<Rightarrow> (string \<times> ChiShard list) list" where
  "remote_clusters incl clusters =
     filter (\<lambda>c. snd c \<noteq> []) (map (\<lambda>c. (cu_Name c, remote_shards incl (shards_of c))) clusters)"

definition replica_text :: "host_view \<Rightarrow> host_ptr \<Rightarrow> string" where
  "replica_text v host = Iline 16 (otag ''replica'')
     @ Iline 16 (''    '' @ in_tag ''host'' (hv_hostname v host))
     @ Iline 16 (''    '' @ in_tag ''port'' (Dec (hv_port v host)))
     @ Iline 16 (ctag ''replica'')"

definition shard_text :: "host_view \<Rightarrow> bool \<Rightarrow> ChiShard \<Rightarrow> string" where
  "shard_text v with_replication shard = Iline 12 (otag ''shard'')
     @ (if with_replication then Iline 16 (in_tag ''internal_replication'' (sh_InternalReplication shard)) else '''')
     @ weight_line shard
     @ concat (map (replica_text v) (sh_Hosts shard))
     @ Iline 12 (ctag ''shard'')"

definition named_text :: "string \<Rightarrow> string \<Rightarrow> string" where
  "named_text name body = Iline 8 (otag name) @ body @ Iline 8 (ctag name)"

definition automatic_text :: "host_view \<Rightarrow> ChiShard list \<Rightarrow> string" where
  "automatic_text v shards = (let hosts = concat (map sh_Hosts shards) in
     if shards = [] then Iline 8 ''<!-- Autogenerated clusters are skipped due to absence of hots -->''
     else Iline 8 ''<!-- Autogenerated clusters -->''
       @ named_text allShardsOneReplicaClusterName (concat (map (\<lambda>h. Iline 12 (otag ''shard'')
           @ Iline 12 (''    '' @ in_tag ''internal_replication'' ''false'') @ replica_text v h @ Iline 12 (ctag ''shard''))
           hosts))
       @ named_text physicalConsistencyClusterName (concat (map (shard_text v True) shards))
       @ named_text logicalConsistencyClusterName (concat (map (shard_text v False) shards))
       @ named_text oneShardAllReplicasClusterName (Iline 8 (''    '' @ otag ''shard'')
           @ Iline 8 (''        '' @ in_tag ''internal_replication'' ''true'')
           @ concat (map (replica_text v) hosts) @ Iline 8 (''    '' @ ctag ''shard'')))"

definition remote_servers_text :: "host_view \<Rightarrow> (string \<times> ChiShard list) list \<Rightarrow> string" where
  "remote_servers_text v clusters =
     Iline 0 (otag xmlTagYandex)
     @ Iline 4 (in_tag ''default_on_cluster_name'' allShardsOneReplicaClusterName)
     @ Iline 4 (otag ''remote_servers'')
     @ Iline 8 ''<!-- User-specified clusters -->''
     @ concat (map (\<lambda>(name, shards). named_text name (concat (map (shard_text v True) shards))) clusters)
     @ automatic_text v (concat (map snd clusters))
     @ Iline 0 (''    '' @ ctag ''remote_servers'')
     @ Iline 0 (ctag xmlTagYandex)"

lemma replicas_printed:
  "concat (map (replica_lines v) hs) = concat (map (replica_text v) (filter (hv_include v) hs))"
  by (induction hs) (simp_all add: replica_lines_def replica_text_def)

lemma shards_printed:
  "concat (map (shard_lines v b) ss) = concat (map (shard_text v b) (remote_shards (hv_include v) ss))"
  by (induction ss)
    (auto simp: shard_lines_def shard_text_def remote_shards_def ShardHostsNum_def replicas_printed weight_line_def
      filter_empty_conv)

lemma ClusterHostsNum_sum: "ClusterHostsNum incl c = sum_list (map (ShardHostsNum incl) (shards_of c))"
proof -
  have "fold (\<lambda>shard num. num + ShardHostsNum incl shard) ss n = n + sum_list (map (ShardHostsNum incl) ss)" for ss n
    by (induction ss arbitrary: n) simp_all
  then show ?thesis by (simp add: ClusterHostsNum_def)
qed

lemma ClusterHostsNum_0: "ClusterHostsNum incl c = 0 \<longleftrightarrow> remote_shards incl (shards_of c) = []"
  by (auto simp: ClusterHostsNum_sum ShardHostsNum_def remote_shards_def filter_empty_conv)

lemma clusters_printed:
  "concat (map (cluster_lines v) clusters)
     = concat (map (\<lambda>(name, shards). named_text name (concat (map (shard_text v True) shards)))
         (remote_clusters (hv_include v) clusters))"
  by (induction clusters)
    (simp_all add: cluster_lines_def ClusterHostsNum_0 remote_clusters_def named_text_def shards_printed)

lemma remote_shards_of_clusters:
  "concat (map snd (remote_clusters incl clusters)) = remote_shards incl (chi_shards clusters)"
  by (induction clusters) (auto simp: remote_clusters_def remote_shards_def chi_shards_def filter_empty_conv)

lemma remote_hosts: "concat (map sh_Hosts (remote_shards incl shards)) = filter incl (concat (map sh_Hosts shards))"
  by (induction shards) (auto simp: remote_shards_def filter_empty_conv)

lemma remote_shards_empty: "remote_shards incl shards = [] \<longleftrightarrow> filter incl (concat (map sh_Hosts shards)) = []"
  by (auto simp: remote_shards_def filter_empty_conv)

lemma one_replica_printed:
  "concat (map (one_replica_shard_lines v) hs) = concat (map (\<lambda>h. Iline 12 (otag ''shard'')
     @ Iline 12 (''    '' @ in_tag ''internal_replication'' ''false'') @ replica_text v h @ Iline 12 (ctag ''shard''))
     (filter (hv_include v) hs))"
  by (induction hs) (simp_all add: one_replica_shard_lines_def replica_lines_def replica_text_def)

lemma automatic_printed:
  "autogenerated_lines v clusters = automatic_text v (remote_shards (hv_include v) (chi_shards clusters))"
proof (cases "remote_shards (hv_include v) (chi_shards clusters) = []")
  case True
  then show ?thesis
    by (simp add: autogenerated_lines_def automatic_text_def CHIHostsNum_def chi_hosts_def remote_shards_empty)
next
  case False
  then have "\<not> CHIHostsNum (hv_include v) clusters < 1"
    by (simp add: CHIHostsNum_def chi_hosts_def remote_shards_empty Suc_le_eq)
  with False show ?thesis
    by (simp only: autogenerated_lines_def automatic_text_def if_False Let_def named_text_def one_replica_printed
        shards_printed replicas_printed chi_hosts_def remote_hosts append_assoc)
qed

text \<open>
  C39: the remote servers file refines its specification. Counting the hosts of shards, clusters and the
  installation and skipping what has none writes the same text as taking the excluded hosts out first,
  then the empty shards and clusters, and printing all that is left; and the hosts that are left are the
  included hosts of the installation, in the order of the walk. So an excluded host is named in none of the
  clusters of the file, its own and the four generated ones, and an included host in all of them.
\<close>

theorem remote_servers_refine:
  "remote_servers_lines v clusters = remote_servers_text v (remote_clusters (hv_include v) clusters)
   \<and> concat (map sh_Hosts (concat (map snd (remote_clusters (hv_include v) clusters))))
       = filter (hv_include v) (chi_hosts clusters)"
  by (simp add: remote_servers_lines_def remote_servers_text_def clusters_printed automatic_printed
      remote_shards_of_clusters remote_hosts chi_hosts_def)

end
