(* ===== verification/Volumes.thy ===== *)
theory Volumes
  imports ConfigGen
begin

text \<open>
  Volume claims of a host: which claims may be deleted with the host (\<open>pkg/model/deleter.go\<close>,
  \<open>type_host.go\<close>), and how the labels and the requested resources of an existing claim are brought in line
  with its template (\<open>creator.go\<close>, \<open>applyResourcesList\<close> of \<open>worker.go\<close>).
\<close>

record PersistentVolumeClaim =
  pvc_Meta :: ObjectMeta
  pvc_Requests :: "(string, int) gmap"

section \<open>Templates and mounts\<close>

definition GetVolumeClaimTemplate :: "ChiTemplates option \<Rightarrow> string \<Rightarrow> ChiVolumeClaimTemplate option" where
  "GetVolumeClaimTemplate templates name = (case templates of None \<Rightarrow> None
     | Some t \<Rightarrow> indexed (tps_VolumeClaimTemplates t) (tps_VolumeClaimTemplatesIndex t) name)"

definition WalkVolumeClaimTemplates :: "ChiTemplates option \<Rightarrow> ChiVolumeClaimTemplate list" where
  "WalkVolumeClaimTemplates templates = (case templates of None \<Rightarrow> []
     | Some t \<Rightarrow> (case tps_VolumeClaimTemplatesIndex t of None \<Rightarrow> []
         | Some v \<Rightarrow> map (\<lambda>entry. tps_VolumeClaimTemplates t ! snd entry) v))"

definition CanDeleteAllPVCs :: "ChiTemplates option \<Rightarrow> bool" where
  "CanDeleteAllPVCs templates = fold (\<lambda>template canDeleteAllPVCs.
     if vt_PVCReclaimPolicy template = PVCReclaimPolicyRetain then False else canDeleteAllPVCs)
     (WalkVolumeClaimTemplates templates) True"

text \<open>The volume mounts of a host are those of its StatefulSet; a host without one has none.\<close>

definition WalkVolumeMounts :: "StatefulSet option \<Rightarrow> string list" where
  "WalkVolumeMounts sts = (case sts of None \<Rightarrow> [] | Some s \<Rightarrow> sts_VolumeMounts s)"

definition HostCanDeletePVC ::
    "(string \<Rightarrow> string) \<Rightarrow> ChiTemplates option \<Rightarrow> ChiHost \<Rightarrow> StatefulSet option \<Rightarrow> string \<Rightarrow> bool" where
  "HostCanDeletePVC sha1 templates host sts pvcName = (
     fold (\<lambda>volumeMount policy. case GetVolumeClaimTemplate templates volumeMount of
         None \<Rightarrow> policy
       | Some template \<Rightarrow>
           if pvcName = CreatePVCName sha1 templates host template then vt_PVCReclaimPolicy template else policy)
       (WalkVolumeMounts sts) PVCReclaimPolicyDelete
     = PVCReclaimPolicyDelete)"

section \<open>Bringing a claim in line with its template\<close>

text \<open>The version label holds a fingerprint of the claim itself, an argument.\<close>

definition PreparePersistentVolumeClaim ::
    "labeler \<Rightarrow> host_fingerprints \<Rightarrow> (PersistentVolumeClaim \<Rightarrow> string) \<Rightarrow> ChiHost \<Rightarrow> ChiVolumeClaimTemplate
      \<Rightarrow> PersistentVolumeClaim \<Rightarrow> PersistentVolumeClaim" where
  "PreparePersistentVolumeClaim l fp fingerprint host template pvc = (
     let pvc = pvc\<lparr>pvc_Meta := (pvc_Meta pvc)\<lparr>
           om_Labels := merge_labels
             (merge_labels (om_Labels (pvc_Meta pvc)) (om_Labels (vt_ObjectMeta template)))
             (getLabelsHostScopeReclaimPolicy l fp host template False),
           om_Annotations := merge_labels (om_Annotations (pvc_Meta pvc)) (om_Annotations (vt_ObjectMeta template))\<rparr>\<rparr>
     in pvc\<lparr>pvc_Meta := MakeObjectVersionLabel (fingerprint pvc) (pvc_Meta pvc)\<rparr>)"

text \<open>The lists of resources are never nil here: a resource is looked up only when both hold it.\<close>

definition applyResource ::
    "(string, int) gmap \<Rightarrow> (string, int) gmap \<Rightarrow> string \<Rightarrow> bool \<times> (string, int) gmap" where
  "applyResource cur desired resourceName = (case gget cur resourceName of
     None \<Rightarrow> (False, cur)
   | Some curQuantity \<Rightarrow> (case gget desired resourceName of
       None \<Rightarrow> (False, cur)
     | Some desiredQuantity \<Rightarrow>
         if curQuantity = desiredQuantity then (False, cur)
         else (True, gput resourceName desiredQuantity cur)))"

text \<open>\<open>intersect\<close> is the function of the library; the names come in the order in which the map is walked. The
  disjunction of the loop does not evaluate its right side once it is true.\<close>

definition applyResourcesList ::
    "(string list \<Rightarrow> string list \<Rightarrow> string list) \<Rightarrow> (string, int) gmap \<Rightarrow> (string, int) gmap
      \<Rightarrow> bool \<times> (string, int) gmap" where
  "applyResourcesList intersect cur desired =
     fold (\<lambda>resourceName (updated, cur). if updated then (True, cur) else applyResource cur desired resourceName)
       (intersect (gkeys cur) (gkeys desired)) (False, cur)"

definition applyPVCResourcesRequests ::
    "(string list \<Rightarrow> string list \<Rightarrow> string list) \<Rightarrow> ChiVolumeClaimTemplate \<Rightarrow> PersistentVolumeClaim
      \<Rightarrow> PersistentVolumeClaim" where
  "applyPVCResourcesRequests intersect template pvc =
     pvc\<lparr>pvc_Requests := snd (applyResourcesList intersect (pvc_Requests pvc) (vt_Requests template))\<rparr>"

section \<open>Which claims go with the host\<close>

lemma can_delete_all: "CanDeleteAllPVCs templates \<longleftrightarrow>
    list_all (\<lambda>t. vt_PVCReclaimPolicy t \<noteq> PVCReclaimPolicyRetain) (WalkVolumeClaimTemplates templates)"
proof -
  have walk: "fold (\<lambda>t b. if vt_PVCReclaimPolicy t = PVCReclaimPolicyRetain then False else b) ts b
      = (b \<and> list_all (\<lambda>t. vt_PVCReclaimPolicy t \<noteq> PVCReclaimPolicyRetain) ts)" for ts b
    by (induction ts arbitrary: b) auto
  show ?thesis unfolding CanDeleteAllPVCs_def walk by simp
qed

definition made_from :: "(string \<Rightarrow> string) \<Rightarrow> ChiTemplates option \<Rightarrow> ChiHost \<Rightarrow> string \<Rightarrow> string \<Rightarrow> string option" where
  "made_from sha1 templates host pvcName mount = (case GetVolumeClaimTemplate templates mount of
     None \<Rightarrow> None
   | Some t \<Rightarrow> if pvcName = CreatePVCName sha1 templates host t then Some (vt_PVCReclaimPolicy t) else None)"

lemma host_can_delete_fold:
  "fold (\<lambda>m policy. case GetVolumeClaimTemplate templates m of None \<Rightarrow> policy
       | Some t \<Rightarrow> if pvc = CreatePVCName sha1 templates host t then vt_PVCReclaimPolicy t else policy) ms p
   = (if List.map_filter (made_from sha1 templates host pvc) ms = [] then p
      else last (List.map_filter (made_from sha1 templates host pvc) ms))"
  by (induction ms arbitrary: p)
    (auto simp: made_from_def map_filter_simps split: option.splits)

lemma HostCanDeletePVC_last:
  "HostCanDeletePVC sha1 templates host sts pvc \<longleftrightarrow>
     (case rev (List.map_filter (made_from sha1 templates host pvc) (WalkVolumeMounts sts)) of
        [] \<Rightarrow> True | policy # _ \<Rightarrow> policy = PVCReclaimPolicyDelete)"
  unfolding HostCanDeletePVC_def host_can_delete_fold
  by (cases "List.map_filter (made_from sha1 templates host pvc) (WalkVolumeMounts sts)" rule: rev_cases) auto

section \<open>How the requested resources are updated\<close>

definition first_difference :: "string list \<Rightarrow> (string, int) gmap \<Rightarrow> (string, int) gmap \<Rightarrow> string option" where
  "first_difference names cur desired = List.find (\<lambda>n. gget cur n \<noteq> gget desired n) names"

lemma apply_resources_fold:
  assumes "set names \<subseteq> dom (gget cur) \<inter> dom (gget desired)"
  shows "fold (\<lambda>n (updated, cur). if updated then (True, cur) else applyResource cur desired n) names (False, cur)
    = (case first_difference names cur desired of
         None \<Rightarrow> (False, cur)
       | Some n \<Rightarrow> (True, gput n (the (gget desired n)) cur))"
proof -
  have stop: "fold (\<lambda>n (updated, cur). if updated then (True, cur) else applyResource cur desired n) ns (True, c)
      = (True, c)" for ns c
    by (induction ns) auto
  show ?thesis
    using assms
  proof (induction names)
    case (Cons n ns)
    then obtain x y where "gget cur n = Some x" "gget desired n = Some y" by auto
    with Cons show ?case by (auto simp: applyResource_def first_difference_def stop)
  qed (simp add: first_difference_def)
qed

text \<open>How the requested resources of an existing claim follow its template. When the library's
  intersection holds the common names, one run changes the resources in at most one place: the first common
  name, in the order of the intersection, whose quantities differ gets the quantity of the template; every
  other resource keeps its old quantity even if the template asks for another one. The run reports a change
  exactly when there was a difference.\<close>
theorem resources_one_at_a_time:
  assumes "\<And>xs ys. set (intersect xs ys) = set xs \<inter> set ys"
  shows "let names = intersect (gkeys cur) (gkeys desired);
             (updated, result) = applyResourcesList intersect cur desired
         in updated = (first_difference names cur desired \<noteq> None)
          \<and> gget result k = (if first_difference names cur desired = Some k then gget desired k else gget cur k)
          \<and> updated = (\<exists>n. gget cur n \<noteq> None \<and> gget desired n \<noteq> None \<and> gget cur n \<noteq> gget desired n)"
proof -
  let ?names = "intersect (gkeys cur) (gkeys desired)"
  have names: "set ?names = dom (gget cur) \<inter> dom (gget desired)"
    using assms by (simp add: dom_map_of_conv_image_fst)
  then have run: "applyResourcesList intersect cur desired = (case first_difference ?names cur desired of
         None \<Rightarrow> (False, cur)
       | Some n \<Rightarrow> (True, gput n (the (gget desired n)) cur))"
    unfolding applyResourcesList_def by (intro apply_resources_fold) simp
  show ?thesis
  proof (cases "first_difference ?names cur desired")
    case None
    then have "\<forall>n \<in> set ?names. gget cur n = gget desired n"
      by (simp add: first_difference_def find_None_iff)
    then have "\<not> (\<exists>n. gget cur n \<noteq> None \<and> gget desired n \<noteq> None \<and> gget cur n \<noteq> gget desired n)"
      unfolding names by blast
    then show ?thesis using None by (simp add: run)
  next
    case (Some n)
    then obtain i where "i < length ?names" "?names ! i = n" "gget cur n \<noteq> gget desired n"
      unfolding first_difference_def find_Some_iff by blast
    then have "n \<in> dom (gget cur) \<inter> dom (gget desired)" unfolding names [symmetric] by auto
    then obtain x y where xy: "gget cur n = Some x" "gget desired n = Some y" by auto
    then have "\<exists>n. gget cur n \<noteq> None \<and> gget desired n \<noteq> None \<and> gget cur n \<noteq> gget desired n"
      using \<open>gget cur n \<noteq> gget desired n\<close> by (intro exI [of _ n]) simp
    then show ?thesis using Some xy by (auto simp: run gm.get_put)
  qed
qed

text \<open>A claim whose storage and memory were both raised gets only one of them.\<close>

theorem resources_one_at_a_time_witness:
  "applyResourcesList (\<lambda>xs ys. filter (\<lambda>x. x \<in> set ys) xs) [(''storage'', 10), (''memory'', 4)]
       [(''memory'', 8), (''storage'', 20)]
     = (True, [(''storage'', 20), (''memory'', 4)])
   \<and> gget (snd (applyResourcesList (\<lambda>xs ys. filter (\<lambda>x. x \<in> set ys) xs) [(''storage'', 10), (''memory'', 4)]
       [(''memory'', 8), (''storage'', 20)])) ''memory'' = Some 4"
  using resources_one_at_a_time [of "\<lambda>xs ys. filter (\<lambda>x. x \<in> set ys) xs" "[(''storage'', 10), (''memory'', 4)]"
      "[(''memory'', 8), (''storage'', 20)]" "''memory''"]
  by (auto simp: applyResourcesList_def applyResource_def first_difference_def)

end
