(* ===== verification/Worker.thy ===== *)
theory Worker
  imports Volumes "HOL-Library.State_Monad"
begin

text \<open>
  The worker of the controller (\<open>pkg/controller/chi/worker.go\<close>) and the controller's operations on
  StatefulSets, claims, ConfigMaps and services (\<open>creator.go\<close>, \<open>deleter.go\<close>, \<open>pods.go\<close>) as they are used to
  reconcile an installation.

  The operator acts on the cluster by calls whose answers it does not control. A run is a state
  transformer that appends every call to a trace; the answers are arbitrary functions of the trace so far,
  the last call included, so the same call may be answered differently each time. The context is asked by a
  call too. Log messages, events and the actions listed in the status are not part of the model, nor is the
  content of the calls beyond what is shown.
\<close>

section \<open>Calls and answers\<close>

datatype kube_error = KubeNotFound | KubeError | ErrAbort | ErrStop | ErrIgnore | ErrUnexpectedFlow

datatype config_obj = CommonConfig "host_ptr list" | UsersConfig | HostConfig nat

datatype effect =
    AskContext
  | GetSTS string
  | CreateSTS StatefulSet
  | UpdateSTS StatefulSet
  | DeleteSTS string
  | DeletePod string
  | WaitReady nat
  | WaitDeleted nat
  | DeleteHostConfigMap nat
  | GetService string
  | UpdateService string
  | CreateService string
  | DeleteService string
  | DropReadyLabel nat
  | PutReadyLabel nat
  | GetConfigMap config_obj
  | UpdateConfigMap config_obj
  | CreateConfigMap config_obj
  | UpdatePersistentVolumes nat
  | UpdatePersistentVolumeClaims nat
  | WaitHostNotInCluster nat
  | WaitHostInCluster nat
  | WaitNoActiveQueries nat
  | CreateTables nat
  | Ping nat
  | Shutdown nat
  | AskPropagation
  | WaitPropagation
  | WriteStatus ChiStatus
  | ReadCHI
  | WriteFinalizers "string list"
  | ListPVCs nat
  | DeletePVC string
  | GetPVC string
  | UpdatePVC PersistentVolumeClaim
  | WaitResize string
  | GetPDB string
  | CreatePDB string
  | DeletePDB string
  | DeleteConfigMap string
  | WaitZooKeeperReady
  | DeleteWatch
  | UpdateWatch
  | SyncTables nat
  | DropTables nat
  | DropReplica nat ChiHost
  | ListReplicaPVCs ChiHost
  | ListObjects
  | DeleteObject EntityType ObjectMeta
  | EnqueueDropDns
  | WaitMinute

record answers =
  an_done :: "effect list \<Rightarrow> bool"
  an_flag :: "effect list \<Rightarrow> bool"
  an_error :: "effect list \<Rightarrow> kube_error option"
  an_object :: "effect list \<Rightarrow> StatefulSet"
  an_claims :: "effect list \<Rightarrow> PersistentVolumeClaim list option"
  an_claim :: "effect list \<Rightarrow> PersistentVolumeClaim"
  an_finalizers :: "effect list \<Rightarrow> string list"
  an_listed :: "effect list \<Rightarrow> EntityType \<Rightarrow> ObjectMeta list option"

text \<open>What a worker does not change during a reconcile: the cluster it talks to, the installation, the
  operator's configuration and the objects the creator makes.\<close>

record worker_ctx =
  wc_answers :: answers
  wc_chi :: Installation
  wc_clusters :: "ChiCluster list"
  wc_sha1 :: "string \<Rightarrow> string"
  wc_OnStatefulSetCreateFailureAction :: string
  wc_OnStatefulSetUpdateFailureAction :: string
  wc_ReconcileWaitExclude :: bool
  wc_ReconcileWaitInclude :: bool
  wc_CreateStatefulSet :: "ChiHost \<Rightarrow> bool \<Rightarrow> StatefulSet"
  wc_ConfigMapMeta :: "config_obj \<Rightarrow> ObjectMeta"
  wc_ServiceHost :: "ChiHost \<Rightarrow> ObjectMeta option"
  wc_ServiceShard :: "ChiShard \<Rightarrow> ObjectMeta option"
  wc_ServiceCluster :: "ChiCluster \<Rightarrow> ObjectMeta option"
  wc_ServiceCHI :: "ObjectMeta option"

text \<open>What it changes besides the cluster. The three StatefulSets of a host are kept by its address; a host that
  has none yet has one without pods and mounts here.\<close>

record worker_state =
  ws_trace :: "effect list"
  ws_store :: host_store
  ws_StatefulSet :: "nat \<Rightarrow> StatefulSet"
  ws_DesiredStatefulSet :: "nat \<Rightarrow> StatefulSet"
  ws_CurStatefulSet :: "nat \<Rightarrow> StatefulSet option"
  ws_registryReconciled :: registry
  ws_registryFailed :: registry
  ws_Status :: ChiStatus

type_synonym 'a work = "(worker_state, 'a) state"
type_synonym err = "kube_error option"

definition reads :: "(worker_state \<Rightarrow> 'a) \<Rightarrow> 'a work" where
  "reads f = State (\<lambda>s. (f s, s))"

definition changes :: "(worker_state \<Rightarrow> worker_state) \<Rightarrow> unit work" where
  "changes f = State (\<lambda>s. ((), f s))"

definition issue :: "effect \<Rightarrow> unit work" where
  "issue e = changes (\<lambda>s. s\<lparr>ws_trace := ws_trace s @ [e]\<rparr>)"

definition call :: "worker_ctx \<Rightarrow> effect \<Rightarrow> err work" where
  "call c e = do { issue e; reads (\<lambda>s. an_error (wc_answers c) (ws_trace s)) }"

definition obtained :: "worker_ctx \<Rightarrow> StatefulSet work" where
  "obtained c = reads (\<lambda>s. an_object (wc_answers c) (ws_trace s))"

definition IsContextDone :: "worker_ctx \<Rightarrow> bool work" where
  "IsContextDone c = do { issue AskContext; reads (\<lambda>s. an_done (wc_answers c) (ws_trace s)) }"

definition unless_done :: "worker_ctx \<Rightarrow> 'a \<Rightarrow> 'a work \<Rightarrow> 'a work" where
  "unless_done c r m = do { d \<leftarrow> IsContextDone c; if d then State_Monad.return r else m }"

definition skip :: "unit work" where
  "skip = State_Monad.return ()"

definition host_at :: "nat \<Rightarrow> worker_state \<Rightarrow> ChiHost" where
  "host_at a s = (case store_get (ws_store s) (Some a) of None \<Rightarrow> newChiHost | Some h \<Rightarrow> h)"

definition set_host :: "nat \<Rightarrow> (ChiHost \<Rightarrow> ChiHost) \<Rightarrow> unit work" where
  "set_host a f = changes (\<lambda>s. s\<lparr>ws_store := store_put a (map_option f (store_get (ws_store s) (Some a))) (ws_store s)\<rparr>)"

text \<open>Writing the status reads the installation first; \<open>tolerateAbsence\<close> turns a failed read into a success.\<close>

definition updateCHIObjectStatus :: "worker_ctx \<Rightarrow> bool \<Rightarrow> err work" where
  "updateCHIObjectStatus c tolerateAbsence = unless_done c None (do {
     got \<leftarrow> call c ReadCHI;
     if got \<noteq> None then State_Monad.return (if tolerateAbsence then None else got)
     else unless_done c None (do {
       st \<leftarrow> reads ws_Status;
       call c (WriteStatus st) }) })"

fun for_each :: "('x \<Rightarrow> unit work) \<Rightarrow> 'x list \<Rightarrow> unit work" where
  "for_each f [] = skip"
| "for_each f (x # xs) = do { f x; for_each f xs }"

section \<open>The controller: StatefulSets\<close>

definition sts_name :: "worker_ctx \<Rightarrow> nat \<Rightarrow> string work" where
  "sts_name c a = reads (\<lambda>s. CreateStatefulSetName (wc_sha1 c) (sp_Templates (in_Spec (wc_chi c))) (host_at a s))"

definition deleteStatefulSet :: "worker_ctx \<Rightarrow> nat \<Rightarrow> err work" where
  "deleteStatefulSet c a = unless_done c None (do {
     name \<leftarrow> sts_name c a;
     got \<leftarrow> call c (GetSTS name);
     if got \<noteq> None then State_Monad.return got
     else do {
       sts \<leftarrow> obtained c;
       let zero = sts\<lparr>sts_Replicas := Some 0\<rparr>;
       changes (\<lambda>s. s\<lparr>ws_StatefulSet := (ws_StatefulSet s)(a := zero)\<rparr>);
       updated \<leftarrow> call c (UpdateSTS zero);
       if updated \<noteq> None then State_Monad.return updated
       else do {
         call c (WaitReady a);
         deleted \<leftarrow> call c (DeleteSTS name);
         (if deleted = None then issue (WaitDeleted a) else skip);
         State_Monad.return None
       }
     }
   })"

definition deleteServiceIfExists :: "worker_ctx \<Rightarrow> string \<Rightarrow> err work" where
  "deleteServiceIfExists c name = unless_done c None (do {
     got \<leftarrow> call c (GetService name);
     if got \<noteq> None then State_Monad.return None else call c (DeleteService name)
   })"

text \<open>The claims of a host are those its labels select. Whether one is deleted is read off the StatefulSet that
  \<open>deleteStatefulSet\<close> left with the host.\<close>

definition deletePVC :: "worker_ctx \<Rightarrow> nat \<Rightarrow> err work" where
  "deletePVC c a = unless_done c None (do {
     issue (ListPVCs a);
     listed \<leftarrow> reads (\<lambda>s. an_claims (wc_answers c) (ws_trace s));
     for_each (\<lambda>pvc. unless_done c () (do {
         can \<leftarrow> reads (\<lambda>s. HostCanDeletePVC (wc_sha1 c) (sp_Templates (in_Spec (wc_chi c))) (host_at a s)
                  (Some (ws_StatefulSet s a)) (om_Name (pvc_Meta pvc)));
         if can then issue (DeletePVC (om_Name (pvc_Meta pvc))) else skip }))
       (case listed of None \<Rightarrow> [] | Some pvcs \<Rightarrow> pvcs);
     State_Monad.return None })"

definition deleteHost :: "worker_ctx \<Rightarrow> nat \<Rightarrow> err work" where
  "deleteHost c a = do {
     deleteStatefulSet c a;
     deletePVC c a;
     unless_done c () (issue (DeleteHostConfigMap a));
     unless_done c None (do {
       name \<leftarrow> reads (\<lambda>s. CreateStatefulSetServiceName (wc_sha1 c) (sp_Templates (in_Spec (wc_chi c))) (host_at a s));
       deleteServiceIfExists c name });
     State_Monad.return None
   }"

definition shouldContinueOnCreateFailed :: err where
  "shouldContinueOnCreateFailed = (let continueUpdate = False in if continueUpdate then Some ErrIgnore else Some ErrStop)"

definition shouldContinueOnUpdateFailed :: err where
  "shouldContinueOnUpdateFailed = (let continueUpdate = False in if continueUpdate then Some ErrIgnore else Some ErrStop)"

definition onStatefulSetCreateFailed :: "worker_ctx \<Rightarrow> nat \<Rightarrow> err work" where
  "onStatefulSetCreateFailed c a = unless_done c (Some ErrIgnore) (
     if wc_OnStatefulSetCreateFailureAction c = ''abort'' then State_Monad.return (Some ErrAbort)
     else if wc_OnStatefulSetCreateFailureAction c = ''delete'' then do {
       deleteHost c a;
       State_Monad.return shouldContinueOnCreateFailed }
     else if wc_OnStatefulSetCreateFailureAction c = ''ignore'' then State_Monad.return (Some ErrIgnore)
     else State_Monad.return (Some ErrIgnore))"

definition statefulSetDeletePod :: "worker_ctx \<Rightarrow> StatefulSet \<Rightarrow> err work" where
  "statefulSetDeletePod c sts = unless_done c None (do {
     deleted \<leftarrow> call c (DeletePod (om_Name (sts_Meta sts) @ ''-0''));
     State_Monad.return (if deleted = Some KubeNotFound then None else deleted)
   })"

definition onStatefulSetUpdateFailed :: "worker_ctx \<Rightarrow> StatefulSet \<Rightarrow> err work" where
  "onStatefulSetUpdateFailed c rollback = unless_done c (Some ErrIgnore) (
     if wc_OnStatefulSetUpdateFailureAction c = ''abort'' then State_Monad.return (Some ErrAbort)
     else if wc_OnStatefulSetUpdateFailureAction c = ''rollback'' then do {
       got \<leftarrow> call c (GetSTS (om_Name (sts_Meta rollback)));
       if got \<noteq> None then State_Monad.return got
       else do {
         cur \<leftarrow> obtained c;
         call c (UpdateSTS (cur\<lparr>sts_Replicas := sts_Replicas rollback, sts_Spec := sts_Spec rollback\<rparr>));
         updated \<leftarrow> obtained c;
         statefulSetDeletePod c updated;
         State_Monad.return shouldContinueOnUpdateFailed } }
     else if wc_OnStatefulSetUpdateFailureAction c = ''ignore'' then State_Monad.return (Some ErrIgnore)
     else State_Monad.return (Some ErrIgnore))"

definition c_createStatefulSet :: "worker_ctx \<Rightarrow> StatefulSet \<Rightarrow> nat \<Rightarrow> err work" where
  "c_createStatefulSet c sts a = unless_done c None (do {
     created \<leftarrow> call c (CreateSTS sts);
     if created \<noteq> None then State_Monad.return created
     else do {
       ready \<leftarrow> call c (WaitReady a);
       if ready = None then State_Monad.return None else onStatefulSetCreateFailed c a } })"

definition c_updateStatefulSet :: "worker_ctx \<Rightarrow> StatefulSet \<Rightarrow> StatefulSet \<Rightarrow> nat \<Rightarrow> err work" where
  "c_updateStatefulSet c old new a = unless_done c None (do {
     updated \<leftarrow> call c (UpdateSTS new);
     if updated \<noteq> None then State_Monad.return updated
     else do {
       sts \<leftarrow> obtained c;
       if sts_Generation sts = sts_Generation old then State_Monad.return None
       else do {
         ready \<leftarrow> call c (WaitReady a);
         if ready = None then State_Monad.return None else onStatefulSetUpdateFailed c old } } })"

text \<open>The ready label of the pod; a StatefulSet without pods has none.\<close>

definition deleteLabelReady :: "worker_ctx \<Rightarrow> nat \<Rightarrow> err work" where
  "deleteLabelReady c a = unless_done c None (do {
     sts \<leftarrow> reads (\<lambda>s. ws_StatefulSet s a);
     if sts_Replicas sts = Some 0 then State_Monad.return None else call c (DropReadyLabel a) })"

definition appendLabelReady :: "worker_ctx \<Rightarrow> nat \<Rightarrow> err work" where
  "appendLabelReady c a = unless_done c None (call c (PutReadyLabel a))"

section \<open>The worker: StatefulSets\<close>

definition getStatefulSetStatus :: "worker_ctx \<Rightarrow> nat \<Rightarrow> StatefulSetStatus work" where
  "getStatefulSetStatus c a = do {
     statefulSet \<leftarrow> reads (\<lambda>s. ws_StatefulSet s a);
     got \<leftarrow> call c (GetSTS (om_Name (sts_Meta statefulSet)));
     cur \<leftarrow> obtained c;
     State_Monad.return (
       if got = None
       then (case (gget (om_Labels (sts_Meta cur)) LabelObjectVersion,
                   gget (om_Labels (sts_Meta statefulSet)) LabelObjectVersion) of
           (Some curLabel, Some newLabel) \<Rightarrow>
             if curLabel = newLabel then StatefulSetStatusSame else StatefulSetStatusModified
         | _ \<Rightarrow> StatefulSetStatusUnknown)
       else if got = Some KubeNotFound then StatefulSetStatusNew
       else StatefulSetStatusUnknown)
   }"

definition prepareHostStatefulSetWithStatus :: "worker_ctx \<Rightarrow> nat \<Rightarrow> bool \<Rightarrow> unit work" where
  "prepareHostStatefulSetWithStatus c a shutdown = unless_done c () (do {
     changes (\<lambda>s. let sts = wc_CreateStatefulSet c (host_at a s) shutdown in
       s\<lparr>ws_StatefulSet := (ws_StatefulSet s)(a := sts), ws_DesiredStatefulSet := (ws_DesiredStatefulSet s)(a := sts)\<rparr>);
     status \<leftarrow> getStatefulSetStatus c a;
     set_host a (\<lambda>h. h\<lparr>h_ReconcileAttributes := SetStatus status (h_ReconcileAttributes h)\<rparr>)
   })"

definition status_of :: "nat \<Rightarrow> worker_state \<Rightarrow> StatefulSetStatus" where
  "status_of a s = ra_status (h_ReconcileAttributes (host_at a s))"

definition reconcilePersistentVolumes :: "worker_ctx \<Rightarrow> nat \<Rightarrow> unit work" where
  "reconcilePersistentVolumes c a = unless_done c () (issue (UpdatePersistentVolumes a))"

definition reconcilePVCs :: "worker_ctx \<Rightarrow> nat \<Rightarrow> err work" where
  "reconcilePVCs c a = unless_done c None (do { issue (UpdatePersistentVolumeClaims a); State_Monad.return None })"

definition createStatefulSet :: "worker_ctx \<Rightarrow> nat \<Rightarrow> err work" where
  "createStatefulSet c a = unless_done c None (do {
     statefulSet \<leftarrow> reads (\<lambda>s. ws_StatefulSet s a);
     e \<leftarrow> c_createStatefulSet c statefulSet a;
     changes (\<lambda>s. s\<lparr>ws_Status := (ws_Status s)\<lparr>cs_AddedHostsCount := cs_AddedHostsCount (ws_Status s) + 1\<rparr>\<rparr>);
     updateCHIObjectStatus c False;
     State_Monad.return e })"

definition recreateStatefulSet :: "worker_ctx \<Rightarrow> nat \<Rightarrow> err work" where
  "recreateStatefulSet c a = unless_done c None (do {
     deleteStatefulSet c a;
     reconcilePVCs c a;
     changes (\<lambda>s. s\<lparr>ws_StatefulSet := (ws_StatefulSet s)(a := ws_DesiredStatefulSet s a)\<rparr>);
     createStatefulSet c a })"

text \<open>Whether the propagation of a changed ConfigMap has to be awaited depends on the clock.\<close>

definition updateStatefulSet :: "worker_ctx \<Rightarrow> StatefulSet \<Rightarrow> nat \<Rightarrow> err work" where
  "updateStatefulSet c cur a = unless_done c None (do {
     new \<leftarrow> reads (\<lambda>s. ws_StatefulSet s a);
     issue AskPropagation;
     must_wait \<leftarrow> reads (\<lambda>s. an_flag (wc_answers c) (ws_trace s));
     interrupted \<leftarrow> (if must_wait then do {
         issue WaitPropagation;
         reads (\<lambda>s. an_done (wc_answers c) (ws_trace s)) }
       else State_Monad.return False);
     if interrupted then State_Monad.return None
     else if IsStatefulSetReady (Some cur) then do {
       e \<leftarrow> c_updateStatefulSet c cur new a;
       if e = None then do {
         changes (\<lambda>s. s\<lparr>ws_Status := (ws_Status s)\<lparr>cs_UpdatedHostsCount := cs_UpdatedHostsCount (ws_Status s) + 1\<rparr>\<rparr>);
         updateCHIObjectStatus c False;
         State_Monad.return None }
       else recreateStatefulSet c a }
     else recreateStatefulSet c a })"

definition reconcileStatefulSet :: "worker_ctx \<Rightarrow> nat \<Rightarrow> err work" where
  "reconcileStatefulSet c a = unless_done c None (do {
     status \<leftarrow> reads (status_of a);
     if status = StatefulSetStatusSame then State_Monad.return None
     else do {
       new \<leftarrow> reads (\<lambda>s. ws_StatefulSet s a);
       got \<leftarrow> call c (GetSTS (om_Name (sts_Meta new)));
       cur \<leftarrow> obtained c;
       changes (\<lambda>s. s\<lparr>ws_CurStatefulSet := (ws_CurStatefulSet s)(a := if got = None then Some cur else None)\<rparr>);
       e \<leftarrow> (if got = None then updateStatefulSet c cur a else State_Monad.return got);
       if e = Some KubeNotFound then createStatefulSet c a else State_Monad.return e } })"

definition register :: "EntityType \<Rightarrow> ObjectMeta \<Rightarrow> err \<Rightarrow> unit work" where
  "register et m e = changes (\<lambda>s. if e = None
     then s\<lparr>ws_registryReconciled := registerEntity et m (ws_registryReconciled s)\<rparr>
     else s\<lparr>ws_registryFailed := registerEntity et m (ws_registryFailed s)\<rparr>)"

definition reconcileHostStatefulSet :: "worker_ctx \<Rightarrow> nat \<Rightarrow> err work" where
  "reconcileHostStatefulSet c a = unless_done c None (do {
     (if IsRollingUpdate (wc_chi c) then do {
        prepareHostStatefulSetWithStatus c a True;
        reconcileStatefulSet c a;
        skip }
      else skip);
     prepareHostStatefulSetWithStatus c a False;
     e \<leftarrow> reconcileStatefulSet c a;
     statefulSet \<leftarrow> reads (\<lambda>s. ws_StatefulSet s a);
     register StatefulSet (sts_Meta statefulSet) e;
     State_Monad.return e })"

section \<open>The worker: ConfigMaps and Services\<close>

definition reconcileConfigMap :: "worker_ctx \<Rightarrow> config_obj \<Rightarrow> err work" where
  "reconcileConfigMap c cm = unless_done c None (do {
     got \<leftarrow> call c (GetConfigMap cm);
     e \<leftarrow> (if got = None then unless_done c None (call c (UpdateConfigMap cm)) else State_Monad.return got);
     if e = Some KubeNotFound then unless_done c None (call c (CreateConfigMap cm)) else State_Monad.return e })"

text \<open>The common ConfigMap lists the hosts that the options include, \<open>None\<close> standing for the default options.\<close>

definition listed_hosts ::
    "worker_ctx \<Rightarrow> RemoteServersGeneratorOptions option \<Rightarrow> host_store \<Rightarrow> host_ptr list" where
  "listed_hosts c options store = filter (Include
     (case options of None \<Rightarrow> Some NewRemoteServersGeneratorOptions | Some o' \<Rightarrow> Some o') store) (chi_hosts (wc_clusters c))"

definition reconcileCHIConfigMapCommon ::
    "worker_ctx \<Rightarrow> RemoteServersGeneratorOptions option \<Rightarrow> err work" where
  "reconcileCHIConfigMapCommon c options = unless_done c None (do {
     hosts \<leftarrow> reads (\<lambda>s. listed_hosts c options (ws_store s));
     e \<leftarrow> reconcileConfigMap c (CommonConfig hosts);
     register ConfigMap (wc_ConfigMapMeta c (CommonConfig hosts)) e;
     State_Monad.return e })"

definition reconcileCHIConfigMapUsers :: "worker_ctx \<Rightarrow> err work" where
  "reconcileCHIConfigMapUsers c = unless_done c None (do {
     e \<leftarrow> reconcileConfigMap c UsersConfig;
     register ConfigMap (wc_ConfigMapMeta c UsersConfig) e;
     State_Monad.return e })"

definition reconcileHostConfigMap :: "worker_ctx \<Rightarrow> nat \<Rightarrow> err work" where
  "reconcileHostConfigMap c a = unless_done c None (do {
     e \<leftarrow> reconcileConfigMap c (HostConfig a);
     register ConfigMap (wc_ConfigMapMeta c (HostConfig a)) e;
     State_Monad.return e })"

definition reconcileService :: "worker_ctx \<Rightarrow> string \<Rightarrow> err work" where
  "reconcileService c name = unless_done c None (do {
     got \<leftarrow> call c (GetService name);
     e \<leftarrow> (if got = None
       then unless_done c None (unless_done c None (call c (UpdateService name)))
       else State_Monad.return got);
     if e \<noteq> None then do {
       deleteServiceIfExists c name;
       unless_done c None (call c (CreateService name)) }
     else State_Monad.return None })"

text \<open>A service that is omitted needs nothing.\<close>

definition reconcile_service :: "worker_ctx \<Rightarrow> ObjectMeta option \<Rightarrow> err work" where
  "reconcile_service c service = (case service of
     None \<Rightarrow> State_Monad.return None
   | Some m \<Rightarrow> do {
       e \<leftarrow> reconcileService c (om_Name m);
       register Service m e;
       State_Monad.return e })"

definition reconcileHostService :: "worker_ctx \<Rightarrow> nat \<Rightarrow> err work" where
  "reconcileHostService c a = unless_done c None (do {
     service \<leftarrow> reads (\<lambda>s. wc_ServiceHost c (host_at a s));
     reconcile_service c service })"

definition reconcileShard :: "worker_ctx \<Rightarrow> ChiShard \<Rightarrow> err work" where
  "reconcileShard c shard = unless_done c None (reconcile_service c (wc_ServiceShard c shard))"

definition reconcileCluster :: "worker_ctx \<Rightarrow> ChiCluster \<Rightarrow> err work" where
  "reconcileCluster c cluster = unless_done c None (reconcile_service c (wc_ServiceCluster c cluster))"

section \<open>The worker: hosts\<close>

definition FindCluster :: "string \<Rightarrow> ChiCluster list \<Rightarrow> ChiCluster option" where
  "FindCluster name clusters =
     fold (\<lambda>cluster result. if cu_Name cluster = name then Some cluster else result) clusters None"

definition GetShard :: "worker_ctx \<Rightarrow> ChiHost \<Rightarrow> ChiShard option" where
  "GetShard c host = Option.bind (FindCluster (ha_ClusterName (h_Address host)) (wc_clusters c)) (\<lambda>cluster.
     Option.bind (cu_Layout cluster) (FindShard (NeedleName (ha_ShardName (h_Address host)))))"

definition shard_hosts_count :: "worker_ctx \<Rightarrow> ChiHost \<Rightarrow> nat" where
  "shard_hosts_count c host = (case GetShard c host of None \<Rightarrow> 0 | Some shard \<Rightarrow> length (sh_Hosts shard))"

definition shouldMigrateTables :: "worker_ctx \<Rightarrow> nat \<Rightarrow> worker_state \<Rightarrow> bool" where
  "shouldMigrateTables c a s = (if IsStopped (wc_chi c) then False
     else if status_of a s = StatefulSetStatusSame then False else True)"

definition shouldExcludeHost :: "worker_ctx \<Rightarrow> nat \<Rightarrow> worker_state \<Rightarrow> bool" where
  "shouldExcludeHost c a s = (if IsRollingUpdate (wc_chi c) then True
     else if status_of a s = StatefulSetStatusNew then False
     else if status_of a s = StatefulSetStatusSame then False
     else if shard_hosts_count c (host_at a s) = 1 then False
     else True)"

definition shouldWaitExcludeHost :: "worker_ctx \<Rightarrow> bool" where
  "shouldWaitExcludeHost c = (let r = sp_Reconciling (in_Spec (wc_chi c)) in
     if IsReconcilingPolicyWait r then True
     else if IsReconcilingPolicyNoWait r then False
     else wc_ReconcileWaitExclude c)"

definition shouldWaitIncludeHost :: "worker_ctx \<Rightarrow> nat \<Rightarrow> worker_state \<Rightarrow> bool" where
  "shouldWaitIncludeHost c a s = (let r = sp_Reconciling (in_Spec (wc_chi c)) in
     if status_of a s = StatefulSetStatusNew then False
     else if status_of a s = StatefulSetStatusSame then False
     else if shard_hosts_count c (host_at a s) = 1 then False
     else if IsReconcilingPolicyWait r then True
     else if IsReconcilingPolicyNoWait r then False
     else wc_ReconcileWaitInclude c)"

definition migrateTables :: "worker_ctx \<Rightarrow> nat \<Rightarrow> err work" where
  "migrateTables c a = unless_done c None (do {
     should \<leftarrow> reads (shouldMigrateTables c a);
     if \<not> should then State_Monad.return None
     else do {
       created \<leftarrow> call c (CreateTables a);
       if created \<noteq> None then State_Monad.return created
       else do {
         call c (Ping a);
         call c (Shutdown a);
         call c (Ping a);
         State_Monad.return None } } })"

definition without_added :: RemoteServersGeneratorOptions where
  "without_added = NewRemoteServersGeneratorOptions\<lparr>rso_reconcileAttributes := Some (SetAdd NewChiHostReconcileAttributes)\<rparr>"

definition excludeHostFromService :: "worker_ctx \<Rightarrow> nat \<Rightarrow> err work" where
  "excludeHostFromService c a = unless_done c None (deleteLabelReady c a)"

definition includeHostIntoService :: "worker_ctx \<Rightarrow> nat \<Rightarrow> err work" where
  "includeHostIntoService c a = unless_done c None (appendLabelReady c a)"

definition excludeHostFromClickHouseCluster :: "worker_ctx \<Rightarrow> nat \<Rightarrow> unit work" where
  "excludeHostFromClickHouseCluster c a = unless_done c () (
     if shouldWaitExcludeHost c then do {
       reconcileCHIConfigMapCommon c (Some (without_added\<lparr>rso_hosts := [Some a]\<rparr>));
       issue (WaitHostNotInCluster a) }
     else skip)"

definition includeHostIntoClickHouseCluster :: "worker_ctx \<Rightarrow> nat \<Rightarrow> unit work" where
  "includeHostIntoClickHouseCluster c a = unless_done c () (do {
     reconcileCHIConfigMapCommon c (Some without_added);
     should_wait \<leftarrow> reads (shouldWaitIncludeHost c a);
     if should_wait then issue (WaitHostInCluster a) else skip })"

definition excludeHost :: "worker_ctx \<Rightarrow> nat \<Rightarrow> err work" where
  "excludeHost c a = unless_done c None (do {
     should \<leftarrow> reads (shouldExcludeHost c a);
     (if should then do {
        excludeHostFromService c a;
        excludeHostFromClickHouseCluster c a;
        issue (WaitNoActiveQueries a) }
      else skip);
     State_Monad.return None })"

definition includeHost :: "worker_ctx \<Rightarrow> nat \<Rightarrow> err work" where
  "includeHost c a = unless_done c None (do {
     includeHostIntoClickHouseCluster c a;
     includeHostIntoService c a;
     State_Monad.return None })"

definition finishHost :: "worker_ctx \<Rightarrow> nat \<Rightarrow> unit work" where
  "finishHost c a = do {
     reconcilePersistentVolumes c a;
     reconcilePVCs c a;
     reconcileHostService c a;
     set_host a (\<lambda>h. h\<lparr>h_ReconcileAttributes := UnsetAdd (h_ReconcileAttributes h)\<rparr>);
     migrateTables c a;
     skip }"

definition reconcileHost :: "worker_ctx \<Rightarrow> nat \<Rightarrow> err work" where
  "reconcileHost c a = unless_done c None (do {
     prepareHostStatefulSetWithStatus c a False;
     e \<leftarrow> excludeHost c a;
     if e \<noteq> None then State_Monad.return e
     else do {
       e \<leftarrow> reconcileHostConfigMap c a;
       if e \<noteq> None then State_Monad.return e
       else do {
         e \<leftarrow> reconcileHostStatefulSet c a;
         if e \<noteq> None then State_Monad.return e
         else do { finishHost c a; includeHost c a } } } })"

section \<open>The worker: the installation\<close>

fun walk_till_error :: "('x \<Rightarrow> err work) \<Rightarrow> 'x list \<Rightarrow> err work" where
  "walk_till_error f [] = State_Monad.return None"
| "walk_till_error f (x # xs) = do { e \<leftarrow> f x; if e \<noteq> None then State_Monad.return e else walk_till_error f xs }"

definition and_then :: "err work \<Rightarrow> err work \<Rightarrow> err work" where
  "and_then m n = do { e \<leftarrow> m; if e \<noteq> None then State_Monad.return e else n }"

definition WalkTillError ::
    "err work \<Rightarrow> err work \<Rightarrow> (ChiCluster \<Rightarrow> err work) \<Rightarrow> (ChiShard \<Rightarrow> err work) \<Rightarrow> (nat \<Rightarrow> err work)
      \<Rightarrow> err work \<Rightarrow> ChiCluster list \<Rightarrow> err work" where
  "WalkTillError fZooKeeper fCHIPreliminary fCluster fShard fHost fCHI clusters =
     and_then fZooKeeper (and_then fCHIPreliminary (and_then
       (walk_till_error (\<lambda>cluster. and_then (fCluster cluster)
          (walk_till_error (\<lambda>shard. and_then (fShard shard)
             (walk_till_error (\<lambda>host. case host of None \<Rightarrow> State_Monad.return None | Some a \<Rightarrow> fHost a) (sh_Hosts shard)))
            (shards_of cluster)))
         clusters)
       fCHI))"

definition reconcileCHIAuxObjectsPreliminary :: "worker_ctx \<Rightarrow> err work" where
  "reconcileCHIAuxObjectsPreliminary c = unless_done c None (do {
     e \<leftarrow> (if IsStopped (wc_chi c)
       then do {
         unless_done c None (deleteServiceIfExists c
           (CreateCHIServiceName (wc_sha1 c) (in_Meta (wc_chi c)) (in_Spec (wc_chi c))));
         State_Monad.return None }
       else reconcile_service c (wc_ServiceCHI c));
     if e \<noteq> None then State_Monad.return e
     else do {
       reconcileCHIConfigMapCommon c (Some without_added);
       reconcileCHIConfigMapUsers c;
       State_Monad.return None } })"

definition reconcileCHIAuxObjectsFinal :: "worker_ctx \<Rightarrow> err work" where
  "reconcileCHIAuxObjectsFinal c = unless_done c None (reconcileCHIConfigMapCommon c None)"

end
