(* ===== verification/Reconcile.thy ===== *)
theory Reconcile
  imports Worker
begin

text \<open>
  What reconciling a host calls and in which order (\<open>reconcileHost\<close> of \<open>pkg/controller/chi/worker.go\<close>): a
  calculus of the calls a step may make, for arbitrary answers, and the theorems about exclusion, outcome and
  failed rollouts.
\<close>

section \<open>What a step may call\<close>

text \<open>A step appends to the trace and changes nothing that is already there; no step adds or drops a host.\<close>

definition issues :: "(effect \<Rightarrow> bool) \<Rightarrow> 'a work \<Rightarrow> bool" where
  "issues P = state_io_rel (\<lambda>s s'. length (ws_store s') = length (ws_store s)
     \<and> (\<exists>tr. ws_trace s' = ws_trace s @ tr \<and> list_all P tr))"

named_theorems issued \<open>which calls a step makes\<close>

lemma issuesE:
  assumes "issues P m" "run_state m s = (r, s')"
  obtains tr where "ws_trace s' = ws_trace s @ tr" "list_all P tr" "length (ws_store s') = length (ws_store s)"
  using state_io_relD [OF assms(1)[unfolded issues_def] assms(2)] by blast

lemma issuesI:
  assumes "\<And>s. length (ws_store (snd (run_state m s))) = length (ws_store s)
    \<and> (\<exists>tr. ws_trace (snd (run_state m s)) = ws_trace s @ tr \<and> list_all P tr)"
  shows "issues P m"
  using assms by (simp add: issues_def state_io_rel_def)

lemma issues_mono: "issues P m \<Longrightarrow> (\<And>e. P e \<Longrightarrow> Q e) \<Longrightarrow> issues Q m"
  by (fastforce simp: issues_def state_io_rel_def list_all_iff)

lemma issues_return [issued, intro!]: "issues P (State_Monad.return x)"
  by (rule issuesI) simp

lemma issues_bind [issued, intro]:
  assumes "issues P m" "\<And>r. issues P (f r)"
  shows "issues P (m \<bind> f)"
proof (rule issuesI)
  fix s
  obtain r s1 where m: "run_state m s = (r, s1)" by (cases "run_state m s")
  obtain r' s2 where f: "run_state (f r) s1 = (r', s2)" by (cases "run_state (f r) s1")
  obtain t1 where "ws_trace s1 = ws_trace s @ t1" "list_all P t1" "length (ws_store s1) = length (ws_store s)"
    using issuesE [OF assms(1) m] .
  moreover obtain t2 where "ws_trace s2 = ws_trace s1 @ t2" "list_all P t2" "length (ws_store s2) = length (ws_store s1)"
    using issuesE [OF assms(2) f] .
  ultimately show "length (ws_store (snd (run_state (m \<bind> f) s))) = length (ws_store s)
      \<and> (\<exists>tr. ws_trace (snd (run_state (m \<bind> f) s)) = ws_trace s @ tr \<and> list_all P tr)"
    using m f by (simp add: State_Monad.bind_def)
qed

lemma issues_reads [issued, intro!]: "issues P (reads f)"
  by (rule issuesI) (simp add: reads_def)

lemma issues_changes [issued, intro]:
  "(\<And>s. ws_trace (f s) = ws_trace s \<and> length (ws_store (f s)) = length (ws_store s)) \<Longrightarrow> issues P (changes f)"
  by (rule issuesI) (simp add: changes_def)

lemma issues_issue [issued, intro]: "P e \<Longrightarrow> issues P (issue e)"
  by (rule issuesI) (simp add: issue_def changes_def)

lemma issues_skip [issued, intro!]: "issues P skip"
  by (simp add: skip_def issues_return)

lemma issues_call [issued, intro]: "P e \<Longrightarrow> issues P (call c e)"
  unfolding call_def by (intro issues_bind issues_issue issues_reads)

lemma issues_obtained [issued, intro!]: "issues P (obtained c)"
  by (simp add: obtained_def issues_reads)

lemma issues_unless_done [issued, intro]:
  "P AskContext \<Longrightarrow> issues P m \<Longrightarrow> issues P (unless_done c r m)"
  unfolding unless_done_def IsContextDone_def
  by (auto intro!: issues_bind issues_issue issues_reads issues_return)

lemma issues_if [issued, intro]: "(b \<Longrightarrow> issues P m) \<Longrightarrow> (\<not> b \<Longrightarrow> issues P n) \<Longrightarrow> issues P (if b then m else n)"
  by simp

lemma issues_set_host [issued, intro!]: "issues P (set_host a f)"
  unfolding set_host_def by (rule issues_changes) (simp add: store_put_length)

lemma issues_register [issued, intro!]: "issues P (register et m e)"
  unfolding register_def by (rule issues_changes) simp

text \<open>Calls that touch the StatefulSet of a host or its pod, and calls that leave the ready label off.\<close>

fun changes_sts :: "effect \<Rightarrow> bool" where
  "changes_sts (CreateSTS sts) = True"
| "changes_sts (UpdateSTS sts) = True"
| "changes_sts (DeleteSTS name) = True"
| "changes_sts (DeletePod name) = True"
| "changes_sts e = False"

fun puts_ready_label :: "effect \<Rightarrow> bool" where
  "puts_ready_label (PutReadyLabel a) = True"
| "puts_ready_label e = False"

definition routine :: "effect \<Rightarrow> bool" where
  "routine e = (\<not> changes_sts e \<and> \<not> puts_ready_label e)"

lemma routine_simps [simp]:
  "routine AskContext" "routine (GetSTS n)" "routine (WaitReady a)" "routine (WaitDeleted a)"
  "routine (GetService n)" "routine (UpdateService n)" "routine (CreateService n)" "routine (DeleteService n)"
  "routine (DropReadyLabel a)" "routine (GetConfigMap m)" "routine (UpdateConfigMap m)" "routine (CreateConfigMap m)"
  "routine (UpdatePersistentVolumes a)" "routine (UpdatePersistentVolumeClaims a)" "routine (WaitHostNotInCluster a)"
  "routine (WaitHostInCluster a)" "routine (WaitNoActiveQueries a)" "routine (CreateTables a)" "routine (Ping a)"
  "routine (Shutdown a)" "routine (WriteStatus st)" "routine (ListPVCs a)" "routine (DeletePVC n)" "routine ReadCHI" "routine (DeleteHostConfigMap a)"
  by (simp_all add: routine_def)

lemma for_each_issues [issued]: "(\<And>x. issues P (f x)) \<Longrightarrow> issues P (for_each f xs)"
  by (induction xs) (auto intro: issued)

lemma updateCHIObjectStatus_issues [issued]: "issues routine (updateCHIObjectStatus c tolerateAbsence)"
  unfolding updateCHIObjectStatus_def by (intro issued) simp_all

lemma deleteServiceIfExists_issues [issued]: "issues routine (deleteServiceIfExists c name)"
  unfolding deleteServiceIfExists_def by (intro issued) simp_all

lemma getStatefulSetStatus_issues [issued]: "issues routine (getStatefulSetStatus c a)"
  unfolding getStatefulSetStatus_def by (intro issued) simp_all

lemma prepareHostStatefulSetWithStatus_issues [issued]: "issues routine (prepareHostStatefulSetWithStatus c a shutdown)"
  unfolding prepareHostStatefulSetWithStatus_def by (intro issued) (simp_all add: Let_def)

lemma reconcileConfigMap_issues [issued]: "issues routine (reconcileConfigMap c cm)"
  unfolding reconcileConfigMap_def by (intro issued) simp_all

lemma reconcileCHIConfigMapCommon_issues [issued]: "issues routine (reconcileCHIConfigMapCommon c options)"
  unfolding reconcileCHIConfigMapCommon_def by (intro issued) simp_all

lemma reconcileHostConfigMap_issues [issued]: "issues routine (reconcileHostConfigMap c a)"
  unfolding reconcileHostConfigMap_def by (intro issued) simp_all

lemma reconcileService_issues [issued]: "issues routine (reconcileService c name)"
  unfolding reconcileService_def by (intro issued) simp_all

lemma reconcile_service_issues [issued]: "issues routine (reconcile_service c service)"
  by (cases service) (auto simp: reconcile_service_def intro!: issued)

lemma reconcileHostService_issues [issued]: "issues routine (reconcileHostService c a)"
  unfolding reconcileHostService_def by (intro issued) simp_all

lemma excludeHost_issues [issued]: "issues routine (excludeHost c a)"
  unfolding excludeHost_def excludeHostFromService_def deleteLabelReady_def excludeHostFromClickHouseCluster_def
  by (intro issued) simp_all

lemma finishHost_issues [issued]: "issues routine (finishHost c a)"
  unfolding finishHost_def reconcilePersistentVolumes_def reconcilePVCs_def migrateTables_def
  by (intro issued) simp_all

lemma includeHost_issues: "issues (\<lambda>e. \<not> changes_sts e) (includeHost c a)"
  unfolding includeHost_def includeHostIntoClickHouseCluster_def includeHostIntoService_def appendLabelReady_def
  by (intro issued issues_mono [OF reconcileCHIConfigMapCommon_issues]) (simp_all add: routine_def)

lemma not_label_of_routine: "issues routine m \<Longrightarrow> issues (\<lambda>e. \<not> puts_ready_label e) m"
  by (erule issues_mono) (simp add: routine_def)

lemma deleteStatefulSet_issues: "issues (\<lambda>e. \<not> puts_ready_label e) (deleteStatefulSet c a)"
  unfolding deleteStatefulSet_def sts_name_def Let_def by (intro issued) simp_all

lemma deletePVC_issues: "issues (\<lambda>e. \<not> puts_ready_label e) (deletePVC c a)"
  unfolding deletePVC_def by (intro issued) simp_all

lemma failure_issues:
  "issues (\<lambda>e. \<not> puts_ready_label e) (onStatefulSetCreateFailed c a)"
  "issues (\<lambda>e. \<not> puts_ready_label e) (onStatefulSetUpdateFailed c old)"
  unfolding onStatefulSetCreateFailed_def deleteHost_def onStatefulSetUpdateFailed_def statefulSetDeletePod_def
  by (intro issued deleteStatefulSet_issues deletePVC_issues not_label_of_routine [OF deleteServiceIfExists_issues]; simp)+

lemma createStatefulSet_issues: "issues (\<lambda>e. \<not> puts_ready_label e) (createStatefulSet c a)"
  unfolding createStatefulSet_def c_createStatefulSet_def
  by (intro issued failure_issues not_label_of_routine [OF updateCHIObjectStatus_issues]; simp)

lemma updateStatefulSet_issues: "issues (\<lambda>e. \<not> puts_ready_label e) (updateStatefulSet c cur a)"
  unfolding updateStatefulSet_def c_updateStatefulSet_def recreateStatefulSet_def reconcilePVCs_def
  by (intro issued failure_issues createStatefulSet_issues deleteStatefulSet_issues
      not_label_of_routine [OF updateCHIObjectStatus_issues]; simp)

lemma reconcileHostStatefulSet_issues: "issues (\<lambda>e. \<not> puts_ready_label e) (reconcileHostStatefulSet c a)"
  unfolding reconcileHostStatefulSet_def reconcileStatefulSet_def
  by (intro issued updateStatefulSet_issues createStatefulSet_issues
      not_label_of_routine [OF prepareHostStatefulSetWithStatus_issues]; simp)

section \<open>A context that is done\<close>

definition new_calls :: "worker_state \<Rightarrow> worker_state \<Rightarrow> effect list" where
  "new_calls s s' = drop (length (ws_trace s)) (ws_trace s')"

lemma new_calls_append [simp]: "ws_trace s' = ws_trace s @ tr \<Longrightarrow> new_calls s s' = tr"
  by (simp add: new_calls_def)

definition done_at :: "worker_ctx \<Rightarrow> worker_state \<Rightarrow> bool" where
  "done_at c s = an_done (wc_answers c) (ws_trace s)"

text \<open>A context that is done stays done.\<close>

definition lasting :: "worker_ctx \<Rightarrow> bool" where
  "lasting c = (\<forall>t t'. an_done (wc_answers c) t \<longrightarrow> an_done (wc_answers c) (t @ t'))"

abbreviation asked :: "worker_state \<Rightarrow> worker_state" where
  "asked s \<equiv> s\<lparr>ws_trace := ws_trace s @ [AskContext]\<rparr>"

lemma run_simps [simp]:
  "run_state (reads f) s = (f s, s)"
  "run_state (changes g) s = ((), g s)"
  "run_state (issue e) s = ((), s\<lparr>ws_trace := ws_trace s @ [e]\<rparr>)"
  "run_state skip s = ((), s)"
  "run_state (call c e) s =
     (an_error (wc_answers c) (ws_trace s @ [e]), s\<lparr>ws_trace := ws_trace s @ [e]\<rparr>)"
  "run_state (obtained c) s = (an_object (wc_answers c) (ws_trace s), s)"
  by (simp_all add: reads_def changes_def issue_def skip_def call_def obtained_def State_Monad.bind_def)

lemma run_bind: "run_state (m \<bind> f) s = (case run_state m s of (r, s1) \<Rightarrow> run_state (f r) s1)"
  by (simp add: State_Monad.bind_def)

lemma run_IsContextDone [simp]: "run_state (IsContextDone c) s = (done_at c (asked s), asked s)"
  by (simp add: IsContextDone_def run_bind done_at_def)

lemma run_unless_done:
  "run_state (unless_done c r m) s = (if done_at c (asked s) then (r, asked s) else run_state m (asked s))"
  by (simp add: unless_done_def run_bind)

lemma done_later: "lasting c \<Longrightarrow> done_at c s \<Longrightarrow> ws_trace s' = ws_trace s @ tr \<Longrightarrow> done_at c s'"
  by (simp add: lasting_def done_at_def)

text \<open>What a step calls once the context is done.\<close>

definition idle :: "worker_ctx \<Rightarrow> (effect \<Rightarrow> bool) \<Rightarrow> 'a work \<Rightarrow> bool" where
  "idle c P m = (\<forall>s. done_at c s \<longrightarrow>
     (\<exists>tr. ws_trace (snd (run_state m s)) = ws_trace s @ tr \<and> list_all P tr))"

lemma idleD:
  assumes "idle c P m" "done_at c s" "run_state m s = (r, s')"
  shows "\<exists>tr. ws_trace s' = ws_trace s @ tr \<and> list_all P tr"
proof -
  have "\<exists>tr. ws_trace (snd (run_state m s)) = ws_trace s @ tr \<and> list_all P tr"
    using assms(1,2) unfolding idle_def by blast
  then show ?thesis by (simp add: assms(3))
qed

lemma idle_issues: "issues P m \<Longrightarrow> idle c P m"
  by (simp add: idle_def issues_def state_io_rel_def)

lemma idle_unless_done: "lasting c \<Longrightarrow> P AskContext \<Longrightarrow> idle c P (unless_done c r m)"
  unfolding idle_def
proof (intro allI impI)
  fix s
  assume "lasting c" "P AskContext" "done_at c s"
  then have "done_at c (asked s)" using done_later [of c s "asked s"] by simp
  then show "\<exists>tr. ws_trace (snd (run_state (unless_done c r m) s)) = ws_trace s @ tr \<and> list_all P tr"
    using \<open>P AskContext\<close> by (simp add: run_unless_done)
qed

lemma idle_bind:
  assumes "lasting c" "idle c P m" "\<And>r. idle c P (f r)"
  shows "idle c P (m \<bind> f)"
  unfolding idle_def
proof (intro allI impI)
  fix s
  assume d: "done_at c s"
  obtain r s1 where m: "run_state m s = (r, s1)" by (cases "run_state m s")
  obtain r' s2 where f: "run_state (f r) s1 = (r', s2)" by (cases "run_state (f r) s1")
  obtain t1 where t1: "ws_trace s1 = ws_trace s @ t1" "list_all P t1" using idleD [OF assms(2) d m] by blast
  obtain t2 where "ws_trace s2 = ws_trace s1 @ t2" "list_all P t2"
    using idleD [OF assms(3) done_later [OF assms(1) d t1(1)] f] by blast
  with t1 m f show "\<exists>tr. ws_trace (snd (run_state (m \<bind> f) s)) = ws_trace s @ tr \<and> list_all P tr"
    by (simp add: run_bind)
qed

section \<open>Reconciling a host\<close>

definition host_tail :: "worker_ctx \<Rightarrow> nat \<Rightarrow> err work" where
  "host_tail c a = do {
     e \<leftarrow> reconcileHostConfigMap c a;
     if e \<noteq> None then State_Monad.return e
     else do {
       e \<leftarrow> reconcileHostStatefulSet c a;
       if e \<noteq> None then State_Monad.return e
       else do { finishHost c a; includeHost c a } } }"

lemma reconcileHost_split:
  "reconcileHost c a = unless_done c None (do {
     prepareHostStatefulSetWithStatus c a False;
     e \<leftarrow> excludeHost c a;
     if e \<noteq> None then State_Monad.return e else host_tail c a })"
  unfolding reconcileHost_def host_tail_def by (rule refl)

lemma not_sts_of_routine: "issues routine m \<Longrightarrow> issues (\<lambda>e. \<not> changes_sts e) m"
  by (erule issues_mono) (simp add: routine_def)

lemma idle_host_tail: "lasting c \<Longrightarrow> idle c (\<lambda>e. \<not> changes_sts e) (host_tail c a)"
  unfolding host_tail_def reconcileHostStatefulSet_def
  by (intro idle_bind)
    (auto intro!: idle_issues [OF issues_return] idle_bind idle_unless_done
       idle_issues [OF not_sts_of_routine [OF reconcileHostConfigMap_issues]]
       idle_issues [OF not_sts_of_routine [OF finishHost_issues]] idle_issues [OF includeHost_issues])

text \<open>No call of the second kind comes before one of the first.\<close>

fun before :: "('e \<Rightarrow> bool) \<Rightarrow> ('e \<Rightarrow> bool) \<Rightarrow> 'e list \<Rightarrow> bool" where
  "before f g [] = True"
| "before f g (e # es) = (f e \<or> (\<not> g e \<and> before f g es))"

lemma before_without: "list_all (\<lambda>e. \<not> g e) xs \<Longrightarrow> before f g ys \<Longrightarrow> before f g (xs @ ys)"
  by (induction xs) simp_all

lemma before_found: "list_all (\<lambda>e. \<not> g e) xs \<Longrightarrow> list_ex f xs \<Longrightarrow> before f g (xs @ ys)"
  by (induction xs) auto

fun config_without :: "nat \<Rightarrow> effect \<Rightarrow> bool" where
  "config_without a (GetConfigMap (CommonConfig hosts)) = (Some a \<notin> set hosts)"
| "config_without a e = False"

fun config_with :: "nat \<Rightarrow> effect \<Rightarrow> bool" where
  "config_with a (GetConfigMap (CommonConfig hosts)) = (Some a \<in> set hosts)"
| "config_with a e = False"

lemma excludeHostFromService_run:
  assumes "sts_Replicas (ws_StatefulSet s a) \<noteq> Some 0" "run_state (excludeHostFromService c a) s = (e, s')"
  shows "\<exists>tr. ws_trace s' = ws_trace s @ tr \<and> (done_at c s' \<or> list_ex ((=) (DropReadyLabel a)) tr)"
  using assms
  by (auto simp: excludeHostFromService_def deleteLabelReady_def run_unless_done run_bind split: if_splits)

lemma reconcileConfigMap_run:
  assumes "run_state (reconcileConfigMap c cm) s = (e, s')"
  shows "\<exists>tr. ws_trace s' = ws_trace s @ tr \<and> (done_at c s' \<or> GetConfigMap cm \<in> set tr)"
  using assms
  by (auto simp: reconcileConfigMap_def run_unless_done run_bind split: if_splits prod.splits)

lemma reconcileCHIConfigMapCommon_run:
  assumes "run_state (reconcileCHIConfigMapCommon c options) s = (e, s')"
  shows "\<exists>tr. ws_trace s' = ws_trace s @ tr
    \<and> (done_at c s' \<or> GetConfigMap (CommonConfig (listed_hosts c options (ws_store s))) \<in> set tr)"
proof (cases "done_at c (asked s)")
  case True
  then show ?thesis using assms by (auto simp: reconcileCHIConfigMapCommon_def run_unless_done)
next
  case False
  let ?cm = "CommonConfig (listed_hosts c options (ws_store s))"
  obtain e1 s1 where r: "run_state (reconcileConfigMap c ?cm) (asked s) = (e1, s1)"
    by (cases "run_state (reconcileConfigMap c ?cm) (asked s)")
  have "ws_trace s' = ws_trace s1" using assms False r
    by (auto simp: reconcileCHIConfigMapCommon_def run_unless_done run_bind register_def split: if_splits)
  then show ?thesis using reconcileConfigMap_run [OF r] by (auto simp: done_at_def)
qed

lemma excluded_not_listed: "Some a \<notin> set (listed_hosts c (Some (without_added\<lparr>rso_hosts := [Some a]\<rparr>)) store)"
  by (auto simp: listed_hosts_def Include_def split: option.splits)

lemma excludeHostFromClickHouseCluster_run:
  assumes "shouldWaitExcludeHost c" "lasting c" "run_state (excludeHostFromClickHouseCluster c a) s = (u, s')"
  shows "\<exists>tr. ws_trace s' = ws_trace s @ tr
    \<and> (done_at c s' \<or> list_ex (config_without a) tr \<and> list_ex ((=) (WaitHostNotInCluster a)) tr)"
proof (cases "done_at c (asked s)")
  case True
  then show ?thesis using assms(3) by (auto simp: excludeHostFromClickHouseCluster_def run_unless_done)
next
  case False
  let ?o = "Some (without_added\<lparr>rso_hosts := [Some a]\<rparr>)"
  obtain e1 s1 where r: "run_state (reconcileCHIConfigMapCommon c ?o) (asked s) = (e1, s1)"
    by (cases "run_state (reconcileCHIConfigMapCommon c ?o) (asked s)")
  have s': "ws_trace s' = ws_trace s1 @ [WaitHostNotInCluster a]" using assms False r
    by (auto simp: excludeHostFromClickHouseCluster_def run_unless_done run_bind)
  from reconcileCHIConfigMapCommon_run [OF r] obtain t where t: "ws_trace s1 = ws_trace (asked s) @ t"
    and c: "done_at c s1 \<or> GetConfigMap (CommonConfig (listed_hosts c ?o (ws_store (asked s)))) \<in> set t" by blast
  from c show ?thesis
  proof
    assume "done_at c s1"
    then show ?thesis using done_later [OF assms(2) _ s'] s' t by auto
  next
    assume g: "GetConfigMap (CommonConfig (listed_hosts c ?o (ws_store (asked s)))) \<in> set t"
    have "config_without a (GetConfigMap (CommonConfig (listed_hosts c ?o (ws_store (asked s)))))"
      using excluded_not_listed by simp
    then have "list_ex (config_without a) t" using g unfolding list_ex_iff by blast
    then show ?thesis using s' t by (auto simp: list_ex_iff)
  qed
qed

lemma any_issues: "issues P m \<Longrightarrow> issues (\<lambda>_. True) m"
  by (erule issues_mono) simp

lemma host_tail_issues: "issues (\<lambda>_. True) (host_tail c a)"
  unfolding host_tail_def
  by (intro issues_bind issues_if issues_return any_issues [OF reconcileHostConfigMap_issues]
      any_issues [OF reconcileHostStatefulSet_issues] any_issues [OF finishHost_issues] any_issues [OF includeHost_issues])

lemma host_at_trace [simp]: "host_at a (s\<lparr>ws_trace := t\<rparr>) = host_at a s"
  by (simp add: host_at_def)

lemma shouldExcludeHost_trace [simp]: "shouldExcludeHost c a (s\<lparr>ws_trace := t\<rparr>) = shouldExcludeHost c a s"
  by (simp add: shouldExcludeHost_def status_of_def)

definition exclusion :: "worker_ctx \<Rightarrow> nat \<Rightarrow> (effect \<Rightarrow> bool) list" where
  "exclusion c a = [(=) (DropReadyLabel a), (=) (WaitNoActiveQueries a)]
     @ (if shouldWaitExcludeHost c then [config_without a, (=) (WaitHostNotInCluster a)] else [])"

lemma excludeHost_run:
  assumes l: "lasting c" and should: "shouldExcludeHost c a s"
    and pods: "sts_Replicas (ws_StatefulSet s a) \<noteq> Some 0"
    and run: "run_state (excludeHost c a) s = (e, s')"
  shows "e = None \<and> (\<exists>tr. ws_trace s' = ws_trace s @ tr \<and> list_all routine tr
    \<and> (done_at c s' \<or> list_all (\<lambda>f. list_ex f tr) (exclusion c a)))"
proof -
  obtain tr where tr: "ws_trace s' = ws_trace s @ tr" "list_all routine tr"
    using issuesE [OF excludeHost_issues run] .
  have none: "e = None"
    using run by (auto simp: excludeHost_def run_unless_done run_bind split: if_splits prod.splits)
  have "done_at c s' \<or> list_all (\<lambda>f. list_ex f tr) (exclusion c a)"
  proof (cases "done_at c (asked s)")
    case True
    then show ?thesis using run by (auto simp: excludeHost_def run_unless_done)
  next
    case False
    obtain e1 s1 where r1: "run_state (excludeHostFromService c a) (asked s) = (e1, s1)"
      by (cases "run_state (excludeHostFromService c a) (asked s)")
    obtain u s2 where r2: "run_state (excludeHostFromClickHouseCluster c a) s1 = (u, s2)"
      by (cases "run_state (excludeHostFromClickHouseCluster c a) s1")
    have s': "ws_trace s' = ws_trace s2 @ [WaitNoActiveQueries a]"
      using run False r1 r2 should by (auto simp: excludeHost_def run_unless_done run_bind)
    obtain t1 where t1: "ws_trace s1 = ws_trace (asked s) @ t1" "done_at c s1 \<or> list_ex ((=) (DropReadyLabel a)) t1"
      using excludeHostFromService_run [OF _ r1] pods by auto
    obtain t2 where t2: "ws_trace s2 = ws_trace s1 @ t2"
      "shouldWaitExcludeHost c \<Longrightarrow> done_at c s2 \<or> list_ex (config_without a) t2 \<and> list_ex ((=) (WaitHostNotInCluster a)) t2"
    proof (cases "shouldWaitExcludeHost c")
      case True
      then show thesis using excludeHostFromClickHouseCluster_run [OF True l r2] that by blast
    next
      case no: False
      then show thesis using r2 that by (auto simp: excludeHostFromClickHouseCluster_def run_unless_done split: if_splits)
    qed
    have new: "tr = AskContext # t1 @ t2 @ [WaitNoActiveQueries a]" using tr(1) s' t1(1) t2(1) by simp
    show ?thesis
    proof (rule disjCI)
      assume "\<not> list_all (\<lambda>f. list_ex f tr) (exclusion c a)"
      then have "\<not> list_ex ((=) (DropReadyLabel a)) t1 \<or> shouldWaitExcludeHost c
          \<and> \<not> (list_ex (config_without a) t2 \<and> list_ex ((=) (WaitHostNotInCluster a)) t2)"
        by (auto simp: exclusion_def new list_ex_iff split: if_splits)
      then have "done_at c s1 \<or> done_at c s2" using t1(2) t2(2) by blast
      then show "done_at c s'" using done_later [OF l _ t2(1)] done_later [OF l _ s'] by blast
    qed
  qed
  with none tr show ?thesis by blast
qed


text \<open>An operator that drives one host, whose StatefulSet was changed.\<close>

definition versioned :: "string \<Rightarrow> StatefulSet" where
  "versioned v = \<lparr>sts_Meta = (object_named ''chi-0'')\<lparr>om_Labels := [(LabelObjectVersion, v)]\<rparr>, sts_Generation = 1,
     sts_Replicas = Some 1, sts_VolumeMounts = [], sts_Spec = v, sts_ObservedGeneration = 1, sts_ReadyReplicas = 1, sts_CurrentReplicas = 1,
     sts_UpdatedReplicas = 1, sts_CurrentRevision = '''', sts_UpdateRevision = ''''\<rparr>"

definition plain_operator :: "answers \<Rightarrow> ChiCluster list \<Rightarrow> Installation \<Rightarrow> worker_ctx" where
  "plain_operator env clusters chi = \<lparr>wc_answers = env, wc_chi = chi, wc_clusters = clusters, wc_sha1 = (\<lambda>s. s),
     wc_OnStatefulSetCreateFailureAction = ''ignore'', wc_OnStatefulSetUpdateFailureAction = ''abort'',
     wc_ReconcileWaitExclude = True, wc_ReconcileWaitInclude = False,
     wc_CreateStatefulSet = (\<lambda>host shutdown. versioned ''new''), wc_ConfigMapMeta = (\<lambda>_. object_named ''config''),
     wc_ServiceHost = (\<lambda>_. None), wc_ServiceShard = (\<lambda>_. None), wc_ServiceCluster = (\<lambda>_. None), wc_ServiceCHI = None\<rparr>"

definition unanswered :: answers where
  "unanswered = \<lparr>an_done = (\<lambda>_. False), an_flag = (\<lambda>_. False), an_error = (\<lambda>_. None), an_object = (\<lambda>_. versioned ''old''),
     an_claims = (\<lambda>_. Some []), an_claim = (\<lambda>_. \<lparr>pvc_Meta = object_named ''claim'', pvc_Requests = []\<rparr>),
     an_finalizers = (\<lambda>_. []), an_listed = (\<lambda>_ _. Some [])\<rparr>"

definition blank_status :: ChiStatus where
  "blank_status = \<lparr>cs_Version = '''', cs_ClustersCount = 0, cs_ShardsCount = 0, cs_ReplicasCount = 0, cs_HostsCount = 0,
     cs_Status = '''', cs_TaskID = '''', cs_TaskIDsStarted = [], cs_TaskIDsCompleted = [], cs_Action = '''', cs_Actions = [],
     cs_Error = '''', cs_Errors = [], cs_UpdatedHostsCount = 0, cs_AddedHostsCount = 0, cs_DeletedHostsCount = 0,
     cs_DeleteHostsCount = 0, cs_Pods = [], cs_FQDNs = [], cs_Endpoint = '''', cs_Generation = 0, cs_NormalizedCHI = None\<rparr>"

definition plain_installation :: Installation where
  "plain_installation = \<lparr>in_Meta = object_named ''chi'', in_Generation = 1, in_Spec = newChiSpec, in_Status = blank_status\<rparr>"

definition one_host_worker :: worker_state where
  "one_host_worker = \<lparr>ws_trace = [], ws_store = [newChiHost], ws_StatefulSet = (\<lambda>_. versioned ''old''),
     ws_DesiredStatefulSet = (\<lambda>_. versioned ''old''), ws_CurStatefulSet = (\<lambda>_. None),
     ws_registryReconciled = NewRegistry, ws_registryFailed = NewRegistry, ws_Status = blank_status\<rparr>"

lemma operator_simps [simp]:
  "wc_answers (plain_operator env clusters chi) = env" "wc_chi (plain_operator env clusters chi) = chi"
  "wc_clusters (plain_operator env clusters chi) = clusters"
  "wc_CreateStatefulSet (plain_operator env clusters chi) = (\<lambda>host shutdown. versioned ''new'')"
  "wc_OnStatefulSetCreateFailureAction (plain_operator env clusters chi) = ''ignore''"
  "wc_ReconcileWaitExclude (plain_operator env clusters chi)"
  by (simp_all add: plain_operator_def)

lemma plain_installation_simps [simp]:
  "\<not> IsRollingUpdate plain_installation" "\<not> IsStopped plain_installation"
  "sp_Reconciling (in_Spec plain_installation) = None"
  by (simp_all add: IsRollingUpdate_def IsStopped_def plain_installation_def newChiSpec_def RestartRollingUpdate_def
      IsStringBoolTrue_def StringBoolTrueValues_def to_lower_def)

lemma versioned_simps [simp]:
  "gget (om_Labels (sts_Meta (versioned v))) LabelObjectVersion = Some v"
  "sts_Replicas (versioned v) = Some 1" "sts_Generation (versioned v) = 1" "IsStatefulSetReady (Some (versioned v))"
  by (simp_all add: versioned_def IsStatefulSetReady_def IsStatefulSetGeneration_def)


section \<open>How reconciling a host ends\<close>

text \<open>What a step has called when it ends with an error.\<close>

definition failing :: "(effect \<Rightarrow> bool) \<Rightarrow> err work \<Rightarrow> bool" where
  "failing P m = (\<forall>s. fst (run_state m s) \<noteq> None \<longrightarrow>
     (\<exists>tr. ws_trace (snd (run_state m s)) = ws_trace s @ tr \<and> list_all P tr))"

lemma failing_issues: "issues P m \<Longrightarrow> failing P m"
  by (simp add: failing_def issues_def state_io_rel_def)

lemma failing_unless_done: "P AskContext \<Longrightarrow> failing P m \<Longrightarrow> failing P (unless_done c None m)"
  by (fastforce simp: failing_def run_unless_done)

lemma failing_bind:
  assumes "issues P m" "\<And>r. failing P (f r)"
  shows "failing P (m \<bind> f)"
  unfolding failing_def
proof (intro allI impI)
  fix s
  assume e: "fst (run_state (m \<bind> f) s) \<noteq> None"
  obtain r s1 where m: "run_state m s = (r, s1)" by (cases "run_state m s")
  obtain t1 where t1: "ws_trace s1 = ws_trace s @ t1" "list_all P t1" using issuesE [OF assms(1) m] .
  have "fst (run_state (f r) s1) \<noteq> None" using e m by (simp add: run_bind)
  then obtain t2 where "ws_trace (snd (run_state (f r) s1)) = ws_trace s1 @ t2" "list_all P t2"
    using assms(2) [of r] unfolding failing_def by blast
  with t1 m show "\<exists>tr. ws_trace (snd (run_state (m \<bind> f) s)) = ws_trace s @ tr \<and> list_all P tr"
    by (simp add: run_bind)
qed

lemma failing_if: "failing P m \<Longrightarrow> failing P n \<Longrightarrow> failing P (if b then m else n)"
  by simp

lemma includeHost_failing: "failing P (includeHost c a)"
  by (simp add: failing_def includeHost_def run_unless_done run_bind split: prod.split)

lemma reconcileHost_failing: "failing (\<lambda>e. \<not> puts_ready_label e) (reconcileHost c a)"
  unfolding reconcileHost_def
  by (intro failing_unless_done failing_bind failing_if failing_issues [OF issues_return] includeHost_failing
      reconcileHostStatefulSet_issues not_label_of_routine prepareHostStatefulSetWithStatus_issues
      excludeHost_issues reconcileHostConfigMap_issues finishHost_issues) simp

lemma migrateTables_store: "ws_store (snd (run_state (migrateTables c a) s)) = ws_store s"
  by (simp add: migrateTables_def run_unless_done run_bind)

lemma finishHost_added:
  assumes run: "run_state (finishHost c a) s = (u, s')" and a: "a < length (ws_store s)"
  shows "a < length (ws_store s') \<and> \<not> ra_add (h_ReconcileAttributes (ws_store s' ! a))"
proof -
  let ?front = "do { reconcilePersistentVolumes c a; reconcilePVCs c a; reconcileHostService c a }"
  let ?mark = "set_host a (\<lambda>h. h\<lparr>h_ReconcileAttributes := UnsetAdd (h_ReconcileAttributes h)\<rparr>)"
  obtain e s1 where f: "run_state ?front s = (e, s1)" by (cases "run_state ?front s")
  obtain s2 where k: "run_state ?mark s1 = ((), s2)" by (cases "run_state ?mark s1") simp
  have "issues routine ?front"
    unfolding reconcilePersistentVolumes_def reconcilePVCs_def by (intro issued) simp_all
  then have a1: "a < length (ws_store s1)" using issuesE [OF _ f] a by metis
  then have s2: "ws_store s2 = (ws_store s1)[a := (ws_store s1 ! a)\<lparr>h_ReconcileAttributes
      := UnsetAdd (h_ReconcileAttributes (ws_store s1 ! a))\<rparr>]"
    using k by (auto simp: set_host_def store_put_get_nth)
  have "run_state (finishHost c a) s = ((), snd (run_state (migrateTables c a) s2))"
    using f k by (simp add: finishHost_def run_bind split: prod.splits)
  then have "ws_store s' = ws_store s2" using run migrateTables_store by (metis prod.inject)
  then show ?thesis using s2 a1 by (simp add: UnsetAdd_def)
qed

definition endless :: "worker_ctx \<Rightarrow> bool" where
  "endless c = (\<forall>t. \<not> an_done (wc_answers c) t)"

lemma includeHost_run:
  assumes c: "endless c" and a: "a < length (ws_store s)" "Some a \<in> set (chi_hosts (wc_clusters c))"
    and added: "\<not> ra_add (h_ReconcileAttributes (ws_store s ! a))"
    and run: "run_state (includeHost c a) s = (e, s')"
  shows "\<exists>tr. ws_trace s' = ws_trace s @ tr \<and> list_ex (config_with a) tr \<and> last tr = PutReadyLabel a"
proof -
  have nd: "\<not> done_at c t" for t using c by (simp add: endless_def done_at_def)
  let ?s = "asked (asked s)"
  obtain e1 s1 where r: "run_state (reconcileCHIConfigMapCommon c (Some without_added)) ?s = (e1, s1)"
    by (cases "run_state (reconcileCHIConfigMapCommon c (Some without_added)) ?s")
  obtain w where w: "ws_trace s' = ws_trace s1 @ w" "last w = PutReadyLabel a" "w \<noteq> []"
    using run nd r
    by (auto simp: includeHost_def includeHostIntoClickHouseCluster_def includeHostIntoService_def appendLabelReady_def
        run_unless_done run_bind split: if_splits)
  obtain t where t: "ws_trace s1 = ws_trace ?s @ t"
    "GetConfigMap (CommonConfig (listed_hosts c (Some without_added) (ws_store ?s))) \<in> set t"
    using reconcileCHIConfigMapCommon_run [OF r] nd by blast
  have "Some a \<in> set (listed_hosts c (Some without_added) (ws_store s))"
    using a added
    by (simp add: listed_hosts_def Include_def store_get_def without_added_def ra_Any_def ra_defs
        NewRemoteServersGeneratorOptions_def NewChiHostReconcileAttributes_def)
  then have "list_ex (config_with a) t" using t(2) by (force simp: list_ex_iff)
  then show ?thesis using w t(1) by (intro exI [of _ "AskContext # AskContext # t @ w"]) (auto simp: list_ex_iff)
qed


text \<open>Where every call succeeds, a host is reconciled without an error.\<close>

definition succeeds :: "err work \<Rightarrow> bool" where
  "succeeds m = (\<forall>s. fst (run_state m s) = None)"

lemma succeeds_rules:
  "succeeds (State_Monad.return None)"
  "succeeds m \<Longrightarrow> succeeds (unless_done c None m)"
  "(\<And>r. succeeds (f r)) \<Longrightarrow> succeeds (k \<bind> f)"
  "succeeds n \<Longrightarrow> succeeds m \<Longrightarrow> succeeds (if b then n else m)"
  by (simp_all add: succeeds_def run_unless_done run_bind split: prod.split)

lemma succeeds_then: "succeeds m \<Longrightarrow> succeeds (f None) \<Longrightarrow> succeeds (m \<bind> f)"
  by (simp add: succeeds_def run_bind prod.case_eq_if)

lemma succeeds_call: "(\<And>t. an_error (wc_answers c) t = None) \<Longrightarrow> succeeds (call c e)"
  by (simp add: succeeds_def)

lemma calm_reconcileConfigMap:
  assumes "\<And>t. an_error (wc_answers c) t = None"
  shows "succeeds (reconcileConfigMap c cm)"
  unfolding reconcileConfigMap_def using assms
  by (intro succeeds_rules(2) succeeds_then succeeds_call) (auto intro!: succeeds_rules succeeds_call succeeds_then)

lemma calm_reconcileStatefulSet:
  assumes "\<And>t. an_error (wc_answers c) t = None"
  shows "succeeds (reconcileStatefulSet c a)"
proof -
  have create: "succeeds (c_createStatefulSet c sts a)" for sts
    unfolding c_createStatefulSet_def using assms
    by (auto intro!: succeeds_rules(1,2) succeeds_then succeeds_call)
  have "succeeds (createStatefulSet c a)"
    unfolding createStatefulSet_def
    by (rule succeeds_rules(2), rule succeeds_rules(3), rule succeeds_then [OF create]) (simp add: succeeds_rules)
  then have recreate: "succeeds (recreateStatefulSet c a)"
    unfolding recreateStatefulSet_def by (simp add: succeeds_rules(2,3))
  have update: "succeeds (c_updateStatefulSet c old sts a)" for old sts
    unfolding c_updateStatefulSet_def
  proof (intro succeeds_rules(2) succeeds_then [OF succeeds_call [OF assms]])
    have "succeeds (do {
        ready \<leftarrow> call c (WaitReady a);
        if ready = None then State_Monad.return None else onStatefulSetUpdateFailed c old })"
      by (rule succeeds_then [OF succeeds_call [OF assms]]) (simp add: succeeds_rules(1))
    then show "succeeds (if None \<noteq> (None :: err) then State_Monad.return None
        else do {
          sts \<leftarrow> obtained c;
          if sts_Generation sts = sts_Generation old then State_Monad.return None
          else do {
            ready \<leftarrow> call c (WaitReady a);
            if ready = None then State_Monad.return None else onStatefulSetUpdateFailed c old } })"
      by (simp add: succeeds_rules)
  qed
  have "succeeds (updateStatefulSet c cur a)" for cur
    unfolding updateStatefulSet_def
    by (intro succeeds_rules(2,3,4) recreate succeeds_rules(1))
  then have "succeeds (do { e \<leftarrow> updateStatefulSet c cur a;
      if e = Some KubeNotFound then createStatefulSet c a else State_Monad.return e })" for cur
    by (rule succeeds_then) (simp add: succeeds_rules(1))
  then show ?thesis
    unfolding reconcileStatefulSet_def
    by (intro succeeds_rules(2)) (rule succeeds_rules(3), rule succeeds_rules(4), rule succeeds_rules(1),
        rule succeeds_rules(3), rule succeeds_then [OF succeeds_call [OF assms]], simp add: succeeds_rules(3))
qed

lemma calm_reconcileHost:
  assumes "\<And>t. an_error (wc_answers c) t = None"
  shows "succeeds (reconcileHost c a)"
proof -
  have config: "succeeds (reconcileHostConfigMap c a)"
    unfolding reconcileHostConfigMap_def
    by (rule succeeds_rules(2), rule succeeds_then [OF calm_reconcileConfigMap [OF assms]])
      (simp add: succeeds_rules(1,3))
  have sts: "succeeds (reconcileHostStatefulSet c a)"
    unfolding reconcileHostStatefulSet_def
    by (rule succeeds_rules(2), rule succeeds_rules(3), rule succeeds_rules(3),
        rule succeeds_then [OF calm_reconcileStatefulSet [OF assms]]) (simp add: succeeds_rules(1,3))
  have included: "succeeds (do { finishHost c a; includeHost c a })"
    by (rule succeeds_rules(3)) (simp add: succeeds_def includeHost_def run_unless_done run_bind split: prod.split)
  have "succeeds (excludeHost c a)"
    by (simp add: succeeds_def excludeHost_def run_unless_done run_bind split: prod.split)
  then show ?thesis
    unfolding reconcileHost_def
    by (intro succeeds_rules(2)) (rule succeeds_rules(3), erule succeeds_then,
        simp add: succeeds_then [OF config] succeeds_then [OF sts] included)
qed

definition one_host_shard :: ChiShard where
  "one_host_shard = newChiShard\<lparr>sh_Hosts := [Some 0]\<rparr>"

definition one_host_cluster :: ChiCluster where
  "one_host_cluster = newDefaultCluster\<lparr>cu_Layout := Some (NewChiClusterLayout\<lparr>lay_Shards := [one_host_shard]\<rparr>)\<rparr>"

text \<open>A changed host of a one-host cluster is brought back; one whose configuration cannot be read is not.\<close>

definition unreadable :: answers where
  "unreadable = unanswered\<lparr>an_error := (\<lambda>t. if last t = GetConfigMap (HostConfig 0) then Some KubeError else None)\<rparr>"


section \<open>A rollout that fails\<close>

text \<open>A StatefulSet that is accepted by the cluster and never becomes ready. \<open>e\<close> is what the wait reports.\<close>

fun only_wait_fails :: "kube_error \<Rightarrow> effect list \<Rightarrow> err" where
  "only_wait_fails e t = (case last t of WaitReady a \<Rightarrow> Some e | _ \<Rightarrow> None)"

definition create_failure :: "worker_ctx \<Rightarrow> kube_error" where
  "create_failure c = (if wc_OnStatefulSetCreateFailureAction c = ''abort'' then ErrAbort
     else if wc_OnStatefulSetCreateFailureAction c = ''delete'' then ErrStop else ErrIgnore)"

lemma createStatefulSet_never_ready:
  assumes c: "endless c" and fails: "an_error (wc_answers c) = only_wait_fails e"
  shows "fst (run_state (createStatefulSet c a) s) = Some (create_failure c)"
proof -
  have nd: "\<not> done_at c t" for t using c by (simp add: endless_def done_at_def)
  have "fst (run_state (onStatefulSetCreateFailed c a) s1) = Some (create_failure c)" for s1
    by (simp add: onStatefulSetCreateFailed_def run_unless_done nd run_bind create_failure_def
        shouldContinueOnCreateFailed_def split: prod.split)
  then have "fst (run_state (c_createStatefulSet c sts a) s1) = Some (create_failure c)" for sts s1
    by (simp add: c_createStatefulSet_def run_unless_done nd run_bind fails)
  then show ?thesis
    by (simp add: createStatefulSet_def run_unless_done nd run_bind prod.case_eq_if)
qed

lemma deleteStatefulSet_never_ready:
  assumes c: "endless c" and fails: "an_error (wc_answers c) = only_wait_fails e"
  shows "\<exists>xs name. ws_trace (snd (run_state (deleteStatefulSet c a) s)) = ws_trace s @ xs @ [DeleteSTS name, WaitDeleted a]"
proof -
  have nd: "\<not> done_at c t" for t using c by (simp add: endless_def done_at_def)
  obtain zero where "ws_trace (snd (run_state (deleteStatefulSet c a) s)) = ws_trace s @
      [AskContext, GetSTS (fst (run_state (sts_name c a) s)), UpdateSTS zero, WaitReady a]
      @ [DeleteSTS (fst (run_state (sts_name c a) s)), WaitDeleted a]"
    by (simp add: deleteStatefulSet_def run_unless_done nd run_bind sts_name_def fails Let_def)
  then show ?thesis by blast
qed

lemma recreateStatefulSet_never_ready:
  assumes c: "endless c" and fails: "an_error (wc_answers c) = only_wait_fails e"
    and run: "run_state (recreateStatefulSet c a) s = (e', s')"
  shows "e' = Some (create_failure c) \<and> (\<exists>name xs. ws_trace s' = ws_trace s @ xs \<and> DeleteSTS name \<in> set xs)"
proof -
  have nd: "\<not> done_at c t" for t using c by (simp add: endless_def done_at_def)
  obtain e1 s1 where r1: "run_state (deleteStatefulSet c a) (asked s) = (e1, s1)"
    by (cases "run_state (deleteStatefulSet c a) (asked s)")
  let ?prep = "do { reconcilePVCs c a;
    changes (\<lambda>s. s\<lparr>ws_StatefulSet := (ws_StatefulSet s)(a := ws_DesiredStatefulSet s a)\<rparr>) }"
  obtain u s2 where r2: "run_state ?prep s1 = (u, s2)" by (cases "run_state ?prep s1")
  have r3: "run_state (createStatefulSet c a) s2 = (e', s')"
    using run r1 r2 nd by (simp add: recreateStatefulSet_def run_unless_done run_bind split: prod.splits)
  from deleteStatefulSet_never_ready [OF c fails, of a "asked s"] obtain xs name
    where "ws_trace (snd (e1, s1)) = ws_trace (asked s) @ xs @ [DeleteSTS name, WaitDeleted a]" unfolding r1 by blast
  then have t1: "ws_trace s1 = ws_trace s @ AskContext # xs @ [DeleteSTS name, WaitDeleted a]" by simp
  have p: "issues (\<lambda>_. True) ?prep" unfolding reconcilePVCs_def by (intro issued) simp_all
  obtain t2 where t2: "ws_trace s2 = ws_trace s1 @ t2" using issuesE [OF p r2] .
  obtain t3 where t3: "ws_trace s' = ws_trace s2 @ t3" using issuesE [OF createStatefulSet_issues r3] .
  have "ws_trace s' = ws_trace s @ ((AskContext # xs @ [DeleteSTS name, WaitDeleted a]) @ t2 @ t3)"
    by (simp add: t1 t2 t3)
  moreover have "DeleteSTS name \<in> set ((AskContext # xs @ [DeleteSTS name, WaitDeleted a]) @ t2 @ t3)" by simp
  moreover have "e' = Some (create_failure c)"
    using createStatefulSet_never_ready [OF c fails, of a s2] r3 by simp
  ultimately show ?thesis by blast
qed

lemma c_updateStatefulSet_never_ready:
  assumes c: "endless c" and fails: "an_error (wc_answers c) = only_wait_fails e"
    and changed: "\<And>t. sts_Generation (an_object (wc_answers c) t) \<noteq> sts_Generation cur"
  shows "fst (run_state (c_updateStatefulSet c cur new a) s) \<noteq> None"
proof -
  have nd: "\<not> done_at c t" for t using c by (simp add: endless_def done_at_def)
  have "fst (run_state (onStatefulSetUpdateFailed c cur) s1) \<noteq> None" for s1
    by (simp add: onStatefulSetUpdateFailed_def run_unless_done nd run_bind fails shouldContinueOnUpdateFailed_def
        Let_def split: prod.split)
  then show ?thesis
    by (simp add: c_updateStatefulSet_def run_unless_done nd run_bind fails changed)
qed

lemma c_updateStatefulSet_issues: "issues (\<lambda>e. \<not> puts_ready_label e) (c_updateStatefulSet c old new a)"
  unfolding c_updateStatefulSet_def by (intro issued failure_issues; simp)

lemma updateStatefulSet_recreates:
  assumes c: "endless c" and fails: "an_error (wc_answers c) = only_wait_fails e"
    and changed: "\<And>t. sts_Generation (an_object (wc_answers c) t) \<noteq> sts_Generation cur"
  shows "\<exists>s1 xs. ws_trace s1 = ws_trace s @ xs
    \<and> run_state (updateStatefulSet c cur a) s = run_state (recreateStatefulSet c a) s1"
proof -
  have nd: "\<not> done_at c t" "\<not> an_done (wc_answers c) tr" for t tr using c by (simp_all add: endless_def done_at_def)
  let ?wait = "do { issue AskPropagation;
    must_wait \<leftarrow> reads (\<lambda>s. an_flag (wc_answers c) (ws_trace s));
    (if must_wait then do { issue WaitPropagation; reads (\<lambda>s. an_done (wc_answers c) (ws_trace s)) }
     else State_Monad.return False) }"
  obtain b s0 where w: "run_state ?wait (asked s) = (b, s0)" by (cases "run_state ?wait (asked s)")
  have i: "issues (\<lambda>_. True) ?wait" by (intro issued) simp_all
  obtain t0 where t0: "ws_trace s0 = ws_trace (asked s) @ t0" using issuesE [OF i w] .
  have b: "\<not> b" using w nd(2) by (auto simp: run_bind split: if_splits)
  obtain e1 s1 where u: "run_state (c_updateStatefulSet c cur (ws_StatefulSet s a) a) s0 = (e1, s1)"
    by (cases "run_state (c_updateStatefulSet c cur (ws_StatefulSet s a) a) s0")
  obtain t1 where t1: "ws_trace s1 = ws_trace s0 @ t1" using issuesE [OF c_updateStatefulSet_issues u] .
  obtain x where e1: "e1 = Some x"
    using c_updateStatefulSet_never_ready [OF c fails changed, of "ws_StatefulSet s a" a s0] u by auto
  have "run_state (updateStatefulSet c cur a) s
      = run_state (recreateStatefulSet c a) (if IsStatefulSetReady (Some cur) then s1 else s0)"
    using w u b by (simp add: updateStatefulSet_def run_unless_done nd(1) run_bind e1 split: prod.splits)
  moreover have "\<exists>xs. ws_trace (if IsStatefulSetReady (Some cur) then s1 else s0) = ws_trace s @ xs"
    using t0 t1 by simp
  ultimately show ?thesis by blast
qed

text \<open> C24: what the operator makes of a StatefulSet that the cluster accepts and that never becomes ready.
  A creation reports an error under every failure policy, the policy \<open>ignore\<close> included, so the walk over the
  hosts stops there. An update does not end with the policy for updates either: whatever that policy is, and
  after its handler ran, the StatefulSet is deleted and created again, and the result is that of the creation.
  The update handler is reached when the current StatefulSet is ready and the update changed its generation.\<close>
theorem failed_rollout:
  assumes c: "endless c" and fails: "an_error (wc_answers c) = only_wait_fails e"
    and changed: "\<And>t. sts_Generation (an_object (wc_answers c) t) \<noteq> sts_Generation cur"
  shows "fst (run_state (createStatefulSet c a) s) = Some (create_failure c)
    \<and> run_state (walk_till_error (createStatefulSet c) (a # more_hosts)) s = run_state (createStatefulSet c a) s
    \<and> fst (run_state (updateStatefulSet c cur a) s) = Some (create_failure c)
    \<and> (\<exists>name. DeleteSTS name \<in> set (new_calls s (snd (run_state (updateStatefulSet c cur a) s))))"
proof -
  have create: "fst (run_state (createStatefulSet c a) s) = Some (create_failure c)"
    by (rule createStatefulSet_never_ready [OF c fails])
  then have walk: "run_state (walk_till_error (createStatefulSet c) (a # more_hosts)) s
      = run_state (createStatefulSet c a) s"
    by (simp add: run_bind prod.case_eq_if prod_eq_iff)
  obtain s1 xs where s1: "ws_trace s1 = ws_trace s @ xs"
    "run_state (updateStatefulSet c cur a) s = run_state (recreateStatefulSet c a) s1"
    using updateStatefulSet_recreates [OF c fails changed] by blast
  obtain e' s' where r: "run_state (recreateStatefulSet c a) s1 = (e', s')"
    by (cases "run_state (recreateStatefulSet c a) s1")
  from recreateStatefulSet_never_ready [OF c fails r] obtain name ys
    where "e' = Some (create_failure c)" "ws_trace s' = ws_trace s1 @ ys" "DeleteSTS name \<in> set ys" by blast
  then have "e' = Some (create_failure c)" "DeleteSTS name \<in> set (new_calls s s')"
    using s1(1) by (simp_all add: new_calls_def)
  then show ?thesis using create walk s1(2) r by auto
qed

text \<open>The policies are \<open>ignore\<close> for creations and \<open>abort\<close> for updates; the cluster reports a new generation.\<close>

definition never_ready :: answers where
  "never_ready = unanswered\<lparr>an_error := only_wait_fails KubeError,
     an_object := (\<lambda>_. (versioned ''new'')\<lparr>sts_Generation := 2\<rparr>)\<rparr>"

theorem failed_rollout_witness:
  "let c = plain_operator never_ready [] plain_installation;
       (e, s') = run_state (updateStatefulSet c (versioned ''old'') 0) one_host_worker
   in e = Some ErrIgnore \<and> (\<exists>name. DeleteSTS name \<in> set (ws_trace s'))
     \<and> run_state (walk_till_error (createStatefulSet c) [0, 1, 2]) one_host_worker
       = run_state (createStatefulSet c 0) one_host_worker"
proof -
  let ?c = "plain_operator never_ready [] plain_installation"
  have "endless ?c" "an_error (wc_answers ?c) = only_wait_fails KubeError"
    "\<And>t. sts_Generation (an_object (wc_answers ?c) t) \<noteq> sts_Generation (versioned ''old'')"
    by (simp_all add: endless_def never_ready_def unanswered_def)
  note w = failed_rollout [OF this, of 0 one_host_worker "[1, 2]"]
  have "create_failure ?c = ErrIgnore" by (simp add: create_failure_def)
  moreover have "new_calls one_host_worker s' = ws_trace s'" for s' by (simp add: new_calls_def one_host_worker_def)
  ultimately show ?thesis using w by (auto simp del: walk_till_error.simps simp: prod.case_eq_if)
qed

end
