(* ===== verification/Claims.thy ===== *)
theory Claims
  imports Reconcile
begin

text \<open>
  The volume claims of a host as the controller meets them: reconciling each claim a StatefulSet mounts
  (\<open>reconcilePVCs\<close>, \<open>reconcilePVC\<close> of \<open>worker.go\<close>, \<open>updatePersistentVolumeClaim\<close> of \<open>creator.go\<close>) with the
  panic of a missing claim, and what deleting a host does to claims that are to be retained.
\<close>

section \<open>Reconciling claims\<close>

text \<open>What the labels, the version label and the intersection of resource names are computed with.\<close>

record claim_ctx =
  cc_labeler :: labeler
  cc_fingerprints :: host_fingerprints
  cc_fingerprint :: "PersistentVolumeClaim \<Rightarrow> string"
  cc_intersect :: "string list \<Rightarrow> string list \<Rightarrow> string list"

definition obtained_claim :: "worker_ctx \<Rightarrow> PersistentVolumeClaim work" where
  "obtained_claim c = reads (\<lambda>s. an_claim (wc_answers c) (ws_trace s))"

definition requested_storage :: "PersistentVolumeClaim \<Rightarrow> int" where
  "requested_storage pvc = (case gget (pvc_Requests pvc) ''storage'' of None \<Rightarrow> 0 | Some q \<Rightarrow> q)"

definition str_contains :: "string \<Rightarrow> string \<Rightarrow> bool" where
  "str_contains s part = list_ex (\<lambda>i. take (length part) (drop i s) = part) [0..<Suc (length s)]"

text \<open>Resizing is waited for with one provisioner only; the wait is a bounded number of reads.\<close>

definition waitUpdatePersistentVolumeClaimSuccess :: "worker_ctx \<Rightarrow> string \<Rightarrow> unit work" where
  "waitUpdatePersistentVolumeClaimSuccess c name = do {
     got \<leftarrow> call c (GetPVC name);
     cur \<leftarrow> obtained_claim c;
     (case gget (om_Annotations (pvc_Meta cur)) ''volume.beta.kubernetes.io/storage-provisioner'' of
        None \<Rightarrow> skip
      | Some provisioner \<Rightarrow> if got = None \<and> str_contains provisioner ''qingcloud'' then issue (WaitResize name) else skip) }"

definition updatePersistentVolumeClaim ::
    "worker_ctx \<Rightarrow> PersistentVolumeClaim \<Rightarrow> (PersistentVolumeClaim option \<times> err) work" where
  "updatePersistentVolumeClaim c pvc = unless_done c (None, Some KubeError) (do {
     getErr \<leftarrow> call c (GetPVC (om_Name (pvc_Meta pvc)));
     old \<leftarrow> obtained_claim c;
     e \<leftarrow> call c (UpdatePVC pvc);
     (if e = None \<and> getErr = None \<and> requested_storage old < requested_storage pvc
      then waitUpdatePersistentVolumeClaimSuccess c (om_Name (pvc_Meta pvc)) else skip);
     State_Monad.return (Some pvc, e) })"

definition reconcilePVC ::
    "worker_ctx \<Rightarrow> claim_ctx \<Rightarrow> PersistentVolumeClaim \<Rightarrow> ChiHost \<Rightarrow> ChiVolumeClaimTemplate
      \<Rightarrow> (PersistentVolumeClaim option \<times> err) work" where
  "reconcilePVC c cc pvc host template = unless_done c (None, Some KubeError) (
     let pvc = PreparePersistentVolumeClaim (cc_labeler cc) (cc_fingerprints cc) (cc_fingerprint cc) host template pvc;
         pvc = applyPVCResourcesRequests (cc_intersect cc) template pvc
     in updatePersistentVolumeClaim c pvc)"

text \<open>Both branches after \<open>reconcilePVC\<close> read the claim it returned, which is nil when the context was done.\<close>

definition reconcile_mount :: "worker_ctx \<Rightarrow> claim_ctx \<Rightarrow> nat \<Rightarrow> string \<Rightarrow> unit go work" where
  "reconcile_mount c cc a volumeMount = unless_done c (Inr ()) (do {
     host \<leftarrow> reads (host_at a);
     let templates = sp_Templates (in_Spec (wc_chi c));
     (case GetVolumeClaimTemplate templates volumeMount of
        None \<Rightarrow> State_Monad.return (Inr ())
      | Some template \<Rightarrow> do {
          got \<leftarrow> call c (GetPVC (CreatePVCName (wc_sha1 c) templates host template));
          cur \<leftarrow> obtained_claim c;
          if got \<noteq> None then State_Monad.return (Inr ())
          else do {
            (pvc, e) \<leftarrow> reconcilePVC c cc cur host template;
            (case pvc of
               None \<Rightarrow> State_Monad.return (Inl NilDereference)
             | Some p \<Rightarrow> do { register PVC (pvc_Meta p) e; State_Monad.return (Inr ()) }) } }) })"

fun reconcile_mounts :: "worker_ctx \<Rightarrow> claim_ctx \<Rightarrow> nat \<Rightarrow> string list \<Rightarrow> unit go work" where
  "reconcile_mounts c cc a [] = State_Monad.return (Inr ())"
| "reconcile_mounts c cc a (m # ms) = do {
     r \<leftarrow> reconcile_mount c cc a m;
     (case r of Inl p \<Rightarrow> State_Monad.return (Inl p) | Inr _ \<Rightarrow> reconcile_mounts c cc a ms) }"

definition worker_reconcilePVCs :: "worker_ctx \<Rightarrow> claim_ctx \<Rightarrow> nat \<Rightarrow> err go work" where
  "worker_reconcilePVCs c cc a = unless_done c (Inr None) (do {
     mounts \<leftarrow> reads (\<lambda>s. WalkVolumeMounts (Some (ws_StatefulSet s a)));
     r \<leftarrow> reconcile_mounts c cc a mounts;
     State_Monad.return (case r of Inl p \<Rightarrow> Inl p | Inr _ \<Rightarrow> Inr None) })"

section \<open>Which claims are deleted with a host\<close>

definition claim_may_go :: "worker_ctx \<Rightarrow> ChiHost \<Rightarrow> StatefulSet \<Rightarrow> effect \<Rightarrow> bool" where
  "claim_may_go c host sts e = (case e of
     DeletePVC n \<Rightarrow> HostCanDeletePVC (wc_sha1 c) (sp_Templates (in_Spec (wc_chi c))) host (Some sts) n
   | _ \<Rightarrow> True)"

lemma not_endless: "done_at c s \<Longrightarrow> \<not> endless c"
  by (auto simp: endless_def done_at_def)

lemma deletePVC_run:
  assumes "run_state (deletePVC c a) s = (e, s')"
  shows "\<exists>tr. s' = s\<lparr>ws_trace := ws_trace s @ tr\<rparr>
    \<and> list_all (claim_may_go c (host_at a s) (ws_StatefulSet s a)) tr
    \<and> (endless c \<longrightarrow> (\<forall>pvcs pvc. an_claims (wc_answers c) (ws_trace s @ [AskContext, ListPVCs a]) = Some pvcs
        \<and> pvc \<in> set pvcs \<and> claim_may_go c (host_at a s) (ws_StatefulSet s a) (DeletePVC (om_Name (pvc_Meta pvc)))
        \<longrightarrow> DeletePVC (om_Name (pvc_Meta pvc)) \<in> set tr))
    \<and> (endless c \<longrightarrow> (\<exists>t. tr = AskContext # ListPVCs a # t))"
proof -
  let ?can = "\<lambda>s pvc. HostCanDeletePVC (wc_sha1 c) (sp_Templates (in_Spec (wc_chi c))) (host_at a s)
                  (Some (ws_StatefulSet s a)) (om_Name (pvc_Meta pvc))"
  let ?one = "\<lambda>pvc. unless_done c () (do {
         can \<leftarrow> reads (\<lambda>s. ?can s pvc);
         if can then issue (DeletePVC (om_Name (pvc_Meta pvc))) else skip })"
  have loop: "\<exists>tr. snd (run_state (for_each ?one pvcs) t) = t\<lparr>ws_trace := ws_trace t @ tr\<rparr>
      \<and> list_all (claim_may_go c (host_at a t) (ws_StatefulSet t a)) tr
      \<and> (endless c \<longrightarrow> (\<forall>pvc \<in> set pvcs. ?can t pvc \<longrightarrow> DeletePVC (om_Name (pvc_Meta pvc)) \<in> set tr))" for pvcs t
  proof (induction pvcs arbitrary: t)
    case Nil
    then show ?case by (intro exI [of _ "[]"]) simp
  next
    case (Cons pvc pvcs)
    define t1 where "t1 = snd (run_state (?one pvc) t)"
    have "\<exists>tr. t1 = t\<lparr>ws_trace := ws_trace t @ tr\<rparr> \<and> list_all (claim_may_go c (host_at a t) (ws_StatefulSet t a)) tr
        \<and> (endless c \<longrightarrow> ?can t pvc \<longrightarrow> DeletePVC (om_Name (pvc_Meta pvc)) \<in> set tr)"
    proof (cases "done_at c (asked t)")
      case True
      then have "t1 = asked t" by (simp add: t1_def run_unless_done)
      then show ?thesis using True
        by (intro exI [of _ "[AskContext]"]) (simp add: claim_may_go_def not_endless)
    next
      case False
      then have "t1 = t\<lparr>ws_trace := ws_trace t @ [AskContext] @ (if ?can t pvc then [DeletePVC (om_Name (pvc_Meta pvc))] else [])\<rparr>"
        by (simp add: t1_def run_unless_done run_bind)
      then show ?thesis by (intro exI conjI) (auto simp: claim_may_go_def)
    qed
    then obtain r1 where r1: "t1 = t\<lparr>ws_trace := ws_trace t @ r1\<rparr>"
      "list_all (claim_may_go c (host_at a t) (ws_StatefulSet t a)) r1"
      "endless c \<longrightarrow> ?can t pvc \<longrightarrow> DeletePVC (om_Name (pvc_Meta pvc)) \<in> set r1" by blast
    have run: "snd (run_state (for_each ?one (pvc # pvcs)) t) = snd (run_state (for_each ?one pvcs) t1)"
      by (simp add: run_bind t1_def case_prod_beta)
    obtain r2 where "snd (run_state (for_each ?one pvcs) t1) = t1\<lparr>ws_trace := ws_trace t1 @ r2\<rparr>"
      "list_all (claim_may_go c (host_at a t) (ws_StatefulSet t a)) r2"
      "endless c \<longrightarrow> (\<forall>pvc \<in> set pvcs. ?can t pvc \<longrightarrow> DeletePVC (om_Name (pvc_Meta pvc)) \<in> set r2)"
      using Cons.IH [of t1] r1(1) by auto
    then show ?case using r1 unfolding run by (intro exI [of _ "r1 @ r2"]) auto
  qed
  show ?thesis
  proof (cases "done_at c (asked s)")
    case True
    then have "s' = asked s" using assms by (simp add: deletePVC_def run_unless_done)
    then show ?thesis using True
      by (intro exI [of _ "[AskContext]"]) (simp add: claim_may_go_def not_endless)
  next
    case False
    let ?s = "s\<lparr>ws_trace := ws_trace s @ [AskContext, ListPVCs a]\<rparr>"
    let ?pvcs = "case an_claims (wc_answers c) (ws_trace ?s) of None \<Rightarrow> [] | Some pvcs \<Rightarrow> pvcs"
    have "s' = snd (run_state (for_each ?one ?pvcs) ?s)"
      using assms False by (simp add: deletePVC_def run_unless_done run_bind case_prod_beta)
    moreover obtain tr where "snd (run_state (for_each ?one ?pvcs) ?s) = ?s\<lparr>ws_trace := ws_trace ?s @ tr\<rparr>"
      "list_all (claim_may_go c (host_at a ?s) (ws_StatefulSet ?s a)) tr"
      "endless c \<longrightarrow> (\<forall>pvc \<in> set ?pvcs. ?can ?s pvc \<longrightarrow> DeletePVC (om_Name (pvc_Meta pvc)) \<in> set tr)"
      using loop by blast
    ultimately show ?thesis
      by (intro exI [of _ "[AskContext, ListPVCs a] @ tr"]) (auto simp: claim_may_go_def)
  qed
qed

lemma kept_if_retained:
  assumes "list_all (\<lambda>m. made_from sha1 templates host n m \<in> {None, Some PVCReclaimPolicyRetain}) (sts_VolumeMounts sts)
    \<and> list_ex (\<lambda>m. made_from sha1 templates host n m \<noteq> None) (sts_VolumeMounts sts)"
  shows "\<not> HostCanDeletePVC sha1 templates host (Some sts) n"
proof -
  let ?ps = "List.map_filter (made_from sha1 templates host n) (sts_VolumeMounts sts)"
  have "set ?ps \<subseteq> {PVCReclaimPolicyRetain}" using assms by (auto simp: list_all_iff List.map_filter_def)
  moreover have "set ?ps \<noteq> {}" using assms by (auto simp: list_ex_iff List.map_filter_def filter_empty_conv)
  ultimately show ?thesis
    by (cases "rev ?ps") (auto simp: HostCanDeletePVC_last WalkVolumeMounts_def PVCReclaimPolicyRetain_def
        PVCReclaimPolicyDelete_def dest: arg_cong [of _ _ set])
qed

lemma claim_may_go_replicas [simp]: "claim_may_go c host (sts\<lparr>sts_Replicas := r\<rparr>) = claim_may_go c host sts"
  by (simp add: claim_may_go_def fun_eq_iff HostCanDeletePVC_def WalkVolumeMounts_def split: effect.split)

definition deletes_no_claim :: "effect \<Rightarrow> bool" where
  "deletes_no_claim e = (case e of DeletePVC n \<Rightarrow> False | _ \<Rightarrow> True)"

lemma no_claim_may_go: "list_all deletes_no_claim tr \<Longrightarrow> list_all (claim_may_go c host sts) tr"
  by (induction tr) (auto simp: deletes_no_claim_def claim_may_go_def split: effect.splits)

definition read_sts :: "worker_ctx \<Rightarrow> nat \<Rightarrow> worker_state \<Rightarrow> StatefulSet" where
  "read_sts c a s = (let t = ws_trace s @ [AskContext, GetSTS (fst (run_state (sts_name c a) s))]
     in if an_error (wc_answers c) t = None then an_object (wc_answers c) t else ws_StatefulSet s a)"

lemma deleteStatefulSet_claims:
  assumes "endless c" "run_state (deleteStatefulSet c a) s = (e, s')"
  shows "ws_store s' = ws_store s \<and> claim_may_go c h (ws_StatefulSet s' a) = claim_may_go c h (read_sts c a s)
    \<and> (\<exists>tr. ws_trace s' = ws_trace s @ tr \<and> list_all deletes_no_claim tr)"
proof -
  have nd: "\<not> done_at c t" for t using assms(1) by (auto dest: not_endless)
  have "issues deletes_no_claim (deleteStatefulSet c a)"
    unfolding deleteStatefulSet_def sts_name_def Let_def by (intro issued) (simp_all add: deletes_no_claim_def)
  then have "\<exists>tr. ws_trace s' = ws_trace s @ tr \<and> list_all deletes_no_claim tr"
    using issuesE [OF _ assms(2)] by metis
  moreover have "ws_store s' = ws_store s \<and> claim_may_go c h (ws_StatefulSet s' a) = claim_may_go c h (read_sts c a s)"
    using assms(2)
    by (auto simp: deleteStatefulSet_def run_unless_done nd run_bind sts_name_def read_sts_def Let_def split: if_splits)
  ultimately show ?thesis by blast
qed


text \<open>A host whose only claim is to be retained: kept when the StatefulSet was read, deleted when it was not.\<close>

definition retaining :: ChiVolumeClaimTemplate where
  "retaining = \<lparr>vt_Name = ''data'', vt_PVCReclaimPolicy = PVCReclaimPolicyRetain, vt_ObjectMeta = object_named ''data'',
     vt_Requests = []\<rparr>"

definition retaining_templates :: "ChiTemplates option" where
  "retaining_templates = Some (NewChiTemplates\<lparr>tps_VolumeClaimTemplates := [retaining],
     tps_VolumeClaimTemplatesIndex := Some [(''data'', 0)]\<rparr>)"

definition retaining_installation :: Installation where
  "retaining_installation = plain_installation\<lparr>in_Spec := newChiSpec\<lparr>sp_Templates := retaining_templates\<rparr>\<rparr>"

definition data_claim :: string where
  "data_claim = CreatePVCName (\<lambda>s. s) retaining_templates newChiHost retaining"

definition one_claim :: "err \<Rightarrow> answers" where
  "one_claim e = unanswered\<lparr>an_error := (\<lambda>t. case last t of GetSTS n \<Rightarrow> e | _ \<Rightarrow> None),
     an_object := (\<lambda>_. (versioned ''old'')\<lparr>sts_VolumeMounts := [''data'']\<rparr>),
     an_claims := (\<lambda>_. Some [\<lparr>pvc_Meta = object_named data_claim, pvc_Requests = []\<rparr>])\<rparr>"


section \<open>When reconciling a claim panics\<close>

text \<open>The worker reads the metadata of a claim it did not get exactly when the claim exists, its template is
  known, and the context is found done by \<open>reconcilePVC\<close> or by \<open>updatePersistentVolumeClaim\<close> after it was
  still alive at the start of the mount.\<close>

lemma reconcile_mount_panics:
  "fst (run_state (reconcile_mount c cc a m) s) = Inl NilDereference \<longleftrightarrow>
    (case GetVolumeClaimTemplate (sp_Templates (in_Spec (wc_chi c))) m of
       None \<Rightarrow> False
     | Some template \<Rightarrow>
         let started = ws_trace s @ [AskContext];
             found = started @ [GetPVC (CreatePVCName (wc_sha1 c) (sp_Templates (in_Spec (wc_chi c))) (host_at a s) template)]
         in \<not> an_done (wc_answers c) started \<and> an_error (wc_answers c) found = None
            \<and> (an_done (wc_answers c) (found @ [AskContext]) \<or> an_done (wc_answers c) (found @ [AskContext, AskContext])))"
  by (auto simp: reconcile_mount_def reconcilePVC_def updatePersistentVolumeClaim_def run_unless_done run_bind
      done_at_def obtained_claim_def Let_def split: option.splits prod.splits if_splits)

lemma reconcile_mount_alive: "endless c \<Longrightarrow> fst (run_state (reconcile_mount c cc a m) s) = Inr ()"
  by (auto simp: reconcile_mount_def reconcilePVC_def updatePersistentVolumeClaim_def run_unless_done run_bind
      not_endless obtained_claim_def Let_def dest: not_endless split: option.splits prod.splits if_splits)

lemma reconcile_mounts_alive: "endless c \<Longrightarrow> fst (run_state (reconcile_mounts c cc a ms) s) = Inr ()"
proof (induction ms arbitrary: s)
  case (Cons m ms)
  obtain r t where r: "run_state (reconcile_mount c cc a m) s = (r, t)" by (cases "run_state (reconcile_mount c cc a m) s")
  then have "r = Inr ()" using reconcile_mount_alive [OF Cons.prems, of cc a m s] by simp
  then show ?case using Cons r by (simp add: run_bind)
qed simp

text \<open> C31: when reconciling the claims of a host panics. While the context lasts it never does, whatever the API
  server answers. For one mount, the worker dereferences the nil claim exactly when the template is known, the
  context is alive at the start, the claim is read without an error, and the context is found done at one of the
  two next looks.\<close>
theorem reconcilePVCs_panics:
  "(endless c \<longrightarrow> fst (run_state (worker_reconcilePVCs c cc a) s) = Inr None)
   \<and> (fst (run_state (reconcile_mount c cc a m) s) = Inl NilDereference \<longleftrightarrow>
      (case GetVolumeClaimTemplate (sp_Templates (in_Spec (wc_chi c))) m of
         None \<Rightarrow> False
       | Some template \<Rightarrow>
           let started = ws_trace s @ [AskContext];
               found = started @ [GetPVC (CreatePVCName (wc_sha1 c) (sp_Templates (in_Spec (wc_chi c))) (host_at a s) template)]
           in \<not> an_done (wc_answers c) started \<and> an_error (wc_answers c) found = None
              \<and> (an_done (wc_answers c) (found @ [AskContext]) \<or> an_done (wc_answers c) (found @ [AskContext, AskContext]))))"
proof (intro conjI impI)
  assume c: "endless c"
  then have "\<not> done_at c t" for t by (auto dest: not_endless)
  moreover have "fst (run_state (reconcile_mounts c cc a ms) t) = Inr ()" for ms t by (rule reconcile_mounts_alive [OF c])
  ultimately show "fst (run_state (worker_reconcilePVCs c cc a) s) = Inr None"
    by (simp add: worker_reconcilePVCs_def run_unless_done run_bind case_prod_beta)
qed (rule reconcile_mount_panics)

text \<open>A context that ends while the claim of the only mount is read.\<close>

definition ends_early :: answers where
  "ends_early = (one_claim None)\<lparr>an_done := (\<lambda>t. 3 \<le> length t)\<rparr>"

definition plain_claims :: claim_ctx where
  "plain_claims = \<lparr>cc_labeler = plain_labeler [], cc_fingerprints = \<lparr>hp_Zookeeper = '''', hp_Settings = '''', hp_Files = ''''\<rparr>,
     cc_fingerprint = (\<lambda>_. ''''), cc_intersect = (\<lambda>xs ys. filter (\<lambda>x. x \<in> set ys) xs)\<rparr>"

theorem reconcilePVCs_panics_witness:
  "fst (run_state (reconcile_mount (plain_operator ends_early [] retaining_installation) plain_claims 0 ''data'') one_host_worker)
     = Inl NilDereference
   \<and> fst (run_state (worker_reconcilePVCs (plain_operator unanswered [] retaining_installation) plain_claims 0) one_host_worker)
     = Inr None"
proof -
  have "GetVolumeClaimTemplate retaining_templates ''data'' = Some retaining"
    by (simp add: GetVolumeClaimTemplate_def retaining_templates_def indexed_def Index_Get_def Index_Has_def ghas_def)
  moreover have "sp_Templates (in_Spec retaining_installation) = retaining_templates"
    by (simp add: retaining_installation_def)
  moreover have "endless (plain_operator unanswered [] retaining_installation)" by (simp add: endless_def unanswered_def)
  ultimately show ?thesis
    using reconcilePVCs_panics [of "plain_operator ends_early [] retaining_installation" plain_claims 0 one_host_worker "''data''"]
      reconcilePVCs_panics [of "plain_operator unanswered [] retaining_installation" plain_claims 0 one_host_worker "''data''"]
    by (simp add: Let_def ends_early_def one_claim_def one_host_worker_def)
qed

end
