(* ===== verification/Status.thy ===== *)
theory Status
  imports Claims
begin

text \<open>
  The status of an installation (\<open>type_status.go\<close> of the API): the marks the worker sets as a
  reconcile or a deletion proceeds, the bounded histories of actions, errors and tasks, and the type invariant
  that every mark keeps.
\<close>

section \<open>Marks\<close>

definition StatusCreating :: string where "StatusCreating = ''Creating''"
definition StatusInProgress :: string where "StatusInProgress = ''InProgress''"
definition StatusCompleted :: string where "StatusCompleted = ''Completed''"
definition StatusRunning :: string where "StatusRunning = ''Running''"
definition StatusCreateFailed :: string where "StatusCreateFailed = ''CreateFailed''"
definition StatusUpdateFailed :: string where "StatusUpdateFailed = ''UpdateFailed''"
definition StatusTerminating :: string where "StatusTerminating = ''Terminating''"

lemmas status_names = StatusCreating_def StatusInProgress_def StatusCompleted_def StatusRunning_def
  StatusCreateFailed_def StatusUpdateFailed_def StatusTerminating_def

definition maxActions :: nat where "maxActions = 100"
definition maxErrors :: nat where "maxErrors = 100"
definition maxTaskIDs :: nat where "maxTaskIDs = 100"

definition push :: "nat \<Rightarrow> string \<Rightarrow> string list \<Rightarrow> string list" where
  "push n item history = (let items = item # history in if length items > n then take n items else items)"

definition PushAction :: "string \<Rightarrow> ChiStatus \<Rightarrow> ChiStatus" where
  "PushAction action s = s\<lparr>cs_Actions := push maxActions action (cs_Actions s)\<rparr>"

definition SetAndPushError :: "string \<Rightarrow> ChiStatus \<Rightarrow> ChiStatus" where
  "SetAndPushError error s = s\<lparr>cs_Error := error, cs_Errors := push maxErrors error (cs_Errors s)\<rparr>"

definition PushTaskIDStarted :: "ChiStatus \<Rightarrow> ChiStatus" where
  "PushTaskIDStarted s = s\<lparr>cs_TaskIDsStarted := push maxTaskIDs (cs_TaskID s) (cs_TaskIDsStarted s)\<rparr>"

definition PushTaskIDCompleted :: "ChiStatus \<Rightarrow> ChiStatus" where
  "PushTaskIDCompleted s = s\<lparr>cs_TaskIDsCompleted := push maxTaskIDs (cs_TaskID s) (cs_TaskIDsCompleted s)\<rparr>"

definition ReconcileUpdateStart :: "int \<Rightarrow> ChiStatus \<Rightarrow> ChiStatus" where
  "ReconcileUpdateStart DeleteHostsCount s = PushTaskIDStarted (s\<lparr>cs_Status := StatusInProgress,
     cs_UpdatedHostsCount := 0, cs_AddedHostsCount := 0, cs_DeletedHostsCount := 0,
     cs_DeleteHostsCount := DeleteHostsCount\<rparr>)"

definition ReconcileCreateStart :: "int \<Rightarrow> ChiStatus \<Rightarrow> ChiStatus" where
  "ReconcileCreateStart DeleteHostsCount s = PushTaskIDStarted (s\<lparr>cs_Status := StatusCreating,
     cs_UpdatedHostsCount := 0, cs_AddedHostsCount := 0, cs_DeletedHostsCount := 0,
     cs_DeleteHostsCount := DeleteHostsCount\<rparr>)"

definition ReconcileComplete :: "ChiStatus \<Rightarrow> ChiStatus" where
  "ReconcileComplete s = PushTaskIDCompleted (s\<lparr>cs_Status := StatusCompleted, cs_Action := ''''\<rparr>)"

definition Running :: "ChiStatus \<Rightarrow> ChiStatus" where
  "Running s = s\<lparr>cs_Status := StatusRunning, cs_Action := ''''\<rparr>"

definition ReconcileCreateFailed :: "ChiStatus \<Rightarrow> ChiStatus" where
  "ReconcileCreateFailed s = s\<lparr>cs_Status := StatusCreateFailed\<rparr>"

definition ReconcileUpdateFailed :: "ChiStatus \<Rightarrow> ChiStatus" where
  "ReconcileUpdateFailed s = s\<lparr>cs_Status := StatusUpdateFailed\<rparr>"

definition DeleteStart :: "ChiStatus \<Rightarrow> ChiStatus" where
  "DeleteStart s = PushTaskIDStarted (s\<lparr>cs_Status := StatusTerminating,
     cs_UpdatedHostsCount := 0, cs_AddedHostsCount := 0, cs_DeletedHostsCount := 0, cs_DeleteHostsCount := 0\<rparr>)"

lemmas status_marks = PushAction_def SetAndPushError_def PushTaskIDStarted_def PushTaskIDCompleted_def
  ReconcileUpdateStart_def ReconcileCreateStart_def ReconcileComplete_def Running_def ReconcileCreateFailed_def
  ReconcileUpdateFailed_def DeleteStart_def

section \<open>The type of a status\<close>

definition known_statuses :: "string list" where
  "known_statuses = ['''', StatusCreating, StatusInProgress, StatusCompleted, StatusRunning, StatusCreateFailed,
     StatusUpdateFailed, StatusTerminating]"

definition status_ok :: "ChiStatus \<Rightarrow> bool" where
  "status_ok s = (cs_Status s \<in> set known_statuses
     \<and> length (cs_Actions s) \<le> maxActions \<and> length (cs_Errors s) \<le> maxErrors
     \<and> length (cs_TaskIDsStarted s) \<le> maxTaskIDs \<and> length (cs_TaskIDsCompleted s) \<le> maxTaskIDs
     \<and> 0 \<le> cs_UpdatedHostsCount s \<and> 0 \<le> cs_AddedHostsCount s \<and> 0 \<le> cs_DeletedHostsCount s
     \<and> 0 \<le> cs_DeleteHostsCount s)"

lemma push_take: "push n item history = take n (item # history)"
  by (simp add: push_def Let_def)

lemma push_length: "length (push n item history) \<le> n"
  by (simp add: push_take)

lemma push_recent: "n \<noteq> 0 \<Longrightarrow> hd (push n item history) = item"
  by (cases n) (simp_all add: push_take)

lemma known_simps [simp]:
  "StatusCreating \<in> set known_statuses" "StatusInProgress \<in> set known_statuses"
  "StatusCompleted \<in> set known_statuses" "StatusRunning \<in> set known_statuses"
  "StatusCreateFailed \<in> set known_statuses" "StatusUpdateFailed \<in> set known_statuses"
  "StatusTerminating \<in> set known_statuses"
  by (simp_all add: known_statuses_def)

lemma status_ok_marks:
  assumes "status_ok s"
  shows "status_ok (PushAction a s)" "status_ok (SetAndPushError a s)"
    "0 \<le> n \<Longrightarrow> status_ok (ReconcileUpdateStart n s)" "0 \<le> n \<Longrightarrow> status_ok (ReconcileCreateStart n s)"
    "status_ok (ReconcileComplete s)" "status_ok (Running s)" "status_ok (ReconcileCreateFailed s)"
    "status_ok (ReconcileUpdateFailed s)" "status_ok (DeleteStart s)"
  using assms by (simp_all add: status_ok_def status_marks push_length)

text \<open>What the operator does to a status: the marks, counting a host, and a new task.\<close>

inductive status_step :: "ChiStatus \<Rightarrow> ChiStatus \<Rightarrow> bool" where
  action: "status_step s (PushAction a s)"
| error: "status_step s (SetAndPushError a s)"
| start_update: "0 \<le> n \<Longrightarrow> status_step s (ReconcileUpdateStart n s)"
| start_create: "0 \<le> n \<Longrightarrow> status_step s (ReconcileCreateStart n s)"
| complete: "status_step s (ReconcileComplete s)"
| running: "status_step s (Running s)"
| failed_create: "status_step s (ReconcileCreateFailed s)"
| failed_update: "status_step s (ReconcileUpdateFailed s)"
| deleting: "status_step s (DeleteStart s)"
| updated: "status_step s (s\<lparr>cs_UpdatedHostsCount := cs_UpdatedHostsCount s + 1\<rparr>)"
| added: "status_step s (s\<lparr>cs_AddedHostsCount := cs_AddedHostsCount s + 1\<rparr>)"
| deleted: "status_step s (s\<lparr>cs_DeletedHostsCount := cs_DeletedHostsCount s + 1\<rparr>)"
| task: "status_step s (s\<lparr>cs_TaskID := taskID\<rparr>)"

inductive_cases status_stepE: "status_step s s'"

lemma status_ok_counts:
  assumes "status_ok s"
  shows "status_ok (s\<lparr>cs_UpdatedHostsCount := cs_UpdatedHostsCount s + 1\<rparr>)"
    "status_ok (s\<lparr>cs_AddedHostsCount := cs_AddedHostsCount s + 1\<rparr>)"
    "status_ok (s\<lparr>cs_DeletedHostsCount := cs_DeletedHostsCount s + 1\<rparr>)"
    "status_ok (s\<lparr>cs_TaskID := taskID\<rparr>)"
  using assms by (simp_all add: status_ok_def)

lemma status_ok_step: "status_step s s' \<Longrightarrow> status_ok s \<Longrightarrow> status_ok s'"
  by (induction rule: status_step.induct) (simp_all add: status_ok_marks status_ok_counts)

lemma status_ok_steps: "status_step\<^sup>*\<^sup>* s s' \<Longrightarrow> status_ok s \<Longrightarrow> status_ok s'"
  by (induction rule: rtranclp_induct) (auto intro: status_ok_step)

end
