(* ===== verification/Lifecycle.thy ===== *)
theory Lifecycle
  imports Status
begin

text \<open>
  The life of an installation under the worker (\<open>worker.go\<close>, \<open>deleter.go\<close>, \<open>creator.go\<close> and
  \<open>controller.go\<close> of \<open>pkg/controller/chi\<close>): its finalizer, the ZooKeeper ensemble it may ask for, the deletion
  protocol, the clearing of what is left over, and \<open>updateCHI\<close>, which puts them together for one event.
\<close>

section \<open>Finalizers\<close>

definition FinalizerName :: string where
  "FinalizerName = ''finalizer.clickhouseinstallation.radondb.com''"

definition updateCHIObject :: "worker_ctx \<Rightarrow> effect \<Rightarrow> err work" where
  "updateCHIObject c write = unless_done c None (call c write)"

definition obtained_finalizers :: "worker_ctx \<Rightarrow> string list work" where
  "obtained_finalizers c = reads (\<lambda>s. an_finalizers (wc_answers c) (ws_trace s))"

definition installFinalizer :: "worker_ctx \<Rightarrow> err work" where
  "installFinalizer c = unless_done c None (do {
     got \<leftarrow> call c ReadCHI;
     finalizers \<leftarrow> obtained_finalizers c;
     if got \<noteq> None then State_Monad.return got
     else if InArray FinalizerName finalizers then State_Monad.return None
     else updateCHIObject c (WriteFinalizers (finalizers @ [FinalizerName])) })"

definition uninstallFinalizer :: "worker_ctx \<Rightarrow> err work" where
  "uninstallFinalizer c = unless_done c None (do {
     got \<leftarrow> call c ReadCHI;
     finalizers \<leftarrow> obtained_finalizers c;
     if got \<noteq> None then State_Monad.return got
     else updateCHIObject c (WriteFinalizers (RemoveFromArray FinalizerName finalizers)) })"

definition ensureFinalizer :: "worker_ctx \<Rightarrow> bool \<Rightarrow> string list \<Rightarrow> bool work" where
  "ensureFinalizer c deleting finalizers = unless_done c False (
     if deleting then State_Monad.return False
     else if InArray FinalizerName finalizers then State_Monad.return False
     else do {
       e \<leftarrow> installFinalizer c;
       State_Monad.return (e = None) })"

section \<open>Deleting an installation\<close>

definition deletePDB :: "worker_ctx \<Rightarrow> unit work" where
  "deletePDB c = issue (DeletePDB (om_Name (in_Meta (wc_chi c))))"

definition deleteServiceCHI :: "worker_ctx \<Rightarrow> err work" where
  "deleteServiceCHI c = unless_done c None (deleteServiceIfExists c
     (CreateCHIServiceName (wc_sha1 c) (in_Meta (wc_chi c)) (in_Spec (wc_chi c))))"

definition deleteServiceCluster :: "worker_ctx \<Rightarrow> ChiCluster \<Rightarrow> err work" where
  "deleteServiceCluster c cluster = unless_done c None (deleteServiceIfExists c
     (CreateClusterServiceName (wc_sha1 c) (sp_Templates (in_Spec (wc_chi c))) cluster))"

definition deleteServiceShard :: "worker_ctx \<Rightarrow> ChiShard \<Rightarrow> err work" where
  "deleteServiceShard c shard = unless_done c None (deleteServiceIfExists c
     (CreateShardServiceName (wc_sha1 c) (sp_Templates (in_Spec (wc_chi c))) shard))"

definition deleteTables :: "worker_ctx \<Rightarrow> nat \<Rightarrow> err work" where
  "deleteTables c a = unless_done c None (
     if \<not> CanDeleteAllPVCs (sp_Templates (in_Spec (wc_chi c))) then State_Monad.return None
     else call c (DropTables a))"

definition worker_deleteHost :: "worker_ctx \<Rightarrow> nat \<Rightarrow> err work" where
  "worker_deleteHost c a = unless_done c None (do {
     name \<leftarrow> sts_name c a;
     got \<leftarrow> call c (GetSTS name);
     if got \<noteq> None then State_Monad.return None
     else do {
       deleteTables c a;
       e \<leftarrow> deleteHost c a;
       changes (\<lambda>s. s\<lparr>ws_Status := (ws_Status s)\<lparr>cs_DeletedHostsCount := cs_DeletedHostsCount (ws_Status s) + 1\<rparr>\<rparr>);
       updateCHIObjectStatus c True;
       State_Monad.return e } })"

definition each_host :: "(nat \<Rightarrow> err work) \<Rightarrow> host_ptr list \<Rightarrow> unit work" where
  "each_host f hosts = for_each (\<lambda>host. case host of None \<Rightarrow> skip | Some a \<Rightarrow> do { f a; skip }) hosts"

definition deleteShard :: "worker_ctx \<Rightarrow> ChiShard \<Rightarrow> err work" where
  "deleteShard c shard = unless_done c None (do {
     deleteServiceShard c shard;
     each_host (worker_deleteHost c) (sh_Hosts shard);
     State_Monad.return None })"

definition deleteCluster :: "worker_ctx \<Rightarrow> ChiCluster \<Rightarrow> err work" where
  "deleteCluster c cluster = unless_done c None (do {
     deleteServiceCluster c cluster;
     for_each (\<lambda>shard. do { deleteShard c shard; skip }) (shards_of cluster);
     State_Monad.return None })"

text \<open>Each call overwrites the error of the one before.\<close>

definition deleteZooKeeper :: "worker_ctx \<Rightarrow> err work" where
  "deleteZooKeeper c = unless_done c None (do {
     let chi = in_Meta (wc_chi c);
     call c (DeleteSTS (CreateStatefulSetZooKeeperName (wc_sha1 c) chi));
     call c (DeletePDB (CreatePodDisruptionBudgetZooKeeperName (wc_sha1 c) chi));
     deleteServiceIfExists c (CreateStatefulSetServiceZooKeeperClientName (wc_sha1 c) chi);
     deleteServiceIfExists c (CreateStatefulSetServiceZooKeeperServerName (wc_sha1 c) chi) })"

definition deleteConfigMapsCHI :: "worker_ctx \<Rightarrow> err work" where
  "deleteConfigMapsCHI c = unless_done c None (do {
     let chi = in_Meta (wc_chi c);
     call c (DeleteConfigMap (CreateConfigMapCommonName (wc_sha1 c) chi));
     e \<leftarrow> call c (DeleteConfigMap (CreateConfigMapCommonUsersName (wc_sha1 c) chi));
     State_Monad.return (if e = Some KubeNotFound then None else e) })"

text \<open>An event about an installation: the versions and the metadata it carries, and what the normalizer makes of
  the old and the new installation (a missing old one is normalized as an empty one). Normalizing never fails.\<close>

record 'spec chi_event =
  ev_oldVersion :: "string option"
  ev_newVersion :: string
  ev_deleting :: bool
  ev_Finalizers :: "string list"
  ev_diff :: "'spec deep_diff"
  ev_old :: "'spec installation"
  ev_new :: "'spec installation"
  ev_oldClusters :: "ChiCluster list"
  ev_Status :: ChiStatus
  ev_hosts :: host_store

definition take_installation :: "'spec chi_event \<Rightarrow> unit work" where
  "take_installation ev = changes (\<lambda>s. s\<lparr>ws_store := ev_hosts ev, ws_Status := ev_Status ev\<rparr>)"

definition set_status :: "(ChiStatus \<Rightarrow> ChiStatus) \<Rightarrow> unit work" where
  "set_status f = changes (\<lambda>s. s\<lparr>ws_Status := f (ws_Status s)\<rparr>)"

definition deleteCHIProtocol :: "worker_ctx \<Rightarrow> 'spec chi_event \<Rightarrow> err work" where
  "deleteCHIProtocol c ev = unless_done c None (do {
     take_installation ev;
     set_status DeleteStart;
     e \<leftarrow> updateCHIObjectStatus c True;
     if e \<noteq> None then State_Monad.return None
     else do {
       deletePDB c;
       issue DeleteWatch;
       deleteServiceCHI c;
       each_host (\<lambda>a. call c (SyncTables a)) (chi_hosts (wc_clusters c));
       for_each (\<lambda>cluster. do { deleteCluster c cluster; skip }) (wc_clusters c);
       unless_done c None (do {
         deleteZooKeeper c;
         deleteConfigMapsCHI c;
         State_Monad.return None }) } })"

definition deleteCHI :: "worker_ctx \<Rightarrow> 'spec chi_event \<Rightarrow> bool work" where
  "deleteCHI c ev = unless_done c False (
     if \<not> ev_deleting ev then State_Monad.return False
     else do {
       got \<leftarrow> call c ReadCHI;
       if got \<noteq> None then State_Monad.return False
       else if \<not> InArray FinalizerName (ev_Finalizers ev) then State_Monad.return False
       else do {
         deleteCHIProtocol c ev;
         uninstallFinalizer c;
         State_Monad.return True } })"

section \<open>ZooKeeper\<close>

text \<open>What the creator makes for the ensemble, and the names of its pods.\<close>

record zk_objects =
  zo_StatefulSet :: StatefulSet
  zo_ServiceServer :: "ObjectMeta option"
  zo_ServiceClient :: "ObjectMeta option"
  zo_FQDN :: "int \<Rightarrow> string"

definition createPDB :: "worker_ctx \<Rightarrow> string \<Rightarrow> err work" where
  "createPDB c name = unless_done c None (call c (CreatePDB name))"

definition reconcilePDB :: "worker_ctx \<Rightarrow> string \<Rightarrow> err work" where
  "reconcilePDB c name = unless_done c None (do {
     got \<leftarrow> call c (GetPDB name);
     if got = None then State_Monad.return None
     else if got = Some KubeNotFound then createPDB c name
     else State_Monad.return got })"

definition reconcileChiPDB :: "worker_ctx \<Rightarrow> err work" where
  "reconcileChiPDB c = unless_done c None (reconcilePDB c (om_Name (in_Meta (wc_chi c))))"

definition reconcileZooKeeperServiceServer :: "worker_ctx \<Rightarrow> zk_objects \<Rightarrow> err work" where
  "reconcileZooKeeperServiceServer c zo = unless_done c None (reconcile_service c (zo_ServiceServer zo))"

definition reconcileZooKeeperServiceClient :: "worker_ctx \<Rightarrow> zk_objects \<Rightarrow> err work" where
  "reconcileZooKeeperServiceClient c zo = unless_done c None (reconcile_service c (zo_ServiceClient zo))"

definition reconcileZooKeeperPDB :: "worker_ctx \<Rightarrow> err work" where
  "reconcileZooKeeperPDB c = unless_done c None (
     reconcilePDB c (CreatePodDisruptionBudgetZooKeeperName (wc_sha1 c) (in_Meta (wc_chi c))))"

definition onStatefulSetZooKeeperCreateFailed :: "worker_ctx \<Rightarrow> err work" where
  "onStatefulSetZooKeeperCreateFailed c = unless_done c (Some ErrIgnore) (
     if wc_OnStatefulSetCreateFailureAction c = ''abort'' then State_Monad.return (Some ErrAbort)
     else if wc_OnStatefulSetCreateFailureAction c = ''delete'' then do {
       deleteZooKeeper c;
       State_Monad.return shouldContinueOnCreateFailed }
     else if wc_OnStatefulSetCreateFailureAction c = ''ignore'' then State_Monad.return (Some ErrIgnore)
     else State_Monad.return (Some ErrIgnore))"

definition c_createStatefulSetZooKeeper :: "worker_ctx \<Rightarrow> StatefulSet \<Rightarrow> err work" where
  "c_createStatefulSetZooKeeper c sts = unless_done c None (do {
     created \<leftarrow> call c (CreateSTS sts);
     if created \<noteq> None then State_Monad.return created
     else do {
       ready \<leftarrow> call c WaitZooKeeperReady;
       if ready = None then State_Monad.return None else onStatefulSetZooKeeperCreateFailed c } })"

definition createStatefulSetZooKeeper :: "worker_ctx \<Rightarrow> StatefulSet \<Rightarrow> err work" where
  "createStatefulSetZooKeeper c sts = unless_done c None (c_createStatefulSetZooKeeper c sts)"

text \<open>The claim of the \<open>i\<close>-th pod.\<close>

definition zk_claim :: "StatefulSet \<Rightarrow> int \<Rightarrow> ObjectMeta" where
  "zk_claim sts i = (sts_Meta sts)\<lparr>om_Name := ''data-'' @ om_Name (sts_Meta sts) @ ''-'' @ Itoa i\<rparr>"

definition register_zk :: "StatefulSet \<Rightarrow> int \<Rightarrow> err \<Rightarrow> unit work" where
  "register_zk sts replica e = do {
     register StatefulSet (sts_Meta sts) e;
     for_each (\<lambda>i. register PVC (zk_claim sts i) e) [0..replica - 1] }"

definition copy_slice :: "'a list \<Rightarrow> 'a list \<Rightarrow> 'a list" where
  "copy_slice dst src = take (length dst) src @ drop (length src) dst"

definition zk_nodes :: "ChiZookeeperConfig \<Rightarrow> (int \<Rightarrow> string) \<Rightarrow> ChiZookeeperNode list go" where
  "zk_nodes zk fqdn = (
     let replica = sint (zk_Replica zk);
         zooKeeperNode = map (\<lambda>i. \<lparr>zkn_Host = fqdn i, zkn_Port = zk_Port zk\<rparr>) [0..replica - 1]
     in go_bind (go_make replica \<lparr>zkn_Host = '''', zkn_Port = 0\<rparr>) (\<lambda>made. Inr (copy_slice made zooKeeperNode)))"

text \<open>The nodes are written into the normalized specification that the status carries; the normalizer leaves it
  out when the operator does not log verbosely, and then the write dereferences nil.\<close>

definition set_zk_nodes :: "ChiZookeeperConfig \<Rightarrow> (int \<Rightarrow> string) \<Rightarrow> ChiStatus \<Rightarrow> ChiStatus go" where
  "set_zk_nodes zk fqdn status = (case cs_NormalizedCHI status of
     None \<Rightarrow> Inl NilDereference
   | Some spec \<Rightarrow> (case sp_Configuration spec of
       None \<Rightarrow> Inl NilDereference
     | Some conf \<Rightarrow> (case cf_Zookeeper conf of
         None \<Rightarrow> Inl NilDereference
       | Some normalized \<Rightarrow> go_bind (zk_nodes zk fqdn) (\<lambda>nodes.
           Inr (status\<lparr>cs_NormalizedCHI := Some (spec\<lparr>sp_Configuration := Some (conf\<lparr>cf_Zookeeper :=
             Some (normalized\<lparr>zk_Nodes := nodes\<rparr>)\<rparr>)\<rparr>)\<rparr>)))))"

text \<open>The error of writing the status is the one returned, but the objects count as reconciled.\<close>

definition reconcileZooKeeperStatefulSet ::
    "worker_ctx \<Rightarrow> zk_objects \<Rightarrow> ChiZookeeperConfig \<Rightarrow> err go work" where
  "reconcileZooKeeperStatefulSet c zo zk = unless_done c (Inr None) (do {
     let statefulSet = zo_StatefulSet zo;
     got \<leftarrow> call c (GetSTS (om_Name (sts_Meta statefulSet)));
     if got = None then State_Monad.return (Inr None)
     else do {
       e \<leftarrow> (if got = Some KubeNotFound then createStatefulSetZooKeeper c statefulSet else State_Monad.return got);
       if e = None then do {
         status \<leftarrow> reads ws_Status;
         (case set_zk_nodes zk (zo_FQDN zo) status of
            Inl p \<Rightarrow> State_Monad.return (Inl p)
          | Inr status' \<Rightarrow> do {
              set_status (\<lambda>_. status');
              e \<leftarrow> updateCHIObjectStatus c False;
              register_zk statefulSet (sint (zk_Replica zk)) None;
              State_Monad.return (Inr e) }) }
       else do {
         register_zk statefulSet (sint (zk_Replica zk)) e;
         State_Monad.return (Inr e) } } })"

definition zookeeper_of :: "Installation \<Rightarrow> ChiZookeeperConfig option" where
  "zookeeper_of chi = Option.bind (sp_Configuration (in_Spec chi)) cf_Zookeeper"

definition reconcileZooKeeper :: "worker_ctx \<Rightarrow> zk_objects \<Rightarrow> err go work" where
  "reconcileZooKeeper c zo = unless_done c (Inr None) (case zookeeper_of (wc_chi c) of
     None \<Rightarrow> State_Monad.return (Inr None)
   | Some zk \<Rightarrow>
       if \<not> zk_Install zk \<or> length (zk_Nodes zk) > 0 then State_Monad.return (Inr None)
       else do {
         got \<leftarrow> call c (GetSTS (om_Name (sts_Meta (zo_StatefulSet zo))));
         if got = None then State_Monad.return (Inr None)
         else do {
           e \<leftarrow> and_then (reconcileZooKeeperServiceServer c zo)
                 (and_then (reconcileZooKeeperServiceClient c zo) (reconcileZooKeeperPDB c));
           if e \<noteq> None then State_Monad.return (Inr e)
           else reconcileZooKeeperStatefulSet c zo zk } })"

section \<open>Reconciling and clearing\<close>

text \<open>ZooKeeper comes first, so nothing has been walked yet when it panics.\<close>

definition reconcile :: "worker_ctx \<Rightarrow> zk_objects \<Rightarrow> err go work" where
  "reconcile c zo = unless_done c (Inr None) (do {
     reconcileChiPDB c;
     z \<leftarrow> reconcileZooKeeper c zo;
     (case z of
        Inl p \<Rightarrow> State_Monad.return (Inl p)
      | Inr e \<Rightarrow> do {
          e \<leftarrow> WalkTillError (State_Monad.return e) (reconcileCHIAuxObjectsPreliminary c) (reconcileCluster c)
            (reconcileShard c) (reconcileHost c) (reconcileCHIAuxObjectsFinal c) (wc_clusters c);
          State_Monad.return (Inr e) }) })"

definition worker_discovery :: "worker_ctx \<Rightarrow> registry work" where
  "worker_discovery c = unless_done c None (do {
     issue ListObjects;
     listed \<leftarrow> reads (\<lambda>s. an_listed (wc_answers c) (ws_trace s));
     State_Monad.return (discovery False listed) })"

definition worker_purge :: "worker_ctx \<Rightarrow> registry \<Rightarrow> registry \<Rightarrow> nat work" where
  "worker_purge c reg failed = unless_done c 0 (
     case purge False (sp_Reconciling (in_Spec (wc_chi c))) reg failed of (deleted, cnt) \<Rightarrow> do {
       for_each (\<lambda>(et, m). issue (DeleteObject et m)) deleted;
       State_Monad.return cnt })"

definition worker_clear :: "worker_ctx \<Rightarrow> unit work" where
  "worker_clear c = do {
     objs \<leftarrow> worker_discovery c;
     need \<leftarrow> reads ws_registryReconciled;
     failed \<leftarrow> reads ws_registryFailed;
     cnt \<leftarrow> worker_purge c (Registry_Subtract objs need) failed;
     (if cnt > 0 then do { issue EnqueueDropDns; issue WaitMinute } else skip) }"

text \<open>A listing that fails counts as one without claims.\<close>

definition canDropReplica :: "worker_ctx \<Rightarrow> ChiHost \<Rightarrow> bool work" where
  "canDropReplica c host = do {
     issue (ListReplicaPVCs host);
     listed \<leftarrow> reads (\<lambda>s. an_claims (wc_answers c) (ws_trace s));
     State_Monad.return (case listed of None \<Rightarrow> True | Some pvcs \<Rightarrow> pvcs = []) }"

definition dropReplica :: "worker_ctx \<Rightarrow> host_ptr \<Rightarrow> ChiHost \<Rightarrow> err work" where
  "dropReplica c hostToRun hostToDrop = (case hostToRun of
     None \<Rightarrow> State_Monad.return None
   | Some a \<Rightarrow> unless_done c None (do {
       can \<leftarrow> canDropReplica c hostToDrop;
       if \<not> can then State_Monad.return None else call c (DropReplica a hostToDrop) }))"

text \<open>The cluster of a removed host is looked up in the old installation by the name in its address.\<close>

definition drop_removed :: "worker_ctx \<Rightarrow> ChiCluster list \<Rightarrow> ChiHost \<Rightarrow> unit work" where
  "drop_removed c oldClusters host = do {
     let name = (case FindCluster (ha_ClusterName (h_Address host)) oldClusters of None \<Rightarrow> '''' | Some cluster \<Rightarrow> cu_Name cluster);
     let run = Option.bind (FindCluster name (wc_clusters c)) (\<lambda>cluster. Option.bind (cu_Layout cluster) FirstHost);
     dropReplica c run host;
     skip }"

definition dropReplicas :: "worker_ctx \<Rightarrow> ChiCluster list \<Rightarrow> action_plan \<Rightarrow> unit work" where
  "dropReplicas c oldClusters ap = for_each (\<lambda>(path, item). case item of
       DiffHost a \<Rightarrow> do { host \<leftarrow> reads (host_at a); drop_removed c oldClusters host }
     | DiffHostCopy host \<Rightarrow> drop_removed c oldClusters host
     | _ \<Rightarrow> skip) (d_Removed (ap_specDiff ap))"

section \<open>One event\<close>

definition excludeStopped :: "worker_ctx \<Rightarrow> unit work" where
  "excludeStopped c = (if IsStopped (wc_chi c) then issue DeleteWatch else skip)"

definition includeStopped :: "worker_ctx \<Rightarrow> unit work" where
  "includeStopped c = (if \<not> IsStopped (wc_chi c) then issue UpdateWatch else skip)"

definition mark_failed :: "worker_ctx \<Rightarrow> bool \<Rightarrow> unit work" where
  "mark_failed c update = do {
     set_status (if update then ReconcileUpdateFailed else ReconcileCreateFailed);
     updateCHIObjectStatus c False;
     skip }"

definition markReconcileStart :: "worker_ctx \<Rightarrow> action_plan \<Rightarrow> bool \<Rightarrow> unit work" where
  "markReconcileStart c ap update = do {
     set_status ((if update then ReconcileUpdateStart else ReconcileCreateStart) (int (GetRemovedHostsNum ap)));
     updateCHIObjectStatus c False;
     skip }"

text \<open>Every host is asked, whatever the others answered.\<close>

fun ping_hosts :: "worker_ctx \<Rightarrow> host_ptr list \<Rightarrow> bool work" where
  "ping_hosts c [] = State_Monad.return False"
| "ping_hosts c (None # hosts) = ping_hosts c hosts"
| "ping_hosts c (Some a # hosts) = do {
     e \<leftarrow> call c (Ping a);
     failed \<leftarrow> ping_hosts c hosts;
     State_Monad.return (e \<noteq> None \<or> failed) }"

definition markReconcileComplete :: "worker_ctx \<Rightarrow> bool \<Rightarrow> unit work" where
  "markReconcileComplete c update = do {
     set_status ReconcileComplete;
     updateCHIObjectStatus c False;
     failed \<leftarrow> ping_hosts c (chi_hosts (wc_clusters c));
     if failed then mark_failed c update
     else do {
       set_status Running;
       updateCHIObjectStatus c False;
       skip } }"

definition carry_out :: "worker_ctx \<Rightarrow> zk_objects \<Rightarrow> 'spec chi_event \<Rightarrow> action_plan \<Rightarrow> bool \<Rightarrow> err go work" where
  "carry_out c zo ev ap update = do {
     markReconcileStart c ap update;
     excludeStopped c;
     changes (\<lambda>s. s\<lparr>ws_store := walkHosts (chi_hosts (wc_clusters c)) ap (ws_store s)\<rparr>);
     r \<leftarrow> reconcile c zo;
     (case r of
        Inl p \<Rightarrow> State_Monad.return (Inl p)
      | Inr (Some e) \<Rightarrow> do { mark_failed c update; State_Monad.return (Inr None) }
      | Inr None \<Rightarrow> do {
          worker_clear c;
          dropReplicas c (ev_oldClusters ev) ap;
          includeStopped c;
          markReconcileComplete c update;
          State_Monad.return (Inr None) }) }"

definition updateCHI :: "worker_ctx \<Rightarrow> zk_objects \<Rightarrow> 'spec chi_event \<Rightarrow> err go work" where
  "updateCHI c zo ev = unless_done c (Inr None) (
     let update = ev_oldVersion ev \<noteq> None in
     if ev_oldVersion ev = Some (ev_newVersion ev) then State_Monad.return (Inr None)
     else do {
       changes (\<lambda>s. s\<lparr>ws_registryFailed := NewRegistry, ws_registryReconciled := NewRegistry\<rparr>);
       installed \<leftarrow> ensureFinalizer c (ev_deleting ev) (ev_Finalizers ev);
       if installed then State_Monad.return (Inr None)
       else do {
         deleted \<leftarrow> deleteCHI c ev;
         if deleted then State_Monad.return (Inr None)
         else do {
           take_installation ev;
           (case NewActionPlan (ev_diff ev) (Some (ev_old ev)) (Some (ev_new ev)) of
              Inl p \<Rightarrow> State_Monad.return (Inl p)
            | Inr ap \<Rightarrow>
                if \<not> HasActionsToDo ap then State_Monad.return (Inr None)
                else carry_out c zo ev ap update) } } })"

text \<open>The object of a delete event is not normalized: its configuration or a layout may be missing.\<close>

fun sync_tables :: "worker_ctx \<Rightarrow> ChiCluster list \<Rightarrow> unit go work" where
  "sync_tables c [] = State_Monad.return (Inr ())"
| "sync_tables c (cluster # clusters) = (case cu_Layout cluster of
     None \<Rightarrow> State_Monad.return (Inl NilDereference)
   | Some lay \<Rightarrow> do {
       each_host (\<lambda>a. call c (SyncTables a)) (WalkHosts lay);
       sync_tables c clusters })"

definition discoveryAndDeleteCHI :: "worker_ctx \<Rightarrow> ChiCluster list option \<Rightarrow> err go work" where
  "discoveryAndDeleteCHI c clusters = unless_done c (Inr None) (do {
     objs \<leftarrow> worker_discovery c;
     synced \<leftarrow> (if Registry_Len objs (Some StatefulSet) > 0
       then (case clusters of None \<Rightarrow> State_Monad.return (Inl NilDereference) | Some cs \<Rightarrow> sync_tables c cs)
       else State_Monad.return (Inr ()));
     (case synced of
        Inl p \<Rightarrow> State_Monad.return (Inl p)
      | Inr _ \<Rightarrow> do {
          worker_purge c objs None;
          State_Monad.return (Inr None) }) })"

end
