(* ===== verification/Steps.thy ===== *)
theory Steps
  imports Lifecycle
begin

text \<open>
  Contracts for relations between the states before and after a step of the worker. A relation that is reflexive
  and transitive is kept by sequences, branches and loops of steps that keep it; one that is also kept by the calls
  a deletion makes and by counting deleted hosts is kept by every deletion; one that also allows the rest of the
  worker's changes is kept by reconciling and clearing. Each operation is gone through once, here, and the relations
  of the model are interpreted at the end: the phase of the status stays what it is, statuses stay well formed,
  and a deletion leaves the hosts and the finalizers alone.
\<close>

named_theorems kept \<open>steps that keep a relation\<close>

fun writes_chi :: "effect \<Rightarrow> bool" where
  "writes_chi (WriteStatus st) = True"
| "writes_chi (WriteFinalizers fs) = True"
| "writes_chi e = False"

section \<open>Sequences, branches and loops\<close>

locale step_relation =
  fixes R :: "worker_state \<Rightarrow> worker_state \<Rightarrow> bool"
  assumes reflexive: "R s s"
    and transitive: "R s t \<Longrightarrow> R t u \<Longrightarrow> R s u"
begin

abbreviation keeps :: "'a work \<Rightarrow> bool" where
  "keeps \<equiv> state_io_rel R"

lemma keepsI: "(\<And>s. R s (snd (run_state m s))) \<Longrightarrow> keeps m"
  by (simp add: state_io_rel_def)

lemma keeps_bind [kept]:
  assumes "keeps m" "\<And>r. keeps (f r)"
  shows "keeps (m \<bind> f)"
proof (rule keepsI)
  fix s
  obtain r t where m: "run_state m s = (r, t)" by (cases "run_state m s")
  have "R s t" using state_io_relD [OF assms(1) m] .
  moreover have "R t (snd (run_state (f r) t))" using assms(2) by (simp add: state_io_rel_def)
  ultimately show "R s (snd (run_state (m \<bind> f) s))" using m by (simp add: run_bind) (rule transitive)
qed

lemma keeps_return [kept]: "keeps (State_Monad.return x)"
  by (rule keepsI) (simp add: reflexive)

lemma keeps_skip [kept]: "keeps skip"
  by (rule keepsI) (simp add: reflexive)

lemma keeps_reads [kept]: "keeps (reads f)"
  by (rule keepsI) (simp add: reflexive)

lemma keeps_obtained [kept]: "keeps (obtained c)"
  by (rule keepsI) (simp add: reflexive)

lemma keeps_if [kept]: "(b \<Longrightarrow> keeps m) \<Longrightarrow> (\<not> b \<Longrightarrow> keeps n) \<Longrightarrow> keeps (if b then m else n)"
  by simp

lemma keeps_for_each [kept]: "(\<And>x. keeps (f x)) \<Longrightarrow> keeps (for_each f xs)"
  by (induction xs) (simp_all add: keeps_skip keeps_bind)

lemma keeps_walk_till_error [kept]: "(\<And>x. keeps (f x)) \<Longrightarrow> keeps (walk_till_error f xs)"
  by (induction xs) (auto intro!: kept)

lemma keeps_and_then [kept]: "keeps m \<Longrightarrow> keeps n \<Longrightarrow> keeps (and_then m n)"
  unfolding and_then_def by (intro kept)

lemma keeps_option [kept]:
  "keeps m \<Longrightarrow> (\<And>x. keeps (f x)) \<Longrightarrow> keeps (case v of None \<Rightarrow> m | Some x \<Rightarrow> f x)"
  by (cases v) simp_all

lemma keeps_sum [kept]:
  "(\<And>p. keeps (f p)) \<Longrightarrow> (\<And>x. keeps (g x)) \<Longrightarrow> keeps (case v of Inl p \<Rightarrow> f p | Inr x \<Rightarrow> g x)"
  by (cases v) simp_all

lemma keeps_pair [kept]: "(\<And>x y. keeps (f x y)) \<Longrightarrow> keeps (case v of (x, y) \<Rightarrow> f x y)"
  by (cases v) simp

lemma keeps_each_host [kept]: "(\<And>a. keeps (f a)) \<Longrightarrow> keeps (each_host f hosts)"
  unfolding each_host_def by (intro kept; simp)

lemma keeps_WalkTillError [kept]:
  assumes "keeps z" "keeps p" "\<And>x. keeps (fc x)" "\<And>x. keeps (fs x)" "\<And>x. keeps (fh x)" "keeps f"
  shows "keeps (WalkTillError z p fc fs fh f clusters)"
  unfolding WalkTillError_def using assms by (intro kept)

lemma keeps_obtained_finalizers [kept]: "keeps (obtained_finalizers c)"
  unfolding obtained_finalizers_def by (rule kept)

text \<open>What each step of a loop establishes, and later steps cannot undo, holds of all of them at the end.\<close>

lemma for_each_establishes:
  assumes keep: "\<And>x. keeps (f x)"
    and "\<And>x s. x \<in> set xs \<Longrightarrow> I s \<Longrightarrow> Q x (snd (run_state (f x) s))"
    and stable: "\<And>s t. I s \<Longrightarrow> R s t \<Longrightarrow> I t" "\<And>x s t. Q x s \<Longrightarrow> R s t \<Longrightarrow> Q x t"
    and "I s" "x \<in> set xs"
  shows "Q x (snd (run_state (for_each f xs) s))"
  using assms(2,5,6)
proof (induction xs arbitrary: s)
  case (Cons y xs)
  obtain r t where t: "run_state (f y) s = (r, t)" by (cases "run_state (f y) s")
  then have "R s t" using state_io_relD [OF keep] by blast
  moreover have "R t (snd (run_state (for_each f xs) t))"
    using keeps_for_each [of f xs] keep by (simp add: state_io_rel_def)
  ultimately show ?case
    using Cons.prems(1) [of y s] Cons.prems(2,3) stable Cons.IH [of t] Cons.prems(1)
    by (fastforce simp: run_bind t)
qed simp

end

section \<open>Deletions\<close>

locale deletion_contract = step_relation +
  assumes calls: "\<not> writes_chi e \<Longrightarrow> R s (s\<lparr>ws_trace := ws_trace s @ [e]\<rparr>)"
    and writes: "R s (s\<lparr>ws_trace := ws_trace s @ [WriteStatus (ws_Status s)]\<rparr>)"
    and statefulsets: "R s (s\<lparr>ws_StatefulSet := x\<rparr>)"
    and deleted: "R s (s\<lparr>ws_Status := (ws_Status s)\<lparr>cs_DeletedHostsCount := cs_DeletedHostsCount (ws_Status s) + 1\<rparr>\<rparr>)"
begin

lemma keeps_issue [kept]: "\<not> writes_chi e \<Longrightarrow> keeps (issue e)"
  by (rule keepsI) (simp add: calls)

lemma keeps_call [kept]: "\<not> writes_chi e \<Longrightarrow> keeps (call c e)"
  by (rule keepsI) (simp add: calls)

lemma keeps_deletion_changes [kept]:
  "keeps (changes (\<lambda>s. s\<lparr>ws_Status := (ws_Status s)\<lparr>cs_DeletedHostsCount := cs_DeletedHostsCount (ws_Status s) + 1\<rparr>\<rparr>))"
  "keeps (changes (\<lambda>s. s\<lparr>ws_StatefulSet := f s\<rparr>))"
  by (rule keepsI, simp add: deleted statefulsets)+

lemma keeps_unless_done [kept]: "keeps m \<Longrightarrow> keeps (unless_done c r m)"
  unfolding unless_done_def IsContextDone_def
  by (intro keeps_bind keeps_issue keeps_reads) (simp_all add: keeps_return)

lemma keeps_updateCHIObjectStatus [kept]: "keeps (updateCHIObjectStatus c b)"
proof -
  have "keeps (do { st \<leftarrow> reads ws_Status; call c (WriteStatus st) })"
    by (rule keepsI) (simp add: run_bind writes)
  note status_write = this
  show ?thesis
    unfolding updateCHIObjectStatus_def
    by (rule keeps_unless_done, rule keeps_bind, rule keeps_call, simp, rule keeps_if, rule keeps_return,
        rule keeps_unless_done, rule status_write)
qed

lemma keeps_services_and_claims [kept]:
  "keeps (deleteServiceIfExists c name)"
  "keeps (sts_name c a)"
  "keeps (deletePVC c a)"
  "keeps (deleteStatefulSet c a)"
  unfolding deleteServiceIfExists_def sts_name_def deletePVC_def deleteStatefulSet_def Let_def
  by (intro kept; simp)+

lemma keeps_deleteHost [kept]:
  "keeps (deleteHost c a)"
  "keeps (deletePDB c)"
  "keeps (deleteServiceCHI c)"
  "keeps (deleteServiceCluster c cluster)"
  "keeps (deleteServiceShard c shard)"
  "keeps (deleteTables c a)"
  unfolding deleteHost_def deletePDB_def deleteServiceCHI_def deleteServiceCluster_def deleteServiceShard_def deleteTables_def Let_def
  by (intro kept; simp)+

lemma keeps_worker_deleteHost [kept]:
  "keeps (worker_deleteHost c a)"
  "keeps (deleteZooKeeper c)"
  "keeps (deleteConfigMapsCHI c)"
  unfolding worker_deleteHost_def deleteZooKeeper_def deleteConfigMapsCHI_def Let_def
  by (intro kept; simp)+

lemma keeps_deleteShard [kept]:
  "keeps (deleteShard c shard)"
  "keeps (deleteCluster c cluster)"
  unfolding deleteShard_def deleteCluster_def Let_def
  by (intro kept; simp)+

end

section \<open>Everything else\<close>

locale step_contract = deletion_contract +
  assumes finalizers: "R s (s\<lparr>ws_trace := ws_trace s @ [WriteFinalizers fs]\<rparr>)"
    and objects: "ws_trace s' = ws_trace s \<Longrightarrow> ws_Status s' = ws_Status s \<Longrightarrow> R s s'"
    and added: "R s (s\<lparr>ws_Status := (ws_Status s)\<lparr>cs_AddedHostsCount := cs_AddedHostsCount (ws_Status s) + 1\<rparr>\<rparr>)"
    and updated: "R s (s\<lparr>ws_Status := (ws_Status s)\<lparr>cs_UpdatedHostsCount := cs_UpdatedHostsCount (ws_Status s) + 1\<rparr>\<rparr>)"
    and specs: "R s (s\<lparr>ws_Status := (ws_Status s)\<lparr>cs_NormalizedCHI := spec\<rparr>\<rparr>)"
begin

lemma keeps_changes [kept]:
  "keeps (changes (\<lambda>s. s\<lparr>ws_Status := (ws_Status s)\<lparr>cs_AddedHostsCount := cs_AddedHostsCount (ws_Status s) + 1\<rparr>\<rparr>))"
  "keeps (changes (\<lambda>s. s\<lparr>ws_Status := (ws_Status s)\<lparr>cs_UpdatedHostsCount := cs_UpdatedHostsCount (ws_Status s) + 1\<rparr>\<rparr>))"
  "keeps (changes (\<lambda>s. s\<lparr>ws_StatefulSet := f1 s, ws_DesiredStatefulSet := f2 s\<rparr>))"
  "keeps (changes (\<lambda>s. s\<lparr>ws_CurStatefulSet := f3 s\<rparr>))"
  "keeps (changes (\<lambda>s. s\<lparr>ws_store := f4 s\<rparr>))"
  "keeps (changes (\<lambda>s. s\<lparr>ws_registryFailed := f6 s, ws_registryReconciled := f7 s\<rparr>))"
  "keeps (set_host a f5)"
  "keeps (register et m e)"
  by (rule keepsI, simp add: added updated objects set_host_def register_def)+

lemma keeps_finalizers [kept]:
  "keeps (updateCHIObject c (WriteFinalizers fs))"
  "keeps (uninstallFinalizer c)"
  "keeps (installFinalizer c)"
  "keeps (ensureFinalizer c b fs')"
proof -
  have "keeps (call c (WriteFinalizers fs))" for fs
    by (rule keepsI) (simp add: finalizers)
  then have "keeps (updateCHIObject c (WriteFinalizers fs))" for fs
    unfolding updateCHIObject_def by (rule keeps_unless_done)
  note this [kept]
  show "keeps (updateCHIObject c (WriteFinalizers fs))" "keeps (uninstallFinalizer c)"
    and install: "keeps (installFinalizer c)"
    unfolding uninstallFinalizer_def installFinalizer_def by (intro kept; simp)+
  show "keeps (ensureFinalizer c b fs')"
    unfolding ensureFinalizer_def by (intro kept install)
qed

lemma keeps_status_and_pods [kept]:
  "keeps (getStatefulSetStatus c a)"
  "keeps (statefulSetDeletePod c sts)"
  "keeps (deleteLabelReady c a)"
  "keeps (appendLabelReady c a)"
  "keeps (prepareHostStatefulSetWithStatus c a b)"
  "keeps (reconcilePersistentVolumes c a)"
  "keeps (reconcilePVCs c a)"
  unfolding getStatefulSetStatus_def statefulSetDeletePod_def deleteLabelReady_def appendLabelReady_def prepareHostStatefulSetWithStatus_def reconcilePersistentVolumes_def reconcilePVCs_def Let_def
  by (intro kept; simp)+

lemma keeps_failures [kept]:
  "keeps (onStatefulSetCreateFailed c a)"
  "keeps (onStatefulSetUpdateFailed c sts)"
  unfolding onStatefulSetCreateFailed_def onStatefulSetUpdateFailed_def Let_def
  by (intro kept; simp)+

lemma keeps_statefulsets [kept]:
  "keeps (c_createStatefulSet c sts a)"
  "keeps (c_updateStatefulSet c old new a)"
  "keeps (createStatefulSet c a)"
  "keeps (recreateStatefulSet c a)"
  unfolding c_createStatefulSet_def c_updateStatefulSet_def createStatefulSet_def recreateStatefulSet_def Let_def
  by (intro kept; simp)+

lemma keeps_updateStatefulSet [kept]:
  "keeps (updateStatefulSet c cur a)"
  "keeps (reconcileStatefulSet c a)"
  unfolding updateStatefulSet_def reconcileStatefulSet_def Let_def
  by (intro kept; simp)+

lemma keeps_objects_of_host [kept]:
  "keeps (reconcileHostStatefulSet c a)"
  "keeps (reconcileConfigMap c cm)"
  "keeps (reconcileService c name)"
  "keeps (reconcile_service c service)"
  "keeps (migrateTables c a)"
  unfolding reconcileHostStatefulSet_def reconcileConfigMap_def reconcileService_def reconcile_service_def migrateTables_def Let_def
  by (intro kept; simp)+

lemma keeps_config [kept]:
  "keeps (reconcileCHIConfigMapCommon c options)"
  "keeps (reconcileCHIConfigMapUsers c)"
  "keeps (reconcileHostConfigMap c a)"
  "keeps (reconcileHostService c a)"
  "keeps (reconcileShard c shard)"
  "keeps (reconcileCluster c cluster)"
  unfolding reconcileCHIConfigMapCommon_def reconcileCHIConfigMapUsers_def reconcileHostConfigMap_def reconcileHostService_def reconcileShard_def reconcileCluster_def Let_def
  by (intro kept; simp)+

lemma keeps_exclusion [kept]:
  "keeps (excludeHostFromService c a)"
  "keeps (includeHostIntoService c a)"
  "keeps (excludeHostFromClickHouseCluster c a)"
  "keeps (includeHostIntoClickHouseCluster c a)"
  "keeps (excludeHost c a)"
  "keeps (includeHost c a)"
  unfolding excludeHostFromService_def includeHostIntoService_def excludeHostFromClickHouseCluster_def includeHostIntoClickHouseCluster_def excludeHost_def includeHost_def Let_def
  by (intro kept; simp)+

lemma keeps_reconcileHost [kept]:
  "keeps (finishHost c a)"
  "keeps (reconcileHost c a)"
  "keeps (reconcileCHIAuxObjectsPreliminary c)"
  "keeps (reconcileCHIAuxObjectsFinal c)"
  unfolding finishHost_def reconcileHost_def reconcileCHIAuxObjectsPreliminary_def reconcileCHIAuxObjectsFinal_def Let_def
  by (intro kept; simp)+

lemma keeps_budget [kept]:
  "keeps (createPDB c name)"
  "keeps (reconcilePDB c name)"
  "keeps (reconcileChiPDB c)"
  "keeps (reconcileZooKeeperServiceServer c zo)"
  "keeps (reconcileZooKeeperServiceClient c zo)"
  "keeps (reconcileZooKeeperPDB c)"
  unfolding createPDB_def reconcilePDB_def reconcileChiPDB_def reconcileZooKeeperServiceServer_def reconcileZooKeeperServiceClient_def reconcileZooKeeperPDB_def Let_def
  by (intro kept; simp)+

lemma keeps_zookeeper_statefulset [kept]:
  "keeps (onStatefulSetZooKeeperCreateFailed c)"
  "keeps (c_createStatefulSetZooKeeper c sts)"
  "keeps (createStatefulSetZooKeeper c sts)"
  "keeps (register_zk sts n e)"
  unfolding onStatefulSetZooKeeperCreateFailed_def c_createStatefulSetZooKeeper_def createStatefulSetZooKeeper_def register_zk_def Let_def
  by (intro kept; simp)+

lemma keeps_set_zk_nodes: "set_zk_nodes zk fqdn (ws_Status s) = Inr st \<Longrightarrow> R s (s\<lparr>ws_Status := st\<rparr>)"
  by (auto simp: set_zk_nodes_def go_bind_def specs split: option.splits sum.splits)

lemma keeps_reconcileZooKeeperStatefulSet [kept]: "keeps (reconcileZooKeeperStatefulSet c zo zk)"
proof -
  have status: "keeps (do {
      status \<leftarrow> reads ws_Status;
      (case set_zk_nodes zk fqdn status of
         Inl p \<Rightarrow> State_Monad.return (Inl p)
       | Inr status' \<Rightarrow> do { set_status (\<lambda>_. status'); m }) })" if "keeps m" for fqdn and m :: "err go work"
  proof (rule keepsI)
    fix s
    show "R s (snd (run_state (do {
      status \<leftarrow> reads ws_Status;
      (case set_zk_nodes zk fqdn status of
         Inl p \<Rightarrow> State_Monad.return (Inl p)
       | Inr status' \<Rightarrow> do { set_status (\<lambda>_. status'); m }) }) s))"
    proof (cases "set_zk_nodes zk fqdn (ws_Status s)")
      case (Inr st)
      have "R (s\<lparr>ws_Status := st\<rparr>) (snd (run_state m (s\<lparr>ws_Status := st\<rparr>)))"
        using that by (simp add: state_io_rel_def)
      with keeps_set_zk_nodes [OF Inr] show ?thesis
        by (simp add: Inr run_bind set_status_def) (rule transitive)
    qed (simp add: run_bind reflexive)
  qed
  show ?thesis
    unfolding reconcileZooKeeperStatefulSet_def Let_def
    by (intro keeps_unless_done keeps_bind keeps_if keeps_call keeps_return status kept; simp)
qed

lemma keeps_reconcileZooKeeper [kept]:
  "keeps (reconcileZooKeeper c zo)"
  "keeps (reconcile c zo)"
  unfolding reconcileZooKeeper_def reconcile_def Let_def
  by (intro kept; simp)+

lemma keeps_clearing [kept]:
  "keeps (worker_discovery c)"
  "keeps (worker_purge c reg failed)"
  "keeps (worker_clear c)"
  unfolding worker_discovery_def worker_purge_def worker_clear_def Let_def
  by (intro kept; simp)+

lemma keeps_replicas [kept]:
  "keeps (canDropReplica c host)"
  "keeps (dropReplica c run host)"
  "keeps (drop_removed c clusters host)"
  "keeps (excludeStopped c)"
  "keeps (includeStopped c)"
  unfolding canDropReplica_def dropReplica_def drop_removed_def excludeStopped_def includeStopped_def Let_def
  by (intro kept; simp)+

lemma keeps_dropReplicas [kept]: "keeps (dropReplicas c clusters ap)"
proof -
  have "keeps (case item of
       DiffHost a \<Rightarrow> do { host \<leftarrow> reads (host_at a); drop_removed c clusters host }
     | DiffHostCopy host \<Rightarrow> drop_removed c clusters host
     | _ \<Rightarrow> skip)" for item
    by (cases item) (auto intro!: kept)
  then show ?thesis unfolding dropReplicas_def by (intro kept)
qed

lemma keeps_ping_hosts [kept]: "keeps (ping_hosts c hosts)"
  by (induction c hosts rule: ping_hosts.induct) (auto intro!: kept)

end

section \<open>The phase of the status\<close>

definition in_phase :: "string \<Rightarrow> effect \<Rightarrow> bool" where
  "in_phase p e = (case e of WriteStatus st \<Rightarrow> cs_Status st = p | _ \<Rightarrow> True)"

definition same_phase :: "worker_state \<Rightarrow> worker_state \<Rightarrow> bool" where
  "same_phase s s' = (cs_Status (ws_Status s') = cs_Status (ws_Status s)
     \<and> (\<exists>tr. ws_trace s' = ws_trace s @ tr \<and> list_all (in_phase (cs_Status (ws_Status s))) tr))"

lemma in_phase_simps [simp]:
  "\<not> writes_chi e \<Longrightarrow> in_phase p e" "in_phase p (WriteFinalizers fs)" "in_phase p (WriteStatus st) = (cs_Status st = p)"
  by (cases e) (simp_all add: in_phase_def)

interpretation phase: step_contract same_phase
proof unfold_locales
  show "same_phase s t \<Longrightarrow> same_phase t u \<Longrightarrow> same_phase s u" for s t u
    unfolding same_phase_def by (elim conjE exE) (simp add: list_all_append)
qed (simp_all add: same_phase_def)

section \<open>Statuses stay well formed\<close>

definition ok_write :: "effect \<Rightarrow> bool" where
  "ok_write e = (case e of WriteStatus st \<Rightarrow> status_ok st | _ \<Rightarrow> True)"

definition well_typed :: "worker_state \<Rightarrow> worker_state \<Rightarrow> bool" where
  "well_typed s s' = (\<exists>tr. ws_trace s' = ws_trace s @ tr
     \<and> (status_ok (ws_Status s) \<longrightarrow> status_ok (ws_Status s') \<and> list_all ok_write tr))"

lemma ok_write_simps [simp]:
  "\<not> writes_chi e \<Longrightarrow> ok_write e" "ok_write (WriteFinalizers fs)" "ok_write (WriteStatus st) = status_ok st"
  by (cases e) (simp_all add: ok_write_def)

lemma status_ok_spec: "status_ok s \<Longrightarrow> status_ok (s\<lparr>cs_NormalizedCHI := spec\<rparr>)"
  by (simp add: status_ok_def)

interpretation typed: step_contract well_typed
proof unfold_locales
  show "well_typed s t \<Longrightarrow> well_typed t u \<Longrightarrow> well_typed s u" for s t u
    unfolding well_typed_def by (elim conjE exE) auto
qed (simp_all add: well_typed_def status_ok_counts status_ok_spec)

section \<open>A deletion leaves the hosts and the finalizers alone\<close>

definition writes_finalizers :: "effect \<Rightarrow> bool" where
  "writes_finalizers e = (case e of WriteFinalizers fs \<Rightarrow> True | _ \<Rightarrow> False)"

definition hosts_stay :: "worker_state \<Rightarrow> worker_state \<Rightarrow> bool" where
  "hosts_stay s s' = (ws_store s' = ws_store s
     \<and> (\<exists>tr. ws_trace s' = ws_trace s @ tr \<and> list_all (\<lambda>e. \<not> writes_finalizers e) tr))"

lemma writes_finalizers_simps [simp]:
  "\<not> writes_chi e \<Longrightarrow> \<not> writes_finalizers e" "\<not> writes_finalizers (WriteStatus st)" "writes_finalizers (WriteFinalizers fs)"
  by (cases e) (simp_all add: writes_finalizers_def)

interpretation stay: deletion_contract hosts_stay
proof unfold_locales
  show "hosts_stay s t \<Longrightarrow> hosts_stay t u \<Longrightarrow> hosts_stay s u" for s t u
    unfolding hosts_stay_def by (elim conjE exE) simp
qed (simp_all add: hosts_stay_def)

end
