(* ===== verification/Outcome.thy ===== *)
theory Outcome
  imports Steps
begin

text \<open>
  What one event about an installation comes to (\<open>updateCHI\<close> of \<open>pkg/controller/chi/worker.go\<close>): the statuses
  written along the way, when the installation is reported to be running, what has happened to its hosts when
  its finalizer is removed, and where the ZooKeeper step panics.
\<close>

section \<open>Statuses are well formed\<close>

lemma typed_marks:
  "(\<And>st. status_ok st \<Longrightarrow> status_ok (f st)) \<Longrightarrow> state_io_rel well_typed (set_status f)"
  "status_ok (ev_Status ev) \<Longrightarrow> state_io_rel well_typed (take_installation ev)"
  by (simp_all add: set_status_def take_installation_def state_io_rel_def well_typed_def)

lemma typed_updateCHI:
  assumes "status_ok (ev_Status ev)"
  shows "state_io_rel well_typed (updateCHI c zo ev)"
proof -
  have failed: "state_io_rel well_typed (mark_failed c update)" for update
    unfolding mark_failed_def by (intro kept typed_marks) (simp add: status_ok_marks)
  have start: "state_io_rel well_typed (markReconcileStart c ap update)" for ap update
    unfolding markReconcileStart_def by (intro kept typed_marks) (simp add: status_ok_marks)
  have complete: "state_io_rel well_typed (markReconcileComplete c update)" for update
    unfolding markReconcileComplete_def
    by (intro kept typed_marks failed) (simp_all add: status_ok_marks)
  have carry: "state_io_rel well_typed (carry_out c zo ev ap update)" for ap update
    unfolding carry_out_def by (intro kept start failed complete)
  have delete: "state_io_rel well_typed (deleteCHI c ev)"
    unfolding deleteCHI_def deleteCHIProtocol_def
    by (intro kept typed_marks assms; simp add: status_ok_marks)
  show ?thesis
    unfolding updateCHI_def Let_def
    by (intro kept carry delete typed_marks assms)
qed

section \<open>The phases of an event\<close>

definition phase_written :: "effect \<Rightarrow> string option" where
  "phase_written e = (case e of WriteStatus st \<Rightarrow> Some (cs_Status st) | _ \<Rightarrow> None)"

definition written :: "effect list \<Rightarrow> string list" where
  "written tr = List.map_filter phase_written tr"

lemma phase_written_simps [simp]:
  "\<not> writes_chi e \<Longrightarrow> phase_written e = None" "phase_written (WriteStatus st) = Some (cs_Status st)"
  "phase_written (WriteFinalizers fs) = None"
  by (cases e) (simp_all add: phase_written_def)

lemma written_simps [simp]:
  "written [] = []" "written (e # tr) = (case phase_written e of None \<Rightarrow> written tr | Some p \<Rightarrow> p # written tr)"
  by (simp_all add: written_def map_filter_simps split: option.splits)

lemma written_append [simp]: "written (xs @ ys) = written xs @ written ys"
  by (simp add: written_def map_filter_def)

lemma writes_chi_cases:
  obtains "\<not> writes_chi e" | st where "e = WriteStatus st" | fs where "e = WriteFinalizers fs"
  by (cases e) simp_all

lemma in_phase_written: "list_all (in_phase p) tr \<Longrightarrow> \<exists>n. written tr = replicate n p"
proof (induction tr)
  case (Cons e tr)
  then obtain n where "written tr = replicate n p" by auto
  with Cons.prems show ?case
    by (cases e rule: writes_chi_cases) (auto intro: exI [of _ n] exI [of _ "Suc n"])
qed simp

lemma phaseD: "state_io_rel same_phase m \<Longrightarrow> run_state m s = (r, s') \<Longrightarrow> same_phase s s'"
  by (rule state_io_relD)

text \<open>A step after a mark stays in the phase that the mark sets.\<close>

lemma marked_phase:
  assumes "state_io_rel same_phase m" "run_state (set_status f \<bind> (\<lambda>_. m)) s = (r, s')"
  obtains tr where "ws_trace s' = ws_trace s @ tr" "list_all (in_phase (cs_Status (f (ws_Status s)))) tr"
    "cs_Status (ws_Status s') = cs_Status (f (ws_Status s))"
  using phaseD [OF assms(1), of "s\<lparr>ws_Status := f (ws_Status s)\<rparr>" r s'] assms(2)
  by (auto simp: run_bind set_status_def same_phase_def)

definition start_phase :: "bool \<Rightarrow> string" where
  "start_phase update = (if update then StatusInProgress else StatusCreating)"

definition failed_phase :: "bool \<Rightarrow> string" where
  "failed_phase update = (if update then StatusUpdateFailed else StatusCreateFailed)"

lemma phase_of_marks [simp]:
  "cs_Status ((if update then ReconcileUpdateStart else ReconcileCreateStart) n st) = start_phase update"
  "cs_Status ((if update then ReconcileUpdateFailed else ReconcileCreateFailed) st) = failed_phase update"
  "cs_Status (ReconcileComplete st) = StatusCompleted" "cs_Status (Running st) = StatusRunning"
  "cs_Status (DeleteStart st) = StatusTerminating"
  by (simp_all add: start_phase_def failed_phase_def status_marks)

lemma mark_failed_run:
  assumes "run_state (mark_failed c update) s = (r, s')"
  obtains tr where "ws_trace s' = ws_trace s @ tr" "list_all (in_phase (failed_phase update)) tr"
  using marked_phase [OF _ assms [unfolded mark_failed_def]] by (auto intro!: kept)

text \<open>Whether a call of the trace from the given place on was answered without an error.\<close>

definition answered :: "worker_ctx \<Rightarrow> effect \<Rightarrow> nat \<Rightarrow> effect list \<Rightarrow> bool" where
  "answered c e n t = list_ex (\<lambda>i. t ! i = e \<and> an_error (wc_answers c) (take (Suc i) t) = None) [n..<length t]"

definition all_answered :: "worker_ctx \<Rightarrow> nat \<Rightarrow> effect list \<Rightarrow> host_ptr list \<Rightarrow> bool" where
  "all_answered c n t hosts = list_all (\<lambda>h. case h of None \<Rightarrow> True | Some a \<Rightarrow> answered c (Ping a) n t) hosts"

lemma answered_append:
  assumes "answered c e n t" "m \<le> n"
  shows "answered c e m (t @ u)"
proof -
  obtain i where "n \<le> i" "i < length t" "t ! i = e" "an_error (wc_answers c) (take (Suc i) t) = None"
    using assms(1) by (auto simp: answered_def list_ex_iff)
  then show ?thesis
    using assms(2) by (auto simp: answered_def list_ex_iff nth_append intro!: bexI [of _ i])
qed

lemma all_answered_append: "all_answered c n t hosts \<Longrightarrow> m \<le> n \<Longrightarrow> all_answered c m (t @ u) hosts"
  unfolding all_answered_def
  by (induction hosts) (auto simp: answered_append split: option.splits)

lemma ping_hosts_run:
  assumes "run_state (ping_hosts c hosts) s = (failed, s')"
  shows "\<exists>tr. ws_trace s' = ws_trace s @ tr \<and> (\<not> failed \<longrightarrow> all_answered c (length (ws_trace s)) (ws_trace s') hosts)"
  using assms
proof (induction c hosts arbitrary: s failed rule: ping_hosts.induct)
  case (3 c a hosts)
  let ?s = "s\<lparr>ws_trace := ws_trace s @ [Ping a]\<rparr>"
  obtain b where r: "run_state (ping_hosts c hosts) ?s = (b, s')"
    and f: "failed = (an_error (wc_answers c) (ws_trace ?s) \<noteq> None \<or> b)"
    using "3.prems" by (auto simp: run_bind split: prod.splits)
  obtain tr where tr: "ws_trace s' = ws_trace ?s @ tr"
    and ok: "\<not> b \<longrightarrow> all_answered c (length (ws_trace ?s)) (ws_trace s') hosts"
    using "3.IH" [OF r] by blast
  have "answered c (Ping a) (length (ws_trace s)) (ws_trace s')" if "\<not> failed"
    using that f tr by (auto simp: answered_def list_ex_iff nth_append intro!: bexI [of _ "length (ws_trace s)"])
  then show ?case
    using tr f ok all_answered_append [of c "length (ws_trace ?s)" "ws_trace s'" hosts "length (ws_trace s)" "[]"]
    by (auto simp: all_answered_def)
qed (auto simp: all_answered_def)

lemma markReconcileComplete_run:
  assumes "run_state (markReconcileComplete c update) s = (r, s')"
  shows "\<exists>t u. ws_trace s' = ws_trace s @ t @ u \<and> list_all (in_phase StatusCompleted) t
    \<and> (list_all (in_phase (failed_phase update)) u
      \<or> list_all (in_phase StatusRunning) u
        \<and> all_answered c (length (ws_trace s)) (ws_trace s @ t) (chi_hosts (wc_clusters c)))"
proof -
  let ?hosts = "chi_hosts (wc_clusters c)"
  obtain e s1 where s1: "run_state (set_status ReconcileComplete \<bind> (\<lambda>_. updateCHIObjectStatus c False)) s = (e, s1)"
    by (cases "run_state (set_status ReconcileComplete \<bind> (\<lambda>_. updateCHIObjectStatus c False)) s")
  obtain failed s2 where s2: "run_state (ping_hosts c ?hosts) s1 = (failed, s2)"
    by (cases "run_state (ping_hosts c ?hosts) s1")
  obtain t1 where t1: "ws_trace s1 = ws_trace s @ t1" "list_all (in_phase StatusCompleted) t1"
    and ph: "cs_Status (ws_Status s1) = StatusCompleted"
    using marked_phase [OF phase.keeps_updateCHIObjectStatus s1] unfolding phase_of_marks by blast
  obtain t2 where t2: "ws_trace s2 = ws_trace s1 @ t2" "list_all (in_phase StatusCompleted) t2"
    using phaseD [OF phase.keeps_ping_hosts s2] ph by (auto simp: same_phase_def)
  have rest: "run_state (if failed then mark_failed c update
      else do { set_status Running; updateCHIObjectStatus c False; skip }) s2 = (r, s')"
    using assms s1 s2 unfolding markReconcileComplete_def by (auto simp: run_bind split: prod.splits if_splits)
  show ?thesis
  proof (cases failed)
    case True
    then obtain u where "ws_trace s' = ws_trace s2 @ u" "list_all (in_phase (failed_phase update)) u"
      using rest by (auto elim: mark_failed_run)
    with t1 t2 show ?thesis by (intro exI [of _ "t1 @ t2"] exI [of _ u]) simp
  next
    case False
    then have run: "run_state (set_status Running \<bind> (\<lambda>_. do { updateCHIObjectStatus c False; skip })) s2 = (r, s')"
      using rest by simp
    have "state_io_rel same_phase (do { updateCHIObjectStatus c False; skip })" by (intro kept)
    from marked_phase [OF this run] obtain u where "ws_trace s' = ws_trace s2 @ u" "list_all (in_phase StatusRunning) u"
      unfolding phase_of_marks by blast
    moreover have "all_answered c (length (ws_trace s)) (ws_trace s2) ?hosts"
      using ping_hosts_run [OF s2] False t1 all_answered_append [of c "length (ws_trace s1)" "ws_trace s2" ?hosts "length (ws_trace s)" "[]"]
      by auto
    ultimately show ?thesis using t1 t2 by (intro exI [of _ "t1 @ t2"] exI [of _ u]) simp
  qed
qed

lemma carry_out_run:
  assumes "run_state (carry_out c zo ev ap update) s = (r, s')"
  shows "\<exists>t u v. ws_trace s' = ws_trace s @ t @ u @ v \<and> list_all (in_phase (start_phase update)) t
    \<and> list_all (in_phase StatusCompleted) u
    \<and> (list_all (in_phase (failed_phase update)) v
      \<or> list_all (in_phase StatusRunning) v
        \<and> all_answered c (length (ws_trace s)) (ws_trace s @ t @ u) (chi_hosts (wc_clusters c)))"
proof -
  let ?first = "do {
     updateCHIObjectStatus c False;
     skip;
     excludeStopped c;
     changes (\<lambda>s. s\<lparr>ws_store := walkHosts (chi_hosts (wc_clusters c)) ap (ws_store s)\<rparr>);
     reconcile c zo }"
  let ?start = "set_status ((if update then ReconcileUpdateStart else ReconcileCreateStart) (int (GetRemovedHostsNum ap)))"
  let ?middle = "do { worker_clear c; dropReplicas c (ev_oldClusters ev) ap; includeStopped c }"
  obtain x s1 where s1: "run_state (?start \<bind> (\<lambda>_. ?first)) s = (x, s1)"
    by (cases "run_state (?start \<bind> (\<lambda>_. ?first)) s")
  have first: "state_io_rel same_phase ?first" "state_io_rel same_phase ?middle" by (intro kept)+
  obtain t1 where t1: "ws_trace s1 = ws_trace s @ t1" "list_all (in_phase (start_phase update)) t1"
    and ph: "cs_Status (ws_Status s1) = start_phase update"
    using marked_phase [OF first(1) s1] unfolding phase_of_marks by blast
  have rest: "run_state (case x of
        Inl p \<Rightarrow> State_Monad.return (Inl p)
      | Inr (Some e) \<Rightarrow> do { mark_failed c update; State_Monad.return (Inr None) }
      | Inr None \<Rightarrow> do { ?middle; markReconcileComplete c update; State_Monad.return (Inr None) }) s1 = (r, s')"
    using assms s1 unfolding carry_out_def markReconcileStart_def
    by (auto simp: run_bind split: prod.splits sum.splits option.splits)
  show ?thesis
  proof (cases x)
    case (Inl p)
    with rest t1 show ?thesis by (intro exI [of _ t1] exI [of _ "[]"]) simp
  next
    case (Inr e)
    show ?thesis
    proof (cases e)
      case None
      obtain y s2 where s2: "run_state ?middle s1 = (y, s2)" by (cases "run_state ?middle s1")
      obtain t2 where t2: "ws_trace s2 = ws_trace s1 @ t2" "list_all (in_phase (start_phase update)) t2"
        using phaseD [OF first(2) s2] ph by (auto simp: same_phase_def)
      have "run_state (markReconcileComplete c update) s2 = ((), s')"
        using rest Inr None s2 by (auto simp: run_bind split: prod.splits)
      from markReconcileComplete_run [OF this] obtain t u
        where tu: "ws_trace s' = ws_trace s2 @ t @ u" "list_all (in_phase StatusCompleted) t"
          "list_all (in_phase (failed_phase update)) u
            \<or> list_all (in_phase StatusRunning) u
              \<and> all_answered c (length (ws_trace s2)) (ws_trace s2 @ t) (chi_hosts (wc_clusters c))"
        by blast
      then show ?thesis
        using t1 t2 all_answered_append [of c "length (ws_trace s2)" "ws_trace s2 @ t" "chi_hosts (wc_clusters c)" "length (ws_trace s)" "[]"]
        by (intro exI [of _ "t1 @ t2"] exI [of _ t] exI [of _ u]) auto
    next
      case (Some k)
      then have "run_state (mark_failed c update) s1 = ((), s')"
        using rest Inr by (auto simp: run_bind split: prod.splits)
      then obtain v where "ws_trace s' = ws_trace s1 @ v" "list_all (in_phase (failed_phase update)) v"
        by (auto elim: mark_failed_run)
      with t1 show ?thesis by (intro exI [of _ t1] exI [of _ "[]"] exI [of _ v]) simp
    qed
  qed
qed

text \<open>Looking after finalizers writes no status.\<close>

lemma finalizers_run:
  "run_state (installFinalizer c) s = (e, s') \<Longrightarrow> \<exists>tr. ws_trace s' = ws_trace s @ tr \<and> written tr = []"
  "run_state (uninstallFinalizer c) s = (e, s') \<Longrightarrow> \<exists>tr. ws_trace s' = ws_trace s @ tr \<and> written tr = []"
  unfolding installFinalizer_def uninstallFinalizer_def updateCHIObject_def obtained_finalizers_def
  by (auto simp: run_unless_done run_bind split: if_splits)

lemma ensureFinalizer_run:
  assumes "run_state (ensureFinalizer c b fs) s = (r, s')"
  shows "\<exists>tr. ws_trace s' = ws_trace s @ tr \<and> written tr = []"
proof -
  obtain e t where install: "run_state (installFinalizer c) (asked s) = (e, t)"
    by (cases "run_state (installFinalizer c) (asked s)")
  from finalizers_run(1) [OF this] assms show ?thesis
    unfolding ensureFinalizer_def
    by (auto simp: run_unless_done run_bind install split: if_splits)
qed

lemma deleteCHIProtocol_run:
  assumes "run_state (deleteCHIProtocol c ev) s = (e, s')"
  shows "\<exists>tr. ws_trace s' = ws_trace s @ tr \<and> list_all (in_phase StatusTerminating) tr"
proof (cases "done_at c (asked s)")
  case False
  let ?s = "snd (run_state (take_installation ev) (asked s))"
  obtain m :: "err work" where run: "run_state (set_status DeleteStart \<bind> (\<lambda>_. m)) ?s = (e, s')"
    and m: "state_io_rel same_phase m"
  proof
    show "run_state (set_status DeleteStart \<bind> (\<lambda>_. do {
        e \<leftarrow> updateCHIObjectStatus c True;
        if e \<noteq> None then State_Monad.return None
        else do {
          deletePDB c;
          issue DeleteWatch;
          deleteServiceCHI c;
          each_host (\<lambda>a. call c (SyncTables a)) (chi_hosts (wc_clusters c));
          for_each (\<lambda>cluster. do { deleteCluster c cluster; skip }) (wc_clusters c);
          unless_done c None (do {
            deleteZooKeeper c;
            deleteConfigMapsCHI c;
            State_Monad.return None }) } })) ?s = (e, s')"
      using assms False unfolding deleteCHIProtocol_def
      by (simp add: run_unless_done run_bind take_installation_def)
  qed (intro kept; simp)
  obtain tr where "ws_trace s' = ws_trace ?s @ tr" "list_all (in_phase StatusTerminating) tr"
    using marked_phase [OF m run] unfolding phase_of_marks by blast
  then show ?thesis by (auto simp: take_installation_def)
next
  case True
  with assms show ?thesis
    unfolding deleteCHIProtocol_def by (auto simp: run_unless_done intro!: exI [of _ "[AskContext]"])
qed

lemma deleteCHI_run:
  assumes "run_state (deleteCHI c ev) s = (deleted, s')"
  shows "\<exists>tr n. ws_trace s' = ws_trace s @ tr \<and> written tr = replicate n StatusTerminating
    \<and> (deleted \<longrightarrow> ev_deleting ev) \<and> (\<not> deleted \<longrightarrow> n = 0)"
proof (cases "deleted")
  case True
  let ?s = "s\<lparr>ws_trace := ws_trace s @ [AskContext, ReadCHI]\<rparr>"
  obtain e t where protocol: "run_state (deleteCHIProtocol c ev) ?s = (e, t)"
    by (cases "run_state (deleteCHIProtocol c ev) ?s")
  with True assms have "ev_deleting ev" "run_state (uninstallFinalizer c) t = (fst (run_state (uninstallFinalizer c) t), s')"
    by (auto simp: deleteCHI_def run_unless_done run_bind split: if_splits prod.splits)
  moreover from finalizers_run(2) [OF this(2)] deleteCHIProtocol_run [OF protocol]
  obtain u v where "ws_trace t = ws_trace ?s @ u" "list_all (in_phase StatusTerminating) u"
    "ws_trace s' = ws_trace t @ v" "written v = []" by blast
  moreover from in_phase_written [OF this(2)] obtain n where "written u = replicate n StatusTerminating" by blast
  ultimately show ?thesis using True
    by (intro exI [of _ "[AskContext, ReadCHI] @ u @ v"] exI [of _ n]) simp
next
  case False
  with assms show ?thesis
    by (auto simp: deleteCHI_def run_unless_done run_bind split: if_splits prod.splits)
qed

lemma updateCHI_run:
  assumes "run_state (updateCHI c zo ev) s = (r, s')"
  shows "(\<exists>tr n. ws_trace s' = ws_trace s @ tr \<and> written tr = replicate n StatusTerminating \<and> ev_deleting ev)
    \<or> (\<exists>p t u v. ws_trace s' = ws_trace s @ p @ t @ u @ v \<and> written p = []
        \<and> list_all (in_phase (start_phase (ev_oldVersion ev \<noteq> None))) t \<and> list_all (in_phase StatusCompleted) u
        \<and> (list_all (in_phase (failed_phase (ev_oldVersion ev \<noteq> None))) v
          \<or> list_all (in_phase StatusRunning) v
            \<and> all_answered c (length (ws_trace s @ p)) (ws_trace s @ p @ t @ u) (chi_hosts (wc_clusters c))))"
    (is "?deleted \<or> ?carried")
proof -
  let ?s = "(asked s)\<lparr>ws_registryFailed := NewRegistry, ws_registryReconciled := NewRegistry\<rparr>"
  have quiet: ?carried if "ws_trace s' = ws_trace s @ p" "written p = []" for p
    using that by (intro exI [of _ p] exI [of _ "[]"]) simp
  obtain installed s1 where s1: "run_state (ensureFinalizer c (ev_deleting ev) (ev_Finalizers ev)) ?s = (installed, s1)"
    by (cases "run_state (ensureFinalizer c (ev_deleting ev) (ev_Finalizers ev)) ?s")
  obtain deleted s2 where s2: "run_state (deleteCHI c ev) s1 = (deleted, s2)"
    by (cases "run_state (deleteCHI c ev) s1")
  obtain t1 where t1: "ws_trace s1 = ws_trace s @ AskContext # t1" "written t1 = []"
    using ensureFinalizer_run [OF s1] by auto
  obtain t2 n where t2: "ws_trace s2 = ws_trace s1 @ t2" "written t2 = replicate n StatusTerminating"
    "deleted \<Longrightarrow> ev_deleting ev" "\<not> deleted \<Longrightarrow> n = 0"
    using deleteCHI_run [OF s2] by blast
  let ?taken = "snd (run_state (take_installation ev) s2)"
  consider (stopped) "s' = asked s" | (installed) "s' = s1" | (deleted) "deleted" "s' = s2"
    | (same) "\<not> deleted" "s' = ?taken"
    | (carried) ap where "\<not> deleted" "run_state (carry_out c zo ev ap (ev_oldVersion ev \<noteq> None)) ?taken = (r, s')"
    using assms unfolding updateCHI_def Let_def
    by (auto simp: run_unless_done run_bind s1 s2 take_installation_def split: if_splits sum.splits)
  then show ?thesis
  proof cases
    case stopped
    then have "ws_trace s' = ws_trace s @ [AskContext]" "written [AskContext] = []" by simp_all
    then show ?thesis using quiet by blast
  next
    case installed
    with t1 have "ws_trace s' = ws_trace s @ (AskContext # t1)" "written (AskContext # t1) = []" by simp_all
    then show ?thesis using quiet by blast
  next
    case deleted
    then show ?thesis using t1 t2 by (intro disjI1 exI [of _ "AskContext # t1 @ t2"] exI [of _ n]) simp
  next
    case same
    with t1 t2 have "ws_trace s' = ws_trace s @ (AskContext # t1 @ t2)" "written (AskContext # t1 @ t2) = []"
      by (simp_all add: take_installation_def)
    then show ?thesis using quiet by blast
  next
    case carried
    from carry_out_run [OF this(2)] obtain t u v
      where "ws_trace s' = ws_trace ?taken @ t @ u @ v"
        "list_all (in_phase (start_phase (ev_oldVersion ev \<noteq> None))) t" "list_all (in_phase StatusCompleted) u"
        "list_all (in_phase (failed_phase (ev_oldVersion ev \<noteq> None))) v
          \<or> list_all (in_phase StatusRunning) v
            \<and> all_answered c (length (ws_trace ?taken)) (ws_trace ?taken @ t @ u) (chi_hosts (wc_clusters c))"
      by blast
    moreover have "ws_trace ?taken = ws_trace s @ (AskContext # t1 @ t2)"
      using t1 t2 by (simp add: take_installation_def)
    moreover have "written (AskContext # t1 @ t2) = []" using t1 t2 carried(1) by simp
    ultimately show ?thesis
      by (intro disjI2 exI [of _ "AskContext # t1 @ t2"] exI [of _ t] exI [of _ u] exI [of _ v]) simp
  qed
qed


lemma phases_differ: "StatusRunning \<noteq> start_phase update" "StatusRunning \<noteq> failed_phase update"
  "StatusRunning \<noteq> StatusCompleted" "StatusRunning \<noteq> StatusTerminating"
  by (simp_all add: start_phase_def failed_phase_def status_names)

lemma not_in_other_phase: "list_all (in_phase p) tr \<Longrightarrow> q \<noteq> p \<Longrightarrow> q \<notin> set (written tr)"
  using in_phase_written [of p tr] by auto



section \<open>Deleting an installation\<close>

definition sts_of :: "worker_ctx \<Rightarrow> ChiHost \<Rightarrow> string" where
  "sts_of c host = CreateStatefulSetName (wc_sha1 c) (sp_Templates (in_Spec (wc_chi c))) host"

text \<open>What a trace says of a host that is deleted: its StatefulSet could not be read, or all of its objects were
  gone through, the ConfigMap among them.\<close>

definition let_go :: "worker_ctx \<Rightarrow> string \<Rightarrow> nat \<Rightarrow> nat \<Rightarrow> effect list \<Rightarrow> bool" where
  "let_go c name a n t = (
     list_ex (\<lambda>i. t ! i = GetSTS name \<and> an_error (wc_answers c) (take (Suc i) t) \<noteq> None) [n..<length t]
     \<or> DeleteHostConfigMap a \<in> set (drop n t))"

lemma let_go_append:
  assumes "let_go c name a n t" "m \<le> n"
  shows "let_go c name a m (t @ u)"
proof -
  have "set (drop n t) \<subseteq> set (drop m (t @ u))"
    using assms(2) set_drop_subset_set_drop [of m n t] by auto
  moreover have ?thesis if "n \<le> i" "i < length t" "t ! i = GetSTS name" "an_error (wc_answers c) (take (Suc i) t) \<noteq> None" for i
    using that assms(2) by (auto simp: let_go_def list_ex_iff nth_append intro!: disjI1 bexI [of _ i])
  ultimately show ?thesis
    using assms(1) by (auto simp: let_go_def list_ex_iff)
qed

lemma deleteHost_run:
  assumes "endless c" "run_state (deleteHost c a) s = (e, s')"
  shows "DeleteHostConfigMap a \<in> set (new_calls s s')"
proof -
  obtain e1 s1 where s1: "run_state (deleteStatefulSet c a) s = (e1, s1)" by (cases "run_state (deleteStatefulSet c a) s")
  obtain e2 s2 where s2: "run_state (deletePVC c a) s1 = (e2, s2)" by (cases "run_state (deletePVC c a) s1")
  let ?s3 = "s2\<lparr>ws_trace := ws_trace s2 @ [AskContext, DeleteHostConfigMap a]\<rparr>"
  let ?rest = "unless_done c None (do {
       name \<leftarrow> reads (\<lambda>s. CreateStatefulSetServiceName (wc_sha1 c) (sp_Templates (in_Spec (wc_chi c))) (host_at a s));
       deleteServiceIfExists c name })"
  have "state_io_rel hosts_stay ?rest" by (intro kept)
  moreover obtain e3 where "run_state ?rest ?s3 = (e3, s')"
    using assms not_endless [of c "asked s2"] by (auto simp: deleteHost_def run_bind run_unless_done s1 s2 split: prod.splits if_splits)
  ultimately have "hosts_stay ?s3 s'" by (rule state_io_relD)
  moreover have "hosts_stay s s1" "hosts_stay s1 s2"
    using state_io_relD [OF _ s1] state_io_relD [OF _ s2] by (blast intro: kept)+
  ultimately show ?thesis by (auto simp: hosts_stay_def new_calls_def)
qed

lemma worker_deleteHost_run:
  assumes "endless c"
  shows "let_go c (sts_of c (host_at a s)) a (length (ws_trace s)) (ws_trace (snd (run_state (worker_deleteHost c a) s)))"
proof -
  let ?name = "sts_of c (host_at a s)" and ?s = "asked s"
  let ?t = "ws_trace s @ [AskContext, GetSTS (sts_of c (host_at a s))]"
  have d: "\<not> done_at c x" for x using assms not_endless by blast
  show ?thesis
  proof (cases "an_error (wc_answers c) ?t")
    case None
    let ?s1 = "s\<lparr>ws_trace := ?t\<rparr>"
    obtain e2 s2 where s2: "run_state (deleteTables c a) ?s1 = (e2, s2)" by (cases "run_state (deleteTables c a) ?s1")
    obtain e3 s3 where s3: "run_state (deleteHost c a) s2 = (e3, s3)" by (cases "run_state (deleteHost c a) s2")
    let ?rest = "do {
       changes (\<lambda>s. s\<lparr>ws_Status := (ws_Status s)\<lparr>cs_DeletedHostsCount := cs_DeletedHostsCount (ws_Status s) + 1\<rparr>\<rparr>);
       updateCHIObjectStatus c True;
       State_Monad.return e3 }"
    have "state_io_rel hosts_stay ?rest" by (intro kept)
    moreover have "run_state (worker_deleteHost c a) s = run_state ?rest s3"
      using None d s2 s3 by (simp add: worker_deleteHost_def run_unless_done run_bind sts_name_def sts_of_def host_at_def)
    ultimately have "hosts_stay s3 (snd (run_state (worker_deleteHost c a) s))" by (simp add: state_io_rel_def)
    moreover have "hosts_stay ?s1 s2" using state_io_relD [OF _ s2] by (blast intro: kept)
    moreover have "hosts_stay s2 s3" using state_io_relD [OF _ s3] by (blast intro: kept)
    ultimately show ?thesis using deleteHost_run [OF assms s3] by (auto simp: let_go_def hosts_stay_def new_calls_def)
  next
    case (Some k)
    then have "snd (run_state (worker_deleteHost c a) s) = s\<lparr>ws_trace := ?t\<rparr>"
      using d by (simp add: worker_deleteHost_def run_unless_done run_bind sts_name_def sts_of_def host_at_def)
    with Some show ?thesis
      by (auto simp: let_go_def list_ex_iff nth_append intro!: disjI1 bexI [of _ "Suc (length (ws_trace s))"])
  qed
qed

definition at_store :: "host_store \<Rightarrow> nat \<Rightarrow> worker_state \<Rightarrow> bool" where
  "at_store S n s = (ws_store s = S \<and> n \<le> length (ws_trace s))"

definition host_gone :: "worker_ctx \<Rightarrow> host_store \<Rightarrow> nat \<Rightarrow> effect list \<Rightarrow> host_ptr \<Rightarrow> bool" where
  "host_gone c S n t host = (case host of None \<Rightarrow> True
     | Some a \<Rightarrow> let_go c (sts_of c (case store_get S (Some a) of None \<Rightarrow> newChiHost | Some h \<Rightarrow> h)) a n t)"

lemma stays:
  assumes "hosts_stay s t"
  shows "at_store S n s \<Longrightarrow> at_store S n t" "host_gone c S n (ws_trace s) h \<Longrightarrow> host_gone c S n (ws_trace t) h"
  using assms by (auto simp: at_store_def host_gone_def hosts_stay_def let_go_append split: option.splits)

lemma stays_run: "state_io_rel hosts_stay m \<Longrightarrow> run_state m s = (r, t) \<Longrightarrow> hosts_stay s t"
  by (rule state_io_relD)

lemma each_deleted:
  assumes "endless c" "at_store S n s" "h \<in> set hosts"
  shows "host_gone c S n (ws_trace (snd (run_state (each_host (worker_deleteHost c) hosts) s))) h"
  unfolding each_host_def
proof (rule stay.for_each_establishes [where I = "at_store S n" and Q = "\<lambda>h s. host_gone c S n (ws_trace s) h"])
  show "state_io_rel hosts_stay (case host of None \<Rightarrow> skip | Some a \<Rightarrow> do { worker_deleteHost c a; skip })" for host
    by (intro kept)
  show "host_gone c S n (ws_trace (snd (run_state (case host of None \<Rightarrow> skip | Some a \<Rightarrow> do { worker_deleteHost c a; skip }) s))) host"
    if "at_store S n s" for host s
  proof (cases host)
    case (Some a)
    have "let_go c (sts_of c (host_at a s)) a n (ws_trace (snd (run_state (worker_deleteHost c a) s)) @ [])"
      using that by (intro let_go_append [OF worker_deleteHost_run [OF assms(1)]]) (simp add: at_store_def)
    with that show ?thesis by (simp add: Some host_gone_def at_store_def host_at_def run_bind case_prod_beta)
  qed (simp add: host_gone_def)
qed (use assms stays in auto)

lemma deleteShard_run:
  assumes "endless c" "at_store S n s" "h \<in> set (sh_Hosts shard)"
  shows "host_gone c S n (ws_trace (snd (run_state (deleteShard c shard) s))) h"
proof -
  obtain e t where t: "run_state (deleteServiceShard c shard) (asked s) = (e, t)"
    by (cases "run_state (deleteServiceShard c shard) (asked s)")
  have "hosts_stay (asked s) t" using stays_run [OF _ t] by (blast intro: kept)
  moreover have "at_store S n (asked s)" using assms(2) by (simp add: at_store_def)
  ultimately have "at_store S n t" by (rule stays(1))
  from each_deleted [OF assms(1) this assms(3)] show ?thesis
    using not_endless assms(1) by (auto simp: deleteShard_def run_unless_done run_bind t split: prod.splits)
qed

lemma deleteCluster_run:
  assumes "endless c" "at_store S n s" "shard \<in> set (shards_of cluster)" "h \<in> set (sh_Hosts shard)"
  shows "host_gone c S n (ws_trace (snd (run_state (deleteCluster c cluster) s))) h"
proof -
  obtain e t where t: "run_state (deleteServiceCluster c cluster) (asked s) = (e, t)"
    by (cases "run_state (deleteServiceCluster c cluster) (asked s)")
  have "hosts_stay (asked s) t" using stays_run [OF _ t] by (blast intro: kept)
  moreover have "at_store S n (asked s)" using assms(2) by (simp add: at_store_def)
  ultimately have "at_store S n t" by (rule stays(1))
  have "\<forall>h \<in> set (sh_Hosts shard). host_gone c S n (ws_trace (snd (run_state
      (for_each (\<lambda>shard. do { deleteShard c shard; skip }) (shards_of cluster)) t))) h"
  proof (rule stay.for_each_establishes [where I = "at_store S n"
        and Q = "\<lambda>shard s. \<forall>h \<in> set (sh_Hosts shard). host_gone c S n (ws_trace s) h"])
    show "state_io_rel hosts_stay (do { deleteShard c shard; skip })" for shard by (intro kept)
    show "\<forall>h \<in> set (sh_Hosts sh). host_gone c S n (ws_trace (snd (run_state (do { deleteShard c sh; skip }) s))) h"
      if "at_store S n s" for sh s
      using deleteShard_run [OF assms(1) that] by (simp add: run_bind case_prod_beta)
  qed (use assms stays \<open>at_store S n t\<close> in auto)
  then show ?thesis
    using not_endless assms(1,4) by (auto simp: deleteCluster_def run_unless_done run_bind t split: prod.splits)
qed

text \<open>A write of the status is accepted whenever it is made.\<close>

definition accepts_status :: "worker_ctx \<Rightarrow> bool" where
  "accepts_status c = (\<forall>t st. an_error (wc_answers c) (t @ [WriteStatus st]) = None)"

lemma updateCHIObjectStatus_accepted:
  "endless c \<Longrightarrow> accepts_status c \<Longrightarrow> run_state (updateCHIObjectStatus c True) s = (e, s') \<Longrightarrow> e = None"
  using not_endless [of c] by (auto simp: updateCHIObjectStatus_def run_unless_done run_bind accepts_status_def split: if_splits)

text \<open>The protocol after the status was written.\<close>

definition delete_parts :: "worker_ctx \<Rightarrow> err work" where
  "delete_parts c = do {
     deletePDB c;
     issue DeleteWatch;
     deleteServiceCHI c;
     each_host (\<lambda>a. call c (SyncTables a)) (chi_hosts (wc_clusters c));
     for_each (\<lambda>cluster. do { deleteCluster c cluster; skip }) (wc_clusters c);
     unless_done c None (do {
       deleteZooKeeper c;
       deleteConfigMapsCHI c;
       State_Monad.return None }) }"

lemma delete_parts_run:
  assumes "endless c" "at_store S n s" "h \<in> set (chi_hosts (wc_clusters c))"
  shows "host_gone c S n (ws_trace (snd (run_state (delete_parts c) s))) h"
proof -
  let ?first = "do {
     deletePDB c;
     issue DeleteWatch;
     deleteServiceCHI c;
     each_host (\<lambda>a. call c (SyncTables a)) (chi_hosts (wc_clusters c)) }"
  let ?walk = "for_each (\<lambda>cluster. do { deleteCluster c cluster; skip }) (wc_clusters c)"
  let ?last = "unless_done c None (do { deleteZooKeeper c; deleteConfigMapsCHI c; State_Monad.return None }) :: err work"
  obtain cluster shard where cluster: "cluster \<in> set (wc_clusters c)"
    and shard: "shard \<in> set (shards_of cluster)" "h \<in> set (sh_Hosts shard)"
    using assms(3) by (auto simp: chi_hosts_def chi_shards_def)
  obtain x t where t: "run_state ?first s = (x, t)" by (cases "run_state ?first s")
  have "state_io_rel hosts_stay ?first" by (intro kept; simp)
  then have "at_store S n t" using stays(1) [OF stays_run [OF _ t] assms(2)] by blast
  obtain y u where u: "run_state ?walk t = (y, u)" by (cases "run_state ?walk t")
  have "\<forall>shard \<in> set (shards_of cluster). \<forall>h \<in> set (sh_Hosts shard).
      host_gone c S n (ws_trace (snd (run_state ?walk t))) h"
  proof (rule stay.for_each_establishes [where I = "at_store S n" and x = cluster
        and Q = "\<lambda>cluster s. \<forall>shard \<in> set (shards_of cluster). \<forall>h \<in> set (sh_Hosts shard). host_gone c S n (ws_trace s) h"])
    show "state_io_rel hosts_stay (do { deleteCluster c cluster; skip })" for cluster by (intro kept)
    show "\<forall>shard \<in> set (shards_of cl). \<forall>h \<in> set (sh_Hosts shard).
        host_gone c S n (ws_trace (snd (run_state (do { deleteCluster c cl; skip }) s))) h" if "at_store S n s" for cl s
      using deleteCluster_run [OF assms(1) that] by (simp add: run_bind case_prod_beta)
  qed (use stays \<open>at_store S n t\<close> cluster in auto)
  with u shard have "host_gone c S n (ws_trace u) h" by simp
  moreover have "hosts_stay u (snd (run_state (delete_parts c) s))"
  proof -
    have "run_state (delete_parts c) s = run_state ?last u"
      using t u by (auto simp: delete_parts_def run_bind split: prod.splits)
    moreover have "state_io_rel hosts_stay ?last" by (intro kept)
    ultimately show ?thesis by (simp add: state_io_rel_def)
  qed
  ultimately show ?thesis using stays(2) by blast
qed

definition finishing :: "effect \<Rightarrow> bool" where
  "finishing e = (e = AskContext \<or> e = ReadCHI \<or> writes_finalizers e)"

lemma uninstallFinalizer_finishing:
  "run_state (uninstallFinalizer c) s = (e, s') \<Longrightarrow> \<exists>tr. ws_trace s' = ws_trace s @ tr \<and> list_all finishing tr"
  unfolding uninstallFinalizer_def updateCHIObject_def obtained_finalizers_def
  by (auto simp: run_unless_done run_bind finishing_def split: if_splits)

lemma deleteCHIProtocol_hosts:
  assumes "endless c" "accepts_status c" "run_state (deleteCHIProtocol c ev) s = (e, s')"
  shows "\<exists>tr. ws_trace s' = ws_trace s @ tr \<and> list_all (\<lambda>e. \<not> writes_finalizers e) tr
    \<and> list_all (host_gone c (ev_hosts ev) (length (ws_trace s)) (ws_trace s')) (chi_hosts (wc_clusters c))"
proof -
  let ?s = "snd (run_state (do { take_installation ev; set_status DeleteStart }) (asked s))"
  obtain e1 t where t: "run_state (updateCHIObjectStatus c True) ?s = (e1, t)"
    by (cases "run_state (updateCHIObjectStatus c True) ?s")
  have e1: "e1 = None" using updateCHIObjectStatus_accepted [OF assms(1,2) t] .
  have rest: "run_state (delete_parts c) t = (e, s')"
    using assms(1,3) t e1 not_endless [of c "asked s"]
    by (auto simp: deleteCHIProtocol_def delete_parts_def run_unless_done run_bind split: if_splits prod.splits)
  have start: "ws_trace ?s = ws_trace s @ [AskContext]" "ws_store ?s = ev_hosts ev"
    by (simp_all add: run_bind take_installation_def set_status_def)
  have st: "hosts_stay ?s t" using stays_run [OF _ t] by (blast intro: kept)
  have "at_store (ev_hosts ev) (length (ws_trace s)) t"
    by (rule stays(1) [OF st]) (use start in \<open>unfold at_store_def, simp only: start length_append\<close>, simp)
  then have "list_all (host_gone c (ev_hosts ev) (length (ws_trace s)) (ws_trace s')) (chi_hosts (wc_clusters c))"
    using delete_parts_run [OF assms(1)] rest by (fastforce simp: list_all_iff)
  moreover have "state_io_rel hosts_stay (delete_parts c)" unfolding delete_parts_def by (intro kept; simp)
  then have "hosts_stay t s'" using stays_run [OF _ rest] by blast
  ultimately show ?thesis using st start by (auto simp: hosts_stay_def)
qed


text \<open>An environment that answers each call by itself.\<close>

definition answers_by :: "(effect \<Rightarrow> err) \<Rightarrow> worker_ctx \<Rightarrow> bool" where
  "answers_by f c = (\<forall>t. an_error (wc_answers c) t = f (last t))"

lemma answers_by_simp [simp]: "answers_by f c \<Longrightarrow> an_error (wc_answers c) t = f (last t)"
  by (simp add: answers_by_def)

definition status_rejected :: "effect \<Rightarrow> err" where
  "status_rejected e = (case e of WriteStatus st \<Rightarrow> Some KubeError | _ \<Rightarrow> None)"

text \<open> What happens when the status cannot be written. The deletion protocol gives up silently before it has
  deleted anything, and the finalizer is removed all the same: apart from reading the installation, the whole
  deletion consists of the rejected write and of the write of the finalizers. The cluster then drops the installation
  while its StatefulSets, services, ConfigMaps and volume claims are still there.\<close>
theorem finalizer_removed_undeleted:
  assumes "endless c" "answers_by status_rejected c" "ev_deleting ev" "InArray FinalizerName (ev_Finalizers ev)"
  shows "\<exists>fs. new_calls s (snd (run_state (deleteCHI c ev) s)) =
    [AskContext, ReadCHI, AskContext, AskContext, ReadCHI, AskContext, WriteStatus (DeleteStart (ev_Status ev)),
     AskContext, ReadCHI, AskContext, WriteFinalizers (RemoveFromArray FinalizerName fs)]"
proof -
  have d: "\<not> done_at c x" for x using assms(1) not_endless by blast
  show ?thesis
    using assms(2-4)
    by (auto simp: deleteCHI_def deleteCHIProtocol_def updateCHIObjectStatus_def uninstallFinalizer_def updateCHIObject_def
        obtained_finalizers_def take_installation_def set_status_def run_unless_done run_bind d status_rejected_def new_calls_def)
qed

section \<open>The ZooKeeper ensemble\<close>

definition none_installed :: "effect \<Rightarrow> err" where
  "none_installed e = (case e of GetSTS n \<Rightarrow> Some KubeNotFound | _ \<Rightarrow> None)"

lemma register_zk_status [simp]: "ws_Status (snd (run_state (register_zk sts n e) s)) = ws_Status s"
proof -
  have "ws_Status (snd (run_state (for_each (\<lambda>i. register PVC (zk_claim sts i) e) is) s)) = ws_Status s" for "is" s
    by (induction "is" arbitrary: s) (simp_all add: run_bind register_def)
  then show ?thesis by (simp add: register_zk_def run_bind register_def)
qed

lemma reconcile_service_quiet:
  assumes "endless c" "answers_by none_installed c"
  shows "fst (run_state (reconcile_service c m) s) = None \<and> ws_Status (snd (run_state (reconcile_service c m) s)) = ws_Status s"
proof -
  have d: "\<not> done_at c x" for x using assms(1) not_endless by blast
  show ?thesis
    using assms(2)
    by (cases m) (simp_all add: reconcile_service_def reconcileService_def run_unless_done run_bind d register_def none_installed_def)
qed

text \<open>The status carries the normalized specification, or nothing when the operator is quiet.\<close>

definition carries_spec :: "worker_ctx \<Rightarrow> ChiStatus \<Rightarrow> bool" where
  "carries_spec c st = (cs_NormalizedCHI st = None \<or> cs_NormalizedCHI st = Some (in_Spec (wc_chi c)))"

lemma set_zk_nodes_run:
  assumes "zookeeper_of (wc_chi c) = Some zk" "0 \<le> sint (zk_Replica zk)" "carries_spec c st"
  shows "set_zk_nodes zk fqdn st = (if cs_NormalizedCHI st = None then Inl NilDereference
    else Inr (st\<lparr>cs_NormalizedCHI := Some ((in_Spec (wc_chi c))\<lparr>sp_Configuration := Some ((the (sp_Configuration (in_Spec (wc_chi c))))
      \<lparr>cf_Zookeeper := Some (zk\<lparr>zk_Nodes := map (\<lambda>i. \<lparr>zkn_Host = fqdn i, zkn_Port = zk_Port zk\<rparr>) [0..sint (zk_Replica zk) - 1]\<rparr>)\<rparr>)\<rparr>)\<rparr>))"
  using assms
  by (auto simp: set_zk_nodes_def carries_spec_def zookeeper_of_def zk_nodes_def go_make_def go_bind_def copy_slice_def Let_def
      split: option.splits Option.bind_splits)

lemma zk_parts_quiet:
  assumes "endless c" "answers_by none_installed c"
  shows "\<exists>t. run_state (and_then (reconcileZooKeeperServiceServer c zo)
      (and_then (reconcileZooKeeperServiceClient c zo) (reconcileZooKeeperPDB c))) s = (None, t) \<and> ws_Status t = ws_Status s"
proof -
  have d: "\<not> done_at c x" for x using assms(1) not_endless by blast
  have service: "\<exists>t. run_state (reconcile_service c m) s = (None, t) \<and> ws_Status t = ws_Status s" for m s
    using reconcile_service_quiet [OF assms, of m s] by (cases "run_state (reconcile_service c m) s") simp
  obtain t where t: "run_state (reconcile_service c (zo_ServiceServer zo)) (asked s) = (None, t)" "ws_Status t = ws_Status s"
    using service [of "zo_ServiceServer zo" "asked s"] by auto
  obtain u where u: "run_state (reconcile_service c (zo_ServiceClient zo)) (asked t) = (None, u)" "ws_Status u = ws_Status s"
    using service [of "zo_ServiceClient zo" "asked t"] t by auto
  show ?thesis
    using assms(2) t u
    by (simp add: and_then_def reconcileZooKeeperServiceServer_def reconcileZooKeeperServiceClient_def reconcileZooKeeperPDB_def
        reconcilePDB_def run_unless_done run_bind d none_installed_def)
qed

lemma zookeeper_run:
  assumes "endless c" "answers_by none_installed c" "zookeeper_of (wc_chi c) = Some zk" "zk_Install zk" "zk_Nodes zk = []"
  shows "\<exists>t. run_state (reconcileZooKeeper c zo) s =
      (case set_zk_nodes zk (zo_FQDN zo) (ws_Status s) of Inl p \<Rightarrow> Inl p | Inr st \<Rightarrow> Inr None, t)
    \<and> (\<forall>st. set_zk_nodes zk (zo_FQDN zo) (ws_Status s) = Inr st \<longrightarrow> ws_Status t = st)"
proof -
  have d: "\<not> done_at c x" for x using assms(1) not_endless by blast
  let ?s = "s\<lparr>ws_trace := ws_trace s @ [AskContext, GetSTS (om_Name (sts_Meta (zo_StatefulSet zo)))]\<rparr>"
  obtain u where u: "run_state (and_then (reconcileZooKeeperServiceServer c zo)
      (and_then (reconcileZooKeeperServiceClient c zo) (reconcileZooKeeperPDB c))) ?s = (None, u)" "ws_Status u = ws_Status s"
    using zk_parts_quiet [OF assms(1,2), of zo ?s] by auto
  have first: "run_state (reconcileZooKeeper c zo) s = run_state (reconcileZooKeeperStatefulSet c zo zk) u"
    using assms(2-) u d by (simp add: reconcileZooKeeper_def run_unless_done run_bind none_installed_def)
  show ?thesis
  proof (cases "set_zk_nodes zk (zo_FQDN zo) (ws_Status s)")
    case (Inl p)
    then show ?thesis
      using assms(2) u(2) unfolding first
      by (simp add: reconcileZooKeeperStatefulSet_def Let_def createStatefulSetZooKeeper_def c_createStatefulSetZooKeeper_def
          run_unless_done run_bind d none_installed_def)
  next
    case (Inr st)
    then show ?thesis
      using assms(2) u(2) unfolding first
      by (simp add: reconcileZooKeeperStatefulSet_def Let_def createStatefulSetZooKeeper_def c_createStatefulSetZooKeeper_def
          updateCHIObjectStatus_def set_status_def run_unless_done run_bind d none_installed_def case_prod_beta)
  qed
qed

text \<open> Installing ZooKeeper where there is none and everything asked for succeeds. The nodes of the ensemble,
  one for each replica, with its host name and the client port, are written into the specification that the status
  carries; but an operator that does not log verbosely has left that specification out, and then the step ends in a
  nil dereference after the StatefulSet was created.\<close>
theorem zookeeper_nodes_or_panic:
  assumes "endless c" "answers_by none_installed c" "zookeeper_of (wc_chi c) = Some zk" "zk_Install zk" "zk_Nodes zk = []"
    and "0 \<le> sint (zk_Replica zk)" "carries_spec c (ws_Status s)"
  shows "case run_state (reconcileZooKeeper c zo) s of (r, s') \<Rightarrow>
    if cs_NormalizedCHI (ws_Status s) = None then r = Inl NilDereference
    else r = Inr None
      \<and> map_option zk_Nodes (Option.bind (cs_NormalizedCHI (ws_Status s')) (\<lambda>spec. Option.bind (sp_Configuration spec) cf_Zookeeper))
        = Some (map (\<lambda>i. \<lparr>zkn_Host = zo_FQDN zo i, zkn_Port = zk_Port zk\<rparr>) [0..sint (zk_Replica zk) - 1])"
  using zookeeper_run [OF assms(1-5), of zo s] set_zk_nodes_run [OF assms(3,6,7), of "zo_FQDN zo"]
  by (auto split: if_splits)

section \<open>Where everything succeeds\<close>

lemma calm_reconcile_service:
  assumes "\<And>t. an_error (wc_answers c) t = None"
  shows "succeeds (reconcile_service c m)"
  using assms
  by (cases m) (simp_all add: succeeds_def reconcile_service_def reconcileService_def register_def run_unless_done run_bind)

lemma calm_walk: "(\<And>x. succeeds (f x)) \<Longrightarrow> succeeds (walk_till_error f xs)"
proof (induction xs)
  case (Cons x xs)
  then have "succeeds (walk_till_error f xs)" "succeeds (f x)" by blast+
  then show ?case by (auto intro: succeeds_then simp: succeeds_rules)
qed (simp add: succeeds_rules)

lemma calm_and_then: "succeeds m \<Longrightarrow> succeeds n \<Longrightarrow> succeeds (and_then m n)"
  unfolding and_then_def by (rule succeeds_then) simp_all

lemma calm_reconcileCHIConfigMapCommon:
  assumes "\<And>t. an_error (wc_answers c) t = None"
  shows "succeeds (reconcileCHIConfigMapCommon c options)"
  unfolding reconcileCHIConfigMapCommon_def
  by (rule succeeds_rules(2), rule succeeds_rules(3), rule succeeds_then [OF calm_reconcileConfigMap [OF assms]])
    (simp add: succeeds_rules(1,3))

lemma calm_reconcileCHIAuxObjectsPreliminary:
  assumes "\<And>t. an_error (wc_answers c) t = None"
  shows "succeeds (reconcileCHIAuxObjectsPreliminary c)"
proof -
  have first: "succeeds (if IsStopped (wc_chi c)
       then do {
         unless_done c None (deleteServiceIfExists c
           (CreateCHIServiceName (wc_sha1 c) (in_Meta (wc_chi c)) (in_Spec (wc_chi c))));
         State_Monad.return None }
       else reconcile_service c (wc_ServiceCHI c))"
    using calm_reconcile_service [OF assms] by (auto intro!: succeeds_rules)
  show ?thesis
    unfolding reconcileCHIAuxObjectsPreliminary_def
    by (rule succeeds_rules(2), rule succeeds_then [OF first]) (simp add: succeeds_rules(1,3))
qed

lemma calm_reconcile:
  assumes "\<And>t. an_error (wc_answers c) t = None" "zookeeper_of (wc_chi c) = None"
  shows "fst (run_state (reconcile c zo) s) = Inr None"
proof -
  have "succeeds (WalkTillError (State_Monad.return None) (reconcileCHIAuxObjectsPreliminary c) (reconcileCluster c)
      (reconcileShard c) (reconcileHost c) (reconcileCHIAuxObjectsFinal c) (wc_clusters c))"
    unfolding WalkTillError_def reconcileCluster_def reconcileShard_def reconcileCHIAuxObjectsFinal_def
    by (intro calm_and_then calm_walk succeeds_rules(1,2) calm_reconcileCHIAuxObjectsPreliminary calm_reconcile_service
        calm_reconcileCHIConfigMapCommon assms(1)) (auto intro: succeeds_rules calm_reconcileHost assms(1) split: option.split)
  moreover have "run_state (reconcileZooKeeper c zo) t = (Inr None, asked t)" for t
    using assms(2) by (simp add: reconcileZooKeeper_def run_unless_done)
  ultimately show ?thesis
    by (simp add: reconcile_def run_unless_done run_bind succeeds_def prod.case_eq_if)
qed

lemma calm_updateCHIObjectStatus:
  assumes "\<And>t. an_error (wc_answers c) t = None" "endless c"
  shows "run_state (updateCHIObjectStatus c b) s =
    (None, s\<lparr>ws_trace := ws_trace s @ [AskContext, ReadCHI, AskContext, WriteStatus (ws_Status s)]\<rparr>)"
  using assms(1) not_endless [of c] assms(2) by (auto simp: updateCHIObjectStatus_def run_unless_done run_bind)

lemma calm_ping_hosts:
  assumes "\<And>t. an_error (wc_answers c) t = None"
  shows "fst (run_state (ping_hosts c hosts) s) = False"
  using assms
proof (induction c hosts arbitrary: s rule: ping_hosts.induct)
  case (3 c a hosts)
  then show ?case by (simp add: run_bind prod.case_eq_if)
qed simp_all

definition ends_running :: "worker_state \<Rightarrow> bool" where
  "ends_running s = (case rev (ws_trace s) of WriteStatus st # _ \<Rightarrow> cs_Status st = StatusRunning | _ \<Rightarrow> False)"

lemma calm_carry_out:
  assumes "\<And>t. an_error (wc_answers c) t = None" "endless c" "zookeeper_of (wc_chi c) = None"
  shows "fst (run_state (carry_out c zo ev ap update) s) = Inr None
    \<and> ends_running (snd (run_state (carry_out c zo ev ap update) s))"
proof -
  have complete: "ends_running (snd (run_state (markReconcileComplete c update) t))" for t
    using calm_ping_hosts [OF assms(1)] calm_updateCHIObjectStatus [OF assms(1,2)]
    by (simp add: markReconcileComplete_def run_bind set_status_def ends_running_def prod.case_eq_if)
  show ?thesis
    using calm_reconcile [OF assms(1,3)] complete
    by (simp add: carry_out_def run_bind prod.case_eq_if)
qed

lemma updateCHI_carries_out:
  assumes "endless c" "ev_oldVersion ev \<noteq> Some (ev_newVersion ev)" "\<not> ev_deleting ev"
    and "InArray FinalizerName (ev_Finalizers ev)"
    and "NewActionPlan (ev_diff ev) (Some (ev_old ev)) (Some (ev_new ev)) = Inr ap" "HasActionsToDo ap"
  shows "\<exists>t. run_state (updateCHI c zo ev) s = run_state (carry_out c zo ev ap (ev_oldVersion ev \<noteq> None)) t"
  using assms not_endless [of c]
  by (auto simp: updateCHI_def ensureFinalizer_def deleteCHI_def take_installation_def run_unless_done run_bind)


section \<open>An operator at work\<close>

definition one_host_operator :: "answers \<Rightarrow> Installation \<Rightarrow> worker_ctx" where
  "one_host_operator env chi = plain_operator env [one_host_cluster] chi"

definition plain_event :: "bool \<Rightarrow> nat chi_event" where
  "plain_event deleting = \<lparr>ev_oldVersion = Some ''1'', ev_newVersion = ''2'', ev_deleting = deleting,
     ev_Finalizers = [FinalizerName], ev_diff = flat_diff, ev_old = flat_installation 1 [],
     ev_new = flat_installation 2 [FinalizerName], ev_oldClusters = [], ev_Status = blank_status, ev_hosts = [newChiHost]\<rparr>"

definition plain_zookeeper :: zk_objects where
  "plain_zookeeper = \<lparr>zo_StatefulSet = versioned ''zk'', zo_ServiceServer = None, zo_ServiceClient = None, zo_FQDN = (\<lambda>i. Itoa i)\<rparr>"

lemma one_host_operator_simps [simp]:
  "wc_answers (one_host_operator env chi) = env" "wc_chi (one_host_operator env chi) = chi"
  "chi_hosts (wc_clusters (one_host_operator env chi)) = [Some 0]"
  "endless (one_host_operator unanswered chi)" "an_error unanswered t = None"
  by (simp_all add: one_host_operator_def chi_hosts_def chi_shards_def shards_of_def one_host_cluster_def one_host_shard_def
      endless_def unanswered_def)

lemma plain_event_simps [simp]:
  "ev_oldVersion (plain_event b) = Some ''1''" "ev_newVersion (plain_event b) = ''2''" "ev_deleting (plain_event b) = b"
  "FinalizerName \<in> set (ev_Finalizers (plain_event b))" "ev_Status (plain_event b) = blank_status"
  "ev_hosts (plain_event b) = [newChiHost]" "zookeeper_of plain_installation = None"
  by (simp_all add: plain_event_def zookeeper_of_def plain_installation_def newChiSpec_def)

lemma one_host_worker_simps [simp]:
  "ws_trace one_host_worker = []" "ws_Status one_host_worker = blank_status" "status_ok blank_status"
  by (simp_all add: one_host_worker_def status_ok_def blank_status_def known_statuses_def)

lemma plain_plan:
  obtains ap where "NewActionPlan (ev_diff (plain_event b)) (Some (ev_old (plain_event b))) (Some (ev_new (plain_event b))) = Inr ap"
    "HasActionsToDo ap"
proof -
  obtain ap where ap: "NewActionPlan (ev_diff (plain_event b)) (Some (ev_old (plain_event b))) (Some (ev_new (plain_event b))) = Inr ap"
    by (simp add: NewActionPlan_def Let_def)
  moreover from HasActionsToDo_iff [OF flat_diff_ok] ap have "HasActionsToDo ap"
    by (simp add: plain_event_def flat_installation_def flat_diff_def FinalizerName_def)
  ultimately show thesis using that by blast
qed





definition rejecting :: "(effect \<Rightarrow> err) \<Rightarrow> answers" where
  "rejecting f = unanswered\<lparr>an_error := (\<lambda>t. f (last t))\<rparr>"

lemma rejecting_simps [simp]: "endless (one_host_operator (rejecting f) chi)" "answers_by f (one_host_operator (rejecting f) chi)"
  by (simp_all add: rejecting_def endless_def unanswered_def answers_by_def one_host_operator_def)

theorem finalizer_removed_undeleted_witness:
  "\<exists>fs. ws_trace (snd (run_state (deleteCHI (one_host_operator (rejecting status_rejected) plain_installation) (plain_event True)) one_host_worker)) =
    [AskContext, ReadCHI, AskContext, AskContext, ReadCHI, AskContext, WriteStatus (DeleteStart blank_status),
     AskContext, ReadCHI, AskContext, WriteFinalizers (RemoveFromArray FinalizerName fs)]"
  using finalizer_removed_undeleted [of "one_host_operator (rejecting status_rejected) plain_installation" "plain_event True" one_host_worker]
  by (simp add: new_calls_def)

definition zookeeper_installation :: Installation where
  "zookeeper_installation = plain_installation\<lparr>in_Spec := newChiSpec\<lparr>sp_Configuration := Some (NewConfiguration\<lparr>cf_Zookeeper :=
     Some (NewChiZookeeperConfig\<lparr>zk_Install := True, zk_Replica := 3\<rparr>)\<rparr>)\<rparr>\<rparr>"

theorem zookeeper_nodes_or_panic_witness:
  "fst (run_state (reconcileZooKeeper (one_host_operator (rejecting none_installed) zookeeper_installation) plain_zookeeper) one_host_worker)
     = Inl NilDereference"
proof -
  let ?c = "one_host_operator (rejecting none_installed) zookeeper_installation"
  let ?zk = "NewChiZookeeperConfig\<lparr>zk_Install := True, zk_Replica := 3\<rparr>"
  have zk: "zookeeper_of (wc_chi ?c) = Some ?zk" "zk_Install ?zk" "zk_Nodes ?zk = []" "0 \<le> sint (zk_Replica ?zk)"
    by (simp_all add: zookeeper_of_def zookeeper_installation_def plain_installation_def NewChiZookeeperConfig_def)
  have quiet: "cs_NormalizedCHI (ws_Status one_host_worker) = None" by (simp add: blank_status_def)
  then have "carries_spec ?c (ws_Status one_host_worker)" by (simp add: carries_spec_def)
  from zookeeper_nodes_or_panic [OF _ _ zk this, of plain_zookeeper] quiet show ?thesis
    by (simp add: prod.case_eq_if)
qed

end
