(* ===== verification/Affinity.thy ===== *)
theory Affinity
  imports Labels
begin

text \<open>
  The affinity of a pod template: \<open>pkg/model/affinity.go\<close>, with \<open>normalizePodTemplate\<close> of the normalizer,
  which builds the affinity of the pod distributions and merges it into that of the user, and
  \<open>getPodTemplate\<close> of the creator, which puts the names of a host in the place of the macros.

  The equality by which terms are merged is that of the package messagediff and is a parameter
  (\<open>DeepDiff\<close>). A field that may be nil and that the code looks into is an option; of the fields of a
  template those \<open>ChiTemplates\<close> keeps are modelled.
\<close>

section \<open>Macros\<close>

definition macrosNamespace :: string where "macrosNamespace = ''{namespace}''"
definition macrosChiName :: string where "macrosChiName = ''{chi}''"
definition macrosClusterName :: string where "macrosClusterName = ''{cluster}''"
definition macrosShardName :: string where "macrosShardName = ''{shard}''"
definition macrosReplicaName :: string where "macrosReplicaName = ''{replica}''"
definition macrosClusterScopeCycleIndex :: string where
  "macrosClusterScopeCycleIndex = ''{clusterScopeCycleIndex}''"
definition macrosClusterScopeCycleHeadPointsToPreviousCycleTail :: string where
  "macrosClusterScopeCycleHeadPointsToPreviousCycleTail = ''{clusterScopeCycleHeadPointsToPreviousCycleTail}''"

lemmas macros = macrosNamespace_def macrosChiName_def macrosClusterName_def macrosShardName_def
  macrosReplicaName_def macrosClusterScopeCycleIndex_def
  macrosClusterScopeCycleHeadPointsToPreviousCycleTail_def

section \<open>The affinity of a template\<close>

definition newNodeAffinity :: "ChiPodTemplate \<Rightarrow> NodeAffinity option" where
  "newNodeAffinity template = (if pt_ZoneKey template = '''' then None
     else Some \<lparr>na_Required = Some [\<lparr>nst_MatchExpressions = [\<lparr>nsr_Key = pt_ZoneKey template, nsr_Operator = ''In'',
         nsr_Values = pt_ZoneValues template\<rparr>], nst_MatchFields = []\<rparr>],
       na_Preferred = []\<rparr>)"

definition newPodAffinityTermWithMatchLabels :: "ChiPodDistribution \<Rightarrow> strmap \<Rightarrow> PodAffinityTerm" where
  "newPodAffinityTermWithMatchLabels pd matchLabels =
     \<lparr>pat_LabelSelector = Some \<lparr>lse_MatchLabels = matchLabels, lse_MatchExpressions = []\<rparr>,
      pat_Namespaces = [], pat_TopologyKey = pd_TopologyKey pd\<rparr>"

definition newPodAffinityTermWithMatchExpressions ::
    "ChiPodDistribution \<Rightarrow> LabelSelectorRequirement list \<Rightarrow> PodAffinityTerm" where
  "newPodAffinityTermWithMatchExpressions pd matchExpressions =
     \<lparr>pat_LabelSelector = Some \<lparr>lse_MatchLabels = [], lse_MatchExpressions = matchExpressions\<rparr>,
      pat_Namespaces = [], pat_TopologyKey = pd_TopologyKey pd\<rparr>"

definition newWeightedPodAffinityTermWithMatchLabels ::
    "int \<Rightarrow> ChiPodDistribution \<Rightarrow> strmap \<Rightarrow> WeightedPodAffinityTerm" where
  "newWeightedPodAffinityTermWithMatchLabels weight pd matchLabels = \<lparr>wpt_Weight = weight,
     wpt_PodAffinityTerm = \<lparr>pat_LabelSelector = Some \<lparr>lse_MatchLabels = matchLabels, lse_MatchExpressions = []\<rparr>,
       pat_Namespaces = [], pat_TopologyKey = pd_TopologyKey pd\<rparr>\<rparr>"

definition require :: "PodAffinityTerm \<Rightarrow> PodAffinity \<Rightarrow> PodAffinity" where
  "require t pa = pa\<lparr>pa_Required := pa_Required pa @ [t]\<rparr>"

definition prefer_term :: "WeightedPodAffinityTerm \<Rightarrow> PodAffinity \<Rightarrow> PodAffinity" where
  "prefer_term t pa = pa\<lparr>pa_Preferred := pa_Preferred pa @ [t]\<rparr>"

text \<open>One round of the loop of \<open>newPodAffinity\<close>.\<close>

definition add_affinity :: "ChiPodDistribution \<Rightarrow> PodAffinity \<Rightarrow> PodAffinity" where
  "add_affinity pd pa =
     (if pd_Type pd = PodDistributionNamespaceAffinity
      then prefer_term (newWeightedPodAffinityTermWithMatchLabels 1 pd [(LabelNamespace, macrosNamespace)]) pa
      else if pd_Type pd = PodDistributionClickHouseInstallationAffinity
      then prefer_term (newWeightedPodAffinityTermWithMatchLabels 1 pd [(LabelCHIName, macrosChiName)]) pa
      else if pd_Type pd = PodDistributionClusterAffinity
      then prefer_term (newWeightedPodAffinityTermWithMatchLabels 1 pd [(LabelClusterName, macrosClusterName)]) pa
      else if pd_Type pd = PodDistributionShardAffinity
      then prefer_term (newWeightedPodAffinityTermWithMatchLabels 1 pd [(LabelShardName, macrosShardName)]) pa
      else if pd_Type pd = PodDistributionReplicaAffinity
      then prefer_term (newWeightedPodAffinityTermWithMatchLabels 1 pd [(LabelReplicaName, macrosReplicaName)]) pa
      else if pd_Type pd = PodDistributionPreviousTailAffinity
      then prefer_term (newWeightedPodAffinityTermWithMatchLabels 1 pd
             [(LabelClusterScopeIndex, macrosClusterScopeCycleHeadPointsToPreviousCycleTail)])
           (require (newPodAffinityTermWithMatchLabels pd
             [(LabelClusterScopeIndex, macrosClusterScopeCycleHeadPointsToPreviousCycleTail)]) pa)
      else pa)"

definition newPodAffinity :: "ChiPodTemplate \<Rightarrow> PodAffinity option" where
  "newPodAffinity template =
     (let podAffinity = fold add_affinity (pt_PodDistribution template) \<lparr>pa_Required = [], pa_Preferred = []\<rparr>
      in if length (pa_Preferred podAffinity) > 0 then Some podAffinity else None)"

text \<open>The labels a scope adds; a scope that is not known adds none, as a nil map does.\<close>

definition scopeLabels :: "string \<Rightarrow> strmap" where
  "scopeLabels scope =
     (if scope = PodDistributionScopeShard
      then [(LabelNamespace, macrosNamespace), (LabelCHIName, macrosChiName),
            (LabelClusterName, macrosClusterName), (LabelShardName, macrosShardName)]
      else if scope = PodDistributionScopeReplica
      then [(LabelNamespace, macrosNamespace), (LabelCHIName, macrosChiName),
            (LabelClusterName, macrosClusterName), (LabelReplicaName, macrosReplicaName)]
      else if scope = PodDistributionScopeCluster
      then [(LabelNamespace, macrosNamespace), (LabelCHIName, macrosChiName),
            (LabelClusterName, macrosClusterName)]
      else if scope = PodDistributionScopeClickHouseInstallation
      then [(LabelNamespace, macrosNamespace), (LabelCHIName, macrosChiName)]
      else if scope = PodDistributionScopeNamespace
      then [(LabelNamespace, macrosNamespace)]
      else [])"

definition newMatchLabels :: "ChiPodDistribution \<Rightarrow> strmap \<Rightarrow> strmap" where
  "newMatchLabels pd matchLabels = merge_labels matchLabels (scopeLabels (pd_Scope pd))"

definition not_in :: "string \<Rightarrow> string \<Rightarrow> LabelSelectorRequirement" where
  "not_in key v = \<lparr>lsr_Key = key, lsr_Operator = ''NotIn'', lsr_Values = [v]\<rparr>"

text \<open>One round of the loop of \<open>newPodAntiAffinity\<close>.\<close>

definition add_anti_affinity :: "ChiPodDistribution \<Rightarrow> PodAffinity \<Rightarrow> PodAffinity" where
  "add_anti_affinity pd pa =
     (if pd_Type pd = PodDistributionClickHouseAntiAffinity
      then require (newPodAffinityTermWithMatchLabels pd (newMatchLabels pd [(LabelAppName, LabelAppValue)])) pa
      else if pd_Type pd = PodDistributionMaxNumberPerNode
      then require (newPodAffinityTermWithMatchLabels pd
             (newMatchLabels pd [(LabelClusterScopeCycleIndex, macrosClusterScopeCycleIndex)])) pa
      else if pd_Type pd = PodDistributionShardAntiAffinity
      then require (newPodAffinityTermWithMatchLabels pd (newMatchLabels pd [(LabelShardName, macrosShardName)])) pa
      else if pd_Type pd = PodDistributionReplicaAntiAffinity
      then require (newPodAffinityTermWithMatchLabels pd (newMatchLabels pd [(LabelReplicaName, macrosReplicaName)])) pa
      else if pd_Type pd = PodDistributionAnotherNamespaceAntiAffinity
      then require (newPodAffinityTermWithMatchExpressions pd [not_in LabelNamespace macrosNamespace]) pa
      else if pd_Type pd = PodDistributionAnotherClickHouseInstallationAntiAffinity
      then require (newPodAffinityTermWithMatchExpressions pd [not_in LabelCHIName macrosChiName]) pa
      else if pd_Type pd = PodDistributionAnotherClusterAntiAffinity
      then require (newPodAffinityTermWithMatchExpressions pd [not_in LabelClusterName macrosClusterName]) pa
      else pa)"

definition newPodAntiAffinity :: "ChiPodTemplate \<Rightarrow> PodAffinity option" where
  "newPodAntiAffinity template =
     (let podAntiAffinity = fold add_anti_affinity (pt_PodDistribution template)
            \<lparr>pa_Required = [], pa_Preferred = []\<rparr>
      in if length (pa_Required podAntiAffinity) > 0 then Some podAntiAffinity else None)"

definition newAffinity :: "ChiPodTemplate \<Rightarrow> Affinity option" where
  "newAffinity template =
     (let nodeAffinity = newNodeAffinity template; podAffinity = newPodAffinity template;
          podAntiAffinity = newPodAntiAffinity template
      in if nodeAffinity = None \<and> podAffinity = None \<and> podAntiAffinity = None then None
         else Some \<lparr>af_NodeAffinity = nodeAffinity, af_PodAffinity = podAffinity,
           af_PodAntiAffinity = podAntiAffinity\<rparr>)"

section \<open>Merging\<close>

record DeepDiff =
  dd_NodeSelectorTerm :: "NodeSelectorTerm \<Rightarrow> NodeSelectorTerm \<Rightarrow> bool"
  dd_PreferredSchedulingTerm :: "PreferredSchedulingTerm \<Rightarrow> PreferredSchedulingTerm \<Rightarrow> bool"
  dd_PodAffinityTerm :: "PodAffinityTerm \<Rightarrow> PodAffinityTerm \<Rightarrow> bool"
  dd_WeightedPodAffinityTerm :: "WeightedPodAffinityTerm \<Rightarrow> WeightedPodAffinityTerm \<Rightarrow> bool"

text \<open>A term is appended when no term that is there already equals it.\<close>

definition merge_term :: "('a \<Rightarrow> 'a \<Rightarrow> bool) \<Rightarrow> 'a \<Rightarrow> 'a list \<Rightarrow> 'a list" where
  "merge_term eq s ds = (if list_ex (eq s) ds then ds else ds @ [s])"

definition merge_terms :: "('a \<Rightarrow> 'a \<Rightarrow> bool) \<Rightarrow> 'a list \<Rightarrow> 'a list \<Rightarrow> 'a list" where
  "merge_terms eq src dst = fold (merge_term eq) src dst"

text \<open>The required terms are read through two pointers, either of which may be nil.\<close>

definition merge_required :: "DeepDiff \<Rightarrow> NodeSelectorTerm \<Rightarrow> NodeAffinity \<Rightarrow> NodeAffinity go" where
  "merge_required dd s d = (case na_Required d of
     None \<Rightarrow> Inl NilDereference
   | Some ts \<Rightarrow> Inr (d\<lparr>na_Required := Some (merge_term (dd_NodeSelectorTerm dd) s ts)\<rparr>))"

definition mergeNodeAffinity ::
    "DeepDiff \<Rightarrow> NodeAffinity option \<Rightarrow> NodeAffinity option \<Rightarrow> NodeAffinity option go" where
  "mergeNodeAffinity dd dst src = (case src of
     None \<Rightarrow> Inr dst
   | Some s \<Rightarrow>
       let d = (case dst of None \<Rightarrow> \<lparr>na_Required = Some [], na_Preferred = []\<rparr> | Some d \<Rightarrow> d) in
       (case na_Required s of
          None \<Rightarrow> Inl NilDereference
        | Some terms \<Rightarrow> go_bind (go_fold (merge_required dd) terms d) (\<lambda>d.
            Inr (Some (d\<lparr>na_Preferred :=
              merge_terms (dd_PreferredSchedulingTerm dd) (na_Preferred s) (na_Preferred d)\<rparr>)))))"

definition mergePodAffinity :: "DeepDiff \<Rightarrow> PodAffinity option \<Rightarrow> PodAffinity option \<Rightarrow> PodAffinity option" where
  "mergePodAffinity dd dst src = (case src of
     None \<Rightarrow> dst
   | Some s \<Rightarrow>
       let d = (case dst of None \<Rightarrow> \<lparr>pa_Required = [], pa_Preferred = []\<rparr> | Some d \<Rightarrow> d);
           d = d\<lparr>pa_Required := merge_terms (dd_PodAffinityTerm dd) (pa_Required s) (pa_Required d)\<rparr>
       in Some (d\<lparr>pa_Preferred :=
            merge_terms (dd_WeightedPodAffinityTerm dd) (pa_Preferred s) (pa_Preferred d)\<rparr>))"

definition mergePodAntiAffinity :: "DeepDiff \<Rightarrow> PodAffinity option \<Rightarrow> PodAffinity option \<Rightarrow> PodAffinity option" where
  "mergePodAntiAffinity dd dst src = (case src of
     None \<Rightarrow> dst
   | Some s \<Rightarrow>
       let d = (case dst of None \<Rightarrow> \<lparr>pa_Required = [], pa_Preferred = []\<rparr> | Some d \<Rightarrow> d);
           d = d\<lparr>pa_Required := merge_terms (dd_PodAffinityTerm dd) (pa_Required s) (pa_Required d)\<rparr>
       in Some (d\<lparr>pa_Preferred :=
            merge_terms (dd_WeightedPodAffinityTerm dd) (pa_Preferred s) (pa_Preferred d)\<rparr>))"

definition mergeAffinity :: "DeepDiff \<Rightarrow> Affinity option \<Rightarrow> Affinity option \<Rightarrow> Affinity option go" where
  "mergeAffinity dd dst src = (case src of
     None \<Rightarrow> Inr dst
   | Some s \<Rightarrow>
       let d = (case dst of
           None \<Rightarrow> \<lparr>af_NodeAffinity = None, af_PodAffinity = None, af_PodAntiAffinity = None\<rparr> | Some d \<Rightarrow> d) in
       go_bind (mergeNodeAffinity dd (af_NodeAffinity d) (af_NodeAffinity s)) (\<lambda>na. Inr (Some
         \<lparr>af_NodeAffinity = na,
          af_PodAffinity = mergePodAffinity dd (af_PodAffinity d) (af_PodAffinity s),
          af_PodAntiAffinity = mergePodAntiAffinity dd (af_PodAntiAffinity d) (af_PodAntiAffinity s)\<rparr>)))"

section \<open>Normalizing a pod template\<close>

text \<open>The template is entered into the index of its section afterwards (\<open>index_templates\<close>).\<close>

definition normalizePodTemplate :: "DeepDiff \<Rightarrow> int go \<Rightarrow> ChiPodTemplate \<Rightarrow> ChiPodTemplate go" where
  "normalizePodTemplate dd replicasCount template =
     (let template = normalizeZone template in
      go_bind (normalizePodDistributions replicasCount (pt_PodDistribution template)) (\<lambda>pds.
      let template = template\<lparr>pt_PodDistribution := pds\<rparr>; spec = pt_Spec template in
      go_bind (mergeAffinity dd (ps_Affinity spec) (newAffinity template)) (\<lambda>affinity.
      let spec = spec\<lparr>ps_Affinity := affinity\<rparr>;
          spec = (if ps_HostNetwork spec then spec\<lparr>ps_DNSPolicy := ''ClusterFirstWithHostNet''\<rparr> else spec)
      in Inr (template\<lparr>pt_Spec := spec\<rparr>))))"

section \<open>The default container\<close>

definition chDefaultTCPPortName :: string where "chDefaultTCPPortName = ''tcp''"
definition chDefaultHTTPPortName :: string where "chDefaultHTTPPortName = ''http''"
definition chDefaultInterserverHTTPPortName :: string where "chDefaultInterserverHTTPPortName = ''interserver''"
definition ClickHouseContainerName :: string where "ClickHouseContainerName = ''clickhouse''"
definition defaultClickHouseDockerImage :: string where
  "defaultClickHouseDockerImage = ''radondb/clickhouse-server:latest''"

lemmas ch_port_names = chDefaultTCPPortName_def chDefaultHTTPPortName_def chDefaultInterserverHTTPPortName_def

section \<open>The affinity of a host\<close>

definition processNodeSelectorRequirement ::
    "(string \<Rightarrow> string) \<Rightarrow> ChiHost \<Rightarrow> NodeSelectorRequirement \<Rightarrow> NodeSelectorRequirement" where
  "processNodeSelectorRequirement sha1 host r = (let replace = replacer (newNameMacroReplacerHost sha1 host) in
     r\<lparr>nsr_Key := replace (nsr_Key r), nsr_Values := map replace (nsr_Values r)\<rparr>)"

definition processNodeSelectorTerm :: "(string \<Rightarrow> string) \<Rightarrow> ChiHost \<Rightarrow> NodeSelectorTerm \<Rightarrow> NodeSelectorTerm" where
  "processNodeSelectorTerm sha1 host t =
     t\<lparr>nst_MatchExpressions := map (processNodeSelectorRequirement sha1 host) (nst_MatchExpressions t),
       nst_MatchFields := map (processNodeSelectorRequirement sha1 host) (nst_MatchFields t)\<rparr>"

definition processNodeSelector ::
    "(string \<Rightarrow> string) \<Rightarrow> ChiHost \<Rightarrow> NodeSelectorTerm list option \<Rightarrow> NodeSelectorTerm list option" where
  "processNodeSelector sha1 host = map_option (map (processNodeSelectorTerm sha1 host))"

definition processPreferredSchedulingTerms ::
    "(string \<Rightarrow> string) \<Rightarrow> ChiHost \<Rightarrow> PreferredSchedulingTerm list \<Rightarrow> PreferredSchedulingTerm list" where
  "processPreferredSchedulingTerms sha1 host =
     map (\<lambda>t. t\<lparr>pst_Preference := processNodeSelectorTerm sha1 host (pst_Preference t)\<rparr>)"

definition processLabelSelectorRequirement ::
    "(string \<Rightarrow> string) \<Rightarrow> ChiHost \<Rightarrow> LabelSelectorRequirement \<Rightarrow> LabelSelectorRequirement" where
  "processLabelSelectorRequirement sha1 host r = (let replace = replacer (newNameMacroReplacerHost sha1 host) in
     r\<lparr>lsr_Key := replace (lsr_Key r), lsr_Values := map replace (lsr_Values r)\<rparr>)"

definition processLabelSelector ::
    "(string \<Rightarrow> string) \<Rightarrow> ChiHost \<Rightarrow> LabelSelector option \<Rightarrow> LabelSelector option" where
  "processLabelSelector sha1 host labelSelector = (case labelSelector of
     None \<Rightarrow> None
   | Some s \<Rightarrow> Some (s\<lparr>
       lse_MatchLabels := map (\<lambda>(k, v). (k, replacer (newNameMacroReplacerHost sha1 host) v)) (lse_MatchLabels s),
       lse_MatchExpressions := map (processLabelSelectorRequirement sha1 host) (lse_MatchExpressions s)\<rparr>))"

definition processPodAffinityTerm :: "(string \<Rightarrow> string) \<Rightarrow> ChiHost \<Rightarrow> PodAffinityTerm \<Rightarrow> PodAffinityTerm" where
  "processPodAffinityTerm sha1 host t =
     t\<lparr>pat_LabelSelector := processLabelSelector sha1 host (pat_LabelSelector t),
       pat_TopologyKey := replacer (newNameMacroReplacerHost sha1 host) (pat_TopologyKey t)\<rparr>"

definition processPodAffinityTerms ::
    "(string \<Rightarrow> string) \<Rightarrow> ChiHost \<Rightarrow> PodAffinityTerm list \<Rightarrow> PodAffinityTerm list" where
  "processPodAffinityTerms sha1 host = map (processPodAffinityTerm sha1 host)"

definition processWeightedPodAffinityTerms ::
    "(string \<Rightarrow> string) \<Rightarrow> ChiHost \<Rightarrow> WeightedPodAffinityTerm list \<Rightarrow> WeightedPodAffinityTerm list" where
  "processWeightedPodAffinityTerms sha1 host =
     map (\<lambda>t. t\<lparr>wpt_PodAffinityTerm := processPodAffinityTerm sha1 host (wpt_PodAffinityTerm t)\<rparr>)"

definition process_pod_affinity :: "(string \<Rightarrow> string) \<Rightarrow> ChiHost \<Rightarrow> PodAffinity \<Rightarrow> PodAffinity" where
  "process_pod_affinity sha1 host pa =
     pa\<lparr>pa_Required := processPodAffinityTerms sha1 host (pa_Required pa),
        pa_Preferred := processWeightedPodAffinityTerms sha1 host (pa_Preferred pa)\<rparr>"

definition prepareAffinity :: "(string \<Rightarrow> string) \<Rightarrow> ChiPodTemplate \<Rightarrow> ChiHost \<Rightarrow> ChiPodTemplate" where
  "prepareAffinity sha1 podTemplate host = (case ps_Affinity (pt_Spec podTemplate) of
     None \<Rightarrow> podTemplate
   | Some a \<Rightarrow> podTemplate\<lparr>pt_Spec := (pt_Spec podTemplate)\<lparr>ps_Affinity := Some (a\<lparr>
       af_NodeAffinity := map_option (\<lambda>na. na\<lparr>
           na_Required := processNodeSelector sha1 host (na_Required na),
           na_Preferred := processPreferredSchedulingTerms sha1 host (na_Preferred na)\<rparr>) (af_NodeAffinity a),
       af_PodAffinity := map_option (process_pod_affinity sha1 host) (af_PodAffinity a),
       af_PodAntiAffinity := map_option (process_pod_affinity sha1 host) (af_PodAntiAffinity a)\<rparr>)\<rparr>\<rparr>)"

definition newDefaultLivenessProbe :: Probe where
  "newDefaultLivenessProbe = \<lparr>pr_HTTPGet = Some (''/ping'', FromString chDefaultHTTPPortName), pr_Exec = None,
     pr_InitialDelaySeconds = 60, pr_TimeoutSeconds = 0, pr_PeriodSeconds = 3, pr_FailureThreshold = 10\<rparr>"

definition newDefaultReadinessProbe :: Probe where
  "newDefaultReadinessProbe = \<lparr>pr_HTTPGet = Some (''/ping'', FromString chDefaultHTTPPortName), pr_Exec = None,
     pr_InitialDelaySeconds = 10, pr_TimeoutSeconds = 0, pr_PeriodSeconds = 3, pr_FailureThreshold = 0\<rparr>"

definition newContainerPort :: "string \<Rightarrow> 32 word \<Rightarrow> ContainerPort" where
  "newContainerPort name port = \<lparr>cp_Name = name, cp_HostPort = 0, cp_ContainerPort = port\<rparr>"

definition newDefaultClickHouseContainer :: Container where
  "newDefaultClickHouseContainer = \<lparr>co_Name = ClickHouseContainerName, co_Image = defaultClickHouseDockerImage,
     co_ImagePullPolicy = [], co_Command = [], co_Args = [],
     co_Ports = [newContainerPort chDefaultHTTPPortName chDefaultHTTPPortNumber,
       newContainerPort chDefaultTCPPortName chDefaultTCPPortNumber,
       newContainerPort chDefaultInterserverHTTPPortName chDefaultInterserverHTTPPortNumber],
     co_VolumeMounts = [], co_LivenessProbe = Some newDefaultLivenessProbe,
     co_ReadinessProbe = Some newDefaultReadinessProbe\<rparr>"

definition addContainer :: "Container \<Rightarrow> PodSpec \<Rightarrow> PodSpec" where
  "addContainer container spec = spec\<lparr>ps_Containers := ps_Containers spec @ [container]\<rparr>"

lemma addContainer_kept [simp]:
  "ps_Affinity (addContainer c spec) = ps_Affinity spec" "ps_HostNetwork (addContainer c spec) = ps_HostNetwork spec"
  "ps_Containers (addContainer c spec) = ps_Containers spec @ [c]" "ps_Volumes (addContainer c spec) = ps_Volumes spec"
  by (simp_all add: addContainer_def)

lemma newPodSpec_simps [simp]:
  "ps_Affinity newPodSpec = None" "\<not> ps_HostNetwork newPodSpec" "ps_Containers newPodSpec = []" "ps_Volumes newPodSpec = []"
  by (simp_all add: newPodSpec_def)

text \<open>The template of the creator stands for the pod of a host that names no known template.\<close>

definition newDefaultPodTemplate :: "string \<Rightarrow> ChiPodTemplate" where
  "newDefaultPodTemplate name = \<lparr>pt_Name = name, pt_GenerateName = [], pt_ZoneKey = [], pt_ZoneValues = [],
     pt_PodDistribution = [],
     pt_ObjectMeta = \<lparr>om_Namespace = [], om_Name = [], om_Labels = [], om_Annotations = []\<rparr>,
     pt_Spec = addContainer newDefaultClickHouseContainer newPodSpec\<rparr>"

definition getPodTemplate :: "(string \<Rightarrow> string) \<Rightarrow> ChiTemplates option \<Rightarrow> ChiHost \<Rightarrow> ChiPodTemplate" where
  "getPodTemplate sha1 templates host =
     prepareAffinity sha1 (case Host_GetPodTemplate templates host of
       Some podTemplate \<Rightarrow> podTemplate
     | None \<Rightarrow> newDefaultPodTemplate (CreateStatefulSetName sha1 templates host)) host"


section \<open>Merged terms\<close>

text \<open>A list of terms grown by others: the old terms first, then only new ones of the source, and no term
  of the source is missing.\<close>

definition extends_by :: "('a \<Rightarrow> 'a \<Rightarrow> bool) \<Rightarrow> 'a list \<Rightarrow> 'a list \<Rightarrow> 'a list \<Rightarrow> bool" where
  "extends_by eq src dst r = ((\<exists>new. r = dst @ new \<and> set new \<subseteq> set src) \<and> list_all (\<lambda>s. list_ex (eq s) r) src)"

lemma merge_terms_simps [simp]:
  "merge_terms eq [] dst = dst" "merge_terms eq (s # src) dst = merge_terms eq src (merge_term eq s dst)"
  by (simp_all add: merge_terms_def)

lemma merge_terms_split: "\<exists>new. merge_terms eq src dst = dst @ new \<and> set new \<subseteq> set src"
proof (induction src arbitrary: dst)
  case (Cons s src)
  from Cons.IH [of "merge_term eq s dst"] obtain new where
    "merge_terms eq src (merge_term eq s dst) = merge_term eq s dst @ new" "set new \<subseteq> set src" by blast
  then have "merge_terms eq (s # src) dst = dst @ (if list_ex (eq s) dst then new else s # new)"
    and "set (if list_ex (eq s) dst then new else s # new) \<subseteq> set (s # src)"
    by (auto simp: merge_term_def)
  then show ?case by (intro exI conjI)
qed simp

lemma merge_terms_covers:
  assumes "\<forall>x. eq x x"
  shows "list_all (\<lambda>s. list_ex (eq s) (merge_terms eq src dst)) src"
proof (induction src arbitrary: dst)
  case (Cons s src)
  from merge_terms_split [of eq src "merge_term eq s dst"] obtain new where
    "merge_terms eq src (merge_term eq s dst) = merge_term eq s dst @ new" by (elim exE conjE)
  moreover have "list_ex (eq s) (merge_term eq s dst)" using assms by (auto simp: merge_term_def)
  ultimately show ?case using Cons.IH [of "merge_term eq s dst"] by simp
qed simp

lemma merge_terms_covered: "list_all (\<lambda>s. list_ex (eq s) r) src \<Longrightarrow> merge_terms eq src r = r"
  by (induction src) (simp_all add: merge_term_def)

lemma merge_terms_extends: "\<forall>x. eq x x \<Longrightarrow> extends_by eq src dst (merge_terms eq src dst)"
  unfolding extends_by_def by (intro conjI merge_terms_split merge_terms_covers)

lemma merge_terms_again: "\<forall>x. eq x x \<Longrightarrow> merge_terms eq src (merge_terms eq src dst) = merge_terms eq src dst"
  by (rule merge_terms_covered [OF merge_terms_covers])

lemma extends_by_none [simp]: "extends_by eq [] dst dst"
  by (simp add: extends_by_def)

lemma merge_required_fold:
  "go_fold (merge_required dd) terms d = (if terms = [] then Inr d else case na_Required d of
      None \<Rightarrow> Inl NilDereference
    | Some ts \<Rightarrow> Inr (d\<lparr>na_Required := Some (merge_terms (dd_NodeSelectorTerm dd) terms ts)\<rparr>))"
proof (induction terms arbitrary: d)
  case (Cons t terms)
  show ?case
  proof (cases "na_Required d")
    case (Some ts)
    then have "merge_required dd t d = Inr (d\<lparr>na_Required := Some (merge_term (dd_NodeSelectorTerm dd) t ts)\<rparr>)"
      by (simp add: merge_required_def)
    then show ?thesis using Some by (simp add: Cons.IH)
  next
    case None
    then have "merge_required dd t d = Inl NilDereference" by (simp add: merge_required_def)
    then show ?thesis using None by simp
  qed
qed simp

text \<open>The terms of an affinity that may be nil, list by list.\<close>

definition node_terms :: "NodeAffinity option \<Rightarrow> NodeSelectorTerm list" where
  "node_terms a = (case a of None \<Rightarrow> [] | Some na \<Rightarrow> (case na_Required na of None \<Rightarrow> [] | Some ts \<Rightarrow> ts))"
definition preferred_nodes :: "NodeAffinity option \<Rightarrow> PreferredSchedulingTerm list" where
  "preferred_nodes a = (case a of None \<Rightarrow> [] | Some na \<Rightarrow> na_Preferred na)"
definition required_pods :: "PodAffinity option \<Rightarrow> PodAffinityTerm list" where
  "required_pods a = (case a of None \<Rightarrow> [] | Some pa \<Rightarrow> pa_Required pa)"
definition preferred_pods :: "PodAffinity option \<Rightarrow> WeightedPodAffinityTerm list" where
  "preferred_pods a = (case a of None \<Rightarrow> [] | Some pa \<Rightarrow> pa_Preferred pa)"
definition part :: "(Affinity \<Rightarrow> 'b option) \<Rightarrow> Affinity option \<Rightarrow> 'b option" where
  "part f a = (case a of None \<Rightarrow> None | Some a \<Rightarrow> f a)"

definition reflexive :: "DeepDiff \<Rightarrow> bool" where
  "reflexive dd = ((\<forall>x. dd_NodeSelectorTerm dd x x) \<and> (\<forall>x. dd_PreferredSchedulingTerm dd x x)
     \<and> (\<forall>x. dd_PodAffinityTerm dd x x) \<and> (\<forall>x. dd_WeightedPodAffinityTerm dd x x))"

lemma reflexiveD:
  "reflexive dd \<Longrightarrow> \<forall>x. dd_NodeSelectorTerm dd x x" "reflexive dd \<Longrightarrow> \<forall>x. dd_PreferredSchedulingTerm dd x x"
  "reflexive dd \<Longrightarrow> \<forall>x. dd_PodAffinityTerm dd x x" "reflexive dd \<Longrightarrow> \<forall>x. dd_WeightedPodAffinityTerm dd x x"
  by (simp_all add: reflexive_def)

lemmas merged_terms = merge_terms_extends merge_terms_again

lemma mergePodAffinity_parts:
  "required_pods (mergePodAffinity dd dst src) = merge_terms (dd_PodAffinityTerm dd) (required_pods src) (required_pods dst)"
  "preferred_pods (mergePodAffinity dd dst src)
     = merge_terms (dd_WeightedPodAffinityTerm dd) (preferred_pods src) (preferred_pods dst)"
  "mergePodAffinity dd dst src = None \<longleftrightarrow> dst = None \<and> src = None"
  by (auto simp: mergePodAffinity_def required_pods_def preferred_pods_def Let_def split: option.split)

lemma mergePodAntiAffinity_same: "mergePodAntiAffinity = mergePodAffinity"
  by (simp add: fun_eq_iff mergePodAntiAffinity_def mergePodAffinity_def)

lemma pod_affinity_eqI:
  "(a = None \<longleftrightarrow> b = None) \<Longrightarrow> required_pods a = required_pods b \<Longrightarrow> preferred_pods a = preferred_pods b \<Longrightarrow>
     a = (b :: PodAffinity option)"
  by (cases a; cases b) (auto simp: required_pods_def preferred_pods_def)

lemma mergePodAffinity_again:
  "reflexive dd \<Longrightarrow> mergePodAffinity dd (mergePodAffinity dd dst src) src = mergePodAffinity dd dst src"
  by (rule pod_affinity_eqI) (simp_all add: mergePodAffinity_parts merge_terms_again reflexiveD)

lemma mergeNodeAffinity_parts:
  assumes "reflexive dd" and "mergeNodeAffinity dd dst src = Inr r"
  shows "extends_by (dd_NodeSelectorTerm dd) (node_terms src) (node_terms dst) (node_terms r)"
    and "extends_by (dd_PreferredSchedulingTerm dd) (preferred_nodes src) (preferred_nodes dst) (preferred_nodes r)"
    and "mergeNodeAffinity dd r src = Inr r"
  using assms(2) reflexiveD [OF assms(1)]
  by (auto simp: mergeNodeAffinity_def node_terms_def preferred_nodes_def merge_required_fold merged_terms
      split: option.splits if_splits)

lemma mergeNodeAffinity_panics:
  "panics (mergeNodeAffinity dd dst src) \<longleftrightarrow> (\<exists>s. src = Some s
     \<and> (na_Required s = None \<or> node_terms src \<noteq> [] \<and> (\<exists>d. dst = Some d \<and> na_Required d = None)))"
  by (auto simp: mergeNodeAffinity_def node_terms_def merge_required_fold Let_def split: option.split)

text \<open>
  Merging affinities keeps what is there, adds what is missing and does it once. When a merge returns,
  each of the six lists of terms of the result begins with the terms of the receiver, goes on with terms of
  the source only and holds an equal of each of these; a second merge of the same source changes nothing.
\<close>

theorem affinity_merged:
  assumes "reflexive dd" and "mergeAffinity dd dst src = Inr r"
  shows "extends_by (dd_NodeSelectorTerm dd) (node_terms (part af_NodeAffinity src))
        (node_terms (part af_NodeAffinity dst)) (node_terms (part af_NodeAffinity r))
    \<and> extends_by (dd_PreferredSchedulingTerm dd) (preferred_nodes (part af_NodeAffinity src))
        (preferred_nodes (part af_NodeAffinity dst)) (preferred_nodes (part af_NodeAffinity r))
    \<and> extends_by (dd_PodAffinityTerm dd) (required_pods (part af_PodAffinity src))
        (required_pods (part af_PodAffinity dst)) (required_pods (part af_PodAffinity r))
    \<and> extends_by (dd_WeightedPodAffinityTerm dd) (preferred_pods (part af_PodAffinity src))
        (preferred_pods (part af_PodAffinity dst)) (preferred_pods (part af_PodAffinity r))
    \<and> extends_by (dd_PodAffinityTerm dd) (required_pods (part af_PodAntiAffinity src))
        (required_pods (part af_PodAntiAffinity dst)) (required_pods (part af_PodAntiAffinity r))
    \<and> extends_by (dd_WeightedPodAffinityTerm dd) (preferred_pods (part af_PodAntiAffinity src))
        (preferred_pods (part af_PodAntiAffinity dst)) (preferred_pods (part af_PodAntiAffinity r))
    \<and> mergeAffinity dd r src = Inr r"
proof (cases src)
  case None
  with assms(2) have "r = dst" by (simp add: mergeAffinity_def)
  with None show ?thesis
    by (simp add: mergeAffinity_def part_def node_terms_def preferred_nodes_def required_pods_def preferred_pods_def)
next
  case (Some s)
  let ?d = "case dst of None \<Rightarrow> \<lparr>af_NodeAffinity = None, af_PodAffinity = None, af_PodAntiAffinity = None\<rparr>
    | Some d \<Rightarrow> d"
  have parts: "part af_NodeAffinity dst = af_NodeAffinity ?d" "part af_PodAffinity dst = af_PodAffinity ?d"
    "part af_PodAntiAffinity dst = af_PodAntiAffinity ?d"
    by (simp_all add: part_def split: option.split)
  from assms(2) obtain na where na: "mergeNodeAffinity dd (af_NodeAffinity ?d) (af_NodeAffinity s) = Inr na"
    and r: "r = Some \<lparr>af_NodeAffinity = na,
          af_PodAffinity = mergePodAffinity dd (af_PodAffinity ?d) (af_PodAffinity s),
          af_PodAntiAffinity = mergePodAntiAffinity dd (af_PodAntiAffinity ?d) (af_PodAntiAffinity s)\<rparr>"
    unfolding Some mergeAffinity_def by (auto simp: go_bind_Inr_iff Let_def)
  note node = mergeNodeAffinity_parts [OF assms(1) na]
  have "mergeAffinity dd r src = Inr r"
    unfolding Some r mergeAffinity_def mergePodAntiAffinity_same
    by (simp add: Let_def node(3) mergePodAffinity_again [OF assms(1)])
  moreover have "part af_NodeAffinity r = na" "part f src = f s" for f :: "Affinity \<Rightarrow> 'b option"
    unfolding r Some by (simp_all add: part_def)
  ultimately show ?thesis
    using node(1,2) reflexiveD(3,4) [OF assms(1)]
    unfolding parts r Some
    by (simp add: part_def mergePodAntiAffinity_same mergePodAffinity_parts merge_terms_extends)
qed

definition exact_diff :: DeepDiff where
  "exact_diff = \<lparr>dd_NodeSelectorTerm = (=), dd_PreferredSchedulingTerm = (=), dd_PodAffinityTerm = (=),
     dd_WeightedPodAffinityTerm = (=)\<rparr>"

definition distributed :: "ChiPodDistribution list \<Rightarrow> ChiPodTemplate" where
  "distributed pds = (newDefaultPodTemplate ''pod'')\<lparr>pt_PodDistribution := pds\<rparr>"

lemma exact_diff_reflexive [simp]: "reflexive exact_diff"
  by (simp add: reflexive_def exact_diff_def)

theorem affinity_merged_witness:
  "\<exists>a r. newAffinity (distributed [newDistribution PodDistributionShardAntiAffinity ''Cluster'' 0]) = Some a
     \<and> mergeAffinity exact_diff None (Some a) = Inr r \<and> mergeAffinity exact_diff r (Some a) = Inr r"
proof -
  obtain a where a: "newAffinity (distributed [newDistribution PodDistributionShardAntiAffinity ''Cluster'' 0]) = Some a"
    by (simp add: newAffinity_def newPodAntiAffinity_def distributed_def newDefaultPodTemplate_def Let_def
        add_anti_affinity_def newDistribution_def pod_distribution_consts require_def)
  then have "af_NodeAffinity a = None"
    by (auto simp: newAffinity_def newNodeAffinity_def distributed_def newDefaultPodTemplate_def Let_def split: if_splits)
  then obtain r where r: "mergeAffinity exact_diff None (Some a) = Inr r"
    by (simp add: mergeAffinity_def mergeNodeAffinity_def)
  with a affinity_merged [OF exact_diff_reflexive r] show ?thesis by blast
qed


section \<open>Affinity of a normalized template\<close>

lemma normalizePodDistributions_returns: "\<exists>pds'. normalizePodDistributions (Inr n) pds = Inr pds'"
  using normalizePodDistributions_fold [of n pds "[]" "[]"] unfolding normalizePodDistributions_def by force

lemma newNodeAffinity_shape: "newNodeAffinity template = Some a \<Longrightarrow> na_Required a \<noteq> None \<and> node_terms (Some a) \<noteq> []"
  by (auto simp: newNodeAffinity_def node_terms_def split: if_splits)

lemma newAffinity_node: "part af_NodeAffinity (newAffinity template) = newNodeAffinity template"
  by (simp add: newAffinity_def part_def Let_def)

lemma mergeAffinity_panics:
  "panics (mergeAffinity dd dst (newAffinity template)) \<longleftrightarrow> newNodeAffinity template \<noteq> None
     \<and> (\<exists>a na. dst = Some a \<and> af_NodeAffinity a = Some na \<and> na_Required na = None)"
proof (cases "newAffinity template")
  case None
  with newAffinity_node [of template] have "newNodeAffinity template = None" by (simp add: part_def)
  with None show ?thesis by (simp add: mergeAffinity_def)
next
  case (Some s)
  let ?d = "case dst of None \<Rightarrow> \<lparr>af_NodeAffinity = None, af_PodAffinity = None, af_PodAntiAffinity = None\<rparr>
    | Some d \<Rightarrow> d"
  from Some newAffinity_node [of template] have node: "af_NodeAffinity s = newNodeAffinity template"
    by (simp add: part_def)
  have "panics (mergeAffinity dd dst (Some s)) \<longleftrightarrow> panics (mergeNodeAffinity dd (af_NodeAffinity ?d) (af_NodeAffinity s))"
    unfolding mergeAffinity_def Let_def option.case
    by (cases "mergeNodeAffinity dd (af_NodeAffinity ?d) (af_NodeAffinity s)") simp_all
  also have "\<dots> \<longleftrightarrow> newNodeAffinity template \<noteq> None \<and> (\<exists>na. af_NodeAffinity ?d = Some na \<and> na_Required na = None)"
    unfolding mergeNodeAffinity_panics node using newNodeAffinity_shape [of template]
    by (cases "newNodeAffinity template") auto
  also have "(\<exists>na. af_NodeAffinity ?d = Some na \<and> na_Required na = None)
      \<longleftrightarrow> (\<exists>a na. dst = Some a \<and> af_NodeAffinity a = Some na \<and> na_Required na = None)"
    by (cases dst) auto
  finally show ?thesis unfolding Some .
qed

lemma normalizeZone_kept [simp]:
  "pt_ZoneValues (normalizeZone t) = pt_ZoneValues t" "pt_Spec (normalizeZone t) = pt_Spec t"
  "pt_PodDistribution (normalizeZone t) = pt_PodDistribution t" "pt_Name (normalizeZone t) = pt_Name t"
  by (simp_all add: normalizeZone_def)

lemma normalizeZone_key: "pt_ZoneKey (normalizeZone t) = '''' \<longleftrightarrow> pt_ZoneValues t = []"
  by (simp add: normalizeZone_def)

text \<open>
  When normalizing a pod template panics. In an installation with a cluster that is exactly when the
  template names zones and its own node affinity has no required terms, which the API allows: an affinity
  with preferred terms only is dereferenced without a check. Whatever else the template holds, it is
  normalized: a zone gets a key exactly when it has values, and the distributions given stay in front.
\<close>

theorem normalizePodTemplate_panics:
  "case normalizePodTemplate dd (Inr n) template of
     Inl p \<Rightarrow> p = NilDereference \<and> pt_ZoneValues template \<noteq> []
       \<and> (\<exists>a na. ps_Affinity (pt_Spec template) = Some a \<and> af_NodeAffinity a = Some na \<and> na_Required na = None)
   | Inr t \<Rightarrow> (pt_ZoneKey t \<noteq> '''' \<longleftrightarrow> pt_ZoneValues template \<noteq> [])
       \<and> length (pt_PodDistribution template) \<le> length (pt_PodDistribution t)
       \<and> \<not> (pt_ZoneValues template \<noteq> []
         \<and> (\<exists>a na. ps_Affinity (pt_Spec template) = Some a \<and> af_NodeAffinity a = Some na \<and> na_Required na = None))"
proof -
  obtain pds where pds: "normalizePodDistributions (Inr n) (pt_PodDistribution template) = Inr pds"
    using normalizePodDistributions_returns by blast
  from normalizePodDistributions_fold [of n "pt_PodDistribution template" "[]" "[]"]
  have len: "length (pt_PodDistribution template) \<le> length pds"
    using pds unfolding normalizePodDistributions_def by force
  let ?t = "(normalizeZone template)\<lparr>pt_PodDistribution := pds\<rparr>"
  let ?merged = "mergeAffinity dd (ps_Affinity (pt_Spec template)) (newAffinity ?t)"
  have bad: "panics ?merged \<longleftrightarrow> pt_ZoneValues template \<noteq> []
      \<and> (\<exists>a na. ps_Affinity (pt_Spec template) = Some a \<and> af_NodeAffinity a = Some na \<and> na_Required na = None)"
    unfolding mergeAffinity_panics by (simp add: newNodeAffinity_def normalizeZone_key)
  have nil: "p = NilDereference" if "?merged = Inl p" for p
    using that by (auto simp: mergeAffinity_def mergeNodeAffinity_def merge_required_fold Let_def go_bind_def
        split: option.splits sum.splits if_splits)
  show ?thesis
  proof (cases ?merged)
    case (Inl p)
    with bad nil show ?thesis by (simp add: normalizePodTemplate_def pds Let_def)
  next
    case (Inr a)
    with bad len show ?thesis by (simp add: normalizePodTemplate_def pds Let_def normalizeZone_key)
  qed
qed


section \<open>The pods a host is kept away from\<close>

definition kept_apart :: "ChiPodTemplate \<Rightarrow> PodAffinityTerm list" where
  "kept_apart t = required_pods (part af_PodAntiAffinity (ps_Affinity (pt_Spec t)))"

text \<open>The distributions that keep pods apart by matching labels, and the label each of them starts from.\<close>

definition anti_types :: "string list" where
  "anti_types = [PodDistributionClickHouseAntiAffinity, PodDistributionMaxNumberPerNode,
     PodDistributionShardAntiAffinity, PodDistributionReplicaAntiAffinity]"

definition own_label :: "ChiPodDistribution \<Rightarrow> string \<times> string" where
  "own_label pd =
     (if pd_Type pd = PodDistributionClickHouseAntiAffinity then (LabelAppName, LabelAppValue)
      else if pd_Type pd = PodDistributionMaxNumberPerNode
      then (LabelClusterScopeCycleIndex, macrosClusterScopeCycleIndex)
      else if pd_Type pd = PodDistributionShardAntiAffinity then (LabelShardName, macrosShardName)
      else (LabelReplicaName, macrosReplicaName))"

text \<open>The labels by which a distribution tells pods apart: the one of its type and those of its scope.\<close>

definition told_apart_by :: "ChiPodDistribution \<Rightarrow> string list" where
  "told_apart_by pd = fst (own_label pd) #
     (if pd_Scope pd = PodDistributionScopeShard then [LabelNamespace, LabelCHIName, LabelClusterName, LabelShardName]
      else if pd_Scope pd = PodDistributionScopeReplica
      then [LabelNamespace, LabelCHIName, LabelClusterName, LabelReplicaName]
      else if pd_Scope pd = PodDistributionScopeCluster then [LabelNamespace, LabelCHIName, LabelClusterName]
      else if pd_Scope pd = PodDistributionScopeClickHouseInstallation then [LabelNamespace, LabelCHIName]
      else if pd_Scope pd = PodDistributionScopeNamespace then [LabelNamespace]
      else [])"

definition distribution_labels :: "ChiPodDistribution \<Rightarrow> strmap" where
  "distribution_labels pd = newMatchLabels pd [own_label pd]"

definition anti_term :: "ChiPodDistribution \<Rightarrow> PodAffinityTerm" where
  "anti_term pd = newPodAffinityTermWithMatchLabels pd (distribution_labels pd)"

definition required_by :: "ChiPodDistribution \<Rightarrow> PodAffinityTerm list" where
  "required_by pd = pa_Required (add_anti_affinity pd \<lparr>pa_Required = [], pa_Preferred = []\<rparr>)"

lemma add_anti_affinity_required: "pa_Required (add_anti_affinity pd pa) = pa_Required pa @ required_by pd"
  by (simp add: required_by_def add_anti_affinity_def require_def)

lemma fold_anti_affinity_required:
  "pa_Required (fold add_anti_affinity pds pa) = pa_Required pa @ concat (map required_by pds)"
  by (induction pds arbitrary: pa) (simp_all add: add_anti_affinity_required)

lemma required_by_type: "pd_Type pd \<in> set anti_types \<Longrightarrow> required_by pd = [anti_term pd]"
  by (auto simp: anti_types_def required_by_def add_anti_affinity_def require_def anti_term_def
      distribution_labels_def own_label_def pod_distribution_consts)

lemma newAffinity_apart:
  "required_pods (part af_PodAntiAffinity (newAffinity t)) = concat (map required_by (pt_PodDistribution t))"
proof -
  have "required_pods (newPodAntiAffinity t) = concat (map required_by (pt_PodDistribution t))"
    by (auto simp: newPodAntiAffinity_def required_pods_def Let_def fold_anti_affinity_required)
  moreover have "part af_PodAntiAffinity (newAffinity t) = newPodAntiAffinity t"
    by (simp add: newAffinity_def part_def Let_def)
  ultimately show ?thesis by simp
qed

lemma mergeAffinity_apart:
  assumes "mergeAffinity dd dst src = Inr r"
  shows "required_pods (part af_PodAntiAffinity r) = merge_terms (dd_PodAffinityTerm dd)
    (required_pods (part af_PodAntiAffinity src)) (required_pods (part af_PodAntiAffinity dst))"
  using assms
  by (cases src; cases dst) (auto simp: mergeAffinity_def part_def Let_def go_bind_Inr_iff
      mergePodAntiAffinity_same mergePodAffinity_parts required_pods_def [of None])

lemma normalized_apart:
  assumes "normalizePodTemplate dd rc template = Inr t"
  shows "kept_apart t = merge_terms (dd_PodAffinityTerm dd) (concat (map required_by (pt_PodDistribution t)))
    (kept_apart template)"
proof -
  from assms obtain pds aff where
    aff: "mergeAffinity dd (ps_Affinity (pt_Spec template))
        (newAffinity ((normalizeZone template)\<lparr>pt_PodDistribution := pds\<rparr>)) = Inr aff"
    and t: "pt_PodDistribution t = pds" "ps_Affinity (pt_Spec t) = aff"
    by (auto simp: normalizePodTemplate_def Let_def go_bind_Inr_iff)
  show ?thesis
    unfolding kept_apart_def t mergeAffinity_apart [OF aff] newAffinity_apart by simp
qed

text \<open>What the merges rely on of messagediff: the terms it takes for equal are equal.\<close>

definition exact :: "DeepDiff \<Rightarrow> bool" where
  "exact dd = (\<forall>x y. dd_PodAffinityTerm dd x y \<longleftrightarrow> x = y)"

lemma normalized_apart_term:
  assumes "normalizePodTemplate dd rc template = Inr t" and "exact dd"
    and "pd \<in> set (pt_PodDistribution t)" and "pd_Type pd \<in> set anti_types"
  shows "anti_term pd \<in> set (kept_apart t)"
proof -
  let ?src = "concat (map required_by (pt_PodDistribution t))"
  from assms(2) have eq: "dd_PodAffinityTerm dd = (=)" by (simp add: exact_def fun_eq_iff)
  then have "list_all (\<lambda>s. list_ex ((=) s) (kept_apart t)) ?src"
    unfolding normalized_apart [OF assms(1)] eq by (intro merge_terms_covers) simp
  moreover have "anti_term pd \<in> set ?src" using assms(3) required_by_type [OF assms(4)]
    by (auto intro!: bexI [of _ pd])
  ultimately show ?thesis by (auto simp: list_all_iff list_ex_iff)
qed

lemma getPodTemplate_apart:
  assumes "Host_GetPodTemplate templates host = Some t"
  shows "kept_apart (getPodTemplate sha1 templates host) = map (processPodAffinityTerm sha1 host) (kept_apart t)"
  using assms
  by (auto simp: getPodTemplate_def prepareAffinity_def kept_apart_def part_def required_pods_def
      process_pod_affinity_def processPodAffinityTerms_def split: option.split)

subsection \<open>Macros in labels\<close>

definition macro_labels :: strmap where
  "macro_labels = [(LabelAppName, LabelAppValue), (LabelNamespace, macrosNamespace), (LabelCHIName, macrosChiName),
     (LabelClusterName, macrosClusterName), (LabelShardName, macrosShardName),
     (LabelReplicaName, macrosReplicaName), (LabelClusterScopeCycleIndex, macrosClusterScopeCycleIndex)]"

lemma gmap_ok_scopeLabels: "gmap_ok (scopeLabels s)"
  by (simp add: scopeLabels_def gmap_ok_def label_names)

lemma gmap_ok_merge_labels: "gmap_ok dst \<Longrightarrow> gmap_ok (merge_labels dst src)"
  by (simp add: merge_labels_def MergeStringMapsOverwrite_def Let_def nil_or_def gmap_ok_fold_put)

lemma distribution_labels_in: "set (distribution_labels pd) \<subseteq> insert (own_label pd) (set (scopeLabels (pd_Scope pd)))"
proof
  fix kv
  assume "kv \<in> set (distribution_labels pd)"
  moreover have "gmap_ok (distribution_labels pd)"
    unfolding distribution_labels_def newMatchLabels_def by (rule gmap_ok_merge_labels) (simp add: gmap_ok_def)
  ultimately have "gget (distribution_labels pd) (fst kv) = Some (snd kv)" by (simp add: gget_Some_in)
  then have "(gget [own_label pd] ++ gget (scopeLabels (pd_Scope pd))) (fst kv) = Some (snd kv)"
    unfolding distribution_labels_def newMatchLabels_def merge_labels_get [OF gmap_ok_scopeLabels] .
  then show "kv \<in> insert (own_label pd) (set (scopeLabels (pd_Scope pd)))"
    using gget_Some_in [OF gmap_ok_scopeLabels [of "pd_Scope pd"], of "fst kv" "snd kv"]
    by (cases "own_label pd") (auto simp: map_add_Some_iff split: if_splits)
qed


lemma replacer_whole: "find_macro ps old = Some (old, new) \<Longrightarrow> replacer ps old = new"
  using replacer_macro [of ps old "''''" new] by simp

lemma host_macro_finds:
  "find_macro (newNameMacroReplacerHost sha1 host) macrosNamespace
     = Some (macrosNamespace, namePartNamespace namerContextNames (ha_Namespace (h_Address host)))"
  "find_macro (newNameMacroReplacerHost sha1 host) macrosChiName
     = Some (macrosChiName, namePartChiName namerContextNames (ha_CHIName (h_Address host)))"
  "find_macro (newNameMacroReplacerHost sha1 host) macrosClusterName
     = Some (macrosClusterName, namePartClusterName namerContextNames (ha_ClusterName (h_Address host)))"
  "find_macro (newNameMacroReplacerHost sha1 host) macrosShardName
     = Some (macrosShardName, namePartShardName namerContextNames (ha_ShardName (h_Address host)))"
  "find_macro (newNameMacroReplacerHost sha1 host) macrosReplicaName
     = Some (macrosReplicaName, namePartReplicaName namerContextNames (ha_ReplicaName (h_Address host)))"
  "find_macro (newNameMacroReplacerHost sha1 host) macrosClusterScopeCycleIndex
     = Some (macrosClusterScopeCycleIndex, Itoa (ha_ClusterScopeCycleIndex (h_Address host)))"
  by (simp_all add: newNameMacroReplacerHost_def Let_def starts_with_def macros)

lemmas host_macros = host_macro_finds [THEN replacer_whole]

lemma replacer_app_value: "replacer (newNameMacroReplacerHost sha1 host) LabelAppValue = LabelAppValue"
  by (rule replacer_no_macro [of _ "CHR ''{''"])
    (use host_macros_open [of sha1 host] in \<open>auto simp: list_all_iff LabelAppValue_def\<close>)

text \<open>Names for which the limits of the two contexts of the namer make no difference.\<close>

definition short_names :: "ChiHost \<Rightarrow> bool" where
  "short_names host = (let a = h_Address host in
     length (ha_Namespace a) \<le> 60 \<and> length (ha_CHIName a) \<le> 60 \<and> length (ha_ClusterName a) \<le> 15
     \<and> length (ha_ShardName a) \<le> 15 \<and> length (ha_ReplicaName a) \<le> 15)"

lemma short_parts:
  "length s \<le> 60 \<Longrightarrow> namePartNamespace namerContextNames s = namePartChiName namerContextLabels s"
  "length s \<le> 60 \<Longrightarrow> namePartChiName namerContextNames s = namePartChiName namerContextLabels s"
  "length s \<le> 15 \<Longrightarrow> namePartClusterName namerContextNames s = namePartClusterName namerContextLabels s"
  "length s \<le> 15 \<Longrightarrow> namePartShardName namerContextNames s = namePartShardName namerContextLabels s"
  "length s \<le> 15 \<Longrightarrow> namePartReplicaName namerContextNames s = namePartReplicaName namerContextLabels s"
  by (simp_all add: namePartNamespace_def namePartChiName_def namePartClusterName_def namePartShardName_def
      namePartReplicaName_def chi_len_def cluster_len_def shard_len_def replica_len_def name_lengths the_head_take)

text \<open>The labels of the installation leave those of the operator alone.\<close>

definition propagates_none :: "labeler \<Rightarrow> bool" where
  "propagates_none l = list_all (\<lambda>k. gget (propagated l) k = None) (LabelClusterScopeCycleIndex # scope_keys)"

lemma cycle_label:
  assumes "propagates_none l"
  shows "gget (getLabelsHostScope l fp host b) LabelClusterScopeCycleIndex
    = (if lb_AppendScopeLabels l then Some (Itoa (ha_ClusterScopeCycleIndex (h_Address host))) else None)"
proof -
  have none: "gget (propagated l) LabelClusterScopeCycleIndex = None" using assms by (simp add: propagates_none_def)
  have version: "LabelClusterScopeCycleIndex \<notin> fst ` set (version_labels l fp)"
    by (simp add: version_labels_def label_names)
  have host: "gget (GetSelectorHostScope host) LabelClusterScopeCycleIndex = None"
    by (simp add: GetSelectorHostScope_def label_names)
  have "gget (set_labels (scope_labels host) m) LabelClusterScopeCycleIndex
      = Some (Itoa (ha_ClusterScopeCycleIndex (h_Address host)))" for m
    by (simp add: set_labels_def scope_labels_def Let_def gmap_simps label_names)
  with none host show ?thesis
    unfolding getLabelsHostScope_def Let_def appendCHILabels_get
    by (simp add: map_add_def set_labels_get [OF version])
qed

lemma host_selector_gets:
  "gget (GetSelectorHostScope host) LabelAppName = Some LabelAppValue"
  "gget (GetSelectorHostScope host) LabelNamespace = Some (namePartChiName namerContextLabels (ha_Namespace (h_Address host)))"
  "gget (GetSelectorHostScope host) LabelCHIName = Some (namePartChiName namerContextLabels (ha_CHIName (h_Address host)))"
  "gget (GetSelectorHostScope host) LabelClusterName
     = Some (namePartClusterName namerContextLabels (ha_ClusterName (h_Address host)))"
  "gget (GetSelectorHostScope host) LabelShardName
     = Some (namePartShardName namerContextLabels (ha_ShardName (h_Address host)))"
  "gget (GetSelectorHostScope host) LabelReplicaName
     = Some (namePartReplicaName namerContextLabels (ha_ReplicaName (h_Address host)))"
  by (simp_all add: GetSelectorHostScope_def getNamePartReplicaName_def label_names)

lemma own_macro_labels:
  assumes "propagates_none l" and "short_names host" and "(k, v) \<in> set macro_labels"
    and "k = LabelClusterScopeCycleIndex \<longrightarrow> lb_AppendScopeLabels l"
  shows "gget (getLabelsHostScope l fp host b) k = Some (replacer (newNameMacroReplacerHost sha1 host) v)"
proof (cases "k = LabelClusterScopeCycleIndex")
  case True
  with assms(3) have "v = macrosClusterScopeCycleIndex" by (auto simp: macro_labels_def label_names)
  with True assms(4) show ?thesis by (simp add: cycle_label [OF assms(1)] host_macros)
next
  case False
  with assms(3) have key: "k \<in> set scope_keys" by (auto simp: macro_labels_def scope_keys_def)
  with assms(1) have "gget (propagated l) k = None" by (auto simp: propagates_none_def list_all_iff)
  then have "gget (getLabelsHostScope l fp host b) k = gget (GetSelectorHostScope host) k"
    by (simp add: own_host_labels [OF key] map_add_def)
  also have "\<dots> = Some (replacer (newNameMacroReplacerHost sha1 host) v)"
  proof -
    from assms(3) False consider
      "k = LabelAppName" "v = LabelAppValue" | "k = LabelNamespace" "v = macrosNamespace"
      | "k = LabelCHIName" "v = macrosChiName" | "k = LabelClusterName" "v = macrosClusterName"
      | "k = LabelShardName" "v = macrosShardName" | "k = LabelReplicaName" "v = macrosReplicaName"
      unfolding macro_labels_def by (simp only: set_simps insert_iff empty_iff prod.inject) blast
    then show ?thesis
      using assms(2) unfolding short_names_def Let_def
      by cases (simp_all only: host_selector_gets host_macros replacer_app_value short_parts)
  qed
  finally show ?thesis .
qed

lemma distribution_keys: "set (map fst (distribution_labels pd)) = set (told_apart_by pd)"
proof -
  have "set (map fst (distribution_labels pd)) = dom (gget (distribution_labels pd))"
    by (simp add: dom_map_of_conv_image_fst)
  also have "\<dots> = insert (fst (own_label pd)) (fst ` set (scopeLabels (pd_Scope pd)))"
    unfolding distribution_labels_def newMatchLabels_def merge_labels_get [OF gmap_ok_scopeLabels] dom_map_add
    by (cases "own_label pd") (simp add: dom_map_of_conv_image_fst)
  also have "\<dots> = set (told_apart_by pd)"
    by (cases "pd_Scope pd = PodDistributionScopeNamespace") (simp_all add: told_apart_by_def scopeLabels_def)
  finally show ?thesis .
qed

lemma scope_macro_labels: "set (scopeLabels s) \<subseteq> set macro_labels"
  by (simp add: scopeLabels_def macro_labels_def) blast

lemma own_macro_label: "own_label pd \<in> set macro_labels"
  by (simp add: own_label_def macro_labels_def)

lemma distribution_macro_labels: "set (distribution_labels pd) \<subseteq> set macro_labels"
  using distribution_labels_in [of pd] scope_macro_labels [of "pd_Scope pd"] own_macro_label [of pd] by blast


lemma scope_has_no_cycle: "(LabelClusterScopeCycleIndex, v) \<notin> set (scopeLabels s)"
  by (simp add: scopeLabels_def label_names)

lemma cycle_in_distribution:
  "LabelClusterScopeCycleIndex \<in> fst ` set (distribution_labels pd) \<longleftrightarrow> pd_Type pd = PodDistributionMaxNumberPerNode"
proof
  assume "LabelClusterScopeCycleIndex \<in> fst ` set (distribution_labels pd)"
  then obtain v where "(LabelClusterScopeCycleIndex, v) = own_label pd"
    using distribution_labels_in [of pd] scope_has_no_cycle by fastforce
  then show "pd_Type pd = PodDistributionMaxNumberPerNode"
    by (simp add: own_label_def label_names split: if_splits)
next
  assume "pd_Type pd = PodDistributionMaxNumberPerNode"
  then have own: "own_label pd = (LabelClusterScopeCycleIndex, macrosClusterScopeCycleIndex)"
    by (simp add: own_label_def pod_distribution_consts)
  have "gget (scopeLabels (pd_Scope pd)) LabelClusterScopeCycleIndex = None"
    using scope_has_no_cycle by (auto simp: gget_None_iff)
  with own have "gget (distribution_labels pd) LabelClusterScopeCycleIndex \<noteq> None"
    by (simp add: distribution_labels_def newMatchLabels_def merge_labels_get [OF gmap_ok_scopeLabels] map_add_def)
  then show "LabelClusterScopeCycleIndex \<in> fst ` set (distribution_labels pd)"
    by (simp add: gget_None_iff)
qed

lemma processed_selects:
  assumes "propagates_none l" and "short_names host"
  shows "selects (map (\<lambda>(k, v). (k, replacer (newNameMacroReplacerHost sha1 host) v)) (distribution_labels pd))
      (getLabelsHostScope l fp other b)
    \<longleftrightarrow> (pd_Type pd = PodDistributionMaxNumberPerNode \<longrightarrow> lb_AppendScopeLabels l)
      \<and> list_all (\<lambda>k. gget (getLabelsHostScope l fp other b) k = gget (getLabelsHostScope l fp host b) k)
          (told_apart_by pd)" (is "?selects \<longleftrightarrow> ?ok \<and> ?same")
proof (cases ?ok)
  case True
  have "gget (getLabelsHostScope l fp host b) k = Some (replacer (newNameMacroReplacerHost sha1 host) v)"
    if "(k, v) \<in> set (distribution_labels pd)" for k v
  proof (rule own_macro_labels [OF assms])
    show "(k, v) \<in> set macro_labels" using that distribution_macro_labels by blast
    show "k = LabelClusterScopeCycleIndex \<longrightarrow> lb_AppendScopeLabels l"
      using that True cycle_in_distribution [of pd] by force
  qed
  then have "?selects \<longleftrightarrow> ?same"
    unfolding list_all_iff distribution_keys [symmetric]
    by (auto simp: selects_def list_all_iff simp del: replacer.simps)
  with True show ?thesis by blast
next
  case False
  then have "LabelClusterScopeCycleIndex \<in> fst ` set (distribution_labels pd)" and "\<not> lb_AppendScopeLabels l"
    using cycle_in_distribution by blast+
  then obtain v where "(LabelClusterScopeCycleIndex, v) \<in> set (distribution_labels pd)"
    and "gget (getLabelsHostScope l fp other b) LabelClusterScopeCycleIndex = None"
    using cycle_label [OF assms(1)] by fastforce
  then have "\<not> ?selects" by (force simp: selects_def list_all_iff simp del: replacer.simps)
  with False show ?thesis by blast
qed



definition using_pod :: "string \<Rightarrow> ChiHost" where
  "using_pod shard = addressed_host\<lparr>h_Templates := Some (NewChiTemplateNames\<lparr>tn_PodTemplate := ''pod''\<rparr>),
     h_Address := (h_Address addressed_host)\<lparr>ha_ShardName := shard\<rparr>\<rparr>"

definition pods_indexed :: "ChiPodTemplate \<Rightarrow> ChiTemplates option" where
  "pods_indexed t = Some (NewChiTemplates\<lparr>tps_PodTemplates := [t], tps_PodTemplatesIndex := Some [(''pod'', 0)]\<rparr>)"

lemma using_pod_template: "Host_GetPodTemplate (pods_indexed t) (using_pod shard) = Some t"
  by (simp add: Host_GetPodTemplate_def HasPodTemplate_def GetPodTemplate_def CHI_GetPodTemplate_def indexed_def
      Index_Get_def Index_Has_def ghas_def pods_indexed_def using_pod_def NewChiTemplateNames_def)

lemma using_pod_short: "length shard \<le> 15 \<Longrightarrow> short_names (using_pod shard)"
  by (simp add: short_names_def using_pod_def addressed_host_def newChiHost_def newChiHostAddress_def
      object_named_def Let_def)

definition one_anti :: "string \<Rightarrow> ChiPodDistribution" where
  "one_anti type = (newDistribution type PodDistributionScopeCluster 2)\<lparr>pd_TopologyKey := defaultTopologyKey\<rparr>"

lemma one_anti_normalized:
  assumes "type \<in> {PodDistributionMaxNumberPerNode, PodDistributionShardAntiAffinity}"
  obtains t where "normalizePodTemplate exact_diff (Inr 2) (distributed [one_anti type]) = Inr t"
    and "pt_PodDistribution t = [one_anti type]"
proof -
  have "normalizePodDistributions (Inr 2) [one_anti type] = Inr [one_anti type]"
    using assms by (auto simp: normalizePodDistributions_def normalizePodDistribution_def one_anti_def
        newDistribution_def defaultTopologyKey_def defaultScope_def pod_distribution_consts pod_scope_consts Let_def)
  moreover let ?t = "(normalizeZone (distributed [one_anti type]))\<lparr>pt_PodDistribution := [one_anti type]\<rparr>"
  have "\<not> panics (mergeAffinity exact_diff None (newAffinity ?t))" by (simp add: mergeAffinity_panics)
  then obtain aff where "mergeAffinity exact_diff None (newAffinity ?t) = Inr aff" by (auto simp: not_panics_iff)
  ultimately show thesis
    by (intro that [of "?t\<lparr>pt_Spec := (pt_Spec ?t)\<lparr>ps_Affinity := aff\<rparr>\<rparr>"])
      (simp_all add: normalizePodTemplate_def distributed_def newDefaultPodTemplate_def Let_def)
qed

lemma plain_propagates_none:
  "propagates_none (plain_labeler [])" "propagates_none ((plain_labeler [])\<lparr>lb_AppendScopeLabels := False\<rparr>)"
  by (simp_all add: propagates_none_def propagated_def plain_labeler_def CopyMapExcept_def CopyMap_def list_all_iff)

lemma exact_diff_exact: "exact exact_diff"
  by (simp add: exact_def exact_diff_def)


end
