(* ===== verification/Users.thy ===== *)
theory Users
  imports Affinity
begin

text \<open>
  Users of an installation: \<open>normalizeConfigurationUsers\<close> of \<open>pkg/model/normalizer.go\<close>, with the passwords
  taken out of Kubernetes secrets. The settings of a user are the paths \<open>user/field\<close> of the section.

  What the code gets from elsewhere is an argument: the answers to the reads of secrets, which may differ
  from call to call, the hash of a password and the order in which the runtime walks the set of user names.
\<close>

section \<open>Secrets\<close>

record users_config =
  uc_Namespace :: string
  uc_DefaultProfile :: string
  uc_DefaultQuota :: string
  uc_DefaultNetworksIP :: "string list"
  uc_DefaultPassword :: string
  uc_HostRegexp :: string

text \<open>The answer to the read of a secret made for a user and a field: namespace and name of the secret are
  the other two arguments. \<open>None\<close> is an error of the API.\<close>

type_synonym secrets = "string \<Rightarrow> string \<Rightarrow> string \<Rightarrow> string \<Rightarrow> (string, string) gmap option"

definition user_path :: "string \<Rightarrow> string \<Rightarrow> string" where
  "user_path username field = username @ ''/'' @ field"

definition secret_address :: "string \<Rightarrow> string \<Rightarrow> (string \<times> string \<times> string) option" where
  "secret_address own s = (case split_on (CHR ''/'') s of
      [name, field] \<Rightarrow> Some (own, name, field)
    | [namespace, name, field] \<Rightarrow> Some (namespace, name, field)
    | _ \<Rightarrow> None)"

definition substWithSecretField ::
    "users_config \<Rightarrow> secrets \<Rightarrow> string \<Rightarrow> string \<Rightarrow> string \<Rightarrow> settings option \<Rightarrow> settings option" where
  "substWithSecretField cfg secrets username settingsField secretField users =
     (if \<not> Settings_Has users (user_path username secretField) then users
      else Settings_Delete (user_path username secretField)
       (case secret_address (uc_Namespace cfg) (Setting_String (Settings_Get users (user_path username secretField))) of
          None \<Rightarrow> users
        | Some (namespace, name, field) \<Rightarrow>
            if namespace = '''' \<or> name = '''' \<or> field = '''' then users
            else (case secrets username settingsField namespace name of
                None \<Rightarrow> users
              | Some data \<Rightarrow> (case gget data field of
                    None \<Rightarrow> users
                  | Some v \<Rightarrow> Settings_Set (user_path username settingsField) (NewSettingScalar v) users))))"

section \<open>Users\<close>

definition defaultUsername :: string where "defaultUsername = ''default''"

definition add_username :: "string \<Rightarrow> (string, bool) gmap \<Rightarrow> (string, bool) gmap" where
  "add_username path usernameMap = (case split_on (CHR ''/'') path of
      username # _ # _ \<Rightarrow> gput username True usernameMap
    | _ \<Rightarrow> usernameMap)"

definition normalizeUsersList :: "settings option \<Rightarrow> string list" where
  "normalizeUsersList users = gkeys (Settings_Walk (\<lambda>path _. add_username path) users [])"

text \<open>The must-have sections of a user.\<close>

definition ensure_sections :: "users_config \<Rightarrow> string \<Rightarrow> settings option \<Rightarrow> settings option" where
  "ensure_sections cfg username users = (
     let users = Settings_SetIfNotExists (user_path username ''profile'')
           (NewSettingScalar (uc_DefaultProfile cfg)) users;
         users = Settings_SetIfNotExists (user_path username ''quota'') (NewSettingScalar (uc_DefaultQuota cfg)) users;
         users = Settings_SetIfNotExists (user_path username ''networks/ip'')
           (NewSettingVector (uc_DefaultNetworksIP cfg)) users
     in Settings_SetIfNotExists (user_path username ''networks/host_regexp'')
          (NewSettingScalar (uc_HostRegexp cfg)) users)"

definition subst_secrets :: "users_config \<Rightarrow> secrets \<Rightarrow> string \<Rightarrow> settings option \<Rightarrow> settings option" where
  "subst_secrets cfg secrets username users = (
     let users = substWithSecretField cfg secrets username ''password'' ''k8s_secret_password'' users;
         users = substWithSecretField cfg secrets username ''password_sha256_hex'' ''k8s_secret_password_sha256_hex'' users
     in substWithSecretField cfg secrets username ''password_double_sha1_hex''
          ''k8s_secret_password_double_sha1_hex'' users)"

text \<open>The password in plain text that is to be encoded; empty when there is none.\<close>

definition plain_password :: "users_config \<Rightarrow> string \<Rightarrow> settings option \<Rightarrow> string" where
  "plain_password cfg username users = (
     let plain = (if Settings_Has users (user_path username ''password'')
           then Setting_String (Settings_Get users (user_path username ''password'')) else '''')
     in if plain = '''' \<and> username \<noteq> defaultUsername then uc_DefaultPassword cfg else plain)"

definition encode_password ::
    "users_config \<Rightarrow> (string \<Rightarrow> string) \<Rightarrow> string \<Rightarrow> settings option \<Rightarrow> settings option" where
  "encode_password cfg sha256 username users = (
     let plain = plain_password cfg username users;
         hasSHA256 = Settings_Has users (user_path username ''password_sha256_hex'');
         hasDoubleSHA1 = Settings_Has users (user_path username ''password_double_sha1_hex'');
         encode = (\<not> hasSHA256 \<and> \<not> hasDoubleSHA1 \<and> plain \<noteq> '''');
         users = (if encode then Settings_Set (user_path username ''password_sha256_hex'')
             (NewSettingScalar (sha256 plain)) users else users)
     in if hasSHA256 \<or> encode
        then (if username = ''default''
              then Settings_Set (user_path username ''password'') (NewSettingScalar ''_removed_'') users
              else Settings_Delete (user_path username ''password'') users)
        else users)"

definition normalize_user ::
    "users_config \<Rightarrow> (string \<Rightarrow> string) \<Rightarrow> secrets \<Rightarrow> string \<Rightarrow> settings option \<Rightarrow> settings option" where
  "normalize_user cfg sha256 secrets username users =
     encode_password cfg sha256 username (subst_secrets cfg secrets username (ensure_sections cfg username users))"

definition normalizeConfigurationUsers ::
    "users_config \<Rightarrow> (string \<Rightarrow> string) \<Rightarrow> secrets \<Rightarrow> (string list \<Rightarrow> string list) \<Rightarrow> settings option
     \<Rightarrow> settings option" where
  "normalizeConfigurationUsers cfg sha256 secrets shuffle users = (
     let users = normalizePaths (case users of None \<Rightarrow> Some NewSettings | Some u \<Rightarrow> Some u);
         usernames = shuffle (normalizeUsersList users) @ [defaultUsername]
     in fold (normalize_user cfg sha256 secrets) usernames users)"

section \<open>One user\<close>

text \<open>What the settings say of one user: the value of each of its fields.\<close>

definition fields_of :: "string \<Rightarrow> settings option \<Rightarrow> string \<Rightarrow> setting option" where
  "fields_of username users = (\<lambda>field. Settings_Get users (user_path username field))"

definition in_user :: "string \<Rightarrow> string \<Rightarrow> bool" where
  "in_user username path = (\<exists>field. path = user_path username field)"

lemma user_path_inject:
  assumes "CHR ''/'' \<notin> set u" and "CHR ''/'' \<notin> set v"
  shows "user_path u x = user_path v y \<longleftrightarrow> u = v \<and> x = y"
proof
  assume eq: "user_path u x = user_path v y"
  have t: "takeWhile (\<lambda>c. c \<noteq> CHR ''/'') (user_path w z) = w" if "CHR ''/'' \<notin> set w" for w z
    using that by (induction w) (auto simp: user_path_def)
  from eq t [OF assms(1)] t [OF assms(2)] have "u = v" by metis
  with eq show "u = v \<and> x = y" by (simp add: user_path_def)
qed simp

lemma user_path_same [simp]: "user_path u x = user_path u y \<longleftrightarrow> x = y"
  by (simp add: user_path_def)

lemma Settings_Get_Set: "st \<noteq> None \<Longrightarrow> Settings_Get (Settings_Set nm v st) = (Settings_Get st)(nm \<mapsto> v)"
  by (cases st) (auto simp: gmap_simps)

lemma Settings_Set_some [simp]: "Settings_Set nm v st = None \<longleftrightarrow> st = None"
  by (cases st) auto

lemma Settings_Delete_some [simp]: "Settings_Delete nm st = None \<longleftrightarrow> st = None"
  by (cases st) (auto simp: Settings_Delete_def)

lemma Settings_SetIfNotExists_get: "st \<noteq> None \<Longrightarrow>
    Settings_Get (Settings_SetIfNotExists nm v st)
      = (Settings_Get st)(nm := Some (case Settings_Get st nm of None \<Rightarrow> v | Some w \<Rightarrow> w))"
  by (auto simp: Settings_SetIfNotExists_def Settings_Get_Set fun_eq_iff)

lemma Settings_SetIfNotExists_some [simp]: "Settings_SetIfNotExists nm v st = None \<longleftrightarrow> st = None"
  by (simp add: Settings_SetIfNotExists_def)


lemma fields_of_Set [simp]:
  "st \<noteq> None \<Longrightarrow> fields_of u (Settings_Set (user_path u x) v st) = (fields_of u st)(x \<mapsto> v)"
  by (auto simp: fields_of_def Settings_Get_Set fun_eq_iff)

lemma fields_of_Delete [simp]: "fields_of u (Settings_Delete (user_path u x) st) = (fields_of u st)(x := None)"
  by (auto simp: fields_of_def Settings_Get_Delete fun_eq_iff)

lemma fields_of_SetIfNotExists [simp]: "st \<noteq> None \<Longrightarrow>
    fields_of u (Settings_SetIfNotExists (user_path u x) v st)
      = (fields_of u st)(x := Some (case fields_of u st x of None \<Rightarrow> v | Some w \<Rightarrow> w))"
  by (auto simp: fields_of_def Settings_SetIfNotExists_get fun_eq_iff)

lemma Settings_Get_user: "Settings_Get st (user_path u x) = fields_of u st x"
  by (simp add: fields_of_def)

text \<open>An operation on a user leaves every path of other users, and every other path, alone.\<close>

definition only_user :: "string \<Rightarrow> (settings option \<Rightarrow> settings option) \<Rightarrow> bool" where
  "only_user u op = (\<forall>st path. \<not> in_user u path \<longrightarrow> Settings_Get (op st) path = Settings_Get st path)"

lemma only_user_Set: "only_user u (Settings_Set (user_path u x) v)"
  unfolding only_user_def
proof (intro allI impI)
  fix st path
  assume "\<not> in_user u path"
  then show "Settings_Get (Settings_Set (user_path u x) v st) path = Settings_Get st path"
    by (cases st) (auto simp: gmap_simps in_user_def)
qed

lemma only_user_Delete: "only_user u (Settings_Delete (user_path u x))"
  by (auto simp: only_user_def Settings_Get_Delete in_user_def)

lemma only_userD: "only_user u op \<Longrightarrow> \<not> in_user u path \<Longrightarrow> Settings_Get (op st) path = Settings_Get st path"
  by (simp add: only_user_def)

lemma only_user_SetIfNotExists: "only_user u (Settings_SetIfNotExists (user_path u x) v)"
  using only_user_Set [of u x v] by (auto simp: only_user_def Settings_SetIfNotExists_def)

lemmas only_user = only_userD [OF only_user_Set] only_userD [OF only_user_Delete]
  only_userD [OF only_user_SetIfNotExists]

lemma ensure_sections_only: "\<not> in_user u path \<Longrightarrow> Settings_Get (ensure_sections cfg u st) path = Settings_Get st path"
  by (simp only: ensure_sections_def Let_def only_user simp_thms)

lemma substWithSecretField_only:
  "\<not> in_user u path \<Longrightarrow> Settings_Get (substWithSecretField cfg secrets u a b st) path = Settings_Get st path"
  unfolding substWithSecretField_def
  by (cases "secret_address (uc_Namespace cfg) (Setting_String (Settings_Get st (user_path u b)))")
    (simp_all add: only_user split: option.split prod.split)

lemma encode_password_only:
  "\<not> in_user u path \<Longrightarrow> Settings_Get (encode_password cfg sha256 u st) path = Settings_Get st path"
  unfolding encode_password_def Let_def by (cases "u = ''default''") (simp_all add: only_user)

lemma normalize_user_only: "only_user u (normalize_user cfg sha256 secrets u)"
  by (simp add: only_user_def normalize_user_def subst_secrets_def Let_def ensure_sections_only
      substWithSecretField_only encode_password_only)

text \<open>What a user is to have, field by field.\<close>

definition secret_value ::
    "users_config \<Rightarrow> secrets \<Rightarrow> string \<Rightarrow> string \<Rightarrow> setting option \<Rightarrow> setting option" where
  "secret_value cfg secrets u field address = (case address of
     None \<Rightarrow> None
   | Some s \<Rightarrow> (case secret_address (uc_Namespace cfg) (Setting_String (Some s)) of
        None \<Rightarrow> None
      | Some (namespace, name, key) \<Rightarrow>
          if namespace = '''' \<or> name = '''' \<or> key = '''' then None
          else (case secrets u field namespace name of
              None \<Rightarrow> None | Some data \<Rightarrow> map_option NewSettingScalar (gget data key))))"

definition given :: "users_config \<Rightarrow> secrets \<Rightarrow> string \<Rightarrow> (string \<Rightarrow> setting option) \<Rightarrow> string \<Rightarrow> setting option" where
  "given cfg secrets u f field =
     (case secret_value cfg secrets u field (f (''k8s_secret_'' @ field)) of Some v \<Rightarrow> Some v | None \<Rightarrow> f field)"

lemma substWithSecretField_fields:
  assumes "st \<noteq> None"
  shows "fields_of u (substWithSecretField cfg secrets u field (''k8s_secret_'' @ field) st)
     = (fields_of u st)(field := given cfg secrets u (fields_of u st) field, ''k8s_secret_'' @ field := None)"
proof -
  have ne: "field \<noteq> ''k8s_secret_'' @ field" by simp
  show ?thesis
    using assms ne unfolding substWithSecretField_def given_def secret_value_def Settings_Has_iff Settings_Get_user
    by (auto simp: fun_eq_iff split: option.split prod.split)
qed

lemma substWithSecretField_some [simp]: "substWithSecretField cfg secrets u a b st = None \<longleftrightarrow> st = None"
  by (simp add: substWithSecretField_def split: option.split prod.split)

definition default_field :: "users_config \<Rightarrow> (string \<times> setting) list" where
  "default_field cfg = [(''profile'', NewSettingScalar (uc_DefaultProfile cfg)),
     (''quota'', NewSettingScalar (uc_DefaultQuota cfg)),
     (''networks/ip'', NewSettingVector (uc_DefaultNetworksIP cfg)),
     (''networks/host_regexp'', NewSettingScalar (uc_HostRegexp cfg))]"

definition spec_plain :: "users_config \<Rightarrow> secrets \<Rightarrow> string \<Rightarrow> (string \<Rightarrow> setting option) \<Rightarrow> string" where
  "spec_plain cfg secrets u f = (case Setting_String (given cfg secrets u f ''password'') of
     [] \<Rightarrow> if u = ''default'' then '''' else uc_DefaultPassword cfg | c # s \<Rightarrow> c # s)"

definition spec_sha ::
    "users_config \<Rightarrow> (string \<Rightarrow> string) \<Rightarrow> secrets \<Rightarrow> string \<Rightarrow> (string \<Rightarrow> setting option) \<Rightarrow> setting option" where
  "spec_sha cfg sha256 secrets u f = (case given cfg secrets u f ''password_sha256_hex'' of
     Some v \<Rightarrow> Some v
   | None \<Rightarrow> if given cfg secrets u f ''password_double_sha1_hex'' = None \<and> spec_plain cfg secrets u f \<noteq> ''''
       then Some (NewSettingScalar (sha256 (spec_plain cfg secrets u f))) else None)"

definition spec_password ::
    "users_config \<Rightarrow> (string \<Rightarrow> string) \<Rightarrow> secrets \<Rightarrow> string \<Rightarrow> (string \<Rightarrow> setting option) \<Rightarrow> setting option" where
  "spec_password cfg sha256 secrets u f =
     (if spec_sha cfg sha256 secrets u f = None then given cfg secrets u f ''password''
      else if u = ''default'' then Some (NewSettingScalar ''_removed_'') else None)"

definition user_spec ::
    "users_config \<Rightarrow> (string \<Rightarrow> string) \<Rightarrow> secrets \<Rightarrow> string \<Rightarrow> (string \<Rightarrow> setting option) \<Rightarrow> string \<Rightarrow> setting option"
where
  "user_spec cfg sha256 secrets u f =
     (\<lambda>field. case f field of Some v \<Rightarrow> Some v | None \<Rightarrow> map_of (default_field cfg) field)
       (''password_sha256_hex'' := spec_sha cfg sha256 secrets u f,
        ''password_double_sha1_hex'' := given cfg secrets u f ''password_double_sha1_hex'',
        ''password'' := spec_password cfg sha256 secrets u f,
        ''k8s_secret_password'' := None,
        ''k8s_secret_password_sha256_hex'' := None,
        ''k8s_secret_password_double_sha1_hex'' := None)"

lemma ensure_sections_fields:
  assumes "st \<noteq> None"
  shows "fields_of u (ensure_sections cfg u st)
    = (\<lambda>field. case fields_of u st field of Some v \<Rightarrow> Some v | None \<Rightarrow> map_of (default_field cfg) field)"
  using assms by (auto simp: ensure_sections_def Let_def default_field_def fun_eq_iff split: option.split)

lemma ensure_sections_some [simp]: "ensure_sections cfg u st = None \<longleftrightarrow> st = None"
  by (simp add: ensure_sections_def Let_def)

lemma subst_secrets_some [simp]: "subst_secrets cfg secrets u st = None \<longleftrightarrow> st = None"
  by (simp add: subst_secrets_def Let_def)

lemma encode_password_some [simp]: "encode_password cfg sha256 u st = None \<longleftrightarrow> st = None"
  by (simp add: encode_password_def Let_def)

lemma normalize_user_some [simp]: "normalize_user cfg sha256 secrets u st = None \<longleftrightarrow> st = None"
  by (simp add: normalize_user_def)

lemma subst_secrets_fields:
  assumes "st \<noteq> None"
  shows "fields_of u (subst_secrets cfg secrets u st) = (fields_of u st)
     (''password'' := given cfg secrets u (fields_of u st) ''password'',
      ''password_sha256_hex'' := given cfg secrets u (fields_of u st) ''password_sha256_hex'',
      ''password_double_sha1_hex'' := given cfg secrets u (fields_of u st) ''password_double_sha1_hex'',
      ''k8s_secret_password'' := None, ''k8s_secret_password_sha256_hex'' := None,
      ''k8s_secret_password_double_sha1_hex'' := None)"
proof -
  note step = substWithSecretField_fields [of _ u cfg secrets "''password''", unfolded append.simps]
    substWithSecretField_fields [of _ u cfg secrets "''password_sha256_hex''", unfolded append.simps]
    substWithSecretField_fields [of _ u cfg secrets "''password_double_sha1_hex''", unfolded append.simps]
  show ?thesis
    using assms by (simp add: subst_secrets_def Let_def step given_def fun_eq_iff del: not_None_eq split: option.split)
qed

lemma plain_password_fields:
  "plain_password cfg u st = (case Setting_String (fields_of u st ''password'') of
     [] \<Rightarrow> if u = ''default'' then '''' else uc_DefaultPassword cfg | c # s \<Rightarrow> c # s)"
proof -
  have "(if Settings_Has st (user_path u ''password'') then Setting_String (fields_of u st ''password'') else '''')
      = Setting_String (fields_of u st ''password'')"
    by (simp add: Settings_Get_user Setting_String_def)
  then show ?thesis
    unfolding plain_password_def Let_def Settings_Get_user by (simp add: defaultUsername_def split: list.split)
qed

lemma encode_password_fields:
  assumes "st \<noteq> None"
  shows "fields_of u (encode_password cfg sha256 u st) = (
    let plain = plain_password cfg u st;
        sha = (case fields_of u st ''password_sha256_hex'' of Some v \<Rightarrow> Some v
          | None \<Rightarrow> if fields_of u st ''password_double_sha1_hex'' = None \<and> plain \<noteq> ''''
              then Some (NewSettingScalar (sha256 plain)) else None)
    in (fields_of u st)(''password_sha256_hex'' := sha,
         ''password'' := if sha = None then fields_of u st ''password''
           else if u = ''default'' then Some (NewSettingScalar ''_removed_'') else None))"
proof -
  have upd: "f = f(a := f a, b := f b)" for f :: "string \<Rightarrow> setting option" and a b by simp
  let ?has = "fields_of u st ''password_sha256_hex'' \<noteq> None"
  let ?encode = "\<not> ?has \<and> fields_of u st ''password_double_sha1_hex'' = None \<and> plain_password cfg u st \<noteq> ''''"
  consider "?has" | "\<not> ?has" "?encode" | "\<not> ?has" "\<not> ?encode" by blast
  then show ?thesis
  proof cases
    case 1
    then show ?thesis
      using assms unfolding encode_password_def Let_def Settings_Has_iff Settings_Get_user
      by (cases "u = ''default''") (auto simp: fun_eq_iff)
  next
    case 2
    then show ?thesis
      using assms unfolding encode_password_def Let_def Settings_Has_iff Settings_Get_user
      by (cases "u = ''default''") (simp_all del: not_None_eq)
  next
    case 3
    then have "encode_password cfg sha256 u st = st"
      unfolding encode_password_def Let_def Settings_Has_iff Settings_Get_user
      by (cases "u = ''default''") auto
    moreover from 3 have "(case fields_of u st ''password_sha256_hex'' of Some v \<Rightarrow> Some v
          | None \<Rightarrow> if fields_of u st ''password_double_sha1_hex'' = None \<and> plain_password cfg u st \<noteq> ''''
              then Some (NewSettingScalar (sha256 (plain_password cfg u st))) else None) = None" by auto
    ultimately show ?thesis
      using 3(1) upd [of "fields_of u st" "''password_sha256_hex''" "''password''"] unfolding Let_def by simp
  qed
qed

lemma six_updates:
  assumes "distinct [a, b, c, d, e, g]"
  shows "(f(a := A, b := B, c := C, d := None, e := None, g := None))(b := S, a := P)
    = f(b := S, c := C, a := P, d := None, e := None, g := None)"
  using assms by (auto simp: fun_eq_iff)

lemma normalize_user_fields:
  assumes "st \<noteq> None"
  shows "fields_of u (normalize_user cfg sha256 secrets u st) = user_spec cfg sha256 secrets u (fields_of u st)"
proof -
  let ?st = "subst_secrets cfg secrets u (ensure_sections cfg u st)"
  have "given cfg secrets u (fields_of u (ensure_sections cfg u st)) x = given cfg secrets u (fields_of u st) x"
    if "x \<in> {''password'', ''password_sha256_hex'', ''password_double_sha1_hex''}" for x
    using that unfolding given_def ensure_sections_fields [OF assms]
    by (auto simp: default_field_def split: option.split)
  then have f: "fields_of u ?st = (\<lambda>field. case fields_of u st field of Some v \<Rightarrow> Some v
        | None \<Rightarrow> map_of (default_field cfg) field)
     (''password'' := given cfg secrets u (fields_of u st) ''password'',
      ''password_sha256_hex'' := given cfg secrets u (fields_of u st) ''password_sha256_hex'',
      ''password_double_sha1_hex'' := given cfg secrets u (fields_of u st) ''password_double_sha1_hex'',
      ''k8s_secret_password'' := None, ''k8s_secret_password_sha256_hex'' := None,
      ''k8s_secret_password_double_sha1_hex'' := None)"
    using assms by (simp add: subst_secrets_fields ensure_sections_fields del: not_None_eq)
  have some: "?st \<noteq> None" using assms by (simp del: not_None_eq)
  have look: "fields_of u ?st ''password'' = given cfg secrets u (fields_of u st) ''password''"
    "fields_of u ?st ''password_sha256_hex'' = given cfg secrets u (fields_of u st) ''password_sha256_hex''"
    "fields_of u ?st ''password_double_sha1_hex'' = given cfg secrets u (fields_of u st) ''password_double_sha1_hex''"
    unfolding f by simp_all
  show ?thesis
    unfolding normalize_user_def encode_password_fields [OF some] plain_password_fields look user_spec_def Let_def
      spec_password_def spec_sha_def spec_plain_def
    unfolding f by (rule six_updates) simp
qed


lemma user_spec_fields:
  "user_spec cfg sha256 secrets u f ''password_double_sha1_hex'' = given cfg secrets u f ''password_double_sha1_hex''"
  "user_spec cfg sha256 secrets u f ''password_sha256_hex'' = spec_sha cfg sha256 secrets u f"
  "user_spec cfg sha256 secrets u f ''password'' = spec_password cfg sha256 secrets u f"
  "user_spec cfg sha256 secrets u f ''k8s_secret_password'' = None"
  "user_spec cfg sha256 secrets u f ''k8s_secret_password_sha256_hex'' = None"
  "user_spec cfg sha256 secrets u f ''k8s_secret_password_double_sha1_hex'' = None"
  by (simp_all add: user_spec_def)

definition credentials :: "string list" where
  "credentials = [''password_sha256_hex'', ''password_double_sha1_hex'', ''password'', ''k8s_secret_password'',
     ''k8s_secret_password_sha256_hex'', ''k8s_secret_password_double_sha1_hex'']"

lemma user_spec_other: "field \<notin> set credentials \<Longrightarrow>
    user_spec cfg sha256 secrets u f field
      = (case f field of Some v \<Rightarrow> Some v | None \<Rightarrow> map_of (default_field cfg) field)"
  by (simp add: user_spec_def credentials_def)

lemma user_spec_given:
  "given cfg secrets u (user_spec cfg sha256 secrets u f) ''password'' = spec_password cfg sha256 secrets u f"
  "given cfg secrets u (user_spec cfg sha256 secrets u f) ''password_sha256_hex'' = spec_sha cfg sha256 secrets u f"
  "given cfg secrets u (user_spec cfg sha256 secrets u f) ''password_double_sha1_hex''
     = given cfg secrets u f ''password_double_sha1_hex''"
  by (simp_all only: given_def secret_value_def append.simps user_spec_fields option.case)

text \<open>A user that is normalized stays as it is.\<close>

lemma user_spec_idem:
  "user_spec cfg sha256 secrets u (user_spec cfg sha256 secrets u f) = user_spec cfg sha256 secrets u f"
  (is "user_spec cfg sha256 secrets u ?r = ?r")
proof
  fix field
  have sha: "spec_sha cfg sha256 secrets u ?r = spec_sha cfg sha256 secrets u f"
  proof (cases "spec_sha cfg sha256 secrets u f")
    case None
    then have "spec_plain cfg secrets u ?r = spec_plain cfg secrets u f"
      by (simp add: spec_plain_def user_spec_given spec_password_def)
    moreover have "given cfg secrets u f ''password_sha256_hex'' = None"
      using None by (simp add: spec_sha_def split: option.splits)
    ultimately show ?thesis
      using None unfolding spec_sha_def [of cfg sha256 secrets u ?r] user_spec_given
      by (simp add: spec_sha_def split: if_splits)
  next
    case (Some v)
    then show ?thesis unfolding spec_sha_def [of cfg sha256 secrets u ?r] user_spec_given by simp
  qed
  have pw: "spec_password cfg sha256 secrets u ?r = spec_password cfg sha256 secrets u f"
    unfolding spec_password_def [of cfg sha256 secrets u ?r] sha user_spec_given
    by (simp add: spec_password_def)
  show "user_spec cfg sha256 secrets u ?r field = ?r field"
  proof (cases "field \<in> set credentials")
    case True
    then show ?thesis
      unfolding credentials_def set_simps insert_iff empty_iff
      by (elim disjE; simp only: user_spec_fields sha pw user_spec_given simp_thms)
  next
    case False
    then show ?thesis by (simp add: user_spec_other split: option.split)
  qed
qed

section \<open>All users\<close>

lemma split_on_first: "CHR ''/'' \<notin> set u \<Longrightarrow> split_on (CHR ''/'') (user_path u field) = u # split_on (CHR ''/'') field"
  by (induction u) (auto simp: user_path_def)

lemma split_on_user:
  "split_on (CHR ''/'') path = u # p # ps \<Longrightarrow> CHR ''/'' \<notin> set u \<and> in_user u path"
proof (induction path arbitrary: u)
  case (Cons c path)
  show ?case
  proof (cases "c = CHR ''/''")
    case True
    with Cons.prems show ?thesis by (auto simp: in_user_def user_path_def)
  next
    case False
    then obtain w where w: "split_on (CHR ''/'') path = w # p # ps" "u = c # w"
      using Cons.prems by (auto split: list.splits)
    from Cons.IH [OF w(1)] w(2) False show ?thesis by (auto simp: in_user_def user_path_def)
  qed
qed simp

lemma add_username_ok: "gmap_ok acc \<Longrightarrow> gmap_ok (add_username path acc)"
  by (simp add: add_username_def split: list.split)

lemma keys_gput: "set (gkeys (gput k v m)) = insert k (set (gkeys m))"
  by (induction m) auto

lemma add_username_keys:
  "u \<in> set (gkeys (add_username path acc)) \<longleftrightarrow> u \<in> set (gkeys acc) \<or> CHR ''/'' \<notin> set u \<and> in_user u path"
proof (cases "\<exists>w p ps. split_on (CHR ''/'') path = w # p # ps")
  case True
  then obtain w p ps where w: "split_on (CHR ''/'') path = w # p # ps" by blast
  then have "CHR ''/'' \<notin> set u \<and> in_user u path \<longleftrightarrow> u = w"
    using split_on_user [OF w] split_on_first [of u] by (auto simp: in_user_def)
  with w show ?thesis unfolding add_username_def by (simp only: list.case keys_gput) blast
next
  case False
  have "\<not> (CHR ''/'' \<notin> set u \<and> in_user u path)"
  proof
    assume "CHR ''/'' \<notin> set u \<and> in_user u path"
    then obtain field where "split_on (CHR ''/'') path = u # split_on (CHR ''/'') field"
      using split_on_first [of u] by (auto simp: in_user_def)
    with False show False by (cases "split_on (CHR ''/'') field") auto
  qed
  moreover from False have "add_username path acc = acc" by (auto simp: add_username_def split: list.split)
  ultimately show ?thesis by metis
qed

lemma users_walk:
  "u \<in> set (gkeys (fold (\<lambda>(path, v). add_username path) kvs acc))
     \<longleftrightarrow> u \<in> set (gkeys acc) \<or> CHR ''/'' \<notin> set u \<and> list_ex (\<lambda>kv. in_user u (fst kv)) kvs"
proof (induction kvs arbitrary: acc)
  case (Cons kv kvs)
  obtain path v where kv: "kv = (path, v)" by (cases kv)
  have "fold (\<lambda>(path, v). add_username path) (kv # kvs) acc
      = fold (\<lambda>(path, v). add_username path) kvs (add_username path acc)" by (simp add: kv)
  moreover have "list_ex (\<lambda>kv. in_user u (fst kv)) (kv # kvs) \<longleftrightarrow> in_user u path \<or> list_ex (\<lambda>kv. in_user u (fst kv)) kvs"
    by (simp add: kv)
  ultimately show ?case using Cons.IH [of "add_username path acc"] add_username_keys [of u path acc] by argo
qed simp

lemma normalizeUsersList_set:
  assumes "gmap_ok m"
  shows "u \<in> set (normalizeUsersList (Some m)) \<longleftrightarrow> CHR ''/'' \<notin> set u \<and> (\<exists>x. fields_of u (Some m) x \<noteq> None)"
proof -
  have "u \<in> set (normalizeUsersList (Some m)) \<longleftrightarrow> CHR ''/'' \<notin> set u \<and> list_ex (\<lambda>kv. in_user u (fst kv)) m"
    unfolding normalizeUsersList_def Settings_Walk_Some [OF assms] users_walk by simp
  also have "list_ex (\<lambda>kv. in_user u (fst kv)) m \<longleftrightarrow> (\<exists>x. user_path u x \<in> fst ` set m)"
    unfolding list_ex_iff in_user_def image_iff by metis
  also have "\<dots> \<longleftrightarrow> (\<exists>x. fields_of u (Some m) x \<noteq> None)"
    using gget_None_iff [of m] by (simp add: fields_of_def)
  finally show ?thesis .
qed

lemma normalize_users_fold:
  assumes "st \<noteq> None" and "CHR ''/'' \<notin> set u" and "\<forall>w\<in>set names. CHR ''/'' \<notin> set w"
  shows "fields_of u (fold (normalize_user cfg sha256 secrets) names st)
    = (if u \<in> set names then user_spec cfg sha256 secrets u (fields_of u st) else fields_of u st)"
  using assms(1,3)
proof (induction names arbitrary: st)
  case (Cons w names)
  let ?st = "normalize_user cfg sha256 secrets w st"
  have "fields_of u ?st = (if u = w then user_spec cfg sha256 secrets u (fields_of u st) else fields_of u st)"
  proof (cases "u = w")
    case True
    with Cons.prems show ?thesis by (simp add: normalize_user_fields del: not_None_eq)
  next
    case False
    then have "\<not> in_user w (user_path u x)" for x
      using Cons.prems(2) assms(2) by (auto simp: in_user_def user_path_inject)
    with False show ?thesis
      using normalize_user_only [of w cfg sha256 secrets] by (auto simp: fields_of_def only_user_def)
  qed
  moreover have "fields_of u (fold (normalize_user cfg sha256 secrets) names ?st)
      = (if u \<in> set names then user_spec cfg sha256 secrets u (fields_of u ?st) else fields_of u ?st)"
    using Cons.IH [of ?st] Cons.prems by simp
  ultimately show ?case by (cases "u = w"; cases "u \<in> set names") (simp_all add: user_spec_idem)
qed simp


lemma normalize_users_frame:
  assumes "\<forall>w\<in>set names. \<not> in_user w path"
  shows "Settings_Get (fold (normalize_user cfg sha256 secrets) names st) path = Settings_Get st path"
  using assms
proof (induction names arbitrary: st)
  case (Cons w names)
  then show ?case using normalize_user_only [of w cfg sha256 secrets] by (simp add: only_user_def)
qed simp

text \<open>The runtime walks the user names in some order, without losing or inventing any.\<close>

definition some_order :: "(string list \<Rightarrow> string list) \<Rightarrow> bool" where
  "some_order shuffle = (\<forall>names. set (shuffle names) = set names)"

lemma normalizePaths_start:
  assumes "settings_ok users"
  obtains m where "normalizePaths (case users of None \<Rightarrow> Some NewSettings | Some u \<Rightarrow> Some u) = Some m" "gmap_ok m"
proof -
  have "gmap_ok (case users of None \<Rightarrow> NewSettings | Some u \<Rightarrow> u)"
    using assms by (cases users) (simp_all add: NewSettings_def)
  from normalizePaths_get [OF this] obtain m where
    "normalizePaths (Some (case users of None \<Rightarrow> NewSettings | Some u \<Rightarrow> u)) = Some m" "gmap_ok m" by blast
  then show thesis by (intro that) (cases users, simp_all)
qed

lemma normalized_names:
  assumes "settings_ok users" and "some_order shuffle"
    and "base = normalizePaths (case users of None \<Rightarrow> Some NewSettings | Some u \<Rightarrow> Some u)"
  shows "w \<in> set (shuffle (normalizeUsersList base) @ [defaultUsername])
    \<longleftrightarrow> w = ''default'' \<or> CHR ''/'' \<notin> set w \<and> (\<exists>field. fields_of w base field \<noteq> None)" and "base \<noteq> None"
proof -
  obtain m where m: "base = Some m" "gmap_ok m" using normalizePaths_start [OF assms(1)] assms(3) by metis
  then show "w \<in> set (shuffle (normalizeUsersList base) @ [defaultUsername])
    \<longleftrightarrow> w = ''default'' \<or> CHR ''/'' \<notin> set w \<and> (\<exists>field. fields_of w base field \<noteq> None)"
    using assms(2) normalizeUsersList_set [OF m(2), of w] by (auto simp: some_order_def defaultUsername_def)
  show "base \<noteq> None" using m(1) by simp
qed

lemma normalized_fields:
  assumes "settings_ok users" and "some_order shuffle"
    and "base = normalizePaths (case users of None \<Rightarrow> Some NewSettings | Some u \<Rightarrow> Some u)"
    and "result = normalizeConfigurationUsers cfg sha256 secrets shuffle users" and "CHR ''/'' \<notin> set u"
  shows "fields_of u result =
      (if u = ''default'' \<or> (\<exists>field. fields_of u base field \<noteq> None)
       then user_spec cfg sha256 secrets u (fields_of u base) else (\<lambda>_. None))"
proof -
  note names = normalized_names [OF assms(1-3)]
  have slash: "\<forall>w\<in>set (shuffle (normalizeUsersList base) @ [defaultUsername]). CHR ''/'' \<notin> set w"
  proof
    fix w
    assume "w \<in> set (shuffle (normalizeUsersList base) @ [defaultUsername])"
    from iffD1 [OF names(1) this] show "CHR ''/'' \<notin> set w" by (elim disjE conjE) simp_all
  qed
  show ?thesis
    unfolding assms(4) normalizeConfigurationUsers_def Let_def assms(3) [symmetric]
      normalize_users_fold [OF names(2) assms(5) slash] names(1)
    using assms(5) by (simp add: fun_eq_iff)
qed

text \<open>
  C4: what normalizing the users does, whatever the order of the users and the answers of the API. The
  fields of every user that is named, and of the user \<open>default\<close>, become what the specification of a single
  user says of its own fields: the must-have sections are there, a value from a secret that could be read
  wins, references to secrets are gone, and a password in plain text is replaced by its hash. Users are
  independent of each other, a user that is not named does not appear, and paths that belong to no user stay.
\<close>

theorem users_normalized:
  assumes "settings_ok users" and "some_order shuffle"
    and "base = normalizePaths (case users of None \<Rightarrow> Some NewSettings | Some u \<Rightarrow> Some u)"
    and "result = normalizeConfigurationUsers cfg sha256 secrets shuffle users"
  shows "(CHR ''/'' \<notin> set u \<longrightarrow> fields_of u result =
      (if u = ''default'' \<or> (\<exists>field. fields_of u base field \<noteq> None)
       then user_spec cfg sha256 secrets u (fields_of u base) else (\<lambda>_. None)))
    \<and> (CHR ''/'' \<notin> set path \<longrightarrow> Settings_Get result path = Settings_Get base path)"
proof -
  have "\<not> in_user w path" if "CHR ''/'' \<notin> set path" for w
    using that by (auto simp: in_user_def user_path_def)
  then have "CHR ''/'' \<notin> set path \<longrightarrow> Settings_Get result path = Settings_Get base path"
    unfolding assms(3,4) normalizeConfigurationUsers_def Let_def
    by (intro impI normalize_users_frame ballI) simp
  then show ?thesis using normalized_fields [OF assms] by blast
qed

definition plain_users_config :: users_config where
  "plain_users_config = \<lparr>uc_Namespace = ''kube'', uc_DefaultProfile = ''default'', uc_DefaultQuota = ''default'',
     uc_DefaultNetworksIP = [''::1''], uc_DefaultPassword = ''default'', uc_HostRegexp = ''chi''\<rparr>"

definition secret_user :: "settings option" where
  "secret_user = Some [(''ann/k8s_secret_password'', NewSettingScalar ''vault/ann'')]"

lemma secret_user_paths:
  "normalizePaths (case secret_user of None \<Rightarrow> Some NewSettings | Some u \<Rightarrow> Some u) = secret_user"
  "settings_ok secret_user"
proof -
  have "pathsToNormalize secret_user = []" unfolding secret_user_def by code_simp
  then show "normalizePaths (case secret_user of None \<Rightarrow> Some NewSettings | Some u \<Rightarrow> Some u) = secret_user"
    by (simp add: normalizePaths_def secret_user_def)
qed (simp add: secret_user_def gmap_ok_def)

lemma secret_user_fields:
  "fields_of ''ann'' secret_user = (\<lambda>_. None)(''k8s_secret_password'' := Some (NewSettingScalar ''vault/ann''))"
  by (auto simp: fields_of_def secret_user_def user_path_def fun_eq_iff)

theorem users_normalized_witness:
  "fields_of ''ann'' (normalizeConfigurationUsers plain_users_config (\<lambda>s. s)
      (\<lambda>_ _ ns n. if ns = ''kube'' \<and> n = ''vault'' then Some [(''ann'', ''xyz'')] else None) (\<lambda>ns. ns) secret_user)
     ''password_sha256_hex'' = Some (NewSettingScalar ''xyz'')"
proof -
  let ?secrets = "\<lambda>_ _ ns n. if ns = ''kube'' \<and> n = ''vault'' then Some [(''ann'', ''xyz'')] else None"
  have "some_order (\<lambda>ns. ns)" by (simp add: some_order_def)
  from users_normalized [OF secret_user_paths(2) this refl refl, of "''ann''" plain_users_config "\<lambda>s. s" ?secrets "''''"]
  have "fields_of ''ann'' (normalizeConfigurationUsers plain_users_config (\<lambda>s. s) ?secrets (\<lambda>ns. ns) secret_user)
      = user_spec plain_users_config (\<lambda>s. s) ?secrets ''ann'' (fields_of ''ann'' secret_user)"
    unfolding secret_user_paths(1) by (auto simp: secret_user_fields)
  moreover have "given plain_users_config ?secrets ''ann'' (fields_of ''ann'' secret_user) ''password''
      = Some (NewSettingScalar ''xyz'')"
    by (simp add: given_def secret_value_def secret_user_fields secret_address_def plain_users_config_def
        Setting_String_def NewSettingScalar_def)
  moreover have "given plain_users_config ?secrets ''ann'' (fields_of ''ann'' secret_user) x = None"
    if "x \<in> {''password_sha256_hex'', ''password_double_sha1_hex''}" for x
    using that by (auto simp: given_def secret_value_def secret_user_fields)
  ultimately show ?thesis
    by (simp add: user_spec_fields spec_sha_def spec_plain_def Setting_String_def NewSettingScalar_def)
qed

text \<open>
  C5: which password a user ends up with, when the operator has a default one. A reference to a secret never
  reaches the configuration. The password in plain text stays exactly when it comes with a double SHA-1 hash
  and without a SHA-256 hash, so that the server finds two passwords for one user. A user that gets no hash
  is given the hash of its plain password, and where it has none that of the default password: a user whose
  password is in a secret that cannot be read at the moment can log in with the default password.
\<close>

theorem passwords_of_users:
  assumes "settings_ok users" and "some_order shuffle"
    and "base = normalizePaths (case users of None \<Rightarrow> Some NewSettings | Some u \<Rightarrow> Some u)"
    and "result = normalizeConfigurationUsers cfg sha256 secrets shuffle users"
    and "CHR ''/'' \<notin> set u" and "u \<noteq> ''default''" and "fields_of u base field \<noteq> None"
    and "uc_DefaultPassword cfg \<noteq> ''''"
    and "plain = given cfg secrets u (fields_of u base) ''password''"
    and "sha = given cfg secrets u (fields_of u base) ''password_sha256_hex''"
    and "double = given cfg secrets u (fields_of u base) ''password_double_sha1_hex''"
  shows "fields_of u result ''k8s_secret_password'' = None
    \<and> (fields_of u result ''password'' \<noteq> None \<longleftrightarrow> plain \<noteq> None \<and> double \<noteq> None \<and> sha = None)
    \<and> (sha = None \<longrightarrow> double = None \<longrightarrow> fields_of u result ''password_sha256_hex'' = Some (NewSettingScalar (sha256
          (if Setting_String plain = '''' then uc_DefaultPassword cfg else Setting_String plain))))
    \<and> (fields_of u base ''password'' = None \<longrightarrow>
        secret_value cfg secrets u ''password'' (fields_of u base ''k8s_secret_password'') = None \<longrightarrow>
        sha = None \<longrightarrow> double = None \<longrightarrow>
        fields_of u result ''password_sha256_hex'' = Some (NewSettingScalar (sha256 (uc_DefaultPassword cfg))))"
proof -
  have r: "fields_of u result = user_spec cfg sha256 secrets u (fields_of u base)"
    using normalized_fields [OF assms(1-5)] assms(7) by auto
  have p: "spec_plain cfg secrets u (fields_of u base)
      = (if Setting_String plain = '''' then uc_DefaultPassword cfg else Setting_String plain)"
    unfolding spec_plain_def assms(9) [symmetric] using assms(6) by (simp split: list.split)
  then have "spec_plain cfg secrets u (fields_of u base) \<noteq> ''''" using assms(8) by simp
  then have s: "spec_sha cfg sha256 secrets u (fields_of u base) = (case sha of Some v \<Rightarrow> Some v
      | None \<Rightarrow> if double = None then Some (NewSettingScalar (sha256 (spec_plain cfg secrets u (fields_of u base)))) else None)"
    unfolding spec_sha_def assms(10,11) by (simp split: option.split)
  have "plain = None" if "fields_of u base ''password'' = None"
      "secret_value cfg secrets u ''password'' (fields_of u base ''k8s_secret_password'') = None"
    unfolding assms(9) given_def using that by simp
  moreover have "Setting_String None = ''''" by (simp add: Setting_String_def)
  ultimately show ?thesis
    unfolding r user_spec_fields spec_password_def s p assms(9) [symmetric] using assms(6)
    by (auto split: option.split)
qed

theorem passwords_of_users_witness:
  "fields_of ''ann'' (normalizeConfigurationUsers plain_users_config (\<lambda>s. s) (\<lambda>_ _ _ _. None) (\<lambda>ns. ns) secret_user)
     ''password_sha256_hex'' = Some (NewSettingScalar ''default'')"
proof -
  have o: "some_order (\<lambda>ns. ns)" by (simp add: some_order_def)
  have "fields_of ''ann'' (normalizePaths (case secret_user of None \<Rightarrow> Some NewSettings | Some u \<Rightarrow> Some u))
      ''k8s_secret_password'' \<noteq> None"
    unfolding secret_user_paths(1) by (simp add: secret_user_fields)
  moreover have none: "secret_value cfg (\<lambda>_ _ _ _. None) u x a = None" for cfg u x a
    by (simp add: secret_value_def split: option.split prod.split)
  moreover have "given cfg (\<lambda>_ _ _ _. None) u f x = f x" for cfg u f x by (simp add: given_def none)
  ultimately have "fields_of ''ann'' (normalizeConfigurationUsers plain_users_config (\<lambda>s. s) (\<lambda>_ _ _ _. None)
        (\<lambda>ns. ns) secret_user) ''password_sha256_hex''
      = Some (NewSettingScalar (uc_DefaultPassword plain_users_config))"
    using passwords_of_users [where secrets = "\<lambda>_ _ _ _. None" and ?sha256.0 = "\<lambda>s. s" and cfg = plain_users_config
        and u = "''ann''" and field = "''k8s_secret_password''",
        OF secret_user_paths(2) o refl refl _ _ _ _ refl refl refl]
    unfolding secret_user_paths(1) by (simp add: secret_user_fields plain_users_config_def Setting_String_def)
  then show ?thesis by (simp add: plain_users_config_def)
qed

end
