(* ===== verification/Normalizer.thy ===== *)
theory Normalizer
  imports Users Worker
begin

text \<open>
  The normalizer as a whole: \<open>CreateTemplatedCHI\<close>, \<open>normalize\<close> and \<open>finalizeCHI\<close> of
  \<open>pkg/model/normalizer.go\<close>, put together from the sections of a specification, the clusters, the users,
  the templates and the addresses of the other theories.

  The result is the normalized installation, the store its hosts live in and the fingerprints of the hosts
  in the order of the walk; or a panic. What comes from outside is gathered in one record.
\<close>

section \<open>What the normalizer is given\<close>

record normalizer =
  nz_WithDefaultCluster :: bool
  nz_Users :: users_config
  nz_HostRegexpTemplate :: string
  nz_SHA1 :: "string \<Rightarrow> string"
  nz_SHA256 :: "string \<Rightarrow> string"
  nz_Secrets :: secrets
  nz_Shuffle :: "string list \<Rightarrow> string list"
  nz_DeepDiff :: DeepDiff
  nz_NewUUID :: string
  nz_Version :: string
  nz_Verbose :: bool
  nz_ZookeeperFingerprint :: "ChiZookeeperConfig option \<Rightarrow> string"
  nz_ListFingerprint :: "string list option \<Rightarrow> string"
  nz_StringFingerprint :: "string \<Rightarrow> string"
  nz_OtherFormat :: "string \<Rightarrow> string list \<Rightarrow> string"

text \<open>\<open>nz_OtherFormat\<close> is what \<open>Sprintf\<close> makes of a domain pattern with directives that are not modelled.\<close>

section \<open>Configuration\<close>

definition normalizeConfigurationProfiles :: "settings option \<Rightarrow> settings option" where
  "normalizeConfigurationProfiles profiles = (case profiles of None \<Rightarrow> None | Some p \<Rightarrow> normalizePaths (Some p))"
definition normalizeConfigurationQuotas :: "settings option \<Rightarrow> settings option" where
  "normalizeConfigurationQuotas quotas = (case quotas of None \<Rightarrow> None | Some q \<Rightarrow> normalizePaths (Some q))"
definition normalizeConfigurationSettings :: "settings option \<Rightarrow> settings option" where
  "normalizeConfigurationSettings settings = (case settings of None \<Rightarrow> None | Some s \<Rightarrow> normalizePaths (Some s))"
definition normalizeConfigurationFiles :: "settings option \<Rightarrow> settings option" where
  "normalizeConfigurationFiles files = (case files of None \<Rightarrow> None | Some f \<Rightarrow> normalizePaths (Some f))"

definition normalizeClusters ::
    "bool \<Rightarrow> ChiZookeeperConfig option \<Rightarrow> settings option \<Rightarrow> ChiTemplateNames option \<Rightarrow> host_store
      \<Rightarrow> ChiCluster option list \<Rightarrow> (host_store \<times> ChiCluster list) go" where
  "normalizeClusters withDefault conf_zk conf_files def_templates store clusters =
     go_fold (\<lambda>cluster (store, acc).
         go_bind (normalizeCluster conf_zk conf_files def_templates store cluster) (\<lambda>(store, _, cluster).
           Inr (store, acc @ [cluster])))
       (ensureClusters withDefault clusters) (store, [])"

definition normalize_sections :: "normalizer \<Rightarrow> ObjectMeta \<Rightarrow> Configuration \<Rightarrow> Configuration" where
  "normalize_sections n chi conf = conf\<lparr>
     cf_Zookeeper := normalizeConfigurationZookeeper (cf_Zookeeper conf),
     cf_Users := normalizeConfigurationUsers
       ((nz_Users n)\<lparr>uc_HostRegexp := CreatePodRegexp (nz_SHA1 n) chi (nz_HostRegexpTemplate n)\<rparr>)
       (nz_SHA256 n) (nz_Secrets n) (nz_Shuffle n) (cf_Users conf),
     cf_Profiles := normalizeConfigurationProfiles (cf_Profiles conf),
     cf_Quotas := normalizeConfigurationQuotas (cf_Quotas conf),
     cf_Settings := normalizeConfigurationSettings (cf_Settings conf),
     cf_Files := normalizeConfigurationFiles (cf_Files conf)\<rparr>"

text \<open>A cluster inherits from the configuration the specification points to, which is the normalized one
  unless there was none at all; then there is nothing to inherit either way.\<close>

definition normalizeConfiguration ::
    "normalizer \<Rightarrow> ObjectMeta \<Rightarrow> ChiTemplateNames option \<Rightarrow> host_store \<Rightarrow> Configuration option
      \<Rightarrow> (host_store \<times> Configuration) go" where
  "normalizeConfiguration n chi def_templates store conf = (
     let given = (conf \<noteq> None);
         conf = normalize_sections n chi (case conf of None \<Rightarrow> NewConfiguration | Some c \<Rightarrow> c)
     in go_bind (normalizeClusters (nz_WithDefaultCluster n) (if given then cf_Zookeeper conf else None)
          (if given then cf_Files conf else None) def_templates store (cf_Clusters conf)) (\<lambda>(store, clusters).
        Inr (store, conf\<lparr>cf_Clusters := map Some clusters\<rparr>)))"

lemma normalize_sections_clusters [simp]: "cf_Clusters (normalize_sections n chi conf) = cf_Clusters conf"
  by (simp add: normalize_sections_def)

section \<open>Templates\<close>

definition normalize_host_entry :: "string list option \<times> ChiHostTemplate \<Rightarrow> string list option \<times> ChiHostTemplate" where
  "normalize_host_entry = (\<lambda>(distribution, template).
     let template = normalizeHostTemplate distribution template in (Some (ht_PortDistribution template), template))"

definition normalizeTemplates ::
    "DeepDiff \<Rightarrow> int go \<Rightarrow> ChiTemplates option \<Rightarrow> ChiTemplates option go" where
  "normalizeTemplates dd replicasCount templates = (case templates of
     None \<Rightarrow> Inr None
   | Some t \<Rightarrow>
       go_bind (go_fold (\<lambda>template acc.
           go_bind (normalizePodTemplate dd replicasCount template) (\<lambda>template. Inr (acc @ [template])))
         (tps_PodTemplates t) []) (\<lambda>pods.
       let hosts = map normalize_host_entry (tps_HostTemplates t);
           volumes = map normalizeVolumeClaimTemplate (tps_VolumeClaimTemplates t)
       in Inr (Some (t\<lparr>
         tps_HostTemplates := hosts,
         tps_HostTemplatesIndex := index_templates (map (ht_Name \<circ> snd) hosts) (tps_HostTemplatesIndex t),
         tps_PodTemplates := pods,
         tps_PodTemplatesIndex := index_templates (map pt_Name pods) (tps_PodTemplatesIndex t),
         tps_VolumeClaimTemplates := volumes,
         tps_VolumeClaimTemplatesIndex := index_templates (map vt_Name volumes) (tps_VolumeClaimTemplatesIndex t),
         tps_ServiceTemplatesIndex :=
           index_templates (map st_Name (tps_ServiceTemplates t)) (tps_ServiceTemplatesIndex t)\<rparr>))))"

text \<open>The replicas of the first cluster, which the expansion of \<open>CircularReplication\<close> reads.\<close>

definition first_replicas_count :: "ChiCluster option list \<Rightarrow> int go" where
  "first_replicas_count clusters = go_bind (go_nth clusters 0) (\<lambda>cluster.
     case Option.bind cluster cu_Layout of None \<Rightarrow> Inl NilDereference | Some lay \<Rightarrow> Inr (lay_ReplicasCount lay))"

section \<open>Finishing\<close>

definition getHostTemplate :: "(string \<Rightarrow> string) \<Rightarrow> ChiTemplates option \<Rightarrow> ChiHost \<Rightarrow> ChiHostTemplate" where
  "getHostTemplate sha1 templates host = (let name = CreateStatefulSetName sha1 templates host in
     case Host_GetHostTemplate templates host of
       Some hostTemplate \<Rightarrow> hostTemplate
     | None \<Rightarrow> (case Host_GetPodTemplate templates host of
           Some podTemplate \<Rightarrow> if ps_HostNetwork (pt_Spec podTemplate)
             then newDefaultHostTemplateForHostNetwork name else newDefaultHostTemplate name
         | None \<Rightarrow> newDefaultHostTemplate name))"

text \<open>\<open>WalkHosts\<close> with a callback that updates the host it is given, which it dereferences.\<close>

definition each_host :: "(ChiHost \<Rightarrow> ChiHost) \<Rightarrow> ChiClusterLayout list \<Rightarrow> host_store \<Rightarrow> host_store go" where
  "each_host f layouts store = go_fold (\<lambda>p store. case p of
       None \<Rightarrow> Inl NilDereference
     | Some a \<Rightarrow> Inr (store_put a (map_option f (store_get store (Some a))) store))
     (Installation_WalkHosts layouts) store"

definition calcFingerprints ::
    "normalizer \<Rightarrow> Configuration \<Rightarrow> ChiCluster list \<Rightarrow> ChiHost \<Rightarrow> host_fingerprints go" where
  "calcFingerprints n conf clusters host =
     (case FindCluster (ha_ClusterName (h_Address host)) clusters of
        None \<Rightarrow> Inl NilDereference
      | Some cluster \<Rightarrow>
          let lists = nz_ListFingerprint n; texts = nz_StringFingerprint n;
              files = (\<lambda>s. lists (AsSortedSliceOfStrings (Settings_Filter None (Some [SectionUsers]) True s)))
          in Inr \<lparr>hp_Zookeeper = nz_ZookeeperFingerprint n (cu_Zookeeper cluster),
               hp_Settings = texts (lists (AsSortedSliceOfStrings (cf_Settings conf))
                 @ lists (AsSortedSliceOfStrings (h_Settings host))),
               hp_Files = texts (files (cf_Files conf) @ files (h_Files host))\<rparr>)"

definition fill_statefulset :: "(string \<Rightarrow> string) \<Rightarrow> ChiTemplates option \<Rightarrow> ChiHost \<Rightarrow> ChiHost" where
  "fill_statefulset sha1 templates host =
     host\<lparr>h_Address := (h_Address host)\<lparr>ha_StatefulSet := CreateStatefulSetName sha1 templates host\<rparr>\<rparr>"

definition the_layouts :: "ChiCluster list \<Rightarrow> ChiClusterLayout list" where
  "the_layouts clusters = map (the \<circ> cu_Layout) clusters"

text \<open>The pod templates in the order in which the runtime walks their index.\<close>

definition walk_pod_templates :: "ChiTemplates option \<Rightarrow> ChiPodTemplate list" where
  "walk_pod_templates templates = (case templates of None \<Rightarrow> [] | Some t \<Rightarrow>
     (case tps_PodTemplatesIndex t of None \<Rightarrow> [] | Some index \<Rightarrow>
       List.map_filter (\<lambda>(_, k). if k < length (tps_PodTemplates t) then Some (tps_PodTemplates t ! k) else None) index))"

definition finalizeCHI ::
    "normalizer \<Rightarrow> ObjectMeta \<Rightarrow> ChiTemplates option \<Rightarrow> Configuration \<Rightarrow> host_store \<times> ChiCluster list
      \<Rightarrow> (host_store \<times> ChiCluster list \<times> host_fingerprints list) go" where
  "finalizeCHI n chi templates conf s =
     go_bind (FillSelfCalculatedAddressInfo (om_Namespace chi) (om_Name chi)
         (walk_pod_templates templates) s) (\<lambda>(store, clusters).
     let layouts = the_layouts clusters in
     go_bind (each_host (\<lambda>host. hostApplyHostTemplate (cf_Settings conf) (getHostTemplate (nz_SHA1 n) templates host) host)
         layouts store) (\<lambda>store.
     go_bind (each_host (fill_statefulset (nz_SHA1 n) templates) layouts store) (\<lambda>store.
     go_bind (go_fold (\<lambda>p acc. case store_get store p of
           None \<Rightarrow> Inl NilDereference
         | Some host \<Rightarrow> go_bind (calcFingerprints n conf clusters host) (\<lambda>fp. Inr (acc @ [fp])))
         (Installation_WalkHosts layouts) []) (\<lambda>fps.
     Inr (store, clusters, fps)))))"


section \<open>The whole installation\<close>

definition walked_hosts :: "ChiClusterLayout list \<Rightarrow> host_store \<Rightarrow> ChiHost list go" where
  "walked_hosts layouts store = go_fold (\<lambda>p acc. case store_get store p of
       None \<Rightarrow> Inl NilDereference | Some host \<Rightarrow> Inr (acc @ [host])) (Installation_WalkHosts layouts) []"

definition formatted :: "normalizer \<Rightarrow> string \<Rightarrow> string list \<Rightarrow> string option \<Rightarrow> string" where
  "formatted n pattern as r = (case r of Some s \<Rightarrow> s | None \<Rightarrow> nz_OtherFormat n pattern as)"

definition fillStatus ::
    "normalizer \<Rightarrow> host_store \<Rightarrow> ChiCluster list \<Rightarrow> Installation \<Rightarrow> Installation go" where
  "fillStatus n store clusters chi = (
     let spec = in_Spec chi; sha1 = nz_SHA1 n; layouts = the_layouts clusters;
         endpoint = formatted n (domainPattern spec)
           [CreateCHIServiceName sha1 (in_Meta chi) spec, om_Namespace (in_Meta chi)]
           (CreateCHIServiceFQDN sha1 (in_Meta chi) spec)
     in go_bind (walked_hosts layouts store) (\<lambda>hosts.
        FillStatus (nz_Version n) endpoint
          (map (\<lambda>host. CreatePodName sha1 (sp_Templates spec) (OfHost host)) hosts)
          (map (\<lambda>host. formatted n (domainPattern spec)
             [CreatePodHostname sha1 (sp_Templates spec) host, ha_Namespace (h_Address host)]
             (createPodFQDN sha1 spec host)) hosts)
          (nz_Verbose n) layouts chi))"

definition normalize_scalars :: "normalizer \<Rightarrow> ChiSpec \<Rightarrow> ChiSpec" where
  "normalize_scalars n spec = spec\<lparr>
     sp_TaskID := normalizeTaskID (nz_NewUUID n) (sp_TaskID spec),
     sp_UseTemplates := normalizeUseTemplates (sp_UseTemplates spec),
     sp_Stop := normalizeStop (sp_Stop spec),
     sp_Restart := normalizeRestart (sp_Restart spec),
     sp_Troubleshoot := normalizeTroubleshoot (sp_Troubleshoot spec),
     sp_NamespaceDomainPattern := normalizeNamespaceDomainPattern (sp_NamespaceDomainPattern spec),
     sp_Templating := normalizeTemplating (sp_Templating spec),
     sp_Reconciling := normalizeReconciling (sp_Reconciling spec),
     sp_Defaults := normalizeDefaults (sp_Defaults spec)\<rparr>"

definition normalize ::
    "normalizer \<Rightarrow> host_store \<Rightarrow> Installation \<Rightarrow> (host_store \<times> Installation \<times> host_fingerprints list) go" where
  "normalize n store chi = (
     let spec = normalize_scalars n (in_Spec chi);
         def_templates = (case sp_Defaults spec of None \<Rightarrow> None | Some d \<Rightarrow> def_Templates d)
     in go_bind (normalizeConfiguration n (in_Meta chi) def_templates store (sp_Configuration spec)) (\<lambda>(store, conf).
        go_bind (normalizeTemplates (nz_DeepDiff n) (first_replicas_count (cf_Clusters conf)) (sp_Templates spec))
          (\<lambda>templates.
        go_bind (finalizeCHI n (in_Meta chi) templates conf (store, map the (cf_Clusters conf)))
          (\<lambda>(store, clusters, fps).
        let conf = conf\<lparr>cf_Clusters := map Some clusters\<rparr>;
            spec = spec\<lparr>sp_Configuration := Some conf, sp_Templates := templates\<rparr>
        in go_bind (fillStatus n store clusters (chi\<lparr>in_Spec := spec\<rparr>)) (\<lambda>chi.
             Inr (store, chi, fps))))))"

definition newChiStatus :: ChiStatus where
  "newChiStatus = \<lparr>cs_Version = '''', cs_ClustersCount = 0, cs_ShardsCount = 0, cs_ReplicasCount = 0,
     cs_HostsCount = 0, cs_Status = '''', cs_TaskID = '''', cs_TaskIDsStarted = [], cs_TaskIDsCompleted = [],
     cs_Action = '''', cs_Actions = [], cs_Error = '''', cs_Errors = [], cs_UpdatedHostsCount = 0,
     cs_AddedHostsCount = 0, cs_DeletedHostsCount = 0, cs_DeleteHostsCount = 0, cs_Pods = [],
     cs_FQDNs = [], cs_Endpoint = '''', cs_Generation = 0, cs_NormalizedCHI = None\<rparr>"

definition newInstallation :: Installation where
  "newInstallation = \<lparr>in_Meta = \<lparr>om_Namespace = '''', om_Name = '''', om_Labels = [], om_Annotations = []\<rparr>,
     in_Generation = 0, in_Spec = newChiSpec, in_Status = newChiStatus\<rparr>"

text \<open>What the operator's configuration holds of templates: the base of every installation, the templates
  applied by themselves, and the look-up of a template an installation asks for.\<close>

record chi_templates =
  ct_CHITemplate :: "Installation option"
  ct_AutoTemplates :: "ObjectMeta list"
  ct_FindTemplate :: "ChiUseTemplate \<Rightarrow> string \<Rightarrow> Installation option"

text \<open>What is normalized: the base, the templates that are found, and the installation on top.\<close>

definition apply_templates :: "mergo \<Rightarrow> chi_templates \<Rightarrow> Installation \<Rightarrow> Installation" where
  "apply_templates mg ct chi = (
     let base = (case ct_CHITemplate ct of None \<Rightarrow> newInstallation | Some t \<Rightarrow> t);
         useTemplates = map (\<lambda>t. \<lparr>ut_Name = om_Name t, ut_Namespace = om_Namespace t, ut_UseType = useTypeMerge\<rparr>)
             (ct_AutoTemplates ct) @ sp_UseTemplates (in_Spec chi);
         layers = List.map_filter (\<lambda>u. map_option in_Spec (ct_FindTemplate ct u (om_Namespace (in_Meta chi))))
             (normalizeUseTemplates useTemplates);
         base = base\<lparr>in_Spec := merge_layers mg layers (in_Spec base)\<rparr>
     in Installation_MergeFrom mg MergeTypeOverrideByNonEmptyValues base (Some chi))"

definition CreateTemplatedCHI ::
    "normalizer \<Rightarrow> mergo \<Rightarrow> chi_templates \<Rightarrow> host_store \<Rightarrow> Installation option
      \<Rightarrow> (host_store \<times> Installation \<times> host_fingerprints list) go" where
  "CreateTemplatedCHI n mg ct store chi =
     normalize (n\<lparr>nz_WithDefaultCluster := (chi \<noteq> None)\<rparr>) store
       (apply_templates mg ct (case chi of None \<Rightarrow> newInstallation | Some chi \<Rightarrow> chi))"


section \<open>What a normalized installation is like\<close>

lemma go_fold_each:
  assumes "go_fold step xs s = Inr s'" and "x \<in> set xs"
    and "\<And>y s s'. step y s = Inr s' \<Longrightarrow> Q x s \<Longrightarrow> Q x s'"
    and "\<And>s s'. step x s = Inr s' \<Longrightarrow> Q x s'"
  shows "Q x s'"
  using assms(1,2)
proof (induction xs arbitrary: s)
  case (Cons y xs)
  then obtain s1 where s1: "step y s = Inr s1" "go_fold step xs s1 = Inr s'" by (auto simp: go_bind_Inr_iff)
  show ?case
  proof (cases "x \<in> set xs")
    case True
    with Cons.IH s1(2) show ?thesis by blast
  next
    case False
    with Cons.prems(2) have "y = x" by simp
    with s1(1) assms(4) have "Q x s1" by blast
    from go_fold_keeps [OF s1(2), of "Q x", OF this] assms(3) show ?thesis by blast
  qed
qed simp

text \<open>A host that was visited: its pointer is not nil and what it points to satisfies \<open>P\<close>.\<close>

definition host_has :: "(ChiHost \<Rightarrow> bool) \<Rightarrow> host_ptr \<Rightarrow> host_store \<Rightarrow> bool" where
  "host_has P p store = (case p of None \<Rightarrow> False | Some a \<Rightarrow> a < length store \<longrightarrow> P (store ! a))"

lemma store_put_map: "store_put a (map_option f (store_get store (Some a))) store
    = (if a < length store then store[a := f (store ! a)] else store)"
  by (simp add: store_put_def store_get_def)

lemma each_host_step:
  assumes "(case p of None \<Rightarrow> Inl NilDereference
     | Some a \<Rightarrow> Inr (store_put a (map_option f (store_get store (Some a))) store)) = Inr store'"
  shows "length store' = length store" and "host_has P q store \<Longrightarrow> (\<And>h. P h \<Longrightarrow> P (f h)) \<Longrightarrow> host_has P q store'"
    and "(\<And>h. P (f h)) \<Longrightarrow> host_has P p store'"
proof -
  from assms obtain a where p: "p = Some a" and s: "store' = (if a < length store then store[a := f (store ! a)] else store)"
    by (auto simp: store_put_map split: option.splits)
  show "length store' = length store" by (simp add: s)
  show "host_has P q store'" if "host_has P q store" "\<And>h. P h \<Longrightarrow> P (f h)"
    using that by (cases q) (auto simp: s host_has_def nth_list_update)
  show "host_has P p store'" if "\<And>h. P (f h)"
    using that by (auto simp: s p host_has_def)
qed

lemma each_host_all:
  assumes "each_host f layouts store = Inr store'"
  shows "length store' = length store"
    and "\<forall>h. P (f h) \<Longrightarrow> p \<in> set (Installation_WalkHosts layouts) \<Longrightarrow> host_has P p store'"
    and "\<forall>h. P h \<longrightarrow> P (f h) \<Longrightarrow> host_has P p store \<Longrightarrow> host_has P p store'"
proof -
  let ?step = "\<lambda>p store. case p of None \<Rightarrow> Inl NilDereference
     | Some a \<Rightarrow> Inr (store_put a (map_option f (store_get store (Some a))) store)"
  have fold: "go_fold ?step (Installation_WalkHosts layouts) store = Inr store'"
    using assms unfolding each_host_def .
  show "length store' = length store"
    by (rule go_fold_keeps [OF fold, of "\<lambda>s. length s = length store"]) (use each_host_step(1) in fastforce)+
  show "host_has P p store'" if "\<forall>h. P (f h)" "p \<in> set (Installation_WalkHosts layouts)"
    using that each_host_step [of f] by (intro go_fold_each [OF fold that(2), of "host_has P"]) blast+
  show "host_has P p store'" if "\<forall>h. P h \<longrightarrow> P (f h)" "host_has P p store"
    using that each_host_step [of f] by (intro go_fold_keeps [OF fold, of "host_has P p"]) blast+
qed

lemma walked_hosts_Inr:
  assumes "walked_hosts layouts store = Inr hosts"
  shows "map (store_get store) (Installation_WalkHosts layouts) = map Some hosts"
proof -
  have "go_fold (\<lambda>p acc. case store_get store p of None \<Rightarrow> Inl NilDereference | Some host \<Rightarrow> Inr (acc @ [host])) ps acc
      = Inr hosts \<Longrightarrow> map Some hosts = map Some acc @ map (store_get store) ps" for ps acc
    by (induction ps arbitrary: acc) (auto simp: go_bind_Inr_iff split: option.splits)
  from this [OF assms [unfolded walked_hosts_def]] show ?thesis by simp
qed

lemma Host_templates_of_address:
  "Host_GetPodTemplate templates (host\<lparr>h_Address := a\<rparr>) = Host_GetPodTemplate templates host"
  by (simp add: Host_GetPodTemplate_def)

lemma CreateStatefulSetName_filled:
  "CreateStatefulSetName sha1 templates (fill_statefulset sha1 t host) = CreateStatefulSetName sha1 templates host"
  by (simp add: CreateStatefulSetName_def fill_statefulset_def newNameMacroReplacerHost_def Let_def
      Host_templates_of_address clusterScopeIndexOfPreviousCycleTail_def)

text \<open>A host is ready when all its ports are assigned and it knows the name of its StatefulSet.\<close>

definition ports_assigned :: "ChiHost \<Rightarrow> bool" where
  "ports_assigned host = list_all (\<lambda>k. host_port k host \<noteq> 0) [TCP, HTTP, Interserver]"

definition knows_statefulset :: "(string \<Rightarrow> string) \<Rightarrow> ChiTemplates option \<Rightarrow> ChiHost \<Rightarrow> bool" where
  "knows_statefulset sha1 templates host =
     (ha_StatefulSet (h_Address host) = CreateStatefulSetName sha1 templates host)"

lemma fill_statefulset_ready:
  "knows_statefulset sha1 templates (fill_statefulset sha1 templates host)"
  "ports_assigned (fill_statefulset sha1 templates host) = ports_assigned host"
  by (simp_all add: knows_statefulset_def CreateStatefulSetName_filled)
    (simp_all add: fill_statefulset_def ports_assigned_def)

lemma fingerprints_length:
  "go_fold (\<lambda>p acc. case store_get store p of
       None \<Rightarrow> Inl NilDereference
     | Some host \<Rightarrow> go_bind (calcFingerprints n conf clusters host) (\<lambda>fp. Inr (acc @ [fp]))) ps acc = Inr fps
    \<Longrightarrow> length fps = length acc + length ps"
  by (induction ps arbitrary: acc) (auto simp: go_bind_Inr_iff split: option.splits)

lemma finalizeCHI_hosts:
  assumes "finalizeCHI n chi templates conf s = Inr (store, clusters, fps)"
    and "p \<in> set (Installation_WalkHosts (the_layouts clusters))"
  shows "host_has (\<lambda>h. ports_assigned h \<and> knows_statefulset (nz_SHA1 n) templates h) p store"
    and "length fps = length (Installation_WalkHosts (the_layouts clusters))"
proof -
  let ?layouts = "the_layouts clusters"
  from assms(1) obtain store1 store2 where
    a: "each_host (\<lambda>host. hostApplyHostTemplate (cf_Settings conf) (getHostTemplate (nz_SHA1 n) templates host) host)
        ?layouts store1 = Inr store2"
    and b: "each_host (fill_statefulset (nz_SHA1 n) templates) ?layouts store2 = Inr store"
    and c: "go_fold (\<lambda>p acc. case store_get store p of
           None \<Rightarrow> Inl NilDereference
         | Some host \<Rightarrow> go_bind (calcFingerprints n conf clusters host) (\<lambda>fp. Inr (acc @ [fp])))
         (Installation_WalkHosts ?layouts) [] = Inr fps"
    unfolding finalizeCHI_def by (auto simp: go_bind_Inr_iff Let_def)
  have "host_has ports_assigned p store2"
    by (rule each_host_all(2) [OF a _ assms(2)]) (simp add: ports_assigned_def applied_port [THEN conjunct2])
  then have "host_has ports_assigned p store"
    by (intro each_host_all(3) [OF b]) (simp_all add: fill_statefulset_ready)
  moreover have "host_has (knows_statefulset (nz_SHA1 n) templates) p store"
    by (rule each_host_all(2) [OF b _ assms(2)]) (simp add: fill_statefulset_ready)
  ultimately show "host_has (\<lambda>h. ports_assigned h \<and> knows_statefulset (nz_SHA1 n) templates h) p store"
    by (simp add: host_has_def split: option.splits)
  from fingerprints_length [OF c] show "length fps = length (Installation_WalkHosts ?layouts)" by simp
qed

end
