(* ===== verification/Totality.thy ===== *)
theory Totality
  imports Normalizer
begin

text \<open>
  When normalizing an installation returns, and what it returns is like. The pieces of the normalizer are
  followed through: the hosts every cluster is given, the walks over them, the templates.
\<close>

section \<open>The hosts of normalized clusters\<close>

lemma go_fold_length:
  assumes "go_fold f xs s = Inr s'" and "k \<le> len s"
    and "\<And>x s s'. f x s = Inr s' \<Longrightarrow> k \<le> len s \<Longrightarrow> k \<le> (len s' :: nat)"
  shows "k \<le> len s'"
  by (rule go_fold_keeps [OF assms(1), of "\<lambda>s. k \<le> len s"]) (use assms(2,3) in auto)

lemma hostMergeFunc_grows: "hostMergeFunc x s = Inr s' \<Longrightarrow> k \<le> length (fst s) \<Longrightarrow> k \<le> length (fst s')"
  by (cases x; cases s) (auto simp: hostMergeFunc_def go_bind_Inr_iff store_put_length split: option.splits)

lemma GetOrCreate_grows:
  "GetOrCreate i j s = Inr (h, store', hf') \<Longrightarrow> k \<le> length (fst s) \<Longrightarrow> k \<le> length store'"
  by (cases s) (auto simp: GetOrCreate_def go_bind_Inr_iff split: option.splits)

lemma merge_grows:
  assumes "go_fold hostMergeFunc xs s = Inr s'" and "k \<le> length (fst s)"
  shows "k \<le> length (fst s')"
  by (rule go_fold_length [OF assms(1), of k "\<lambda>s. length (fst s)"]) (use assms(2) hostMergeFunc_grows in auto)

lemma collect_grows:
  assumes "collectHosts coord count s = Inr (s', hosts)" and "k \<le> length (fst s)"
  shows "k \<le> length (fst s')"
proof -
  have "k \<le> length (fst (fst (s', hosts)))"
    by (rule go_fold_length [OF assms(1) [unfolded collectHosts_def], of k "\<lambda>t. length (fst (fst t))"])
      (use assms(2) GetOrCreate_grows in \<open>fastforce simp: go_bind_Inr_iff\<close>)+
  then show ?thesis by simp
qed

lemma buildHosts_grows:
  assumes "buildHosts cluster lay store = Inr ((store', hf), lay')"
  shows "length store \<le> length store'"
proof -
  let ?P = "\<lambda>s :: host_store \<times> HostsField. length store \<le> length (fst s)"
  obtain s1 s2 shards replicas where s1: "createHostsField lay store = Inr s1"
    and S: "walk_from (normalizeShard cluster (lay_ReplicasCount lay)) 0 s1 (lay_Shards lay) = Inr (s2, shards)"
    and R: "walk_from (normalizeReplica cluster (lay_ShardsCount lay)) 0 s2 (lay_Replicas lay)
        = Inr ((store', hf), replicas)"
    using assms by (auto simp: buildHosts_def walk_update_def go_bind_Inr_iff)
  from s1 obtain hf0 s0 where "go_fold hostMergeFunc (WalkHostsByShards lay) (store, hf0) = Inr s0"
    "go_fold hostMergeFunc (WalkHostsByReplicas lay) s0 = Inr s1"
    by (auto simp: createHostsField_def go_bind_Inr_iff)
  then have "?P s1"
    using merge_grows by (metis (no_types) fst_conv order_refl)
  then have "?P s2 \<and> length shards = length (lay_Shards lay)"
    by (intro walk_keeps [OF S]) (auto simp: normalizeShard_eq go_bind_Inr_iff dest: collect_grows)
  then have "?P (store', hf) \<and> length replicas = length (lay_Replicas lay)"
    by (intro walk_keeps [OF R]) (auto simp: normalizeReplica_eq go_bind_Inr_iff dest: collect_grows)
  then show ?thesis by simp
qed

text \<open>A layout the walks can visit: no host is nil, every host exists, and no shard has more hosts than
  there are replicas.\<close>

definition walkable :: "host_store \<Rightarrow> ChiClusterLayout \<Rightarrow> bool" where
  "walkable store lay = list_all (\<lambda>sh. length (sh_Hosts sh) \<le> length (lay_Replicas lay)
     \<and> list_all (\<lambda>p. case p of None \<Rightarrow> False | Some a \<Rightarrow> a < length store) (sh_Hosts sh)) (lay_Shards lay)"

lemma walkable_grows: "length store \<le> length store' \<Longrightarrow> walkable store lay \<Longrightarrow> walkable store' lay"
  by (fastforce simp: walkable_def list_all_iff split: option.splits)

lemma buildHosts_walkable:
  assumes b: "buildHosts cluster lay store = Inr ((store', hf), lay')"
    and pos: "0 < lay_ShardsCount lay" "0 < lay_ReplicasCount lay"
    and p: "ptrs_ok store (layout_ptrs lay)"
    and n: "nat (lay_ReplicasCount lay) \<le> length (lay_Replicas lay)"
  shows "walkable store' lay'"
proof -
  let ?m = "nat (lay_ShardsCount lay)" and ?n = "nat (lay_ReplicasCount lay)"
  obtain s1 s2 shards replicas where s1: "createHostsField lay store = Inr s1"
    and S: "walk_from (normalizeShard cluster (lay_ReplicasCount lay)) 0 s1 (lay_Shards lay) = Inr (s2, shards)"
    and R: "walk_from (normalizeReplica cluster (lay_ShardsCount lay)) 0 s2 (lay_Replicas lay)
        = Inr ((store', hf), replicas)"
    and lay': "lay' = lay\<lparr>lay_Shards := shards, lay_Replicas := replicas\<rparr>"
    using b by (auto simp: buildHosts_def walk_update_def go_bind_Inr_iff)
  note 1 = walk_shards_ok [OF S createHostsField_ok [OF s1 p] pos(2)]
  then have 2: "field_ok ?m ?n (store', hf) \<and> field_le ?m ?n s2 (store', hf) \<and> length replicas = length (lay_Replicas lay)"
    using walk_replicas_ok [OF R _ pos(1)] by blast
  show ?thesis
    unfolding walkable_def lay' list_all_iff
  proof (intro ballI, simp, intro conjI)
    fix sh assume "sh \<in> set shards"
    then obtain i where i: "i < length shards" "sh = shards ! i" by (auto simp: in_set_conv_nth)
    with 1 have c: "collected ?m ?n (\<lambda>k. (int i, int k)) s2 (sh_Hosts sh)" by auto
    then have c': "collected ?m ?n (\<lambda>k. (int i, int k)) (store', hf) (sh_Hosts sh)"
      using 2 by (blast intro: collected_mono)
    have k: "k < ?n" "i < ?m" if "k < length (sh_Hosts sh)" for k
      using c' that in_range_nat [of ?m ?n "int i" "int k"] by (auto simp: collected_def)
    show "length (sh_Hosts sh) \<le> length replicas"
    proof (cases "length (sh_Hosts sh)")
      case (Suc k)
      with k(1) [of k] n 2 show ?thesis by simp
    qed simp
    show "\<forall>p\<in>set (sh_Hosts sh). case p of None \<Rightarrow> False | Some a \<Rightarrow> a < length store'"
    proof
      fix p assume "p \<in> set (sh_Hosts sh)"
      then obtain j where j: "j < length (sh_Hosts sh)" "p = sh_Hosts sh ! j" by (auto simp: in_set_conv_nth)
      with c' have "p = cell hf i j" "p \<noteq> None" by (auto simp: collected_def)
      with 2 k [OF j(1)] show "case p of None \<Rightarrow> False | Some a \<Rightarrow> a < length store'"
        by (auto simp: field_ok_def)
    qed
  qed
qed

section \<open>All clusters\<close>

definition cluster_layout :: "ChiCluster option \<Rightarrow> ChiClusterLayout option" where
  "cluster_layout c = Option.bind c cu_Layout"

text \<open>The hosts a specification lists are objects of their own.\<close>

definition hosts_given :: "host_store \<Rightarrow> ChiCluster option \<Rightarrow> bool" where
  "hosts_given store c = (case cluster_layout c of None \<Rightarrow> True | Some lay \<Rightarrow> ptrs_ok store (layout_ptrs lay))"

definition ready_cluster :: "host_store \<Rightarrow> ChiCluster \<Rightarrow> bool" where
  "ready_cluster store c = (case cu_Layout c of None \<Rightarrow> False | Some lay \<Rightarrow> walkable store lay)"

lemma ptrs_ok_grows: "length store \<le> length store' \<Longrightarrow> ptrs_ok store ps \<Longrightarrow> ptrs_ok store' ps"
  by (fastforce simp: ptrs_ok_def list_all_iff split: option.splits)

lemma hosts_given_grows: "length store \<le> length store' \<Longrightarrow> hosts_given store c \<Longrightarrow> hosts_given store' c"
  by (auto simp: hosts_given_def ptrs_ok_grows split: option.splits)

lemma ready_cluster_grows: "length store \<le> length store' \<Longrightarrow> ready_cluster store c \<Longrightarrow> ready_cluster store' c"
  by (auto simp: ready_cluster_def walkable_grows split: option.splits)

lemma normalizeCluster_None:
  "normalizeCluster zk files templates store None = normalizeCluster zk files templates store (Some newDefaultCluster)"
  by (simp add: normalizeCluster_def)

lemma cluster_layout_simps [simp]:
  "cluster_layout None = None" "cluster_layout (Some c) = cu_Layout c" "cu_Layout newDefaultCluster = None"
  by (simp_all add: cluster_layout_def newDefaultCluster_def)

lemma cluster_returns_iff:
  "(\<exists>r. normalizeCluster zk files templates store c = Inr r) \<longleftrightarrow> layout_fits (prepareLayout (cluster_layout c))"
  by (cases c) (simp_all only: normalizeCluster_None normalizeCluster_fits_iff cluster_layout_simps)

lemma prepared_ptrs:
  assumes "hosts_given store (Some c)"
  shows "ptrs_ok store (layout_ptrs (prepareLayout (cu_Layout c)))"
proof (cases "cu_Layout c")
  case None
  have "layout_ptrs NewChiClusterLayout = []" by (simp add: layout_ptrs_eq NewChiClusterLayout_def)
  then have "layout_ptrs (prepareLayout None) = []" unfolding prepareLayout_None layout_ptrs_prepare .
  with None show ?thesis by (simp add: ptrs_ok_def)
next
  case (Some lay)
  with assms show ?thesis by (simp add: layout_ptrs_prepare hosts_given_def)
qed

lemma some_cluster_ready:
  assumes "normalizeCluster zk files templates store (Some c) = Inr (store', hf, c')"
  shows "length store \<le> length store'" and "hosts_given store (Some c) \<Longrightarrow> ready_cluster store' c'"
proof -
  let ?lay = "prepareLayout (cu_Layout c)"
  obtain lay' store1 where
    b: "buildHosts (inheritCluster zk files templates c) ?lay store = Inr ((store1, hf), lay')"
    and l: "cu_Layout c' = Some lay'" and len: "length store' = length store1"
    using normalizeCluster_layout [OF assms] by blast
  show "length store \<le> length store'" using buildHosts_grows [OF b] len by simp
  have "layout_fits ?lay" using assms normalizeCluster_fits_iff by blast
  then have pos: "0 < lay_ShardsCount ?lay" "0 < lay_ReplicasCount ?lay" by (simp_all add: layout_fits_def)
  show "ready_cluster store' c'" if "hosts_given store (Some c)"
    using buildHosts_walkable [OF b pos prepared_ptrs [OF that] prepared_lengths(2)] len
      walkable_grows [of store1 store' lay'] by (simp add: ready_cluster_def l)
qed

lemma cluster_ready:
  assumes "normalizeCluster zk files templates store c = Inr (store', hf, c')"
  shows "length store \<le> length store'" and "hosts_given store c \<Longrightarrow> ready_cluster store' c'"
proof -
  show "length store \<le> length store'"
    using some_cluster_ready(1) assms by (cases c) (auto simp: normalizeCluster_None)
  have d: "hosts_given store (Some newDefaultCluster)" by (simp add: hosts_given_def)
  show "hosts_given store c \<Longrightarrow> ready_cluster store' c'"
    using some_cluster_ready(2) [OF _ d] some_cluster_ready(2) [of zk files templates store _ store' hf c'] assms
    by (cases c) (auto simp: normalizeCluster_None)
qed

lemma normalizeClusters_returns_iff:
  "(\<exists>r. normalizeClusters withDefault zk files templates store clusters = Inr r) \<longleftrightarrow>
     (\<forall>c\<in>set (ensureClusters withDefault clusters). layout_fits (prepareLayout (cluster_layout c)))"
  unfolding normalizeClusters_def
proof (rule go_fold_returns_iff [where P = "\<lambda>_. True"])
  fix c and s :: "host_store \<times> ChiCluster list"
  obtain store acc where s: "s = (store, acc)" by force
  let ?step = "\<lambda>(store, acc). go_bind (normalizeCluster zk files templates store c)
      (\<lambda>(store, _, cluster). Inr (store, acc @ [cluster]))"
  show "\<exists>s'. ?step s = Inr s' \<and> True" if "layout_fits (prepareLayout (cluster_layout c))"
    using that cluster_returns_iff [of zk files templates store c] by (auto simp: s)
  show "panics (?step s)" if "\<not> layout_fits (prepareLayout (cluster_layout c))"
    using that cluster_returns_iff [of zk files templates store c]
    by (cases "normalizeCluster zk files templates store c") (auto simp: s)
qed simp

lemma normalizeClusters_ready:
  assumes "normalizeClusters withDefault zk files templates store clusters = Inr (store', clusters')"
    and "list_all (hosts_given store) (ensureClusters withDefault clusters)"
  shows "list_all (ready_cluster store') clusters' \<and> length clusters' = length (ensureClusters withDefault clusters)"
proof -
  let ?step = "\<lambda>cluster (store, acc). go_bind (normalizeCluster zk files templates store cluster)
      (\<lambda>(store, _, cluster). Inr (store, acc @ [cluster]))"
  have "list_all (ready_cluster store') clusters' \<and> length clusters' = length acc + length cs"
    if "go_fold ?step cs (store, acc) = Inr (store', clusters')" "list_all (hosts_given store) cs"
      "list_all (ready_cluster store) acc" for cs store acc
    using that
  proof (induction cs arbitrary: store acc)
    case (Cons c cs)
    from Cons.prems(1) obtain store1 hf c' where
      c': "normalizeCluster zk files templates store c = Inr (store1, hf, c')"
      and rest: "go_fold ?step cs (store1, acc @ [c']) = Inr (store', clusters')"
      by (auto simp: go_bind_Inr_iff)
    note grows = cluster_ready(1) [OF c']
    have "list_all (hosts_given store1) cs" "list_all (ready_cluster store1) acc" "ready_cluster store1 c'"
      using Cons.prems(2,3) hosts_given_grows [OF grows] ready_cluster_grows [OF grows] cluster_ready(2) [OF c']
      by (auto simp: list_all_iff)
    with Cons.IH [OF rest] show ?case by simp
  qed simp
  from this [OF assms(1) [unfolded normalizeClusters_def] assms(2)] show ?thesis by simp
qed

section \<open>The walks\<close>

lemma visits_cell:
  "v \<in> set (visits a b ci k m cells) \<Longrightarrow>
     v_clusterIndex v = ci \<and> (v_shardIndex v, v_replicaIndex v, v_host v) \<in> set cells"
  by (induction cells arbitrary: k m) (auto simp: visit_at_def)

lemma cluster_cells_in:
  "(si, ri, host) \<in> set (cluster_cells lay) \<longleftrightarrow> si < length (lay_Shards lay)
     \<and> ri < length (sh_Hosts (lay_Shards lay ! si)) \<and> host = sh_Hosts (lay_Shards lay ! si) ! ri"
  by (auto simp: cluster_cells_def in_set_enumerate_eq image_iff)

definition visit_fits :: "ChiClusterLayout \<Rightarrow> visit \<Rightarrow> bool" where
  "visit_fits lay v = (v_shardIndex v < length (lay_Shards lay) \<and> v_replicaIndex v < length (lay_Replicas lay)
     \<and> v_host v \<noteq> None)"

lemma walkable_visit:
  assumes "walkable store lay" and "v \<in> set (visits a b ci k m (cluster_cells lay))"
  shows "visit_fits lay v"
proof -
  from visits_cell [OF assms(2)] have v: "v_shardIndex v < length (lay_Shards lay)"
    "v_replicaIndex v < length (sh_Hosts (lay_Shards lay ! v_shardIndex v))"
    "v_host v = sh_Hosts (lay_Shards lay ! v_shardIndex v) ! v_replicaIndex v"
    by (auto simp: cluster_cells_in)
  let ?sh = "lay_Shards lay ! v_shardIndex v"
  from assms(1) v(1) have "length (sh_Hosts ?sh) \<le> length (lay_Replicas lay)"
    and "list_all (\<lambda>p. case p of None \<Rightarrow> False | Some a \<Rightarrow> a < length store) (sh_Hosts ?sh)"
    by (auto simp: walkable_def list_all_length)
  with v show ?thesis by (auto simp: visit_fits_def list_all_length split: option.splits)
qed

lemma all_visits_fit:
  "v \<in> set (all_visits a b ci k layouts) \<Longrightarrow> list_all (walkable store) layouts \<Longrightarrow>
     ci \<le> v_clusterIndex v \<and> v_clusterIndex v < ci + length layouts
     \<and> visit_fits (layouts ! (v_clusterIndex v - ci)) v"
proof (induction layouts arbitrary: ci k)
  case (Cons lay layouts)
  show ?case
  proof (cases "v \<in> set (visits a b ci k 0 (cluster_cells lay))")
    case True
    with visits_cell [OF True] walkable_visit [OF _ True] Cons.prems(2) show ?thesis by auto
  next
    case False
    with Cons.prems have "v \<in> set (all_visits a b (Suc ci) (k + length (cluster_cells lay)) layouts)" by simp
    from Cons.IH [OF this] Cons.prems(2) have IH: "Suc ci \<le> v_clusterIndex v"
      "v_clusterIndex v < ci + length (lay # layouts)" "visit_fits (layouts ! (v_clusterIndex v - Suc ci)) v" by simp_all
    from IH(1) have "v_clusterIndex v - ci = Suc (v_clusterIndex v - Suc ci)" by simp
    then have "(lay # layouts) ! (v_clusterIndex v - ci) = layouts ! (v_clusterIndex v - Suc ci)" by simp
    with IH show ?thesis by simp
  qed
qed simp

text \<open>What filling in the addresses leaves alone of a cluster: its name, its hosts, its dimensions.\<close>

definition form :: "ChiCluster \<Rightarrow> string \<times> (host_ptr list list \<times> nat) option" where
  "form c = (cu_Name c, map_option (\<lambda>lay. (map sh_Hosts (lay_Shards lay), length (lay_Replicas lay))) (cu_Layout c))"

lemma form_Layout:
  assumes "form c = form c'" and "cu_Layout c = Some lay"
  obtains lay' where "cu_Layout c' = Some lay'" "map sh_Hosts (lay_Shards lay') = map sh_Hosts (lay_Shards lay)"
    "length (lay_Replicas lay') = length (lay_Replicas lay)" "length (lay_Shards lay') = length (lay_Shards lay)"
proof -
  from assms obtain lay' where l: "cu_Layout c' = Some lay'"
    and h: "map sh_Hosts (lay_Shards lay') = map sh_Hosts (lay_Shards lay)"
    and r: "length (lay_Replicas lay') = length (lay_Replicas lay)"
    by (cases "cu_Layout c'") (simp_all add: form_def)
  from arg_cong [OF h, of length] show thesis by (intro that [OF l h r]) simp
qed

text \<open>Whether a cluster is ready and which hosts are walked depends on its form only.\<close>

definition ready_form :: "host_store \<Rightarrow> (host_ptr list list \<times> nat) option \<Rightarrow> bool" where
  "ready_form store f = (case f of None \<Rightarrow> False | Some (hosts, n) \<Rightarrow>
     list_all (\<lambda>hs. length hs \<le> n
       \<and> list_all (\<lambda>p. case p of None \<Rightarrow> False | Some a \<Rightarrow> a < length store) hs) hosts)"

lemma ready_by_form: "ready_cluster store c = ready_form store (snd (form c))"
  by (cases "cu_Layout c") (simp_all add: ready_form_def ready_cluster_def form_def walkable_def list.pred_map comp_def)

lemma hosts_by_form:
  "ready_cluster store c \<Longrightarrow>
     concat (map sh_Hosts (lay_Shards (the (cu_Layout c)))) = concat (fst (the (snd (form c))))"
  by (cases "cu_Layout c") (simp_all add: ready_cluster_def form_def)

lemma forms_ready:
  assumes "map form clusters = map form clusters'"
  shows "list_all (ready_cluster store) clusters = list_all (ready_cluster store) clusters'"
proof -
  have "list_all (ready_cluster store) cs = list_all (\<lambda>f. ready_form store (snd f)) (map form cs)" for cs
    by (simp add: list_all_iff ready_by_form)
  then show ?thesis by (simp add: assms)
qed

lemma walk_by_form:
  "list_all (ready_cluster store) clusters \<Longrightarrow>
     Installation_WalkHosts (the_layouts clusters) = concat (map (\<lambda>f. concat (fst (the (snd f)))) (map form clusters))"
  by (induction clusters) (auto simp: the_layouts_def Installation_WalkHosts_def intro: hosts_by_form)

lemma forms_walk:
  assumes "map form clusters = map form clusters'" and "list_all (ready_cluster store) clusters"
  shows "Installation_WalkHosts (the_layouts clusters) = Installation_WalkHosts (the_layouts clusters')"
  using walk_by_form [OF assms(2)] walk_by_form [of store clusters'] forms_ready [OF assms(1), of store] assms by simp

lemma fill_visit_returns:
  assumes "v_clusterIndex v < length clusters" "cu_Layout (clusters ! v_clusterIndex v) = Some lay" "visit_fits lay v"
  shows "\<exists>s'. fill_visit namespace chi a b v (store, clusters) = Inr s' \<and> length (fst s') = length store
    \<and> map form (snd s') = map form clusters"
proof -
  let ?ci = "v_clusterIndex v" and ?si = "v_shardIndex v" and ?ri = "v_replicaIndex v"
  from assms(3) obtain p where v: "?si < length (lay_Shards lay)" "?ri < length (lay_Replicas lay)" "v_host v = Some p"
    by (auto simp: visit_fits_def)
  let ?cl = "cu_Name (clusters ! ?ci)"
  let ?shards = "(lay_Shards lay)[?si := fill_shard_address namespace chi ?cl ?ci ?si (lay_Shards lay ! ?si)]"
  let ?replicas = "(lay_Replicas lay)[?ri := fill_replica_address namespace chi ?cl ?ci ?ri (lay_Replicas lay ! ?ri)]"
  let ?c = "(fill_cluster_address namespace chi ?ci (clusters ! ?ci))\<lparr>cu_Layout := Some (lay\<lparr>
              lay_Shards := ?shards, lay_Replicas := ?replicas\<rparr>)\<rparr>"
  have "map sh_Hosts ?shards = map sh_Hosts (lay_Shards lay)"
    using v(1) by (simp add: map_update fill_shard_address_def list_update_same_conv)
  then have "form ?c = form (clusters ! ?ci)" by (simp add: form_def assms(2) fill_cluster_address_def)
  then have "map form (clusters[?ci := ?c]) = map form clusters"
    using assms(1) by (simp add: map_update list_update_same_conv)
  then show ?thesis
    using assms(1,2) v by (simp add: fill_visit_def go_nth_def store_put_length Let_def)
qed

section \<open>Filling in and finishing\<close>

lemma ready_layouts:
  assumes "list_all (ready_cluster store) clusters"
  shows "\<not> list_ex (\<lambda>c. cu_Layout c = None) clusters" and "list_all (walkable store) (the_layouts clusters)"
  using assms by (auto simp: ready_cluster_def the_layouts_def list_all_iff list_ex_iff split: option.splits)

lemma forms_visit:
  assumes "map form clusters' = map form clusters" and "list_all (ready_cluster store) clusters"
    and "v \<in> set (all_visits a b 0 0 (the_layouts clusters))"
  shows "\<exists>lay. v_clusterIndex v < length clusters' \<and> cu_Layout (clusters' ! v_clusterIndex v) = Some lay \<and> visit_fits lay v"
proof -
  let ?c = "v_clusterIndex v"
  from all_visits_fit [OF assms(3) ready_layouts(2) [OF assms(2)]]
  have v: "?c < length clusters" "visit_fits (the (cu_Layout (clusters ! ?c))) v"
    by (auto simp: the_layouts_def)
  then obtain lay where lay: "cu_Layout (clusters ! ?c) = Some lay"
    using assms(2) by (auto simp: list_all_length ready_cluster_def split: option.splits)
  have len: "length clusters' = length clusters" using arg_cong [OF assms(1), of length] by simp
  then have "form (clusters ! ?c) = form (clusters' ! ?c)"
    using arg_cong [OF assms(1), of "\<lambda>fs. fs ! ?c"] v(1) by simp
  then obtain lay' where "cu_Layout (clusters' ! ?c) = Some lay'"
    "length (lay_Replicas lay') = length (lay_Replicas lay)" "length (lay_Shards lay') = length (lay_Shards lay)"
    using form_Layout [OF _ lay] by metis
  with v len lay show ?thesis by (intro exI [of _ lay']) (simp add: visit_fits_def)
qed

lemma FillSelf_returns:
  assumes "list_all (ready_cluster store) clusters"
  shows "\<exists>store' clusters'. FillSelfCalculatedAddressInfo namespace chi templates (store, clusters) = Inr (store', clusters')
    \<and> length store' = length store \<and> map form clusters' = map form clusters"
proof -
  let ?b = "clusterScopeCycleSize templates (the_layouts clusters)"
  have "\<exists>s'. go_fold (fill_visit namespace chi 0 ?b) (all_visits 0 ?b 0 0 (the_layouts clusters)) (store, clusters) = Inr s'
      \<and> (length (fst s') = length store \<and> map form (snd s') = map form clusters)"
  proof (rule go_fold_invariant)
    fix v and s :: "host_store \<times> ChiCluster list"
    assume v: "v \<in> set (all_visits 0 ?b 0 0 (the_layouts clusters))"
      and s: "length (fst s) = length store \<and> map form (snd s) = map form clusters"
    obtain st cl where sc: "s = (st, cl)" by force
    from forms_visit [OF _ assms v, of cl] s sc fill_visit_returns [of v cl _ namespace chi 0 ?b st]
    show "\<exists>s'. fill_visit namespace chi 0 ?b v s = Inr s'
        \<and> (length (fst s') = length store \<and> map form (snd s') = map form clusters)" by fastforce
  qed simp
  with ready_layouts(1) [OF assms] show ?thesis
    by (auto simp: FillSelfCalculatedAddressInfo_def WalkHostsFullPath_all_visits the_layouts_def Let_def)
qed

text \<open>Every host that is walked learns the name of a cluster of the installation.\<close>

definition in_cluster :: "string list \<Rightarrow> ChiHost \<Rightarrow> bool" where
  "in_cluster names h = (ha_ClusterName (h_Address h) \<in> set names)"

lemma fill_visit_names:
  assumes "fill_visit namespace chi a b v s = Inr s'"
  shows "map cu_Name (snd s') = map cu_Name (snd s)"
    and "host_has (in_cluster (map cu_Name (snd s))) (v_host v) (fst s')"
    and "host_has (in_cluster (map cu_Name (snd s))) p (fst s) \<Longrightarrow> host_has (in_cluster (map cu_Name (snd s))) p (fst s')"
proof -
  obtain store clusters where s: "s = (store, clusters)" by force
  let ?ci = "v_clusterIndex v" and ?Q = "in_cluster (map cu_Name clusters)"
  from assms obtain q c f where
    c: "?ci < length clusters" "snd s' = clusters[?ci := c]" "cu_Name c = cu_Name (clusters ! ?ci)"
    and q: "v_host v = Some q" and st: "fst s' = store_put q (map_option f (store_get store (Some q))) store"
    and f: "\<And>h. ha_ClusterName (h_Address (f h)) = cu_Name (clusters ! ?ci)"
    unfolding s fill_visit_def Let_def prod.case
    by (auto simp: go_bind_Inr_iff fill_host_address_def fill_cluster_address_def go_nth_def
        split: if_splits option.splits)
  have Q: "?Q (f h)" for h using c(1) by (simp add: in_cluster_def f)
  have st': "fst s' = (if q < length store then store[q := f (store ! q)] else store)" by (simp add: st store_put_map)
  show "map cu_Name (snd s') = map cu_Name (snd s)"
    using c by (simp add: s map_update list_update_same_conv)
  show "host_has (in_cluster (map cu_Name (snd s))) (v_host v) (fst s')" using Q by (auto simp: host_has_def q st' s)
  show "host_has (in_cluster (map cu_Name (snd s))) p (fst s')" if "host_has (in_cluster (map cu_Name (snd s))) p (fst s)"
    using that Q by (cases p) (auto simp: host_has_def st' s nth_list_update)
qed

lemma FillSelf_names:
  assumes "FillSelfCalculatedAddressInfo namespace chi templates (store, clusters) = Inr (store', clusters')"
    and "p \<in> set (Installation_WalkHosts (the_layouts clusters))"
  shows "map cu_Name clusters' = map cu_Name clusters \<and> host_has (in_cluster (map cu_Name clusters)) p store'"
proof -
  let ?b = "clusterScopeCycleSize templates (the_layouts clusters)"
  have fold: "go_fold (fill_visit namespace chi 0 ?b) (all_visits 0 ?b 0 0 (the_layouts clusters)) (store, clusters)
      = Inr (store', clusters')"
    using assms(1) by (auto simp: FillSelfCalculatedAddressInfo_def WalkHostsFullPath_all_visits the_layouts_def Let_def
        split: if_splits)
  from assms(2) have "p \<in> set (map v_host (all_visits 0 ?b 0 0 (the_layouts clusters)))"
    unfolding all_visits_hosts .
  then obtain v where v: "v \<in> set (all_visits 0 ?b 0 0 (the_layouts clusters))" "p = v_host v" by auto
  let ?N = "\<lambda>s :: host_store \<times> ChiCluster list. map cu_Name (snd s) = map cu_Name clusters"
  let ?Q = "\<lambda>w s. ?N s \<and> host_has (in_cluster (map cu_Name clusters)) (v_host w) (fst s)"
  have names: "map cu_Name clusters' = map cu_Name clusters"
    using go_fold_keeps [OF fold, of ?N] fill_visit_names(1) by fastforce
  have "host_has (in_cluster (map cu_Name clusters)) (v_host v) (fst s')"
    if "go_fold (fill_visit namespace chi 0 ?b) vs s = Inr s'" "v \<in> set vs \<or> ?Q v s" "?N s" for vs s s'
    using that
  proof (induction vs arbitrary: s)
    case (Cons w vs)
    then obtain s1 where s1: "fill_visit namespace chi 0 ?b w s = Inr s1"
        "go_fold (fill_visit namespace chi 0 ?b) vs s1 = Inr s'" by (auto simp: go_bind_Inr_iff)
    note step = fill_visit_names [OF s1(1)]
    have "?N s1" using step(1) Cons.prems(3) by simp
    moreover have "v \<in> set vs \<or> ?Q v s1"
      using step Cons.prems(2,3) calculation by auto
    ultimately show ?case using Cons.IH [OF s1(2)] by blast
  qed simp
  from this [OF fold] v names show ?thesis by simp
qed

lemma ready_walk:
  assumes "list_all (ready_cluster store) clusters" and "p \<in> set (Installation_WalkHosts (the_layouts clusters))"
  obtains a where "p = Some a" "a < length store"
proof -
  from assms(2) obtain lay sh where l: "lay \<in> set (the_layouts clusters)" "sh \<in> set (lay_Shards lay)" "p \<in> set (sh_Hosts sh)"
    by (auto simp: Installation_WalkHosts_def)
  with ready_layouts(2) [OF assms(1)] have "case p of None \<Rightarrow> False | Some a \<Rightarrow> a < length store"
    by (auto simp: walkable_def list_all_iff)
  then show thesis using that by (auto split: option.splits)
qed

lemma each_host_returns:
  assumes "list_all (ready_cluster store) clusters"
  shows "\<exists>store'. each_host f (the_layouts clusters) store = Inr store' \<and> length store' = length store"
  unfolding each_host_def
proof (rule go_fold_invariant [where P = "\<lambda>s. length s = length store"])
  fix p and s :: host_store
  assume p: "p \<in> set (Installation_WalkHosts (the_layouts clusters))" and "length s = length store"
  then show "\<exists>s'. (case p of None \<Rightarrow> Inl NilDereference
      | Some a \<Rightarrow> Inr (store_put a (map_option f (store_get s (Some a))) s)) = Inr s' \<and> length s' = length store"
    by (auto intro: ready_walk [OF assms p] simp: store_put_length)
qed simp

lemma applied_address [simp]: "h_Address (hostApplyHostTemplate common template h) = h_Address h"
  by (simp add: hostApplyHostTemplate_def hostApplyPortsFromSettings_def ensurePortValuesFromSettings_def
      ChiHost_InheritTemplatesFrom_def Let_def)

lemma filled_cluster [simp]:
  "in_cluster names (fill_statefulset sha1 templates h) = in_cluster names h"
  "in_cluster names (hostApplyHostTemplate common template h) = in_cluster names h"
  by (simp_all add: in_cluster_def fill_statefulset_def)

lemma FindCluster_None: "FindCluster name clusters = None \<longleftrightarrow> name \<notin> set (map cu_Name clusters)"
proof -
  have "fold (\<lambda>cluster result. if cu_Name cluster = name then Some cluster else result) clusters r = None
      \<longleftrightarrow> r = None \<and> name \<notin> set (map cu_Name clusters)" for r
    by (induction clusters arbitrary: r) auto
  then show ?thesis by (simp add: FindCluster_def)
qed

lemma fingerprints_return:
  assumes "\<And>p. p \<in> set ps \<Longrightarrow> \<exists>a. p = Some a \<and> a < length store \<and> in_cluster (map cu_Name clusters) (store ! a)"
  shows "\<exists>fps. go_fold (\<lambda>p acc. case store_get store p of
       None \<Rightarrow> Inl NilDereference
     | Some host \<Rightarrow> go_bind (calcFingerprints n conf clusters host) (\<lambda>fp. Inr (acc @ [fp]))) ps acc = Inr fps"
proof -
  have "\<exists>fps. go_fold (\<lambda>p acc. case store_get store p of
       None \<Rightarrow> Inl NilDereference
     | Some host \<Rightarrow> go_bind (calcFingerprints n conf clusters host) (\<lambda>fp. Inr (acc @ [fp]))) ps acc = Inr fps \<and> True"
  proof (rule go_fold_invariant)
    fix p and acc :: "host_fingerprints list"
    assume "p \<in> set ps"
    from assms [OF this] obtain a where a: "p = Some a" "a < length store" "in_cluster (map cu_Name clusters) (store ! a)"
      by blast
    then obtain c where "FindCluster (ha_ClusterName (h_Address (store ! a))) clusters = Some c"
      using FindCluster_None [of "ha_ClusterName (h_Address (store ! a))" clusters] by (auto simp: in_cluster_def)
    then show "\<exists>s'. (case store_get store p of None \<Rightarrow> Inl NilDereference
       | Some host \<Rightarrow> go_bind (calcFingerprints n conf clusters host) (\<lambda>fp. Inr (acc @ [fp]))) = Inr s' \<and> True"
      by (simp add: a store_get_def calcFingerprints_def Let_def)
  qed simp
  then show ?thesis by blast
qed

lemma finalizeCHI_returns:
  assumes "list_all (ready_cluster store) clusters"
  shows "\<exists>store' clusters' fps. finalizeCHI n chi templates conf (store, clusters) = Inr (store', clusters', fps)
    \<and> list_all (ready_cluster store') clusters'"
proof -
  obtain s1 c1 where fill: "FillSelfCalculatedAddressInfo (om_Namespace chi) (om_Name chi)
        (walk_pod_templates templates) (store, clusters) = Inr (s1, c1)"
    and len1: "length s1 = length store" and forms: "map form c1 = map form clusters"
    using FillSelf_returns [OF assms] by blast
  have ready: "list_all (ready_cluster s) c1" if "length s = length store" for s
    using forms_ready [OF forms, of s] assms ready_cluster_grows [of store s] that by (auto simp: list_all_iff)
  have walk: "Installation_WalkHosts (the_layouts c1) = Installation_WalkHosts (the_layouts clusters)"
    by (rule forms_walk [OF forms ready [OF refl]])
  note r1 = ready [OF len1]
  let ?apply = "\<lambda>host. hostApplyHostTemplate (cf_Settings conf) (getHostTemplate (nz_SHA1 n) templates host) host"
  obtain s2 where s2: "each_host ?apply (the_layouts c1) s1 = Inr s2" "length s2 = length store"
    using each_host_returns [OF r1, of ?apply] len1 by auto
  obtain s3 where s3: "each_host (fill_statefulset (nz_SHA1 n) templates) (the_layouts c1) s2 = Inr s3"
      "length s3 = length store"
    using each_host_returns [OF ready [OF s2(2)], of "fill_statefulset (nz_SHA1 n) templates"] s2(2) by auto
  let ?Q = "in_cluster (map cu_Name clusters)"
  have "\<exists>a. p = Some a \<and> a < length s3 \<and> in_cluster (map cu_Name c1) (s3 ! a)"
    if p: "p \<in> set (Installation_WalkHosts (the_layouts c1))" for p
  proof -
    from FillSelf_names [OF fill, of p] p walk have n: "map cu_Name c1 = map cu_Name clusters" "host_has ?Q p s1" by auto
    from each_host_all(3) [OF s2(1) _ n(2)] have "host_has ?Q p s2" by simp
    from each_host_all(3) [OF s3(1) _ this] have "host_has ?Q p s3" by simp
    moreover obtain a where "p = Some a" "a < length s3" by (rule ready_walk [OF ready [OF s3(2)] p])
    ultimately show ?thesis using n(1) by (simp add: host_has_def)
  qed
  from fingerprints_return [OF this] obtain fps where "go_fold (\<lambda>p acc. case store_get s3 p of
       None \<Rightarrow> Inl NilDereference
     | Some host \<Rightarrow> go_bind (calcFingerprints n conf c1 host) (\<lambda>fp. Inr (acc @ [fp])))
     (Installation_WalkHosts (the_layouts c1)) [] = Inr fps" by blast
  with fill s2 s3 ready [OF s3(2)] show ?thesis by (simp add: finalizeCHI_def)
qed

lemma walked_hosts_return:
  assumes "list_all (ready_cluster store) clusters"
  shows "\<exists>hosts. walked_hosts (the_layouts clusters) store = Inr hosts"
proof -
  have "\<exists>hosts. walked_hosts (the_layouts clusters) store = Inr hosts \<and> True"
    unfolding walked_hosts_def
  proof (rule go_fold_invariant)
    fix p and acc :: "ChiHost list" assume p: "p \<in> set (Installation_WalkHosts (the_layouts clusters))"
    show "\<exists>s'. (case store_get store p of None \<Rightarrow> Inl NilDereference | Some host \<Rightarrow> Inr (acc @ [host])) = Inr s' \<and> True"
      by (rule ready_walk [OF assms p]) (simp add: store_get_def)
  qed simp
  then show ?thesis by blast
qed

section \<open>When normalizing an installation returns\<close>

definition installation_clusters :: "Installation \<Rightarrow> ChiCluster option list" where
  "installation_clusters chi =
     (case sp_Configuration (in_Spec chi) of None \<Rightarrow> [] | Some conf \<Rightarrow> cf_Clusters conf)"

definition installation_pod_templates :: "Installation \<Rightarrow> ChiPodTemplate list" where
  "installation_pod_templates chi =
     (case sp_Templates (in_Spec chi) of None \<Rightarrow> [] | Some t \<Rightarrow> tps_PodTemplates t)"

definition expands_first_cluster :: "ChiPodTemplate \<Rightarrow> bool" where
  "expands_first_cluster template =
     list_ex (\<lambda>pd. pd_Type pd = PodDistributionCircularReplication) (pt_PodDistribution template)"

text \<open>A zone is asked for beside a node affinity of the user that requires nothing.\<close>

definition zone_beside_preferences :: "ChiPodTemplate \<Rightarrow> bool" where
  "zone_beside_preferences template = (pt_ZoneValues template \<noteq> []
     \<and> (case Option.bind (ps_Affinity (pt_Spec template)) af_NodeAffinity of
          None \<Rightarrow> False | Some na \<Rightarrow> na_Required na = None))"

lemma normalizePodDistribution_panics:
  "panics (normalizePodDistribution rc pd) \<longleftrightarrow> panics rc \<and> pd_Type pd = PodDistributionCircularReplication"
  by (cases rc) (simp_all add: normalizePodDistribution_def Let_def pod_distribution_consts)

lemma normalizePodDistributions_panics:
  "panics (normalizePodDistributions rc pds)
     \<longleftrightarrow> panics rc \<and> list_ex (\<lambda>pd. pd_Type pd = PodDistributionCircularReplication) pds"
proof -
  let ?step = "\<lambda>pd (acc, additional). go_bind (normalizePodDistribution rc pd) (\<lambda>(pd, ads).
           Inr (acc @ [pd], additional @ ads))"
  have "(\<exists>s. go_fold ?step pds ([], []) = Inr s)
      \<longleftrightarrow> (\<forall>pd\<in>set pds. \<not> (panics rc \<and> pd_Type pd = PodDistributionCircularReplication))"
  proof (rule go_fold_returns_iff [where P = "\<lambda>_. True"])
    fix pd and s :: "ChiPodDistribution list \<times> ChiPodDistribution list"
    obtain a b where s: "s = (a, b)" by force
    show "\<exists>s'. ?step pd s = Inr s' \<and> True" if "\<not> (panics rc \<and> pd_Type pd = PodDistributionCircularReplication)"
    proof -
      from that have "\<not> panics (normalizePodDistribution rc pd)" by (simp add: normalizePodDistribution_panics)
      then show ?thesis by (auto simp: not_panics_iff s)
    qed
    show "panics (?step pd s)" if "\<not> \<not> (panics rc \<and> pd_Type pd = PodDistributionCircularReplication)"
    proof -
      from that have "panics (normalizePodDistribution rc pd)" by (simp add: normalizePodDistribution_panics)
      then show ?thesis by (cases "normalizePodDistribution rc pd") (simp_all add: s)
    qed
  qed simp
  then show ?thesis
    unfolding normalizePodDistributions_def
    by (cases "go_fold ?step pds ([], [])") (auto simp: list_ex_iff)
qed

lemma pod_template_panics:
  "panics (normalizePodTemplate dd rc template)
     \<longleftrightarrow> panics rc \<and> expands_first_cluster template \<or> zone_beside_preferences template"
proof (cases "normalizePodDistributions rc (pt_PodDistribution template)")
  case (Inl p)
  with normalizePodDistributions_panics [of rc "pt_PodDistribution template"] show ?thesis
    by (simp add: normalizePodTemplate_def expands_first_cluster_def Let_def)
next
  case (Inr pds)
  then have "\<not> (panics rc \<and> expands_first_cluster template)"
    using normalizePodDistributions_panics [of rc "pt_PodDistribution template"] by (simp add: expands_first_cluster_def)
  moreover have "panics (mergeAffinity dd (ps_Affinity (pt_Spec template))
      (newAffinity ((normalizeZone template)\<lparr>pt_PodDistribution := pds\<rparr>))) \<longleftrightarrow> zone_beside_preferences template"
    unfolding mergeAffinity_panics
    by (auto simp: newNodeAffinity_def normalizeZone_key zone_beside_preferences_def bind_eq_Some_conv
        split: option.splits)
  ultimately show ?thesis
    by (cases "mergeAffinity dd (ps_Affinity (pt_Spec template))
      (newAffinity ((normalizeZone template)\<lparr>pt_PodDistribution := pds\<rparr>))")
      (simp_all add: normalizePodTemplate_def Inr Let_def)
qed

lemma normalizeTemplates_panics:
  "panics (normalizeTemplates dd rc templates) \<longleftrightarrow>
     (\<exists>t. templates = Some t \<and> (\<exists>template\<in>set (tps_PodTemplates t).
        panics rc \<and> expands_first_cluster template \<or> zone_beside_preferences template))"
proof (cases templates)
  case (Some t)
  let ?step = "\<lambda>template acc. go_bind (normalizePodTemplate dd rc template) (\<lambda>template. Inr (acc @ [template]))"
  let ?bad = "\<lambda>template. panics rc \<and> expands_first_cluster template \<or> zone_beside_preferences template"
  have "(\<exists>s. go_fold ?step (tps_PodTemplates t) [] = Inr s) \<longleftrightarrow> (\<forall>template\<in>set (tps_PodTemplates t). \<not> ?bad template)"
  proof (rule go_fold_returns_iff [where P = "\<lambda>_. True"])
    fix template and s :: "ChiPodTemplate list"
    show "\<exists>s'. ?step template s = Inr s' \<and> True" if "\<not> ?bad template"
      using that pod_template_panics [of dd rc template] by (auto simp: not_panics_iff)
    show "panics (?step template s)" if "\<not> \<not> ?bad template"
      using that pod_template_panics [of dd rc template]
      by (cases "normalizePodTemplate dd rc template") simp_all
  qed simp
  then show ?thesis
    unfolding normalizeTemplates_def Some
    by (cases "go_fold ?step (tps_PodTemplates t) []") (auto simp: Let_def)
qed (simp add: normalizeTemplates_def)

lemma normalizeTaskID_given: "\<exists>taskID. normalizeTaskID uuid t = Some taskID"
  by (cases t) (simp_all add: normalizeTaskID_def)

lemma normalizeTaskID_not_empty:
  assumes "uuid \<noteq> []"
  shows "\<exists>taskID. normalizeTaskID uuid t = Some taskID \<and> taskID \<noteq> []"
  using assms by (cases t) (simp_all add: normalizeTaskID_def)

lemma normalizeConfiguration_outcome:
  assumes "list_all (hosts_given store) clusters" and "clusters = (case conf of None \<Rightarrow> [] | Some c \<Rightarrow> cf_Clusters c)"
  shows "case normalizeConfiguration n chi templates store conf of
      Inl _ \<Rightarrow> \<not> list_all (\<lambda>c. layout_fits (prepareLayout (cluster_layout c)))
           (ensureClusters (nz_WithDefaultCluster n) clusters)
    | Inr (store', conf') \<Rightarrow> list_all (\<lambda>c. layout_fits (prepareLayout (cluster_layout c)))
           (ensureClusters (nz_WithDefaultCluster n) clusters)
        \<and> list_all (ready_cluster store') (map the (cf_Clusters conf'))
        \<and> list_all (\<lambda>c. c \<noteq> None) (cf_Clusters conf')
        \<and> (cf_Clusters conf' = [] \<longleftrightarrow> ensureClusters (nz_WithDefaultCluster n) clusters = [])"
proof -
  let ?ensured = "ensureClusters (nz_WithDefaultCluster n) clusters"
  have given: "list_all (hosts_given store) ?ensured"
    using assms(1) by (simp add: ensureClusters_def hosts_given_def)
  let ?conf = "normalize_sections n chi (case conf of None \<Rightarrow> NewConfiguration | Some c \<Rightarrow> c)"
  obtain zk files where step: "normalizeConfiguration n chi templates store conf =
      go_bind (normalizeClusters (nz_WithDefaultCluster n) zk files templates store clusters) (\<lambda>(store, clusters).
        Inr (store, ?conf\<lparr>cf_Clusters := map Some clusters\<rparr>))"
  proof (rule that)
    have "clusters = cf_Clusters ?conf" using assms(2) by (cases conf) (simp_all add: NewConfiguration_def)
    then show "normalizeConfiguration n chi templates store conf =
      go_bind (normalizeClusters (nz_WithDefaultCluster n) (if conf \<noteq> None then cf_Zookeeper ?conf else None)
        (if conf \<noteq> None then cf_Files ?conf else None) templates store clusters) (\<lambda>(store, clusters).
        Inr (store, ?conf\<lparr>cf_Clusters := map Some clusters\<rparr>))"
      by (simp only: normalizeConfiguration_def Let_def)
  qed
  show ?thesis
  proof (cases "normalizeClusters (nz_WithDefaultCluster n) zk files templates store clusters")
    case (Inl e)
    with normalizeClusters_returns_iff [of "nz_WithDefaultCluster n" zk files templates store clusters]
    show ?thesis by (simp add: step list_all_iff)
  next
    case (Inr r)
    obtain store' clusters' where r: "r = (store', clusters')" by force
    from normalizeClusters_returns_iff [of "nz_WithDefaultCluster n" zk files templates store clusters] Inr
      normalizeClusters_ready [OF Inr [unfolded r] given]
    show ?thesis by (auto simp: step r list_all_iff)
  qed
qed

text \<open>What an installation, with the templates applied, has to be like.\<close>

definition normalizable :: "bool \<Rightarrow> Installation \<Rightarrow> bool" where
  "normalizable withDefaultCluster chi = (
     let clusters = ensureClusters withDefaultCluster (installation_clusters chi) in
     list_all (\<lambda>c. layout_fits (prepareLayout (cluster_layout c))) clusters
     \<and> list_all (\<lambda>template. \<not> zone_beside_preferences template
          \<and> \<not> (clusters = [] \<and> expands_first_cluster template)) (installation_pod_templates chi))"

lemma normalize_panics:
  assumes "list_all (hosts_given store) (installation_clusters chi)"
  shows "panics (normalize n store chi) \<longleftrightarrow> \<not> normalizable (nz_WithDefaultCluster n) chi"
proof -
  let ?spec = "normalize_scalars n (in_Spec chi)"
  let ?def = "case sp_Defaults ?spec of None \<Rightarrow> None | Some d \<Rightarrow> def_Templates d"
  let ?ensured = "ensureClusters (nz_WithDefaultCluster n) (installation_clusters chi)"
  let ?fits = "list_all (\<lambda>c. layout_fits (prepareLayout (cluster_layout c))) ?ensured"
  have kept: "sp_Configuration ?spec = sp_Configuration (in_Spec chi)" "sp_Templates ?spec = sp_Templates (in_Spec chi)"
    by (simp_all add: normalize_scalars_def)
  note conf = normalizeConfiguration_outcome [OF assms installation_clusters_def, of n "in_Meta chi" ?def]
  show ?thesis
  proof (cases "normalizeConfiguration n (in_Meta chi) ?def store (sp_Configuration (in_Spec chi))")
    case (Inl e)
    with conf have "\<not> ?fits" by simp
    with Inl show ?thesis by (simp add: normalize_def kept normalizable_def Let_def)
  next
    case (Inr r)
    obtain s1 conf' where r: "r = (s1, conf')" by force
    with conf Inr have fits: ?fits and ready: "list_all (ready_cluster s1) (map the (cf_Clusters conf'))"
      and some: "list_all (\<lambda>c. c \<noteq> None) (cf_Clusters conf')"
      and empty: "cf_Clusters conf' = [] \<longleftrightarrow> ?ensured = []" by auto
    let ?rc = "first_replicas_count (cf_Clusters conf')"
    have rc: "panics ?rc \<longleftrightarrow> ?ensured = []"
    proof (cases "cf_Clusters conf'")
      case (Cons c cs)
      with ready some show ?thesis using empty
        by (auto simp: first_replicas_count_def go_nth_def ready_cluster_def split: option.splits)
    qed (use empty in \<open>simp add: first_replicas_count_def go_nth_def\<close>)
    have templates: "panics (normalizeTemplates (nz_DeepDiff n) ?rc (sp_Templates (in_Spec chi))) \<longleftrightarrow>
        \<not> list_all (\<lambda>template. \<not> zone_beside_preferences template
          \<and> \<not> (?ensured = [] \<and> expands_first_cluster template)) (installation_pod_templates chi)"
      unfolding normalizeTemplates_panics rc
      by (cases "sp_Templates (in_Spec chi)") (auto simp: installation_pod_templates_def list_all_iff)
    show ?thesis
    proof (cases "normalizeTemplates (nz_DeepDiff n) ?rc (sp_Templates (in_Spec chi))")
      case (Inl e)
      with templates Inr r show ?thesis by (simp add: normalize_def kept normalizable_def Let_def)
    next
      case templ: (Inr t)
      obtain s2 clusters fps where fin: "finalizeCHI n (in_Meta chi) t conf' (s1, map the (cf_Clusters conf'))
          = Inr (s2, clusters, fps)" and ready2: "list_all (ready_cluster s2) clusters"
        using finalizeCHI_returns [OF ready] by blast
      obtain hosts where hosts: "walked_hosts (the_layouts clusters) s2 = Inr hosts"
        using walked_hosts_return [OF ready2] by blast
      obtain taskID where task: "sp_TaskID ?spec = Some taskID"
        using normalizeTaskID_given by (auto simp: normalize_scalars_def)
      have "\<not> panics (normalize n store chi)"
        by (simp add: normalize_def kept Inr r templ fin fillStatus_def hosts FillStatus_def task Let_def)
      with templates templ fits show ?thesis by (simp add: normalizable_def Let_def)
    qed
  qed
qed

text \<open>
  C1: when the operator can normalize an installation. With the templates of the operator and of the
  installation applied, and every host listed an object of its own, normalizing returns exactly when the
  layout of every cluster fits, no pod template names zones beside a node affinity that only prefers, and,
  where there is no cluster at all, none asks for circular replication. That last case is the nil
  installation the operator normalizes for the old state of one it has not seen; every other has a default
  cluster. Nothing else that a user can write makes it panic.
\<close>

theorem templated_installation_normalizes:
  assumes "base = apply_templates mg ct (case chi of None \<Rightarrow> newInstallation | Some chi \<Rightarrow> chi)"
    and "list_all (hosts_given store) (installation_clusters base)"
  shows "panics (CreateTemplatedCHI n mg ct store chi) \<longleftrightarrow> \<not> normalizable (chi \<noteq> None) base"
  using normalize_panics [OF assms(2), of "n\<lparr>nz_WithDefaultCluster := (chi \<noteq> None)\<rparr>"]
  by (simp add: CreateTemplatedCHI_def assms(1))

definition plain_normalizer :: normalizer where
  "plain_normalizer = \<lparr>nz_WithDefaultCluster = True, nz_Users = plain_users_config,
     nz_HostRegexpTemplate = ''chi-{chi}.svc'', nz_SHA1 = (\<lambda>s. s), nz_SHA256 = (\<lambda>s. s),
     nz_Secrets = (\<lambda>_ _ _ _. None), nz_Shuffle = (\<lambda>ns. ns), nz_DeepDiff = exact_diff, nz_NewUUID = ''task'',
     nz_Version = ''1.0'', nz_Verbose = False, nz_ZookeeperFingerprint = (\<lambda>_. ''zk''),
     nz_ListFingerprint = (\<lambda>_. ''list''), nz_StringFingerprint = (\<lambda>s. s), nz_OtherFormat = (\<lambda>f _. f)\<rparr>"

definition no_templates :: chi_templates where
  "no_templates = \<lparr>ct_CHITemplate = None, ct_AutoTemplates = [], ct_FindTemplate = (\<lambda>_ _. None)\<rparr>"

text \<open>A base template of the operator with a pod template for circular replication.\<close>

definition circular_templates :: chi_templates where
  "circular_templates = no_templates\<lparr>ct_CHITemplate := Some (newInstallation\<lparr>in_Spec := newChiSpec\<lparr>
     sp_Templates := Some (NewChiTemplates\<lparr>tps_PodTemplates := [(newDefaultPodTemplate ''pod'')\<lparr>
       pt_PodDistribution := [newDistribution PodDistributionCircularReplication [] 0]\<rparr>]\<rparr>)\<rparr>\<rparr>)\<rparr>"

definition normalizable_check :: bool where
  "normalizable_check = (normalizable True (apply_templates overlay_all circular_templates newInstallation)
     \<and> \<not> normalizable False (apply_templates overlay_all circular_templates newInstallation)
     \<and> normalizable True (apply_templates overlay_all no_templates newInstallation)
     \<and> installation_clusters (apply_templates overlay_all circular_templates newInstallation) = [])"

lemma normalizable_check: "normalizable_check"
  by code_simp

theorem templated_installation_normalizes_witness:
  "panics (CreateTemplatedCHI plain_normalizer overlay_all circular_templates [] None)
     \<and> \<not> panics (CreateTemplatedCHI plain_normalizer overlay_all circular_templates [] (Some newInstallation))"
  using normalizable_check
    templated_installation_normalizes [OF refl, of "[]" overlay_all circular_templates None plain_normalizer]
    templated_installation_normalizes [OF refl, of "[]" overlay_all circular_templates "Some newInstallation" plain_normalizer]
  by (simp add: normalizable_check_def)

section \<open>What normalizing makes\<close>

lemma normalize_steps:
  assumes "normalize n store chi = Inr (store', chi', fps)"
  obtains s1 conf templates clusters spec taskID where
    "finalizeCHI n (in_Meta chi) templates conf (s1, map the (cf_Clusters conf)) = Inr (store', clusters, fps)"
    "in_Spec chi' = spec\<lparr>sp_Configuration := Some (conf\<lparr>cf_Clusters := map Some clusters\<rparr>), sp_Templates := templates\<rparr>"
    "fillStatus n store' clusters (chi\<lparr>in_Spec := in_Spec chi'\<rparr>) = Inr chi'"
    "spec = normalize_scalars n (in_Spec chi)"
proof -
  let ?spec = "normalize_scalars n (in_Spec chi)"
  let ?def = "case sp_Defaults ?spec of None \<Rightarrow> None | Some d \<Rightarrow> def_Templates d"
  obtain s1 conf where a: "normalizeConfiguration n (in_Meta chi) ?def store (sp_Configuration ?spec) = Inr (s1, conf)"
    using assms by (cases "normalizeConfiguration n (in_Meta chi) ?def store (sp_Configuration ?spec)")
      (auto simp: normalize_def Let_def)
  obtain templates where b: "normalizeTemplates (nz_DeepDiff n) (first_replicas_count (cf_Clusters conf))
      (sp_Templates ?spec) = Inr templates"
    using assms a by (cases "normalizeTemplates (nz_DeepDiff n) (first_replicas_count (cf_Clusters conf)) (sp_Templates ?spec)")
      (auto simp: normalize_def Let_def)
  obtain s2 clusters fps' where
    c: "finalizeCHI n (in_Meta chi) templates conf (s1, map the (cf_Clusters conf)) = Inr (s2, clusters, fps')"
    using assms a b by (cases "finalizeCHI n (in_Meta chi) templates conf (s1, map the (cf_Clusters conf))")
      (auto simp: normalize_def Let_def)
  let ?spec' = "?spec\<lparr>sp_Configuration := Some (conf\<lparr>cf_Clusters := map Some clusters\<rparr>), sp_Templates := templates\<rparr>"
  have d: "fillStatus n s2 clusters (chi\<lparr>in_Spec := ?spec'\<rparr>) = Inr chi'" "s2 = store'" "fps' = fps"
    using assms a b c by (auto simp: normalize_def Let_def go_bind_Inr_iff)
  then have "in_Spec chi' = ?spec'"
    by (auto simp: fillStatus_def FillStatus_def Let_def go_bind_Inr_iff split: option.splits)
  with c d show thesis by (intro that) auto
qed

lemma walked_hosts_all:
  assumes "walked_hosts layouts store = Inr hosts"
    and "\<And>p. p \<in> set (Installation_WalkHosts layouts) \<Longrightarrow> host_has P p store"
  shows "list_all P hosts"
proof -
  have "P h" if "h \<in> set hosts" for h
  proof -
    from that have "Some h \<in> set (map (store_get store) (Installation_WalkHosts layouts))"
      unfolding walked_hosts_Inr [OF assms(1)] by simp
    then obtain p where "p \<in> set (Installation_WalkHosts layouts)" "store_get store p = Some h" by auto
    with assms(2) [of p] show ?thesis by (auto simp: host_has_def store_get_def split: option.splits if_splits)
  qed
  then show ?thesis by (simp add: list_all_iff)
qed

text \<open>What the rest of the operator relies on of a normalized installation.\<close>

definition ready_installation :: "(string \<Rightarrow> string) \<Rightarrow> host_store \<Rightarrow> Installation \<Rightarrow> bool" where
  "ready_installation sha1 store chi = (case sp_Configuration (in_Spec chi) of
     None \<Rightarrow> False
   | Some conf \<Rightarrow>
       list_all (\<lambda>c. c \<noteq> None) (cf_Clusters conf) \<and>
       sp_TaskID (in_Spec chi) = Some (cs_TaskID (in_Status chi)) \<and> cs_TaskID (in_Status chi) \<noteq> '''' \<and>
       (case walked_hosts (the_layouts (map the (cf_Clusters conf))) store of
          Inl _ \<Rightarrow> False
        | Inr hosts \<Rightarrow>
            list_all (\<lambda>h. ports_assigned h \<and> knows_statefulset sha1 (sp_Templates (in_Spec chi)) h) hosts \<and>
            cs_HostsCount (in_Status chi) = int (length hosts) \<and>
            length (cs_FQDNs (in_Status chi)) = length hosts \<and>
            cs_Pods (in_Status chi) = map (\<lambda>h. ha_StatefulSet (h_Address h) @ ''-0'') hosts))"

text \<open>
  C2: what normalizing an installation makes, whatever is in the installation, the templates applied to it
  and the secrets: no cluster is nil, the task has an id that the status repeats, every host that is walked
  has all three ports assigned and knows the name of the StatefulSet it is created as, the status counts
  the hosts and lists their pods, which are those of the StatefulSets, and every host has its fingerprints.
\<close>

theorem normalized_installation_ready:
  assumes "normalize n store chi = Inr (store', chi', fps)" and "nz_NewUUID n \<noteq> ''''"
  shows "ready_installation (nz_SHA1 n) store' chi' \<and> cs_HostsCount (in_Status chi') = int (length fps)"
proof -
  obtain s1 conf templates clusters spec where
    f: "finalizeCHI n (in_Meta chi) templates conf (s1, map the (cf_Clusters conf)) = Inr (store', clusters, fps)"
    and s: "in_Spec chi' = spec\<lparr>sp_Configuration := Some (conf\<lparr>cf_Clusters := map Some clusters\<rparr>),
        sp_Templates := templates\<rparr>"
    and st: "fillStatus n store' clusters (chi\<lparr>in_Spec := in_Spec chi'\<rparr>) = Inr chi'"
    and spec: "spec = normalize_scalars n (in_Spec chi)"
    using normalize_steps [OF assms(1)] by metis
  let ?walk = "Installation_WalkHosts (the_layouts clusters)"
  from st obtain hosts where hosts: "walked_hosts (the_layouts clusters) store' = Inr hosts"
    by (auto simp: fillStatus_def Let_def go_bind_Inr_iff)
  have count: "length hosts = length ?walk" using walked_hosts_Inr [OF hosts] map_eq_imp_length_eq by metis
  from finalizeCHI_hosts [OF f]
  have ready: "list_all (\<lambda>h. ports_assigned h \<and> knows_statefulset (nz_SHA1 n) templates h) hosts"
    by (intro walked_hosts_all [OF hosts]) blast
  have len: "length fps = length hosts"
    using f count by (auto simp: finalizeCHI_def Let_def go_bind_Inr_iff fingerprints_length)
  obtain taskID where task: "sp_TaskID spec = Some taskID" "taskID \<noteq> ''''"
    using normalizeTaskID_not_empty [OF assms(2)] unfolding spec by (auto simp: normalize_scalars_def)
  from ready have pods: "map (\<lambda>h. CreateStatefulSetName (nz_SHA1 n) templates h @ ''-0'') hosts
      = map (\<lambda>h. ha_StatefulSet (h_Address h) @ ''-0'') hosts"
    by (simp add: list_all_iff knows_statefulset_def)
  from st task have "cs_TaskID (in_Status chi') = taskID \<and> cs_HostsCount (in_Status chi') = int (length hosts)
      \<and> length (cs_FQDNs (in_Status chi')) = length hosts
      \<and> cs_Pods (in_Status chi') = map (\<lambda>h. CreateStatefulSetName (nz_SHA1 n) templates h @ ''-0'') hosts"
    by (auto simp: fillStatus_def hosts s FillStatus_def HostsCount_def count Let_def)
  with ready pods task len show ?thesis
    by (simp add: ready_installation_def s hosts list_all_iff comp_def)
qed

theorem normalized_installation_ready_witness:
  "\<exists>store chi fps. normalize plain_normalizer [] newInstallation = Inr (store, chi, fps)
     \<and> ready_installation (\<lambda>s. s) store chi \<and> cs_HostsCount (in_Status chi) = int (length fps)"
proof -
  have given: "list_all (hosts_given []) (installation_clusters newInstallation)"
    by (simp add: installation_clusters_def newInstallation_def newChiSpec_def)
  have n: "nz_WithDefaultCluster plain_normalizer" "nz_SHA1 plain_normalizer = (\<lambda>s. s)" "nz_NewUUID plain_normalizer \<noteq> []"
    by (simp_all add: plain_normalizer_def)
  have "normalizable True newInstallation" by code_simp
  then have "\<not> panics (normalize plain_normalizer [] newInstallation)"
    using normalize_panics [OF given, of plain_normalizer] by (simp add: n)
  then obtain store chi fps where r: "normalize plain_normalizer [] newInstallation = Inr (store, chi, fps)"
    by (auto simp: not_panics_iff)
  from normalized_installation_ready [OF r n(3)] r n(2) show ?thesis by auto
qed

end
