(* ===== verification/Manifests.thy ===== *)
theory Manifests
  imports Normalizer Volumes
begin

text \<open>
  The objects the operator asks Kubernetes for: \<open>pkg/model/creator.go\<close>. Services, ConfigMaps, disruption budgets
  and StatefulSets with their pods, containers, mounts and claims, for the hosts of an installation and for the
  ZooKeeper ensemble.

  An object is what the code fills in of it. The fingerprint that becomes its version label is a function of the
  object, an argument. A pointer into the containers of a StatefulSet is a position in their list; a pointer to
  nil of an object that is not created is \<open>None\<close>.
\<close>

section \<open>Objects\<close>

record OwnerReference =
  or_APIVersion :: string
  or_Kind :: string
  or_Name :: string
  or_UID :: string
  or_Controller :: bool
  or_BlockOwnerDeletion :: bool

record Service =
  sv_Meta :: ObjectMeta
  sv_OwnerReferences :: "OwnerReference list"
  sv_Spec :: ServiceSpec

record ConfigMap =
  cm_Meta :: ObjectMeta
  cm_OwnerReferences :: "OwnerReference list"
  cm_Data :: strmap

record PodDisruptionBudget =
  pdb_Meta :: ObjectMeta
  pdb_OwnerReferences :: "OwnerReference list"
  pdb_Selector :: strmap
  pdb_MaxUnavailable :: IntOrString

record PodTemplateSpec =
  pts_Meta :: ObjectMeta
  pts_Spec :: PodSpec

text \<open>The StatefulSet as it is sent to Kubernetes; \<open>StatefulSet\<close> is what the worker reads back.\<close>

record StatefulSetManifest =
  sf_Meta :: ObjectMeta
  sf_OwnerReferences :: "OwnerReference list"
  sf_Replicas :: int
  sf_ServiceName :: string
  sf_Selector :: strmap
  sf_Template :: PodTemplateSpec
  sf_VolumeClaimTemplates :: "PersistentVolumeClaim list"
  sf_PodManagementPolicy :: string
  sf_UpdateStrategy :: string
  sf_RevisionHistoryLimit :: int

text \<open>The creator of an installation: the installation with its type and its id, its labeler and its
  configuration, and what the operator's configuration adds to the generated files.\<close>

record creator =
  cr_APIVersion :: string
  cr_Kind :: string
  cr_UID :: string
  cr_chi :: Installation
  cr_labeler :: labeler
  cr_SHA1 :: "string \<Rightarrow> string"
  cr_Configuration :: Configuration
  cr_CommonConfigs :: strmap
  cr_UsersConfigs :: strmap
  cr_HostConfigs :: strmap
  cr_ServiceFingerprint :: "Service \<Rightarrow> string"
  cr_ConfigMapFingerprint :: "ConfigMap \<Rightarrow> string"
  cr_StatefulSetFingerprint :: "StatefulSetManifest \<Rightarrow> string"

definition cr_meta :: "creator \<Rightarrow> ObjectMeta" where "cr_meta c = in_Meta (cr_chi c)"
definition cr_templates :: "creator \<Rightarrow> ChiTemplates option" where "cr_templates c = sp_Templates (in_Spec (cr_chi c))"

definition newObjectMeta :: "string \<Rightarrow> string \<Rightarrow> strmap \<Rightarrow> ObjectMeta" where
  "newObjectMeta name namespace labels = \<lparr>om_Namespace = namespace, om_Name = name, om_Labels = labels, om_Annotations = []\<rparr>"

definition getOwnerReferences :: "creator \<Rightarrow> bool \<Rightarrow> bool \<Rightarrow> OwnerReference list" where
  "getOwnerReferences c controller blockOwnerDeletion = [\<lparr>or_APIVersion = cr_APIVersion c, or_Kind = cr_Kind c,
     or_Name = om_Name (cr_meta c), or_UID = cr_UID c, or_Controller = controller,
     or_BlockOwnerDeletion = blockOwnerDeletion\<rparr>]"

definition versioned_service :: "creator \<Rightarrow> Service \<Rightarrow> Service" where
  "versioned_service c svc = svc\<lparr>sv_Meta := MakeObjectVersionLabel (cr_ServiceFingerprint c svc) (sv_Meta svc)\<rparr>"

definition versioned_configmap :: "creator \<Rightarrow> ConfigMap \<Rightarrow> ConfigMap" where
  "versioned_configmap c cm = cm\<lparr>cm_Meta := MakeObjectVersionLabel (cr_ConfigMapFingerprint c cm) (cm_Meta cm)\<rparr>"

section \<open>Services\<close>

definition templateDefaultsServiceClusterIP :: string where "templateDefaultsServiceClusterIP = ''None''"
definition zkDefaultClientPortName :: string where "zkDefaultClientPortName = ''client''"
definition zkDefaultServerPortName :: string where "zkDefaultServerPortName = ''server''"
definition zkDefaultServerPortNumber :: port where "zkDefaultServerPortNumber = 2888"
definition zkDefaultLeaderElectionPortName :: string where "zkDefaultLeaderElectionPortName = ''leader-election''"
definition zkDefaultLeaderElectionPortNumber :: port where "zkDefaultLeaderElectionPortNumber = 3888"

text \<open>A port that leads to the port of the same number, and one that leads to the port of the same name.\<close>

definition tcp_port :: "string \<Rightarrow> port \<Rightarrow> ServicePort" where
  "tcp_port name port = \<lparr>svp_Name = name, svp_Protocol = ''TCP'', svp_Port = port, svp_TargetPort = FromInt (sint port)\<rparr>"

definition named_port :: "string \<Rightarrow> port \<Rightarrow> ServicePort" where
  "named_port name port = \<lparr>svp_Name = name, svp_Protocol = ''TCP'', svp_Port = port, svp_TargetPort = FromString name\<rparr>"

text \<open>The first port of a template that is out of range, which is the error.\<close>

definition verifyServiceTemplatePorts :: "ChiServiceTemplate \<Rightarrow> ServicePort option" where
  "verifyServiceTemplatePorts template =
     List.find (\<lambda>p. sint (svp_Port p) < 1 \<or> sint (svp_Port p) > 65535) (svs_Ports (st_Spec template))"

definition createServiceFromTemplate ::
    "creator \<Rightarrow> ChiServiceTemplate \<Rightarrow> string \<Rightarrow> string \<Rightarrow> strmap \<Rightarrow> strmap \<Rightarrow> OwnerReference list \<Rightarrow> Service option"
where
  "createServiceFromTemplate c template namespace name labels selector ownerReferences =
     (if verifyServiceTemplatePorts template \<noteq> None then None
      else let meta = st_ObjectMeta template; spec = st_Spec template in
        Some (versioned_service c
          \<lparr>sv_Meta = meta\<lparr>om_Name := name, om_Namespace := namespace, om_Labels := merge_labels (om_Labels meta) labels\<rparr>,
           sv_OwnerReferences = ownerReferences,
           sv_Spec = spec\<lparr>svs_Selector := merge_labels (svs_Selector spec) selector\<rparr>\<rparr>))"

definition CreateServiceCHI :: "creator \<Rightarrow> Service option" where
  "CreateServiceCHI c = (
     let chi = cr_chi c; serviceName = CreateCHIServiceName (cr_SHA1 c) (in_Meta chi) (in_Spec chi);
         ownerReferences = getOwnerReferences c True True
     in case GetCHIServiceTemplate (in_Spec chi) of
       Some template \<Rightarrow> createServiceFromTemplate c template (om_Namespace (in_Meta chi)) serviceName
         (getLabelsServiceCHI (cr_labeler c)) (getSelectorCHIScopeReady (lb_chi (cr_labeler c))) ownerReferences
     | None \<Rightarrow> Some (versioned_service c
         \<lparr>sv_Meta = newObjectMeta serviceName (om_Namespace (in_Meta chi)) (getLabelsServiceCHI (cr_labeler c)),
          sv_OwnerReferences = ownerReferences,
          sv_Spec = \<lparr>svs_Ports = [named_port chDefaultHTTPPortName chDefaultHTTPPortNumber,
              named_port chDefaultTCPPortName chDefaultTCPPortNumber],
            svs_Selector = getSelectorCHIScopeReady (lb_chi (cr_labeler c)), svs_ClusterIP = [],
            svs_Type = ''ClusterIP'', svs_PublishNotReadyAddresses = False\<rparr>\<rparr>))"

definition CreateServiceZooKeeperServer :: "creator \<Rightarrow> ObjectMeta \<Rightarrow> Service" where
  "CreateServiceZooKeeperServer c chi =
     \<lparr>sv_Meta = newObjectMeta (CreateStatefulSetServiceZooKeeperServerName (cr_SHA1 c) chi) (om_Namespace chi)
        (getLabelsServiceZooKeeperServer (cr_labeler c)),
      sv_OwnerReferences = [],
      sv_Spec = \<lparr>svs_Ports = [tcp_port zkDefaultServerPortName zkDefaultServerPortNumber,
          tcp_port zkDefaultLeaderElectionPortName zkDefaultLeaderElectionPortNumber],
        svs_Selector = getSelectorZooKeeperScope (lb_chi (cr_labeler c)),
        svs_ClusterIP = templateDefaultsServiceClusterIP, svs_Type = [], svs_PublishNotReadyAddresses = False\<rparr>\<rparr>"

definition CreateServiceZooKeeperClient :: "creator \<Rightarrow> ObjectMeta \<Rightarrow> ChiZookeeperConfig \<Rightarrow> Service" where
  "CreateServiceZooKeeperClient c chi zookeeperConfig =
     \<lparr>sv_Meta = newObjectMeta (CreateStatefulSetServiceZooKeeperClientName (cr_SHA1 c) chi) (om_Namespace chi)
        (getLabelsServiceZooKeeperClient (cr_labeler c)),
      sv_OwnerReferences = [],
      sv_Spec = \<lparr>svs_Ports = [tcp_port zkDefaultClientPortName (zk_Port zookeeperConfig)],
        svs_Selector = getSelectorZooKeeperScope (lb_chi (cr_labeler c)),
        svs_ClusterIP = [], svs_Type = [], svs_PublishNotReadyAddresses = False\<rparr>\<rparr>"

definition CreateServiceCluster :: "creator \<Rightarrow> ChiCluster \<Rightarrow> Service option" where
  "CreateServiceCluster c cluster = (case Cluster_GetServiceTemplate (cr_templates c) cluster of
     Some template \<Rightarrow> createServiceFromTemplate c template (ca_Namespace (cu_Address cluster))
       (CreateClusterServiceName (cr_SHA1 c) (cr_templates c) cluster) (getLabelsServiceCluster (cr_labeler c) cluster)
       (getSelectorClusterScopeReady cluster) (getOwnerReferences c True True)
   | None \<Rightarrow> None)"

definition CreateServiceShard :: "creator \<Rightarrow> ChiShard \<Rightarrow> Service option" where
  "CreateServiceShard c shard = (case Shard_GetServiceTemplate (cr_templates c) shard of
     Some template \<Rightarrow> createServiceFromTemplate c template (sa_Namespace (sh_Address shard))
       (CreateShardServiceName (cr_SHA1 c) (cr_templates c) shard) (getLabelsServiceShard (cr_labeler c) shard)
       (getSelectorShardScopeReady shard) (getOwnerReferences c True True)
   | None \<Rightarrow> None)"

definition CreateServiceHost :: "creator \<Rightarrow> host_fingerprints \<Rightarrow> ChiHost \<Rightarrow> Service option" where
  "CreateServiceHost c fp host = (
     let serviceName = CreateStatefulSetServiceName (cr_SHA1 c) (cr_templates c) host;
         namespace = ha_Namespace (h_Address host); labels = getLabelsServiceHost (cr_labeler c) fp host;
         ownerReferences = getOwnerReferences c True True
     in case Host_GetServiceTemplate (cr_templates c) host of
       Some template \<Rightarrow> createServiceFromTemplate c template namespace serviceName labels
         (GetSelectorHostScope host) ownerReferences
     | None \<Rightarrow> Some (versioned_service c
         \<lparr>sv_Meta = newObjectMeta serviceName namespace labels, sv_OwnerReferences = ownerReferences,
          sv_Spec = \<lparr>svs_Ports = [tcp_port chDefaultHTTPPortName (h_HTTPPort host),
              tcp_port chDefaultTCPPortName (h_TCPPort host),
              tcp_port chDefaultInterserverHTTPPortName (h_InterserverHTTPPort host)],
            svs_Selector = GetSelectorHostScope host, svs_ClusterIP = templateDefaultsServiceClusterIP,
            svs_Type = ''ClusterIP'', svs_PublishNotReadyAddresses = True\<rparr>\<rparr>))"

section \<open>ConfigMaps and disruption budgets\<close>

definition CreateConfigMapCHICommon :: "creator \<Rightarrow> string \<Rightarrow> ConfigMap" where
  "CreateConfigMapCHICommon c remoteServers = versioned_configmap c
     \<lparr>cm_Meta = newObjectMeta (CreateConfigMapCommonName (cr_SHA1 c) (cr_meta c)) (om_Namespace (cr_meta c))
        (getLabelsConfigMapCHICommon (cr_labeler c)),
      cm_OwnerReferences = getOwnerReferences c True True,
      cm_Data = CreateConfigFilesGroupCommon remoteServers (cr_Configuration c) (cr_CommonConfigs c)\<rparr>"

definition CreateConfigMapCHICommonUsers :: "creator \<Rightarrow> ConfigMap" where
  "CreateConfigMapCHICommonUsers c = versioned_configmap c
     \<lparr>cm_Meta = newObjectMeta (CreateConfigMapCommonUsersName (cr_SHA1 c) (cr_meta c)) (om_Namespace (cr_meta c))
        (getLabelsConfigMapCHICommonUsers (cr_labeler c)),
      cm_OwnerReferences = getOwnerReferences c True True,
      cm_Data = CreateConfigFilesGroupUsers (cr_Configuration c) (cr_UsersConfigs c)\<rparr>"

definition CreateConfigMapHost :: "creator \<Rightarrow> host_fingerprints \<Rightarrow> string \<Rightarrow> ChiHost \<Rightarrow> ConfigMap" where
  "CreateConfigMapHost c fp zookeeper host = versioned_configmap c
     \<lparr>cm_Meta = newObjectMeta (CreateConfigMapPersonalName (cr_SHA1 c) host) (ha_Namespace (h_Address host))
        (getLabelsConfigMapHost (cr_labeler c) fp host),
      cm_OwnerReferences = getOwnerReferences c True True,
      cm_Data = CreateConfigFilesGroupHost (CreatePodHostname (cr_SHA1 c) (cr_templates c)) zookeeper
        (cr_Configuration c) host (cr_HostConfigs c)\<rparr>"

definition NewPodDisruptionBudget :: "creator \<Rightarrow> PodDisruptionBudget" where
  "NewPodDisruptionBudget c =
     \<lparr>pdb_Meta = newObjectMeta (om_Name (cr_meta c)) (om_Namespace (cr_meta c)) (getLabelsCHIScope (cr_labeler c)),
      pdb_OwnerReferences = getOwnerReferences c True True,
      pdb_Selector = GetSelectorCHIScope (lb_chi (cr_labeler c)), pdb_MaxUnavailable = FromInt 1\<rparr>"

text \<open>Division of \<open>int32\<close> rounds towards zero.\<close>

definition half :: "32 word \<Rightarrow> int" where
  "half w = (if sint w < 0 then - (- sint w div 2) else sint w div 2)"

definition NewPodDisruptionBudgetZooKeeper :: "creator \<Rightarrow> ObjectMeta \<Rightarrow> ChiZookeeperConfig \<Rightarrow> PodDisruptionBudget" where
  "NewPodDisruptionBudgetZooKeeper c chi zookeeperConfig =
     \<lparr>pdb_Meta = newObjectMeta (CreatePodDisruptionBudgetZooKeeperName (cr_SHA1 c) chi) (om_Namespace chi)
        (getLabelsPodDisruptionBudgetZooKeeper (cr_labeler c)),
      pdb_OwnerReferences = [],
      pdb_Selector = getSelectorZooKeeperScope (lb_chi (cr_labeler c)),
      pdb_MaxUnavailable = FromInt (half (zk_Replica zookeeperConfig - 1))\<rparr>"

section \<open>Containers\<close>

definition ClickHouseLogContainerName :: string where "ClickHouseLogContainerName = ''clickhouse-log''"
definition defaultBusyBoxDockerImage :: string where "defaultBusyBoxDockerImage = ''busybox''"
definition dirPathCommonConfig :: string where
  "dirPathCommonConfig = ''/etc/clickhouse-server/'' @ CommonConfigDir @ ''/''"
definition dirPathUsersConfig :: string where "dirPathUsersConfig = ''/etc/clickhouse-server/'' @ UsersConfigDir @ ''/''"
definition dirPathHostConfig :: string where "dirPathHostConfig = ''/etc/clickhouse-server/'' @ HostConfigDir @ ''/''"
definition dirPathClickHouseData :: string where "dirPathClickHouseData = ''/var/lib/clickhouse''"
definition dirPathClickHouseLog :: string where "dirPathClickHouseLog = ''/var/log/clickhouse-server''"

fun container_index :: "string \<Rightarrow> Container list \<Rightarrow> nat option" where
  "container_index name [] = None"
| "container_index name (c # cs) = (if co_Name c = name then Some 0 else map_option Suc (container_index name cs))"

definition getContainerByName :: "Container list \<Rightarrow> string \<Rightarrow> nat option" where
  "getContainerByName containers name = container_index name containers"

text \<open>By name, else the first one.\<close>

definition getClickHouseContainer :: "Container list \<Rightarrow> nat option" where
  "getClickHouseContainer containers = (case container_index ClickHouseContainerName containers of
     Some i \<Rightarrow> Some i
   | None \<Rightarrow> if length containers > 0 then Some 0 else None)"

definition at_ClickHouse :: "(Container \<Rightarrow> Container) \<Rightarrow> Container list \<Rightarrow> Container list" where
  "at_ClickHouse f containers = (case getClickHouseContainer containers of
     None \<Rightarrow> containers | Some i \<Rightarrow> containers[i := f (containers ! i)])"

text \<open>The containers of the pods of a StatefulSet, changed.\<close>

definition map_spec :: "(PodSpec \<Rightarrow> PodSpec) \<Rightarrow> StatefulSetManifest \<Rightarrow> StatefulSetManifest" where
  "map_spec f statefulSet =
     statefulSet\<lparr>sf_Template := (sf_Template statefulSet)\<lparr>pts_Spec := f (pts_Spec (sf_Template statefulSet))\<rparr>\<rparr>"

definition map_containers :: "(Container list \<Rightarrow> Container list) \<Rightarrow> PodSpec \<Rightarrow> PodSpec" where
  "map_containers f spec = spec\<lparr>ps_Containers := f (ps_Containers spec)\<rparr>"

definition ensureClickHouseContainerSpecified :: "PodSpec \<Rightarrow> PodSpec" where
  "ensureClickHouseContainerSpecified spec =
     (if getClickHouseContainer (ps_Containers spec) \<noteq> None then spec
      else addContainer newDefaultClickHouseContainer spec)"

definition probed :: "Container \<Rightarrow> Container" where
  "probed container = container\<lparr>
     co_LivenessProbe := (case co_LivenessProbe container of None \<Rightarrow> Some newDefaultLivenessProbe | Some p \<Rightarrow> Some p),
     co_ReadinessProbe := (case co_ReadinessProbe container of None \<Rightarrow> Some newDefaultReadinessProbe | Some p \<Rightarrow> Some p)\<rparr>"

definition ensureProbesSpecified :: "PodSpec \<Rightarrow> PodSpec" where
  "ensureProbesSpecified = map_containers (at_ClickHouse probed)"

fun ensure_port :: "string \<Rightarrow> port \<Rightarrow> ContainerPort list \<Rightarrow> ContainerPort list" where
  "ensure_port name port [] = [newContainerPort name port]"
| "ensure_port name port (p # ps) = (if cp_Name p = name then p\<lparr>cp_HostPort := 0, cp_ContainerPort := port\<rparr> # ps
     else p # ensure_port name port ps)"

definition ensurePortByName :: "string \<Rightarrow> port \<Rightarrow> Container \<Rightarrow> Container" where
  "ensurePortByName name port container = container\<lparr>co_Ports := ensure_port name port (co_Ports container)\<rparr>"

definition named_ports :: "ChiHost \<Rightarrow> Container \<Rightarrow> Container" where
  "named_ports host container = (
     let container = ensurePortByName chDefaultTCPPortName (h_TCPPort host) container;
         container = ensurePortByName chDefaultHTTPPortName (h_HTTPPort host) container
     in ensurePortByName chDefaultInterserverHTTPPortName (h_InterserverHTTPPort host) container)"

definition ensureNamedPortsSpecified :: "ChiHost \<Rightarrow> PodSpec \<Rightarrow> PodSpec" where
  "ensureNamedPortsSpecified host = map_containers (at_ClickHouse (named_ports host))"

definition ensureStatefulSetTemplateIntegrity :: "ChiHost \<Rightarrow> PodSpec \<Rightarrow> PodSpec" where
  "ensureStatefulSetTemplateIntegrity host spec =
     ensureNamedPortsSpecified host (ensureProbesSpecified (ensureClickHouseContainerSpecified spec))"

section \<open>Making a pod personal\<close>

text \<open>The file mode \<open>0644\<close> is octal.\<close>

definition newVolumeForConfigMap :: "string \<Rightarrow> Volume" where
  "newVolumeForConfigMap name = \<lparr>vo_Name = name, vo_ConfigMap = Some (name, 420)\<rparr>"

definition newVolumeMount :: "string \<Rightarrow> string \<Rightarrow> VolumeMount" where
  "newVolumeMount name mountPath = \<lparr>vm_Name = name, vm_MountPath = mountPath\<rparr>"

definition setupConfigMapVolumes :: "creator \<Rightarrow> ChiHost \<Rightarrow> PodSpec \<Rightarrow> PodSpec" where
  "setupConfigMapVolumes c host spec = (
     let configMapPersonalName = CreateConfigMapPersonalName (cr_SHA1 c) host;
         configMapCommonName = CreateConfigMapCommonName (cr_SHA1 c) (cr_meta c);
         configMapCommonUsersName = CreateConfigMapCommonUsersName (cr_SHA1 c) (cr_meta c)
     in spec\<lparr>ps_Volumes := ps_Volumes spec @ map newVolumeForConfigMap
           [configMapCommonName, configMapCommonUsersName, configMapPersonalName],
         ps_Containers := map (\<lambda>container. container\<lparr>co_VolumeMounts := co_VolumeMounts container @
             [newVolumeMount configMapCommonName dirPathCommonConfig,
              newVolumeMount configMapCommonUsersName dirPathUsersConfig,
              newVolumeMount configMapPersonalName dirPathHostConfig]\<rparr>) (ps_Containers spec)\<rparr>)"

definition troubleshot :: "Container \<Rightarrow> Container" where
  "troubleshot container = (let sleep = '' || sleep 1800'' in container\<lparr>
     co_Command := (if length (co_Command container) > 0
       then butlast (co_Command container) @ [last (co_Command container) @ sleep]
       else [''/bin/sh'', ''-c'', ''/entrypoint.sh'' @ sleep]),
     co_LivenessProbe := None, co_ReadinessProbe := None\<rparr>)"

definition setupTroubleshoot :: "creator \<Rightarrow> PodSpec \<Rightarrow> PodSpec" where
  "setupTroubleshoot c spec =
     (if \<not> IsTroubleshoot (cr_chi c) then spec else map_containers (at_ClickHouse troubleshot) spec)"

definition newDefaultLogContainer :: Container where
  "newDefaultLogContainer = \<lparr>co_Name = ClickHouseLogContainerName, co_Image = defaultBusyBoxDockerImage,
     co_ImagePullPolicy = [], co_Command = [''/bin/sh'', ''-c'', ''--''], co_Args = [''while true; do sleep 30; done;''],
     co_Ports = [], co_VolumeMounts = [], co_LivenessProbe = None, co_ReadinessProbe = None\<rparr>"

definition setupLogContainer :: "ChiHost \<Rightarrow> PodSpec \<Rightarrow> PodSpec" where
  "setupLogContainer host spec =
     (if HasLogVolumeClaimTemplate (h_Templates host) then addContainer newDefaultLogContainer spec else spec)"

definition personalizeStatefulSetTemplate :: "creator \<Rightarrow> ChiHost \<Rightarrow> PodSpec \<Rightarrow> PodSpec" where
  "personalizeStatefulSetTemplate c host spec = (
     let spec = spec\<lparr>ps_HostAliases := [(''127.0.0.1'', [CreatePodHostname (cr_SHA1 c) (cr_templates c) host])]\<rparr>
     in setupLogContainer host (setupTroubleshoot c (setupConfigMapVolumes c host spec)))"

section \<open>The StatefulSet of a host\<close>

definition GetAnnotations :: "ObjectMeta \<Rightarrow> strmap" where
  "GetAnnotations chi = filter (\<lambda>(key, _). \<not> IsAnnotationToBeSkipped key) (om_Annotations chi)"

definition getAnnotationsHostScope :: "ObjectMeta \<Rightarrow> strmap" where
  "getAnnotationsHostScope chi = GetAnnotations chi"

definition statefulSetApplyPodTemplate ::
    "creator \<Rightarrow> host_fingerprints \<Rightarrow> ChiPodTemplate \<Rightarrow> ChiHost \<Rightarrow> StatefulSetManifest \<Rightarrow> StatefulSetManifest" where
  "statefulSetApplyPodTemplate c fp template host statefulSet = (
     let spec = pt_Spec template;
         spec = (if ps_TerminationGracePeriodSeconds spec = None
           then spec\<lparr>ps_TerminationGracePeriodSeconds := Some 60\<rparr> else spec)
     in statefulSet\<lparr>sf_Template := \<lparr>pts_Meta = \<lparr>om_Namespace = [], om_Name = pt_Name template,
          om_Labels = merge_labels (getLabelsHostScopeReady (cr_labeler c) fp host True) (om_Labels (pt_ObjectMeta template)),
          om_Annotations = merge_labels (getAnnotationsHostScope (cr_meta c)) (om_Annotations (pt_ObjectMeta template))\<rparr>,
        pts_Spec = spec\<rparr>\<rparr>)"

definition setupStatefulSetPodTemplate ::
    "creator \<Rightarrow> host_fingerprints \<Rightarrow> ChiHost \<Rightarrow> StatefulSetManifest \<Rightarrow> StatefulSetManifest" where
  "setupStatefulSetPodTemplate c fp host statefulSet =
     map_spec (\<lambda>spec. personalizeStatefulSetTemplate c host (ensureStatefulSetTemplateIntegrity host spec))
       (statefulSetApplyPodTemplate c fp (getPodTemplate (cr_SHA1 c) (cr_templates c) host) host statefulSet)"

text \<open>The claim made of a template; its mode, the file system, is left out.\<close>

definition claim_of :: "creator \<Rightarrow> host_fingerprints \<Rightarrow> ChiHost \<Rightarrow> ChiVolumeClaimTemplate \<Rightarrow> PersistentVolumeClaim" where
  "claim_of c fp host template = \<lparr>pvc_Meta = newObjectMeta (vt_Name template) [] (getLabelsHostScope (cr_labeler c) fp host False),
     pvc_Requests = vt_Requests template\<rparr>"

definition statefulSetAppendPVCTemplate ::
    "creator \<Rightarrow> host_fingerprints \<Rightarrow> ChiHost \<Rightarrow> ChiVolumeClaimTemplate
      \<Rightarrow> PersistentVolumeClaim list \<Rightarrow> PersistentVolumeClaim list" where
  "statefulSetAppendPVCTemplate c fp host template pvcs =
     (if list_ex (\<lambda>claim. om_Name (pvc_Meta claim) = vt_Name template) pvcs then pvcs
      else pvcs @ [claim_of c fp host template])"

definition setupStatefulSetApplyVolumeMounts ::
    "creator \<Rightarrow> host_fingerprints \<Rightarrow> ChiHost \<Rightarrow> Container list \<Rightarrow> PersistentVolumeClaim list \<Rightarrow> PersistentVolumeClaim list"
where
  "setupStatefulSetApplyVolumeMounts c fp host containers pvcs =
     fold (\<lambda>volumeMount pvcs. case GetVolumeClaimTemplate (cr_templates c) (vm_Name volumeMount) of
         None \<Rightarrow> pvcs
       | Some template \<Rightarrow> statefulSetAppendPVCTemplate c fp host template pvcs)
       (concat (map co_VolumeMounts containers)) pvcs"

definition setupStatefulSetApplyVolumeMount ::
    "creator \<Rightarrow> host_fingerprints \<Rightarrow> ChiHost \<Rightarrow> string \<Rightarrow> VolumeMount
      \<Rightarrow> Container list \<times> PersistentVolumeClaim list \<Rightarrow> Container list \<times> PersistentVolumeClaim list" where
  "setupStatefulSetApplyVolumeMount c fp host containerName volumeMount = (\<lambda>(containers, pvcs).
     if vm_MountPath volumeMount = [] then (containers, pvcs)
     else if vm_Name volumeMount = [] then (containers, pvcs)
     else (case GetVolumeClaimTemplate (cr_templates c) (vm_Name volumeMount) of
         None \<Rightarrow> (containers, pvcs)
       | Some template \<Rightarrow> (case getContainerByName containers containerName of
           None \<Rightarrow> (containers, pvcs)
         | Some i \<Rightarrow>
             let container = containers ! i in
             if list_ex (\<lambda>existing. vm_Name volumeMount = vm_Name existing
                 \<or> vm_MountPath volumeMount = vm_MountPath existing) (co_VolumeMounts container)
             then (containers, pvcs)
             else (containers[i := container\<lparr>co_VolumeMounts := co_VolumeMounts container @ [volumeMount]\<rparr>],
                   statefulSetAppendPVCTemplate c fp host template pvcs))))"

definition setupStatefulSetApplyVolumeClaimTemplates ::
    "creator \<Rightarrow> host_fingerprints \<Rightarrow> ChiHost
      \<Rightarrow> Container list \<times> PersistentVolumeClaim list \<Rightarrow> Container list \<times> PersistentVolumeClaim list" where
  "setupStatefulSetApplyVolumeClaimTemplates c fp host s =
     fold (\<lambda>containerName s.
         setupStatefulSetApplyVolumeMount c fp host containerName
           (newVolumeMount (GetLogVolumeClaimTemplate (h_Templates host)) dirPathClickHouseLog)
         (setupStatefulSetApplyVolumeMount c fp host containerName
           (newVolumeMount (GetDataVolumeClaimTemplate (h_Templates host)) dirPathClickHouseData) s))
       (map co_Name (fst s)) s"

definition setupStatefulSetVolumeClaimTemplates ::
    "creator \<Rightarrow> host_fingerprints \<Rightarrow> ChiHost \<Rightarrow> StatefulSetManifest \<Rightarrow> StatefulSetManifest" where
  "setupStatefulSetVolumeClaimTemplates c fp host statefulSet = (
     let containers = ps_Containers (pts_Spec (sf_Template statefulSet));
         pvcs = setupStatefulSetApplyVolumeMounts c fp host containers (sf_VolumeClaimTemplates statefulSet);
         (containers, pvcs) = setupStatefulSetApplyVolumeClaimTemplates c fp host (containers, pvcs)
     in map_spec (map_containers (\<lambda>_. containers)) (statefulSet\<lparr>sf_VolumeClaimTemplates := pvcs\<rparr>))"

definition setupStatefulSetVersion :: "creator \<Rightarrow> StatefulSetManifest \<Rightarrow> StatefulSetManifest" where
  "setupStatefulSetVersion c statefulSet = statefulSet\<lparr>sf_Meta := (sf_Meta statefulSet)\<lparr>
     om_Labels := merge_labels (om_Labels (sf_Meta statefulSet))
       [(LabelObjectVersion, cr_StatefulSetFingerprint c statefulSet)]\<rparr>\<rparr>"

definition GetStatefulSetVersion :: "StatefulSetManifest option \<Rightarrow> string option" where
  "GetStatefulSetVersion statefulSet = (case statefulSet of None \<Rightarrow> None
     | Some s \<Rightarrow> gget (om_Labels (sf_Meta s)) LabelObjectVersion)"

definition emptyPodTemplateSpec :: PodTemplateSpec where
  "emptyPodTemplateSpec = \<lparr>pts_Meta = newObjectMeta [] [] [], pts_Spec = newPodSpec\<rparr>"

definition CreateStatefulSet :: "creator \<Rightarrow> host_fingerprints \<Rightarrow> ChiHost \<Rightarrow> bool \<Rightarrow> StatefulSetManifest" where
  "CreateStatefulSet c fp host shutdown = (
     let statefulSet = \<lparr>
       sf_Meta = newObjectMeta (CreateStatefulSetName (cr_SHA1 c) (cr_templates c) host) (ha_Namespace (h_Address host))
         (getLabelsHostScope (cr_labeler c) fp host True),
       sf_OwnerReferences = getOwnerReferences c True True,
       sf_Replicas = GetStatefulSetReplicasNum shutdown (IsStopped (cr_chi c)),
       sf_ServiceName = CreateStatefulSetServiceName (cr_SHA1 c) (cr_templates c) host,
       sf_Selector = GetSelectorHostScope host,
       sf_Template = emptyPodTemplateSpec,
       sf_VolumeClaimTemplates = [],
       sf_PodManagementPolicy = ''OrderedReady'',
       sf_UpdateStrategy = ''RollingUpdate'',
       sf_RevisionHistoryLimit = 10\<rparr>
     in setupStatefulSetVersion c (setupStatefulSetVolumeClaimTemplates c fp host
          (setupStatefulSetPodTemplate c fp host statefulSet)))"

section \<open>The StatefulSet of the ZooKeeper ensemble\<close>

definition zooKeeperContainerName :: string where "zooKeeperContainerName = ''zookeeper''"
definition defaultPrometheusPortName :: string where "defaultPrometheusPortName = ''prometheus''"
definition defaultPrometheusPortNumber :: port where "defaultPrometheusPortNumber = 7000"

text \<open>The script the container runs, line by line.\<close>

definition zookeeper_script :: "ChiZookeeperConfig \<Rightarrow> string list" where
  "zookeeper_script zookeeperConfig = [
       ''HOST=$(hostname -s) &&'',
       ''DOMAIN=$(hostname -d) &&'',
       ''ZOO_DATA_DIR=/var/lib/zookeeper/data &&'',
       ''ZOO_DATA_LOG_DIR=/var/lib/zookeeper/datalog &&'',
       ''SERVERS='' @ Dec (zk_Replica zookeeperConfig) @ '' &&'',
       ''CLIENT_PORT='' @ Dec (zk_Port zookeeperConfig) @ '' &&'',
       ''SERVER_PORT='' @ Dec zkDefaultServerPortNumber @ '' &&'',
       ''ELECTION_PORT='' @ Dec zkDefaultLeaderElectionPortNumber @ '' &&'',
       ''{'',
       ''  echo clientPort=${CLIENT_PORT}'',
       ''  echo tickTime=2000'',
       ''  echo initLimit=300'',
       ''  echo syncLimit=10'',
       ''  echo maxClientCnxns=2000'',
       ''  echo maxSessionTimeout=60000000'',
       ''  echo dataDir=${ZOO_DATA_DIR}'',
       ''  echo dataLogDir=${ZOO_DATA_LOG_DIR}'',
       ''  echo autopurge.snapRetainCount=10'',
       ''  echo autopurge.purgeInterval=1'',
       ''  echo preAllocSize=131072'',
       ''  echo snapCount=3000000'',
       ''  echo leaderServes=yes'',
       ''  echo standaloneEnabled='' @ (if zk_Replica zookeeperConfig = 1 then ''true'' else ''false''),
       ''  echo 4lw.commands.whitelist=*'',
       ''} > /conf/zoo.cfg &&'',
       ''{'',
       ''  echo zookeeper.root.logger=CONSOLE'',
       ''  echo zookeeper.console.threshold=INFO'',
       ''  echo log4j.appender.CONSOLE=org.apache.log4j.ConsoleAppender'',
       ''  echo log4j.appender.CONSOLE.layout=org.apache.log4j.PatternLayout'',
       ''  echo '' @ [CHR 39] @ ''log4j.rootLogger=${zookeeper.root.logger}'' @ [CHR 39],
       ''  echo '' @ [CHR 39] @ ''log4j.appender.CONSOLE.Threshold=${zookeeper.console.threshold}'' @ [CHR 39],
       ''  echo '' @ [CHR 39] @ ''log4j.appender.CONSOLE.layout.ConversionPattern=%d{ISO8601} [myid:%X{myid}] - %-5p [%t:%C{1}@%L] - %m%n'' @ [CHR 39],
       ''} > /conf/log4j.properties &&'',
       ''echo JVMFLAGS='' @ [CHR 39] @ ''-Xms128M -Xmx4G -XX:+CMSParallelRemarkEnabled'' @ [CHR 39] @ '' > /conf/java.env &&'',
       ''if [[ $HOST =~ (.*)-([0-9]+)$ ]]; then'',
       ''    NAME=${BASH_REMATCH[1]}'',
       ''    ORD=${BASH_REMATCH[2]}'',
       ''else'',
       ''    echo '' @ [CHR 39] @ ''Fialed to parse name and ordinal of Pod'' @ [CHR 39],
       ''    exit 1'',
       ''fi &&'',
       ''mkdir -p ${ZOO_DATA_DIR} &&'',
       ''mkdir -p ${ZOO_DATA_LOG_DIR} &&'',
       ''export MY_ID=$((ORD+1)) &&'',
       ''echo $MY_ID > $ZOO_DATA_DIR/myid &&'',
       ''for (( i=1; i<=$SERVERS; i++ )); do'',
       ''  echo server.$i=$NAME-$((i-1)).$DOMAIN:$SERVER_PORT:$ELECTION_PORT >> /conf/zoo.cfg'',
       ''done &&'',
       ''chown -Rv zookeeper '' @ [CHR 34] @ ''$ZOO_DATA_DIR'' @ [CHR 34] @ '' '' @ [CHR 34] @ ''$ZOO_DATA_LOG_DIR'' @ [CHR 34] @ '' '' @ [CHR 34] @ ''$ZOO_LOG_DIR'' @ [CHR 34] @ '' '' @ [CHR 34] @ ''$ZOO_CONF_DIR'' @ [CHR 34] @ '' &&'',
       ''cat /conf/zoo.cfg &&'',
       ''zkServer.sh start-foreground'']"

definition ruok :: "ChiZookeeperConfig \<Rightarrow> string" where
  "ruok zookeeperConfig = ''OK=$(echo ruok | nc 127.0.0.1 '' @ Dec (zk_Port zookeeperConfig)
     @ ''); if [[ '' @ [CHR 34] @ ''$OK'' @ [CHR 34] @ '' == '' @ [CHR 34] @ ''imok'' @ [CHR 34] @ '' ]]; then exit 0; else exit 1; fi''"

definition zookeeper_probe :: "ChiZookeeperConfig \<Rightarrow> Probe" where
  "zookeeper_probe zookeeperConfig = \<lparr>pr_HTTPGet = None, pr_Exec = Some [''bash'', ''-c'', ruok zookeeperConfig],
     pr_InitialDelaySeconds = 10, pr_TimeoutSeconds = 5, pr_PeriodSeconds = 0, pr_FailureThreshold = 0\<rparr>"

definition newDefaultZooKeeperContainer :: "ChiZookeeperConfig \<Rightarrow> Container" where
  "newDefaultZooKeeperContainer zookeeperConfig = \<lparr>co_Name = zooKeeperContainerName, co_Image = zk_Image zookeeperConfig,
     co_ImagePullPolicy = zk_ImagePullPolicy zookeeperConfig,
     co_Command = [''bash'', ''-x'', ''-c'', concat (map (Iline 0) (zookeeper_script zookeeperConfig))], co_Args = [],
     co_Ports = [newContainerPort zkDefaultClientPortName (zk_Port zookeeperConfig),
       newContainerPort zkDefaultServerPortName zkDefaultServerPortNumber,
       newContainerPort zkDefaultLeaderElectionPortName zkDefaultLeaderElectionPortNumber,
       newContainerPort defaultPrometheusPortName defaultPrometheusPortNumber],
     co_VolumeMounts = [], co_LivenessProbe = Some (zookeeper_probe zookeeperConfig),
     co_ReadinessProbe = Some (zookeeper_probe zookeeperConfig)\<rparr>"

definition newDefaultZooKeeperPodTemplate :: "ChiZookeeperConfig \<Rightarrow> string \<Rightarrow> ChiPodTemplate" where
  "newDefaultZooKeeperPodTemplate zooKeeperConfig name = \<lparr>pt_Name = name, pt_GenerateName = [], pt_ZoneKey = [],
     pt_ZoneValues = [], pt_PodDistribution = [],
     pt_ObjectMeta = \<lparr>om_Namespace = [], om_Name = [], om_Labels = [], om_Annotations = []\<rparr>,
     pt_Spec = addContainer (newDefaultZooKeeperContainer zooKeeperConfig) (newPodSpec\<lparr>
       ps_Affinity := Some \<lparr>af_NodeAffinity = None, af_PodAffinity = None, af_PodAntiAffinity = Some
         \<lparr>pa_Required = [], pa_Preferred = [\<lparr>wpt_Weight = 1, wpt_PodAffinityTerm = \<lparr>
           pat_LabelSelector = Some \<lparr>lse_MatchLabels = [], lse_MatchExpressions =
             [\<lparr>lsr_Key = ''clickhouse.radondb.com/zookeeper'', lsr_Operator = ''In'', lsr_Values = [name]\<rparr>]\<rparr>,
           pat_Namespaces = [], pat_TopologyKey = ''kubernetes.io/hostname''\<rparr>\<rparr>]\<rparr>\<rparr>,
       ps_RunAsUser := Some 1000, ps_FSGroup := Some 1000\<rparr>)\<rparr>"

definition getPodTemplateZooKeeper :: "creator \<Rightarrow> ObjectMeta \<Rightarrow> ChiZookeeperConfig \<Rightarrow> ChiPodTemplate" where
  "getPodTemplateZooKeeper c chi zooKeeperConfig =
     newDefaultZooKeeperPodTemplate zooKeeperConfig (CreateStatefulSetZooKeeperName (cr_SHA1 c) chi)"

definition getAnnotationsZooKeeperScope :: strmap where
  "getAnnotationsZooKeeperScope = [(''backup.velero.io/backup-volumes'', ''data'')]"

definition statefulSetApplyPodTemplateZooKeeper ::
    "creator \<Rightarrow> ChiPodTemplate \<Rightarrow> StatefulSetManifest \<Rightarrow> StatefulSetManifest" where
  "statefulSetApplyPodTemplateZooKeeper c template statefulSet = statefulSet\<lparr>sf_Template :=
     \<lparr>pts_Meta = \<lparr>om_Namespace = [], om_Name = pt_Name template,
        om_Labels = merge_labels (getLabelsZooKeeperScope (cr_labeler c)) (om_Labels (pt_ObjectMeta template)),
        om_Annotations = merge_labels getAnnotationsZooKeeperScope (om_Annotations (pt_ObjectMeta template))\<rparr>,
      pts_Spec = pt_Spec template\<rparr>\<rparr>"

definition setupStatefulSetZooKeeperPodTemplate ::
    "creator \<Rightarrow> ObjectMeta \<Rightarrow> ChiZookeeperConfig \<Rightarrow> StatefulSetManifest \<Rightarrow> StatefulSetManifest" where
  "setupStatefulSetZooKeeperPodTemplate c chi zk statefulSet =
     statefulSetApplyPodTemplateZooKeeper c (getPodTemplateZooKeeper c chi zk) statefulSet"

definition setupStatefulSetZooKeeperVolumeClaimTemplates :: "StatefulSetManifest \<Rightarrow> StatefulSetManifest" where
  "setupStatefulSetZooKeeperVolumeClaimTemplates statefulSet =
     map_spec (map_containers (map (\<lambda>container. container\<lparr>co_VolumeMounts :=
         [newVolumeMount ''data'' ''/var/lib/zookeeper'']\<rparr>)))
       (statefulSet\<lparr>sf_VolumeClaimTemplates :=
         [\<lparr>pvc_Meta = newObjectMeta ''data'' [] [], pvc_Requests = [(''storage'', 10 * 10 ^ 9)]\<rparr>]\<rparr>)"

definition CreateStatefulSetZooKeeper :: "creator \<Rightarrow> ObjectMeta \<Rightarrow> ChiZookeeperConfig \<Rightarrow> StatefulSetManifest" where
  "CreateStatefulSetZooKeeper c chi zk = (
     let statefulSet = \<lparr>
       sf_Meta = newObjectMeta (CreateStatefulSetZooKeeperName (cr_SHA1 c) chi) (om_Namespace chi)
         (getLabelsZooKeeperScope (cr_labeler c)),
       sf_OwnerReferences = [],
       sf_Replicas = sint (zk_Replica zk),
       sf_ServiceName = CreateStatefulSetServiceZooKeeperServerName (cr_SHA1 c) chi,
       sf_Selector = getSelectorZooKeeperScope (lb_chi (cr_labeler c)),
       sf_Template = emptyPodTemplateSpec,
       sf_VolumeClaimTemplates = [],
       sf_PodManagementPolicy = ''Parallel'',
       sf_UpdateStrategy = ''RollingUpdate'',
       sf_RevisionHistoryLimit = 10\<rparr>
     in setupStatefulSetZooKeeperVolumeClaimTemplates (setupStatefulSetZooKeeperPodTemplate c chi zk statefulSet))"


section \<open>Volumes and mounts\<close>

definition mounted :: "Container list \<Rightarrow> string list" where
  "mounted containers = map vm_Name (concat (map co_VolumeMounts containers))"

definition claim_names :: "PersistentVolumeClaim list \<Rightarrow> string list" where
  "claim_names pvcs = map (\<lambda>claim. om_Name (pvc_Meta claim)) pvcs"

definition is_claim :: "creator \<Rightarrow> string \<Rightarrow> bool" where
  "is_claim c name \<longleftrightarrow> GetVolumeClaimTemplate (cr_templates c) name \<noteq> None"

text \<open>The index of the claim templates is the one the normalizer makes.\<close>

definition claims_indexed :: "ChiTemplates option \<Rightarrow> bool" where
  "claims_indexed templates = (case templates of None \<Rightarrow> True
     | Some t \<Rightarrow> tps_VolumeClaimTemplatesIndex t = index_templates (map vt_Name (tps_VolumeClaimTemplates t)) None)"

lemma claims_indexed_name:
  assumes "claims_indexed templates" and "GetVolumeClaimTemplate templates name = Some template"
  shows "vt_Name template = name"
proof (cases templates)
  case (Some t)
  let ?names = "map vt_Name (tps_VolumeClaimTemplates t)"
  let ?ks = "{k. k < length ?names \<and> ?names ! k = name}"
  from assms Some have get: "indexed (tps_VolumeClaimTemplates t) (index_templates ?names None) name = Some template"
    by (simp add: claims_indexed_def GetVolumeClaimTemplate_def)
  then have "name \<in> set ?names" by (auto simp: indexed_def index_templates_get simp del: set_map split: if_splits)
  then have "?ks \<noteq> {}" by (auto simp: in_set_conv_nth simp del: set_map)
  moreover have "finite ?ks" by simp
  ultimately have max: "Max ?ks \<in> ?ks" by (rule Max_in [rotated])
  from get \<open>name \<in> set ?names\<close> have "template = tps_VolumeClaimTemplates t ! Max ?ks"
    by (auto simp: indexed_def index_templates_get simp del: set_map split: if_splits)
  with max obtain k where "k \<in> ?ks" and "template = tps_VolumeClaimTemplates t ! k" by blast
  then show ?thesis by auto
next
  case None
  with assms(2) show ?thesis by (simp add: GetVolumeClaimTemplate_def)
qed

text \<open>The claims of a StatefulSet are those of its mounts, each once.\<close>

definition claims_of_mounts :: "creator \<Rightarrow> Container list \<Rightarrow> PersistentVolumeClaim list \<Rightarrow> bool" where
  "claims_of_mounts c containers pvcs \<longleftrightarrow>
     distinct (claim_names pvcs) \<and> set (claim_names pvcs) = set (filter (is_claim c) (mounted containers))"

lemma append_claim:
  "claim_names (statefulSetAppendPVCTemplate c fp host template pvcs) =
     (if vt_Name template \<in> set (claim_names pvcs) then claim_names pvcs else claim_names pvcs @ [vt_Name template])"
proof -
  have "list_ex (\<lambda>claim. om_Name (pvc_Meta claim) = vt_Name template) pvcs \<longleftrightarrow> vt_Name template \<in> set (claim_names pvcs)"
    by (induction pvcs) (auto simp: claim_names_def)
  then show ?thesis
    by (simp add: statefulSetAppendPVCTemplate_def) (simp add: claim_names_def claim_of_def newObjectMeta_def)
qed

lemma applied_mounts:
  assumes "claims_indexed (cr_templates c)"
  shows "claims_of_mounts c containers (setupStatefulSetApplyVolumeMounts c fp host containers [])"
proof -
  let ?step = "\<lambda>volumeMount pvcs. case GetVolumeClaimTemplate (cr_templates c) (vm_Name volumeMount) of
         None \<Rightarrow> pvcs
       | Some template \<Rightarrow> statefulSetAppendPVCTemplate c fp host template pvcs"
  have "distinct (claim_names (fold ?step ms pvcs))
      \<and> set (claim_names (fold ?step ms pvcs)) = set (claim_names pvcs) \<union> set (filter (is_claim c) (map vm_Name ms))"
    if "distinct (claim_names pvcs)" for ms pvcs
    using that
  proof (induction ms arbitrary: pvcs)
    case (Cons m ms)
    have "distinct (claim_names (?step m pvcs)) \<and> set (claim_names (?step m pvcs))
        = set (claim_names pvcs) \<union> set (filter (is_claim c) [vm_Name m])"
    proof (cases "GetVolumeClaimTemplate (cr_templates c) (vm_Name m)")
      case (Some t)
      with claims_indexed_name [OF assms Some] Cons.prems show ?thesis by (auto simp: append_claim is_claim_def)
    qed (simp add: is_claim_def Cons.prems)
    with Cons.IH [of "?step m pvcs"] show ?case by auto
  qed simp
  from this [of "[]" "concat (map co_VolumeMounts containers)"] show ?thesis
    by (simp add: claims_of_mounts_def setupStatefulSetApplyVolumeMounts_def mounted_def claim_names_def)
qed

lemma container_index_Some: "container_index name cs = Some i \<Longrightarrow> i < length cs \<and> co_Name (cs ! i) = name"
  by (induction cs arbitrary: i) (auto split: if_splits)

lemma container_index_names: "map co_Name cs = map co_Name ds \<Longrightarrow> container_index name cs = container_index name ds"
proof (induction cs arbitrary: ds)
  case (Cons c cs)
  then show ?case by (cases ds) auto
qed simp

definition with_mount :: "VolumeMount \<Rightarrow> Container \<Rightarrow> Container" where
  "with_mount m container = container\<lparr>co_VolumeMounts := co_VolumeMounts container @ [m]\<rparr>"

lemma with_mount_simps [simp]: "co_Name (with_mount m k) = co_Name k"
  "co_VolumeMounts (with_mount m k) = co_VolumeMounts k @ [m]"
  by (simp_all add: with_mount_def)

lemma mounted_update:
  assumes "i < length cs"
  shows "set (mounted (cs[i := with_mount m (cs ! i)])) = insert (vm_Name m) (set (mounted cs))"
proof -
  obtain xs x ys where "cs = xs @ x # ys" and "i = length xs"
    using id_take_nth_drop [OF assms] assms by (metis length_take min.absorb4)
  then show ?thesis by (auto simp: mounted_def)
qed

text \<open>What mounting a claim template can do: nothing, or one mount more at the first container of the name, of a
  known claim that then is a claim of the StatefulSet.\<close>

lemma apply_mount_cases:
  obtains (unchanged) "setupStatefulSetApplyVolumeMount c fp host name m (cs, pvcs) = (cs, pvcs)"
  | (mounts) i template where "container_index name cs = Some i"
      "GetVolumeClaimTemplate (cr_templates c) (vm_Name m) = Some template"
      "setupStatefulSetApplyVolumeMount c fp host name m (cs, pvcs)
        = (cs[i := with_mount m (cs ! i)], statefulSetAppendPVCTemplate c fp host template pvcs)"
proof -
  let ?r = "setupStatefulSetApplyVolumeMount c fp host name m (cs, pvcs)"
  have "?r = (cs, pvcs) \<or> (\<exists>i template. container_index name cs = Some i
      \<and> GetVolumeClaimTemplate (cr_templates c) (vm_Name m) = Some template
      \<and> ?r = (cs[i := with_mount m (cs ! i)], statefulSetAppendPVCTemplate c fp host template pvcs))"
    by (simp add: setupStatefulSetApplyVolumeMount_def getContainerByName_def with_mount_def Let_def
        split: option.split)
  then show ?thesis using that by blast
qed

lemma applied_mount:
  assumes "claims_indexed (cr_templates c)" and "claims_of_mounts c cs pvcs"
    and "setupStatefulSetApplyVolumeMount c fp host name m (cs, pvcs) = (cs', pvcs')"
  shows "claims_of_mounts c cs' pvcs' \<and> map co_Name cs' = map co_Name cs
    \<and> set (mounted cs) \<subseteq> set (mounted cs') \<and> set (mounted cs') \<subseteq> set (mounted cs) \<union> Collect (is_claim c)"
proof (cases rule: apply_mount_cases [of c fp host name m cs pvcs])
  case unchanged
  with assms show ?thesis by simp
next
  case (mounts i template)
  from container_index_Some [OF mounts(1)] have i: "i < length cs" by simp
  have n: "vt_Name template = vm_Name m" by (rule claims_indexed_name [OF assms(1) mounts(2)])
  have k: "is_claim c (vm_Name m)" by (simp add: is_claim_def mounts(2))
  from mounts(3) assms(3) have e: "cs' = cs[i := with_mount m (cs ! i)]"
    "pvcs' = statefulSetAppendPVCTemplate c fp host template pvcs" by simp_all
  have "map co_Name cs' = map co_Name cs"
    unfolding e map_update with_mount_simps using i list_update_id [of "map co_Name cs" i] by simp
  with assms(2) k show ?thesis
    unfolding e claims_of_mounts_def append_claim n set_filter mounted_update [OF i] by auto
qed

definition data_mount :: "ChiHost \<Rightarrow> VolumeMount" where
  "data_mount host = newVolumeMount (GetDataVolumeClaimTemplate (h_Templates host)) dirPathClickHouseData"
definition log_mount :: "ChiHost \<Rightarrow> VolumeMount" where
  "log_mount host = newVolumeMount (GetLogVolumeClaimTemplate (h_Templates host)) dirPathClickHouseLog"

definition apply_both :: "creator \<Rightarrow> host_fingerprints \<Rightarrow> ChiHost \<Rightarrow> string
    \<Rightarrow> Container list \<times> PersistentVolumeClaim list \<Rightarrow> Container list \<times> PersistentVolumeClaim list" where
  "apply_both c fp host name s = setupStatefulSetApplyVolumeMount c fp host name (log_mount host)
     (setupStatefulSetApplyVolumeMount c fp host name (data_mount host) s)"

lemma apply_templates_fold:
  "setupStatefulSetApplyVolumeClaimTemplates c fp host s = fold (apply_both c fp host) (map co_Name (fst s)) s"
  unfolding setupStatefulSetApplyVolumeClaimTemplates_def apply_both_def data_mount_def log_mount_def ..

definition kept_mounts :: "creator \<Rightarrow> Container list \<Rightarrow> Container list \<Rightarrow> bool" where
  "kept_mounts c cs cs' \<longleftrightarrow> map co_Name cs' = map co_Name cs \<and> set (mounted cs') \<subseteq> set (mounted cs) \<union> Collect (is_claim c)"

lemma applied_both:
  assumes "claims_indexed (cr_templates c)" and "claims_of_mounts c cs pvcs"
    and "apply_both c fp host name (cs, pvcs) = (cs', pvcs')"
  shows "claims_of_mounts c cs' pvcs' \<and> kept_mounts c cs cs'"
proof -
  obtain cs1 pvcs1 where 1: "setupStatefulSetApplyVolumeMount c fp host name (data_mount host) (cs, pvcs) = (cs1, pvcs1)"
    by fastforce
  from assms(3) have 2: "setupStatefulSetApplyVolumeMount c fp host name (log_mount host) (cs1, pvcs1) = (cs', pvcs')"
    by (simp add: apply_both_def 1)
  from applied_mount [OF assms(1,2) 1] applied_mount [OF assms(1) _ 2] show ?thesis
    unfolding kept_mounts_def by auto
qed

lemma applied_templates:
  assumes "claims_indexed (cr_templates c)" and "claims_of_mounts c cs pvcs"
    and "fold (apply_both c fp host) names (cs, pvcs) = (cs', pvcs')"
  shows "claims_of_mounts c cs' pvcs' \<and> kept_mounts c cs cs'"
  using assms(2,3)
proof (induction names arbitrary: cs pvcs)
  case Nil
  then show ?case by (simp add: kept_mounts_def)
next
  case (Cons name names)
  obtain cs1 pvcs1 where 1: "apply_both c fp host name (cs, pvcs) = (cs1, pvcs1)" by fastforce
  from applied_both [OF assms(1) Cons.prems(1) 1] have
    "claims_of_mounts c cs1 pvcs1" and k: "kept_mounts c cs cs1" by simp_all
  from Cons.IH [OF this(1)] Cons.prems(2) have "claims_of_mounts c cs' pvcs' \<and> kept_mounts c cs1 cs'" by (simp add: 1)
  with k show ?case unfolding kept_mounts_def by auto
qed

section \<open>The pod of a host\<close>

definition sf_Containers :: "StatefulSetManifest \<Rightarrow> Container list" where
  "sf_Containers s = ps_Containers (pts_Spec (sf_Template s))"

definition host_spec :: "creator \<Rightarrow> ChiHost \<Rightarrow> PodSpec" where
  "host_spec c host = pt_Spec (getPodTemplate (cr_SHA1 c) (cr_templates c) host)"

text \<open>The pod before its claims are mounted.\<close>

definition graced :: "PodSpec \<Rightarrow> PodSpec" where
  "graced spec = (if ps_TerminationGracePeriodSeconds spec = None
     then spec\<lparr>ps_TerminationGracePeriodSeconds := Some 60\<rparr> else spec)"

lemma graced_simps [simp]: "ps_Containers (graced spec) = ps_Containers spec" "ps_Volumes (graced spec) = ps_Volumes spec"
  by (simp_all add: graced_def)

definition host_pod :: "creator \<Rightarrow> ChiHost \<Rightarrow> PodSpec" where
  "host_pod c host =
     personalizeStatefulSetTemplate c host (ensureStatefulSetTemplateIntegrity host (graced (host_spec c host)))"

lemma CreateStatefulSet_claims:
  "setupStatefulSetApplyVolumeClaimTemplates c fp host
     (ps_Containers (host_pod c host), setupStatefulSetApplyVolumeMounts c fp host (ps_Containers (host_pod c host)) [])
   = (sf_Containers (CreateStatefulSet c fp host shutdown), sf_VolumeClaimTemplates (CreateStatefulSet c fp host shutdown))"
  by (simp add: CreateStatefulSet_def Let_def setupStatefulSetVersion_def sf_Containers_def host_pod_def host_spec_def graced_def
      setupStatefulSetVolumeClaimTemplates_def setupStatefulSetPodTemplate_def statefulSetApplyPodTemplate_def
      map_spec_def map_containers_def case_prod_unfold)

lemma CreateStatefulSet_volumes:
  "ps_Volumes (pts_Spec (sf_Template (CreateStatefulSet c fp host shutdown))) = ps_Volumes (host_pod c host)"
  by (simp add: CreateStatefulSet_def Let_def setupStatefulSetVersion_def host_pod_def host_spec_def graced_def
      setupStatefulSetVolumeClaimTemplates_def setupStatefulSetPodTemplate_def statefulSetApplyPodTemplate_def
      map_spec_def map_containers_def case_prod_unfold)

definition configmap_names :: "creator \<Rightarrow> ChiHost \<Rightarrow> string list" where
  "configmap_names c host = [CreateConfigMapCommonName (cr_SHA1 c) (cr_meta c),
     CreateConfigMapCommonUsersName (cr_SHA1 c) (cr_meta c), CreateConfigMapPersonalName (cr_SHA1 c) host]"

lemma at_ClickHouse_map:
  assumes "\<And>k. g (f k) = g k"
  shows "map g (at_ClickHouse f cs) = map g cs"
proof (cases "getClickHouseContainer cs")
  case (Some i)
  have "map g (cs[i := f (cs ! i)]) = map g cs"
    using list_update_id [of "map g cs" i]
    by (cases "i < length cs") (simp_all add: map_update assms list_update_beyond)
  then show ?thesis by (simp add: at_ClickHouse_def Some)
qed (simp add: at_ClickHouse_def)

lemma mounted_cong: "map co_VolumeMounts cs = map co_VolumeMounts ds \<Longrightarrow> mounted cs = mounted ds"
  by (simp add: mounted_def)

lemma integrity_changes:
  "co_VolumeMounts (probed k) = co_VolumeMounts k" "co_VolumeMounts (named_ports host k) = co_VolumeMounts k"
  "co_VolumeMounts (troubleshot k) = co_VolumeMounts k"
  "co_Name (probed k) = co_Name k" "co_Name (named_ports host k) = co_Name k" "co_Name (troubleshot k) = co_Name k"
  by (simp_all add: probed_def named_ports_def ensurePortByName_def troubleshot_def Let_def)

lemma ensured_mounts:
  "mounted (ps_Containers (ensureStatefulSetTemplateIntegrity host spec)) = mounted (ps_Containers spec)"
  "ps_Volumes (ensureStatefulSetTemplateIntegrity host spec) = ps_Volumes spec"
proof -
  have "map co_VolumeMounts (ps_Containers (ensureStatefulSetTemplateIntegrity host spec))
      = map co_VolumeMounts (ps_Containers (ensureClickHouseContainerSpecified spec))"
    by (simp add: ensureStatefulSetTemplateIntegrity_def ensureNamedPortsSpecified_def ensureProbesSpecified_def
        map_containers_def at_ClickHouse_map integrity_changes)
  then have "mounted (ps_Containers (ensureStatefulSetTemplateIntegrity host spec))
      = mounted (ps_Containers (ensureClickHouseContainerSpecified spec))" by (rule mounted_cong)
  also have "\<dots> = mounted (ps_Containers spec)"
    by (simp add: ensureClickHouseContainerSpecified_def addContainer_def mounted_def newDefaultClickHouseContainer_def)
  finally show "mounted (ps_Containers (ensureStatefulSetTemplateIntegrity host spec)) = mounted (ps_Containers spec)" .
  show "ps_Volumes (ensureStatefulSetTemplateIntegrity host spec) = ps_Volumes spec"
    by (simp add: ensureStatefulSetTemplateIntegrity_def ensureNamedPortsSpecified_def ensureProbesSpecified_def
        map_containers_def ensureClickHouseContainerSpecified_def addContainer_def)
qed

lemma setup_mounts:
  "set (mounted (ps_Containers (setupConfigMapVolumes c host spec)))
     \<subseteq> set (mounted (ps_Containers spec)) \<union> set (configmap_names c host)"
  "map vo_Name (ps_Volumes (setupConfigMapVolumes c host spec)) = map vo_Name (ps_Volumes spec) @ configmap_names c host"
  by (auto simp: setupConfigMapVolumes_def Let_def mounted_def configmap_names_def newVolumeMount_def
      newVolumeForConfigMap_def)

lemma troubleshoot_mounts:
  "mounted (ps_Containers (setupTroubleshoot c spec)) = mounted (ps_Containers spec)"
  "ps_Volumes (setupTroubleshoot c spec) = ps_Volumes spec"
proof -
  have "map co_VolumeMounts (ps_Containers (setupTroubleshoot c spec)) = map co_VolumeMounts (ps_Containers spec)"
    by (simp add: setupTroubleshoot_def map_containers_def at_ClickHouse_map integrity_changes)
  then show "mounted (ps_Containers (setupTroubleshoot c spec)) = mounted (ps_Containers spec)" by (rule mounted_cong)
  show "ps_Volumes (setupTroubleshoot c spec) = ps_Volumes spec"
    by (simp add: setupTroubleshoot_def map_containers_def)
qed

lemma log_mounts:
  "mounted (ps_Containers (setupLogContainer host spec)) = mounted (ps_Containers spec)"
  "ps_Volumes (setupLogContainer host spec) = ps_Volumes spec"
  by (simp_all add: setupLogContainer_def addContainer_def mounted_def newDefaultLogContainer_def)

lemma host_pod_mounts:
  "set (mounted (ps_Containers (host_pod c host)))
     \<subseteq> set (mounted (ps_Containers (host_spec c host))) \<union> set (configmap_names c host)"
  using setup_mounts(1) [of c host "(ensureStatefulSetTemplateIntegrity host (graced (host_spec c host)))
      \<lparr>ps_HostAliases := [(''127.0.0.1'', [CreatePodHostname (cr_SHA1 c) (cr_templates c) host])]\<rparr>"]
  by (simp add: host_pod_def personalizeStatefulSetTemplate_def Let_def log_mounts troubleshoot_mounts ensured_mounts)

lemma host_pod_volumes:
  "map vo_Name (ps_Volumes (host_pod c host)) = map vo_Name (ps_Volumes (host_spec c host)) @ configmap_names c host"
  by (simp add: host_pod_def personalizeStatefulSetTemplate_def Let_def log_mounts troubleshoot_mounts ensured_mounts
      setup_mounts)


lemma configmap_names_created:
  "configmap_names c host = map (\<lambda>m. om_Name (cm_Meta m))
     [CreateConfigMapCHICommon c remoteServers, CreateConfigMapCHICommonUsers c, CreateConfigMapHost c fp zookeeper host]"
  by (simp add: configmap_names_def CreateConfigMapCHICommon_def CreateConfigMapCHICommonUsers_def
      CreateConfigMapHost_def versioned_configmap_def MakeObjectVersionLabel_def newObjectMeta_def)

text \<open>
  C6: what a StatefulSet mounts is there. Its claims have different names and are the claim templates its
  containers mount, no more; the three ConfigMaps that are created for the host are volumes of its pod; and every mount of every container
  leads to a volume of the pod or to a claim, when those of the pod template lead to a volume of the template
  or to a known claim template.
\<close>

theorem statefulset_mounts_backed:
  assumes "claims_indexed (cr_templates c)"
  shows "let s = CreateStatefulSet c fp host shutdown; used = mounted (sf_Containers s);
       claimed = claim_names (sf_VolumeClaimTemplates s);
       volumes = map vo_Name (ps_Volumes (pts_Spec (sf_Template s)))
     in distinct claimed \<and> set claimed = set (filter (is_claim c) used)
       \<and> set (map (\<lambda>m. om_Name (cm_Meta m)) [CreateConfigMapCHICommon c remoteServers,
            CreateConfigMapCHICommonUsers c, CreateConfigMapHost c fp zookeeper host]) \<subseteq> set volumes
       \<and> (list_all (\<lambda>n. n \<in> set (map vo_Name (ps_Volumes (host_spec c host))) \<or> is_claim c n)
            (mounted (ps_Containers (host_spec c host)))
          \<longrightarrow> set used \<subseteq> set volumes \<union> set claimed)"
proof -
  let ?s = "CreateStatefulSet c fp host shutdown"
  from applied_templates [OF assms applied_mounts [OF assms]
      trans [OF apply_templates_fold [symmetric, unfolded fst_conv] CreateStatefulSet_claims, unfolded fst_conv]]
  have c: "claims_of_mounts c (sf_Containers ?s) (sf_VolumeClaimTemplates ?s)"
    and k: "set (mounted (sf_Containers ?s)) \<subseteq> set (mounted (ps_Containers (host_pod c host))) \<union> Collect (is_claim c)"
    by (simp_all add: kept_mounts_def)
  have v: "map vo_Name (ps_Volumes (pts_Spec (sf_Template ?s)))
      = map vo_Name (ps_Volumes (host_spec c host)) @ configmap_names c host"
    by (simp only: CreateStatefulSet_volumes host_pod_volumes)
  have "set (mounted (sf_Containers ?s)) \<subseteq> set (map vo_Name (ps_Volumes (host_spec c host)) @ configmap_names c host)
      \<union> set (claim_names (sf_VolumeClaimTemplates ?s))"
    if "list_all (\<lambda>n. n \<in> set (map vo_Name (ps_Volumes (host_spec c host))) \<or> is_claim c n)
      (mounted (ps_Containers (host_spec c host)))"
  proof
    fix n
    assume n: "n \<in> set (mounted (sf_Containers ?s))"
    with k host_pod_mounts [of c host] that
    have "n \<in> set (map vo_Name (ps_Volumes (host_spec c host)) @ configmap_names c host) \<or> is_claim c n"
      unfolding list_all_iff by auto
    with n c show "n \<in> set (map vo_Name (ps_Volumes (host_spec c host)) @ configmap_names c host)
      \<union> set (claim_names (sf_VolumeClaimTemplates ?s))" unfolding claims_of_mounts_def by auto
  qed
  with c show ?thesis
    unfolding Let_def v claims_of_mounts_def configmap_names_created [of c host remoteServers fp zookeeper, symmetric]
    by auto
qed

text \<open>A container that mounts the claim, or something at its path.\<close>

definition occupied :: "VolumeMount \<Rightarrow> Container \<Rightarrow> bool" where
  "occupied m container =
     list_ex (\<lambda>e. vm_Name m = vm_Name e \<or> vm_MountPath m = vm_MountPath e) (co_VolumeMounts container)"

definition occupied_in :: "VolumeMount \<Rightarrow> string \<Rightarrow> Container list \<Rightarrow> bool" where
  "occupied_in m name cs = (case container_index name cs of None \<Rightarrow> True | Some i \<Rightarrow> occupied m (cs ! i))"

lemma occupied_kept:
  assumes "occupied_in m name cs"
    and "setupStatefulSetApplyVolumeMount c fp host name' m' (cs, pvcs) = (cs', pvcs')"
  shows "occupied_in m name cs'"
proof (cases rule: apply_mount_cases [of c fp host name' m' cs pvcs])
  case unchanged
  with assms show ?thesis by simp
next
  case (mounts j template)
  from container_index_Some [OF mounts(1)] have j: "j < length cs" by simp
  from mounts(3) assms(2) have e: "cs' = cs[j := with_mount m' (cs ! j)]" by simp
  have "map co_Name cs' = map co_Name cs"
    unfolding e map_update with_mount_simps using j list_update_id [of "map co_Name cs" j] by simp
  from container_index_names [OF this] assms(1) show ?thesis
    unfolding occupied_in_def using j
    by (auto simp: e nth_list_update occupied_def split: option.split)
qed

lemma occupied_applied:
  assumes "vm_Name m \<noteq> []" and "vm_MountPath m \<noteq> []" and "is_claim c (vm_Name m)"
    and "setupStatefulSetApplyVolumeMount c fp host name m (cs, pvcs) = (cs', pvcs')"
  shows "occupied_in m name cs'"
proof (cases "container_index name cs")
  case None
  with assms(4) have "cs' = cs"
    by (auto simp: setupStatefulSetApplyVolumeMount_def getContainerByName_def split: option.splits if_splits)
  with None show ?thesis by (simp add: occupied_in_def)
next
  case (Some i)
  from container_index_Some [OF this] have i: "i < length cs" by simp
  have names: "map co_Name (cs[i := with_mount m (cs ! i)]) = map co_Name cs"
    unfolding map_update with_mount_simps using i list_update_id [of "map co_Name cs" i] by simp
  from assms(3) obtain template where t: "GetVolumeClaimTemplate (cr_templates c) (vm_Name m) = Some template"
    by (auto simp: is_claim_def)
  show ?thesis
  proof (cases "occupied m (cs ! i)")
    case True
    with assms t Some have "cs' = cs"
      by (auto simp: setupStatefulSetApplyVolumeMount_def getContainerByName_def Let_def occupied_def)
    with True Some show ?thesis by (simp add: occupied_in_def)
  next
    case False
    with assms t Some have "cs' = cs[i := with_mount m (cs ! i)]"
      by (simp add: setupStatefulSetApplyVolumeMount_def getContainerByName_def Let_def occupied_def with_mount_def)
    then show ?thesis
      using i container_index_names [OF names, of name] Some by (simp add: occupied_in_def occupied_def)
  qed
qed


text \<open>Mounting changes nothing but the mounts.\<close>

definition bare :: "Container \<Rightarrow> Container" where "bare container = container\<lparr>co_VolumeMounts := []\<rparr>"

lemma bare_names: "map bare cs = map bare ds \<Longrightarrow> map co_Name cs = map co_Name ds"
  by (drule arg_cong [where f = "map co_Name"]) (simp add: bare_def comp_def)

lemma apply_mount_bare:
  assumes "setupStatefulSetApplyVolumeMount c fp host name m (cs, pvcs) = (cs', pvcs')"
  shows "map bare cs' = map bare cs"
proof (cases rule: apply_mount_cases [of c fp host name m cs pvcs])
  case (mounts j template)
  from container_index_Some [OF mounts(1)] have "j < length cs" by simp
  moreover have "bare (with_mount m k) = bare k" for k by (simp add: bare_def with_mount_def)
  ultimately show ?thesis
    using mounts(3) assms list_update_id [of "map bare cs" j] by (auto simp: map_update)
qed (use assms in simp)

lemma apply_both_bare:
  assumes "apply_both c fp host name (cs, pvcs) = (cs', pvcs')"
  shows "map bare cs' = map bare cs"
proof -
  obtain cs1 pvcs1 where 1: "setupStatefulSetApplyVolumeMount c fp host name (data_mount host) (cs, pvcs) = (cs1, pvcs1)"
    by fastforce
  with assms have 2: "setupStatefulSetApplyVolumeMount c fp host name (log_mount host) (cs1, pvcs1) = (cs', pvcs')"
    by (simp add: apply_both_def)
  show ?thesis using apply_mount_bare [OF 1] apply_mount_bare [OF 2] by simp
qed

lemma apply_fold_bare:
  "fold (apply_both c fp host) names (cs, pvcs) = (cs', pvcs') \<Longrightarrow> map bare cs' = map bare cs"
proof (induction names arbitrary: cs pvcs)
  case (Cons name names)
  obtain cs1 pvcs1 where 1: "apply_both c fp host name (cs, pvcs) = (cs1, pvcs1)" by fastforce
  with Cons.IH [of cs1 pvcs1] Cons.prems apply_both_bare [OF 1] show ?case by simp
qed simp

lemmas CreateStatefulSet_mounts =
  trans [OF apply_templates_fold [symmetric, unfolded fst_conv] CreateStatefulSet_claims, unfolded fst_conv]

lemmas CreateStatefulSet_bare = apply_fold_bare [OF CreateStatefulSet_mounts]

lemma occupied_both:
  assumes "apply_both c fp host name' (cs, pvcs) = (cs', pvcs')"
  shows "occupied_in m name cs \<Longrightarrow> occupied_in m name cs'"
    and "is_claim c (vm_Name (data_mount host)) \<Longrightarrow> vm_Name (data_mount host) \<noteq> []
      \<Longrightarrow> occupied_in (data_mount host) name' cs'"
proof -
  obtain cs1 pvcs1 where 1: "setupStatefulSetApplyVolumeMount c fp host name' (data_mount host) (cs, pvcs) = (cs1, pvcs1)"
    by fastforce
  with assms have 2: "setupStatefulSetApplyVolumeMount c fp host name' (log_mount host) (cs1, pvcs1) = (cs', pvcs')"
    by (simp add: apply_both_def)
  show "occupied_in m name cs \<Longrightarrow> occupied_in m name cs'" using occupied_kept [OF _ 1] occupied_kept [OF _ 2] by blast
  have "vm_MountPath (data_mount host) \<noteq> []" by (simp add: data_mount_def newVolumeMount_def dirPathClickHouseData_def)
  then show "is_claim c (vm_Name (data_mount host)) \<Longrightarrow> vm_Name (data_mount host) \<noteq> []
      \<Longrightarrow> occupied_in (data_mount host) name' cs'"
    using occupied_applied [OF _ _ _ 1] occupied_kept [OF _ 2] by blast
qed

lemma occupied_fold:
  assumes "is_claim c (vm_Name (data_mount host))" and "vm_Name (data_mount host) \<noteq> []"
  shows "fold (apply_both c fp host) names (cs, pvcs) = (cs', pvcs')
    \<Longrightarrow> name \<in> set names \<or> occupied_in (data_mount host) name cs \<Longrightarrow> occupied_in (data_mount host) name cs'"
proof (induction names arbitrary: cs pvcs)
  case (Cons name' names)
  obtain cs1 pvcs1 where 1: "apply_both c fp host name' (cs, pvcs) = (cs1, pvcs1)" by fastforce
  with Cons.prems(1) have r: "fold (apply_both c fp host) names (cs1, pvcs1) = (cs', pvcs')" by simp
  have "name \<in> set names \<or> occupied_in (data_mount host) name cs1"
    using Cons.prems(2) occupied_both [OF 1] assms by auto
  from Cons.IH [OF r this] show ?case .
qed simp

text \<open>
  C9: with a data volume claim template, no container of the host is left to keep its data on the disk of the
  node by accident: every container mounts the claim, or the pod template mounts something else of its own at
  the data path. Of containers with the same name, which Kubernetes refuses, only the first one is served.
\<close>

theorem data_volume_mounted:
  assumes "is_claim c (GetDataVolumeClaimTemplate (h_Templates host))"
    and "GetDataVolumeClaimTemplate (h_Templates host) \<noteq> []"
    and "container_index name (sf_Containers (CreateStatefulSet c fp host shutdown)) = Some i"
  shows "list_ex (\<lambda>m. vm_Name m = GetDataVolumeClaimTemplate (h_Templates host) \<or> vm_MountPath m = dirPathClickHouseData)
    (co_VolumeMounts (sf_Containers (CreateStatefulSet c fp host shutdown) ! i))"
proof -
  let ?cs = "sf_Containers (CreateStatefulSet c fp host shutdown)"
  have "name \<in> set (map co_Name ?cs)" using container_index_Some [OF assms(3)] by auto
  then have "name \<in> set (map co_Name (ps_Containers (host_pod c host)))" by (simp only: bare_names [OF CreateStatefulSet_bare])
  from occupied_fold [OF _ _ CreateStatefulSet_mounts disjI1 [OF this]] assms(1,2)
  have "occupied_in (data_mount host) name ?cs" by (simp add: data_mount_def newVolumeMount_def)
  with assms(3) have "occupied (data_mount host) (?cs ! i)" by (simp add: occupied_in_def)
  then show ?thesis by (simp add: occupied_def data_mount_def newVolumeMount_def eq_commute)
qed


section \<open>The ClickHouse container\<close>

definition ch_is :: "(Container \<Rightarrow> bool) \<Rightarrow> Container list \<Rightarrow> bool" where
  "ch_is P cs = (case getClickHouseContainer cs of None \<Rightarrow> False | Some i \<Rightarrow> P (cs ! i))"

lemma getClickHouseContainer_less: "getClickHouseContainer cs = Some i \<Longrightarrow> i < length cs"
  using container_index_Some [of ClickHouseContainerName cs]
  by (auto simp: getClickHouseContainer_def split: option.splits if_splits)

lemma getClickHouseContainer_names:
  "map co_Name cs = map co_Name ds \<Longrightarrow> getClickHouseContainer cs = getClickHouseContainer ds"
  using container_index_names [of cs ds ClickHouseContainerName] map_eq_imp_length_eq [of co_Name cs co_Name ds]
  by (simp add: getClickHouseContainer_def)

lemma ch_is_at:
  assumes "\<And>k. co_Name (f k) = co_Name k"
  shows "ch_is P (at_ClickHouse f cs) \<longleftrightarrow> ch_is (\<lambda>k. P (f k)) cs"
proof -
  have "getClickHouseContainer (at_ClickHouse f cs) = getClickHouseContainer cs"
    by (rule getClickHouseContainer_names [OF at_ClickHouse_map]) (rule assms)
  then show ?thesis
    by (auto simp: ch_is_def at_ClickHouse_def dest: getClickHouseContainer_less split: option.split)
qed

lemma ch_is_map:
  assumes "\<And>k. co_Name (g k) = co_Name k"
  shows "ch_is P (map g cs) \<longleftrightarrow> ch_is (\<lambda>k. P (g k)) cs"
proof -
  have "getClickHouseContainer (map g cs) = getClickHouseContainer cs"
    by (rule getClickHouseContainer_names) (simp add: comp_def assms)
  then show ?thesis by (auto simp: ch_is_def dest: getClickHouseContainer_less split: option.split)
qed

lemma container_index_snoc: "co_Name k \<noteq> name \<Longrightarrow> container_index name (cs @ [k]) = container_index name cs"
  by (induction cs) auto

lemma ch_is_snoc:
  assumes "cs \<noteq> []" and "co_Name k \<noteq> ClickHouseContainerName"
  shows "ch_is P (cs @ [k]) \<longleftrightarrow> ch_is P cs"
proof -
  have "getClickHouseContainer (cs @ [k]) = getClickHouseContainer cs"
    using assms by (simp add: getClickHouseContainer_def container_index_snoc)
  then show ?thesis by (auto simp: ch_is_def nth_append dest: getClickHouseContainer_less split: option.split)
qed

lemma ch_is_bare:
  assumes "map bare cs = map bare ds" and "\<And>k. P (bare k) \<longleftrightarrow> P k"
  shows "ch_is P cs \<longleftrightarrow> ch_is P ds"
proof -
  have l: "length cs = length ds" using assms(1) by (rule map_eq_imp_length_eq)
  have "P (cs ! i) \<longleftrightarrow> P (ds ! i)" if "i < length ds" for i
    using arg_cong [OF assms(1), of "\<lambda>xs. P (xs ! i)"] that l by (simp add: assms(2))
  with getClickHouseContainer_names [OF bare_names [OF assms(1)]] show ?thesis
    by (auto simp: ch_is_def dest: getClickHouseContainer_less split: option.split)
qed

lemma ch_is_nonempty: "ch_is P cs \<Longrightarrow> cs \<noteq> []"
  by (auto simp: ch_is_def getClickHouseContainer_def)

lemma ensured_container: "ch_is (\<lambda>_. True) (ps_Containers (ensureClickHouseContainerSpecified spec))"
  by (auto simp: ensureClickHouseContainerSpecified_def ch_is_def addContainer_def getClickHouseContainer_def
      newDefaultClickHouseContainer_def split: option.splits)

definition port_of :: "Container \<Rightarrow> string \<Rightarrow> ContainerPort option" where
  "port_of container name = List.find (\<lambda>p. cp_Name p = name) (co_Ports container)"

text \<open>The first port of the name, which Kubernetes resolves the name to.\<close>

lemma find_ensure_port:
  "List.find (\<lambda>p. cp_Name p = n) (ensure_port name port ps) =
     (if n = name then Some (case List.find (\<lambda>p. cp_Name p = n) ps of
         None \<Rightarrow> newContainerPort name port | Some p \<Rightarrow> p\<lparr>cp_HostPort := 0, cp_ContainerPort := port\<rparr>)
      else List.find (\<lambda>p. cp_Name p = n) ps)"
  by (induction ps) (auto simp: newContainerPort_def)

definition port_given :: "string \<Rightarrow> port \<Rightarrow> Container \<Rightarrow> bool" where
  "port_given name port container = (case port_of container name of None \<Rightarrow> False
     | Some p \<Rightarrow> cp_ContainerPort p = port \<and> cp_HostPort p = 0)"

definition serves :: "ChiHost \<Rightarrow> Container \<Rightarrow> bool" where
  "serves host container \<longleftrightarrow> port_given chDefaultTCPPortName (h_TCPPort host) container
     \<and> port_given chDefaultHTTPPortName (h_HTTPPort host) container
     \<and> port_given chDefaultInterserverHTTPPortName (h_InterserverHTTPPort host) container"

lemma named_ports_serve: "serves host (named_ports host k)"
  by (auto simp: serves_def port_given_def port_of_def named_ports_def Let_def ensurePortByName_def find_ensure_port
      newContainerPort_def chDefaultTCPPortName_def chDefaultHTTPPortName_def chDefaultInterserverHTTPPortName_def
      split: option.split)

lemma serves_ports: "co_Ports k = co_Ports k' \<Longrightarrow> serves host k = serves host k'"
  by (simp add: serves_def port_given_def port_of_def)

definition probed_unless :: "bool \<Rightarrow> Container \<Rightarrow> bool" where
  "probed_unless troubleshoot container =
     (if troubleshoot then co_LivenessProbe container = None \<and> co_ReadinessProbe container = None
      else co_LivenessProbe container \<noteq> None \<and> co_ReadinessProbe container \<noteq> None)"

lemma mounts_only [simp]:
  "serves host (k\<lparr>co_VolumeMounts := ms\<rparr>) = serves host k"
  "probed_unless b (k\<lparr>co_VolumeMounts := ms\<rparr>) = probed_unless b k"
  by (simp_all add: serves_def port_given_def port_of_def probed_unless_def)

lemma ensured_ready:
  "ch_is (\<lambda>k. serves host k \<and> probed_unless False k) (ps_Containers (ensureStatefulSetTemplateIntegrity host spec))"
proof -
  have "probed_unless False (named_ports host (probed k))" for k
    by (simp add: probed_unless_def probed_def named_ports_def ensurePortByName_def Let_def split: option.split)
  then show ?thesis
    using ensured_container [of spec]
    by (simp add: ensureStatefulSetTemplateIntegrity_def ensureNamedPortsSpecified_def ensureProbesSpecified_def
        map_containers_def ch_is_at integrity_changes named_ports_serve)
qed

lemma configured_ready:
  "ch_is (\<lambda>k. serves host k \<and> probed_unless b k) (ps_Containers spec)
    \<Longrightarrow> ch_is (\<lambda>k. serves host k \<and> probed_unless b k) (ps_Containers (setupConfigMapVolumes c host spec))"
  by (simp add: setupConfigMapVolumes_def Let_def ch_is_map)

lemma troubleshot_ready:
  assumes "ch_is (\<lambda>k. serves host k \<and> probed_unless False k) (ps_Containers spec)"
  shows "ch_is (\<lambda>k. serves host k \<and> probed_unless (IsTroubleshoot (cr_chi c)) k)
    (ps_Containers (setupTroubleshoot c spec))"
proof (cases "IsTroubleshoot (cr_chi c)")
  case True
  have "serves host (troubleshot k) = serves host k" for k by (rule serves_ports) (simp add: troubleshot_def Let_def)
  moreover have "probed_unless True (troubleshot k)" for k by (simp add: probed_unless_def troubleshot_def Let_def)
  moreover have "ch_is (serves host) (ps_Containers spec)"
    using assms by (auto simp: ch_is_def split: option.splits)
  ultimately show ?thesis
    by (simp add: setupTroubleshoot_def True map_containers_def ch_is_at integrity_changes)
qed (use assms in \<open>simp add: setupTroubleshoot_def\<close>)

lemma logged_ready: "ch_is P (ps_Containers spec) \<Longrightarrow> ch_is P (ps_Containers (setupLogContainer host spec))"
  using ch_is_snoc [OF ch_is_nonempty, of P "ps_Containers spec" newDefaultLogContainer P]
  by (simp add: setupLogContainer_def addContainer_def newDefaultLogContainer_def ClickHouseLogContainerName_def
      ClickHouseContainerName_def)

lemma CreateStatefulSet_ready:
  "ch_is (\<lambda>k. serves host k \<and> probed_unless (IsTroubleshoot (cr_chi c)) k)
    (sf_Containers (CreateStatefulSet c fp host shutdown))"
proof -
  let ?P = "\<lambda>k. serves host k \<and> probed_unless (IsTroubleshoot (cr_chi c)) k"
  have "ch_is ?P (ps_Containers (host_pod c host))"
    unfolding host_pod_def personalizeStatefulSetTemplate_def Let_def
    by (intro logged_ready troubleshot_ready configured_ready) (simp add: ensured_ready)
  moreover have "?P (bare k) \<longleftrightarrow> ?P k" for k
    by (simp add: bare_def)
  ultimately show ?thesis
    using ch_is_bare [OF CreateStatefulSet_bare, of ?P c fp host shutdown] by blast
qed

text \<open>
  C8: whatever the pod template, the pod of a host has a ClickHouse container, whose ports of the names
  \<open>tcp\<close>, \<open>http\<close> and \<open>interserver\<close> are the ports the host was given, on no port of the node; it is asked for its
  liveness and readiness, except while troubleshooting, when it is asked for neither.
\<close>

theorem clickhouse_container_ready:
  "\<exists>i. getClickHouseContainer (sf_Containers (CreateStatefulSet c fp host shutdown)) = Some i
    \<and> (let container = sf_Containers (CreateStatefulSet c fp host shutdown) ! i
       in serves host container \<and> probed_unless (IsTroubleshoot (cr_chi c)) container)"
  using CreateStatefulSet_ready [of host c fp shutdown] by (auto simp: ch_is_def split: option.splits)

section \<open>Selectors and pods\<close>

lemma CreateStatefulSet_labels:
  "sf_Selector (CreateStatefulSet c fp host shutdown) = GetSelectorHostScope host"
  "om_Labels (pts_Meta (sf_Template (CreateStatefulSet c fp host shutdown)))
     = merge_labels (getLabelsHostScopeReady (cr_labeler c) fp host True)
         (om_Labels (pt_ObjectMeta (getPodTemplate (cr_SHA1 c) (cr_templates c) host)))"
  "sf_ServiceName (CreateStatefulSet c fp host shutdown) = CreateStatefulSetServiceName (cr_SHA1 c) (cr_templates c) host"
  by (simp_all add: CreateStatefulSet_def Let_def setupStatefulSetVersion_def
      setupStatefulSetVolumeClaimTemplates_def setupStatefulSetPodTemplate_def statefulSetApplyPodTemplate_def
      map_spec_def case_prod_unfold)

lemma appendReadyLabels_get: "gget (appendReadyLabels m) = (gget m)(LabelReadyName \<mapsto> ''yes'')"
  unfolding appendReadyLabels_def by (subst merge_labels_get) (auto simp: gmap_ok_def)

lemma ready_not_scope: "LabelReadyName \<notin> set scope_keys"
  by (simp add: scope_keys_def label_names)

definition pod_labels :: "creator \<Rightarrow> host_fingerprints \<Rightarrow> ChiHost \<Rightarrow> bool \<Rightarrow> strmap" where
  "pod_labels c fp host shutdown = om_Labels (pts_Meta (sf_Template (CreateStatefulSet c fp host shutdown)))"

definition template_labels :: "creator \<Rightarrow> ChiHost \<Rightarrow> strmap" where
  "template_labels c host = om_Labels (pt_ObjectMeta (getPodTemplate (cr_SHA1 c) (cr_templates c) host))"

lemma pod_labels_get:
  assumes "gmap_ok (template_labels c host)"
  shows "k \<in> set scope_keys \<Longrightarrow> gget (pod_labels c fp host shutdown) k
      = (gget (GetSelectorHostScope host) ++ gget (propagated (cr_labeler c)) ++ gget (template_labels c host)) k"
    and "gget (pod_labels c fp host shutdown) LabelReadyName
      = (case gget (template_labels c host) LabelReadyName of None \<Rightarrow> Some ''yes'' | Some v \<Rightarrow> Some v)"
proof -
  have "gget (pod_labels c fp host shutdown)
      = (gget (getLabelsHostScope (cr_labeler c) fp host True))(LabelReadyName \<mapsto> ''yes'') ++ gget (template_labels c host)"
    unfolding pod_labels_def CreateStatefulSet_labels template_labels_def [symmetric] getLabelsHostScopeReady_def
      appendReadyLabels_get [symmetric] by (rule merge_labels_get [OF assms])
  then show "k \<in> set scope_keys \<Longrightarrow> gget (pod_labels c fp host shutdown) k
      = (gget (GetSelectorHostScope host) ++ gget (propagated (cr_labeler c)) ++ gget (template_labels c host)) k"
    and "gget (pod_labels c fp host shutdown) LabelReadyName
      = (case gget (template_labels c host) LabelReadyName of None \<Rightarrow> Some ''yes'' | Some v \<Rightarrow> Some v)"
    using ready_not_scope own_host_labels [of k "cr_labeler c" fp host True]
    by (auto simp: map_add_def split: option.split)
qed

text \<open>The value a pod ends up with under a key of the operator: the template's, else the propagated one, else
  the operator's own.\<close>

definition agrees :: "creator \<Rightarrow> ChiHost \<Rightarrow> string \<times> string \<Rightarrow> bool" where
  "agrees c host = (\<lambda>(k, v). case gget (template_labels c host) k of Some w \<Rightarrow> w = v
     | None \<Rightarrow> gget (propagated (cr_labeler c)) k \<in> {None, Some v})"

lemma pod_selected_iff:
  assumes "gmap_ok (template_labels c host)" and "set sel \<subseteq> set (GetSelectorHostScope host)"
  shows "selects sel (pod_labels c fp host shutdown) \<longleftrightarrow> list_all (agrees c host) sel"
proof -
  have "gget (pod_labels c fp host shutdown) k = Some v \<longleftrightarrow> agrees c host (k, v)" if "(k, v) \<in> set sel" for k v
  proof -
    from that assms(2) GetSelectorHostScope_keys [of host]
    have k: "k \<in> set scope_keys" "gget (GetSelectorHostScope host) k = Some v" by auto
    show ?thesis
      unfolding pod_labels_get(1) [OF assms(1) k(1)] by (auto simp: agrees_def map_add_def k(2) split: option.split)
  qed
  then show ?thesis by (auto simp: selects_def list_all_iff)
qed

lemma set_update: "set (gput k v m) \<subseteq> insert (k, v) (set m)"
  by (induction m) auto

lemma selects_ready:
  assumes "selects sel labels" and "gget labels LabelReadyName = Some ''yes''"
  shows "selects (appendReadyLabels sel) labels"
proof -
  have "appendReadyLabels sel = gput LabelReadyName ''yes'' sel"
    by (simp add: appendReadyLabels_def merge_labels_def MergeStringMapsOverwrite_def Let_def)
  then have "set (appendReadyLabels sel) \<subseteq> insert (LabelReadyName, ''yes'') (set sel)" by (simp only: set_update)
  with assms show ?thesis by (auto simp: selects_def list_all_iff)
qed

text \<open>Labels that leave those of the operator alone.\<close>

definition leaves_alone :: "strmap \<Rightarrow> bool" where
  "leaves_alone labels = list_all (\<lambda>k. gget labels k = None) (LabelReadyName # scope_keys)"

text \<open>
  C7: a StatefulSet selects its own pods exactly when, under each key of its selector, the pod template or else
  the labels of the installation that are propagated leave the value of the operator in place: a label of the
  user can make Kubernetes refuse the StatefulSet. When they leave the labels of the operator alone, the pods
  are selected by the StatefulSet, by the disruption budget and, from the start, by the services of the
  installation, of the cluster and of the shard.
\<close>

theorem pods_of_statefulset:
  assumes "gmap_ok (template_labels c host)"
  shows "(selects (sf_Selector (CreateStatefulSet c fp host shutdown)) (pod_labels c fp host shutdown)
      \<longleftrightarrow> list_all (agrees c host) (GetSelectorHostScope host))
    \<and> (leaves_alone (template_labels c host) \<and> leaves_alone (propagated (cr_labeler c))
        \<and> addressed_in (lb_chi (cr_labeler c)) cluster shard host
      \<longrightarrow> list_all (\<lambda>sel. selects sel (pod_labels c fp host shutdown))
        [sf_Selector (CreateStatefulSet c fp host shutdown), pdb_Selector (NewPodDisruptionBudget c),
         getSelectorCHIScopeReady (lb_chi (cr_labeler c)), getSelectorClusterScopeReady cluster,
         getSelectorShardScopeReady shard])"
proof -
  let ?labels = "pod_labels c fp host shutdown"
  have all: "list_all (\<lambda>sel. selects sel ?labels)
      [sf_Selector (CreateStatefulSet c fp host shutdown), pdb_Selector (NewPodDisruptionBudget c),
       getSelectorCHIScopeReady (lb_chi (cr_labeler c)), getSelectorClusterScopeReady cluster,
       getSelectorShardScopeReady shard]"
    if t: "leaves_alone (template_labels c host)" and p: "leaves_alone (propagated (cr_labeler c))"
      and a: "addressed_in (lb_chi (cr_labeler c)) cluster shard host"
  proof -
    have "agrees c host kv" if "kv \<in> set (GetSelectorHostScope host)" for kv
      using t p GetSelectorHostScope_keys [of host] that
      by (force simp: leaves_alone_def list_all_iff agrees_def split: option.split)
    then have sub: "selects sel ?labels" if "set sel \<subseteq> set (GetSelectorHostScope host)" for sel
      using pod_selected_iff [OF assms that] that by (auto simp: list_all_iff)
    have ready: "gget ?labels LabelReadyName = Some ''yes''"
      using pod_labels_get(2) [OF assms] t by (simp add: leaves_alone_def)
    show ?thesis
      using sub [OF subset_refl] sub [OF narrower_selectors(1) [OF a]] sub [OF narrower_selectors(2) [OF a]]
        sub [OF narrower_selectors(3) [OF a]]
      by (simp add: CreateStatefulSet_labels NewPodDisruptionBudget_def getSelectorCHIScopeReady_def
          getSelectorClusterScopeReady_def getSelectorShardScopeReady_def selects_ready ready)
  qed
  show ?thesis
    using all pod_selected_iff [OF assms subset_refl, of fp shutdown] by (simp only: CreateStatefulSet_labels) blast
qed

text \<open>
  C10: the service of a host is missing only when its template has a port out of the range of TCP. Otherwise it
  goes by the name the StatefulSet gives to its pods' domain, its selector holds every label of the selector of
  the StatefulSet whatever the template says, and without a template each of its ports leads to the port of the
  same name of the ClickHouse container.
\<close>

theorem service_of_host:
  "case CreateServiceHost c fp host of
     None \<Rightarrow> \<exists>template. Host_GetServiceTemplate (cr_templates c) host = Some template
       \<and> list_ex (\<lambda>p. \<not> (1 \<le> sint (svp_Port p) \<and> sint (svp_Port p) \<le> 65535)) (svs_Ports (st_Spec template))
   | Some svc \<Rightarrow> om_Name (sv_Meta svc) = sf_ServiceName (CreateStatefulSet c fp host shutdown)
       \<and> selects (sf_Selector (CreateStatefulSet c fp host shutdown)) (svs_Selector (sv_Spec svc))
       \<and> (Host_GetServiceTemplate (cr_templates c) host = None
          \<longrightarrow> list_all (\<lambda>p. svp_TargetPort p = FromInt (sint (svp_Port p))
              \<and> ch_is (port_given (svp_Name p) (svp_Port p)) (sf_Containers (CreateStatefulSet c fp host shutdown)))
            (svs_Ports (sv_Spec svc)))"
proof -
  let ?cs = "sf_Containers (CreateStatefulSet c fp host shutdown)"
  have sel: "selects (GetSelectorHostScope host) (merge_labels m (GetSelectorHostScope host))" for m
  proof -
    have "gmap_ok (GetSelectorHostScope host)" by (simp add: gmap_ok_def GetSelectorHostScope_def label_names)
    with GetSelectorHostScope_keys [of host] show ?thesis
      by (auto simp: selects_def list_all_iff merge_labels_get)
  qed
  have own: "selects (GetSelectorHostScope host) (GetSelectorHostScope host)"
    using GetSelectorHostScope_keys [of host] by (auto simp: selects_def list_all_iff)
  have "ch_is (port_given n p) ?cs" if "\<And>k. serves host k \<Longrightarrow> port_given n p k" for n p
    using CreateStatefulSet_ready [of host c fp shutdown] that by (auto simp: ch_is_def split: option.splits)
  then have ports: "ch_is (port_given chDefaultTCPPortName (h_TCPPort host)) ?cs"
    "ch_is (port_given chDefaultHTTPPortName (h_HTTPPort host)) ?cs"
    "ch_is (port_given chDefaultInterserverHTTPPortName (h_InterserverHTTPPort host)) ?cs"
    by (simp_all add: serves_def)
  show ?thesis
  proof (cases "Host_GetServiceTemplate (cr_templates c) host")
    case None
    then show ?thesis
      by (simp add: CreateServiceHost_def Let_def versioned_service_def MakeObjectVersionLabel_def newObjectMeta_def
          CreateStatefulSet_labels own tcp_port_def ports)
  next
    case (Some template)
    show ?thesis
    proof (cases "verifyServiceTemplatePorts template")
      case None
      with Some show ?thesis
        by (simp add: CreateServiceHost_def Let_def createServiceFromTemplate_def versioned_service_def
            MakeObjectVersionLabel_def CreateStatefulSet_labels sel)
    next
      case (Some p)
      then have "p \<in> set (svs_Ports (st_Spec template))" "\<not> (1 \<le> sint (svp_Port p) \<and> sint (svp_Port p) \<le> 65535)"
        by (auto simp: verifyServiceTemplatePorts_def find_Some_iff)
      with Some \<open>Host_GetServiceTemplate _ _ = _\<close> show ?thesis
        by (auto simp: CreateServiceHost_def Let_def createServiceFromTemplate_def list_ex_iff)
    qed
  qed
qed


section \<open>The pods of the ZooKeeper ensemble\<close>

lemma merge_labels_Nil [simp]: "merge_labels m [] = m"
  by (simp add: merge_labels_def MergeStringMapsOverwrite_def)

definition zookeeper_pod_labels :: "creator \<Rightarrow> ObjectMeta \<Rightarrow> ChiZookeeperConfig \<Rightarrow> strmap" where
  "zookeeper_pod_labels c chi zk = om_Labels (pts_Meta (sf_Template (CreateStatefulSetZooKeeper c chi zk)))"

lemma CreateStatefulSetZooKeeper_simps:
  "sf_Selector (CreateStatefulSetZooKeeper c chi zk) = getSelectorZooKeeperScope (lb_chi (cr_labeler c))"
  "sf_Replicas (CreateStatefulSetZooKeeper c chi zk) = sint (zk_Replica zk)"
  "zookeeper_pod_labels c chi zk = getLabelsZooKeeperScope (cr_labeler c)"
  "sf_Containers (CreateStatefulSetZooKeeper c chi zk)
     = [(newDefaultZooKeeperContainer zk)\<lparr>co_VolumeMounts := [newVolumeMount ''data'' ''/var/lib/zookeeper'']\<rparr>]"
  "ps_Affinity (pts_Spec (sf_Template (CreateStatefulSetZooKeeper c chi zk)))
     = ps_Affinity (pt_Spec (getPodTemplateZooKeeper c chi zk))"
  by (simp_all add: CreateStatefulSetZooKeeper_def Let_def setupStatefulSetZooKeeperVolumeClaimTemplates_def map_spec_def
      map_containers_def setupStatefulSetZooKeeperPodTemplate_def statefulSetApplyPodTemplateZooKeeper_def
      getPodTemplateZooKeeper_def newDefaultZooKeeperPodTemplate_def sf_Containers_def addContainer_def newPodSpec_def
      zookeeper_pod_labels_def)

text \<open>
  The disruption budget of the ensemble lets Kubernetes evict pods of a running ensemble as long as a majority
  of its replicas is left, so its quorum survives.
\<close>

theorem zookeeper_keeps_quorum:
  assumes "0 < sf_Replicas (CreateStatefulSetZooKeeper c chi zk)"
  shows "\<exists>m. pdb_MaxUnavailable (NewPodDisruptionBudgetZooKeeper c chi zk) = FromInt m \<and> 0 \<le> m
    \<and> sf_Replicas (CreateStatefulSetZooKeeper c chi zk) < 2 * (sf_Replicas (CreateStatefulSetZooKeeper c chi zk) - m)"
proof -
  let ?n = "sint (zk_Replica zk)"
  have n: "0 < ?n" "?n < 2 ^ 31"
    using assms sint_lt [of "zk_Replica zk"] by (simp_all add: CreateStatefulSetZooKeeper_simps)
  then have "sint (zk_Replica zk - 1) = ?n - 1"
    by (simp add: sint_word_ariths signed_take_bit_int_eq_self)
  with n have "half (zk_Replica zk - 1) = (?n - 1) div 2" by (simp add: half_def)
  with n show ?thesis
    by (intro exI [of _ "(?n - 1) div 2"])
      (simp add: NewPodDisruptionBudgetZooKeeper_def CreateStatefulSetZooKeeper_simps)
qed

text \<open>What Kubernetes makes of a label selector with expressions.\<close>

definition expression_holds :: "strmap \<Rightarrow> LabelSelectorRequirement \<Rightarrow> bool" where
  "expression_holds labels e = (case gget labels (lsr_Key e) of
     None \<Rightarrow> lsr_Operator e = ''NotIn'' \<or> lsr_Operator e = ''DoesNotExist''
   | Some v \<Rightarrow> if lsr_Operator e = ''In'' then v \<in> set (lsr_Values e)
       else if lsr_Operator e = ''NotIn'' then v \<notin> set (lsr_Values e) else lsr_Operator e = ''Exists'')"

definition finds :: "PodAffinityTerm \<Rightarrow> strmap \<Rightarrow> bool" where
  "finds t labels = (case pat_LabelSelector t of None \<Rightarrow> False
     | Some sel \<Rightarrow> selects (lse_MatchLabels sel) labels
         \<and> list_all (expression_holds labels) (lse_MatchExpressions sel))"

definition avoided :: "PodSpec \<Rightarrow> PodAffinityTerm list" where
  "avoided spec = (case ps_Affinity spec of None \<Rightarrow> [] | Some a \<Rightarrow> (case af_PodAntiAffinity a of None \<Rightarrow> []
     | Some pa \<Rightarrow> pa_Required pa @ map wpt_PodAffinityTerm (pa_Preferred pa)))"

definition zookeeper_keys :: "string list" where
  "zookeeper_keys = [LabelNamespace, LabelAppName, LabelCHIName, LabelZooKeeper]"

lemma zookeeper_selector_keys:
  "set (getSelectorZooKeeperScope chi) \<subseteq> {(k, v). gget (getSelectorZooKeeperScope chi) k = Some v}"
  by (auto simp: getSelectorZooKeeperScope_def label_names)

lemma zookeeper_selects_iff:
  "selects (getSelectorZooKeeperScope (lb_chi l)) (getLabelsZooKeeperScope l)
     \<longleftrightarrow> list_all (\<lambda>(k, v). gget (propagated l) k \<in> {None, Some v}) (getSelectorZooKeeperScope (lb_chi l))"
proof -
  have "gget (getLabelsZooKeeperScope l) k = Some v \<longleftrightarrow> gget (propagated l) k \<in> {None, Some v}"
    if "(k, v) \<in> set (getSelectorZooKeeperScope (lb_chi l))" for k v
  proof -
    from that zookeeper_selector_keys [of "lb_chi l"] have "gget (getSelectorZooKeeperScope (lb_chi l)) k = Some v" by auto
    then show ?thesis
      unfolding getLabelsZooKeeperScope_def appendCHILabels_get by (auto simp: map_add_def split: option.split)
  qed
  then show ?thesis by (auto simp: selects_def list_all_iff)
qed

text \<open>
  C11: the StatefulSet, both services and the disruption budget of the ensemble find its pods, unless a propagated
  label of the installation overwrites one of the operator's; each port of the services leads to the port of its
  name of the container. But the rule that is to keep the pods of the ensemble on different nodes finds none of
  them, unless the user propagates a label of that name: it asks for \<open>clickhouse.radondb.com/zookeeper\<close>, while
  the pods carry \<open>clickhouse.radondb.com/zooKeeper\<close>.
\<close>

theorem zookeeper_pods_found:
  "let l = cr_labeler c; s = CreateStatefulSetZooKeeper c chi zk; labels = zookeeper_pod_labels c chi zk;
       server = sv_Spec (CreateServiceZooKeeperServer c chi); client = sv_Spec (CreateServiceZooKeeperClient c chi zk)
   in list_all (\<lambda>sel. selects sel labels
          \<longleftrightarrow> list_all (\<lambda>(k, v). gget (propagated l) k \<in> {None, Some v}) (getSelectorZooKeeperScope (lb_chi l)))
        [sf_Selector s, svs_Selector server, svs_Selector client, pdb_Selector (NewPodDisruptionBudgetZooKeeper c chi zk)]
    \<and> list_all (\<lambda>p. svp_TargetPort p = FromInt (sint (svp_Port p))
          \<and> list_ex (port_given (svp_Name p) (svp_Port p)) (sf_Containers s)) (svs_Ports server @ svs_Ports client)
    \<and> length (avoided (pts_Spec (sf_Template s))) = 1
    \<and> (gget (propagated l) (label ''zookeeper'') = None
        \<longrightarrow> list_all (\<lambda>t. \<not> finds t labels) (avoided (pts_Spec (sf_Template s))))"
proof -
  let ?sel = "getSelectorZooKeeperScope (lb_chi (cr_labeler c))"
  have av: "avoided (pts_Spec (sf_Template (CreateStatefulSetZooKeeper c chi zk)))
      = [\<lparr>pat_LabelSelector = Some \<lparr>lse_MatchLabels = [], lse_MatchExpressions =
           [\<lparr>lsr_Key = label ''zookeeper'', lsr_Operator = ''In'',
             lsr_Values = [CreateStatefulSetZooKeeperName (cr_SHA1 c) chi]\<rparr>]\<rparr>,
         pat_Namespaces = [], pat_TopologyKey = ''kubernetes.io/hostname''\<rparr>]"
    by (simp add: avoided_def CreateStatefulSetZooKeeper_simps getPodTemplateZooKeeper_def
        newDefaultZooKeeperPodTemplate_def addContainer_def label_def)
  have "gget ?sel (label ''zookeeper'') = None" by (simp add: getSelectorZooKeeperScope_def label_names)
  then have key: "gget (getLabelsZooKeeperScope (cr_labeler c)) (label ''zookeeper'')
      = gget (propagated (cr_labeler c)) (label ''zookeeper'')"
    unfolding getLabelsZooKeeperScope_def appendCHILabels_get by (simp add: map_add_def split: option.split)
  have sels: "svs_Selector (sv_Spec (CreateServiceZooKeeperServer c chi)) = ?sel"
    "svs_Selector (sv_Spec (CreateServiceZooKeeperClient c chi zk)) = ?sel"
    "pdb_Selector (NewPodDisruptionBudgetZooKeeper c chi zk) = ?sel"
    by (simp_all add: CreateServiceZooKeeperServer_def CreateServiceZooKeeperClient_def NewPodDisruptionBudgetZooKeeper_def)
  have ports: "list_all (\<lambda>p. svp_TargetPort p = FromInt (sint (svp_Port p))
          \<and> list_ex (port_given (svp_Name p) (svp_Port p)) (sf_Containers (CreateStatefulSetZooKeeper c chi zk)))
        (svs_Ports (sv_Spec (CreateServiceZooKeeperServer c chi)) @ svs_Ports (sv_Spec (CreateServiceZooKeeperClient c chi zk)))"
    by (simp add: CreateStatefulSetZooKeeper_simps CreateServiceZooKeeperServer_def CreateServiceZooKeeperClient_def
        tcp_port_def port_given_def port_of_def newDefaultZooKeeperContainer_def newContainerPort_def
        zkDefaultClientPortName_def zkDefaultServerPortName_def zkDefaultLeaderElectionPortName_def)
  have "\<not> finds t (getLabelsZooKeeperScope (cr_labeler c))"
    if "t \<in> set (avoided (pts_Spec (sf_Template (CreateStatefulSetZooKeeper c chi zk))))"
      and "gget (propagated (cr_labeler c)) (label ''zookeeper'') = None" for t
    using that unfolding av by (simp add: finds_def expression_holds_def key)
  with ports show ?thesis
    unfolding Let_def sels CreateStatefulSetZooKeeper_simps list_all_iff [of _ "avoided _"]
    by (simp add: zookeeper_selects_iff) (simp add: av)
qed


section \<open>On concrete installations\<close>

definition plain_creator :: "strmap \<Rightarrow> ChiTemplates option \<Rightarrow> creator" where
  "plain_creator labels templates = \<lparr>cr_APIVersion = ''clickhouse.radondb.com/v1'', cr_Kind = ''ClickHouseInstallation'',
     cr_UID = ''uid'', cr_chi = newInstallation\<lparr>in_Meta := lb_chi (plain_labeler labels),
       in_Spec := newChiSpec\<lparr>sp_Templates := templates\<rparr>\<rparr>,
     cr_labeler = plain_labeler labels, cr_SHA1 = (\<lambda>s. s), cr_Configuration = NewConfiguration, cr_CommonConfigs = [],
     cr_UsersConfigs = [], cr_HostConfigs = [], cr_ServiceFingerprint = (\<lambda>_. ''s''), cr_ConfigMapFingerprint = (\<lambda>_. ''m''),
     cr_StatefulSetFingerprint = (\<lambda>_. ''t'')\<rparr>"

lemma plain_creator_simps [simp]:
  "cr_templates (plain_creator labels templates) = templates" "cr_labeler (plain_creator labels templates) = plain_labeler labels"
  "cr_SHA1 (plain_creator labels templates) = (\<lambda>s. s)"
  by (simp_all add: plain_creator_def cr_templates_def)

definition data_templates :: "ChiTemplates option" where
  "data_templates = Some (NewChiTemplates\<lparr>
     tps_VolumeClaimTemplates := [\<lparr>vt_Name = ''data'', vt_PVCReclaimPolicy = [], vt_ObjectMeta = object_named ''data'', vt_Requests = []\<rparr>],
     tps_VolumeClaimTemplatesIndex := index_templates [''data''] None\<rparr>)"

definition data_host :: ChiHost where
  "data_host = addressed_host\<lparr>h_Templates := Some (NewChiTemplateNames\<lparr>tn_DataVolumeClaimTemplate := ''data''\<rparr>)\<rparr>"

lemma data_host_templates:
  "Host_GetPodTemplate templates data_host = None" "Host_GetServiceTemplate templates data_host = None"
  "GetDataVolumeClaimTemplate (h_Templates data_host) = ''data''" "\<not> HasLogVolumeClaimTemplate (h_Templates data_host)"
  by (simp_all add: data_host_def Host_GetPodTemplate_def HasPodTemplate_def Host_GetServiceTemplate_def
      HasReplicaServiceTemplate_def NewChiTemplateNames_def GetDataVolumeClaimTemplate_def HasLogVolumeClaimTemplate_def)

lemma data_is_claim: "claims_indexed data_templates" "is_claim (plain_creator labels data_templates) ''data''"
proof -
  have "index_templates [''data''] None = Some [(''data'', 0)]"
    by (simp add: index_templates_def Index_Set_def ensure_index_def)
  then show "claims_indexed data_templates" "is_claim (plain_creator labels data_templates) ''data''"
    by (simp_all add: claims_indexed_def data_templates_def is_claim_def GetVolumeClaimTemplate_def indexed_def
        Index_Get_def Index_Has_def ghas_def)
qed

lemma data_host_spec:
  "ps_Containers (host_spec c data_host) = [newDefaultClickHouseContainer]" "ps_Volumes (host_spec c data_host) = []"
  "template_labels c data_host = []"
  by (simp_all add: host_spec_def template_labels_def getPodTemplate_def data_host_templates newDefaultPodTemplate_def
      prepareAffinity_def object_named_def)

theorem statefulset_mounts_backed_witness:
  "let c = plain_creator [] data_templates; s = CreateStatefulSet c no_fingerprints data_host False
   in distinct (claim_names (sf_VolumeClaimTemplates s))
     \<and> set (mounted (sf_Containers s)) \<subseteq> set (map vo_Name (ps_Volumes (pts_Spec (sf_Template s))))
         \<union> set (claim_names (sf_VolumeClaimTemplates s))"
proof -
  have "mounted [newDefaultClickHouseContainer] = []" by (simp add: mounted_def newDefaultClickHouseContainer_def)
  with statefulset_mounts_backed [of "plain_creator [] data_templates" no_fingerprints data_host False] data_is_claim(1)
  show ?thesis unfolding Let_def plain_creator_simps data_host_spec by (simp only: list.pred_inject) blast
qed


lemma integrity_names:
  "ps_Containers spec \<noteq> [] \<Longrightarrow>
    map co_Name (ps_Containers (ensureStatefulSetTemplateIntegrity host spec)) = map co_Name (ps_Containers spec)"
  by (auto simp: ensureStatefulSetTemplateIntegrity_def ensureNamedPortsSpecified_def ensureProbesSpecified_def
      map_containers_def at_ClickHouse_map integrity_changes ensureClickHouseContainerSpecified_def
      getClickHouseContainer_def split: option.split)

lemma personal_names:
  "\<not> HasLogVolumeClaimTemplate (h_Templates host) \<Longrightarrow>
    map co_Name (ps_Containers (personalizeStatefulSetTemplate c host spec)) = map co_Name (ps_Containers spec)"
  by (simp add: personalizeStatefulSetTemplate_def Let_def setupLogContainer_def setupTroubleshoot_def
      map_containers_def at_ClickHouse_map integrity_changes setupConfigMapVolumes_def comp_def)

lemma data_host_names:
  "map co_Name (sf_Containers (CreateStatefulSet c fp data_host shutdown)) = [ClickHouseContainerName]"
proof -
  have "map co_Name (ps_Containers (host_pod c data_host)) = [ClickHouseContainerName]"
    by (simp add: host_pod_def personal_names data_host_templates integrity_names data_host_spec
        newDefaultClickHouseContainer_def)
  then show ?thesis by (simp only: bare_names [OF CreateStatefulSet_bare])
qed

theorem data_volume_mounted_witness:
  "list_ex (\<lambda>m. vm_Name m = ''data'' \<or> vm_MountPath m = dirPathClickHouseData)
    (co_VolumeMounts (sf_Containers (CreateStatefulSet (plain_creator [] data_templates) no_fingerprints data_host False) ! 0))"
proof -
  let ?cs = "sf_Containers (CreateStatefulSet (plain_creator [] data_templates) no_fingerprints data_host False)"
  have "map co_Name ?cs = map co_Name [newDefaultClickHouseContainer]"
    by (simp only: data_host_names) (simp add: newDefaultClickHouseContainer_def)
  from container_index_names [OF this, of ClickHouseContainerName] have "container_index ClickHouseContainerName ?cs = Some 0"
    by (simp add: newDefaultClickHouseContainer_def)
  from data_volume_mounted [OF _ _ this] data_is_claim(2) show ?thesis by (simp add: data_host_templates)
qed

lemma data_host_addressed:
  "addressed_in (lb_chi (plain_labeler labels)) addressed_cluster addressed_shard data_host"
  by (simp add: addressed_in_def plain_labeler_def addressed_cluster_def addressed_shard_def addressed_host_def
      data_host_def object_named_def Let_def)

theorem pods_of_statefulset_witness:
  "selects (getSelectorShardScopeReady addressed_shard)
     (pod_labels (plain_creator [(''team'', ''x''), (''secret'', ''y'')] None) no_fingerprints data_host False)
   \<and> (let c = plain_creator [(LabelAppName, ''mine'')] None
      in \<not> selects (sf_Selector (CreateStatefulSet c no_fingerprints data_host False))
        (pod_labels c no_fingerprints data_host False))"
proof
  let ?c = "plain_creator [(''team'', ''x''), (''secret'', ''y'')] None"
  have "leaves_alone (propagated (cr_labeler ?c))"
    unfolding plain_creator_simps plain_propagated by (simp add: leaves_alone_def scope_keys_def label_names label_def)
  moreover have "gmap_ok (template_labels ?c data_host)" "leaves_alone (template_labels ?c data_host)"
    unfolding data_host_spec by (simp_all add: leaves_alone_def list_all_iff)
  ultimately show "selects (getSelectorShardScopeReady addressed_shard) (pod_labels ?c no_fingerprints data_host False)"
    using pods_of_statefulset [of ?c data_host no_fingerprints False addressed_cluster addressed_shard]
      data_host_addressed by simp
next
  let ?c = "plain_creator [(LabelAppName, ''mine'')] None"
  have "gmap_ok (template_labels ?c data_host)" unfolding data_host_spec by simp
  moreover have "\<not> list_all (agrees ?c data_host) (GetSelectorHostScope data_host)"
    unfolding agrees_def data_host_spec plain_creator_simps plain_propagated
    by (simp add: GetSelectorHostScope_def label_names LabelAppValue_def)
  ultimately show "let c = ?c in \<not> selects (sf_Selector (CreateStatefulSet c no_fingerprints data_host False))
        (pod_labels c no_fingerprints data_host False)"
    using pods_of_statefulset [of ?c data_host no_fingerprints False] by (simp add: Let_def)
qed

theorem service_of_host_witness:
  "\<exists>svc. CreateServiceHost (plain_creator [] None) no_fingerprints data_host = Some svc
    \<and> list_all (\<lambda>p. svp_TargetPort p = FromInt (sint (svp_Port p))) (svs_Ports (sv_Spec svc))"
  using service_of_host [where c = "plain_creator [] None" and fp = no_fingerprints and host = data_host and shutdown = False]
  by (cases "CreateServiceHost (plain_creator [] None) no_fingerprints data_host")
    (simp_all add: data_host_templates list_all_iff)

definition three_keepers :: ChiZookeeperConfig where
  "three_keepers = NewChiZookeeperConfig\<lparr>zk_Install := True, zk_Replica := 3, zk_Port := 2181\<rparr>"

theorem zookeeper_keeps_quorum_witness:
  "\<exists>m. pdb_MaxUnavailable (NewPodDisruptionBudgetZooKeeper (plain_creator [] None) (object_named ''chi'') three_keepers)
      = FromInt m \<and> 0 \<le> m \<and> 3 < 2 * (3 - m)"
proof -
  have "sf_Replicas (CreateStatefulSetZooKeeper (plain_creator [] None) (object_named ''chi'') three_keepers) = 3"
    by (simp add: CreateStatefulSetZooKeeper_simps three_keepers_def)
  with zookeeper_keeps_quorum [of "plain_creator [] None" "object_named ''chi''" three_keepers] show ?thesis by simp
qed

theorem zookeeper_pods_found_witness:
  "let c = plain_creator [] None; s = CreateStatefulSetZooKeeper c (object_named ''chi'') three_keepers;
       labels = zookeeper_pod_labels c (object_named ''chi'') three_keepers
   in selects (sf_Selector s) labels \<and> length (avoided (pts_Spec (sf_Template s))) = 1
     \<and> list_all (\<lambda>t. \<not> finds t labels) (avoided (pts_Spec (sf_Template s)))"
proof -
  have "gget (propagated (plain_labeler [])) k = None" for k
    by (simp add: propagated_def plain_labeler_def CopyMapExcept_def CopyMap_def)
  with zookeeper_pods_found [of "plain_creator [] None" "object_named ''chi''" three_keepers] show ?thesis
    by (simp add: Let_def list_all_iff)
qed

end
