(* ===== verification/ChopConfig.thy ===== *)
theory ChopConfig
  imports Normalizer
begin

text \<open>
  The configuration of the operator: \<open>type_config_chop.go\<close> and \<open>pkg/chop/config_manager.go\<close>, with the helpers
  for paths and files of \<open>pkg/util\<close>. The configuration of a file, with those of the custom resources on top, is
  completed with the credentials of a secret, defaults, files and environment variables; it holds the catalog of
  installation templates, which changes while the operator runs.

  The environment of the process, the files, the YAML parser, the Kubernetes API and \<open>mergo\<close> are parameters, and
  so is the order in which Go walks a map. The templates of the catalog are pointers in the code; nothing is
  done to the objects behind them but to blank the name of a deleted one.
\<close>

section \<open>Paths and files\<close>

definition filepath_IsAbs :: "string \<Rightarrow> bool" where
  "filepath_IsAbs path = (case path of [] \<Rightarrow> False | c # _ \<Rightarrow> c = CHR ''/'')"

fun ext_loop :: "string \<Rightarrow> string \<Rightarrow> string" where
  "ext_loop acc [] = []"
| "ext_loop acc (c # rest) = (if c = CHR ''/'' then [] else if c = CHR ''.'' then c # acc else ext_loop (c # acc) rest)"

text \<open>The extension, searched from the end of the path.\<close>

definition filepath_Ext :: "string \<Rightarrow> string" where
  "filepath_Ext path = ext_loop [] (rev path)"

definition filepath_Base :: "string \<Rightarrow> string" where
  "filepath_Base path = (if path = [] then ''.''
     else let base = rev (takeWhile (\<lambda>c. c \<noteq> CHR ''/'') (dropWhile (\<lambda>c. c = CHR ''/'') (rev path)))
       in if base = [] then ''/'' else base)"

definition ExtToLower :: "string \<Rightarrow> string" where
  "ExtToLower file = to_lower (filepath_Ext file)"

text \<open>What the operator reads of the machine it runs on. \<open>fs_ReadFile\<close> reads the cleaned path.\<close>

record files =
  fs_IsDirOk :: "string \<Rightarrow> bool"
  fs_Abs :: "string \<Rightarrow> string option"
  fs_Dir :: "string \<Rightarrow> string"
  fs_Glob :: "string \<Rightarrow> string list option"
  fs_ReadFile :: "string \<Rightarrow> string option"

definition RelativeToBasePath :: "files \<Rightarrow> string \<Rightarrow> string \<Rightarrow> string" where
  "RelativeToBasePath fs basePath relativePath =
     (if basePath = [] then relativePath
      else case fs_Abs fs (basePath @ ''/'' @ relativePath) of Some absPath \<Rightarrow> absPath | None \<Rightarrow> [])"

definition PreparePath :: "files \<Rightarrow> string \<Rightarrow> string \<Rightarrow> string \<Rightarrow> string" where
  "PreparePath fs path basePath defaultRelativePath = (
     let path = (if path = [] then RelativeToBasePath fs basePath defaultRelativePath
           else if filepath_IsAbs path then path
           else RelativeToBasePath fs basePath path)
     in if path \<noteq> [] \<and> \<not> fs_IsDirOk fs path then [] else path)"

definition ReadFilesIntoMap :: "files \<Rightarrow> string \<Rightarrow> (string \<Rightarrow> bool) \<Rightarrow> strmap option" where
  "ReadFilesIntoMap fs path isOurFile =
     (if path = [] then None
      else let files = (case fs_Glob fs (path @ ''/*'') of
             None \<Rightarrow> []
           | Some matches \<Rightarrow> fold (\<lambda>file files.
               if isOurFile file then (case fs_ReadFile fs file of
                   Some content \<Rightarrow> if length content > 0 then gput (filepath_Base file) content files else files
                 | None \<Rightarrow> files)
               else files) matches [])
        in if length files > 0 then Some files else None)"

definition Slice2String :: "string \<Rightarrow> string list \<Rightarrow> string" where
  "Slice2String name items = name @ '' ('' @ Itoa (int (length items)) @ ''):'' @ [CHR 10]
     @ concat (map (\<lambda>s. ''  - '' @ s @ [CHR 10]) items)"

definition Map2String :: "string \<Rightarrow> strmap \<Rightarrow> string" where
  "Map2String name m = name @ '' ('' @ Itoa (int (length m)) @ ''):'' @ [CHR 10]
     @ concat (map (\<lambda>key. ''  - ['' @ key @ '']='' @ (case gget m key of None \<Rightarrow> [] | Some v \<Rightarrow> v) @ [CHR 10])
         (sort (gkeys m)))"

section \<open>The configuration\<close>

definition defaultStatefulSetUpdateTimeout :: "64 word" where "defaultStatefulSetUpdateTimeout = 300"
definition defaultStatefulSetUpdatePollPeriod :: "64 word" where "defaultStatefulSetUpdatePollPeriod = 15"
definition defaultChConfigUserDefaultProfile :: string where "defaultChConfigUserDefaultProfile = ''default''"
definition defaultChConfigUserDefaultQuota :: string where "defaultChConfigUserDefaultQuota = ''default''"
definition defaultChConfigUserDefaultNetworksIP :: string where "defaultChConfigUserDefaultNetworksIP = ''::/0''"
definition defaultChConfigUserDefaultPassword :: string where "defaultChConfigUserDefaultPassword = ''default''"
definition defaultChUsername :: string where "defaultChUsername = []"
definition defaultChPassword :: string where "defaultChPassword = []"
definition defaultChPort :: int where "defaultChPort = 8123"
definition defaultReconcileThreadsNumber :: int where "defaultReconcileThreadsNumber = 1"
definition OnStatefulSetCreateFailureActionDelete :: string where "OnStatefulSetCreateFailureActionDelete = ''delete''"
definition OnStatefulSetUpdateFailureActionRollback :: string where "OnStatefulSetUpdateFailureActionRollback = ''rollback''"
definition UsernameReplacer :: string where "UsernameReplacer = ''***''"
definition PasswordReplacer :: string where "PasswordReplacer = ''***''"
definition TemplatesDir :: string where "TemplatesDir = ''templates.d''"
definition OPERATOR_POD_NAMESPACE :: string where "OPERATOR_POD_NAMESPACE = ''OPERATOR_POD_NAMESPACE''"
definition WATCH_NAMESPACE :: string where "WATCH_NAMESPACE = ''WATCH_NAMESPACE''"
definition WATCH_NAMESPACES :: string where "WATCH_NAMESPACES = ''WATCH_NAMESPACES''"
definition CHOP_CONFIG :: string where "CHOP_CONFIG = ''CHOP_CONFIG''"

record OperatorConfig =
  oc_ConfigFilePath :: string
  oc_ConfigFolderPath :: string
  oc_Namespace :: string
  oc_WatchNamespaces :: "string list"
  oc_CHCommonConfigsPath :: string
  oc_CHHostConfigsPath :: string
  oc_CHUsersConfigsPath :: string
  oc_CHCommonConfigs :: "strmap option"
  oc_CHHostConfigs :: "strmap option"
  oc_CHUsersConfigs :: "strmap option"
  oc_CHITemplatesPath :: string
  oc_CHITemplateFiles :: "strmap option"
  oc_CHITemplates :: "Installation list"
  oc_CHITemplate :: "Installation option"
  oc_StatefulSetUpdateTimeout :: "64 word"
  oc_StatefulSetUpdatePollPeriod :: "64 word"
  oc_OnStatefulSetCreateFailureAction :: string
  oc_OnStatefulSetUpdateFailureAction :: string
  oc_CHConfigUserDefaultProfile :: string
  oc_CHConfigUserDefaultQuota :: string
  oc_CHConfigUserDefaultNetworksIP :: "string list"
  oc_CHConfigUserDefaultPassword :: string
  oc_CHConfigNetworksHostRegexpTemplate :: string
  oc_CHUsername :: string
  oc_CHPassword :: string
  oc_CHCredentialsSecretNamespace :: string
  oc_CHCredentialsSecretName :: string
  oc_CHCredentialsSecretUsername :: string
  oc_CHCredentialsSecretPassword :: string
  oc_CHPort :: int
  oc_LogToStderr :: string
  oc_AlsoLogToStderr :: string
  oc_V :: string
  oc_StderrThreshold :: string
  oc_VModule :: string
  oc_LogBacktraceAt :: string
  oc_ReconcileThreadsNumber :: int
  oc_ReconcileWaitExclude :: bool
  oc_ReconcileWaitInclude :: bool
  oc_ExcludeFromPropagationLabels :: "string list"
  oc_AppendScopeLabelsString :: string
  oc_AppendScopeLabels :: bool

definition newOperatorConfig :: OperatorConfig where
  "newOperatorConfig = \<lparr>oc_ConfigFilePath = [], oc_ConfigFolderPath = [], oc_Namespace = [], oc_WatchNamespaces = [],
     oc_CHCommonConfigsPath = [], oc_CHHostConfigsPath = [], oc_CHUsersConfigsPath = [], oc_CHCommonConfigs = None,
     oc_CHHostConfigs = None, oc_CHUsersConfigs = None, oc_CHITemplatesPath = [], oc_CHITemplateFiles = None,
     oc_CHITemplates = [], oc_CHITemplate = None, oc_StatefulSetUpdateTimeout = 0, oc_StatefulSetUpdatePollPeriod = 0,
     oc_OnStatefulSetCreateFailureAction = [], oc_OnStatefulSetUpdateFailureAction = [],
     oc_CHConfigUserDefaultProfile = [], oc_CHConfigUserDefaultQuota = [], oc_CHConfigUserDefaultNetworksIP = [],
     oc_CHConfigUserDefaultPassword = [], oc_CHConfigNetworksHostRegexpTemplate = [], oc_CHUsername = [],
     oc_CHPassword = [], oc_CHCredentialsSecretNamespace = [], oc_CHCredentialsSecretName = [],
     oc_CHCredentialsSecretUsername = [], oc_CHCredentialsSecretPassword = [], oc_CHPort = 0, oc_LogToStderr = [],
     oc_AlsoLogToStderr = [], oc_V = [], oc_StderrThreshold = [], oc_VModule = [], oc_LogBacktraceAt = [],
     oc_ReconcileThreadsNumber = 0, oc_ReconcileWaitExclude = False, oc_ReconcileWaitInclude = False,
     oc_ExcludeFromPropagationLabels = [], oc_AppendScopeLabelsString = [], oc_AppendScopeLabels = False\<rparr>"

text \<open>\<open>mergo\<close> with and without override, in place; it fails only for different types.\<close>

record mergo_config =
  mc_Merge :: "OperatorConfig \<Rightarrow> OperatorConfig \<Rightarrow> OperatorConfig"
  mc_MergeWithOverride :: "OperatorConfig \<Rightarrow> OperatorConfig \<Rightarrow> OperatorConfig"

definition OperatorConfig_MergeFrom ::
    "mergo_config \<Rightarrow> MergeType \<Rightarrow> OperatorConfig \<Rightarrow> OperatorConfig option \<Rightarrow> OperatorConfig" where
  "OperatorConfig_MergeFrom mg type config from = (case from of None \<Rightarrow> config
     | Some from \<Rightarrow> (case type of
         MergeTypeFillEmptyValues \<Rightarrow> mc_Merge mg config from
       | MergeTypeOverrideByNonEmptyValues \<Rightarrow> mc_MergeWithOverride mg config from
       | MergeTypeOther \<Rightarrow> config))"

section \<open>The catalog of templates\<close>

definition enlistCHITemplate :: "Installation \<Rightarrow> OperatorConfig \<Rightarrow> OperatorConfig" where
  "enlistCHITemplate template config = config\<lparr>oc_CHITemplates := oc_CHITemplates config @ [template]\<rparr>"

definition nullify :: "Installation \<Rightarrow> Installation \<Rightarrow> Installation" where
  "nullify template t =
     (if om_Name (in_Meta t) = om_Name (in_Meta template) \<and> om_Namespace (in_Meta t) = om_Namespace (in_Meta template)
      then t\<lparr>in_Meta := (in_Meta t)\<lparr>om_Name := [], om_Namespace := []\<rparr>\<rparr> else t)"

definition unlistCHITemplate :: "Installation \<Rightarrow> OperatorConfig \<Rightarrow> OperatorConfig" where
  "unlistCHITemplate template config = config\<lparr>oc_CHITemplates := map (nullify template) (oc_CHITemplates config)\<rparr>"

definition FindTemplate :: "OperatorConfig \<Rightarrow> ChiUseTemplate \<Rightarrow> string \<Rightarrow> Installation option" where
  "FindTemplate config u namespace =
     (case List.find (\<lambda>t. MatchFullName (ut_Namespace u) (ut_Name u) (Some t)) (oc_CHITemplates config) of
        Some t \<Rightarrow> Some t
      | None \<Rightarrow> if ut_Namespace u \<noteq> [] then None
          else List.find (\<lambda>t. MatchFullName namespace (ut_Name u) (Some t)) (oc_CHITemplates config))"

definition FindAutoTemplates :: "OperatorConfig \<Rightarrow> Installation list" where
  "FindAutoTemplates config = filter (\<lambda>t. IsAuto (Some t)) (oc_CHITemplates config)"

text \<open>\<open>buildUnifiedCHITemplate\<close> returns at once.\<close>

definition buildUnifiedCHITemplate :: "OperatorConfig \<Rightarrow> OperatorConfig" where
  "buildUnifiedCHITemplate config = config"

definition AddCHITemplate :: "Installation \<Rightarrow> OperatorConfig \<Rightarrow> OperatorConfig" where
  "AddCHITemplate template config = buildUnifiedCHITemplate (enlistCHITemplate template config)"

definition UpdateCHITemplate :: "Installation \<Rightarrow> OperatorConfig \<Rightarrow> OperatorConfig" where
  "UpdateCHITemplate template config = buildUnifiedCHITemplate (enlistCHITemplate template config)"

definition DeleteCHITemplate :: "Installation \<Rightarrow> OperatorConfig \<Rightarrow> OperatorConfig" where
  "DeleteCHITemplate template config = buildUnifiedCHITemplate (unlistCHITemplate template config)"

text \<open>The handlers of the controller; a custom resource comes with its resource version.\<close>

definition addChit :: "Installation \<Rightarrow> OperatorConfig \<Rightarrow> OperatorConfig" where
  "addChit chit config = AddCHITemplate chit config"

definition updateChit :: "string \<times> Installation \<Rightarrow> string \<times> Installation \<Rightarrow> OperatorConfig \<Rightarrow> OperatorConfig" where
  "updateChit old new config = (if fst old = fst new then config else UpdateCHITemplate (snd new) config)"

definition deleteChit :: "Installation \<Rightarrow> OperatorConfig \<Rightarrow> OperatorConfig" where
  "deleteChit chit config = DeleteCHITemplate chit config"

text \<open>What the normalizer takes of the configuration.\<close>

definition config_templates :: "OperatorConfig \<Rightarrow> chi_templates" where
  "config_templates config = \<lparr>ct_CHITemplate = oc_CHITemplate config,
     ct_AutoTemplates = map in_Meta (FindAutoTemplates config), ct_FindTemplate = FindTemplate config\<rparr>"

section \<open>Post-processing\<close>

definition isCHConfigExt :: "string \<Rightarrow> bool" where
  "isCHConfigExt file \<longleftrightarrow> ExtToLower file = ''.xml''"

definition isCHITemplateExt :: "string \<Rightarrow> bool" where
  "isCHITemplateExt file \<longleftrightarrow> ExtToLower file = ''.yaml'' \<or> ExtToLower file = ''.json''"

text \<open>The environment: its variables (\<open>os.Getenv\<close>, the empty string for one that is not set), the files, the
  parser of a template and the order in which the map of template files is walked.\<close>

record environment =
  en_Getenv :: "string \<Rightarrow> string"
  en_Files :: files
  en_UnmarshalTemplate :: "string \<Rightarrow> Installation option"
  en_Shuffle :: "string list \<Rightarrow> string list"

text \<open>The names of the files that do not parse are the errors.\<close>

definition read_template ::
    "environment \<Rightarrow> strmap \<Rightarrow> string \<Rightarrow> string list \<times> OperatorConfig \<Rightarrow> string list \<times> OperatorConfig" where
  "read_template en texts filename = (\<lambda>(errs, config).
     case en_UnmarshalTemplate en (case gget texts filename of None \<Rightarrow> [] | Some text \<Rightarrow> text) of
       None \<Rightarrow> (errs @ [filename], config)
     | Some template \<Rightarrow> (errs, enlistCHITemplate template config))"

definition readCHITemplates :: "environment \<Rightarrow> OperatorConfig \<Rightarrow> string list \<times> OperatorConfig" where
  "readCHITemplates en config = (
     let found = ReadFilesIntoMap (en_Files en) (oc_CHITemplatesPath config) isCHITemplateExt;
         config = config\<lparr>oc_CHITemplateFiles := found\<rparr>;
         texts = (case found of None \<Rightarrow> [] | Some m \<Rightarrow> m)
     in fold (read_template en texts) (en_Shuffle en (gkeys texts)) ([], config))"

definition or_default :: "string \<Rightarrow> string \<Rightarrow> string" where
  "or_default v d = (if v = [] then d else v)"

definition OperatorConfig_normalize :: "environment \<Rightarrow> OperatorConfig \<Rightarrow> OperatorConfig" where
  "OperatorConfig_normalize en config = (
     let fs = en_Files en; base = oc_ConfigFolderPath config;
         credentials = oc_CHCredentialsSecretUsername config \<noteq> [] \<and> oc_CHCredentialsSecretPassword config \<noteq> []
     in config\<lparr>
       oc_Namespace := en_Getenv en OPERATOR_POD_NAMESPACE,
       oc_CHCommonConfigsPath := PreparePath fs (oc_CHCommonConfigsPath config) base CommonConfigDir,
       oc_CHHostConfigsPath := PreparePath fs (oc_CHHostConfigsPath config) base HostConfigDir,
       oc_CHUsersConfigsPath := PreparePath fs (oc_CHUsersConfigsPath config) base UsersConfigDir,
       oc_CHITemplatesPath := PreparePath fs (oc_CHITemplatesPath config) base TemplatesDir,
       oc_StatefulSetUpdateTimeout := (if oc_StatefulSetUpdateTimeout config = 0 then defaultStatefulSetUpdateTimeout
         else oc_StatefulSetUpdateTimeout config),
       oc_StatefulSetUpdatePollPeriod := (if oc_StatefulSetUpdatePollPeriod config = 0
         then defaultStatefulSetUpdatePollPeriod else oc_StatefulSetUpdatePollPeriod config),
       oc_OnStatefulSetCreateFailureAction :=
         or_default (oc_OnStatefulSetCreateFailureAction config) OnStatefulSetCreateFailureActionDelete,
       oc_OnStatefulSetUpdateFailureAction :=
         or_default (oc_OnStatefulSetUpdateFailureAction config) OnStatefulSetUpdateFailureActionRollback,
       oc_CHConfigUserDefaultProfile := or_default (oc_CHConfigUserDefaultProfile config) defaultChConfigUserDefaultProfile,
       oc_CHConfigUserDefaultQuota := or_default (oc_CHConfigUserDefaultQuota config) defaultChConfigUserDefaultQuota,
       oc_CHConfigUserDefaultNetworksIP := (if length (oc_CHConfigUserDefaultNetworksIP config) = 0
         then [defaultChConfigUserDefaultNetworksIP] else oc_CHConfigUserDefaultNetworksIP config),
       oc_CHConfigUserDefaultPassword := or_default (oc_CHConfigUserDefaultPassword config) defaultChConfigUserDefaultPassword,
       oc_CHUsername := (if credentials then oc_CHCredentialsSecretUsername config
         else or_default (oc_CHUsername config) defaultChUsername),
       oc_CHPassword := (if credentials then oc_CHCredentialsSecretPassword config
         else or_default (oc_CHPassword config) defaultChPassword),
       oc_CHPort := (if oc_CHPort config = 0 then defaultChPort else oc_CHPort config),
       oc_ReconcileThreadsNumber := (if oc_ReconcileThreadsNumber config = 0 then defaultReconcileThreadsNumber
         else oc_ReconcileThreadsNumber config),
       oc_AppendScopeLabels := IsStringBoolTrue (oc_AppendScopeLabelsString config)\<rparr>)"

fun fields_loop :: "(char \<Rightarrow> bool) \<Rightarrow> string \<Rightarrow> string \<Rightarrow> string list" where
  "fields_loop p acc [] = (if acc = [] then [] else [rev acc])"
| "fields_loop p acc (c # rest) =
     (if p c then (if acc = [] then fields_loop p [] rest else rev acc # fields_loop p [] rest)
      else fields_loop p (c # acc) rest)"

text \<open>\<open>strings.FieldsFunc\<close>: the runs of characters that are no separators.\<close>

definition FieldsFunc :: "string \<Rightarrow> (char \<Rightarrow> bool) \<Rightarrow> string list" where
  "FieldsFunc s p = fields_loop p [] s"

definition applyEnvVarParams :: "environment \<Rightarrow> OperatorConfig \<Rightarrow> OperatorConfig" where
  "applyEnvVarParams en config = (
     let ns = en_Getenv en WATCH_NAMESPACE; nss = en_Getenv en WATCH_NAMESPACES;
         config = (if length ns > 0 then config\<lparr>oc_WatchNamespaces := [ns]\<rparr> else config)
     in if length nss > 0
        then config\<lparr>oc_WatchNamespaces := filter (\<lambda>n. length n > 0) (FieldsFunc nss (\<lambda>r. r = CHR '':'' \<or> r = CHR '',''))\<rparr>
        else config)"

definition applyDefaultWatchNamespace :: "OperatorConfig \<Rightarrow> OperatorConfig" where
  "applyDefaultWatchNamespace config =
     (if length (oc_WatchNamespaces config) > 0 then config
      else if oc_Namespace config = ''kube-system'' then config
      else config\<lparr>oc_WatchNamespaces := [oc_Namespace config]\<rparr>)"

definition readClickHouseCustomConfigFiles :: "environment \<Rightarrow> OperatorConfig \<Rightarrow> OperatorConfig" where
  "readClickHouseCustomConfigFiles en config = config\<lparr>
     oc_CHCommonConfigs := ReadFilesIntoMap (en_Files en) (oc_CHCommonConfigsPath config) isCHConfigExt,
     oc_CHHostConfigs := ReadFilesIntoMap (en_Files en) (oc_CHHostConfigsPath config) isCHConfigExt,
     oc_CHUsersConfigs := ReadFilesIntoMap (en_Files en) (oc_CHUsersConfigsPath config) isCHConfigExt\<rparr>"

definition Postprocess :: "environment \<Rightarrow> OperatorConfig \<Rightarrow> OperatorConfig" where
  "Postprocess en config = (
     let config = OperatorConfig_normalize en config;
         config = readClickHouseCustomConfigFiles en config;
         (_, config) = readCHITemplates en config;
         config = buildUnifiedCHITemplate config;
         config = applyEnvVarParams en config
     in applyDefaultWatchNamespace config)"

section \<open>Questions to the configuration\<close>

definition IsWatchedNamespace :: "(string \<Rightarrow> string \<Rightarrow> bool) \<Rightarrow> OperatorConfig \<Rightarrow> string \<Rightarrow> bool" where
  "IsWatchedNamespace matchString config namespace =
     (if length (oc_WatchNamespaces config) = 0 then True
      else InArrayWithRegexp matchString namespace (oc_WatchNamespaces config))"

definition is_lower :: "char \<Rightarrow> bool" where "is_lower c \<longleftrightarrow> (of_char c :: nat) \<in> {97..122}"
definition is_digit :: "char \<Rightarrow> bool" where "is_digit c \<longleftrightarrow> (of_char c :: nat) \<in> {48..57}"

text \<open>The pattern \<open>^[a-z]([-a-z0-9]*[a-z0-9])?$\<close>.\<close>

definition is_label :: "string \<Rightarrow> bool" where
  "is_label s \<longleftrightarrow> s \<noteq> [] \<and> is_lower (hd s) \<and> list_all (\<lambda>c. c = CHR ''-'' \<or> is_lower c \<or> is_digit c) s
     \<and> (is_lower (last s) \<or> is_digit (last s))"

text \<open>The empty string stands for all namespaces.\<close>

definition GetInformerNamespace :: "OperatorConfig \<Rightarrow> string" where
  "GetInformerNamespace config = (case oc_WatchNamespaces config of
     [w] \<Rightarrow> if is_label w then w else []
   | _ \<Rightarrow> [])"

text \<open>The level is converted to 32 bits.\<close>

definition GetLogLevel :: "OperatorConfig \<Rightarrow> int option" where
  "GetLogLevel config = map_option (\<lambda>i. sint (word_of_int i :: 32 word)) (Atoi (oc_V config))"

definition printed :: "string \<Rightarrow> string \<Rightarrow> string" where
  "printed name v = name @ '': '' @ v @ [CHR 10]"

definition printed_map :: "string \<Rightarrow> strmap option \<Rightarrow> string" where
  "printed_map name m = Map2String name (case m of None \<Rightarrow> [] | Some m \<Rightarrow> m)"

definition OperatorConfig_String :: "OperatorConfig \<Rightarrow> bool \<Rightarrow> string" where
  "OperatorConfig_String c hideCredentials = (
     let username = (\<lambda>u. if hideCredentials then UsernameReplacer else u);
         password = (\<lambda>p. if hideCredentials then PasswordReplacer else p)
     in concat [
       printed ''ConfigFilePath'' (oc_ConfigFilePath c),
       printed ''ConfigFolderPath'' (oc_ConfigFolderPath c),
       printed ''Namespace'' (oc_Namespace c),
       Slice2String ''WatchNamespaces'' (oc_WatchNamespaces c),
       printed ''CHCommonConfigsPath'' (oc_CHCommonConfigsPath c),
       printed ''CHHostConfigsPath'' (oc_CHHostConfigsPath c),
       printed ''CHUsersConfigsPath'' (oc_CHUsersConfigsPath c),
       printed_map ''CHCommonConfigs'' (oc_CHCommonConfigs c),
       printed_map ''CHHostConfigs'' (oc_CHHostConfigs c),
       printed_map ''CHUsersConfigs'' (oc_CHUsersConfigs c),
       printed ''CHITemplatesPath'' (oc_CHITemplatesPath c),
       printed_map ''CHITemplateFiles'' (oc_CHITemplateFiles c),
       printed ''StatefulSetUpdateTimeout'' (Itoa (uint (oc_StatefulSetUpdateTimeout c))),
       printed ''StatefulSetUpdatePollPeriod'' (Itoa (uint (oc_StatefulSetUpdatePollPeriod c))),
       printed ''OnStatefulSetCreateFailureAction'' (oc_OnStatefulSetCreateFailureAction c),
       printed ''OnStatefulSetUpdateFailureAction'' (oc_OnStatefulSetUpdateFailureAction c),
       printed ''CHConfigUserDefaultProfile'' (oc_CHConfigUserDefaultProfile c),
       printed ''CHConfigUserDefaultQuota'' (oc_CHConfigUserDefaultQuota c),
       Slice2String ''CHConfigUserDefaultNetworksIP'' (oc_CHConfigUserDefaultNetworksIP c),
       printed ''CHConfigUserDefaultPassword'' (password (oc_CHConfigUserDefaultPassword c)),
       printed ''CHConfigNetworksHostRegexpTemplate'' (oc_CHConfigNetworksHostRegexpTemplate c),
       printed ''CHUsername'' (username (oc_CHUsername c)),
       printed ''CHPassword'' (password (oc_CHPassword c)),
       printed ''CHCredentialsSecretNamespace'' (oc_CHCredentialsSecretNamespace c),
       printed ''CHCredentialsSecretName'' (oc_CHCredentialsSecretName c),
       printed ''CHCredentialsSecretUsername'' (username (oc_CHCredentialsSecretUsername c)),
       printed ''CHCredentialsSecretPassword'' (password (oc_CHCredentialsSecretPassword c)),
       printed ''CHPort'' (Itoa (oc_CHPort c)),
       printed ''LogToStderr'' (oc_LogToStderr c),
       printed ''AlsoLogToStderr'' (oc_AlsoLogToStderr c),
       printed ''V'' (oc_V c),
       printed ''StderrThreshold'' (oc_StderrThreshold c),
       printed ''VModule'' (oc_VModule c),
       printed ''LogBacktraceAt'' (oc_LogBacktraceAt c),
       printed ''ReconcileThreadsNumber'' (Itoa (oc_ReconcileThreadsNumber c)),
       Slice2String ''ExcludeFromPropagationLabels'' (oc_ExcludeFromPropagationLabels c),
       printed ''appendScopeLabels'' (oc_AppendScopeLabelsString c @ '' (''
         @ (if oc_AppendScopeLabels c then ''true'' else ''false'') @ '')'')])"

section \<open>The configuration manager\<close>

record ClickHouseOperatorConfiguration =
  co_Namespace :: string
  co_ObjectName :: string
  co_ResourceVersion :: string
  co_Spec :: OperatorConfig

datatype config_error = ConfigNotRead string | ConfigNotParsed string

text \<open>Where configurations come from: the parser, the home directory of the user, the listing of a namespace (an
  error or not, and the list, which may be nil) for an operator that has a client, and the secrets.\<close>

record config_sources =
  cs_UnmarshalConfig :: "string \<Rightarrow> OperatorConfig option"
  cs_HomeDir :: "string option"
  cs_HasClient :: bool
  cs_List :: "string \<Rightarrow> bool \<times> ClickHouseOperatorConfiguration list option"
  cs_Secret :: "string \<Rightarrow> string \<Rightarrow> strmap option"

definition buildConfigFromFile :: "files \<Rightarrow> config_sources \<Rightarrow> string \<Rightarrow> config_error + OperatorConfig" where
  "buildConfigFromFile fs cs configFilePath = (case fs_ReadFile fs configFilePath of
     None \<Rightarrow> Inl (ConfigNotRead configFilePath)
   | Some yamlText \<Rightarrow> (case cs_UnmarshalConfig cs yamlText of
       None \<Rightarrow> Inl (ConfigNotParsed configFilePath)
     | Some config \<Rightarrow> let path = (case fs_Abs fs configFilePath of None \<Rightarrow> [] | Some p \<Rightarrow> p)
         in Inr (config\<lparr>oc_ConfigFilePath := path, oc_ConfigFolderPath := fs_Dir fs path\<rparr>)))"

definition buildDefaultConfig :: "config_error + OperatorConfig" where
  "buildDefaultConfig = Inr newOperatorConfig"

definition in_home :: "string \<Rightarrow> string" where
  "in_home home = (if home = [] then [] else home @ ''/'') @ ''.clickhouse-operator/config.yaml''"

definition getFileBasedConfig :: "environment \<Rightarrow> config_sources \<Rightarrow> string \<Rightarrow> config_error + OperatorConfig" where
  "getFileBasedConfig en cs configFilePath = (
     let build = buildConfigFromFile (en_Files en) cs;
         global = (case build ''/etc/clickhouse-operator/config.yaml'' of
           Inr conf \<Rightarrow> Inr conf | Inl _ \<Rightarrow> buildDefaultConfig)
     in if length configFilePath > 0 then build configFilePath
        else if length (en_Getenv en CHOP_CONFIG) > 0 then build (en_Getenv en CHOP_CONFIG)
        else case cs_HomeDir cs of
            None \<Rightarrow> global
          | Some home \<Rightarrow> (case build (in_home home) of Inr conf \<Rightarrow> Inr conf | Inl _ \<Rightarrow> global))"

text \<open>The list that is kept and the configurations in the order of their names.\<close>

definition sorted_configs :: "string \<Rightarrow> ClickHouseOperatorConfiguration list \<Rightarrow> OperatorConfig list" where
  "sorted_configs namespace items = concat (map (\<lambda>name.
     map (\<lambda>c. (co_Spec c)\<lparr>oc_ConfigFolderPath := namespace, oc_ConfigFilePath := name\<rparr>)
       (filter (\<lambda>c. co_ObjectName c = name) items)) (sort (map co_ObjectName items)))"

definition getCRBasedConfigs ::
    "config_sources \<Rightarrow> string \<Rightarrow> ClickHouseOperatorConfiguration list option \<times> OperatorConfig list" where
  "getCRBasedConfigs cs namespace =
     (if \<not> cs_HasClient cs then (None, [])
      else case cs_List cs namespace of
          (True, list) \<Rightarrow> (list, [])
        | (False, None) \<Rightarrow> (None, [])
        | (False, Some items) \<Rightarrow> (Some items, sorted_configs namespace items))"

definition buildUnifiedConfig :: "mergo_config \<Rightarrow> OperatorConfig \<Rightarrow> OperatorConfig list \<Rightarrow> OperatorConfig" where
  "buildUnifiedConfig mg fileConfig crConfigs =
     fold (\<lambda>c config. OperatorConfig_MergeFrom mg MergeTypeOverrideByNonEmptyValues config (Some c)) crConfigs fileConfig"

definition IsConfigListed ::
    "ClickHouseOperatorConfiguration list option \<Rightarrow> ClickHouseOperatorConfiguration \<Rightarrow> bool go" where
  "IsConfigListed chopConfigList config = (case chopConfigList of
     None \<Rightarrow> Inl NilDereference
   | Some items \<Rightarrow> Inr (list_ex (\<lambda>c. co_Namespace config = co_Namespace c
       \<and> co_ObjectName config = co_ObjectName c \<and> co_ResourceVersion config = co_ResourceVersion c) items))"

definition getEnvVarParamNames :: "string list" where
  "getEnvVarParamNames = [''OPERATOR_POD_NODE_NAME'', ''OPERATOR_POD_NAME'', OPERATOR_POD_NAMESPACE, ''OPERATOR_POD_IP'',
     ''OPERATOR_POD_SERVICE_ACCOUNT'', ''OPERATOR_CONTAINER_CPU_REQUEST'', ''OPERATOR_CONTAINER_CPU_LIMIT'',
     ''OPERATOR_CONTAINER_MEM_REQUEST'', ''OPERATOR_CONTAINER_MEM_LIMIT'', WATCH_NAMESPACE, WATCH_NAMESPACES]"

definition getEnvVarParams :: "environment \<Rightarrow> strmap" where
  "getEnvVarParams en = fold (\<lambda>varName. gput varName (en_Getenv en varName)) getEnvVarParamNames []"

definition HasRuntimeParam :: "environment \<Rightarrow> string \<Rightarrow> bool" where
  "HasRuntimeParam en name = ghas (getEnvVarParams en) name"

definition GetRuntimeParam :: "environment \<Rightarrow> string \<Rightarrow> string option" where
  "GetRuntimeParam en name = gget (getEnvVarParams en) name"

definition fetchSecretCredentials :: "environment \<Rightarrow> config_sources \<Rightarrow> OperatorConfig \<Rightarrow> OperatorConfig" where
  "fetchSecretCredentials en cs config = (
     let name = oc_CHCredentialsSecretName config in
     if name = [] then config
     else let namespace = oc_CHCredentialsSecretNamespace config;
              namespace = (if namespace = [] \<and> HasRuntimeParam en OPERATOR_POD_NAMESPACE
                then (case GetRuntimeParam en OPERATOR_POD_NAMESPACE of None \<Rightarrow> [] | Some v \<Rightarrow> v) else namespace)
       in if namespace = [] \<or> name = [] then config
          else case cs_Secret cs namespace name of
              None \<Rightarrow> config
            | Some data \<Rightarrow> config\<lparr>
                oc_CHCredentialsSecretUsername := (case gget data ''username'' of
                  None \<Rightarrow> oc_CHCredentialsSecretUsername config | Some v \<Rightarrow> v),
                oc_CHCredentialsSecretPassword := (case gget data ''password'' of
                  None \<Rightarrow> oc_CHCredentialsSecretPassword config | Some v \<Rightarrow> v)\<rparr>)"

text \<open>The final configuration, and the list of the custom resources it was made of.\<close>

definition ConfigManager_Init ::
    "environment \<Rightarrow> config_sources \<Rightarrow> mergo_config \<Rightarrow> string
      \<Rightarrow> config_error + ClickHouseOperatorConfiguration list option \<times> OperatorConfig" where
  "ConfigManager_Init en cs mg initConfigFilePath = (case getFileBasedConfig en cs initConfigFilePath of
     Inl err \<Rightarrow> Inl err
   | Inr fileConfig \<Rightarrow>
       let watchedNamespace = GetInformerNamespace fileConfig;
           (chopConfigList, crConfigs) = getCRBasedConfigs cs watchedNamespace;
           config = buildUnifiedConfig mg fileConfig crConfigs;
           config = fetchSecretCredentials en cs config
       in Inr (chopConfigList, Postprocess en config))"

text \<open>A configuration that is added while the operator runs is only compared with the known ones.\<close>

definition addChopConfig ::
    "ClickHouseOperatorConfiguration list option \<Rightarrow> ClickHouseOperatorConfiguration \<Rightarrow> unit go" where
  "addChopConfig chopConfigList chopConfig = go_bind (IsConfigListed chopConfigList chopConfig) (\<lambda>_. Inr ())"

section \<open>Templates that change\<close>

text \<open>A template of the same full name is listed already.\<close>

definition listed :: "Installation \<Rightarrow> OperatorConfig \<Rightarrow> bool" where
  "listed template config = list_ex (\<lambda>t. om_Name (in_Meta t) = om_Name (in_Meta template)
     \<and> om_Namespace (in_Meta t) = om_Namespace (in_Meta template)) (oc_CHITemplates config)"

lemma find_snoc: "List.find P (xs @ [x]) = (case List.find P xs of Some y \<Rightarrow> Some y | None \<Rightarrow> if P x then Some x else None)"
  by (induction xs) auto

lemma find_listed:
  assumes "listed template config"
  shows "List.find (\<lambda>t. MatchFullName ns n (Some t)) (oc_CHITemplates config @ [template])
    = List.find (\<lambda>t. MatchFullName ns n (Some t)) (oc_CHITemplates config)"
proof (cases "List.find (\<lambda>t. MatchFullName ns n (Some t)) (oc_CHITemplates config)")
  case None
  with assms have "\<not> MatchFullName ns n (Some template)"
    by (auto simp: listed_def list_ex_iff find_None_iff MatchFullName_def)
  with None show ?thesis by (simp add: find_snoc)
qed (simp add: find_snoc)

lemma FindTemplate_enlisted:
  "listed template config \<Longrightarrow> FindTemplate (enlistCHITemplate template config) u namespace = FindTemplate config u namespace"
  by (simp add: FindTemplate_def enlistCHITemplate_def find_listed cong: option.case_cong)

lemma FindTemplate_in:
  "FindTemplate config u namespace = Some t \<Longrightarrow> t \<in> set (oc_CHITemplates config) \<and> om_Name (in_Meta t) = ut_Name u"
  by (auto simp: FindTemplate_def find_Some_iff MatchFullName_def split: option.splits if_splits)

text \<open>
  C12: a template that is updated keeps having its old effect: whatever the new version says, every look-up finds
  the version that was listed first, and unless the new version is applied by itself every installation is
  normalized exactly as before, until the operator is restarted. A template that was deleted is found no more
  under its name, but it is found by a use of a template with an empty name.
\<close>

theorem updated_template_ignored:
  assumes "listed template config"
  shows "FindTemplate (UpdateCHITemplate template config) u namespace = FindTemplate config u namespace
    \<and> (\<not> IsAuto (Some template) \<longrightarrow>
        apply_templates mg (config_templates (UpdateCHITemplate template config)) chi
          = apply_templates mg (config_templates config) chi)
    \<and> (om_Name (in_Meta template) \<noteq> [] \<longrightarrow>
        (\<forall>t. FindTemplate (DeleteCHITemplate template config) u namespace = Some t
          \<longrightarrow> om_Name (in_Meta t) \<noteq> om_Name (in_Meta template) \<or> om_Namespace (in_Meta t) \<noteq> om_Namespace (in_Meta template)))
    \<and> FindTemplate (DeleteCHITemplate template config)
        \<lparr>ut_Name = [], ut_Namespace = [], ut_UseType = useTypeMerge\<rparr> namespace \<noteq> None"
proof (intro conjI impI allI)
  show "FindTemplate (UpdateCHITemplate template config) u namespace = FindTemplate config u namespace"
    by (simp add: UpdateCHITemplate_def buildUnifiedCHITemplate_def FindTemplate_enlisted assms)
  assume "\<not> IsAuto (Some template)"
  then have "config_templates (UpdateCHITemplate template config) = config_templates config"
    by (simp add: config_templates_def UpdateCHITemplate_def buildUnifiedCHITemplate_def FindTemplate_enlisted [OF assms]
        fun_eq_iff) (simp add: FindAutoTemplates_def enlistCHITemplate_def)
  then show "apply_templates mg (config_templates (UpdateCHITemplate template config)) chi
      = apply_templates mg (config_templates config) chi" by simp
next
  fix t
  assume n: "om_Name (in_Meta template) \<noteq> []"
    and "FindTemplate (DeleteCHITemplate template config) u namespace = Some t"
  from FindTemplate_in [OF this(2)] have "t \<in> set (oc_CHITemplates (DeleteCHITemplate template config))" by simp
  then obtain t0 where t0: "t = nullify template t0"
    by (auto simp: DeleteCHITemplate_def buildUnifiedCHITemplate_def unlistCHITemplate_def)
  show "om_Name (in_Meta t) \<noteq> om_Name (in_Meta template) \<or> om_Namespace (in_Meta t) \<noteq> om_Namespace (in_Meta template)"
    using n unfolding t0 by (auto simp: nullify_def)
next
  from assms obtain t where t: "t \<in> set (oc_CHITemplates config)" "om_Name (in_Meta t) = om_Name (in_Meta template)"
    "om_Namespace (in_Meta t) = om_Namespace (in_Meta template)" by (auto simp: listed_def list_ex_iff)
  then have "MatchFullName [] [] (Some (nullify template t))" by (simp add: nullify_def MatchFullName_def)
  with t(1) have "List.find (\<lambda>t. MatchFullName [] [] (Some t)) (map (nullify template) (oc_CHITemplates config)) \<noteq> None"
    by (auto simp: find_None_iff)
  then show "FindTemplate (DeleteCHITemplate template config)
      \<lparr>ut_Name = [], ut_Namespace = [], ut_UseType = useTypeMerge\<rparr> namespace \<noteq> None"
    by (auto simp: FindTemplate_def DeleteCHITemplate_def buildUnifiedCHITemplate_def unlistCHITemplate_def)
qed

section \<open>Watched namespaces\<close>

text \<open>The namespaces the configuration asks for: those of the environment, the plural variable first, then those of
  the files.\<close>

definition asked_namespaces :: "environment \<Rightarrow> OperatorConfig \<Rightarrow> string list" where
  "asked_namespaces en config = (
     let nss = en_Getenv en WATCH_NAMESPACES; ns = en_Getenv en WATCH_NAMESPACE
     in if nss \<noteq> [] then FieldsFunc nss (\<lambda>r. r = CHR '':'' \<or> r = CHR '','')
        else if ns \<noteq> [] then [ns] else oc_WatchNamespaces config)"

lemma fields_loop_nonempty: "acc \<noteq> [] \<or> True \<Longrightarrow> n \<in> set (fields_loop p acc s) \<Longrightarrow> n \<noteq> []"
  by (induction p acc s rule: fields_loop.induct) (auto split: if_splits)

lemma filter_fields: "filter (\<lambda>n. length n > 0) (FieldsFunc s p) = FieldsFunc s p"
  using fields_loop_nonempty [of "[]" _ p s] by (simp add: FieldsFunc_def filter_id_conv)


text \<open>What post-processing leaves alone, and what it makes of the namespaces.\<close>

lemma readCHITemplates_kept:
  "oc_WatchNamespaces (snd (readCHITemplates en config)) = oc_WatchNamespaces config
   \<and> oc_Namespace (snd (readCHITemplates en config)) = oc_Namespace config"
proof -
  have step: "oc_WatchNamespaces (snd (read_template en texts name s)) = oc_WatchNamespaces (snd s)
      \<and> oc_Namespace (snd (read_template en texts name s)) = oc_Namespace (snd s)" for texts name s
    by (cases "en_UnmarshalTemplate en (case gget texts name of None \<Rightarrow> [] | Some text \<Rightarrow> text)")
      (simp_all add: read_template_def case_prod_unfold enlistCHITemplate_def)
  have "oc_WatchNamespaces (snd (fold (read_template en texts) names s)) = oc_WatchNamespaces (snd s)
      \<and> oc_Namespace (snd (fold (read_template en texts) names s)) = oc_Namespace (snd s)" for texts names s
    by (induction names arbitrary: s) (simp_all add: step)
  then show ?thesis by (simp add: readCHITemplates_def Let_def)
qed

lemma Postprocess_namespaces:
  "oc_Namespace (Postprocess en config) = en_Getenv en OPERATOR_POD_NAMESPACE"
  "oc_WatchNamespaces (Postprocess en config) =
     (if asked_namespaces en config \<noteq> [] then asked_namespaces en config
      else if en_Getenv en OPERATOR_POD_NAMESPACE = ''kube-system'' then []
      else [en_Getenv en OPERATOR_POD_NAMESPACE])"
proof -
  let ?c = "snd (readCHITemplates en (readClickHouseCustomConfigFiles en (OperatorConfig_normalize en config)))"
  have w: "oc_WatchNamespaces ?c = oc_WatchNamespaces config" "oc_Namespace ?c = en_Getenv en OPERATOR_POD_NAMESPACE"
    by (simp_all add: readCHITemplates_kept readClickHouseCustomConfigFiles_def OperatorConfig_normalize_def Let_def)
  have p: "Postprocess en config = applyDefaultWatchNamespace (applyEnvVarParams en ?c)"
    by (simp add: Postprocess_def buildUnifiedCHITemplate_def Let_def case_prod_unfold)
  have "oc_WatchNamespaces (applyEnvVarParams en ?c) = asked_namespaces en config"
    "oc_Namespace (applyEnvVarParams en ?c) = en_Getenv en OPERATOR_POD_NAMESPACE"
    unfolding applyEnvVarParams_def asked_namespaces_def Let_def filter_fields by (simp_all add: w)
  then show "oc_Namespace (Postprocess en config) = en_Getenv en OPERATOR_POD_NAMESPACE"
    and "oc_WatchNamespaces (Postprocess en config) =
     (if asked_namespaces en config \<noteq> [] then asked_namespaces en config
      else if en_Getenv en OPERATOR_POD_NAMESPACE = ''kube-system'' then []
      else [en_Getenv en OPERATOR_POD_NAMESPACE])"
    unfolding p applyDefaultWatchNamespace_def by simp_all
qed

text \<open>
  C13: which namespaces the operator works in: those it is asked for, the environment before the files; when there
  are none, all for an operator in \<open>kube-system\<close> and its own one for any other. A namespace counts when one of
  them equals it or, taken as a regular expression, matches a part of it, so an operator that was asked for
  \<open>dev\<close> also takes \<open>my-dev-2\<close> for its own. The informers deliver the objects of a watched namespace, except
  when the only one asked for is a plain name: then they deliver those of that very namespace.
\<close>

theorem watched_namespaces:
  "let c = Postprocess en config; asked = asked_namespaces en config; own = en_Getenv en OPERATOR_POD_NAMESPACE in
     (asked \<noteq> [] \<longrightarrow> (IsWatchedNamespace matchString c ns \<longleftrightarrow> list_ex (\<lambda>w. w = ns \<or> matchString w ns) asked))
   \<and> (asked = [] \<and> own = ''kube-system'' \<longrightarrow> IsWatchedNamespace matchString c ns \<and> GetInformerNamespace c = [])
   \<and> (asked = [] \<and> own \<noteq> ''kube-system'' \<longrightarrow> (IsWatchedNamespace matchString c ns \<longleftrightarrow> own = ns \<or> matchString own ns))
   \<and> (GetInformerNamespace c \<in> {[], ns}
      \<longleftrightarrow> \<not> (\<exists>w. oc_WatchNamespaces c = [w] \<and> is_label w \<and> w \<noteq> ns))"
proof -
  let ?c = "Postprocess en config"
  have watched: "IsWatchedNamespace matchString ?c ns \<longleftrightarrow>
      oc_WatchNamespaces ?c = [] \<or> list_ex (\<lambda>w. w = ns \<or> matchString w ns) (oc_WatchNamespaces ?c)"
    by (simp add: IsWatchedNamespace_def InArrayWithRegexp_iff list_ex_iff)
  have informer: "GetInformerNamespace ?c \<in> {[], ns}
      \<longleftrightarrow> \<not> (\<exists>w. oc_WatchNamespaces ?c = [w] \<and> is_label w \<and> w \<noteq> ns)"
    by (auto simp: GetInformerNamespace_def is_label_def split: list.split)
  show ?thesis
    unfolding Let_def informer watched by (auto simp: Postprocess_namespaces GetInformerNamespace_def)
qed

section \<open>Printing\<close>

text \<open>Two configurations that differ in their credentials only.\<close>

definition same_but_credentials :: "OperatorConfig \<Rightarrow> OperatorConfig \<Rightarrow> bool" where
  "same_but_credentials c d \<longleftrightarrow> d = c\<lparr>oc_CHUsername := oc_CHUsername d, oc_CHPassword := oc_CHPassword d,
     oc_CHCredentialsSecretUsername := oc_CHCredentialsSecretUsername d,
     oc_CHCredentialsSecretPassword := oc_CHCredentialsSecretPassword d,
     oc_CHConfigUserDefaultPassword := oc_CHConfigUserDefaultPassword d\<rparr>"

text \<open>
  A configuration that is printed with its credentials hidden says nothing about them: configurations that
  differ in user names and passwords only are printed as the same text. (The files of users that were read are
  printed, with what they hold.)
\<close>

theorem printed_config_hides_credentials:
  assumes "same_but_credentials c d"
  shows "OperatorConfig_String d True = OperatorConfig_String c True"
  by (subst assms [unfolded same_but_credentials_def]) (simp add: OperatorConfig_String_def)

section \<open>Starting\<close>

text \<open>
  The operator refuses to start with its configuration exactly when a file was named, by its flag or by the
  environment, and cannot be read or parsed. Files that are only looked for are passed over when they are
  broken, down to the empty configuration.
\<close>

theorem config_refused_iff:
  "ConfigManager_Init en cs mg path = Inl e \<longleftrightarrow>
     (let named = (if path \<noteq> [] then path else en_Getenv en CHOP_CONFIG)
      in named \<noteq> [] \<and> buildConfigFromFile (en_Files en) cs named = Inl e)"
proof -
  have found: "(case build q of Inl _ \<Rightarrow> buildDefaultConfig | Inr conf \<Rightarrow> Inr conf) \<noteq> Inl e"
    for build :: "string \<Rightarrow> config_error + OperatorConfig" and q
    by (simp add: buildDefaultConfig_def split: sum.split)
  have "getFileBasedConfig en cs path = Inl e \<longleftrightarrow>
     (let named = (if path \<noteq> [] then path else en_Getenv en CHOP_CONFIG)
      in named \<noteq> [] \<and> buildConfigFromFile (en_Files en) cs named = Inl e)"
    using found [of "buildConfigFromFile (en_Files en) cs" "''/etc/clickhouse-operator/config.yaml''"]
    by (auto simp: getFileBasedConfig_def Let_def split: option.split sum.splits)
  moreover have "ConfigManager_Init en cs mg path = Inl e \<longleftrightarrow> getFileBasedConfig en cs path = Inl e"
    by (cases "getFileBasedConfig en cs path") (simp_all add: ConfigManager_Init_def Let_def case_prod_unfold)
  ultimately show ?thesis by simp
qed

section \<open>On a concrete operator\<close>

definition bare_files :: files where
  "bare_files = \<lparr>fs_IsDirOk = (\<lambda>_. False), fs_Abs = Some, fs_Dir = (\<lambda>p. p), fs_Glob = (\<lambda>_. None), fs_ReadFile = (\<lambda>_. None)\<rparr>"

definition bare_environment :: "(string \<times> string) list \<Rightarrow> environment" where
  "bare_environment vars = \<lparr>en_Getenv = (\<lambda>n. case map_of vars n of None \<Rightarrow> [] | Some v \<Rightarrow> v), en_Files = bare_files,
     en_UnmarshalTemplate = (\<lambda>_. None), en_Shuffle = (\<lambda>xs. xs)\<rparr>"

definition team_template :: "string \<Rightarrow> Installation" where
  "team_template version = newInstallation\<lparr>in_Meta := object_named ''team'',
     in_Spec := newChiSpec\<lparr>sp_TaskID := Some version\<rparr>\<rparr>"

definition team_catalog :: OperatorConfig where
  "team_catalog = newOperatorConfig\<lparr>oc_CHITemplates := [team_template ''old'']\<rparr>"

theorem updated_template_ignored_witness:
  "FindTemplate (UpdateCHITemplate (team_template ''new'') team_catalog)
      \<lparr>ut_Name = ''team'', ut_Namespace = om_Namespace (object_named ''team''), ut_UseType = useTypeMerge\<rparr> ''ns''
     = Some (team_template ''old'')
   \<and> FindTemplate (DeleteCHITemplate (team_template ''old'') team_catalog)
      \<lparr>ut_Name = [], ut_Namespace = [], ut_UseType = useTypeMerge\<rparr> ''ns'' \<noteq> None"
proof -
  have l: "listed (team_template p) team_catalog" for p
    by (simp add: listed_def team_catalog_def team_template_def)
  have "FindTemplate team_catalog
      \<lparr>ut_Name = ''team'', ut_Namespace = om_Namespace (object_named ''team''), ut_UseType = useTypeMerge\<rparr> ''ns''
      = Some (team_template ''old'')"
    by (simp add: FindTemplate_def team_catalog_def team_template_def MatchFullName_def object_named_def)
  with updated_template_ignored [OF l [of "''new''"]] updated_template_ignored [OF l [of "''old''"]]
  show ?thesis by simp
qed

theorem watched_namespaces_witness:
  "IsWatchedNamespace (\<lambda>_ _. False) (Postprocess (bare_environment [(WATCH_NAMESPACES, ''dev,prod'')]) newOperatorConfig) ''prod''
   \<and> \<not> IsWatchedNamespace (\<lambda>_ _. False) (Postprocess (bare_environment [(WATCH_NAMESPACES, ''dev,prod'')]) newOperatorConfig) ''other''
   \<and> GetInformerNamespace (Postprocess (bare_environment [(OPERATOR_POD_NAMESPACE, ''kube-system'')]) newOperatorConfig) = []"
proof -
  have a: "asked_namespaces (bare_environment [(WATCH_NAMESPACES, ''dev,prod'')]) newOperatorConfig = [''dev'', ''prod'']"
    by (simp add: asked_namespaces_def bare_environment_def FieldsFunc_def)
  have b: "asked_namespaces (bare_environment [(OPERATOR_POD_NAMESPACE, ''kube-system'')]) newOperatorConfig = []"
    "en_Getenv (bare_environment [(OPERATOR_POD_NAMESPACE, ''kube-system'')]) OPERATOR_POD_NAMESPACE = ''kube-system''"
    by (simp_all add: asked_namespaces_def bare_environment_def newOperatorConfig_def OPERATOR_POD_NAMESPACE_def
        WATCH_NAMESPACES_def WATCH_NAMESPACE_def)
  show ?thesis
    using watched_namespaces [of "bare_environment [(WATCH_NAMESPACES, ''dev,prod'')]" newOperatorConfig "\<lambda>_ _. False" "''prod''"]
      watched_namespaces [of "bare_environment [(WATCH_NAMESPACES, ''dev,prod'')]" newOperatorConfig "\<lambda>_ _. False" "''other''"]
      watched_namespaces [of "bare_environment [(OPERATOR_POD_NAMESPACE, ''kube-system'')]" newOperatorConfig "\<lambda>_ _. False" "''a''"]
    unfolding a b Let_def by simp
qed

theorem printed_config_hides_credentials_witness:
  "OperatorConfig_String (newOperatorConfig\<lparr>oc_CHPassword := ''secret''\<rparr>) True = OperatorConfig_String newOperatorConfig True"
  by (rule printed_config_hides_credentials) (simp add: same_but_credentials_def newOperatorConfig_def)

end
