(* ===== verification/Schemer.thy ===== *)
theory Schemer
  imports ConfigGen
begin

text \<open>
  How the operator talks to the databases: \<open>pkg/model/schemer.go\<close>, \<open>pkg/model/cluster.go\<close> and
  \<open>pkg/model/clickhouse/cluster.go\<close> with the options of a query. The servers are a parameter: their answer to a
  call may depend on every call before it. So is the context: whether it is done may change from one look at
  it to the next. A pooled connection stands for its endpoint; opening it, its deadlines and the parsing of its
  answers are behind the answers. The list of queries of a call is a slice that is shared by all endpoints, and what
  is done to it is seen by the next one, so it is passed on.
\<close>

section \<open>Calls and answers\<close>

datatype sql_error =
    ContextCanceled
  | ServerError string
  | QueryFailedEverywhere
  | BadRow
  | NoRowsFound

datatype sql_call =
    ExecCall string string
  | QueryCall string string

record servers =
  db_Done :: "nat \<Rightarrow> bool"
  db_Exec :: "sql_call list \<Rightarrow> sql_error option"
  db_Query :: "sql_call list \<Rightarrow> sql_error + string list list"
  db_Heredoc :: "string \<Rightarrow> string"

record db_state =
  ds_Calls :: "sql_call list"
  ds_Looks :: nat

definition look :: "servers \<Rightarrow> db_state \<Rightarrow> bool \<times> db_state" where
  "look db s = (db_Done db (ds_Looks s), s\<lparr>ds_Looks := Suc (ds_Looks s)\<rparr>)"

definition Connection_Exec :: "servers \<Rightarrow> string \<Rightarrow> string \<Rightarrow> db_state \<Rightarrow> sql_error option \<times> db_state" where
  "Connection_Exec db host sql s = (if length sql = 0 then (None, s)
     else let calls = ds_Calls s @ [ExecCall host sql] in (db_Exec db calls, s\<lparr>ds_Calls := calls\<rparr>))"

definition Connection_QueryContext ::
    "servers \<Rightarrow> string \<Rightarrow> string \<Rightarrow> db_state \<Rightarrow> (sql_error + string list list option) \<times> db_state" where
  "Connection_QueryContext db host sql s = (if length sql = 0 then (Inr None, s)
     else let calls = ds_Calls s @ [QueryCall host sql]
       in (case db_Query db calls of Inl e \<Rightarrow> Inl e | Inr rows \<Rightarrow> Inr (Some rows), s\<lparr>ds_Calls := calls\<rparr>))"

section \<open>Options of a query\<close>

record QueryOptions =
  qo_Retry :: bool
  qo_Tries :: int
  qo_Parallel :: bool
  qo_Silent :: bool

definition defaultMaxTries :: int where "defaultMaxTries = 10"

definition NewQueryOptions :: QueryOptions where
  "NewQueryOptions = \<lparr>qo_Retry = False, qo_Tries = 0, qo_Parallel = False, qo_Silent = False\<rparr>"

definition QueryOptions_Normalize :: "QueryOptions option \<Rightarrow> QueryOptions" where
  "QueryOptions_Normalize opts = (
     let o0 = (case opts of None \<Rightarrow> NewQueryOptions | Some q \<Rightarrow> q);
         o1 = (if qo_Tries o0 = 0 \<and> qo_Retry o0 then o0\<lparr>qo_Tries := defaultMaxTries\<rparr> else o0)
     in if qo_Tries o1 = 0 then o1\<lparr>qo_Tries := 1\<rparr> else o1)"

definition QueryOptionsNormalize :: "QueryOptions option list \<Rightarrow> QueryOptions" where
  "QueryOptionsNormalize opts = (case opts of [] \<Rightarrow> QueryOptions_Normalize (Some NewQueryOptions)
     | q # _ \<Rightarrow> QueryOptions_Normalize q)"

definition SetRetry :: "bool \<Rightarrow> QueryOptions option \<Rightarrow> QueryOptions option" where
  "SetRetry retry q = map_option (\<lambda>q. q\<lparr>qo_Retry := retry\<rparr>) q"

definition SetSilent :: "bool \<Rightarrow> QueryOptions option \<Rightarrow> QueryOptions option" where
  "SetSilent silent q = map_option (\<lambda>q. q\<lparr>qo_Silent := silent\<rparr>) q"

section \<open>Executing queries\<close>

definition ErrIsNotCanceled :: "sql_error option \<Rightarrow> bool" where
  "ErrIsNotCanceled err = (case err of None \<Rightarrow> False | Some e \<Rightarrow> e \<noteq> ContextCanceled)"

definition contains :: "string \<Rightarrow> string \<Rightarrow> bool" where
  "contains s sub = list_ex (\<lambda>i. take (length sub) (drop i s) = sub) [0..<Suc (length s)]"

text \<open>\<open>strings.ReplaceAll\<close> for a text that is not empty.\<close>

function ReplaceAll :: "string \<Rightarrow> string \<Rightarrow> string \<Rightarrow> string" where
  "ReplaceAll s old new = (case s of [] \<Rightarrow> []
     | c # rest \<Rightarrow> if old \<noteq> [] \<and> take (length old) s = old then new @ ReplaceAll (drop (length old) s) old new
         else c # ReplaceAll rest old new)"
  by pat_completeness auto
termination
  by (relation "measure (\<lambda>(s, old, new). length s)") auto

declare ReplaceAll.simps [simp del]

text \<open>The text of an error the server gave; the other errors never name a code of the server.\<close>

definition error_text :: "sql_error \<Rightarrow> string" where
  "error_text e = (case e of ServerError text \<Rightarrow> text | _ \<Rightarrow> [])"

definition exec_or_attach :: "servers \<Rightarrow> string \<Rightarrow> string \<Rightarrow> db_state \<Rightarrow> sql_error option \<times> db_state" where
  "exec_or_attach db host sql s = (
     let (err, s) = Connection_Exec db host sql s in
     case err of
       Some e \<Rightarrow> if contains (error_text e) ''Code: 253,'' \<and> contains sql ''CREATE TABLE''
         then Connection_Exec db host (ReplaceAll sql ''CREATE TABLE'' ''ATTACH TABLE'') s else (err, s)
     | None \<Rightarrow> (None, s))"

text \<open>One try of all queries: the errors, or \<open>None\<close> when the context ended, and the queries that are left.\<close>

fun try_queries :: "servers \<Rightarrow> string \<Rightarrow> string list \<Rightarrow> db_state \<Rightarrow> sql_error list option \<times> string list \<times> db_state" where
  "try_queries db host [] s = (Some [], [], s)"
| "try_queries db host (sql # queries) s = (
     let (ended, s) = look db s in
     if ended then (None, sql # queries, s)
     else if length sql = 0 then
       let (errors, queries, s) = try_queries db host queries s in (errors, sql # queries, s)
     else
       let (err, s) = exec_or_attach db host sql s;
           (errors, queries, s) = try_queries db host queries s
       in (map_option (\<lambda>es. case err of None \<Rightarrow> es | Some e \<Rightarrow> e # es) errors,
           (if err = None then [] else sql) # queries, s))"

definition first_error :: "sql_error list option \<Rightarrow> sql_error option" where
  "first_error errors = (case errors of Some (e # _) \<Rightarrow> Some e | _ \<Rightarrow> None)"

text \<open>\<open>Retry\<close> over the state of the calls; what is left of the tries counts down.\<close>

primrec retry_queries ::
    "servers \<Rightarrow> string \<Rightarrow> nat \<Rightarrow> string list \<Rightarrow> sql_error option \<Rightarrow> db_state \<Rightarrow> sql_error option \<times> string list \<times> db_state"
where
  "retry_queries db host 0 queries err s = (err, queries, s)"
| "retry_queries db host (Suc tries) queries err s = (
     let (ended, s) = look db s in
     if ended then (None, queries, s)
     else let (errors, queries, s) = try_queries db host queries s
       in case first_error errors of
         None \<Rightarrow> (None, queries, s)
       | Some e \<Rightarrow> retry_queries db host tries queries (Some e) s)"

definition exec ::
    "servers \<Rightarrow> string \<Rightarrow> string list \<Rightarrow> QueryOptions option list \<Rightarrow> db_state \<Rightarrow> sql_error option \<times> string list \<times> db_state"
where
  "exec db host queries opts s = (
     let (ended, s) = look db s in
     if ended then (None, queries, s)
     else let (err, queries, s) = retry_queries db host (nat (qo_Tries (QueryOptionsNormalize opts))) queries None s
       in (if ErrIsNotCanceled err then err else None, queries, s))"

text \<open>Both kinds of execution, parallel or not, run the endpoints one after the other.\<close>

fun exec_hosts ::
    "servers \<Rightarrow> string list \<Rightarrow> string list \<Rightarrow> QueryOptions \<Rightarrow> db_state \<Rightarrow> sql_error list \<times> string list \<times> db_state" where
  "exec_hosts db [] queries opts s = ([], queries, s)"
| "exec_hosts db (host # hosts) queries opts s = (
     let (err, queries, s) = exec db host queries [Some opts] s;
         (errors, queries, s) = exec_hosts db hosts queries opts s
     in (case err of None \<Rightarrow> errors | Some e \<Rightarrow> e # errors, queries, s))"

definition ExecAll ::
    "servers \<Rightarrow> string list \<Rightarrow> string list \<Rightarrow> QueryOptions option list \<Rightarrow> db_state \<Rightarrow> sql_error option \<times> db_state" where
  "ExecAll db hosts queries opts s = (
     let (ended, s) = look db s in
     if ended then (None, s)
     else let (errors, queries, s) = exec_hosts db hosts queries (QueryOptionsNormalize opts) s
       in (first_error (Some errors), s))"

section \<open>Asking queries\<close>

fun query_hosts ::
    "servers \<Rightarrow> string list \<Rightarrow> string \<Rightarrow> db_state \<Rightarrow> (sql_error + string list list option) \<times> db_state" where
  "query_hosts db [] sql s = (Inl QueryFailedEverywhere, s)"
| "query_hosts db (host # hosts) sql s = (
     let (ended, s) = look db s in
     if ended then (Inr None, s)
     else let (answer, s) = Connection_QueryContext db host sql s
       in case answer of Inr rows \<Rightarrow> (Inr rows, s) | Inl _ \<Rightarrow> query_hosts db hosts sql s)"

definition QueryAny ::
    "servers \<Rightarrow> string list \<Rightarrow> string \<Rightarrow> db_state \<Rightarrow> (sql_error + string list list option) \<times> db_state" where
  "QueryAny db hosts sql s = query_hosts db hosts sql s"

text \<open>Two columns of the rows; a row of another width is an error.\<close>

fun UnzipColumnsAsStrings :: "string list list \<Rightarrow> sql_error + string list \<times> string list" where
  "UnzipColumnsAsStrings [] = Inr ([], [])"
| "UnzipColumnsAsStrings (row # rows) = (case row of
     [a, b] \<Rightarrow> (case UnzipColumnsAsStrings rows of Inl e \<Rightarrow> Inl e | Inr (xs, ys) \<Rightarrow> Inr (a # xs, b # ys))
   | _ \<Rightarrow> Inl BadRow)"

definition queryUnzipColumns ::
    "servers \<Rightarrow> string list \<Rightarrow> string \<Rightarrow> db_state \<Rightarrow> (sql_error + string list \<times> string list) \<times> db_state" where
  "queryUnzipColumns db hosts sql s = (
     let (ended, s) = look db s in
     if ended then (Inr ([], []), s)
     else if length hosts = 0 then (Inr ([], []), s)
     else let (query, s) = QueryAny db hosts sql s
       in case query of
         Inl _ \<Rightarrow> (Inr ([], []), s)
       | Inr None \<Rightarrow> (Inr ([], []), s)
       | Inr (Some rows) \<Rightarrow> (UnzipColumnsAsStrings rows, s))"

definition QueryUnzip2Columns ::
    "servers \<Rightarrow> string list \<Rightarrow> string \<Rightarrow> db_state \<Rightarrow> (string list \<times> string list \<times> sql_error option) \<times> db_state" where
  "QueryUnzip2Columns db endpoints sql s = (
     let (r, s) = queryUnzipColumns db endpoints sql s
     in (case r of Inl e \<Rightarrow> ([], [], Some e) | Inr (column1, column2) \<Rightarrow> (column1, column2, None), s))"

definition QueryResult_Int :: "string list list \<Rightarrow> sql_error + int" where
  "QueryResult_Int rows = (case rows of
     [] \<Rightarrow> Inl NoRowsFound
   | [v] # _ \<Rightarrow> (case Atoi v of None \<Rightarrow> Inl BadRow | Some n \<Rightarrow> Inr n)
   | _ \<Rightarrow> Inl BadRow)"

section \<open>Calls of the scopes of the operator\<close>

text \<open>The domain names \<open>CreateFQDNs\<close> finds for the host, its shard, its cluster and its installation.\<close>

record scopes =
  sc_Host :: "string list"
  sc_Shard :: "string list"
  sc_Cluster :: "string list"
  sc_CHI :: "string list"

definition ExecCHI ::
    "servers \<Rightarrow> string list \<Rightarrow> string list \<Rightarrow> QueryOptions option list \<Rightarrow> db_state \<Rightarrow> sql_error option \<times> db_state" where
  "ExecCHI db hosts SQLs opts s = ExecAll db hosts SQLs [Some (QueryOptionsNormalize opts)] s"

definition ExecCluster ::
    "servers \<Rightarrow> string list \<Rightarrow> string list \<Rightarrow> QueryOptions option list \<Rightarrow> db_state \<Rightarrow> sql_error option \<times> db_state" where
  "ExecCluster db hosts SQLs opts s = ExecAll db hosts SQLs [Some (QueryOptionsNormalize opts)] s"

definition ExecShard ::
    "servers \<Rightarrow> string list \<Rightarrow> string list \<Rightarrow> QueryOptions option list \<Rightarrow> db_state \<Rightarrow> sql_error option \<times> db_state" where
  "ExecShard db hosts SQLs opts s = ExecAll db hosts SQLs [Some (QueryOptionsNormalize opts)] s"

definition ExecHost ::
    "servers \<Rightarrow> scopes \<Rightarrow> string list \<Rightarrow> QueryOptions option list \<Rightarrow> db_state \<Rightarrow> sql_error option \<times> db_state" where
  "ExecHost db host SQLs opts s = ExecAll db (sc_Host host) SQLs [Some (QueryOptionsNormalize opts)] s"

definition QueryHost ::
    "servers \<Rightarrow> scopes \<Rightarrow> string \<Rightarrow> db_state \<Rightarrow> (sql_error + string list list option) \<times> db_state" where
  "QueryHost db host sql s = QueryAny db (sc_Host host) sql s"

text \<open>A failed query comes without a result, which is looked at first.\<close>

definition QueryHostInt :: "servers \<Rightarrow> scopes \<Rightarrow> string \<Rightarrow> db_state \<Rightarrow> (sql_error + int) \<times> db_state" where
  "QueryHostInt db host sql s = (
     let (ended, s) = look db s in
     if ended then (Inr 0, s)
     else let (query, s) = QueryHost db host sql s
       in case query of
         Inl _ \<Rightarrow> (Inr 0, s)
       | Inr None \<Rightarrow> (Inr 0, s)
       | Inr (Some rows) \<Rightarrow> (QueryResult_Int rows, s))"

section \<open>The texts\<close>

definition indented :: "nat \<Rightarrow> string \<Rightarrow> string" where
  "indented n line = replicate n (CHR 9) @ line"

fun text_of :: "string list \<Rightarrow> string" where
  "text_of [] = []"
| "text_of [line] = line"
| "text_of (line # lines) = line @ CHR 10 # text_of lines"

text \<open>\<open>Sprintf\<close> for the directives of the texts, \<open>%s\<close> and \<open>%%\<close>.\<close>

function sprintf :: "string \<Rightarrow> string list \<Rightarrow> string" where
  "sprintf format args = (case format of
     [] \<Rightarrow> []
   | [c] \<Rightarrow> [c]
   | c # d # rest \<Rightarrow>
       if c = CHR ''%'' \<and> d = CHR ''s'' \<and> args \<noteq> [] then hd args @ sprintf rest (tl args)
       else if c = CHR ''%'' \<and> d = CHR ''%'' then c # sprintf rest args
       else c # sprintf (d # rest) args)"
  by pat_completeness auto
termination
  by (relation "measure (\<lambda>(format, args). length format)") auto

declare sprintf.simps [simp del]

definition sqlDistributedDBs :: string where
  "sqlDistributedDBs = text_of [
     indented 0 ([]),
     indented 2 (''SELECT ''),
     indented 3 (''DISTINCT database AS name, ''),
     indented 3 (''concat('CREATE DATABASE IF NOT EXISTS '' @ [CHR 34] @ [CHR 39] @ '', name, '' @ [CHR 39] @ [CHR 34] @ [CHR 39] @ '') AS create_db_query''),
     indented 2 (''FROM ''),
     indented 2 (''(''),
     indented 3 (''SELECT DISTINCT arrayJoin([database, extract(engine_full, 'Distributed'' @ [CHR 92, CHR 92] @ ''([^,]+, *'' @ [CHR 92] @ [CHR 39] @ ''?([^,'' @ [CHR 92] @ [CHR 39] @ '']+)'' @ [CHR 92] @ [CHR 39] @ ''?, *[^,]+')]) database''),
     indented 3 (''FROM clusterAllReplicas('%s', system.tables) tables''),
     indented 3 (''WHERE engine = 'Distributed'' @ [CHR 39]),
     indented 3 (''SETTINGS skip_unavailable_shards = 1''),
     indented 2 ('')''),
     indented 2 ([])]"

definition sqlDistributedTables :: string where
  "sqlDistributedTables = text_of [
     indented 0 ([]),
     indented 2 (''SELECT DISTINCT ''),
     indented 3 (''concat(database, '.', name) as name, ''),
     indented 3 (''replaceRegexpOne(create_table_query, 'CREATE (TABLE|VIEW|MATERIALIZED VIEW|DICTIONARY)', 'CREATE '' @ [CHR 92, CHR 92] @ ''1 IF NOT EXISTS')''),
     indented 2 (''FROM ''),
     indented 2 (''(''),
     indented 3 (''SELECT ''),
     indented 4 (''database,''),
     indented 4 (''name,''),
     indented 4 (''create_table_query,''),
     indented 4 (''2 AS order''),
     indented 3 (''FROM clusterAllReplicas('%s', system.tables) tables''),
     indented 3 (''WHERE engine = 'Distributed'' @ [CHR 39]),
     indented 3 (''SETTINGS skip_unavailable_shards = 1''),
     indented 3 (''UNION ALL''),
     indented 3 (''SELECT ''),
     indented 4 (''extract(engine_full, 'Distributed'' @ [CHR 92, CHR 92] @ ''([^,]+, *'' @ [CHR 92] @ [CHR 39] @ ''?([^,'' @ [CHR 92] @ [CHR 39] @ '']+)'' @ [CHR 92] @ [CHR 39] @ ''?, *[^,]+') AS database, ''),
     indented 4 (''extract(engine_full, 'Distributed'' @ [CHR 92, CHR 92] @ ''([^,]+, [^,]+, *'' @ [CHR 92] @ [CHR 39] @ ''?([^,'' @ [CHR 92, CHR 92, CHR 92] @ [CHR 39] @ '')]+)') AS name,''),
     indented 4 (''t.create_table_query,''),
     indented 4 (''1 AS order''),
     indented 3 (''FROM clusterAllReplicas('%s', system.tables) tables''),
     indented 3 (''LEFT JOIN ''),
     indented 3 (''(''),
     indented 4 (''SELECT ''),
     indented 5 (''DISTINCT database, ''),
     indented 5 (''name, ''),
     indented 5 (''create_table_query ''),
     indented 4 (''FROM clusterAllReplicas('%s', system.tables)''),
     indented 4 (''SETTINGS skip_unavailable_shards = 1''),
     indented 3 ('') t ''),
     indented 3 (''USING (database, name)''),
     indented 3 (''WHERE engine = 'Distributed' AND t.create_table_query != '' @ [CHR 39, CHR 39]),
     indented 3 (''SETTINGS skip_unavailable_shards = 1''),
     indented 2 ('') tables''),
     indented 2 (''ORDER BY order''),
     indented 2 ([])]"

definition sqlReplicaDBs :: string where
  "sqlReplicaDBs = text_of [
     indented 0 ([]),
     indented 2 (''SELECT ''),
     indented 3 (''DISTINCT database AS name, ''),
     indented 3 (''concat('CREATE DATABASE IF NOT EXISTS '' @ [CHR 34] @ [CHR 39] @ '', name, '' @ [CHR 39] @ [CHR 34] @ [CHR 39] @ '') AS create_db_query''),
     indented 2 (''FROM clusterAllReplicas('%s', system.tables) tables''),
     indented 2 (''WHERE database != 'system'' @ [CHR 39]),
     indented 2 (''SETTINGS skip_unavailable_shards = 1''),
     indented 2 ([])]"

definition sqlReplicaTables :: string where
  "sqlReplicaTables = text_of [
     indented 0 ([]),
     indented 2 (''SELECT ''),
     indented 3 (''DISTINCT name, ''),
     indented 3 (''replaceRegexpOne(create_table_query, 'CREATE (TABLE|VIEW|MATERIALIZED VIEW|DICTIONARY)', 'CREATE '' @ [CHR 92, CHR 92] @ ''1 IF NOT EXISTS')''),
     indented 2 (''FROM clusterAllReplicas('%s', system.tables) tables''),
     indented 2 (''WHERE database != 'system' AND create_table_query != '' @ [CHR 39, CHR 39] @ '' AND name NOT LIKE '.inner.%%'' @ [CHR 39]),
     indented 2 (''SETTINGS skip_unavailable_shards = 1''),
     indented 2 ([])]"

definition sqlDropTables :: string where
  "sqlDropTables = text_of [
     indented 0 ([]),
     indented 2 (''SELECT''),
     indented 3 (''DISTINCT name, ''),
     indented 3 (''concat('DROP TABLE IF EXISTS '' @ [CHR 34] @ [CHR 39] @ '', database, '' @ [CHR 39] @ [CHR 34] @ ''.'' @ [CHR 34] @ [CHR 39] @ '', name, '' @ [CHR 39] @ [CHR 34] @ [CHR 39] @ '') AS drop_table_query''),
     indented 2 (''FROM system.tables''),
     indented 2 (''WHERE engine LIKE 'Replicated%'' @ [CHR 39])]"

definition sqlSyncTables :: string where
  "sqlSyncTables = text_of [
     indented 0 ([]),
     indented 2 (''SELECT''),
     indented 3 (''DISTINCT name, ''),
     indented 3 (''concat('SYSTEM SYNC REPLICA '' @ [CHR 34] @ [CHR 39] @ '', database, '' @ [CHR 39] @ [CHR 34] @ ''.'' @ [CHR 34] @ [CHR 39] @ '', name, '' @ [CHR 39] @ [CHR 34] @ [CHR 39] @ '') AS sync_table_query''),
     indented 2 (''FROM system.tables''),
     indented 2 (''WHERE engine LIKE 'Replicated%'' @ [CHR 39])]"


section \<open>The schema of a host\<close>

text \<open>The error of a listing is dropped by every caller.\<close>

definition list_objects :: "servers \<Rightarrow> scopes \<Rightarrow> string \<Rightarrow> string \<Rightarrow> db_state \<Rightarrow> (string list \<times> string list) \<times> db_state" where
  "list_objects db host sqlDBs sqlTables s = (
     let ((names1, sqlStatements1, _), s) = QueryUnzip2Columns db (sc_CHI host) sqlDBs s;
         ((names2, sqlStatements2, _), s) = QueryUnzip2Columns db (sc_CHI host) sqlTables s
     in ((names1 @ names2, sqlStatements1 @ sqlStatements2), s))"

definition getCreateDistributedObjects ::
    "servers \<Rightarrow> scopes \<Rightarrow> string \<Rightarrow> db_state \<Rightarrow> (string list \<times> string list) \<times> db_state" where
  "getCreateDistributedObjects db host clusterName s = (
     let (ended, s) = look db s in
     if ended then (([], []), s)
     else if length (sc_Cluster host) \<le> 1 then (([], []), s)
     else list_objects db host (sprintf (db_Heredoc db sqlDistributedDBs) [clusterName])
       (sprintf (db_Heredoc db sqlDistributedTables) [clusterName, clusterName, clusterName]) s)"

definition getCreateReplicaObjects ::
    "servers \<Rightarrow> scopes \<Rightarrow> string \<Rightarrow> db_state \<Rightarrow> (string list \<times> string list) \<times> db_state" where
  "getCreateReplicaObjects db host clusterName s = (
     let (ended, s) = look db s in
     if ended then (([], []), s)
     else if length (sc_Shard host) \<le> 1 then (([], []), s)
     else list_objects db host (sprintf (db_Heredoc db sqlReplicaDBs) [clusterName])
       (sprintf (db_Heredoc db sqlReplicaTables) [clusterName]) s)"

definition hostGetDropTables :: "servers \<Rightarrow> scopes \<Rightarrow> db_state \<Rightarrow> (string list \<times> string list) \<times> db_state" where
  "hostGetDropTables db host s = (
     let ((names, sqlStatements, _), s) = QueryUnzip2Columns db (sc_Host host) (db_Heredoc db sqlDropTables) s
     in ((names, sqlStatements), s))"

definition hostGetSyncTables :: "servers \<Rightarrow> scopes \<Rightarrow> db_state \<Rightarrow> (string list \<times> string list) \<times> db_state" where
  "hostGetSyncTables db host s = (
     let ((names, sqlStatements, _), s) = QueryUnzip2Columns db (sc_Host host) (db_Heredoc db sqlSyncTables) s
     in ((names, sqlStatements), s))"

definition HostSyncTables :: "servers \<Rightarrow> scopes \<Rightarrow> db_state \<Rightarrow> sql_error option \<times> db_state" where
  "HostSyncTables db host s = (
     let ((tableNames, syncTableSQLs), s) = hostGetSyncTables db host s
     in ExecHost db host syncTableSQLs [Some NewQueryOptions] s)"

definition HostDropReplica :: "servers \<Rightarrow> scopes \<Rightarrow> string \<Rightarrow> db_state \<Rightarrow> sql_error option \<times> db_state" where
  "HostDropReplica db hostToRun replicaHostname s =
     ExecHost db hostToRun [sprintf (''SYSTEM DROP REPLICA '%s'' @ [CHR 39]) [replicaHostname]] [] s"

definition create_objects ::
    "servers \<Rightarrow> scopes \<Rightarrow> string list \<Rightarrow> db_state \<Rightarrow> sql_error option \<times> db_state" where
  "create_objects db host createSQLs s = (if length createSQLs > 0
     then ExecHost db host createSQLs [SetRetry True (Some NewQueryOptions)] s else (None, s))"

definition HostCreateTables :: "servers \<Rightarrow> scopes \<Rightarrow> string \<Rightarrow> db_state \<Rightarrow> sql_error option \<times> db_state" where
  "HostCreateTables db host clusterName s = (
     let (ended, s) = look db s in
     if ended then (None, s)
     else
       let ((names, createSQLs), s) = getCreateReplicaObjects db host clusterName s;
           (err1, s) = create_objects db host createSQLs s;
           ((names, createSQLs), s) = getCreateDistributedObjects db host clusterName s;
           (err2, s) = create_objects db host createSQLs s
       in (if err2 \<noteq> None then err2 else if err1 \<noteq> None then err1 else None, s))"

definition HostDropTables :: "servers \<Rightarrow> scopes \<Rightarrow> db_state \<Rightarrow> sql_error option \<times> db_state" where
  "HostDropTables db host s = (
     let ((tableNames, dropTableSQLs), s) = hostGetDropTables db host s
     in ExecHost db host dropTableSQLs [] s)"

definition HostShutdown :: "servers \<Rightarrow> scopes \<Rightarrow> db_state \<Rightarrow> sql_error option \<times> db_state" where
  "HostShutdown db host s = ExecHost db host [''SYSTEM SHUTDOWN''] [] s"

definition HostPing :: "servers \<Rightarrow> scopes \<Rightarrow> db_state \<Rightarrow> sql_error option \<times> db_state" where
  "HostPing db host s = ExecHost db host [''SELECT 1''] [SetRetry True (Some NewQueryOptions)] s"

definition IsHostInCluster :: "servers \<Rightarrow> scopes \<Rightarrow> db_state \<Rightarrow> bool \<times> db_state" where
  "IsHostInCluster db host s = (
     let SQLs = [sprintf (db_Heredoc db (''SELECT throwIf(count()=0) FROM system.clusters WHERE cluster='%s' '' @ ''AND is_local''))
           [allShardsOneReplicaClusterName]];
         (err, s) = ExecHost db host SQLs [SetSilent True (Some NewQueryOptions)] s
     in (err = None, s))"

definition CHIDropDnsCache :: "servers \<Rightarrow> string list \<Rightarrow> db_state \<Rightarrow> sql_error option \<times> db_state" where
  "CHIDropDnsCache db hosts s = ExecCHI db hosts [''SYSTEM DROP DNS CACHE''] [] s"

definition HostActiveQueriesNum :: "servers \<Rightarrow> scopes \<Rightarrow> db_state \<Rightarrow> (sql_error + int) \<times> db_state" where
  "HostActiveQueriesNum db host s = QueryHostInt db host ''SELECT count() FROM system.processes'' s"


section \<open>What an execution leaves behind\<close>

text \<open>After the first \<open>n\<close> calls a query, or the form that attaches its table, was executed without an error.\<close>

definition executed :: "servers \<Rightarrow> nat \<Rightarrow> sql_call list \<Rightarrow> string \<Rightarrow> bool" where
  "executed db n calls sql \<longleftrightarrow> list_ex (\<lambda>k. db_Exec db (take (Suc k) calls) = None
     \<and> (case calls ! k of ExecCall host q \<Rightarrow> q = sql \<or> q = ReplaceAll sql ''CREATE TABLE'' ''ATTACH TABLE''
        | QueryCall host q \<Rightarrow> False)) [n..<length calls]"

lemma executed_append:
  assumes "executed db n calls sql"
  shows "executed db n (calls @ more_calls) sql"
proof -
  from assms obtain k where "k \<in> {n..<length calls}" "db_Exec db (take (Suc k) calls) = None"
    "case calls ! k of ExecCall host q \<Rightarrow> q = sql \<or> q = ReplaceAll sql ''CREATE TABLE'' ''ATTACH TABLE''
        | QueryCall host q \<Rightarrow> False" by (auto simp: executed_def list_ex_iff)
  then show ?thesis
    unfolding executed_def list_ex_iff by (intro bexI [of _ k]) (auto simp: nth_append)
qed

lemma executed_last:
  "db_Exec db (calls @ [ExecCall host q]) = None \<Longrightarrow> q = sql \<or> q = ReplaceAll sql ''CREATE TABLE'' ''ATTACH TABLE''
    \<Longrightarrow> n \<le> length calls \<Longrightarrow> executed db n (calls @ [ExecCall host q]) sql"
  unfolding executed_def list_ex_iff by (intro bexI [of _ "length calls"]) (auto simp: nth_append)

text \<open>From one state to another: calls were added, and a query that is gone was executed.\<close>

definition progress :: "servers \<Rightarrow> nat \<Rightarrow> string list \<Rightarrow> db_state \<Rightarrow> string list \<Rightarrow> db_state \<Rightarrow> bool" where
  "progress db n queries s queries' s' \<longleftrightarrow> n \<le> length (ds_Calls s) \<and> (\<exists>new. ds_Calls s' = ds_Calls s @ new)
     \<and> list_all2 (\<lambda>q q'. q' = q \<or> q' = [] \<and> executed db n (ds_Calls s') q) queries queries'"

lemma progress_refl: "n \<le> length (ds_Calls s) \<Longrightarrow> ds_Calls s' = ds_Calls s \<Longrightarrow> progress db n queries s queries s'"
  by (simp add: progress_def list_all2_refl)

lemma progress_trans:
  assumes "progress db n queries s queries' s'" and "progress db n queries' s' queries'' s''"
  shows "progress db n queries s queries'' s''"
proof -
  from assms obtain new where new: "ds_Calls s'' = ds_Calls s' @ new" by (auto simp: progress_def)
  have "list_all2 (\<lambda>q q'. q' = q \<or> q' = [] \<and> executed db n (ds_Calls s'') q) queries queries''"
  proof (rule list_all2_trans [OF _ _ _])
    show "list_all2 (\<lambda>q q'. q' = q \<or> q' = [] \<and> executed db n (ds_Calls s') q) queries queries'"
      and "list_all2 (\<lambda>q q'. q' = q \<or> q' = [] \<and> executed db n (ds_Calls s'') q) queries' queries''"
      using assms by (simp_all add: progress_def)
  qed (use executed_append [of db n "ds_Calls s'" _ new] new in auto)
  with assms show ?thesis unfolding progress_def by auto
qed

lemma look_simps [simp]:
  "ds_Calls (snd (look db s)) = ds_Calls s" "fst (look db s) = db_Done db (ds_Looks s)"
  by (simp_all add: look_def)

lemma look_state:
  obtains s1 where "look db s = (db_Done db (ds_Looks s), s1)" and "ds_Calls s1 = ds_Calls s"
  by (simp add: look_def)

lemma ReplaceAll_nonempty: "sql \<noteq> [] \<Longrightarrow> ReplaceAll sql old (c # new) \<noteq> []"
  by (subst ReplaceAll.simps) (simp split: list.split)

lemma Connection_Exec_calls:
  "sql \<noteq> [] \<Longrightarrow> Connection_Exec db host sql s
     = (db_Exec db (ds_Calls s @ [ExecCall host sql]), s\<lparr>ds_Calls := ds_Calls s @ [ExecCall host sql]\<rparr>)"
  by (simp add: Connection_Exec_def Let_def)

lemma exec_or_attach_calls:
  assumes "sql \<noteq> []" and "n \<le> length (ds_Calls s)" and "exec_or_attach db host sql s = (err, s')"
  shows "\<exists>new. ds_Calls s' = ds_Calls s @ new \<and> length new \<le> 2"
    and "err = None \<Longrightarrow> executed db n (ds_Calls s') sql"
proof -
  let ?sql = "ReplaceAll sql ''CREATE TABLE'' ''ATTACH TABLE''"
  let ?calls = "ds_Calls s @ [ExecCall host sql]"
  have two: "err = db_Exec db (?calls @ [ExecCall host ?sql]) \<and> ds_Calls s' = ?calls @ [ExecCall host ?sql]"
    if "db_Exec db ?calls = Some e" "contains (error_text e) ''Code: 253,'' \<and> contains sql ''CREATE TABLE''" for e
    using assms(3) that ReplaceAll_nonempty [OF assms(1)]
    by (auto simp: exec_or_attach_def Connection_Exec_calls [OF assms(1)] Connection_Exec_calls)
  have one: "err = db_Exec db ?calls \<and> ds_Calls s' = ?calls"
    if "\<not> (\<exists>e. db_Exec db ?calls = Some e \<and> contains (error_text e) ''Code: 253,'' \<and> contains sql ''CREATE TABLE'')"
    using assms(3) that
    by (cases "db_Exec db ?calls") (auto simp: exec_or_attach_def Connection_Exec_calls [OF assms(1)] split: if_splits)
  show "\<exists>new. ds_Calls s' = ds_Calls s @ new \<and> length new \<le> 2"
    using one two by (cases "\<exists>e. db_Exec db ?calls = Some e \<and> contains (error_text e) ''Code: 253,''
      \<and> contains sql ''CREATE TABLE''") auto
  show "executed db n (ds_Calls s') sql" if "err = None"
  proof (cases "\<exists>e. db_Exec db ?calls = Some e \<and> contains (error_text e) ''Code: 253,'' \<and> contains sql ''CREATE TABLE''")
    case True
    with two that have "db_Exec db (?calls @ [ExecCall host ?sql]) = None" "ds_Calls s' = ?calls @ [ExecCall host ?sql]"
      by auto
    with executed_last [of db ?calls host ?sql sql n] assms(2) show ?thesis by (simp del: append_assoc)
  next
    case False
    with one that have "db_Exec db ?calls = None" "ds_Calls s' = ?calls" by auto
    with executed_last [of db "ds_Calls s" host sql sql n] assms(2) show ?thesis by simp
  qed
qed

lemma try_queries_progress:
  assumes "try_queries db host queries s = (errors, queries', s')" and "n \<le> length (ds_Calls s)"
  shows "progress db n queries s queries' s' \<and> length (ds_Calls s') \<le> length (ds_Calls s) + 2 * length queries
    \<and> (errors = Some [] \<longrightarrow> set queries' \<subseteq> {[]})"
  using assms
proof (induction queries arbitrary: s errors queries' s')
  case Nil
  then show ?case by (simp add: progress_refl)
next
  case (Cons sql queries)
  obtain s1 where s1: "look db s = (db_Done db (ds_Looks s), s1)" and c1: "ds_Calls s1 = ds_Calls s" by (rule look_state)
  show ?case
  proof (cases "db_Done db (ds_Looks s)")
    case True
    with Cons.prems s1 c1 show ?thesis by (auto simp: progress_refl)
  next
    case False
    note notdone = this
    show ?thesis
    proof (cases "sql = []")
      case True
      obtain es qs s2 where r: "try_queries db host queries s1 = (es, qs, s2)" by (metis prod_cases3)
      from Cons.IH [OF r] Cons.prems(2) c1 have ih: "progress db n queries s1 qs s2"
        "length (ds_Calls s2) \<le> length (ds_Calls s) + 2 * length queries" "es = Some [] \<longrightarrow> set qs \<subseteq> {[]}" by simp_all
      from Cons.prems(1) s1 notdone True r have e: "errors = es" "queries' = sql # qs" "s' = s2" by simp_all
      show ?thesis using ih True unfolding e progress_def c1 by auto
    next
      case False
      obtain err s2 where x: "exec_or_attach db host sql s1 = (err, s2)" by fastforce
      obtain es qs s3 where r: "try_queries db host queries s2 = (es, qs, s3)" by (metis prod_cases3)
      from exec_or_attach_calls(1) [OF False _ x] Cons.prems(2) c1
      obtain new where new: "ds_Calls s2 = ds_Calls s @ new" "length new \<le> 2" by auto
      have ex: "err = None \<Longrightarrow> executed db n (ds_Calls s2) sql"
        using exec_or_attach_calls(2) [OF False _ x] Cons.prems(2) c1 by simp
      from Cons.IH [OF r] Cons.prems(2) new have ih: "progress db n queries s2 qs s3"
        "length (ds_Calls s3) \<le> length (ds_Calls s2) + 2 * length queries" "es = Some [] \<longrightarrow> set qs \<subseteq> {[]}" by simp_all
      from Cons.prems(1) s1 notdone False x r
      have e: "errors = map_option (\<lambda>es. case err of None \<Rightarrow> es | Some e \<Rightarrow> e # es) es"
        "queries' = (if err = None then [] else sql) # qs" "s' = s3" by simp_all
      from ih(1) obtain new' where new': "ds_Calls s3 = ds_Calls s2 @ new'" by (auto simp: progress_def)
      have "err = None \<Longrightarrow> executed db n (ds_Calls s3) sql" using ex executed_append new' by simp
      then have "progress db n (sql # queries) s queries' s'"
        using ih(1) new Cons.prems(2) unfolding e progress_def by (cases err) auto
      moreover have "errors = Some [] \<longrightarrow> set queries' \<subseteq> {[]}" using ih(3) unfolding e by (cases err) auto
      ultimately show ?thesis using ih(2) new unfolding e by simp
    qed
  qed
qed


text \<open>Servers that are asked without a deadline: the context never ends and no answer says so.\<close>

definition patient :: "servers \<Rightarrow> bool" where
  "patient db \<longleftrightarrow> (\<forall>k. \<not> db_Done db k) \<and> (\<forall>calls. db_Exec db calls \<noteq> Some ContextCanceled)"

lemma exec_or_attach_patient:
  "patient db \<Longrightarrow> sql \<noteq> [] \<Longrightarrow> exec_or_attach db host sql s = (err, s') \<Longrightarrow> err \<noteq> Some ContextCanceled"
  by (auto simp: exec_or_attach_def Connection_Exec_def patient_def Let_def split: option.splits if_splits)

lemma try_queries_patient:
  "patient db \<Longrightarrow> try_queries db host queries s = (errors, queries', s')
    \<Longrightarrow> \<exists>es. errors = Some es \<and> ContextCanceled \<notin> set es"
proof (induction queries arbitrary: s errors queries' s')
  case (Cons sql queries)
  obtain s1 where s1: "look db s = (False, s1)" using Cons.prems(1) by (auto simp: look_def patient_def)
  show ?case
  proof (cases "sql = []")
    case True
    obtain es qs s2 where r: "try_queries db host queries s1 = (es, qs, s2)" by (metis prod_cases3)
    from Cons.IH [OF Cons.prems(1) r] Cons.prems(2) s1 r True show ?thesis by auto
  next
    case False
    obtain err s2 where x: "exec_or_attach db host sql s1 = (err, s2)" by fastforce
    obtain es qs s3 where r: "try_queries db host queries s2 = (es, qs, s3)" by (metis prod_cases3)
    from Cons.IH [OF Cons.prems(1) r] exec_or_attach_patient [OF Cons.prems(1) False x] Cons.prems(2) s1 x r False
    show ?thesis by (auto split: option.split)
  qed
qed auto

lemma progress_length: "progress db n queries s queries' s' \<Longrightarrow> length queries' = length queries"
  by (auto simp: progress_def dest: list_all2_lengthD)

lemma progress_gone:
  assumes "progress db n queries s queries' s'" and "set queries' \<subseteq> {[]}" and "sql \<in> set queries" and "sql \<noteq> []"
  shows "executed db n (ds_Calls s') sql"
proof -
  from assms(3) obtain i where i: "i < length queries" "queries ! i = sql" by (auto simp: in_set_conv_nth)
  with assms(1) have "queries' ! i \<in> set queries'" by (simp add: progress_length)
  with assms(2) have "queries' ! i = []" by blast
  with i assms(1,4) show ?thesis by (auto simp: progress_def list_all2_conv_all_nth)
qed

lemma progress_calls: "progress db n queries s queries' s' \<Longrightarrow> n \<le> length (ds_Calls s')"
  by (auto simp: progress_def)

lemma retry_queries_progress:
  assumes "retry_queries db host tries queries err s = (r, queries', s')" and "n \<le> length (ds_Calls s)"
  shows "progress db n queries s queries' s'
    \<and> length (ds_Calls s') \<le> length (ds_Calls s) + tries * (2 * length queries)
    \<and> (patient db \<and> err \<noteq> Some ContextCanceled \<longrightarrow> r \<noteq> Some ContextCanceled)
    \<and> (patient db \<and> (0 < tries \<or> err \<noteq> None) \<and> r = None \<longrightarrow> set queries' \<subseteq> {[]})"
  using assms
proof (induction tries arbitrary: queries err s)
  case 0
  then show ?case by (auto simp: progress_refl)
next
  case (Suc tries)
  obtain s1 where s1: "look db s = (db_Done db (ds_Looks s), s1)" and c1: "ds_Calls s1 = ds_Calls s" by (rule look_state)
  show ?case
  proof (cases "db_Done db (ds_Looks s)")
    case True
    with Suc.prems s1 c1 show ?thesis by (auto simp: progress_refl patient_def)
  next
    case False
    obtain es qs s2 where t: "try_queries db host queries s1 = (es, qs, s2)" by (metis prod_cases3)
    from try_queries_progress [OF t] Suc.prems(2) c1
    have tp: "progress db n queries s1 qs s2" "length (ds_Calls s2) \<le> length (ds_Calls s) + 2 * length queries"
      "es = Some [] \<longrightarrow> set qs \<subseteq> {[]}" by simp_all
    have p0: "progress db n queries s queries s1" using Suc.prems(2) c1 by (simp add: progress_refl)
    show ?thesis
    proof (cases "first_error es")
      case None
      from Suc.prems(1) s1 False t None have e: "r = None" "queries' = qs" "s' = s2" by simp_all
      have "patient db \<longrightarrow> es = Some []"
        using try_queries_patient [OF _ t] None by (auto simp: first_error_def split: option.splits list.splits)
      with tp progress_trans [OF p0 tp(1)] show ?thesis unfolding e by (auto simp: trans_le_add1)
    next
      case (Some e0)
      with Suc.prems(1) s1 False t have r: "retry_queries db host tries qs (Some e0) s2 = (r, queries', s')" by simp
      have "patient db \<longrightarrow> e0 \<noteq> ContextCanceled"
        using try_queries_patient [OF _ t] Some by (auto simp: first_error_def split: option.splits list.splits)
      with Suc.IH [OF r progress_calls [OF tp(1)]] tp(2) progress_length [OF tp(1)]
        progress_trans [OF progress_trans [OF p0 tp(1)], of queries' s']
      show ?thesis by auto
    qed
  qed
qed

lemma normalized_again:
  "qo_Tries (QueryOptionsNormalize opts) \<noteq> 0"
  "QueryOptionsNormalize [Some (QueryOptionsNormalize opts)] = QueryOptionsNormalize opts"
proof -
  have n: "qo_Tries (QueryOptions_Normalize q) \<noteq> 0" for q
    by (simp add: QueryOptions_Normalize_def Let_def defaultMaxTries_def)
  show "qo_Tries (QueryOptionsNormalize opts) \<noteq> 0" by (simp add: QueryOptionsNormalize_def n split: list.split)
  then show "QueryOptionsNormalize [Some (QueryOptionsNormalize opts)] = QueryOptionsNormalize opts"
    by (simp add: QueryOptionsNormalize_def [of "[_]"] QueryOptions_Normalize_def Let_def)
qed

lemma exec_progress:
  assumes "exec db host queries [Some (QueryOptionsNormalize opts)] s = (r, queries', s')" and "n \<le> length (ds_Calls s)"
  shows "progress db n queries s queries' s'
    \<and> length (ds_Calls s') \<le> length (ds_Calls s) + nat (qo_Tries (QueryOptionsNormalize opts)) * (2 * length queries)
    \<and> (patient db \<and> 0 < qo_Tries (QueryOptionsNormalize opts) \<and> r = None \<longrightarrow> set queries' \<subseteq> {[]})"
proof -
  obtain s1 where s1: "look db s = (db_Done db (ds_Looks s), s1)" and c1: "ds_Calls s1 = ds_Calls s" by (rule look_state)
  show ?thesis
  proof (cases "db_Done db (ds_Looks s)")
    case True
    with assms s1 c1 show ?thesis by (auto simp: exec_def progress_refl patient_def)
  next
    case False
    obtain err qs s2 where t: "retry_queries db host (nat (qo_Tries (QueryOptionsNormalize opts))) queries None s1
        = (err, qs, s2)" by (metis prod_cases3)
    from assms(1) s1 False t have e: "r = (if ErrIsNotCanceled err then err else None)" "queries' = qs" "s' = s2"
      by (simp_all add: exec_def normalized_again)
    have p0: "progress db n queries s queries s1" using assms(2) c1 by (simp add: progress_refl)
    from retry_queries_progress [OF t, of n] assms(2) c1 progress_trans [OF p0, of qs s2]
    show ?thesis unfolding e by (cases err) (auto simp: ErrIsNotCanceled_def split: if_splits)
  qed
qed

lemma exec_hosts_progress:
  assumes "exec_hosts db hosts queries (QueryOptionsNormalize opts) s = (errors, queries', s')" and "n \<le> length (ds_Calls s)"
  shows "progress db n queries s queries' s'
    \<and> length (ds_Calls s') \<le> length (ds_Calls s)
        + length hosts * (nat (qo_Tries (QueryOptionsNormalize opts)) * (2 * length queries))
    \<and> (patient db \<and> 0 < qo_Tries (QueryOptionsNormalize opts) \<and> errors = [] \<and> hosts \<noteq> [] \<longrightarrow> set queries' \<subseteq> {[]})"
  using assms
proof (induction hosts arbitrary: queries s errors queries' s')
  case Nil
  then show ?case by (auto simp: progress_refl)
next
  case (Cons host hosts)
  obtain err qs s1 where x: "exec db host queries [Some (QueryOptionsNormalize opts)] s = (err, qs, s1)" by (metis prod_cases3)
  obtain es qs2 s2 where r: "exec_hosts db hosts qs (QueryOptionsNormalize opts) s1 = (es, qs2, s2)" by (metis prod_cases3)
  from exec_progress [OF x Cons.prems(2)] have xp: "progress db n queries s qs s1"
    "length (ds_Calls s1) \<le> length (ds_Calls s) + nat (qo_Tries (QueryOptionsNormalize opts)) * (2 * length queries)"
    "patient db \<and> 0 < qo_Tries (QueryOptionsNormalize opts) \<and> err = None \<longrightarrow> set qs \<subseteq> {[]}" by blast+
  from Cons.IH [OF r progress_calls [OF xp(1)]] have rp: "progress db n qs s1 qs2 s2"
    "length (ds_Calls s2) \<le> length (ds_Calls s1) + length hosts * (nat (qo_Tries (QueryOptionsNormalize opts)) * (2 * length qs))"
    "patient db \<and> 0 < qo_Tries (QueryOptionsNormalize opts) \<and> es = [] \<and> hosts \<noteq> [] \<longrightarrow> set qs2 \<subseteq> {[]}"
    by blast+
  from Cons.prems(1) x r have e: "errors = (case err of None \<Rightarrow> es | Some e \<Rightarrow> e # es)" "queries' = qs2" "s' = s2"
    by simp_all
  have "set qs \<subseteq> {[]} \<Longrightarrow> set qs2 \<subseteq> {[]}"
  proof -
    assume "set qs \<subseteq> {[]}"
    with rp(1) show "set qs2 \<subseteq> {[]}"
      by (force simp: progress_def list_all2_conv_all_nth set_conv_nth)
  qed
  with xp rp progress_trans [OF xp(1) rp(1)] progress_length [OF xp(1)] show ?case
    unfolding e by (auto split: option.splits)
qed


section \<open>Queries that are gone stay gone\<close>

lemma try_queries_gone:
  "set queries \<subseteq> {[]} \<Longrightarrow> \<exists>errors s'. try_queries db host queries s = (errors, queries, s')
    \<and> errors \<in> {None, Some []} \<and> ds_Calls s' = ds_Calls s"
proof (induction queries arbitrary: s)
  case (Cons sql queries)
  obtain s1 where s1: "look db s = (db_Done db (ds_Looks s), s1)" and c1: "ds_Calls s1 = ds_Calls s" by (rule look_state)
  from Cons.IH [of s1] Cons.prems obtain errors s2 where
    "try_queries db host queries s1 = (errors, queries, s2)" "errors \<in> {None, Some []}" "ds_Calls s2 = ds_Calls s1" by auto
  with Cons.prems s1 c1 show ?case by (auto split: prod.splits)
qed simp

lemma retry_queries_gone:
  assumes "set queries \<subseteq> {[]}"
  shows "\<exists>s'. retry_queries db host tries queries None s = (None, queries, s') \<and> ds_Calls s' = ds_Calls s"
proof (cases tries)
  case (Suc n)
  obtain s1 where s1: "look db s = (db_Done db (ds_Looks s), s1)" and c1: "ds_Calls s1 = ds_Calls s" by (rule look_state)
  from try_queries_gone [OF assms] obtain errors s2 where
    "try_queries db host queries s1 = (errors, queries, s2)" "errors \<in> {None, Some []}" "ds_Calls s2 = ds_Calls s1" by blast
  with Suc s1 c1 show ?thesis by (auto simp: first_error_def)
qed simp

lemma exec_gone:
  assumes "set queries \<subseteq> {[]}"
  shows "\<exists>s'. exec db host queries opts s = (None, queries, s') \<and> ds_Calls s' = ds_Calls s"
proof -
  obtain s1 where s1: "look db s = (db_Done db (ds_Looks s), s1)" and c1: "ds_Calls s1 = ds_Calls s" by (rule look_state)
  from retry_queries_gone [OF assms] obtain s2 where
    "retry_queries db host (nat (qo_Tries (QueryOptionsNormalize opts))) queries None s1 = (None, queries, s2)"
    "ds_Calls s2 = ds_Calls s1" by blast
  with s1 c1 show ?thesis by (simp add: exec_def ErrIsNotCanceled_def)
qed

lemma exec_hosts_gone:
  assumes "set queries \<subseteq> {[]}"
  shows "\<exists>s'. exec_hosts db hosts queries opts s = ([], queries, s') \<and> ds_Calls s' = ds_Calls s"
proof (induction hosts arbitrary: s)
  case (Cons host hosts)
  from exec_gone [OF assms] obtain s1 where x: "exec db host queries [Some opts] s = (None, queries, s1)"
    and c: "ds_Calls s1 = ds_Calls s" by blast
  from Cons.IH [of s1] x c show ?case by auto
qed simp

lemma ExecAll_gone:
  assumes "set queries \<subseteq> {[]}"
  shows "fst (ExecAll db hosts queries opts s) = None" "ds_Calls (snd (ExecAll db hosts queries opts s)) = ds_Calls s"
proof -
  obtain s1 where s1: "look db s = (db_Done db (ds_Looks s), s1)" and c1: "ds_Calls s1 = ds_Calls s" by (rule look_state)
  from exec_hosts_gone [OF assms] obtain s2 where
    "exec_hosts db hosts queries (QueryOptionsNormalize opts) s1 = ([], queries, s2)" "ds_Calls s2 = ds_Calls s1" by blast
  with s1 c1 show "fst (ExecAll db hosts queries opts s) = None"
    "ds_Calls (snd (ExecAll db hosts queries opts s)) = ds_Calls s"
    by (simp_all add: ExecAll_def first_error_def)
qed

section \<open>A host that answers\<close>

text \<open>The context does not end and the host executes whatever it is given.\<close>

definition answers :: "servers \<Rightarrow> string \<Rightarrow> bool" where
  "answers db host \<longleftrightarrow> (\<forall>k. \<not> db_Done db k) \<and> (\<forall>calls sql. db_Exec db (calls @ [ExecCall host sql]) = None)"

lemma try_queries_answers:
  assumes "answers db host"
  shows "\<exists>s'. try_queries db host queries s = (Some [], map (\<lambda>sql. []) queries, s')
    \<and> ds_Calls s' = ds_Calls s @ map (ExecCall host) (filter (\<lambda>sql. sql \<noteq> []) queries)"
proof (induction queries arbitrary: s)
  case (Cons sql queries)
  obtain s1 where s1: "look db s = (False, s1)" and c1: "ds_Calls s1 = ds_Calls s"
    using assms by (auto simp: look_def answers_def)
  show ?case
  proof (cases "sql = []")
    case True
    with Cons.IH [of s1] s1 c1 show ?thesis by auto
  next
    case False
    let ?s = "s1\<lparr>ds_Calls := ds_Calls s1 @ [ExecCall host sql]\<rparr>"
    have "exec_or_attach db host sql s1 = (None, ?s)"
      using assms False by (simp add: exec_or_attach_def Connection_Exec_calls answers_def)
    with Cons.IH [of ?s] s1 c1 False show ?thesis by auto
  qed
qed simp

lemma exec_answers:
  assumes "answers db host" and "0 < qo_Tries (QueryOptionsNormalize opts)"
  shows "\<exists>s'. exec db host queries opts s = (None, map (\<lambda>sql. []) queries, s')
    \<and> ds_Calls s' = ds_Calls s @ map (ExecCall host) (filter (\<lambda>sql. sql \<noteq> []) queries)"
proof -
  obtain n where n: "nat (qo_Tries (QueryOptionsNormalize opts)) = Suc n" using assms(2) by (metis zero_less_nat_eq Suc_pred)
  obtain s1 where s1: "look db s = (False, s1)" and c1: "ds_Calls s1 = ds_Calls s"
    using assms(1) by (auto simp: look_def answers_def)
  obtain s2 where s2: "look db s1 = (False, s2)" and c2: "ds_Calls s2 = ds_Calls s"
    using assms(1) c1 by (auto simp: look_def answers_def)
  from try_queries_answers [OF assms(1)] obtain s3 where
    "try_queries db host queries s2 = (Some [], map (\<lambda>sql. []) queries, s3)"
    "ds_Calls s3 = ds_Calls s2 @ map (ExecCall host) (filter (\<lambda>sql. sql \<noteq> []) queries)" by blast
  with n s1 s2 c2 show ?thesis by (simp add: exec_def first_error_def ErrIsNotCanceled_def)
qed

text \<open>
  C34: Statements that are run over an installation reach the first host only, when it answers: it is sent each of them
  once, the other hosts are sent nothing, and the run succeeds. The list of statements is shared by the
  hosts and a statement that was executed is cleared in it.
\<close>

theorem executed_on_first_host_only:
  assumes "answers db host" and "0 < qo_Tries (QueryOptionsNormalize opts)"
  shows "fst (ExecCHI db (host # hosts) SQLs opts s) = None
    \<and> ds_Calls (snd (ExecCHI db (host # hosts) SQLs opts s))
        = ds_Calls s @ map (ExecCall host) (filter (\<lambda>sql. sql \<noteq> []) SQLs)"
proof -
  let ?opts = "QueryOptionsNormalize opts"
  obtain s1 where s1: "look db s = (False, s1)" and c1: "ds_Calls s1 = ds_Calls s"
    using assms(1) by (auto simp: look_def answers_def)
  from exec_answers [OF assms(1), of "[Some ?opts]" SQLs s1] assms(2) obtain s2 where
    x: "exec db host SQLs [Some ?opts] s1 = (None, map (\<lambda>sql. []) SQLs, s2)"
    "ds_Calls s2 = ds_Calls s1 @ map (ExecCall host) (filter (\<lambda>sql. sql \<noteq> []) SQLs)" by (auto simp: normalized_again)
  have "set (map (\<lambda>sql. []) SQLs) \<subseteq> {[]}" by auto
  from exec_hosts_gone [OF this] obtain s3 where
    "exec_hosts db hosts (map (\<lambda>sql. []) SQLs) ?opts s2 = ([], map (\<lambda>sql. []) SQLs, s3)" "ds_Calls s3 = ds_Calls s2" by blast
  with s1 c1 x show ?thesis by (simp add: ExecCHI_def ExecAll_def normalized_again first_error_def)
qed

lemma executed_on_first_host_only_witness:
  "let db = \<lparr>db_Done = \<lambda>k. False, db_Exec = \<lambda>calls. None, db_Query = \<lambda>calls. Inl BadRow, db_Heredoc = \<lambda>text. text\<rparr>;
       r = CHIDropDnsCache db [''a'', ''b'', ''c''] \<lparr>ds_Calls = [], ds_Looks = 0\<rparr>
   in fst r = None \<and> ds_Calls (snd r) = [ExecCall ''a'' ''SYSTEM DROP DNS CACHE'']"
proof -
  have one: "qo_Tries (QueryOptionsNormalize []) = 1"
    by (simp add: QueryOptionsNormalize_def QueryOptions_Normalize_def NewQueryOptions_def Let_def)
  show ?thesis
    unfolding Let_def CHIDropDnsCache_def
    by (subst executed_on_first_host_only, simp add: answers_def, simp add: one)+
      (simp add: executed_on_first_host_only [of _ "''a''"] answers_def one)
qed

text \<open>
  C33: When a run over some hosts reports no error, every statement of it was executed, as it is or in the form that
  attaches its table, by a call made during the run that the server accepted: provided that the context did not
  end and at least one try was allowed. The run makes at most two calls for each statement, try and host.
\<close>

theorem success_means_executed:
  assumes "patient db" and "0 < qo_Tries (QueryOptionsNormalize opts)" and "hosts \<noteq> []"
    and "ExecAll db hosts queries opts s = (None, s')"
  shows "(\<forall>sql \<in> set queries. sql \<noteq> [] \<longrightarrow> executed db (length (ds_Calls s)) (ds_Calls s') sql)
    \<and> length (ds_Calls s') \<le> length (ds_Calls s)
        + length hosts * (nat (qo_Tries (QueryOptionsNormalize opts)) * (2 * length queries))"
proof -
  obtain s1 where s1: "look db s = (False, s1)" and c1: "ds_Calls s1 = ds_Calls s"
    using assms(1) by (auto simp: look_def patient_def)
  obtain es qs s2 where x: "exec_hosts db hosts queries (QueryOptionsNormalize opts) s1 = (es, qs, s2)" by (metis prod_cases3)
  with assms(4) s1 have e: "es = []" "s' = s2"
    by (auto simp: ExecAll_def first_error_def split: list.splits)
  from exec_hosts_progress [OF x, of "length (ds_Calls s)"] assms c1 e
  have p: "progress db (length (ds_Calls s)) queries s1 qs s'" "set qs \<subseteq> {[]}"
    "length (ds_Calls s') \<le> length (ds_Calls s)
        + length hosts * (nat (qo_Tries (QueryOptionsNormalize opts)) * (2 * length queries))" by auto
  from p(3) progress_gone [OF p(1,2)] show ?thesis by blast
qed

lemma success_means_executed_witness:
  "let db = \<lparr>db_Done = \<lambda>k. False, db_Exec = \<lambda>calls. if length calls = 1 then Some (ServerError ''Code: 253, there'') else None,
         db_Query = \<lambda>calls. Inl BadRow, db_Heredoc = \<lambda>text. text\<rparr>
   in executed db 0 [ExecCall ''a'' ''CREATE TABLE t'', ExecCall ''a'' ''ATTACH TABLE t''] ''CREATE TABLE t''"
proof -
  let ?db = "\<lparr>db_Done = \<lambda>k. False, db_Exec = \<lambda>calls. if length calls = 1 then Some (ServerError ''Code: 253, there'') else None,
         db_Query = \<lambda>calls. Inl BadRow, db_Heredoc = \<lambda>text. text\<rparr>"
  let ?calls = "[ExecCall ''a'' ''CREATE TABLE t'', ExecCall ''a'' ''ATTACH TABLE t'']"
  have "patient ?db" by (simp add: patient_def)
  moreover have "0 < qo_Tries (QueryOptionsNormalize [])" by code_simp
  moreover have "ExecAll ?db [''a''] [''CREATE TABLE t''] [] \<lparr>ds_Calls = [], ds_Looks = 0\<rparr>
      = (None, \<lparr>ds_Calls = ?calls, ds_Looks = 4\<rparr>)" by code_simp
  ultimately show ?thesis
    using success_means_executed [of ?db "[]" "[''a'']" "[''CREATE TABLE t'']" "\<lparr>ds_Calls = [], ds_Looks = 0\<rparr>"] by simp
qed

section \<open>Listings that fail\<close>

definition executions :: "db_state \<Rightarrow> sql_call list" where
  "executions s = filter (\<lambda>c. case c of ExecCall host sql \<Rightarrow> True | QueryCall host sql \<Rightarrow> False) (ds_Calls s)"

lemma executions_look [simp]: "executions (snd (look db s)) = executions s"
  by (simp add: executions_def)

lemma executions_query [simp]: "executions (snd (Connection_QueryContext db host sql s)) = executions s"
  by (simp add: Connection_QueryContext_def executions_def Let_def)

definition unanswered :: "servers \<Rightarrow> bool" where
  "unanswered db \<longleftrightarrow> (\<forall>calls. \<exists>e. db_Query db calls = Inl e)"

lemma query_hosts_unanswered:
  assumes "unanswered db"
  shows "\<exists>answer s'. query_hosts db hosts sql s = (answer, s') \<and> answer \<in> {Inl QueryFailedEverywhere, Inr None}
    \<and> executions s' = executions s"
proof (induction hosts arbitrary: s)
  case (Cons host hosts)
  obtain ended s1 where s1: "look db s = (ended, s1)" by fastforce
  obtain answer s2 where s2: "Connection_QueryContext db host sql s1 = (answer, s2)" by fastforce
  have same: "executions s1 = executions s" "executions s2 = executions s1"
    using executions_look [of db s] executions_query [of db host sql s1] s1 s2 by auto
  have "answer = Inr None \<or> (\<exists>e. answer = Inl e)"
    using assms s2 by (auto simp: Connection_QueryContext_def unanswered_def Let_def split: if_splits sum.splits)
      (metis sum.distinct(1))+
  with Cons.IH [of s2] s1 s2 same show ?case by auto
qed simp

lemma unzip_unanswered:
  assumes "unanswered db"
  shows "\<exists>s'. QueryUnzip2Columns db hosts sql s = (([], [], None), s') \<and> executions s' = executions s"
proof -
  obtain ended s1 where s1: "look db s = (ended, s1)" by fastforce
  with executions_look [of db s] have c1: "executions s1 = executions s" by simp
  from query_hosts_unanswered [OF assms] obtain answer s2 where "query_hosts db hosts sql s1 = (answer, s2)"
    "answer \<in> {Inl QueryFailedEverywhere, Inr None}" "executions s2 = executions s1" by blast
  with s1 c1 show ?thesis by (auto simp: QueryUnzip2Columns_def queryUnzipColumns_def QueryAny_def)
qed

lemma list_objects_unanswered:
  assumes "unanswered db"
  shows "\<exists>s'. list_objects db host sqlDBs sqlTables s = (([], []), s') \<and> executions s' = executions s"
proof -
  from unzip_unanswered [OF assms] obtain s1 where s1: "QueryUnzip2Columns db (sc_CHI host) sqlDBs s = (([], [], None), s1)"
    "executions s1 = executions s" by blast
  from unzip_unanswered [OF assms] obtain s2 where s2: "QueryUnzip2Columns db (sc_CHI host) sqlTables s1 = (([], [], None), s2)"
    "executions s2 = executions s1" by blast
  from s1 s2 show ?thesis by (simp add: list_objects_def)
qed

lemma getCreate_unanswered:
  assumes "unanswered db"
  shows "\<exists>s'. getCreateReplicaObjects db host cluster s = (([], []), s') \<and> executions s' = executions s"
    and "\<exists>s'. getCreateDistributedObjects db host cluster s = (([], []), s') \<and> executions s' = executions s"
proof -
  obtain ended s1 where s1: "look db s = (ended, s1)" by fastforce
  with executions_look [of db s] have c1: "executions s1 = executions s" by simp
  have lists: "\<exists>s'. list_objects db host sqlDBs sqlTables s1 = (([], []), s') \<and> executions s' = executions s" for sqlDBs sqlTables
    using list_objects_unanswered [OF assms, of host sqlDBs sqlTables s1] c1 by simp
  show "\<exists>s'. getCreateReplicaObjects db host cluster s = (([], []), s') \<and> executions s' = executions s"
    using s1 c1 lists by (simp add: getCreateReplicaObjects_def)
  show "\<exists>s'. getCreateDistributedObjects db host cluster s = (([], []), s') \<and> executions s' = executions s"
    using s1 c1 lists by (simp add: getCreateDistributedObjects_def)
qed

lemma ExecHost_nothing:
  "fst (ExecHost db host [] opts s) = None" "executions (snd (ExecHost db host [] opts s)) = executions s"
  by (simp_all add: ExecHost_def ExecAll_gone executions_def)

lemma executions_create [simp]: "create_objects db host [] s = (None, s)"
  by (simp add: create_objects_def)


lemma HostCreateTables_unanswered:
  assumes "unanswered db"
  shows "fst (HostCreateTables db host cluster s) = None \<and> executions (snd (HostCreateTables db host cluster s)) = executions s"
proof -
  obtain ended s1 where s1: "look db s = (ended, s1)" by fastforce
  with executions_look [of db s] have c1: "executions s1 = executions s" by simp
  from getCreate_unanswered(1) [OF assms] obtain s2 where
    s2: "getCreateReplicaObjects db host cluster s1 = (([], []), s2)" "executions s2 = executions s1" by blast
  from getCreate_unanswered(2) [OF assms] obtain s3 where
    s3: "getCreateDistributedObjects db host cluster s2 = (([], []), s3)" "executions s3 = executions s2" by blast
  from s1 s2 s3 c1 show ?thesis by (simp add: HostCreateTables_def)
qed

lemma QueryHostInt_unanswered:
  assumes "unanswered db"
  shows "fst (QueryHostInt db host sql s) = Inr 0"
proof -
  obtain ended s1 where s1: "look db s = (ended, s1)" by fastforce
  from query_hosts_unanswered [OF assms] obtain answer s2 where "query_hosts db (sc_Host host) sql s1 = (answer, s2)"
    "answer \<in> {Inl QueryFailedEverywhere, Inr None}" by blast
  with s1 show ?thesis by (auto simp: QueryHostInt_def QueryHost_def QueryAny_def)
qed

text \<open>
  C35: When no host answers a query, dropping, syncing and creating the tables of a host report no error and
  execute nothing, and the host counts as one without running queries: a failed listing passes for an empty one.
\<close>

theorem failed_listing_passes:
  assumes "unanswered db"
  shows "fst (HostDropTables db host s) = None \<and> executions (snd (HostDropTables db host s)) = executions s
    \<and> fst (HostSyncTables db host s) = None \<and> executions (snd (HostSyncTables db host s)) = executions s
    \<and> fst (HostCreateTables db host cluster s) = None
    \<and> executions (snd (HostCreateTables db host cluster s)) = executions s
    \<and> fst (HostActiveQueriesNum db host s) = Inr 0"
proof -
  from unzip_unanswered [OF assms] obtain s1 where
    d: "QueryUnzip2Columns db (sc_Host host) (db_Heredoc db sqlDropTables) s = (([], [], None), s1)"
    "executions s1 = executions s" by blast
  from unzip_unanswered [OF assms] obtain s2 where
    y: "QueryUnzip2Columns db (sc_Host host) (db_Heredoc db sqlSyncTables) s = (([], [], None), s2)"
    "executions s2 = executions s" by blast
  have "fst (HostDropTables db host s) = None" "executions (snd (HostDropTables db host s)) = executions s"
    using d by (simp_all add: HostDropTables_def hostGetDropTables_def ExecHost_nothing)
  moreover have "fst (HostSyncTables db host s) = None" "executions (snd (HostSyncTables db host s)) = executions s"
    using y by (simp_all add: HostSyncTables_def hostGetSyncTables_def ExecHost_nothing)
  ultimately show ?thesis
    using HostCreateTables_unanswered [OF assms] QueryHostInt_unanswered [OF assms]
    by (simp add: HostActiveQueriesNum_def)
qed

lemma failed_listing_passes_witness:
  "let db = \<lparr>db_Done = \<lambda>k. False, db_Exec = \<lambda>calls. Some (ServerError ''refused''),
         db_Query = \<lambda>calls. Inl (ServerError ''refused''), db_Heredoc = \<lambda>text. text\<rparr>;
       host = \<lparr>sc_Host = [''a''], sc_Shard = [''a'', ''b''], sc_Cluster = [''a'', ''b''], sc_CHI = [''a'', ''b'']\<rparr>
   in fst (HostDropTables db host \<lparr>ds_Calls = [], ds_Looks = 0\<rparr>) = None
     \<and> executions (snd (HostDropTables db host \<lparr>ds_Calls = [], ds_Looks = 0\<rparr>)) = []"
  unfolding Let_def
  by (subst failed_listing_passes, simp add: unanswered_def)+ (simp add: executions_def)

end
