(* ===== verification/Exporter.thy ===== *)
theory Exporter
  imports ChopConfig Schemer
begin

text \<open>
  The metrics exporter, \<open>pkg/apis/metrics\<close>, and the connections it and the operator take from the pool,
  \<open>pkg/model/clickhouse\<close> (\<open>endpoint_credentials.go\<close>, \<open>connection_params.go\<close>, \<open>timeouts.go\<close>, \<open>pool.go\<close>). The exporter
  keeps the installations it is told to watch and, when Prometheus scrapes it, queries each of their hosts. A
  request and the end of a scrape are taken as one step each: the exporter changes its table under a mutex,
  which a scrape holds until it has asked all hosts. JSON is decoded before a request reaches the model. Of the
  client library of Prometheus two things are parameters: the name it makes, and what becomes of a sample.
\<close>

section \<open>Credentials and pooled connections\<close>

definition chDsnUrlPattern :: string where "chDsnUrlPattern = ''http://%s%s:%s/''"
definition usernameReplacer :: string where "usernameReplacer = ''***''"
definition passwordReplacer :: string where "passwordReplacer = ''***''"
definition dsnUsernamePasswordPairPattern :: string where "dsnUsernamePasswordPairPattern = ''%s:%s@''"
definition dsnUsernamePasswordPairUsernameOnlyPattern :: string where
  "dsnUsernamePasswordPairUsernameOnlyPattern = ''%s@''"

record EndpointCredentials =
  ec_hostname :: string
  ec_username :: string
  ec_password :: string
  ec_port :: int
  ec_dsn :: string
  ec_dsnHiddenCredentials :: string

definition makeUsernamePassword :: "bool \<Rightarrow> EndpointCredentials \<Rightarrow> string" where
  "makeUsernamePassword hidden c = (
     if hidden then sprintf dsnUsernamePasswordPairPattern [usernameReplacer, passwordReplacer]
     else if ec_username c = [] \<and> ec_password c = [] then []
     else if ec_password c = [] then sprintf dsnUsernamePasswordPairUsernameOnlyPattern [ec_username c]
     else sprintf dsnUsernamePasswordPairPattern [ec_username c, ec_password c])"

definition makeDSN :: "bool \<Rightarrow> EndpointCredentials \<Rightarrow> string" where
  "makeDSN hideCredentials c =
     sprintf chDsnUrlPattern [makeUsernamePassword hideCredentials c, ec_hostname c, Itoa (ec_port c)]"

definition NewEndpointCredentials :: "string \<Rightarrow> string \<Rightarrow> string \<Rightarrow> int \<Rightarrow> EndpointCredentials" where
  "NewEndpointCredentials hostname username password port = (
     let params = \<lparr>ec_hostname = hostname, ec_username = username, ec_password = password, ec_port = port,
           ec_dsn = [], ec_dsnHiddenCredentials = []\<rparr>;
         params = params\<lparr>ec_dsn := makeDSN False params\<rparr>
     in params\<lparr>ec_dsnHiddenCredentials := makeDSN True params\<rparr>)"

text \<open>Timeouts are counted in seconds.\<close>

record Timeouts =
  to_connect :: int
  to_query :: int

definition NewTimeouts :: Timeouts where
  "NewTimeouts = \<lparr>to_connect = 10, to_query = 60\<rparr>"

record ConnectionParams =
  cp_Credentials :: EndpointCredentials
  cp_Timeouts :: Timeouts

definition NewConnectionParams :: "string \<Rightarrow> string \<Rightarrow> string \<Rightarrow> int \<Rightarrow> ConnectionParams" where
  "NewConnectionParams hostname username password port =
     \<lparr>cp_Credentials = NewEndpointCredentials hostname username password port, cp_Timeouts = NewTimeouts\<rparr>"

definition SetQueryTimeout :: "int \<Rightarrow> ConnectionParams \<Rightarrow> ConnectionParams" where
  "SetQueryTimeout timeout p = p\<lparr>cp_Timeouts := (cp_Timeouts p)\<lparr>to_query := timeout\<rparr>\<rparr>"

text \<open>A connection is known by the parameters it was made with, the pool by the key of each.\<close>

definition makePoolKey :: "ConnectionParams \<Rightarrow> string" where
  "makePoolKey params = ec_dsn (cp_Credentials params)"

definition GetPooledDBConnection ::
    "ConnectionParams \<Rightarrow> (string, ConnectionParams) gmap \<Rightarrow> ConnectionParams option \<times> (string, ConnectionParams) gmap" where
  "GetPooledDBConnection params pool = (
     let key = makePoolKey params in
     case gget pool key of
       Some connection \<Rightarrow> (Some connection, pool)
     | None \<Rightarrow> let pool = gput key params pool in (gget pool key, pool))"

section \<open>Watched installations\<close>

record WatchedCHI =
  wc_Namespace :: string
  wc_Name :: string
  wc_Hostnames :: "string list"

definition watched_empty :: "WatchedCHI \<Rightarrow> bool" where
  "watched_empty chi \<longleftrightarrow> length (wc_Namespace chi) = 0 \<and> length (wc_Name chi) = 0 \<and> length (wc_Hostnames chi) = 0"

definition isValid :: "WatchedCHI \<Rightarrow> bool" where
  "isValid chi = (\<not> watched_empty chi)"

definition watched_equal :: "WatchedCHI \<Rightarrow> WatchedCHI \<Rightarrow> bool" where
  "watched_equal chi chi2 = (
     if wc_Namespace chi \<noteq> wc_Namespace chi2 then False
     else if wc_Name chi \<noteq> wc_Name chi2 then False
     else if length (wc_Hostnames chi) \<noteq> length (wc_Hostnames chi2) then False
     else list_all (\<lambda>i. wc_Hostnames chi ! i = wc_Hostnames chi2 ! i) [0..<length (wc_Hostnames chi)])"

definition indexKey :: "WatchedCHI \<Rightarrow> string" where
  "indexKey chi = wc_Namespace chi @ '':'' @ wc_Name chi"

text \<open>Every request to delete is an entry of its own among those to be removed.\<close>

record Exporter =
  ex_Installations :: "(string, WatchedCHI) gmap"
  ex_ToRemove :: "WatchedCHI list"

definition NewExporter :: Exporter where
  "NewExporter = \<lparr>ex_Installations = [], ex_ToRemove = []\<rparr>"

definition Slice :: "(string, WatchedCHI) gmap \<Rightarrow> WatchedCHI list" where
  "Slice i = map snd i"

definition getWatchedCHIs :: "Exporter \<Rightarrow> WatchedCHI list" where
  "getWatchedCHIs e = Slice (ex_Installations e)"

definition enqueueToRemoveFromWatched :: "WatchedCHI \<Rightarrow> Exporter \<Rightarrow> Exporter" where
  "enqueueToRemoveFromWatched chi e = e\<lparr>ex_ToRemove := ex_ToRemove e @ [chi]\<rparr>"

definition removeFromWatched :: "WatchedCHI \<Rightarrow> Exporter \<Rightarrow> Exporter" where
  "removeFromWatched chi e = (if ghas (ex_Installations e) (indexKey chi)
     then e\<lparr>ex_Installations := gdel (indexKey chi) (ex_Installations e)\<rparr> else e)"

definition updateWatched :: "WatchedCHI \<Rightarrow> Exporter \<Rightarrow> Exporter" where
  "updateWatched chi e = (
     let add = e\<lparr>ex_Installations := gput (indexKey chi) chi (ex_Installations e)\<rparr> in
     case gget (ex_Installations e) (indexKey chi) of
       Some knownChi \<Rightarrow> if watched_equal chi knownChi then e else add
     | None \<Rightarrow> add)"

definition UpdateWatch :: "string \<Rightarrow> string \<Rightarrow> string list \<Rightarrow> Exporter \<Rightarrow> Exporter" where
  "UpdateWatch namespace chiName hostnames =
     updateWatched \<lparr>wc_Namespace = namespace, wc_Name = chiName, wc_Hostnames = hostnames\<rparr>"

text \<open>What a scrape does when it is over: the installations to be removed are taken out, and forgotten.\<close>

definition after_collect :: "Exporter \<Rightarrow> Exporter" where
  "after_collect e = fold removeFromWatched (ex_ToRemove e) (e\<lparr>ex_ToRemove := []\<rparr>)"

text \<open>The installations that are there when the exporter starts; a listing that fails is \<open>None\<close>.\<close>

definition DiscoveryWatchedCHIs ::
    "OperatorConfig \<Rightarrow> (string \<Rightarrow> Installation list option) \<Rightarrow> Exporter \<Rightarrow> Exporter" where
  "DiscoveryWatchedCHIs config lister e = (
     case lister (GetInformerNamespace config) of
       None \<Rightarrow> e
     | Some items \<Rightarrow> fold (\<lambda>chi e. if IsStopped chi then e
         else updateWatched \<lparr>wc_Namespace = om_Namespace (in_Meta chi), wc_Name = om_Name (in_Meta chi),
           wc_Hostnames = cs_FQDNs (in_Status chi)\<rparr> e) items e)"

section \<open>Requests\<close>

datatype http_method = HttpGet | HttpPost | HttpDelete | HttpOther

text \<open>The body is what JSON decodes to, \<open>None\<close> when it does not.\<close>

record http_request =
  hr_Path :: string
  hr_Method :: http_method
  hr_Body :: "WatchedCHI option"

datatype http_reply = ReplyOk | ReplyList "WatchedCHI list" | ReplyNotAcceptable | ReplyNotFound | ReplySorry

definition fetchCHI :: "http_request \<Rightarrow> WatchedCHI option" where
  "fetchCHI r = (case hr_Body r of None \<Rightarrow> None | Some chi \<Rightarrow> if isValid chi then Some chi else None)"

definition getWatchedCHI :: "Exporter \<Rightarrow> http_reply \<times> Exporter" where
  "getWatchedCHI e = (ReplyList (getWatchedCHIs e), e)"

definition updateWatchedCHI :: "http_request \<Rightarrow> Exporter \<Rightarrow> http_reply \<times> Exporter" where
  "updateWatchedCHI r e = (case fetchCHI r of Some chi \<Rightarrow> (ReplyOk, updateWatched chi e)
     | None \<Rightarrow> (ReplyNotAcceptable, e))"

definition deleteWatchedCHI :: "http_request \<Rightarrow> Exporter \<Rightarrow> http_reply \<times> Exporter" where
  "deleteWatchedCHI r e = (case fetchCHI r of Some chi \<Rightarrow> (ReplyOk, enqueueToRemoveFromWatched chi e)
     | None \<Rightarrow> (ReplyNotAcceptable, e))"

definition ServeHTTP :: "http_request \<Rightarrow> Exporter \<Rightarrow> http_reply \<times> Exporter" where
  "ServeHTTP r e = (
     if hr_Path r \<noteq> ''/chi'' then (ReplyNotFound, e)
     else case hr_Method r of
       HttpGet \<Rightarrow> getWatchedCHI e
     | HttpPost \<Rightarrow> updateWatchedCHI r e
     | HttpDelete \<Rightarrow> deleteWatchedCHI r e
     | HttpOther \<Rightarrow> (ReplySorry, e))"

text \<open>What the operator asks the exporter for.\<close>

definition InformMetricsExporterAboutWatchedCHI :: "string \<Rightarrow> string \<Rightarrow> string list \<Rightarrow> http_request" where
  "InformMetricsExporterAboutWatchedCHI namespace chiName hostnames =
     \<lparr>hr_Path = ''/chi'', hr_Method = HttpPost,
      hr_Body = Some \<lparr>wc_Namespace = namespace, wc_Name = chiName, wc_Hostnames = hostnames\<rparr>\<rparr>"

definition InformMetricsExporterToDeleteWatchedCHI :: "string \<Rightarrow> string \<Rightarrow> http_request" where
  "InformMetricsExporterToDeleteWatchedCHI namespace chiName =
     \<lparr>hr_Path = ''/chi'', hr_Method = HttpDelete,
      hr_Body = Some \<lparr>wc_Namespace = namespace, wc_Name = chiName, wc_Hostnames = []\<rparr>\<rparr>"

section \<open>Queries\<close>

definition querySystemReplicasSQL :: string where
  "querySystemReplicasSQL = text_of [
     indented 0 ([]),
     indented 2 (''SELECT''),
     indented 3 (''database,''),
     indented 3 (''table,''),
     indented 3 (''toString(is_session_expired) AS is_session_expired''),
     indented 2 (''FROM system.replicas''),
     indented 1 ([])]"

definition queryMetricsSQL :: string where
  "queryMetricsSQL = text_of [
     indented 0 ([]),
     indented 0 (''    '' @ [CHR 9] @ ''SELECT''),
     indented 0 (''        '' @ [CHR 9] @ ''concat('metric.', metric) AS metric,''),
     indented 0 (''        '' @ [CHR 9] @ ''toString(value)           AS value, ''),
     indented 0 (''        '' @ [CHR 9] @ [CHR 39, CHR 39] @ ''                        AS description, ''),
     indented 0 (''        '' @ [CHR 9] @ [CHR 39] @ ''gauge'                   AS type''),
     indented 0 (''    '' @ [CHR 9] @ ''FROM system.asynchronous_metrics''),
     indented 0 (''    '' @ [CHR 9] @ ''UNION ALL ''),
     indented 0 (''    '' @ [CHR 9] @ ''SELECT ''),
     indented 1 (''        concat('metric.', metric) AS metric, ''),
     indented 1 (''        toString(value)           AS value, ''),
     indented 0 (''    '' @ [CHR 9] @ ''    '' @ [CHR 39, CHR 39] @ ''                        AS description,       ''),
     indented 1 (''        'gauge'                   AS type   ''),
     indented 1 (''    FROM system.metrics''),
     indented 1 (''    UNION ALL ''),
     indented 1 (''    SELECT''),
     indented 1 (''        concat('event.', event)   AS metric,''),
     indented 1 (''        toString(value)           AS value,''),
     indented 1 (''        '' @ [CHR 39, CHR 39] @ ''                        AS description,''),
     indented 1 (''        'counter'                 AS type''),
     indented 1 (''    FROM system.events''),
     indented 1 (''    UNION ALL''),
     indented 1 (''    SELECT ''),
     indented 1 (''        'metric.DiskDataBytes'                      AS metric,''),
     indented 1 (''        toString(sum(bytes_on_disk))                AS value,''),
     indented 1 (''        'Total data size for all ClickHouse tables' AS description,''),
     indented 2 (''    'gauge'                                     AS type''),
     indented 1 (''    FROM system.parts''),
     indented 1 (''    UNION ALL''),
     indented 1 (''    SELECT ''),
     indented 1 (''        'metric.MemoryPrimaryKeyBytesAllocated'              AS metric,''),
     indented 1 (''        toString(sum(primary_key_bytes_in_memory_allocated)) AS value,''),
     indented 1 (''        'Memory size allocated for primary keys'             AS description,''),
     indented 1 (''        'gauge'                                              AS type''),
     indented 1 (''    FROM system.parts''),
     indented 1 (''    UNION ALL''),
     indented 1 (''    SELECT ''),
     indented 1 (''        'metric.MemoryDictionaryBytesAllocated'  AS metric,''),
     indented 1 (''        toString(sum(bytes_allocated))           AS value,''),
     indented 1 (''        'Memory size allocated for dictionaries' AS description,''),
     indented 1 (''        'gauge'                                  AS type''),
     indented 1 (''    FROM system.dictionaries''),
     indented 1 (''    UNION ALL''),
     indented 1 (''    SELECT''),
     indented 2 ([CHR 39] @ ''metric.LongestRunningQuery' AS metric,''),
     indented 2 (''toString(max(elapsed))       AS value,''),
     indented 2 ([CHR 39] @ ''Longest running query time' AS description,''),
     indented 2 ([CHR 39] @ ''gauge'                      AS type''),
     indented 1 (''    FROM system.processes''),
     indented 2 (''UNION ALL''),
     indented 2 (''SELECT''),
     indented 2 ([CHR 39] @ ''metric.ChangedSettingsHash'       AS metric,''),
     indented 2 (''toString(groupBitXor(cityHash64(name,value))) AS value,''),
     indented 2 ([CHR 39] @ ''Control sum for changed settings' AS description,''),
     indented 2 ([CHR 39] @ ''gauge'                            AS type''),
     indented 2 (''FROM system.settings WHERE changed''),
     indented 1 ([])]"

definition queryTableSizesSQL :: string where
  "queryTableSizesSQL = text_of [
     indented 0 ([]),
     indented 2 (''SELECT''),
     indented 3 (''database,''),
     indented 3 (''table,''),
     indented 3 (''toString(active)                       AS active,''),
     indented 3 (''toString(uniq(partition))              AS partitions, ''),
     indented 3 (''toString(count())                      AS parts, ''),
     indented 3 (''toString(sum(bytes))                   AS bytes, ''),
     indented 3 (''toString(sum(data_uncompressed_bytes)) AS uncompressed_bytes, ''),
     indented 3 (''toString(sum(rows))                    AS rows ''),
     indented 2 (''FROM system.parts''),
     indented 2 (''GROUP BY active, database, table''),
     indented 1 ([])]"

definition queryMutationsSQL :: string where
  "queryMutationsSQL = text_of [
     indented 0 ([]),
     indented 2 (''SELECT''),
     indented 3 (''database,''),
     indented 3 (''table,''),
     indented 3 (''count()          AS mutations,''),
     indented 3 (''sum(parts_to_do) AS parts_to_do ''),
     indented 2 (''FROM system.mutations ''),
     indented 2 (''WHERE is_done = 0 ''),
     indented 2 (''GROUP BY database, table''),
     indented 1 ([])]"

definition querySystemDisksSQL :: string where
  "querySystemDisksSQL = text_of [
     indented 0 ([]),
     indented 1 (''    SELECT ''),
     indented 1 (''        name,''),
     indented 0 (''            toString(free_space) AS free_space,''),
     indented 3 (''toString(total_space) AS total_space'' @ [CHR 9] @ [CHR 9] @ [CHR 9]),
     indented 0 (''        FROM system.disks''),
     indented 1 ([])]"

definition queryDetachedPartsSQL :: string where
  "queryDetachedPartsSQL = text_of [
     indented 0 ([]),
     indented 2 (''SELECT ''),
     indented 3 (''count() AS detached_parts,''),
     indented 3 (''database,''),
     indented 3 (''table,''),
     indented 3 (''disk,''),
     indented 3 (''if(coalesce(reason,'unknown')='' @ [CHR 39, CHR 39] @ '','detached_by_user',coalesce(reason,'unknown')) AS detach_reason''),
     indented 2 (''FROM system.detached_parts''),
     indented 2 (''GROUP BY''),
     indented 3 (''database,''),
     indented 3 (''table,''),
     indented 3 (''disk,''),
     indented 3 (''reason''),
     indented 0 (''    '')]"

text \<open>A row is taken when it has as many columns as the query asks for.\<close>

definition clickHouseQueryScanRows ::
    "servers \<Rightarrow> string \<Rightarrow> string \<Rightarrow> nat \<Rightarrow> db_state \<Rightarrow> (sql_error + string list list) go \<times> db_state" where
  "clickHouseQueryScanRows db host sql width s = (
     let (answer, s) = Connection_QueryContext db host (db_Heredoc db sql) s
     in (case answer of
           Inl err \<Rightarrow> Inr (Inl err)
         | Inr None \<Rightarrow> Inl NilDereference
         | Inr (Some rows) \<Rightarrow> Inr (Inr (filter (\<lambda>row. length row = width) rows)), s))"

definition getClickHouseQueryMetrics ::
    "servers \<Rightarrow> string \<Rightarrow> db_state \<Rightarrow> (sql_error + string list list) go \<times> db_state" where
  "getClickHouseQueryMetrics db host = clickHouseQueryScanRows db host queryMetricsSQL 4"

definition getClickHouseQueryTableSizes ::
    "servers \<Rightarrow> string \<Rightarrow> db_state \<Rightarrow> (sql_error + string list list) go \<times> db_state" where
  "getClickHouseQueryTableSizes db host = clickHouseQueryScanRows db host queryTableSizesSQL 8"

definition getClickHouseQuerySystemReplicas ::
    "servers \<Rightarrow> string \<Rightarrow> db_state \<Rightarrow> (sql_error + string list list) go \<times> db_state" where
  "getClickHouseQuerySystemReplicas db host = clickHouseQueryScanRows db host querySystemReplicasSQL 3"

definition getClickHouseQueryMutations ::
    "servers \<Rightarrow> string \<Rightarrow> db_state \<Rightarrow> (sql_error + string list list) go \<times> db_state" where
  "getClickHouseQueryMutations db host = clickHouseQueryScanRows db host queryMutationsSQL 4"

definition getClickHouseQuerySystemDisks ::
    "servers \<Rightarrow> string \<Rightarrow> db_state \<Rightarrow> (sql_error + string list list) go \<times> db_state" where
  "getClickHouseQuerySystemDisks db host = clickHouseQueryScanRows db host querySystemDisksSQL 3"

definition getClickHouseQueryDetachedParts ::
    "servers \<Rightarrow> string \<Rightarrow> db_state \<Rightarrow> (sql_error + string list list) go \<times> db_state" where
  "getClickHouseQueryDetachedParts db host = clickHouseQueryScanRows db host queryDetachedPartsSQL 5"

section \<open>Samples\<close>

datatype ValueType = CounterValue | GaugeValue

text \<open>The value is the text that is read as a number.\<close>

record sample =
  sm_Name :: string
  sm_Help :: string
  sm_Value :: string
  sm_Type :: ValueType
  sm_Labels :: "string list"
  sm_LabelValues :: "string list"

datatype sample_outcome = Delivered | Refused | TimedOut

record prometheus =
  pm_BuildFQName :: "string \<Rightarrow> string \<Rightarrow> string \<Rightarrow> string"
  pm_Outcome :: "(sample \<times> sample_outcome) list \<Rightarrow> sample \<Rightarrow> sample_outcome"

record PrometheusWriter =
  pw_Prometheus :: prometheus
  pw_CHI :: WatchedCHI
  pw_Hostname :: string

type_synonym samples = "(sample \<times> sample_outcome) list"

definition exporterNamespace :: string where "exporterNamespace = ''chi''"
definition exporterSubsystem :: string where "exporterSubsystem = ''clickhouse''"

definition convertMetricName :: "string \<Rightarrow> string" where
  "convertMetricName name = map (\<lambda>c. if c = CHR ''.'' then CHR ''_'' else c) name"

definition writeSingleMetricToPrometheus ::
    "PrometheusWriter \<Rightarrow> string \<Rightarrow> string \<Rightarrow> string \<Rightarrow> ValueType \<Rightarrow> string list \<Rightarrow> string list \<Rightarrow> samples \<Rightarrow> samples" where
  "writeSingleMetricToPrometheus w name desc text metricType labels labelValues out = (
     let m = \<lparr>sm_Name = pm_BuildFQName (pw_Prometheus w) exporterNamespace exporterSubsystem name, sm_Help = desc,
           sm_Value = text, sm_Type = metricType, sm_Labels = labels, sm_LabelValues = labelValues\<rparr>
     in out @ [(m, pm_Outcome (pw_Prometheus w) out m)])"

text \<open>The labels of a sample start with the place it comes from.\<close>

definition placed :: "string list \<Rightarrow> string list" where
  "placed labels = [''chi'', ''namespace'', ''hostname''] @ labels"

definition place_of :: "PrometheusWriter \<Rightarrow> string list \<Rightarrow> string list" where
  "place_of w labelValues = [wc_Name (pw_CHI w), wc_Namespace (pw_CHI w), pw_Hostname w] @ labelValues"

definition write_gauge ::
    "PrometheusWriter \<Rightarrow> string list \<Rightarrow> int \<Rightarrow> string \<Rightarrow> string \<Rightarrow> string list \<Rightarrow> int list \<Rightarrow> samples \<Rightarrow> samples go" where
  "write_gauge w metric column name desc labels columns out =
     go_bind (go_nth metric column) (\<lambda>text.
     go_bind (go_fold (\<lambda>i vs. go_bind (go_nth metric i) (\<lambda>v. Inr (vs @ [v]))) columns []) (\<lambda>labelValues.
     Inr (writeSingleMetricToPrometheus w name desc text GaugeValue (placed labels) (place_of w labelValues) out)))"

definition WriteMetrics :: "PrometheusWriter \<Rightarrow> string list list \<Rightarrow> samples \<Rightarrow> samples go" where
  "WriteMetrics w data = go_fold (\<lambda>metric out.
     if length metric < 2 then Inr out
     else
       go_bind (go_nth metric 3) (\<lambda>type. go_bind (go_nth metric 0) (\<lambda>name.
       go_bind (go_nth metric 2) (\<lambda>desc. go_bind (go_nth metric 1) (\<lambda>text.
       Inr (writeSingleMetricToPrometheus w (convertMetricName name) desc text
         (if type = ''counter'' then CounterValue else GaugeValue) (placed []) (place_of w []) out)))))) data"

definition WriteTableSizes :: "PrometheusWriter \<Rightarrow> string list list \<Rightarrow> samples \<Rightarrow> samples go" where
  "WriteTableSizes w data = go_fold (\<lambda>metric out.
     let labels = [''database'', ''table'', ''active''] in
     if length metric < 2 then Inr out
     else
       go_bind (write_gauge w metric 3 ''table_partitions'' ''Number of partitions of the table'' labels [0, 1, 2] out) (\<lambda>out.
       go_bind (write_gauge w metric 4 ''table_parts'' ''Number of parts of the table'' labels [0, 1, 2] out) (\<lambda>out.
       go_bind (write_gauge w metric 5 ''table_parts_bytes'' ''Table size in bytes'' labels [0, 1, 2] out) (\<lambda>out.
       go_bind (write_gauge w metric 6 ''table_parts_bytes_uncompressed'' ''Table size in bytes uncompressed''
         labels [0, 1, 2] out) (\<lambda>out.
       write_gauge w metric 7 ''table_parts_rows'' ''Number of rows in the table'' labels [0, 1, 2] out))))) data"

definition WriteSystemReplicas :: "PrometheusWriter \<Rightarrow> string list list \<Rightarrow> samples \<Rightarrow> samples go" where
  "WriteSystemReplicas w data = go_fold (\<lambda>metric out.
     write_gauge w metric 2 ''system_replicas_is_session_expired'' ''Number of expired Zookeeper sessions of the table''
       [''database'', ''table''] [0, 1] out) data"

definition WriteMutations :: "PrometheusWriter \<Rightarrow> string list list \<Rightarrow> samples \<Rightarrow> samples go" where
  "WriteMutations w data = go_fold (\<lambda>metric out.
     go_bind (write_gauge w metric 2 ''table_mutations'' ''Number of active mutations for the table''
       [''database'', ''table''] [0, 1] out) (\<lambda>out.
     write_gauge w metric 3 ''table_mutations_parts_to_do''
       ''Number of data parts that need to be mutated for the mutation to finish'' [''database'', ''table''] [0, 1] out)) data"

definition WriteSystemDisks :: "PrometheusWriter \<Rightarrow> string list list \<Rightarrow> samples \<Rightarrow> samples go" where
  "WriteSystemDisks w data = go_fold (\<lambda>metric out.
     go_bind (write_gauge w metric 1 ''metric_DiskFreeBytes'' ''Free disk space available from system.disks''
       [''disk''] [0] out) (\<lambda>out.
     write_gauge w metric 2 ''metric_DiskTotalBytes'' ''Total disk space available from system.disks''
       [''disk''] [0] out)) data"

definition WriteDetachedParts :: "PrometheusWriter \<Rightarrow> string list list \<Rightarrow> samples \<Rightarrow> samples go" where
  "WriteDetachedParts w data = go_fold (\<lambda>metric out.
     write_gauge w metric 0 ''metric_DetachedParts'' ''Count of currently detached parts from system.detached_parts''
       [''database'', ''table'', ''disk'', ''reason''] [1, 2, 3, 4] out) data"

definition fetch_status :: string where
  "fetch_status = ''status of fetching metrics from ClickHouse 1 - unsuccessful, 0 - successful''"

definition WriteErrorFetch :: "PrometheusWriter \<Rightarrow> string \<Rightarrow> samples \<Rightarrow> samples" where
  "WriteErrorFetch w fetchType = writeSingleMetricToPrometheus w ''metric_fetch_errors'' fetch_status ''1'' GaugeValue
     (placed [''fetch_type'']) (place_of w [fetchType])"

definition WriteOKFetch :: "PrometheusWriter \<Rightarrow> string \<Rightarrow> samples \<Rightarrow> samples" where
  "WriteOKFetch w fetchType = writeSingleMetricToPrometheus w ''metric_fetch_errors'' fetch_status ''0'' GaugeValue
     (placed [''fetch_type'']) (place_of w [fetchType])"

section \<open>A scrape\<close>

text \<open>One fetch: the query, its samples, and the sample that says how the query went.\<close>

definition fetch_and_write ::
    "PrometheusWriter \<Rightarrow> string \<Rightarrow> (db_state \<Rightarrow> (sql_error + string list list) go \<times> db_state) \<Rightarrow>
     (PrometheusWriter \<Rightarrow> string list list \<Rightarrow> samples \<Rightarrow> samples go) \<Rightarrow> db_state \<times> samples \<Rightarrow> (db_state \<times> samples) go" where
  "fetch_and_write w fetchType fetch write_rows = (\<lambda>(s, out).
     let (answer, s) = fetch s in
     go_bind answer (\<lambda>answer. case answer of
       Inr data \<Rightarrow> go_bind (write_rows w data out) (\<lambda>out. Inr (s, WriteOKFetch w fetchType out))
     | Inl err \<Rightarrow> Inr (s, WriteErrorFetch w fetchType out)))"

definition collectFromHost ::
    "prometheus \<Rightarrow> servers \<Rightarrow> WatchedCHI \<Rightarrow> string \<Rightarrow> db_state \<times> samples \<Rightarrow> (db_state \<times> samples) go" where
  "collectFromHost p db chi hostname st = (
     let w = \<lparr>pw_Prometheus = p, pw_CHI = chi, pw_Hostname = hostname\<rparr> in
     go_bind (fetch_and_write w ''system.metrics'' (getClickHouseQueryMetrics db hostname) WriteMetrics st) (\<lambda>st.
     go_bind (fetch_and_write w ''table sizes'' (getClickHouseQueryTableSizes db hostname) WriteTableSizes st) (\<lambda>st.
     go_bind (fetch_and_write w ''system.replicas'' (getClickHouseQuerySystemReplicas db hostname) WriteSystemReplicas st) (\<lambda>st.
     go_bind (fetch_and_write w ''system.mutations'' (getClickHouseQueryMutations db hostname) WriteMutations st) (\<lambda>st.
     go_bind (fetch_and_write w ''system.disks'' (getClickHouseQuerySystemDisks db hostname) WriteSystemDisks st) (\<lambda>st.
     fetch_and_write w ''system.detached_parts'' (getClickHouseQueryDetachedParts db hostname) WriteDetachedParts st))))))"

text \<open>The hosts in the order in which their collections end up.\<close>

definition WalkWatchedChi :: "(WatchedCHI \<Rightarrow> string \<Rightarrow> 's \<Rightarrow> 's go) \<Rightarrow> Exporter \<Rightarrow> 's \<Rightarrow> 's go" where
  "WalkWatchedChi f e = go_fold (\<lambda>(key, chi). go_fold (f chi) (wc_Hostnames chi)) (ex_Installations e)"

definition Collect ::
    "prometheus \<Rightarrow> servers \<Rightarrow> Exporter \<Rightarrow> db_state \<Rightarrow> (Exporter \<times> db_state \<times> samples) go" where
  "Collect p db e s = go_bind (WalkWatchedChi (collectFromHost p db) e (s, [])) (\<lambda>(s, out).
     Inr (after_collect e, s, out))"


section \<open>The table of the exporter, key by key\<close>

lemma watched_equal_iff: "watched_equal c d \<longleftrightarrow> c = d"
proof -
  have same: "(if length xs \<noteq> length ys then False else list_all (\<lambda>i. xs ! i = ys ! i) [0..<length xs]) \<longleftrightarrow> xs = ys"
    for xs ys :: "string list" by (auto simp: list_all_iff intro: nth_equalityI)
  show ?thesis unfolding watched_equal_def same by (cases c; cases d) auto
qed

datatype exporter_event = HttpEvent http_request | Scraped

definition exporter_step :: "exporter_event \<Rightarrow> Exporter \<Rightarrow> Exporter" where
  "exporter_step event e = (case event of HttpEvent r \<Rightarrow> snd (ServeHTTP r e) | Scraped \<Rightarrow> after_collect e)"

text \<open>Of one key: what is watched under it, and whether it is to be removed.\<close>

definition key_view :: "string \<Rightarrow> Exporter \<Rightarrow> WatchedCHI option \<times> bool" where
  "key_view k e = (gget (ex_Installations e) k, list_ex (\<lambda>c. indexKey c = k) (ex_ToRemove e))"

definition key_spec :: "string \<Rightarrow> exporter_event \<Rightarrow> WatchedCHI option \<times> bool \<Rightarrow> WatchedCHI option \<times> bool" where
  "key_spec k event = (\<lambda>(watched, doomed). case event of
     Scraped \<Rightarrow> (if doomed then None else watched, False)
   | HttpEvent r \<Rightarrow> (case (hr_Path r = ''/chi'', hr_Method r, fetchCHI r) of
       (True, HttpPost, Some c) \<Rightarrow> (if indexKey c = k then Some c else watched, doomed)
     | (True, HttpDelete, Some c) \<Rightarrow> (watched, doomed \<or> indexKey c = k)
     | _ \<Rightarrow> (watched, doomed)))"

lemma updateWatched_view:
  "key_view k (updateWatched c e) = (if indexKey c = k then Some c else fst (key_view k e), snd (key_view k e))"
  by (auto simp: key_view_def updateWatched_def watched_equal_iff Let_def gmap_simps split: option.split)

lemma removeFromWatched_map: "gget (ex_Installations (removeFromWatched c e)) = (gget (ex_Installations e))(indexKey c := None)"
  by (auto simp: removeFromWatched_def ghas_def gmap_simps fun_eq_iff)

lemma removeFromWatched_rest: "ex_ToRemove (removeFromWatched c e) = ex_ToRemove e"
  by (simp add: removeFromWatched_def)

lemma fold_remove_view:
  "gget (ex_Installations (fold removeFromWatched cs e)) k
     = (if list_ex (\<lambda>c. indexKey c = k) cs then None else gget (ex_Installations e) k)"
  "ex_ToRemove (fold removeFromWatched cs e) = ex_ToRemove e"
  by (induction cs arbitrary: e) (auto simp: removeFromWatched_map removeFromWatched_rest)

lemma exporter_step_view: "key_view k (exporter_step event e) = key_spec k event (key_view k e)"
proof (cases event)
  case (HttpEvent r)
  then show ?thesis
    by (auto simp: exporter_step_def ServeHTTP_def key_spec_def getWatchedCHI_def updateWatchedCHI_def deleteWatchedCHI_def
        updateWatched_view split: http_method.split option.split)
      (auto simp: key_view_def enqueueToRemoveFromWatched_def)
next
  case Scraped
  then show ?thesis
    by (simp add: exporter_step_def after_collect_def key_spec_def key_view_def fold_remove_view split: prod.split)
qed

lemma exporter_steps_view: "key_view k (fold exporter_step events e) = fold (key_spec k) events (key_view k e)"
  by (induction events arbitrary: e) (simp_all add: exporter_step_view)

text \<open>
  C36: the exporter refines a table that is kept key by key: under each key the last installation it was told of
  is watched until the end of the first scrape after a request to forget it. The request outlives what comes
  after it: an installation that is announced again before that scrape, as one that was stopped and started or
  deleted and made anew is, is forgotten all the same.
\<close>

theorem exporter_keeps_watch:
  assumes "name \<noteq> []"
  shows "key_view k (fold exporter_step events NewExporter) = fold (key_spec k) events (None, False)
    \<and> key_view (namespace @ '':'' @ name)
        (fold exporter_step (events @ [HttpEvent (InformMetricsExporterToDeleteWatchedCHI namespace name),
           HttpEvent (InformMetricsExporterAboutWatchedCHI namespace name hostnames), Scraped]) NewExporter) = (None, False)"
proof -
  have new: "key_view k NewExporter = (None, False)" for k by (simp add: key_view_def NewExporter_def)
  let ?k = "namespace @ '':'' @ name"
  obtain watched doomed where before: "fold (key_spec ?k) events (None, False) = (watched, doomed)" by fastforce
  have "fold (key_spec ?k) [HttpEvent (InformMetricsExporterToDeleteWatchedCHI namespace name),
      HttpEvent (InformMetricsExporterAboutWatchedCHI namespace name hostnames), Scraped] (watched, doomed) = (None, False)"
    using assms by (simp add: key_spec_def InformMetricsExporterToDeleteWatchedCHI_def indexKey_def
        InformMetricsExporterAboutWatchedCHI_def fetchCHI_def isValid_def watched_empty_def)
  then show ?thesis unfolding exporter_steps_view new fold_append comp_def before by blast
qed

lemma exporter_keeps_watch_witness:
  "let restarted = [HttpEvent (InformMetricsExporterAboutWatchedCHI ''prod'' ''db'' [''a'']),
         HttpEvent (InformMetricsExporterToDeleteWatchedCHI ''prod'' ''db''),
         HttpEvent (InformMetricsExporterAboutWatchedCHI ''prod'' ''db'' [''a'']), Scraped]
   in key_view ''prod:db'' (fold exporter_step restarted NewExporter) = (None, False)"
  using exporter_keeps_watch [of "''db''" _ "[HttpEvent (InformMetricsExporterAboutWatchedCHI ''prod'' ''db'' [''a''])]"
      "''prod''" "[''a'']"] by (simp add: Let_def)

section \<open>What a scrape of a host gives\<close>

lemma go_fold_appends:
  assumes "\<And>x out. x \<in> set xs \<Longrightarrow> \<exists>new. f x out = Inr (out @ new) \<and> list_all P new"
  shows "\<exists>new. go_fold f xs out = Inr (out @ new) \<and> list_all P new"
  using assms
proof (induction xs arbitrary: out)
  case (Cons x xs)
  from Cons.prems [of x out] obtain new where new: "f x out = Inr (out @ new)" "list_all P new" by auto
  from Cons.IH [of "out @ new"] Cons.prems obtain rest where
    "go_fold f xs (out @ new) = Inr (out @ new @ rest)" "list_all P rest" by auto
  with new show ?case by (intro exI [of _ "new @ rest"]) simp
qed simp

text \<open>A sample that tells where it comes from and is none that says how a query went.\<close>

definition sample_of :: "PrometheusWriter \<Rightarrow> sample \<times> sample_outcome \<Rightarrow> bool" where
  "sample_of w = (\<lambda>(m, outcome). take 3 (sm_LabelValues m) = place_of w [] \<and> length (sm_Labels m) = length (sm_LabelValues m)
     \<and> sm_Labels m \<noteq> placed [''fetch_type''])"

lemma write_gauge_row:
  assumes "column < length row" and "list_all (\<lambda>i. i < length row) columns" and "length labels = length columns"
    and "labels \<noteq> [''fetch_type'']"
  shows "\<exists>new. write_gauge w row (int column) name desc labels (map int columns) out = Inr (out @ new) \<and> list_all (sample_of w) new"
proof -
  have cols: "go_fold (\<lambda>i vs. go_bind (go_nth row i) (\<lambda>v. Inr (vs @ [v]))) (map int columns) vs
      = Inr (vs @ map (\<lambda>i. row ! i) columns)" for vs
    using assms(2) by (induction columns arbitrary: vs) simp_all
  show ?thesis
    using assms by (simp add: write_gauge_def cols writeSingleMetricToPrometheus_def Let_def sample_of_def place_of_def placed_def)
qed

lemmas write_gauge_rows = write_gauge_row [of _ _ "[0]"] write_gauge_row [of _ _ "[0, 1]"] write_gauge_row [of _ _ "[0, 1, 2]"]
  write_gauge_row [of _ _ "[1, 2, 3, 4]"]


lemma two_samples:
  assumes "\<exists>new. x = Inr (out @ new) \<and> list_all P new"
    and "\<And>out. \<exists>new. f out = Inr (out @ new) \<and> list_all P new"
  shows "\<exists>new. go_bind x f = Inr (out @ new) \<and> list_all P new"
proof -
  from assms(1) obtain new where new: "x = Inr (out @ new)" "list_all P new" by blast
  from assms(2) [of "out @ new"] obtain rest where "f (out @ new) = Inr ((out @ new) @ rest)" "list_all P rest" by blast
  with new show ?thesis by (intro exI [of _ "new @ rest"]) simp
qed

text \<open>A writer of rows of some width.\<close>

definition writes :: "nat \<Rightarrow> (PrometheusWriter \<Rightarrow> string list list \<Rightarrow> samples \<Rightarrow> samples go) \<Rightarrow> bool" where
  "writes width write_rows \<longleftrightarrow> (\<forall>w data out. list_all (\<lambda>row. length row = width) data
     \<longrightarrow> (\<exists>new. write_rows w data out = Inr (out @ new) \<and> list_all (sample_of w) new))"

lemma writersI:
  assumes "\<And>w row out. length row = width \<Longrightarrow> \<exists>new. f w row out = Inr (out @ new) \<and> list_all (sample_of w) new"
    and "\<And>w data out. write_rows w data out = go_fold (f w) data out"
  shows "writes width write_rows"
  unfolding writes_def assms(2) by (intro allI impI go_fold_appends assms(1)) (auto simp: list_all_iff)

lemma writers:
  "writes 4 WriteMetrics" "writes 8 WriteTableSizes" "writes 3 WriteSystemReplicas" "writes 4 WriteMutations"
  "writes 3 WriteSystemDisks" "writes 5 WriteDetachedParts"
proof -
  show "writes 4 WriteMetrics"
  proof (rule writersI [OF _ WriteMetrics_def [THEN fun_cong]])
    fix w :: PrometheusWriter and row :: "string list" and out :: samples
    assume "length row = 4"
    then show "\<exists>new. (if length row < 2 then Inr out else
       go_bind (go_nth row 3) (\<lambda>type. go_bind (go_nth row 0) (\<lambda>name. go_bind (go_nth row 2) (\<lambda>desc. go_bind (go_nth row 1) (\<lambda>text.
       Inr (writeSingleMetricToPrometheus w (convertMetricName name) desc text
         (if type = ''counter'' then CounterValue else GaugeValue) (placed []) (place_of w []) out)))))) = Inr (out @ new)
       \<and> list_all (sample_of w) new"
      by (simp add: go_nth_def writeSingleMetricToPrometheus_def Let_def sample_of_def place_of_def placed_def)
  qed
  have gauge: "\<exists>new. write_gauge w row column name desc labels columns out = Inr (out @ new) \<and> list_all (sample_of w) new"
    if "0 \<le> column" "nat column < length row" "list_all (\<lambda>i. 0 \<le> i \<and> nat i < length row) columns"
      "length labels = length columns" "labels \<noteq> [''fetch_type'']" for w row column name desc labels columns out
    using write_gauge_row [of "nat column" row "map nat columns" labels w name desc out] that
    by (simp add: list_all_iff comp_def map_idI)
  show "writes 8 WriteTableSizes"
    by (rule writersI [OF _ WriteTableSizes_def [THEN fun_cong]])
      (simp only: Let_def, simp, intro two_samples gauge, simp_all)
  show "writes 3 WriteSystemReplicas"
    by (rule writersI [OF _ WriteSystemReplicas_def [THEN fun_cong]]) (intro gauge, simp_all)
  show "writes 4 WriteMutations"
    by (rule writersI [OF _ WriteMutations_def [THEN fun_cong]]) (intro two_samples gauge, simp_all)
  show "writes 3 WriteSystemDisks"
    by (rule writersI [OF _ WriteSystemDisks_def [THEN fun_cong]]) (intro two_samples gauge, simp_all)
  show "writes 5 WriteDetachedParts"
    by (rule writersI [OF _ WriteDetachedParts_def [THEN fun_cong]]) (intro gauge, simp_all)
qed

definition statuses :: "samples \<Rightarrow> (string \<times> string) list" where
  "statuses out = map (\<lambda>(m, outcome). (sm_LabelValues m ! 3, sm_Value m))
     (filter (\<lambda>(m, outcome). sm_Labels m = placed [''fetch_type'']) out)"

text \<open>What one host gives: every sample tells where it comes from, and the labels have values.\<close>

definition located :: "PrometheusWriter \<Rightarrow> sample \<times> sample_outcome \<Rightarrow> bool" where
  "located w = (\<lambda>(m, outcome). take 3 (sm_LabelValues m) = place_of w [] \<and> length (sm_Labels m) = length (sm_LabelValues m))"

lemma fetch_and_write_once:
  assumes "db_Heredoc db sql \<noteq> []" and "writes width write_rows"
  shows "\<exists>s' new. fetch_and_write w fetchType (clickHouseQueryScanRows db host sql width) write_rows (s, out) = Inr (s', out @ new)
    \<and> ds_Calls s' = ds_Calls s @ [QueryCall host (db_Heredoc db sql)] \<and> list_all (located w) new
    \<and> statuses new = [(fetchType, if isl (db_Query db (ds_Calls s @ [QueryCall host (db_Heredoc db sql)])) then ''1'' else ''0'')]"
proof -
  let ?calls = "ds_Calls s @ [QueryCall host (db_Heredoc db sql)]"
  have status: "located w (\<lparr>sm_Name = n, sm_Help = h, sm_Value = v, sm_Type = t, sm_Labels = placed [''fetch_type''],
        sm_LabelValues = place_of w [fetchType]\<rparr>, outcome)" for n h v t outcome
    by (simp add: located_def placed_def place_of_def)
  have no_status: "list_all (sample_of w) new \<Longrightarrow> statuses new = [] \<and> list_all (located w) new" for new
    by (induction new) (auto simp: statuses_def sample_of_def located_def)
  have st: "statuses (a @ b) = statuses a @ statuses b" for a b by (simp add: statuses_def)
  have one: "statuses [(\<lparr>sm_Name = n, sm_Help = h, sm_Value = v, sm_Type = t, sm_Labels = placed [''fetch_type''],
        sm_LabelValues = place_of w [fetchType]\<rparr>, outcome)] = [(fetchType, v)]" for n h v t outcome
    by (simp add: statuses_def place_of_def)
  show ?thesis
  proof (cases "db_Query db ?calls")
    case (Inl err)
    then show ?thesis using assms(1)
      by (simp add: fetch_and_write_def clickHouseQueryScanRows_def Connection_QueryContext_def Let_def WriteErrorFetch_def
          writeSingleMetricToPrometheus_def one status)
  next
    case (Inr rows)
    let ?rows = "filter (\<lambda>row. length row = width) rows"
    have "list_all (\<lambda>row. length row = width) ?rows" by (simp add: list_all_iff)
    with assms(2) obtain new where new: "write_rows w ?rows out = Inr (out @ new)" "list_all (sample_of w) new"
      unfolding writes_def by blast
    let ?m = "\<lparr>sm_Name = pm_BuildFQName (pw_Prometheus w) exporterNamespace exporterSubsystem ''metric_fetch_errors'',
      sm_Help = fetch_status, sm_Value = ''0'', sm_Type = GaugeValue, sm_Labels = placed [''fetch_type''],
      sm_LabelValues = place_of w [fetchType]\<rparr>"
    show ?thesis using assms(1) Inr new no_status [OF new(2)]
      by (intro exI [of _ "s\<lparr>ds_Calls := ?calls\<rparr>"] exI [of _ "new @ [(?m, pm_Outcome (pw_Prometheus w) (out @ new) ?m)]"])
        (simp add: fetch_and_write_def clickHouseQueryScanRows_def Connection_QueryContext_def Let_def WriteOKFetch_def
          writeSingleMetricToPrometheus_def st one status)
  qed
qed


definition exporter_queries :: "string list" where
  "exporter_queries = [queryMetricsSQL, queryTableSizesSQL, querySystemReplicasSQL, queryMutationsSQL, querySystemDisksSQL,
     queryDetachedPartsSQL]"

definition fetch_types :: "string list" where
  "fetch_types = [''system.metrics'', ''table sizes'', ''system.replicas'', ''system.mutations'', ''system.disks'',
     ''system.detached_parts'']"

text \<open>The calls that one host gets, and whether its \<open>i\<close>-th query fails after the calls made before.\<close>

definition host_calls :: "servers \<Rightarrow> string \<Rightarrow> sql_call list" where
  "host_calls db hostname = map (\<lambda>sql. QueryCall hostname (db_Heredoc db sql)) exporter_queries"

definition query_failed :: "servers \<Rightarrow> string \<Rightarrow> sql_call list \<Rightarrow> nat \<Rightarrow> bool" where
  "query_failed db hostname calls i = isl (db_Query db (calls @ take (Suc i) (host_calls db hostname)))"


text \<open>The collection as a loop over its six fetches.\<close>

definition fetches :: "(string \<times> string \<times> nat \<times> (PrometheusWriter \<Rightarrow> string list list \<Rightarrow> samples \<Rightarrow> samples go)) list" where
  "fetches = [(''system.metrics'', queryMetricsSQL, 4, WriteMetrics), (''table sizes'', queryTableSizesSQL, 8, WriteTableSizes),
     (''system.replicas'', querySystemReplicasSQL, 3, WriteSystemReplicas), (''system.mutations'', queryMutationsSQL, 4, WriteMutations),
     (''system.disks'', querySystemDisksSQL, 3, WriteSystemDisks),
     (''system.detached_parts'', queryDetachedPartsSQL, 5, WriteDetachedParts)]"

definition one_fetch where
  "one_fetch db w host = (\<lambda>(fetchType, sql, width, write_rows).
     fetch_and_write w fetchType (clickHouseQueryScanRows db host sql width) write_rows)"

lemma go_bind_end: "go_bind r (go_fold f []) = r"
  by (cases r) simp_all

lemma collectFromHost_loop:
  "collectFromHost p db chi host st = go_fold (one_fetch db \<lparr>pw_Prometheus = p, pw_CHI = chi, pw_Hostname = host\<rparr> host) fetches st"
  unfolding collectFromHost_def Let_def fetches_def go_fold.simps(2) go_bind_end one_fetch_def prod.case
    getClickHouseQueryMetrics_def getClickHouseQueryTableSizes_def getClickHouseQuerySystemReplicas_def
    getClickHouseQueryMutations_def getClickHouseQuerySystemDisks_def getClickHouseQueryDetachedParts_def ..

definition fetch_call where
  "fetch_call db host = (\<lambda>(fetchType, sql, width, write_rows). QueryCall host (db_Heredoc db sql))"

definition fetch_ok where
  "fetch_ok db = (\<lambda>(fetchType, sql, width, write_rows). db_Heredoc db sql \<noteq> [] \<and> writes width write_rows)"

lemma fetches_loop:
  assumes "list_all (fetch_ok db) fs"
  shows "\<exists>s' new. go_fold (one_fetch db w host) fs (s, out) = Inr (s', out @ new)
    \<and> ds_Calls s' = ds_Calls s @ map (fetch_call db host) fs \<and> list_all (located w) new
    \<and> statuses new = map (\<lambda>i. (fst (fs ! i), if isl (db_Query db (ds_Calls s
        @ take (Suc i) (map (fetch_call db host) fs))) then ''1'' else ''0'')) [0..<length fs]"
  using assms
proof (induction fs arbitrary: s out)
  case Nil
  then show ?case by (simp add: statuses_def)
next
  case (Cons f fs)
  obtain ft sql width wr where f: "f = (ft, sql, width, wr)" by (cases f)
  from Cons.prems f have ok: "db_Heredoc db sql \<noteq> []" "writes width wr" "list_all (fetch_ok db) fs" by (simp_all add: fetch_ok_def)
  from fetch_and_write_once [OF ok(1,2), of w ft host s out] f obtain s1 new where one:
    "one_fetch db w host f (s, out) = Inr (s1, out @ new)"
    "ds_Calls s1 = ds_Calls s @ [QueryCall host (db_Heredoc db sql)]" "list_all (located w) new"
    "statuses new = [(ft, if isl (db_Query db (ds_Calls s @ [QueryCall host (db_Heredoc db sql)])) then ''1'' else ''0'')]"
    by (auto simp: one_fetch_def)
  from Cons.IH [OF ok(3), of s1 "out @ new", unfolded append_assoc] obtain s2 rest where more:
    "go_fold (one_fetch db w host) fs (s1, out @ new) = Inr (s2, out @ new @ rest)"
    "ds_Calls s2 = ds_Calls s1 @ map (fetch_call db host) fs" "list_all (located w) rest"
    "statuses rest = map (\<lambda>i. (fst (fs ! i), if isl (db_Query db (ds_Calls s1
        @ take (Suc i) (map (fetch_call db host) fs))) then ''1'' else ''0'')) [0..<length fs]"
    by blast
  have st: "statuses (new @ rest) = statuses new @ statuses rest" by (simp add: statuses_def)
  have shift: "map g [0..<length (f # fs)] = g 0 # map (g \<circ> Suc) [0..<length fs]" for g :: "nat \<Rightarrow> string \<times> string"
    by (simp add: upt_rec [of 0] map_Suc_upt [symmetric] del: upt_Suc)
  show ?case
    using one more f unfolding shift
    by (intro exI [of _ s2] exI [of _ "new @ rest"]) (simp add: st comp_def fetch_call_def)
qed

text \<open>
  C37: what the scrape of one host gives, whatever the host answers: it never panics, the host is asked the six
  queries in order, a query that fails does not keep the others from being asked, and for each query there is
  exactly one sample that says whether it failed. Every sample carries the installation, namespace and host, and as
  many values as labels.
\<close>

theorem scrape_of_host:
  assumes "list_all (\<lambda>sql. db_Heredoc db sql \<noteq> []) exporter_queries"
  shows "\<exists>s' new. collectFromHost p db chi hostname (s, out) = Inr (s', out @ new)
    \<and> ds_Calls s' = ds_Calls s @ host_calls db hostname
    \<and> statuses new = map (\<lambda>i. (fetch_types ! i, if query_failed db hostname (ds_Calls s) i then ''1'' else ''0'')) [0..<6]
    \<and> list_all (\<lambda>(m, outcome). take 3 (sm_LabelValues m) = [wc_Name chi, wc_Namespace chi, hostname]
        \<and> length (sm_Labels m) = length (sm_LabelValues m)) new"
proof -
  let ?w = "\<lparr>pw_Prometheus = p, pw_CHI = chi, pw_Hostname = hostname\<rparr>"
  have calls: "map (fetch_call db hostname) fetches = host_calls db hostname"
    by (simp add: fetches_def host_calls_def exporter_queries_def fetch_call_def)
  have "list_all (fetch_ok db) fetches"
    using assms by (simp add: fetches_def exporter_queries_def writers fetch_ok_def)
  from fetches_loop [OF this, of ?w hostname s out, unfolded calls, folded query_failed_def] obtain s' new where r:
    "collectFromHost p db chi hostname (s, out) = Inr (s', out @ new)" "ds_Calls s' = ds_Calls s @ host_calls db hostname"
    "list_all (located ?w) new"
    "statuses new = map (\<lambda>i. (fst (fetches ! i), if query_failed db hostname (ds_Calls s) i then ''1'' else ''0'')) [0..<length fetches]"
    unfolding collectFromHost_loop by blast
  have "[0..<6] = [0, 1, 2, 3, 4, 5 :: nat]" by (simp add: upt_rec)
  then have "statuses new = map (\<lambda>i. (fetch_types ! i, if query_failed db hostname (ds_Calls s) i then ''1'' else ''0'')) [0..<6]"
    using r(4) by (simp add: fetches_def fetch_types_def upt_rec)
  with r show ?thesis by (auto simp: located_def place_of_def)
qed

lemma scrape_of_host_witness:
  "let db = \<lparr>db_Done = \<lambda>k. False, db_Exec = \<lambda>calls. None,
         db_Query = \<lambda>calls. if length calls = 1 then Inl (ServerError ''refused'') else Inr [], db_Heredoc = \<lambda>text. text\<rparr>;
       p = \<lparr>pm_BuildFQName = \<lambda>n s name. name, pm_Outcome = \<lambda>out m. Delivered\<rparr>;
       chi = \<lparr>wc_Namespace = ''prod'', wc_Name = ''db'', wc_Hostnames = [''a'']\<rparr>
   in \<exists>s' new. collectFromHost p db chi ''a'' (\<lparr>ds_Calls = [], ds_Looks = 0\<rparr>, []) = Inr (s', new)
     \<and> length (ds_Calls s') = 6 \<and> statuses new ! 0 = (''system.metrics'', ''1'')"
proof -
  let ?db = "\<lparr>db_Done = \<lambda>k. False, db_Exec = \<lambda>calls. None,
         db_Query = \<lambda>calls. if length calls = 1 then Inl (ServerError ''refused'') else Inr [], db_Heredoc = \<lambda>text. text\<rparr>"
  let ?p = "\<lparr>pm_BuildFQName = \<lambda>n s name. name, pm_Outcome = \<lambda>out m. Delivered\<rparr>"
  have "list_all (\<lambda>sql. db_Heredoc ?db sql \<noteq> []) exporter_queries"
    by (simp add: exporter_queries_def queryMetricsSQL_def queryTableSizesSQL_def querySystemReplicasSQL_def queryMutationsSQL_def
        querySystemDisksSQL_def queryDetachedPartsSQL_def)
  from scrape_of_host [OF this, of ?p "\<lparr>wc_Namespace = ''prod'', wc_Name = ''db'', wc_Hostnames = [''a'']\<rparr>" "''a''"
      "\<lparr>ds_Calls = [], ds_Looks = 0\<rparr>" "[]"]
  show ?thesis
    by (auto simp: Let_def host_calls_def exporter_queries_def query_failed_def fetch_types_def)
qed

section \<open>Connections\<close>

lemma hidden_credentials:
  "ec_dsnHiddenCredentials (NewEndpointCredentials hostname username password port)
     = ec_dsnHiddenCredentials (NewEndpointCredentials hostname username' password' port)"
  by (simp add: NewEndpointCredentials_def makeDSN_def makeUsernamePassword_def Let_def)

text \<open>
  A pooled connection keeps the timeouts it was made with: who asks for one with other timeouts, as the exporter
  does, gets the first.
\<close>

theorem pooled_connection_keeps_timeouts:
  assumes "GetPooledDBConnection (NewConnectionParams hostname username password port) pool = (Some connection, pool')"
  shows "GetPooledDBConnection (SetQueryTimeout timeout (NewConnectionParams hostname username password port)) pool'
    = (Some connection, pool')"
  using assms
  by (auto simp: GetPooledDBConnection_def makePoolKey_def SetQueryTimeout_def Let_def gmap_simps split: option.splits)

end
