(* ===== verification/Getters.thy ===== *)
theory Getters
  imports Labels Volumes
begin

text \<open>
  How the controller looks objects up, \<open>pkg/controller/chi/getter.go\<close> and \<open>volumes.go\<close>, and puts its labels on the
  objects it runs as itself, \<open>labeler.go\<close>. The API of Kubernetes is a parameter: what it answers to a name, to a
  selector, to an update.
\<close>

section \<open>By name, else by labels\<close>

datatype get_error =
    ObjectNotFound
  | ApiFailed
  | NoLabelSearchAllowed
  | BadSelector label_error
  | TooManyObjects nat
  | UnknownType

text \<open>The answers of the lister of one kind of objects: an object that may be missing, or an error.\<close>

record 'o lister =
  ls_Get :: "string \<Rightarrow> string \<Rightarrow> get_error + 'o option"
  ls_List :: "string \<Rightarrow> strmap \<Rightarrow> get_error + 'o list"

definition get_by_name_or_labels :: "'o lister \<Rightarrow> ObjectMeta \<Rightarrow> bool \<Rightarrow> get_error + 'o option" where
  "get_by_name_or_labels l objMeta byNameOnly = (
     case ls_Get l (om_Namespace objMeta) (om_Name objMeta) of
       Inr (Some obj) \<Rightarrow> Inr (Some obj)
     | Inr None \<Rightarrow> Inr None
     | Inl err \<Rightarrow>
         if err \<noteq> ObjectNotFound then Inl err
         else if byNameOnly then Inl NoLabelSearchAllowed
         else case makeSetFromObjectMeta objMeta of
           Inl bad \<Rightarrow> Inl (BadSelector bad)
         | Inr selector \<Rightarrow> (case ls_List l (om_Namespace objMeta) selector of
             Inl err \<Rightarrow> Inl err
           | Inr objects \<Rightarrow>
               if length objects = 0 then Inl ObjectNotFound
               else if length objects = 1 then Inr (Some (objects ! 0))
               else Inl (TooManyObjects (length objects))))"

text \<open>The same for every kind.\<close>

definition getConfigMap :: "'o lister \<Rightarrow> ObjectMeta \<Rightarrow> bool \<Rightarrow> get_error + 'o option" where
  "getConfigMap configMaps objMeta byNameOnly = get_by_name_or_labels configMaps objMeta byNameOnly"

definition getService :: "'o lister \<Rightarrow> ObjectMeta \<Rightarrow> bool \<Rightarrow> get_error + 'o option" where
  "getService services objMeta byNameOnly = get_by_name_or_labels services objMeta byNameOnly"

definition getPodDisruptionBudget :: "'o lister \<Rightarrow> ObjectMeta \<Rightarrow> bool \<Rightarrow> get_error + 'o option" where
  "getPodDisruptionBudget pdbs objMeta byNameOnly = get_by_name_or_labels pdbs objMeta byNameOnly"

definition getStatefulSetByMeta :: "'o lister \<Rightarrow> ObjectMeta \<Rightarrow> bool \<Rightarrow> get_error + 'o option" where
  "getStatefulSetByMeta statefulSets objMeta byNameOnly = get_by_name_or_labels statefulSets objMeta byNameOnly"

text \<open>Of a host the API is asked by name, past the lister.\<close>

type_synonym 'o api_get = "string \<Rightarrow> string \<Rightarrow> get_error + 'o"

definition getStatefulSetByHost ::
    "(string \<Rightarrow> string) \<Rightarrow> ChiTemplates option \<Rightarrow> 'o api_get \<Rightarrow> ChiHost \<Rightarrow> get_error + 'o option" where
  "getStatefulSetByHost sha1 templates api host = (
     case api (ha_Namespace (h_Address host)) (CreateStatefulSetName sha1 templates host) of
       Inl err \<Rightarrow> Inl err | Inr s \<Rightarrow> Inr (Some s))"

datatype get_arg = ArgMeta ObjectMeta | ArgHost ChiHost | ArgOther

definition getStatefulSet ::
    "(string \<Rightarrow> string) \<Rightarrow> ChiTemplates option \<Rightarrow> 'o lister \<Rightarrow> 'o api_get \<Rightarrow> get_arg \<Rightarrow> bool list \<Rightarrow> get_error + 'o option" where
  "getStatefulSet sha1 templates statefulSets api obj byName = (case obj of
     ArgMeta objMeta \<Rightarrow> getStatefulSetByMeta statefulSets objMeta (if length byName > 0 then byName ! 0 else False)
   | ArgHost host \<Rightarrow> getStatefulSetByHost sha1 templates api host
   | ArgOther \<Rightarrow> Inl UnknownType)"

text \<open>A pod by its host, or by the namespace and name of its StatefulSet.\<close>

definition getPod ::
    "(string \<Rightarrow> string) \<Rightarrow> ChiTemplates option \<Rightarrow> 'o api_get \<Rightarrow> ChiHost + (string \<times> string) \<Rightarrow> get_error + 'o" where
  "getPod sha1 templates pods obj = (case obj of
     Inl host \<Rightarrow> pods (ha_Namespace (h_Address host)) (CreatePodName sha1 templates (OfHost host))
   | Inr (namespace, name) \<Rightarrow> pods namespace (CreatePodName sha1 templates (OfStatefulSet name)))"

definition GetCHIByObjectMeta :: "'o api_get \<Rightarrow> ObjectMeta \<Rightarrow> get_error + 'o" where
  "GetCHIByObjectMeta chis objectMeta = (case GetCHINameFromObjectMeta objectMeta of
     Inl err \<Rightarrow> Inl (BadSelector err)
   | Inr chiName \<Rightarrow> chis (om_Namespace objectMeta) chiName)"

section \<open>Claims of a host\<close>

text \<open>
  A pod is the claims its volumes name, \<open>None\<close> for a volume of another kind. The walks give the claims, or volumes, they
  call their function with, in order.
\<close>

definition walkPVCs ::
    "(string \<Rightarrow> string) \<Rightarrow> ChiTemplates option \<Rightarrow> string option list api_get \<Rightarrow> 'c api_get \<Rightarrow> ChiHost \<Rightarrow> 'c list" where
  "walkPVCs sha1 templates pods claims_api host = (
     let namespace = ha_Namespace (h_Address host) in
     case pods namespace (CreatePodName sha1 templates (OfHost host)) of
       Inl err \<Rightarrow> []
     | Inr volumes \<Rightarrow> concat (map (\<lambda>volume. case volume of
           None \<Rightarrow> []
         | Some pvcName \<Rightarrow> (case claims_api namespace pvcName of Inl err \<Rightarrow> [] | Inr pvc \<Rightarrow> [pvc])) volumes))"

definition walkDiscoveredPVCs :: "(string \<Rightarrow> strmap \<Rightarrow> get_error + 'c list) \<Rightarrow> ChiHost \<Rightarrow> 'c list" where
  "walkDiscoveredPVCs claim_list host = (
     case claim_list (ha_Namespace (h_Address host)) (GetSelectorHostScope host) of Inl err \<Rightarrow> [] | Inr items \<Rightarrow> items)"

definition walkPVs ::
    "(string \<Rightarrow> string) \<Rightarrow> ChiTemplates option \<Rightarrow> string option list api_get \<Rightarrow> 'c api_get \<Rightarrow> ('c \<Rightarrow> string) \<Rightarrow>
     (string \<Rightarrow> get_error + 'v) \<Rightarrow> ChiHost \<Rightarrow> 'v list" where
  "walkPVs sha1 templates pods claims_api volumeName volumes_api host = concat (map (\<lambda>pvc.
     case volumes_api (volumeName pvc) of Inl err \<Rightarrow> [] | Inr pv \<Rightarrow> [pv]) (walkPVCs sha1 templates pods claims_api host))"

section \<open>Labels of the operator's own objects\<close>

definition LabelCHOP :: string where "LabelCHOP = label ''chop''"

text \<open>The labels may be nil; an owner is a kind and a name.\<close>

record own_object =
  oo_Namespace :: string
  oo_Name :: string
  oo_Labels :: "strmap option"
  oo_Owners :: "(string \<times> string) list"

datatype own_update = UpdatePod own_object | UpdateReplicaSet own_object | UpdateDeployment own_object

text \<open>A failed call may come with an object all the same.\<close>

type_synonym own_get = "string \<Rightarrow> string \<Rightarrow> own_object option + own_object"

record own_api =
  oa_Pods :: own_get
  oa_ReplicaSets :: own_get
  oa_Deployments :: own_get
  oa_Version :: string

text \<open>The merged map is dropped; the map of the object is changed in place, when there is one.\<close>

definition addLabels :: "string \<Rightarrow> own_object \<Rightarrow> own_object" where
  "addLabels version meta = meta\<lparr>oo_Labels := (case oo_Labels meta of None \<Rightarrow> None
     | Some m \<Rightarrow> MergeStringMapsOverwrite (Some m) [(LabelAppName, LabelAppValue), (LabelCHOP, version)] [])\<rparr>"

definition owner_of :: "string \<Rightarrow> own_object \<Rightarrow> string" where
  "owner_of kind obj = (case find (\<lambda>(k, name). k = kind) (oo_Owners obj) of None \<Rightarrow> [] | Some (k, name) \<Rightarrow> name)"

definition labelPod :: "own_api \<Rightarrow> string \<Rightarrow> string \<Rightarrow> own_object option \<times> own_update list" where
  "labelPod api namespace name = (case oa_Pods api namespace name of
     Inl left \<Rightarrow> (None, [])
   | Inr pod \<Rightarrow> (let pod = addLabels (oa_Version api) pod in (Some pod, [UpdatePod pod])))"

definition labelReplicaSet :: "own_api \<Rightarrow> own_object \<Rightarrow> own_object option \<times> own_update list" where
  "labelReplicaSet api pod = (
     let replicaSetName = owner_of ''ReplicaSet'' pod in
     if replicaSetName = [] then (None, [])
     else case oa_ReplicaSets api (oo_Namespace pod) replicaSetName of
       Inl left \<Rightarrow> (left, [])
     | Inr rs \<Rightarrow> (let rs = addLabels (oa_Version api) rs in (Some rs, [UpdateReplicaSet rs])))"

definition labelDeployment :: "own_api \<Rightarrow> own_object \<Rightarrow> own_update list" where
  "labelDeployment api rs = (
     let deploymentName = owner_of ''Deployment'' rs in
     if deploymentName = [] then []
     else case oa_Deployments api (oo_Namespace rs) deploymentName of
       Inl left \<Rightarrow> []
     | Inr d \<Rightarrow> [UpdateDeployment (addLabels (oa_Version api) d)])"

definition labelMyObjectsTree :: "own_api \<Rightarrow> bool \<Rightarrow> string option \<Rightarrow> string option \<Rightarrow> own_update list" where
  "labelMyObjectsTree api ended podName namespace = (
     if ended then []
     else case (podName, namespace) of
       (Some podName, Some namespace) \<Rightarrow>
         (case labelPod api namespace podName of
            (None, u1) \<Rightarrow> u1
          | (Some pod, u1) \<Rightarrow>
              (case labelReplicaSet api pod of
                 (None, u2) \<Rightarrow> u1 @ u2
               | (Some replicaSet, u2) \<Rightarrow> u1 @ u2 @ labelDeployment api replicaSet))
     | _ \<Rightarrow> [])"

section \<open>What is found\<close>

text \<open>A lister that keeps its word: by name it finds the object of the name, by labels all that carry them.\<close>

definition lister_of :: "('o \<Rightarrow> ObjectMeta) \<Rightarrow> 'o list \<Rightarrow> 'o lister" where
  "lister_of meta objects = \<lparr>ls_Get = (\<lambda>namespace name.
       case find (\<lambda>o'. om_Namespace (meta o') = namespace \<and> om_Name (meta o') = name) objects of
         Some o' \<Rightarrow> Inr (Some o') | None \<Rightarrow> Inl ObjectNotFound),
     ls_List = (\<lambda>namespace selector. Inr (filter (\<lambda>o'. om_Namespace (meta o') = namespace
       \<and> selects selector (om_Labels (meta o'))) objects))\<rparr>"

lemma find_None: "find P xs = None \<longleftrightarrow> (\<forall>x \<in> set xs. \<not> P x)"
  by (auto simp: find_None_iff)

theorem found_by_name_or_labels:
  assumes "get_by_name_or_labels (lister_of meta objects) objMeta byNameOnly = Inr (Some obj)"
  shows "obj \<in> set objects \<and> om_Namespace (meta obj) = om_Namespace objMeta
    \<and> (om_Name (meta obj) = om_Name objMeta
       \<or> (\<not> byNameOnly \<and> (\<forall>o' \<in> set objects. object_key (meta o') \<noteq> object_key objMeta)
          \<and> (\<exists>selector. makeSetFromObjectMeta objMeta = Inr selector
             \<and> (\<forall>o' \<in> set objects. om_Namespace (meta o') = om_Namespace objMeta
                   \<and> selects selector (om_Labels (meta o')) \<longleftrightarrow> o' = obj))))"
proof (cases "find (\<lambda>o'. om_Namespace (meta o') = om_Namespace objMeta \<and> om_Name (meta o') = om_Name objMeta) objects")
  case (Some o')
  with assms show ?thesis
    by (auto simp: get_by_name_or_labels_def lister_of_def find_Some_iff in_set_conv_nth)
next
  case None
  with assms obtain selector where sel: "\<not> byNameOnly" "makeSetFromObjectMeta objMeta = Inr selector"
    "filter (\<lambda>o'. om_Namespace (meta o') = om_Namespace objMeta \<and> selects selector (om_Labels (meta o'))) objects = [obj]"
    by (auto simp: get_by_name_or_labels_def lister_of_def length_Suc_conv split: if_splits sum.splits)
  from arg_cong [OF sel(3), of set] have "\<And>o'. (o' \<in> set objects \<and> om_Namespace (meta o') = om_Namespace objMeta
      \<and> selects selector (om_Labels (meta o'))) \<longleftrightarrow> o' = obj"
    by (auto simp: set_eq_iff)
  moreover from None have "\<forall>o' \<in> set objects. object_key (meta o') \<noteq> object_key objMeta"
    by (auto simp: find_None object_key_def)
  ultimately show ?thesis using sel(1,2) by blast
qed

text \<open>An object without labels is updated as it is.\<close>

theorem addLabels_labels:
  "omap (oo_Labels (addLabels version meta)) = (case oo_Labels meta of None \<Rightarrow> Map.empty
     | Some m \<Rightarrow> gget m ++ [LabelCHOP \<mapsto> version, LabelAppName \<mapsto> LabelAppValue])"
proof -
  have "gmap_ok [(LabelAppName, LabelAppValue), (LabelCHOP, version)]"
    by (simp add: gmap_ok_def LabelAppName_def LabelCHOP_def label_def)
  from omap_MergeStringMapsOverwrite [OF this, of _ "[]"] show ?thesis
    by (simp add: addLabels_def split: option.split)
qed

end
