(* ===== verification/Spec2Isabelle.thy ===== *)
theory Spec2Isabelle
  imports Outcome Totality Manifests Exporter Getters
begin

text \<open>
  A model of the ClickHouse operator of RadonDB (\<open>src/\<close>, Go): a Kubernetes operator that turns a
  \<open>ClickHouseInstallation\<close> resource into StatefulSets, services, ConfigMaps and volumes and keeps them in step
  with it.

  \<^bold>\<open>How the program is put together.\<close> The API types (\<open>pkg/apis/clickhouse.radondb.com/v1\<close>) hold the resource
  as the user writes it. The normalizer (\<open>pkg/model/normalizer.go\<close>) merges it with templates, fills in every
  default and lays the hosts of each cluster out over shards and replicas. The other files of \<open>pkg/model\<close> derive
  names, labels, addresses and configuration files from the normalized installation. The controller
  (\<open>pkg/controller/chi\<close>) queues commands; a worker compares the old and the new installation, marks the hosts,
  reconciles every object in turn, waits for StatefulSets, and deletes what is left over.

  \<^bold>\<open>Theories, in the order of their imports.\<close>

  \<^item> \<open>Prelude\<close>: panics and errors as a sum type (\<open>go\<close>), folds that may panic, Go maps as association lists with
    distinct keys and their contract as the locale \<open>go_map\<close>, shared lemmas and collections.
  \<^item> \<open>GoUtil\<close> (\<open>pkg/util\<close>): string booleans, string ids, arrays, map merges, hashing into queues, retries.
    \<open>GoFmt\<close>: decimal numbers, \<open>Split\<close>, \<open>Join\<close>, \<open>Replacer\<close> and the format with one \<open>%s\<close>, as the library does them.
  \<^item> \<open>ChiSettings\<close> (\<open>type_settings.go\<close>): settings, their JSON form, typed getters, merges, sections, paths.
  \<^item> \<open>ChiMerge\<close> (\<open>types.go\<close>, \<open>type_template_names.go\<close>, \<open>type_defaults.go\<close>, \<open>type_zookeeper.go\<close>, ...): the
    sections of the specification and both kinds of merge, their normalization.
  \<^item> \<open>ChiHost\<close> (\<open>type_host.go\<close>, ports of the normalizer): hosts, ports, inheritance, reconcile attributes.
  \<^item> \<open>ChiLayout\<close> (\<open>type_cluster.go\<close>, \<open>type_hosts_field.go\<close>, the cluster part of the normalizer): clusters with
    shards and replicas, which are two views of one field of hosts. Hosts are pointers into an explicit store,
    so that sharing is visible; an index out of range is a panic.
  \<^item> \<open>Registry\<close> (\<open>registry.go\<close>, \<open>discoverer.go\<close>, \<open>worker.go\<close> clear and purge): the objects a reconcile confirmed
    and which of the others are deleted; the locale \<open>object_registry\<close> states what the worker relies on.
  \<^item> \<open>Planning\<close> (\<open>action_plan.go\<close>, \<open>type_cmd_queue.go\<close>, \<open>controller.go\<close>): action plans over an abstract
    structural difference, marking of hosts, command queues.
  \<^item> \<open>ChiTemplates\<close> (\<open>type_templates.go\<close>): templates, merges by name, indexes, pod distributions.
  \<^item> \<open>Addressing\<close> (\<open>type_chi.go\<close>): the whole specification and its merges, the walk over all hosts with its
    running counters and cycles, addresses, status.
  \<^item> \<open>Namer\<close> (\<open>namer.go\<close>) and \<open>Labels\<close> (\<open>labeler.go\<close>): names of all objects, labels and selectors.
  \<^item> \<open>Polling\<close> (\<open>poller.go\<close>): the waiting loops, with the locale \<open>timed_loop\<close> for their common contract.
  \<^item> \<open>XmlBuilder\<close> (\<open>builder/xml/xml.go\<close>) and \<open>ConfigGen\<close> (\<open>ch_config_generator.go\<close>,
    \<open>ch_config_files_generator.go\<close>): the configuration files of a server.
  \<^item> \<open>Volumes\<close> (\<open>model/deleter.go\<close>, \<open>type_host.go\<close>): which claims may go with a host, requested resources.
  \<^item> \<open>Worker\<close> (\<open>worker.go\<close>, \<open>creator.go\<close>, \<open>deleter.go\<close>, \<open>pods.go\<close> of the controller): everything done to a
    host and the walk over an installation; \<open>Reconcile\<close>: a calculus of the calls made, and what reconciling a host
    guarantees; \<open>Claims\<close>: its volume claims.
  \<^item> \<open>Affinity\<close> (\<open>affinity.go\<close>, pod templates of the normalizer): the terms that keep pods apart or together, their
    merge into the affinity of the user, their labels and the macros in them.
  \<^item> \<open>Users\<close> (\<open>normalizer.go\<close>): the users section, its secrets and passwords. \<open>Normalizer\<close> (\<open>normalizer.go\<close>):
    the whole of \<open>CreateTemplatedCHI\<close> over a store of hosts; \<open>Totality\<close>: when it returns, and what its result is
    ready for.
  \<^item> \<open>Manifests\<close> (\<open>creator.go\<close>): the objects made of a normalized installation, StatefulSets, services,
    ConfigMaps and disruption budgets, for the hosts and for the ZooKeeper ensemble.
  \<^item> \<open>ChopConfig\<close> (\<open>type_config_chop.go\<close>, \<open>config_manager.go\<close>): the configuration of the operator, where it is found
    and how it is completed, the watched namespaces and the catalog of templates.
  \<^item> \<open>Schemer\<close> (\<open>schemer.go\<close>, \<open>cluster.go\<close>, \<open>clickhouse/cluster.go\<close>): the statements sent to the databases and the
    runs over hosts, with their retries. \<open>Exporter\<close> (\<open>pkg/apis/metrics\<close>): the metrics exporter with its table of
    watched installations and its scrapes; pooled connections.
  \<^item> \<open>Getters\<close> (\<open>getter.go\<close>, \<open>volumes.go\<close> and \<open>labeler.go\<close> of the controller): look-ups by name or labels, own labels.
  \<^item> \<open>Status\<close> (\<open>type_status.go\<close>): the marks of a status and its type invariant.
  \<^item> \<open>Lifecycle\<close> (\<open>worker.go\<close>, \<open>controller.go\<close>, \<open>deleter.go\<close>): finalizers, deletion, the ZooKeeper ensemble, clearing,
    and \<open>updateCHI\<close>. \<open>Steps\<close>: the locales \<open>step_relation\<close>, \<open>deletion_contract\<close> and \<open>step_contract\<close>, under which every
    operation of the worker is gone through once, and the relations of the model that meet them. \<open>Outcome\<close>: what
    one event comes to.

  \<^bold>\<open>Conventions.\<close> A Go struct is a record whose fields carry a short prefix, a pointer is an option, an
  \<open>int32\<close> port a \<open>32 word\<close>; \<open>int\<close> is unbounded, as the counts it holds are lengths of lists in memory. A map is
  an association list with distinct keys; where the order of a Go map would show, it is an argument. A nil
  dereference, an index out of range and a negative \<open>make\<close> are values \<open>Inl\<close> of the type \<open>go\<close>. Methods of
  different types that share a name carry the name of their type in front. Loops over slices are folds and
  structural recursions. The waiting loops are partial functions into \<open>option\<close>, \<open>None\<close> standing for a loop that
  never ends; no fuel is used anywhere.

  \<^bold>\<open>Calls of the cluster.\<close> From \<open>Worker\<close> on a run is a state monad over the worker's state, which holds the
  trace of all calls made so far. The answer to a call is an arbitrary function of the trace (\<open>answers\<close>), so a
  theorem about all answers covers every behaviour of the API server, the servers and the context, the same
  call answered differently each time included. SHA-1, the fingerprint of objects, the structural difference of
  two installations, the merge of \<open>mergo\<close> and the listing of objects are parameters as well. \<open>Schemer\<close> treats the
  databases in the same way: the answer to a call is a function of all calls made so far.

  \<^bold>\<open>What the theorems show.\<close> Normalization: for layouts that fit the normalizer returns, and the installation
  it returns has everything the rest of the operator looks up; the two views of a cluster share their hosts; users
  get the sections, networks and passwords they must have, and it is said when a password stays in plain text.
  Inheritance and merging: for ports, template names, settings, templates and whole layers, which of
  several values wins. Derived data: addresses equal the place in the walk, when names and ports collide, which
  pods an affinity term selects. Manifests: the mounts of a StatefulSet lead to a claim or a volume, when the
  services and the StatefulSet find their pods, that a server has its ports, its probes and its data volume.
  Configuration: the XML text holds exactly the settings, and \<open>remote_servers.xml\<close> lists exactly the included
  hosts; where the configuration of the operator is refused, which namespaces are watched, and that an updated
  template has no effect. Control: what is deleted, that every wait but one ends, that a host leaves the
  cluster before its StatefulSet is touched and comes back only after a success, what becomes of a rollout
  that fails, which claims are deleted, in which order statuses are written, that running is reported only when
  every host answered and is reached when every call succeeds, and when a finalizer is written. Databases: what a
  success says about the statements of a run, which hosts are reached, and what becomes of a failed listing; which
  installations the exporter watches, and what a scrape of a host gives. A
  theorem with a hypothesis is followed by an application to concrete data.

  \<^bold>\<open>Not modelled.\<close> Generated code (deep copies, client sets, listers, informers) and the main programs, which only
  wire the parts together; \<open>src/dev\<close>, experiments that are not part of the operator; the callbacks of the
  informers and the REST calls of \<open>controller.go\<close> beyond enqueueing, as calls they are answered by a parameter; the
  database driver, which lies behind the answers of the servers; logging, events and the actions and
  errors the announcer adds to a status; annotations.
\<close>

end
